(* ===== verification/Prelude.thy ===== *)
theory Prelude
  imports Main "HOL-Library.Word" "HOL-Library.State_Monad" "HOL-Library.Sublist"
    "HOL-Library.Char_ord" "HOL-Library.List_Lexorder"
begin

text \<open>
  Shared vocabulary of the development. Go byte slices and strings are both \<open>string\<close>
  (a list of 8-bit characters); the parts of the Go standard library that the modelled code
  relies on (UTF-8 validation, \<open>strings.TrimSpace\<close>, \<open>strings.Split\<close>, \<open>strconv\<close>,
  \<open>encoding/base64\<close>, 64-bit wrap-around) are written out here as executable functions.
  The second half is the small library for stateful code: weakest preconditions over
  the state monad and a locale of relations that a stateful program respects step by step.
\<close>

type_synonym bytes = string

named_theorems wp_rules \<open>weakest precondition of the primitives of a component\<close>
named_theorems go_simps \<open>unfolding rules for the Go library functions\<close>

section \<open>Integers of the source\<close>

text \<open>\<open>int64\<close> arithmetic: the mathematical result brought back into the two's complement range.\<close>

definition i64 :: "int \<Rightarrow> int" where
  "i64 x = (x + 2 ^ 63) mod 2 ^ 64 - 2 ^ 63"

lemma i64_id: "- (2 ^ 63) \<le> x \<Longrightarrow> x < 2 ^ 63 \<Longrightarrow> i64 x = x"
  by (simp add: i64_def)

lemma i64_range: "- (2 ^ 63) \<le> i64 x \<and> i64 x < 2 ^ 63"
proof -
  have "0 \<le> (x + 2 ^ 63) mod 2 ^ 64 \<and> (x + 2 ^ 63) mod 2 ^ 64 < (2::int) ^ 64"
    by simp
  then show ?thesis unfolding i64_def by auto
qed

section \<open>Strings\<close>

definition hasPrefix :: "string \<Rightarrow> string \<Rightarrow> bool" where
  "hasPrefix s p = (take (length p) s = p)"

definition hasSuffix :: "string \<Rightarrow> string \<Rightarrow> bool" where
  "hasSuffix s p = (length p \<le> length s \<and> drop (length s - length p) s = p)"

definition trimPrefix :: "string \<Rightarrow> string \<Rightarrow> string" where
  "trimPrefix s p = (if hasPrefix s p then drop (length p) s else s)"

definition trimSuffix :: "string \<Rightarrow> string \<Rightarrow> string" where
  "trimSuffix s p = (if hasSuffix s p then take (length s - length p) s else s)"

fun contains :: "string \<Rightarrow> string \<Rightarrow> bool" where
  "contains [] p = (p = [])"
| "contains (c # s) p = (hasPrefix (c # s) p \<or> contains s p)"

lemma hasPrefix_append [simp]: "hasPrefix (p @ s) p"
  by (simp add: hasPrefix_def)

lemma hasPrefix_iff: "hasPrefix s p \<longleftrightarrow> prefix p s"
proof
  assume "hasPrefix s p"
  then have "s = p @ drop (length p) s"
    by (metis append_take_drop_id hasPrefix_def)
  then show "prefix p s" by (metis prefixI)
next
  assume "prefix p s"
  then show "hasPrefix s p" by (auto elim: prefixE)
qed

lemma hasSuffix_append [simp]: "hasSuffix (s @ p) p"
  by (simp add: hasSuffix_def)

lemma trimSuffix_append [simp]: "trimSuffix (s @ p) p = s"
  by (simp add: trimSuffix_def)

lemma trimPrefix_append [simp]: "trimPrefix (p @ s) p = s"
  by (simp add: trimPrefix_def)

lemma hasSuffix_trim: "hasSuffix s p \<Longrightarrow> trimSuffix s p @ p = s"
  by (metis append_take_drop_id hasSuffix_def trimSuffix_def)

lemma contains_iff: "contains s p \<longleftrightarrow> (\<exists>a b. s = a @ p @ b)"
proof (induction s)
  case Nil
  then show ?case by simp
next
  case (Cons c s)
  show ?case
  proof
    assume "contains (c # s) p"
    then consider "hasPrefix (c # s) p" | "contains s p" by auto
    then show "\<exists>a b. c # s = a @ p @ b"
    proof cases
      case 1
      then obtain b where "c # s = [] @ p @ b"
        by (auto simp: hasPrefix_iff prefix_def)
      then show ?thesis by blast
    next
      case 2
      then obtain a b where "s = a @ p @ b" using Cons.IH by blast
      then have "c # s = (c # a) @ p @ b" by simp
      then show ?thesis by blast
    qed
  next
    assume "\<exists>a b. c # s = a @ p @ b"
    then obtain a b where ab: "c # s = a @ p @ b" by blast
    show "contains (c # s) p"
    proof (cases a)
      case Nil
      with ab have "hasPrefix (c # s) p" by simp
      then show ?thesis by simp
    next
      case (Cons x a')
      with ab have "s = a' @ p @ b" by simp
      then show ?thesis using Cons.IH by auto
    qed
  qed
qed

text \<open>\<open>strings.Split(s, sep)\<close> for a one-byte separator: always at least one piece.\<close>

fun splitOn :: "char \<Rightarrow> string \<Rightarrow> string list" where
  "splitOn d [] = [[]]"
| "splitOn d (c # s) =
     (if c = d then [] # splitOn d s
      else (case splitOn d s of [] \<Rightarrow> [[c]] | p # ps \<Rightarrow> (c # p) # ps))"

lemma splitOn_not_Nil [simp]: "splitOn d s \<noteq> []"
  by (cases s) (auto split: list.splits)

fun between :: "char \<Rightarrow> char \<Rightarrow> char \<Rightarrow> bool" where
  "between lo hi c = (of_char lo \<le> (of_char c :: nat) \<and> (of_char c :: nat) \<le> of_char hi)"

declare between.simps [simp del]

definition is_digit :: "char \<Rightarrow> bool" where
  "is_digit c = between CHR ''0'' CHR ''9'' c"

definition is_lower :: "char \<Rightarrow> bool" where
  "is_lower c = between CHR ''a'' CHR ''z'' c"

definition is_upper :: "char \<Rightarrow> bool" where
  "is_upper c = between CHR ''A'' CHR ''Z'' c"

definition is_alnum :: "char \<Rightarrow> bool" where
  "is_alnum c = (is_lower c \<or> is_upper c \<or> is_digit c)"

lemmas char_class_defs = is_digit_def is_lower_def is_upper_def is_alnum_def between.simps

section \<open>Runes\<close>

text \<open>
  \<open>utf8.DecodeRuneInString\<close>: the code point and the number of bytes it takes; an invalid
  encoding is the replacement character with width one, exactly as a \<open>range\<close> loop sees it.
\<close>

abbreviation byte :: "char \<Rightarrow> nat" where
  "byte \<equiv> of_char"

definition cont :: "nat \<Rightarrow> bool" where
  "cont b = (0x80 \<le> b \<and> b \<le> 0xBF)"

definition rune_error :: nat where
  "rune_error = 0xFFFD"

definition second_ok :: "nat \<Rightarrow> nat \<Rightarrow> bool" where
  "second_ok a b =
     (if a = 0xE0 then 0xA0 \<le> b \<and> b \<le> 0xBF
      else if a = 0xED then 0x80 \<le> b \<and> b \<le> 0x9F
      else if a = 0xF0 then 0x90 \<le> b \<and> b \<le> 0xBF
      else if a = 0xF4 then 0x80 \<le> b \<and> b \<le> 0x8F
      else cont b)"

fun decode2 :: "nat \<Rightarrow> nat list \<Rightarrow> nat \<times> nat" where
  "decode2 a (b # _) = (if cont b then ((a - 0xC0) * 64 + (b - 0x80), 2) else (rune_error, 1))"
| "decode2 a _ = (rune_error, 1)"

fun decode3 :: "nat \<Rightarrow> nat list \<Rightarrow> nat \<times> nat" where
  "decode3 a (b # c # _) =
     (if second_ok a b \<and> cont c
      then ((a - 0xE0) * 4096 + (b - 0x80) * 64 + (c - 0x80), 3) else (rune_error, 1))"
| "decode3 a _ = (rune_error, 1)"

fun decode4 :: "nat \<Rightarrow> nat list \<Rightarrow> nat \<times> nat" where
  "decode4 a (b # c # d # _) =
     (if second_ok a b \<and> cont c \<and> cont d
      then ((a - 0xF0) * 262144 + (b - 0x80) * 4096 + (c - 0x80) * 64 + (d - 0x80), 4)
      else (rune_error, 1))"
| "decode4 a _ = (rune_error, 1)"

fun decode_bytes :: "nat list \<Rightarrow> nat \<times> nat" where
  "decode_bytes [] = (rune_error, 0)"
| "decode_bytes (a # r) =
     (if a < 0x80 then (a, 1)
      else if 0xC2 \<le> a \<and> a \<le> 0xDF then decode2 a r
      else if 0xE0 \<le> a \<and> a \<le> 0xEF then decode3 a r
      else if 0xF0 \<le> a \<and> a \<le> 0xF4 then decode4 a r
      else (rune_error, 1))"

definition decode_rune :: "string \<Rightarrow> nat \<times> nat" where
  "decode_rune s = decode_bytes (map byte (take 4 s))"

lemma decode_tail_width:
  "0 < snd (decode2 a r) \<and> snd (decode2 a r) \<le> Suc (length r)"
  "0 < snd (decode3 a r) \<and> snd (decode3 a r) \<le> Suc (length r)"
  "0 < snd (decode4 a r) \<and> snd (decode4 a r) \<le> Suc (length r)"
  subgoal by (cases "(a, r)" rule: decode2.cases) auto
  subgoal by (cases "(a, r)" rule: decode3.cases) auto
  subgoal by (cases "(a, r)" rule: decode4.cases) auto
  done

lemma decode_bytes_width:
  "bs \<noteq> [] \<Longrightarrow> 0 < snd (decode_bytes bs) \<and> snd (decode_bytes bs) \<le> length bs"
  using decode_tail_width by (cases bs) auto

lemma decode_rune_width: "s \<noteq> [] \<Longrightarrow> 0 < snd (decode_rune s) \<and> snd (decode_rune s) \<le> length s"
  using decode_bytes_width [of "map byte (take 4 s)"] by (auto simp: decode_rune_def)

text \<open>The byte segments a \<open>range\<close> loop walks over, with their code points.\<close>

function runes :: "string \<Rightarrow> (nat \<times> string) list" where
  "runes s = (if s = [] then []
     else (let (r, n) = decode_rune s in (r, take n s) # runes (drop n s)))"
  by pat_completeness auto
termination
proof (relation "measure length", goal_cases)
  case 1
  show ?case by simp
next
  case (2 s x r n)
  then have "snd (decode_rune s) = n" by (metis snd_conv)
  with decode_rune_width [OF 2(1)] 2(1) show ?case by auto
qed

declare runes.simps [simp del]

lemma runes_Nil [simp]: "runes [] = []"
  by (simp add: runes.simps)

lemma runes_concat: "concat (map snd (runes s)) = s"
proof (induction s rule: runes.induct)
  case (1 s)
  then show ?case
    by (cases "s = []") (auto simp: runes.simps [of s] split: prod.splits)
qed

text \<open>\<open>utf8.Valid\<close>: no segment is a one-byte replacement.\<close>

definition utf8_valid :: "string \<Rightarrow> bool" where
  "utf8_valid s = list_all (\<lambda>(r, seg). \<not> (r = rune_error \<and> length seg = 1)) (runes s)"

definition ascii :: "string \<Rightarrow> bool" where
  "ascii s = list_all (\<lambda>c. byte c < 0x80) s"

lemma runes_ascii_Cons:
  "byte c < 0x80 \<Longrightarrow> runes (c # s) = (byte c, [c]) # runes s"
  by (simp add: runes.simps [of "c # s"] decode_rune_def)

lemma utf8_valid_ascii: "ascii s \<Longrightarrow> utf8_valid s"
proof (induction s)
  case Nil
  then show ?case by (simp add: utf8_valid_def)
next
  case (Cons c s)
  then show ?case
    by (auto simp: utf8_valid_def ascii_def runes_ascii_Cons rune_error_def)
qed

definition rune_space :: "nat \<Rightarrow> bool" where
  "rune_space r = (r \<in> {9, 10, 11, 12, 13, 32, 0x85, 0xA0, 0x1680, 0x2028, 0x2029, 0x202F, 0x205F, 0x3000}
     \<or> (0x2000 \<le> r \<and> r \<le> 0x200A))"

definition trimSpace :: "string \<Rightarrow> string" where
  "trimSpace s =
     concat (map snd (rev (dropWhile (rune_space \<circ> fst) (rev (dropWhile (rune_space \<circ> fst) (runes s))))))"

lemma trimSpace_Nil [simp]: "trimSpace [] = []"
  by (simp add: trimSpace_def)

text \<open>On ASCII text the trimming works byte by byte.\<close>

lemma runes_ascii: "ascii s \<Longrightarrow> runes s = map (\<lambda>c. (byte c, [c])) s"
  by (induction s) (simp_all add: ascii_def runes_ascii_Cons)

lemma trimSpace_ascii:
  "ascii s \<Longrightarrow>
   trimSpace s = rev (dropWhile (\<lambda>c. rune_space (byte c)) (rev (dropWhile (\<lambda>c. rune_space (byte c)) s)))"
proof -
  assume "ascii s"
  then show ?thesis
    by (simp add: trimSpace_def runes_ascii rev_map dropWhile_map o_def)
qed

text \<open>\<open>strings.Fields\<close>: maximal runs of non-space runes.\<close>

fun fields_runes :: "string \<Rightarrow> (nat \<times> string) list \<Rightarrow> string list" where
  "fields_runes acc [] = (if acc = [] then [] else [acc])"
| "fields_runes acc ((r, seg) # rs) =
     (if rune_space r then (if acc = [] then fields_runes [] rs else acc # fields_runes [] rs)
      else fields_runes (acc @ seg) rs)"

definition fields :: "string \<Rightarrow> string list" where
  "fields s = fields_runes [] (runes s)"

section \<open>Decimal numbers (strconv)\<close>

definition digit_char :: "nat \<Rightarrow> char" where
  "digit_char d = char_of (48 + d)"

fun itoa_nat :: "nat \<Rightarrow> string" where
  "itoa_nat n = (if n < 10 then [digit_char n] else itoa_nat (n div 10) @ [digit_char (n mod 10)])"

declare itoa_nat.simps [simp del]

definition itoa :: "int \<Rightarrow> string" where
  "itoa n = (if n < 0 then CHR ''-'' # itoa_nat (nat (- n)) else itoa_nat (nat n))"

fun parse_nat :: "nat \<Rightarrow> string \<Rightarrow> nat option" where
  "parse_nat acc [] = Some acc"
| "parse_nat acc (c # s) = (if is_digit c then parse_nat (acc * 10 + (byte c - 48)) s else None)"

text \<open>\<open>strconv.Atoi\<close> on a 64-bit platform; None is the returned error.\<close>

definition atoi :: "string \<Rightarrow> int option" where
  "atoi s =
     (let neg = (case s of c # _ \<Rightarrow> c = CHR ''-'' | [] \<Rightarrow> False);
          body = (case s of c # t \<Rightarrow> if c = CHR ''-'' \<or> c = CHR ''+'' then t else s | [] \<Rightarrow> [])
      in if body = [] then None
         else (case parse_nat 0 body of
                 None \<Rightarrow> None
               | Some n \<Rightarrow> (let v = (if neg then - int n else int n)
                           in if - (2 ^ 63) \<le> v \<and> v < 2 ^ 63 then Some v else None)))"

lemma byte_digit_char: "d < 10 \<Longrightarrow> byte (digit_char d) = 48 + d"
  by (simp add: digit_char_def)

lemma is_digit_digit_char [simp]: "d < 10 \<Longrightarrow> is_digit (digit_char d)"
  by (simp add: char_class_defs byte_digit_char)

lemma parse_nat_append:
  "parse_nat a (s @ t) = (case parse_nat a s of None \<Rightarrow> None | Some b \<Rightarrow> parse_nat b t)"
  by (induction a s rule: parse_nat.induct) auto

lemma itoa_nat_not_Nil [simp]: "itoa_nat n \<noteq> []"
  by (subst itoa_nat.simps) simp

lemma itoa_nat_digits: "c \<in> set (itoa_nat n) \<Longrightarrow> is_digit c"
proof (induction n rule: itoa_nat.induct)
  case (1 n)
  then show ?case by (subst (asm) (2) itoa_nat.simps) (auto split: if_splits)
qed

lemma parse_nat_itoa: "parse_nat 0 (itoa_nat n) = Some n"
proof (induction n rule: itoa_nat.induct)
  case (1 n)
  show ?case
  proof (cases "n < 10")
    case True
    then show ?thesis by (simp add: itoa_nat.simps [of n] byte_digit_char)
  next
    case False
    then have "parse_nat 0 (itoa_nat (n div 10)) = Some (n div 10)" by (rule 1)
    with False show ?thesis
      by (simp add: itoa_nat.simps [of n] parse_nat_append byte_digit_char)
  qed
qed

lemma itoa_nat_hd: "itoa_nat n = c # t \<Longrightarrow> c \<noteq> CHR ''-'' \<and> c \<noteq> CHR ''+''"
  using itoa_nat_digits [of c n] by (auto simp: char_class_defs)

lemma atoi_itoa: "- (2 ^ 63) \<le> n \<Longrightarrow> n < 2 ^ 63 \<Longrightarrow> atoi (itoa n) = Some n"
proof (cases "n < 0")
  case True
  assume "- (2 ^ 63) \<le> n" "n < 2 ^ 63"
  with True show ?thesis by (simp add: atoi_def itoa_def parse_nat_itoa)
next
  case False
  assume r: "- (2 ^ 63) \<le> n" "n < 2 ^ 63"
  obtain c t where ct: "itoa_nat (nat n) = c # t" by (cases "itoa_nat (nat n)") auto
  have "parse_nat 0 (c # t) = Some (nat n)" using parse_nat_itoa [of "nat n"] ct by simp
  then show ?thesis
    using False r itoa_nat_hd [OF ct] ct by (simp add: atoi_def itoa_def)
qed

lemma itoa_nat_inject: "itoa_nat m = itoa_nat n \<longleftrightarrow> m = n"
  by (metis option.inject parse_nat_itoa)

lemma itoa_inject: "itoa m = itoa n \<longleftrightarrow> m = n"
proof
  assume eq: "itoa m = itoa n"
  have neg: "k < 0 \<Longrightarrow> \<not> l < 0 \<Longrightarrow> itoa k \<noteq> itoa l" for k l
    using itoa_nat_hd [of "nat l" "CHR ''-''" "itoa_nat (nat (- k))"] by (auto simp: itoa_def)
  have sgn: "m < 0 \<longleftrightarrow> n < 0"
    using eq neg by metis
  then show "m = n"
    using eq by (cases "n < 0") (auto simp: itoa_def itoa_nat_inject eq_nat_nat_iff)
qed simp

end
