(* ===== verification/Output.thy ===== *)
theory Output
  imports Prelude
begin

text \<open>
  The bounded output collector shared by synchronous commands and every systemd call
  (\<open>internal/executor/output.go\<close>): a head buffer that fills first, a tail buffer that keeps
  the most recent bytes, and the encoding of what is returned.
\<close>

section \<open>base64.StdEncoding\<close>

definition b64_alphabet :: string where
  "b64_alphabet = ''ABCDEFGHIJKLMNOPQRSTUVWXYZabcdefghijklmnopqrstuvwxyz0123456789+/''"

definition b64_char :: "nat \<Rightarrow> char" where
  "b64_char n = b64_alphabet ! n"

fun b64_encode :: "bytes \<Rightarrow> string" where
  "b64_encode [] = []"
| "b64_encode [a] =
     (let n = byte a * 65536 in
      [b64_char (n div 262144), b64_char (n div 4096 mod 64), CHR ''='', CHR ''=''])"
| "b64_encode [a, b] =
     (let n = byte a * 65536 + byte b * 256 in
      [b64_char (n div 262144), b64_char (n div 4096 mod 64), b64_char (n div 64 mod 64), CHR ''=''])"
| "b64_encode (a # b # c # r) =
     (let n = byte a * 65536 + byte b * 256 + byte c in
      [b64_char (n div 262144), b64_char (n div 4096 mod 64), b64_char (n div 64 mod 64),
       b64_char (n mod 64)] @ b64_encode r)"

section \<open>The collector\<close>

definition maxCommandBytes :: nat where "maxCommandBytes = 256 * 1024"
definition maxSyncOutputBytes :: nat where "maxSyncOutputBytes = 1024 * 1024"
definition maxJobOutputReadBytes :: nat where "maxJobOutputReadBytes = 1024 * 1024"

text \<open>\<open>boundedOutputCollector\<close> without its mutex: every method runs under it.\<close>

record collector =
  c_limit :: nat
  headCap :: nat
  tailCap :: nat
  c_head :: bytes
  c_tail :: bytes
  seen :: nat

record boundedOutputResult =
  o_output :: string
  o_encoding :: string
  o_bytesSeen :: int
  o_bytesReturned :: int
  o_truncated :: bool
  o_omittedBytes :: int
  o_headBytes :: int
  o_tailBytes :: int

definition newBoundedOutputCollector :: "int \<Rightarrow> collector" where
  "newBoundedOutputCollector lim =
     (let l = nat (if lim < 2 then 2 else lim); h = l div 2
      in \<lparr>c_limit = l, headCap = h, tailCap = l - h, c_head = [], c_tail = [], seen = 0\<rparr>)"

definition writeCollector :: "collector \<Rightarrow> bytes \<Rightarrow> collector" where
  "writeCollector w p0 =
     (let w = w\<lparr>seen := seen w + length p0\<rparr>;
          take_n = (if length (c_head w) < headCap w
                    then min (headCap w - length (c_head w)) (length p0) else 0);
          w = w\<lparr>c_head := c_head w @ take take_n p0\<rparr>;
          p = drop take_n p0
      in if p = [] then w
         else if length p \<ge> tailCap w then w\<lparr>c_tail := drop (length p - tailCap w) p\<rparr>
         else if length (c_tail w) + length p \<le> tailCap w then w\<lparr>c_tail := c_tail w @ p\<rparr>
         else w\<lparr>c_tail := drop (length (c_tail w) + length p - tailCap w) (c_tail w) @ p\<rparr>)"

definition encodeOutputBytes :: "bytes \<Rightarrow> string \<times> string" where
  "encodeOutputBytes raw =
     (if utf8_valid raw then (raw, ''utf-8'') else (b64_encode raw, ''base64''))"

text \<open>
  The 64-bit counters are mathematical integers here: a stream of $2^{63}$ bytes is out of
  reach of one process, and the bound is stated where a counter is compared.
\<close>

definition encodeBoundedOutput :: "bytes \<Rightarrow> bytes \<Rightarrow> int \<Rightarrow> int \<Rightarrow> boundedOutputResult" where
  "encodeBoundedOutput hb tb sn lim =
     (let returned = int (length hb + length tb); truncated = sn > lim; raw = hb @ tb in
      if \<not> truncated then
        (case encodeOutputBytes raw of (output, encoding) \<Rightarrow>
           \<lparr>o_output = output, o_encoding = encoding, o_bytesSeen = sn,
            o_bytesReturned = int (length raw), o_truncated = False, o_omittedBytes = 0,
            o_headBytes = int (length raw), o_tailBytes = 0\<rparr>)
      else
        (let omitted = sn - returned in
         if utf8_valid hb \<and> utf8_valid tb then
           \<lparr>o_output = hb @ [CHR 0x0A] @ ''[... '' @ itoa omitted @ '' bytes omitted ...]'' @ [CHR 0x0A] @ tb,
            o_encoding = ''utf-8'', o_bytesSeen = sn, o_bytesReturned = returned,
            o_truncated = True, o_omittedBytes = omitted,
            o_headBytes = int (length hb), o_tailBytes = int (length tb)\<rparr>
         else
           \<lparr>o_output = b64_encode raw, o_encoding = ''base64'', o_bytesSeen = sn,
            o_bytesReturned = returned, o_truncated = True, o_omittedBytes = omitted,
            o_headBytes = int (length hb), o_tailBytes = int (length tb)\<rparr>))"

definition resultCollector :: "collector \<Rightarrow> boundedOutputResult" where
  "resultCollector w = encodeBoundedOutput (c_head w) (c_tail w) (int (seen w)) (int (c_limit w))"

section \<open>What the collector keeps\<close>

text \<open>
  The specification: after any sequence of writes that carried the stream \<open>s\<close>, the head is
  the first \<open>headCap\<close> bytes of \<open>s\<close> and the tail is the last \<open>tailCap\<close> bytes of
  what came after the head.
\<close>

definition suffix_of :: "nat \<Rightarrow> bytes \<Rightarrow> bytes" where
  "suffix_of n s = drop (length s - n) s"

definition collects :: "collector \<Rightarrow> bytes \<Rightarrow> bool" where
  "collects w s \<longleftrightarrow>
     seen w = length s \<and> c_head w = take (headCap w) s \<and>
     c_tail w = suffix_of (tailCap w) (drop (headCap w) s) \<and>
     headCap w + tailCap w = c_limit w \<and> 0 < tailCap w"

lemma suffix_of_append_ge: "n \<le> length p \<Longrightarrow> suffix_of n (s @ p) = suffix_of n p"
  by (simp add: suffix_of_def)

lemma suffix_of_append_le:
  "length p \<le> n \<Longrightarrow> suffix_of n (s @ p) = suffix_of (n - length p) s @ p"
  by (simp add: suffix_of_def)

lemma suffix_of_all: "length s \<le> n \<Longrightarrow> suffix_of n s = s"
  by (simp add: suffix_of_def)

lemma length_suffix_of [simp]: "length (suffix_of n s) = min n (length s)"
  by (simp add: suffix_of_def)

lemma suffix_of_suffix: "m \<le> n \<Longrightarrow> suffix_of m (suffix_of n s) = suffix_of m s"
  by (cases "length s \<le> n") (auto simp: suffix_of_def)

lemma collects_new: "collects (newBoundedOutputCollector lim) []"
  by (auto simp: collects_def newBoundedOutputCollector_def suffix_of_def Let_def)

lemma write_caps [simp]:
  "headCap (writeCollector w p) = headCap w"
  "tailCap (writeCollector w p) = tailCap w"
  "c_limit (writeCollector w p) = c_limit w"
  "seen (writeCollector w p) = seen w + length p"
  by (simp_all add: writeCollector_def Let_def)

lemma write_tail:
  assumes "c_tail w = suffix_of (tailCap w) r" and "length (c_head w) = headCap w" and "0 < tailCap w"
  shows "c_tail (writeCollector w p) = suffix_of (tailCap w) (r @ p)"
proof (cases "length r \<le> tailCap w")
  case True
  with assms show ?thesis
    by (auto simp: writeCollector_def Let_def suffix_of_def)
next
  case False
  with assms show ?thesis
    by (auto simp: writeCollector_def Let_def suffix_of_def add.commute)
qed

lemma collects_write:
  assumes "collects w s"
  shows "collects (writeCollector w p) (s @ p)"
proof (cases "headCap w \<le> length s")
  case True
  with assms have full: "length (c_head w) = headCap w" by (simp add: collects_def min_def)
  then have "c_head (writeCollector w p) = c_head w"
    by (simp add: writeCollector_def Let_def)
  with assms full True write_tail [OF _ full, of "drop (headCap w) s" p] show ?thesis
    by (simp add: collects_def)
next
  case False
  with assms have hd: "c_head w = s" and tl: "c_tail w = []"
    by (simp_all add: collects_def suffix_of_def)
  show ?thesis
  proof (cases "length s + length p \<le> headCap w")
    case True
    with False hd tl assms show ?thesis
      by (auto simp: collects_def writeCollector_def Let_def suffix_of_def min_def)
  next
    case longer: False
    have "c_head (writeCollector w p) = take (headCap w) (s @ p)"
      using False longer hd by (simp add: writeCollector_def Let_def min_def)
    moreover have "c_tail (writeCollector w p) = suffix_of (tailCap w) (drop (headCap w - length s) p)"
      using False longer hd tl assms
      by (auto simp: collects_def writeCollector_def Let_def suffix_of_def min_def)
    ultimately show ?thesis
      using assms False longer by (simp add: collects_def)
  qed
qed


definition writeAll :: "collector \<Rightarrow> bytes list \<Rightarrow> collector" where
  "writeAll w ps = fold (\<lambda>p w. writeCollector w p) ps w"

lemma collects_writeAll: "collects w s \<Longrightarrow> collects (writeAll w ps) (s @ concat ps)"
proof (induction ps arbitrary: w s)
  case Nil
  then show ?case by (simp add: writeAll_def)
next
  case (Cons p ps)
  from Cons.IH [OF collects_write [OF Cons.prems]] show ?case
    by (simp add: writeAll_def)
qed

lemma writeAll_caps [simp]:
  "headCap (writeAll w ps) = headCap w" "tailCap (writeAll w ps) = tailCap w"
  "c_limit (writeAll w ps) = c_limit w"
  by (induction ps arbitrary: w) (simp_all add: writeAll_def)

lemma collects_new_writes:
  "collects (writeAll (newBoundedOutputCollector lim) ps) (concat ps)"
  using collects_writeAll [OF collects_new] by simp

lemma new_caps:
  "c_limit (newBoundedOutputCollector lim) = nat (max 2 lim)"
  "headCap (newBoundedOutputCollector lim) = nat (max 2 lim) div 2"
  "tailCap (newBoundedOutputCollector lim) = nat (max 2 lim) - nat (max 2 lim) div 2"
  by (auto simp: newBoundedOutputCollector_def Let_def max_def)

lemma new_writes_state:
  assumes "c_limit w = L" and "collects w s"
  shows "c_head w = take (headCap w) s" and "c_tail w = suffix_of (tailCap w) (drop (headCap w) s)"
    and "length s \<le> L \<Longrightarrow> c_head w @ c_tail w = s"
    and "L < length s \<Longrightarrow> length (c_head w) + length (c_tail w) = L"
    and "length (c_head w) + length (c_tail w) \<le> L"
  using assms by (auto simp: collects_def suffix_of_all min_def)

section \<open>Recovering the bytes\<close>

text \<open>The decoder a client applies, used to state that nothing is lost in the encoding.\<close>

definition b64_val :: "char \<Rightarrow> nat" where
  "b64_val c = length (takeWhile (\<lambda>d. d \<noteq> c) b64_alphabet)"

fun b64_decode :: "string \<Rightarrow> bytes" where
  "b64_decode (a # b # c # d # r) =
     (let n = b64_val a * 262144 + b64_val b * 4096 in
      if c = CHR ''='' then [char_of (n div 65536)]
      else (let n = n + b64_val c * 64 in
            if d = CHR ''='' then [char_of (n div 65536), char_of (n div 256 mod 256)]
            else (let n = n + b64_val d in
                  [char_of (n div 65536), char_of (n div 256 mod 256), char_of (n mod 256)]
                  @ b64_decode r)))"
| "b64_decode _ = []"

lemma b64_table: "\<forall>n\<in>set [0..<64]. b64_val (b64_char n) = n \<and> b64_char n \<noteq> CHR ''=''"
  by code_simp

lemma b64_val_char [simp]: "n < 64 \<Longrightarrow> b64_val (b64_char n) = n"
  using b64_table by auto

lemma b64_char_pad [simp]: "n < 64 \<Longrightarrow> b64_char n \<noteq> CHR ''=''"
  using b64_table by auto

lemma byte_less: "byte c < 256"
  by simp

lemma char_of_byte: "x mod 256 = byte c \<Longrightarrow> char_of x = c"
  by (metis char_of_char char_of_mod_256)

lemma b64_pack:
  fixes n :: nat
  assumes "n < 16777216"
  shows "n div 262144 < 64"
    and "n div 262144 * 262144 + n div 4096 mod 64 * 4096 + n div 64 mod 64 * 64 + n mod 64 = n"
proof -
  show "n div 262144 < 64" using assms by (simp add: less_mult_imp_div_less)
  have e: "n div 4096 = n div 64 div 64" "n div 262144 = n div 64 div 64 div 64"
    by (simp_all add: div_mult2_eq [symmetric])
  show "n div 262144 * 262144 + n div 4096 mod 64 * 4096 + n div 64 mod 64 * 64 + n mod 64 = n"
    unfolding e using div_mult_mod_eq [of n 64] div_mult_mod_eq [of "n div 64" 64]
      div_mult_mod_eq [of "n div 64 div 64" 64] by linarith
qed

lemma b64_bytes:
  fixes b c :: nat
  assumes "n = byte a * 65536 + b * 256 + c" and "b < 256" and "c < 256"
  shows "n < 16777216" and "char_of (n div 65536) = a"
    and "n div 256 mod 256 = b" and "n mod 256 = c"
proof -
  have n: "n = 256 * (256 * byte a + b) + c" using assms(1) by simp
  show "n < 16777216" using assms byte_less [of a] by linarith
  have d: "n div 256 = 256 * byte a + b" unfolding n using assms(3) by simp
  have "n div 65536 = n div 256 div 256" by (simp add: div_mult2_eq [symmetric])
  then have "n div 65536 = byte a" unfolding d using assms(2) by simp
  then show "char_of (n div 65536) = a" by simp
  show "n div 256 mod 256 = b" unfolding d using assms by simp
  have "n mod 256 = c mod 256" unfolding n by (rule mod_mult_self4)
  then show "n mod 256 = c" using assms(3) by simp
qed

lemma b64_round1: "b64_decode (b64_encode [a]) = [a]"
proof -
  define n where "n = byte a * 65536"
  have k: "n < 16777216" "char_of (n div 65536) = a"
    using b64_bytes [of n a 0 0] by (simp_all add: n_def)
  have "64 dvd n" "4096 dvd n" unfolding n_def by (intro dvd_mult; simp)+
  then have z: "n div 64 mod 64 = 0" "n mod 64 = 0"
    by (auto elim!: dvdE)
  have "n div 262144 * 262144 + n div 4096 mod 64 * 4096 = n"
    using b64_pack(2) [OF k(1)] z by linarith
  then show ?thesis
    using b64_pack(1) [OF k(1)] k(2) by (simp add: n_def [symmetric] Let_def)
qed

lemma b64_round2: "b64_decode (b64_encode [a, b]) = [a, b]"
proof -
  define n where "n = byte a * 65536 + byte b * 256"
  have k: "n < 16777216" "char_of (n div 65536) = a" "n div 256 mod 256 = byte b"
    using b64_bytes [of n a "byte b" 0] by (simp_all add: n_def)
  have "64 dvd n" unfolding n_def by (intro dvd_add dvd_mult) simp_all
  then have z: "n mod 64 = 0" by simp
  have "n div 262144 * 262144 + n div 4096 mod 64 * 4096 + n div 64 mod 64 * 64 = n"
    using b64_pack(2) [OF k(1)] z by linarith
  then show ?thesis
    using b64_pack(1) [OF k(1)] k(2) char_of_byte [OF k(3)]
    by (simp add: n_def [symmetric] Let_def)
qed

lemma b64_round3:
  "b64_decode (b64_encode (a # b # c # r)) = a # b # c # b64_decode (b64_encode r)"
proof -
  define n where "n = byte a * 65536 + byte b * 256 + byte c"
  note k = b64_bytes [OF n_def byte_less byte_less]
  show ?thesis
    using b64_pack [OF k(1)] k(2) char_of_byte [OF k(3)] char_of_byte [OF k(4)]
    by (simp add: n_def [symmetric] Let_def)
qed

lemma b64_roundtrip: "b64_decode (b64_encode s) = s"
proof (induction s rule: b64_encode.induct)
  case 1
  show ?case by simp
next
  case (2 a)
  show ?case by (rule b64_round1)
next
  case (3 a b)
  show ?case by (rule b64_round2)
next
  case (4 a b c r)
  then show ?case by (simp only: b64_round3)
qed

definition decodeOutput :: "string \<Rightarrow> string \<Rightarrow> bytes" where
  "decodeOutput output encoding = (if encoding = ''base64'' then b64_decode output else output)"

lemma decode_encodeOutputBytes:
  "encodeOutputBytes raw = (output, encoding) \<Longrightarrow> decodeOutput output encoding = raw"
  by (auto simp: encodeOutputBytes_def decodeOutput_def b64_roundtrip split: if_splits)


section \<open>Properties\<close>

definition omittedMarker :: "int \<Rightarrow> string" where
  "omittedMarker n = [CHR 0x0A] @ ''[... '' @ itoa n @ '' bytes omitted ...]'' @ [CHR 0x0A]"

lemma result_of_stream:
  fixes lim :: int
  assumes "collects w s" and "c_limit w = nat (max 2 lim)" and "headCap w = nat (max 2 lim) div 2"
    and "tailCap w = nat (max 2 lim) - nat (max 2 lim) div 2"
  defines "L \<equiv> nat (max 2 lim)" and "r \<equiv> resultCollector w"
  defines "h \<equiv> take (L div 2) s" and "t \<equiv> suffix_of (L - L div 2) (drop (L div 2) s)"
  shows "length s \<le> L \<Longrightarrow> \<not> o_truncated r \<and> decodeOutput (o_output r) (o_encoding r) = s
      \<and> o_bytesReturned r = int (length s)"
    and "L < length s \<Longrightarrow> o_truncated r \<and> o_omittedBytes r = int (length s - L)
      \<and> o_bytesReturned r = int L \<and> length h + length t = L
      \<and> (if utf8_valid h \<and> utf8_valid t
         then o_encoding r = ''utf-8'' \<and> o_output r = h @ omittedMarker (o_omittedBytes r) @ t
         else o_encoding r = ''base64'' \<and> b64_decode (o_output r) = h @ t)"
proof -
  have c: "c_head w = take (headCap w) s" "c_tail w = suffix_of (tailCap w) (drop (headCap w) s)"
    "seen w = length s"
    using assms(1) by (simp_all add: collects_def)
  have st: "c_head w = h" "c_tail w = t" "seen w = length s" "c_limit w = L"
    unfolding h_def t_def L_def using c assms(2-4) by (simp_all only:)
  {
    assume le: "length s \<le> L"
    then have "h @ t = s"
      by (auto simp: h_def t_def suffix_of_all)
    then show "\<not> o_truncated r \<and> decodeOutput (o_output r) (o_encoding r) = s
        \<and> o_bytesReturned r = int (length s)"
      using le decode_encodeOutputBytes [of s]
      by (cases "encodeOutputBytes s")
        (simp add: r_def resultCollector_def st encodeBoundedOutput_def Let_def)
  next
    assume gt: "L < length s"
    then have len: "length h + length t = L" by (auto simp: h_def t_def)
    moreover have "int (length s) - int (length h + length t) = int (length s - L)"
      using gt len by simp
    ultimately show "o_truncated r \<and> o_omittedBytes r = int (length s - L)
      \<and> o_bytesReturned r = int L \<and> length h + length t = L
      \<and> (if utf8_valid h \<and> utf8_valid t
         then o_encoding r = ''utf-8'' \<and> o_output r = h @ omittedMarker (o_omittedBytes r) @ t
         else o_encoding r = ''base64'' \<and> b64_decode (o_output r) = h @ t)"
      using gt
      by (simp add: r_def resultCollector_def st encodeBoundedOutput_def Let_def omittedMarker_def
          b64_roundtrip)
  }
qed

text \<open>C11. The bounded collector is exact. Whatever pieces a command writes, output within the limit
  comes back whole and undamaged; beyond the limit the result is marked truncated, counts the omitted
  bytes, returns exactly \<open>limit\<close> bytes, and these are the first half-limit bytes and the last
  remaining ones of the stream, as text around the omission marker when both halves are valid UTF-8
  and as base64 of the two halves otherwise.\<close>

theorem collector_exact:
  fixes lim :: int and ps :: "bytes list"
  defines "L \<equiv> nat (max 2 lim)" and "s \<equiv> concat ps"
  defines "r \<equiv> resultCollector (writeAll (newBoundedOutputCollector lim) ps)"
  defines "h \<equiv> take (L div 2) s" and "t \<equiv> suffix_of (L - L div 2) (drop (L div 2) s)"
  shows "if length s \<le> L
    then \<not> o_truncated r \<and> decodeOutput (o_output r) (o_encoding r) = s \<and> o_bytesReturned r = int (length s)
    else o_truncated r \<and> o_omittedBytes r = int (length s - L) \<and> o_bytesReturned r = int L
      \<and> length h + length t = L
      \<and> (if utf8_valid h \<and> utf8_valid t
         then o_encoding r = ''utf-8'' \<and> o_output r = h @ omittedMarker (o_omittedBytes r) @ t
         else o_encoding r = ''base64'' \<and> b64_decode (o_output r) = h @ t)"
proof -
  let ?w = "writeAll (newBoundedOutputCollector lim) ps"
  have caps: "c_limit ?w = nat (max 2 lim)" "headCap ?w = nat (max 2 lim) div 2"
    "tailCap ?w = nat (max 2 lim) - nat (max 2 lim) div 2"
    by (simp_all only: writeAll_caps new_caps)
  note res = result_of_stream [OF collects_new_writes caps, folded L_def s_def r_def, folded h_def t_def]
  show ?thesis
  proof (cases "length s \<le> L")
    case True
    from res(1) [OF this] True show ?thesis by (auto simp only: if_True)
  next
    case False
    then have "L < length s" by simp
    from res(2) [OF this] False show ?thesis by (auto simp only: if_False)
  qed
qed

end
