(* ===== verification/Regex.thy ===== *)
theory Regex
  imports Prelude
begin

text \<open>
  Go's \<open>regexp\<close> package, for the constructs the policy patterns use: an executable matcher
  over runes and its declarative reading, proved equivalent.
\<close>

section \<open>Regular expressions over runes\<close>

datatype re =
    Eps
  | Lit nat
  | AnyNotNL
  | NotIn "nat list"
  | Space
  | WB
  | EndText
  | Seq re re
  | Alt re re
  | Star re

text \<open>A position: the rune just consumed (none at the start of the text) and the runes left.\<close>

type_synonym pos = "nat option \<times> nat list"

definition word_rune :: "nat \<Rightarrow> bool" where
  "word_rune r = ((48 \<le> r \<and> r \<le> 57) \<or> (65 \<le> r \<and> r \<le> 90) \<or> (97 \<le> r \<and> r \<le> 122) \<or> r = 95)"

definition at_boundary :: "pos \<Rightarrow> bool" where
  "at_boundary p =
     ((case fst p of None \<Rightarrow> False | Some r \<Rightarrow> word_rune r)
      \<noteq> (case snd p of [] \<Rightarrow> False | r # _ \<Rightarrow> word_rune r))"

text \<open>
  Case folding under \<open>(?i)\<close>: simple folding of ASCII letters, with the two non-ASCII runes in
  their orbits, U+017F (long s) and U+212A (Kelvin sign).
\<close>

definition fold_eq :: "nat \<Rightarrow> nat \<Rightarrow> bool" where
  "fold_eq a r =
     (let low = (\<lambda>x. if 65 \<le> x \<and> x \<le> 90 then x + 32 else if x = 0x17F then 115
                     else if x = 0x212A then 107 else x)
      in low a = low r)"

definition consume :: "(nat \<Rightarrow> bool) \<Rightarrow> pos \<Rightarrow> pos list" where
  "consume f p = (case snd p of [] \<Rightarrow> [] | r # rs \<Rightarrow> if f r then [(Some r, rs)] else [])"

text \<open>
  All positions a match may end at. A star takes at most as many rounds as runes are left,
  each of which must consume something; \<open>rx_star_iff\<close> shows this loses no match.
\<close>

fun iterate :: "nat \<Rightarrow> (pos \<Rightarrow> pos list) \<Rightarrow> pos \<Rightarrow> pos list" where
  "iterate 0 f p = [p]"
| "iterate (Suc n) f p =
     p # concat (map (iterate n f) (filter (\<lambda>q. length (snd q) < length (snd p)) (f p)))"

fun rx :: "re \<Rightarrow> pos \<Rightarrow> pos list" where
  "rx Eps p = [p]"
| "rx (Lit a) p = consume (fold_eq a) p"
| "rx AnyNotNL p = consume (\<lambda>r. r \<noteq> 10) p"
| "rx (NotIn cs) p = consume (\<lambda>r. r \<notin> set cs) p"
| "rx Space p = consume (\<lambda>r. r \<in> {9, 10, 12, 13, 32}) p"
| "rx WB p = (if at_boundary p then [p] else [])"
| "rx EndText p = (if snd p = [] then [p] else [])"
| "rx (Seq a b) p = concat (map (rx b) (rx a p))"
| "rx (Alt a b) p = rx a p @ rx b p"
| "rx (Star a) p = iterate (length (snd p)) (rx a) p"

fun search :: "re \<Rightarrow> nat option \<Rightarrow> nat list \<Rightarrow> bool" where
  "search e prev [] = (rx e (prev, []) \<noteq> [])"
| "search e prev (r # rs) = (rx e (prev, r # rs) \<noteq> [] \<or> search e (Some r) rs)"

definition matchString :: "re \<Rightarrow> string \<Rightarrow> bool" where
  "matchString e s = search e None (map fst (runes s))"

text \<open>The declarative reading of a pattern, against which the matcher is proved.\<close>

inductive rx_match :: "re \<Rightarrow> pos \<Rightarrow> pos \<Rightarrow> bool" where
  eps: "rx_match Eps p p"
| lit: "fold_eq a r \<Longrightarrow> rx_match (Lit a) (x, r # rs) (Some r, rs)"
| any: "r \<noteq> 10 \<Longrightarrow> rx_match AnyNotNL (x, r # rs) (Some r, rs)"
| notin: "r \<notin> set cs \<Longrightarrow> rx_match (NotIn cs) (x, r # rs) (Some r, rs)"
| space: "r \<in> {9, 10, 12, 13, 32} \<Longrightarrow> rx_match Space (x, r # rs) (Some r, rs)"
| wb: "at_boundary p \<Longrightarrow> rx_match WB p p"
| end_text: "snd p = [] \<Longrightarrow> rx_match EndText p p"
| seq: "rx_match a p q \<Longrightarrow> rx_match b q t \<Longrightarrow> rx_match (Seq a b) p t"
| alt1: "rx_match a p q \<Longrightarrow> rx_match (Alt a b) p q"
| alt2: "rx_match b p q \<Longrightarrow> rx_match (Alt a b) p q"
| star0: "rx_match (Star a) p p"
| star1: "rx_match a p q \<Longrightarrow> rx_match (Star a) q t \<Longrightarrow> rx_match (Star a) p t"

lemma consume_iff:
  "q \<in> set (consume f p) \<longleftrightarrow> (\<exists>r rs. snd p = r # rs \<and> f r \<and> q = (Some r, rs))"
  by (auto simp: consume_def split: list.splits)

lemma iterate_Suc_iff:
  "t \<in> set (iterate (Suc n) f p) \<longleftrightarrow>
   t = p \<or> (\<exists>q. q \<in> set (f p) \<and> length (snd q) < length (snd p) \<and> t \<in> set (iterate n f q))"
  by (auto simp del: split_paired_Ex)

declare iterate.simps(2) [simp del]

lemma iterate_length:
  "q \<in> set (iterate n f p) \<Longrightarrow> q = p \<or> length (snd q) < length (snd p)"
proof (induction n arbitrary: p)
  case 0
  then show ?case by simp
next
  case (Suc n)
  from Suc.prems [unfolded iterate_Suc_iff] consider "q = p"
    | m where "length (snd m) < length (snd p)" "q \<in> set (iterate n f m)" by blast
  then show ?case
  proof cases
    case 2
    with Suc.IH [OF 2(2)] show ?thesis by auto
  qed simp
qed

lemma rx_length: "q \<in> set (rx e p) \<Longrightarrow> length (snd q) \<le> length (snd p)"
proof (induction e arbitrary: p q)
  case (Seq a b)
  then obtain m where "m \<in> set (rx a p)" "q \<in> set (rx b m)" by auto
  with Seq.IH show ?case by (meson le_trans)
next
  case (Star a)
  then show ?case using iterate_length by fastforce
qed (auto simp: consume_iff split: if_splits)

lemma rx_same: "q \<in> set (rx e p) \<Longrightarrow> length (snd q) = length (snd p) \<Longrightarrow> q = p"
proof (induction e arbitrary: p q)
  case (Seq a b)
  then obtain m where m: "m \<in> set (rx a p)" "q \<in> set (rx b m)" by auto
  then have "length (snd m) = length (snd p)" "length (snd q) = length (snd m)"
    using rx_length Seq.prems(2) by (metis le_antisym)+
  with Seq.IH m show ?case by metis
next
  case (Alt a b)
  from Alt.prems(1) have "q \<in> set (rx a p) \<or> q \<in> set (rx b p)" by simp
  with Alt.IH Alt.prems(2) show ?case by metis
next
  case (Star a)
  then show ?case using iterate_length by fastforce
qed (auto simp: consume_iff split: if_splits)

lemma iterate_sound:
  assumes "\<And>p q. q \<in> set (f p) \<Longrightarrow> rx_match a p q"
  shows "q \<in> set (iterate n f p) \<Longrightarrow> rx_match (Star a) p q"
proof (induction n arbitrary: p)
  case 0
  then show ?case by (simp add: rx_match.star0)
next
  case (Suc n)
  then show ?case
    unfolding iterate_Suc_iff using assms rx_match.star0 rx_match.star1 by metis
qed

lemma rx_sound: "q \<in> set (rx e p) \<Longrightarrow> rx_match e p q"
proof (induction e arbitrary: p q)
  case (Star a)
  then show ?case using iterate_sound [of "rx a" a q] by simp
next
  case (Seq a b)
  then obtain m where "m \<in> set (rx a p)" "q \<in> set (rx b m)" by auto
  with Seq.IH show ?case by (metis rx_match.seq)
next
  case (Alt a b)
  from Alt.prems have "q \<in> set (rx a p) \<or> q \<in> set (rx b p)" by simp
  with Alt.IH show ?case by (metis rx_match.alt1 rx_match.alt2)
qed (auto simp: consume_iff intro: rx_match.intros split: if_splits; cases p;
    simp add: rx_match.intros)+

lemma iterate_self: "p \<in> set (iterate n f p)"
  by (cases n) (simp_all add: iterate_Suc_iff)

lemma iterate_mono: "t \<in> set (iterate k f x) \<Longrightarrow> k \<le> j \<Longrightarrow> t \<in> set (iterate j f x)"
proof (induction k arbitrary: j x)
  case 0
  then show ?case using iterate_self by simp
next
  case (Suc k)
  then obtain j' where j: "j = Suc j'" "k \<le> j'" by (cases j) auto
  with Suc.IH Suc.prems(1) show ?case unfolding j(1) iterate_Suc_iff by blast
qed

lemma iterate_step:
  assumes "q \<in> set (f p)" and "length (snd q) < length (snd p)"
    and "t \<in> set (iterate (length (snd q)) f q)"
  shows "t \<in> set (iterate (length (snd p)) f p)"
proof -
  obtain n where n: "length (snd p) = Suc n" using assms(2) by (cases "length (snd p)") auto
  with assms have "t \<in> set (iterate n f q)" by (simp add: iterate_mono)
  with assms(1,2) n show ?thesis
    by (metis iterate_Suc_iff)
qed

lemma rx_complete: "rx_match e p q \<Longrightarrow> q \<in> set (rx e p)"
proof (induction rule: rx_match.induct)
  case (star0 p a)
  then show ?case by (simp add: iterate_self)
next
  case (star1 a p q t)
  show ?case
  proof (cases "length (snd q) = length (snd p)")
    case True
    with star1.IH have "q = p" by (metis rx_same)
    with star1.IH show ?thesis by simp
  next
    case False
    with rx_length [OF star1.IH(1)] have "length (snd q) < length (snd p)" by simp
    with star1.IH show ?thesis by (simp add: iterate_step)
  qed
qed (auto simp: consume_iff split: if_splits)

lemma rx_iff: "q \<in> set (rx e p) \<longleftrightarrow> rx_match e p q"
  using rx_sound rx_complete by blast


lemma search_iff:
  "search e prev rs \<longleftrightarrow>
   (\<exists>a b q. rs = a @ b \<and> rx_match e (if a = [] then prev else Some (last a), b) q)"
proof (induction rs arbitrary: prev)
  case Nil
  have "rx e (prev, []) \<noteq> [] \<longleftrightarrow> (\<exists>q. rx_match e (prev, []) q)"
    by (metis list.set_intros(1) neq_Nil_conv rx_iff set_empty2 empty_iff)
  then show ?case by simp
next
  case (Cons r rs)
  have here: "rx e (prev, r # rs) \<noteq> [] \<longleftrightarrow> (\<exists>q. rx_match e (prev, r # rs) q)"
    by (metis list.set_intros(1) neq_Nil_conv rx_iff set_empty2 empty_iff)
  have "(\<exists>a b q. r # rs = a @ b \<and> rx_match e (if a = [] then prev else Some (last a), b) q) \<longleftrightarrow>
     (\<exists>q. rx_match e (prev, r # rs) q) \<or>
     (\<exists>a b q. rs = a @ b \<and> rx_match e (if a = [] then Some r else Some (last a), b) q)"
    (is "?L \<longleftrightarrow> ?N \<or> ?T")
  proof
    assume ?L
    then obtain a b q where ab: "r # rs = a @ b"
      "rx_match e (if a = [] then prev else Some (last a), b) q" by blast
    show "?N \<or> ?T"
    proof (cases a)
      case Nil
      with ab have "rx_match e (prev, r # rs) q" by simp
      then show ?thesis by blast
    next
      case (Cons x a')
      with ab have rs: "rs = a' @ b" "x = r" by auto
      with ab Cons have "rx_match e (if a' = [] then Some r else Some (last a'), b) q"
        by (cases "a' = []") simp_all
      with rs show ?thesis by blast
    qed
  next
    assume "?N \<or> ?T"
    then show ?L
    proof
      assume ?N
      then obtain q where "rx_match e (prev, r # rs) q" by blast
      then show ?L by (intro exI [of _ "[]"] exI [of _ "r # rs"] exI [of _ q]) simp
    next
      assume ?T
      then obtain a b q where ab: "rs = a @ b"
        "rx_match e (if a = [] then Some r else Some (last a), b) q" by blast
      then have "r # rs = (r # a) @ b" by simp
      moreover have "rx_match e (if r # a = [] then prev else Some (last (r # a)), b) q"
        using ab(2) by (cases "a = []") auto
      ultimately show ?L by blast
    qed
  qed
  with here Cons.IH [of "Some r"] show ?case by simp
qed

text \<open>The declarative meaning of an unanchored pattern match.\<close>

definition occurs :: "re \<Rightarrow> string \<Rightarrow> bool" where
  "occurs e s \<longleftrightarrow>
     (\<exists>a b q. map fst (runes s) = a @ b \<and> rx_match e (if a = [] then None else Some (last a), b) q)"

lemma matchString_iff: "matchString e s \<longleftrightarrow> occurs e s"
  by (simp add: matchString_def occurs_def search_iff)

end
