(* ===== verification/Policy.thy ===== *)
theory Policy
  imports Regex
begin

text \<open>
  The approval policy in front of every command (\<open>internal/policy/policy.go\<close>): the
  literal-output scanner, the protected-resource and pattern checks, and the decision order.
\<close>

section \<open>The guard\<close>

record Decision =
  allowed :: bool
  requiresApproval :: bool
  category :: string
  reason :: string

record Guard =
  protected :: "string list"
  critical :: "re list"
  dangerous :: "re list"

fun lit :: "string \<Rightarrow> re" where
  "lit [] = Eps"
| "lit [c] = Lit (byte c)"
| "lit (c # s) = Seq (Lit (byte c)) (lit s)"

fun seqs :: "re list \<Rightarrow> re" where
  "seqs [] = Eps"
| "seqs [e] = e"
| "seqs (e # es) = Seq e (seqs es)"

fun alts :: "re list \<Rightarrow> re" where
  "alts [] = Seq EndText (NotIn [])"
| "alts [e] = e"
| "alts (e # es) = Alt e (alts es)"

definition words_re :: "string list \<Rightarrow> re" where
  "words_re ws = alts (map lit ws)"

definition spaces :: re where "spaces = Seq Space (Star Space)"
definition anyStar :: re where "anyStar = Star AnyNotNL"

definition criticalPatterns :: "re list" where
  "criticalPatterns =
    [seqs [WB, lit ''systemctl'', spaces, words_re [''stop'', ''disable'', ''mask'', ''restart''], spaces, lit ''ai-server-agent''],
     seqs [WB, lit ''pkill'', WB, anyStar, lit ''ai-server-agent''],
     seqs [WB, lit ''killall'', WB, anyStar, lit ''ai-server-agent''],
     seqs [WB, words_re [''reboot'', ''shutdown'', ''poweroff'', ''halt''], WB],
     seqs [WB, words_re [''iptables'', ''ip6tables''], WB, anyStar,
       Alt (seqs [Space, lit ''-F'', WB])
         (seqs [Space, lit ''-P'', spaces, words_re [''INPUT'', ''OUTPUT''], spaces, lit ''DROP'', WB])],
     seqs [WB, lit ''nft'', WB, anyStar, WB, lit ''flush'', WB],
     seqs [WB, lit ''ufw'', spaces, words_re [''disable'', ''reset'', ''enable''], WB],
     seqs [WB, lit ''systemctl'', spaces, words_re [''stop'', ''disable'', ''restart''], spaces,
       words_re [''ssh'', ''sshd'', ''networking'', ''NetworkManager'', ''systemd-networkd''], WB],
     seqs [WB, lit ''ip'', spaces, words_re [''addr'', ''route''], spaces, lit ''flush'', WB],
     seqs [WB, lit ''ip'', spaces, lit ''link'', spaces, lit ''set'', WB, anyStar, WB, lit ''down'', WB],
     seqs [WB, lit ''nmcli'', spaces, lit ''networking'', spaces, lit ''off'', WB],
     seqs [WB, words_re [''apt'', ''apt-get''], spaces, words_re [''remove'', ''purge''], WB,
       Star (NotIn [10, 59, 38, 124]), Alt (seqs [WB, lit ''systemd'', WB]) (seqs [WB, lit ''bash'', WB])]]"

definition notSpaceStar :: re where "notSpaceStar = Star (NotIn [32])"

definition dangerousPatterns :: "re list" where
  "dangerousPatterns =
    [seqs [WB, lit ''rm'', spaces,
       Alt (seqs [lit ''-'', notSpaceStar, lit ''r'', notSpaceStar, lit ''f''])
           (seqs [lit ''-'', notSpaceStar, lit ''f'', notSpaceStar, lit ''r'']), WB],
     seqs [WB, lit ''rm'', spaces,
       alts [seqs [lit ''-r'', spaces, lit ''-f''], seqs [lit ''-f'', spaces, lit ''-r''],
             seqs [lit ''--recursive'', spaces, lit ''--force''],
             seqs [lit ''--force'', spaces, lit ''--recursive'']], Alt Space EndText],
     seqs [WB, lit ''mkfs'', Alt (lit ''.'') Space],
     seqs [WB, words_re [''fdisk'', ''parted'', ''wipefs''], WB],
     seqs [WB, lit ''DROP'', spaces, words_re [''DATABASE'', ''SCHEMA'', ''TABLE''], WB],
     seqs [WB, lit ''docker'', spaces, words_re [''system'', ''volume''], spaces, lit ''prune'', WB],
     seqs [WB, lit ''userdel'', WB], seqs [WB, lit ''groupdel'', WB]]"

definition newGuard :: "string list \<Rightarrow> Guard" where
  "newGuard ps = \<lparr>protected = ps, critical = criticalPatterns, dangerous = dangerousPatterns\<rparr>"

section \<open>Literal output commands\<close>

definition blank :: "char \<Rightarrow> bool" where
  "blank c = (c = CHR '' '' \<or> c = CHR 0x09)"

definition sq :: char where "sq = CHR 0x27"
definition dq :: char where "dq = CHR 0x22"

definition shellMeta :: "char set" where
  "shellMeta = set '';&|><$'' \<union> {CHR 0x60, CHR 0x5C, CHR ''('', CHR '')''}"

fun scanQuotes :: "char option \<Rightarrow> string \<Rightarrow> bool" where
  "scanQuotes quote [] = (quote = None)"
| "scanQuotes quote (c # s) =
     (if quote = Some sq then scanQuotes (if c = sq then None else quote) s
      else if quote = Some dq then
        (if c = dq then scanQuotes None s
         else if c \<in> {CHR ''$'', CHR 0x60, CHR 0x5C} then False
         else scanQuotes quote s)
      else if c = sq \<or> c = dq then scanQuotes (Some c) s
      else if c \<in> shellMeta then False
      else scanQuotes quote s)"

definition printfFormats :: "string list" where
  "printfFormats = [sq # ''%s'' @ [sq], sq # ''%s'' @ [CHR 0x5C] @ ''n'' @ [sq], dq # ''%s'' @ [dq], ''%s'']"

definition printfFormatOK :: "string \<Rightarrow> bool" where
  "printfFormatOK args =
     (let a = dropWhile blank args in
      list_ex (\<lambda>f. hasPrefix a f \<and> (case drop (length f) a of [] \<Rightarrow> True | c # _ \<Rightarrow> blank c)) printfFormats)"

definition startsWord :: "string \<Rightarrow> string \<Rightarrow> bool" where
  "startsWord command w = (hasPrefix command (w @ '' '') \<or> hasPrefix command (w @ [CHR 0x09]))"

definition literalOutputCommand :: "string \<Rightarrow> bool" where
  "literalOutputCommand command =
     (let isPrintf = startsWord command ''printf'';
          args = (if isPrintf then drop 6 command
                  else if startsWord command ''echo'' then drop 4 command else [])
      in if args = [] \<or> list_ex (\<lambda>c. c = CHR 0x0D \<or> c = CHR 0x0A) args then False
         else if isPrintf \<and> \<not> printfFormatOK args then False
         else scanQuotes None args)"

definition evaluate :: "Guard \<Rightarrow> string \<Rightarrow> bool \<Rightarrow> Decision" where
  "evaluate g command root =
     (let s = trimSpace command; d = \<lparr>allowed = True, requiresApproval = False, category = [], reason = []\<rparr> in
      if s = [] then d\<lparr>allowed := False, category := ''invalid'', reason := ''empty command''\<rparr>
      else if \<not> root then d\<lparr>category := ''worker'', reason := ''runs as the unprivileged worker user''\<rparr>
      else if literalOutputCommand s then
        d\<lparr>category := ''root'', reason := ''literal text output does not execute the quoted operation''\<rparr>
      else if list_ex (\<lambda>p. p \<noteq> [] \<and> contains s p) (protected g) then
        d\<lparr>requiresApproval := True, category := ''connection-risk'',
          reason := ''command references an AI Server Agent protected resource''\<rparr>
      else if list_ex (\<lambda>r. matchString r s) (critical g) then
        d\<lparr>requiresApproval := True, category := ''connection-risk'',
          reason := ''command can interrupt connectivity or the control plane''\<rparr>
      else if list_ex (\<lambda>r. matchString r s) (dangerous g) then
        d\<lparr>requiresApproval := True, category := ''destructive'',
          reason := ''command contains a potentially destructive operation''\<rparr>
      else d\<lparr>category := ''root'', reason := ''privileged command allowed''\<rparr>)"

section \<open>Reference readings\<close>



lemma sq_dq [simp]: "sq \<noteq> dq" "dq \<noteq> sq"
  by (simp_all add: sq_def dq_def)




section \<open>Properties\<close>



text \<open>The decision on a root command, for every command text: approval is demanded exactly
  when the trimmed command is not literal text output and either names a protected resource as a
  substring or contains a match, in the declarative reading of the pattern, of one of the critical
  or dangerous patterns. Worker commands never need approval, and only the empty command is refused.\<close>

theorem evaluate_approval_iff:
  "(requiresApproval (evaluate (newGuard ps) command root) \<longleftrightarrow>
     root \<and> trimSpace command \<noteq> [] \<and> \<not> literalOutputCommand (trimSpace command) \<and>
     ((\<exists>p\<in>set ps. p \<noteq> [] \<and> (\<exists>a b. trimSpace command = a @ p @ b)) \<or>
      (\<exists>e\<in>set (criticalPatterns @ dangerousPatterns). occurs e (trimSpace command)))) \<and>
   (allowed (evaluate (newGuard ps) command root) \<longleftrightarrow> trimSpace command \<noteq> [])"
  by (auto simp: evaluate_def newGuard_def Let_def list_ex_iff contains_iff matchString_iff)

end
