(* ===== verification/Protocol.thy ===== *)
theory Protocol
  imports Output Policy
begin

text \<open>
  The request and response frames between the MCP process and the root executor
  (\<open>internal/executor/protocol.go\<close>), with the fields the modelled handlers read and write,
  and the small constructors every handler shares.
\<close>

text \<open>An exact replacement and a versioned edit of one file, from \<open>workspace_edits.go\<close>.\<close>

record WorkspaceReplace =
  wr_old :: string
  wr_new :: string

record WorkspaceFileEdit =
  we_path :: string
  we_fileVersion :: string
  we_mustNotExist :: bool
  we_content :: "string option"
  we_replacements :: "WorkspaceReplace list"

record Request =
  q_action :: string
  q_command :: string
  q_root :: bool
  q_approval :: bool
  q_timeoutMS :: int
  q_operationID :: string
  q_auditAction :: string
  q_browserProfileMode :: string
  q_principalID :: string
  q_principalClass :: string
  q_jobID :: string
  q_kind :: string
  q_label :: string
  q_offset :: int
  q_limit :: int
  q_workspace :: string
  q_requestID :: string
  q_approvalID :: string
  q_path :: string
  q_content :: string
  q_mode :: "32 word"
  q_fileVersion :: string
  q_mustNotExist :: bool
  q_workspaceEdits :: "WorkspaceFileEdit list"
  q_transferKey :: string
  q_transferOp :: string
  q_transferID :: string
  q_expectedSize :: int
  q_sha256 :: string
  q_chunkBase64 :: string
  q_chunkSHA256 :: string

record Response =
  r_ok :: bool
  r_error :: string
  r_reasonCode :: string
  r_errorCode :: string
  r_errorClass :: string
  r_retryable :: bool
  r_output :: string
  r_outputEncoding :: string
  r_bytesSeen :: int
  r_bytesReturned :: int
  r_truncated :: bool
  r_omittedBytes :: int
  r_headBytes :: int
  r_tailBytes :: int
  r_timedOut :: bool
  r_exitCode :: int
  r_approval :: "Decision option"
  r_jobID :: string
  r_idempotentReplay :: bool
  r_status :: string
  r_requestedOffset :: int
  r_offset :: "int option"
  r_availableFromOffset :: int
  r_nextOffset :: "int option"
  r_currentEnd :: int
  r_eof :: "bool option"
  r_retentionTruncated :: bool
  r_requestID :: string
  r_operationID :: string
  r_auditDegraded :: bool
  r_auditError :: string
  r_fileSize :: "int option"
  r_fileVersion :: string
  r_transferID :: string
  r_expectedSize :: int
  r_transferredBytes :: int
  r_preparedBytes :: int
  r_sha256 :: string
  r_expiresAt :: string

text \<open>Go's zero value of each struct.\<close>

definition zeroRequest :: Request where
  "zeroRequest = \<lparr>q_action = [], q_command = [], q_root = False, q_approval = False, q_timeoutMS = 0,
     q_operationID = [], q_auditAction = [], q_browserProfileMode = [], q_principalID = [],
     q_principalClass = [], q_jobID = [], q_kind = [], q_label = [], q_offset = 0, q_limit = 0,
     q_workspace = [], q_requestID = [], q_approvalID = [],
     q_path = [], q_content = [], q_mode = 0, q_fileVersion = [], q_mustNotExist = False, q_workspaceEdits = [],
     q_transferKey = [], q_transferOp = [], q_transferID = [], q_expectedSize = 0, q_sha256 = [], q_chunkBase64 = [], q_chunkSHA256 = []\<rparr>"

definition zeroResponse :: Response where
  "zeroResponse = \<lparr>r_ok = False, r_error = [], r_reasonCode = [], r_errorCode = [], r_errorClass = [],
     r_retryable = False, r_output = [], r_outputEncoding = [], r_bytesSeen = 0, r_bytesReturned = 0,
     r_truncated = False, r_omittedBytes = 0, r_headBytes = 0, r_tailBytes = 0, r_timedOut = False,
     r_exitCode = 0, r_approval = None, r_jobID = [], r_idempotentReplay = False, r_status = [],
     r_requestedOffset = 0, r_offset = None, r_availableFromOffset = 0, r_nextOffset = None,
     r_currentEnd = 0, r_eof = None, r_retentionTruncated = False,
     r_requestID = [], r_operationID = [], r_auditDegraded = False, r_auditError = [],
     r_fileSize = None, r_fileVersion = [], r_transferID = [], r_expectedSize = 0, r_transferredBytes = 0,
     r_preparedBytes = 0, r_sha256 = [], r_expiresAt = []\<rparr>"

text \<open>The three code fields a failure carries, and the constructors built on them.\<close>

definition failure :: "string \<Rightarrow> string \<Rightarrow> string \<Rightarrow> Response" where
  "failure code class msg =
     zeroResponse\<lparr>r_error := msg, r_reasonCode := code, r_errorCode := code, r_errorClass := class\<rparr>"

definition fileError :: "string \<Rightarrow> string \<Rightarrow> string \<Rightarrow> Response" where
  "fileError code class msg = failure code class msg"

definition jobStateError :: "string \<Rightarrow> string \<Rightarrow> Response" where
  "jobStateError code msg = failure code ''state'' msg"

definition applyOutputResult :: "Response \<Rightarrow> boundedOutputResult \<Rightarrow> Response" where
  "applyOutputResult resp out = resp\<lparr>r_output := o_output out, r_outputEncoding := o_encoding out,
     r_bytesSeen := o_bytesSeen out, r_bytesReturned := o_bytesReturned out,
     r_truncated := o_truncated out, r_omittedBytes := o_omittedBytes out,
     r_headBytes := o_headBytes out, r_tailBytes := o_tailBytes out\<rparr>"

definition commandInputError :: "string \<Rightarrow> Response option" where
  "commandInputError command =
     (if length command \<le> maxCommandBytes then None
      else Some (failure ''input_too_large'' ''validation''
        (''command exceeds the '' @ itoa (int maxCommandBytes) @ ''-byte tool limit'')))"

lemma failure_simps [simp]:
  "r_ok (failure c k m) = False" "r_errorCode (failure c k m) = c" "r_reasonCode (failure c k m) = c"
  "r_errorClass (failure c k m) = k" "r_error (failure c k m) = m" "r_status (failure c k m) = []"
  "r_jobID (failure c k m) = []" "r_idempotentReplay (failure c k m) = False"
  by (simp_all add: failure_def zeroResponse_def)

lemma zeroResponse_ok [simp]: "r_ok zeroResponse = False"
  by (simp add: zeroResponse_def)

lemma applyOutputResult_simps [simp]:
  "r_ok (applyOutputResult r out) = r_ok r" "r_errorCode (applyOutputResult r out) = r_errorCode r"
  "r_status (applyOutputResult r out) = r_status r" "r_jobID (applyOutputResult r out) = r_jobID r"
  "r_errorClass (applyOutputResult r out) = r_errorClass r"
  "r_exitCode (applyOutputResult r out) = r_exitCode r"
  "r_idempotentReplay (applyOutputResult r out) = r_idempotentReplay r"
  by (simp_all add: applyOutputResult_def)

lemma jobStateError_simps [simp]:
  "r_ok (jobStateError c m) = False" "r_errorCode (jobStateError c m) = c"
  "r_errorClass (jobStateError c m) = ''state''" "r_status (jobStateError c m) = []"
  by (simp_all add: jobStateError_def)

lemma fileError_simps [simp]:
  "r_ok (fileError c k m) = False" "r_errorCode (fileError c k m) = c"
  "r_errorClass (fileError c k m) = k" "r_status (fileError c k m) = []"
  by (simp_all add: fileError_def)

end
