(* ===== verification/JobLog.thy ===== *)
theory JobLog
  imports Protocol
begin

text \<open>
  The bounded job log (\<open>internal/executor/jobs.go\<close>): a 32-byte header and a ring of
  8 MiB in one file, written by the job runner and read by \<open>job_output\<close>. A log file is its
  byte contents. The refinement is against the unbounded stream of everything the job printed.
\<close>

section \<open>Positioned file access\<close>

text \<open>\<open>os.File.WriteAt\<close>: bytes past the end are first filled with zeros.\<close>

definition writeAt :: "bytes \<Rightarrow> nat \<Rightarrow> bytes \<Rightarrow> bytes" where
  "writeAt f off d =
     (let f' = f @ replicate (off - length f) (CHR 0x00) in take off f' @ d @ drop (off + length d) f')"

text \<open>\<open>os.File.ReadAt\<close> into a buffer of \<open>n\<close> bytes; a short read is an error.\<close>

definition readAt :: "bytes \<Rightarrow> nat \<Rightarrow> nat \<Rightarrow> bytes option" where
  "readAt f off n = (if off + n \<le> length f then Some (take n (drop off f)) else None)"

lemma writeAt_length [simp]: "length (writeAt f off d) = max (length f) (off + length d)"
  by (auto simp: writeAt_def Let_def)

lemma writeAt_nth_in:
  "off \<le> i \<Longrightarrow> i < off + length d \<Longrightarrow> writeAt f off d ! i = d ! (i - off)"
  by (cases "off \<le> length f") (auto simp: writeAt_def Let_def nth_append min_def)

lemma writeAt_nth_out:
  "i < length f \<Longrightarrow> i < off \<or> off + length d \<le> i \<Longrightarrow> writeAt f off d ! i = f ! i"
  by (auto simp: writeAt_def Let_def nth_append)

lemma readAt_prefix: "n \<le> length f \<Longrightarrow> readAt f 0 n = Some (take n f)"
  by (simp add: readAt_def)

section \<open>The header\<close>

definition maxJobLogBytes :: int where "maxJobLogBytes = 8 * 1024 * 1024"
definition jobLogHeaderSize :: nat where "jobLogHeaderSize = 32"
definition jobLogMagic :: bytes where "jobLogMagic = ''AISAJL01''"

record jobLogHeader =
  capacity :: int
  availableFrom :: int
  currentEnd :: int

text \<open>\<open>binary.LittleEndian\<close>, byte by byte.\<close>

fun le_bytes :: "nat \<Rightarrow> nat \<Rightarrow> bytes" where
  "le_bytes 0 x = []"
| "le_bytes (Suc k) x = char_of (x mod 256) # le_bytes k (x div 256)"

fun le_val :: "bytes \<Rightarrow> nat" where
  "le_val [] = 0"
| "le_val (c # s) = byte c + 256 * le_val s"

definition putUint64 :: "int \<Rightarrow> bytes" where
  "putUint64 x = le_bytes 8 (nat (x mod 2 ^ 64))"

definition getInt64 :: "bytes \<Rightarrow> int" where
  "getInt64 bs = i64 (int (le_val bs))"

definition encodeHeader :: "jobLogHeader \<Rightarrow> bytes" where
  "encodeHeader h = jobLogMagic @ putUint64 (capacity h) @ putUint64 (availableFrom h) @ putUint64 (currentEnd h)"

definition writeJobLogHeader :: "bytes \<Rightarrow> jobLogHeader \<Rightarrow> bytes" where
  "writeJobLogHeader f h = writeAt f 0 (encodeHeader h)"

definition readJobLogHeader :: "bytes \<Rightarrow> int \<Rightarrow> string + jobLogHeader option" where
  "readJobLogHeader f sz =
     (if sz = 0 then Inr None
      else if sz < int jobLogHeaderSize then Inr None
      else case readAt f 0 jobLogHeaderSize of
        None \<Rightarrow> Inl ''EOF''
      | Some raw \<Rightarrow>
          if take 8 raw \<noteq> jobLogMagic then Inr None
          else (let h = \<lparr>capacity = getInt64 (take 8 (drop 8 raw)),
                         availableFrom = getInt64 (take 8 (drop 16 raw)),
                         currentEnd = getInt64 (take 8 (drop 24 raw))\<rparr>;
                    e0 = i64 (currentEnd h - capacity h);
                    expectedAvailable = (if e0 < 0 then 0 else e0)
                in if capacity h \<noteq> maxJobLogBytes \<or> availableFrom h < 0 \<or> currentEnd h < availableFrom h
                      \<or> i64 (currentEnd h - availableFrom h) > capacity h
                      \<or> availableFrom h \<noteq> expectedAvailable
                   then Inl ''invalid bounded job log header''
                   else if sz > int jobLogHeaderSize + capacity h
                   then Inl ''bounded job log exceeds physical size limit''
                   else Inr (Some h)))"

section \<open>The ring\<close>

text \<open>
  \<open>writeRingBytes\<close>: at most two \<open>WriteAt\<close> calls, the k-th of which succeeds when \<open>ok k\<close>.
  The result is the file and the number of the next call, or None for the error return. A
  capacity of zero or less, on which Go would panic, is None too; the header check excludes it.
\<close>

function writeRingBytes :: "(nat \<Rightarrow> bool) \<Rightarrow> nat \<Rightarrow> int \<Rightarrow> int \<Rightarrow> bytes \<Rightarrow> bytes \<Rightarrow> nat option \<times> bytes" where
  "writeRingBytes ok k cap start data f =
     (if data = [] then (Some k, f)
      else if cap \<le> 0 \<or> start < 0 then (None, f)
      else (let pos = start mod cap; room = cap - pos; n = nat (min (int (length data)) room) in
            if ok k
            then writeRingBytes ok (Suc k) cap (start + int n) (drop n data)
                   (writeAt f (jobLogHeaderSize + nat pos) (take n data))
            else (None, f)))"
  by pat_completeness auto
termination
proof (relation "measure (\<lambda>(ok, k, cap, start, data, f). length data)", goal_cases)
  case 1
  show ?case by simp
next
  case (2 ok k cap start data f pos room n)
  then have "0 < cap - start mod cap" by simp
  with 2 show ?case by (cases data) auto
qed

declare writeRingBytes.simps [simp del]

function readRingBytes :: "bytes \<Rightarrow> int \<Rightarrow> int \<Rightarrow> nat \<Rightarrow> bytes option" where
  "readRingBytes f cap start want =
     (if want = 0 then Some []
      else if cap \<le> 0 \<or> start < 0 then None
      else (let pos = start mod cap; room = cap - pos; n = nat (min (int want) room) in
            case readAt f (jobLogHeaderSize + nat pos) n of
              None \<Rightarrow> None
            | Some a \<Rightarrow> map_option ((@) a) (readRingBytes f cap (start + int n) (want - n))))"
  by pat_completeness auto
termination
proof (relation "measure (\<lambda>(f, cap, start, want). want)", goal_cases)
  case 1
  show ?case by simp
next
  case (2 f cap start want pos room n a)
  then have "0 < cap - start mod cap" by simp
  with 2 show ?case by auto
qed

declare readRingBytes.simps [simp del]

section \<open>The writer\<close>

record logFile =
  lf_regular :: bool
  lf_owned :: bool
  lf_worldWritable :: bool
  lf_bytes :: bytes

record jobLogWriter =
  w_file :: bytes
  w_h :: jobLogHeader

text \<open>\<open>flocked\<close> is whether the exclusive lock was obtained, \<open>hdrOK\<close> whether the header write succeeded.\<close>

definition newJobLogWriter :: "logFile \<Rightarrow> bool \<Rightarrow> bool \<Rightarrow> string + jobLogWriter" where
  "newJobLogWriter lf flocked hdrOK =
     (if \<not> lf_regular lf \<or> \<not> lf_owned lf \<or> lf_worldWritable lf
      then Inl ''job log has unsafe ownership or mode''
      else if \<not> flocked then Inl ''flock''
      else case readJobLogHeader (lf_bytes lf) (int (length (lf_bytes lf))) of
        Inl e \<Rightarrow> Inl e
      | Inr (Some h) \<Rightarrow> Inr \<lparr>w_file = lf_bytes lf, w_h = h\<rparr>
      | Inr None \<Rightarrow>
          if lf_bytes lf \<noteq> [] then Inl ''job log already contains legacy data''
          else (let h = \<lparr>capacity = maxJobLogBytes, availableFrom = 0, currentEnd = 0\<rparr> in
                if hdrOK then Inr \<lparr>w_file = writeJobLogHeader (lf_bytes lf) h, w_h = h\<rparr> else Inl ''write''))"

text \<open>
  \<open>jobLogWriter.Write\<close>: the byte count returned (None for an error) and the new writer. The
  in-memory header moves only after the ring bytes are in place, the one in the file last.
\<close>

definition writeLog :: "(nat \<Rightarrow> bool) \<Rightarrow> bool \<Rightarrow> jobLogWriter \<Rightarrow> bytes \<Rightarrow> int option \<times> jobLogWriter" where
  "writeLog ok flocked w p =
     (if p = [] then (Some 0, w)
      else if \<not> flocked then (None, w)
      else (let n = int (length p); oldEnd = currentEnd (w_h w); newEnd = i64 (oldEnd + n);
                cap = capacity (w_h w);
                data = (if int (length p) > cap then drop (nat (int (length p) - cap)) p else p);
                start = (if int (length p) > cap then newEnd - int (length data) else oldEnd)
            in case writeRingBytes ok 0 cap start data (w_file w) of
                 (None, f) \<Rightarrow> (None, w\<lparr>w_file := f\<rparr>)
               | (Some k, f) \<Rightarrow>
                   (let a0 = newEnd - cap; available = (if a0 < 0 then 0 else a0);
                        h = (w_h w)\<lparr>availableFrom := available, currentEnd := newEnd\<rparr>
                    in if ok k then (Some n, \<lparr>w_file = writeJobLogHeader f h, w_h = h\<rparr>)
                       else (None, \<lparr>w_file = f, w_h = h\<rparr>))))"


section \<open>The header survives a write and a read\<close>

lemma le_val_bytes: "x < 256 ^ k \<Longrightarrow> le_val (le_bytes k x) = x"
proof (induction k arbitrary: x)
  case 0
  then show ?case by simp
next
  case (Suc k)
  then have "x div 256 < 256 ^ k" by (simp add: less_mult_imp_div_less mult.commute)
  with Suc.IH show ?case by simp
qed

lemma length_le_bytes [simp]: "length (le_bytes k x) = k"
  by (induction k arbitrary: x) simp_all

lemma get_putUint64: "- (2 ^ 63) \<le> x \<Longrightarrow> x < 2 ^ 63 \<Longrightarrow> getInt64 (putUint64 x) = x"
proof -
  assume r: "- (2 ^ 63) \<le> x" "x < 2 ^ 63"
  have "nat (x mod 2 ^ 64) < 256 ^ 8" by (simp add: nat_less_iff)
  then have "getInt64 (putUint64 x) = i64 (x mod 2 ^ 64)"
    by (simp add: getInt64_def putUint64_def le_val_bytes)
  also have "i64 (x mod 2 ^ 64) = i64 x"
    by (simp add: i64_def mod_add_left_eq)
  finally show ?thesis using r by (simp add: i64_id)
qed

lemma length_putUint64 [simp]: "length (putUint64 x) = 8"
  by (simp add: putUint64_def)

lemma length_magic [simp]: "length jobLogMagic = 8"
  by (simp add: jobLogMagic_def)

lemma length_encodeHeader [simp]: "length (encodeHeader h) = 32"
  by (simp add: encodeHeader_def)

lemma take_append_exact: "length a = n \<Longrightarrow> take n (a @ b) = a"
  by simp

lemma drop_append_exact: "length a = n \<Longrightarrow> drop n (a @ b) = b"
  by simp

lemma encodeHeader_fields:
  "take 8 (encodeHeader h) = jobLogMagic"
  "take 8 (drop 8 (encodeHeader h)) = putUint64 (capacity h)"
  "take 8 (drop 16 (encodeHeader h)) = putUint64 (availableFrom h)"
  "take 8 (drop 24 (encodeHeader h)) = putUint64 (currentEnd h)"
  by (simp_all add: encodeHeader_def)

text \<open>A header the writer can produce for a stream of \<open>n\<close> bytes.\<close>

definition header_of :: "int \<Rightarrow> int \<Rightarrow> jobLogHeader" where
  "header_of cap n = \<lparr>capacity = cap, availableFrom = max 0 (n - cap), currentEnd = n\<rparr>"

lemma readJobLogHeader_written:
  assumes "take 32 f = encodeHeader (header_of maxJobLogBytes n)"
    and "32 \<le> length f" and "int (length f) \<le> 32 + maxJobLogBytes" and "0 \<le> n" and "n < 2 ^ 63"
  shows "readJobLogHeader f (int (length f)) = Inr (Some (header_of maxJobLogBytes n))"
proof -
  have raw: "readAt f 0 jobLogHeaderSize = Some (encodeHeader (header_of maxJobLogBytes n))"
    using assms(1,2) by (simp add: readAt_def jobLogHeaderSize_def)
  have b: "0 \<le> n - maxJobLogBytes \<or> n - maxJobLogBytes < 0" by linarith
  have get: "getInt64 (putUint64 maxJobLogBytes) = maxJobLogBytes" "getInt64 (putUint64 n) = n"
    "getInt64 (putUint64 (max 0 (n - maxJobLogBytes))) = max 0 (n - maxJobLogBytes)"
    using assms(4,5) by (auto intro!: get_putUint64 simp: maxJobLogBytes_def)
  have wrap: "i64 (n - maxJobLogBytes) = n - maxJobLogBytes"
    "i64 (n - max 0 (n - maxJobLogBytes)) = n - max 0 (n - maxJobLogBytes)"
    using assms(4,5) by (auto intro!: i64_id simp: maxJobLogBytes_def)
  show ?thesis
    unfolding readJobLogHeader_def raw
    using assms get wrap
    by (auto simp: encodeHeader_fields header_of_def jobLogHeaderSize_def Let_def maxJobLogBytes_def)
qed


section \<open>The ring against the stream\<close>

definition slot :: "int \<Rightarrow> int \<Rightarrow> nat" where
  "slot cap i = jobLogHeaderSize + nat (i mod cap)"

lemma slot_bounds: "0 < cap \<Longrightarrow> 32 \<le> slot cap i \<and> int (slot cap i) < 32 + cap"
  by (simp add: slot_def jobLogHeaderSize_def nat_less_iff)

lemma slot_segment:
  assumes "0 < cap" and "int k < cap - start mod cap"
  shows "slot cap (start + int k) = jobLogHeaderSize + nat (start mod cap) + k"
proof -
  have "(start + int k) mod cap = (start mod cap + int k) mod cap" by (simp add: mod_add_left_eq)
  also have "\<dots> = start mod cap + int k"
    using assms by (intro mod_pos_pos_trivial) auto
  finally show ?thesis using assms(1) by (simp add: slot_def nat_add_distrib)
qed

lemma slot_inj:
  assumes "0 < cap" and "slot cap i = slot cap j" and "\<bar>i - j\<bar> < cap"
  shows "i = j"
proof -
  have "i mod cap = j mod cap"
    using assms(1,2) by (simp add: slot_def eq_nat_nat_iff)
  then have "cap dvd i - j" by (simp add: mod_eq_dvd_iff)
  with assms(1,3) show ?thesis
    by (metis abs_of_pos dvd_imp_le_int not_less right_minus_eq)
qed

text \<open>
  What a ring write does to the file: the slots of the written positions hold the data, every
  other byte is kept, and the file grows no further than the last slot.
\<close>

definition ring_upd :: "int \<Rightarrow> int \<Rightarrow> bytes \<Rightarrow> bytes \<Rightarrow> bytes \<Rightarrow> bool" where
  "ring_upd cap start d f g \<longleftrightarrow>
     length f \<le> length g \<and> int (length g) \<le> max (int (length f)) (32 + cap) \<and>
     (\<forall>i < length d. slot cap (start + int i) < length g \<and> g ! slot cap (start + int i) = d ! i) \<and>
     (\<forall>p < length f. (\<forall>i < length d. p \<noteq> slot cap (start + int i)) \<longrightarrow> g ! p = f ! p)"

lemma ring_upd_refl: "ring_upd cap start [] f f"
  by (simp add: ring_upd_def)

lemma ring_upd_segment:
  assumes "0 < cap" and "int (length d) \<le> cap - start mod cap"
  shows "ring_upd cap start d f (writeAt f (jobLogHeaderSize + nat (start mod cap)) d)"
proof -
  let ?o = "jobLogHeaderSize + nat (start mod cap)"
  have seg: "slot cap (start + int i) = ?o + i" if "i < length d" for i
    using slot_segment [of cap i start] assms that by simp
  have nn: "0 \<le> start mod cap" using assms(1) by simp
  have out: "p < ?o \<or> ?o + length d \<le> p"
    if "\<forall>i < length d. p \<noteq> slot cap (start + int i)" for p
  proof (rule ccontr)
    assume c: "\<not> ?thesis"
    then have "p = ?o + (p - ?o)" and "p - ?o < length d" by linarith+
    with that seg show False by metis
  qed
  have "?o + length d \<le> nat (32 + cap)"
    using assms nn by (simp add: jobLogHeaderSize_def nat_le_iff le_nat_iff)
  then have "int (max (length f) (?o + length d)) \<le> max (int (length f)) (32 + cap)"
    by (auto simp: max_def)
  then show ?thesis
    unfolding ring_upd_def
    using out by (auto simp: seg writeAt_nth_in writeAt_nth_out less_max_iff_disj simp del: of_nat_max)
qed

lemma ring_upd_append:
  assumes cap: "0 < cap" and f: "ring_upd cap start d1 f g"
    and g: "ring_upd cap (start + int (length d1)) d2 g h"
    and len: "int (length d1 + length d2) \<le> cap"
  shows "ring_upd cap start (d1 @ d2) f h"
proof -
  have other: "slot cap (start + int i) \<noteq> slot cap (start + int (length d1) + int j)"
    if "i < length d1" "j < length d2" for i j
  proof
    assume "slot cap (start + int i) = slot cap (start + int (length d1) + int j)"
    then have "start + int i = start + int (length d1) + int j"
      by (rule slot_inj [OF cap]) (use that len in linarith)
    with that show False by simp
  qed
  have new: "slot cap (start + int i) < length h \<and> h ! slot cap (start + int i) = (d1 @ d2) ! i"
    if i: "i < length (d1 @ d2)" for i
  proof (cases "i < length d1")
    case True
    with f have "slot cap (start + int i) < length g" "g ! slot cap (start + int i) = d1 ! i"
      by (auto simp: ring_upd_def)
    with g other True show ?thesis by (auto simp: ring_upd_def nth_append)
  next
    case False
    then obtain j where j: "i = length d1 + j" using le_Suc_ex not_less by blast
    with i g have "slot cap (start + int (length d1) + int j) < length h \<and>
        h ! slot cap (start + int (length d1) + int j) = d2 ! j"
      by (auto simp: ring_upd_def)
    with j show ?thesis by (simp add: nth_append add.assoc)
  qed
  have keep: "h ! p = f ! p"
    if p: "p < length f" "\<forall>i < length (d1 @ d2). p \<noteq> slot cap (start + int i)" for p
  proof -
    have "p \<noteq> slot cap (start + int (length d1) + int j)" if "j < length d2" for j
      using p(2) [rule_format, of "length d1 + j"] that by (simp add: add.assoc)
    moreover have "p \<noteq> slot cap (start + int i)" if "i < length d1" for i
      using p(2) that by simp
    ultimately show ?thesis using f g p(1) by (auto simp: ring_upd_def)
  qed
  show ?thesis
    using new keep f g unfolding ring_upd_def by (auto simp: max_def split: if_splits)
qed

lemma writeRing_upd:
  assumes "0 < cap" and "0 \<le> start" and "int (length data) \<le> cap" and "\<forall>j. ok j"
  shows "\<exists>k' g. writeRingBytes ok k cap start data f = (Some k', g) \<and> ring_upd cap start data f g"
  using assms
proof (induction ok k cap start data f rule: writeRingBytes.induct)
  case (1 ok k cap start data f)
  show ?case
  proof (cases "data = []")
    case True
    then show ?thesis by (simp add: writeRingBytes.simps ring_upd_refl)
  next
    case False
    let ?n = "nat (min (int (length data)) (cap - start mod cap))"
    let ?g = "writeAt f (jobLogHeaderSize + nat (start mod cap)) (take ?n data)"
    have room: "start mod cap < cap" using "1.prems"(1) by simp
    have n: "length (take ?n data) = ?n" "int ?n \<le> cap - start mod cap" using room by auto
    have eq: "writeRingBytes ok k cap start data f =
        writeRingBytes ok (Suc k) cap (start + int ?n) (drop ?n data) ?g"
      using False "1.prems" by (simp add: writeRingBytes.simps [of ok k] Let_def)
    have first: "ring_upd cap start (take ?n data) f ?g"
      using ring_upd_segment [OF "1.prems"(1)] n by simp
    have side: "\<not> (cap \<le> 0 \<or> start < 0)" "0 \<le> start + int ?n" "int (length (drop ?n data)) \<le> cap"
      using "1.prems"(1-3) by auto
    have "ok k" using "1.prems"(4) by simp
    from "1.IH" [OF False side(1) refl refl refl this "1.prems"(1) side(2,3) "1.prems"(4)]
    obtain k' h where h: "writeRingBytes ok (Suc k) cap (start + int ?n) (drop ?n data) ?g = (Some k', h)"
      "ring_upd cap (start + int ?n) (drop ?n data) ?g h"
      by blast
    have "ring_upd cap start (take ?n data @ drop ?n data) f h"
      by (rule ring_upd_append [OF "1.prems"(1) first]) (use h(2) n(1) "1.prems"(3) in auto)
    with eq h(1) show ?thesis by simp
  qed
qed


section \<open>The log file against the stream\<close>

text \<open>
  The abstraction: \<open>log_repr cap w s\<close> says the file holds exactly the last \<open>cap\<close> bytes of the
  stream \<open>s\<close> of everything written, at the slots of their stream positions.
\<close>

definition log_repr :: "int \<Rightarrow> jobLogWriter \<Rightarrow> bytes \<Rightarrow> bool" where
  "log_repr cap w s \<longleftrightarrow>
     w_h w = header_of cap (int (length s)) \<and> take 32 (w_file w) = encodeHeader (w_h w) \<and>
     32 \<le> length (w_file w) \<and> int (length (w_file w)) \<le> 32 + cap \<and>
     (\<forall>i < length s. availableFrom (w_h w) \<le> int i \<longrightarrow>
        slot cap (int i) < length (w_file w) \<and> w_file w ! slot cap (int i) = s ! i)"

lemma take_writeHeader: "32 \<le> length f \<Longrightarrow> take 32 (writeJobLogHeader f h) = encodeHeader h"
  by (simp add: writeJobLogHeader_def writeAt_def Let_def)

lemma length_writeHeader: "32 \<le> length f \<Longrightarrow> length (writeJobLogHeader f h) = length f"
  by (simp add: writeJobLogHeader_def)

lemma writeHeader_nth: "32 \<le> i \<Longrightarrow> i < length f \<Longrightarrow> writeJobLogHeader f h ! i = f ! i"
  by (simp add: writeJobLogHeader_def writeAt_nth_out)

lemma log_repr_new:
  assumes "newJobLogWriter lf True True = Inr w" and "lf_bytes lf = []"
  shows "log_repr maxJobLogBytes w []"
proof -
  let ?h = "\<lparr>capacity = maxJobLogBytes, availableFrom = 0, currentEnd = 0\<rparr>"
  have w: "w = \<lparr>w_file = writeJobLogHeader [] ?h, w_h = ?h\<rparr>"
    using assms by (auto simp: newJobLogWriter_def readJobLogHeader_def Let_def split: if_splits)
  have "?h = header_of maxJobLogBytes 0" by (simp add: header_of_def maxJobLogBytes_def)
  moreover have "writeJobLogHeader [] ?h = encodeHeader ?h"
    by (simp add: writeJobLogHeader_def writeAt_def Let_def)
  ultimately show ?thesis
    by (simp add: w log_repr_def maxJobLogBytes_def)
qed

text \<open>After the ring bytes of a write are in place, every retained position holds its byte.\<close>

lemma ring_upd_retained:
  assumes cap: "0 < cap" and upd: "ring_upd cap start d f g" and f: "32 \<le> length f"
    and start: "start = int (length t) - int (length d)" and d: "d = drop (length t - length d) t"
    and sfx: "int (length s) = start \<or> int (length d) = cap" "prefix s t"
    and old: "\<forall>i < length s. int (length s) - cap \<le> int i \<longrightarrow>
        slot cap (int i) < length f \<and> f ! slot cap (int i) = s ! i"
    and dcap: "int (length d) \<le> cap"
    and i: "i < length t" "int (length t) - cap \<le> int i"
  shows "slot cap (int i) < length g \<and> g ! slot cap (int i) = t ! i"
proof (cases "start \<le> int i")
  case True
  have le: "length d \<le> length t" using d by (metis length_drop diff_le_self)
  define k where "k = nat (int i - start)"
  have k: "int i = start + int k" "k < length d" "i = length t - length d + k"
    using True start i(1) le by (auto simp: k_def)
  have "d ! k = t ! i" using d k le by (metis add.commute nth_drop diff_le_self)
  with upd k show ?thesis by (auto simp: ring_upd_def)
next
  case False
  with sfx(1) i(2) start have s: "int (length s) = start" by linarith
  with False have ilt: "i < length s" by linarith
  have st: "s ! i = t ! i" using sfx(2) ilt by (auto elim!: prefixE simp: nth_append)
  have "int (length s) - cap \<le> int i" using i(2) s start by linarith
  with old ilt have o: "slot cap (int i) < length f" "f ! slot cap (int i) = s ! i" by auto
  have "slot cap (int i) \<noteq> slot cap (start + int k)" if "k < length d" for k
  proof
    assume "slot cap (int i) = slot cap (start + int k)"
    then have "int i = start + int k"
      by (rule slot_inj [OF cap]) (use that False i(2) start in linarith)
    with False show False by linarith
  qed
  with upd o st show ?thesis by (auto simp: ring_upd_def)
qed

lemma writeLog_repr:
  assumes r: "log_repr cap w s" and cap: "0 < cap" and small: "int (length (s @ p)) < 2 ^ 63"
    and lock: "flocked" and ok: "\<forall>k. ok k"
  shows "\<exists>w'. writeLog ok flocked w p = (Some (int (length p)), w') \<and> log_repr cap w' (s @ p)"
proof (cases "p = []")
  case True
  with r show ?thesis by (simp add: writeLog_def)
next
  case False
  define d where "d = (if int (length p) > cap then drop (nat (int (length p) - cap)) p else p)"
  define start where "start = int (length (s @ p)) - int (length d)"
  have cE: "capacity (w_h w) = cap" "currentEnd (w_h w) = int (length s)"
    using r by (simp_all add: log_repr_def header_of_def)
  have newEnd: "i64 (int (length s) + int (length p)) = int (length (s @ p))"
    using small by (simp add: i64_id)
  have d: "int (length d) \<le> cap" "d = drop (length (s @ p) - length d) (s @ p)"
    "int (length s) = start \<or> int (length d) = cap"
    using cap by (auto simp: d_def start_def)
  have start0: "0 \<le> start" "start = (if int (length p) > cap then int (length (s @ p)) - int (length d) else int (length s))"
    by (auto simp: start_def d_def)
  obtain k' g where g: "writeRingBytes ok 0 cap start d (w_file w) = (Some k', g)"
    "ring_upd cap start d (w_file w) g"
    using writeRing_upd [OF cap start0(1) d(1) ok] by blast
  let ?h = "header_of cap (int (length (s @ p)))"
  have ring: "writeRingBytes ok 0 cap
      (if cap < int (length p) then int (length (s @ p)) - int (length d) else int (length s))
      d (w_file w) = (Some k', g)"
    unfolding start0(2) [symmetric] by (rule g(1))
  have hdr: "(w_h w)\<lparr>availableFrom := (if int (length (s @ p)) - cap < 0 then 0 else int (length (s @ p)) - cap),
      currentEnd := int (length (s @ p))\<rparr> = ?h"
    using r by (simp add: log_repr_def header_of_def max_def)
  have "ok k'" using ok by simp
  then have w': "writeLog ok flocked w p =
      (Some (int (length p)), \<lparr>w_file = writeJobLogHeader g ?h, w_h = ?h\<rparr>)"
    unfolding writeLog_def Let_def cE d_def [symmetric] ring newEnd
    using False lock hdr by simp
  have fl: "32 \<le> length (w_file w)" "int (length (w_file w)) \<le> 32 + cap"
    using r by (simp_all add: log_repr_def)
  with g(2) have glen: "32 \<le> length g" "int (length g) \<le> 32 + cap"
    by (auto simp: ring_upd_def)
  have old: "\<forall>i < length s. int (length s) - cap \<le> int i \<longrightarrow>
      slot cap (int i) < length (w_file w) \<and> w_file w ! slot cap (int i) = s ! i"
    using r by (simp add: log_repr_def header_of_def)
  have kept: "slot cap (int i) < length g \<and> g ! slot cap (int i) = (s @ p) ! i"
    if "i < length (s @ p)" "int (length (s @ p)) - cap \<le> int i" for i
    by (rule ring_upd_retained [OF cap g(2) fl(1) start_def d(2,3) _ old d(1) that]) simp
  have "log_repr cap \<lparr>w_file = writeJobLogHeader g ?h, w_h = ?h\<rparr> (s @ p)"
    using glen kept slot_bounds [OF cap]
    by (auto simp: log_repr_def take_writeHeader length_writeHeader writeHeader_nth header_of_def
        simp del: length_append)
  with w' show ?thesis by blast
qed


section \<open>Reading the retained window\<close>

lemma readRing_window:
  assumes "0 < cap" and "0 \<le> start" and "start + int n \<le> int (length s)" and "start \<ge> a"
    and "\<forall>i < length s. a \<le> int i \<longrightarrow> slot cap (int i) < length f \<and> f ! slot cap (int i) = s ! i"
  shows "readRingBytes f cap start n = Some (take n (drop (nat start) s))"
  using assms
proof (induction f cap start n rule: readRingBytes.induct)
  case (1 f cap start n)
  show ?case
  proof (cases "n = 0")
    case True
    then show ?thesis by (simp add: readRingBytes.simps)
  next
    case False
    let ?n = "nat (min (int n) (cap - start mod cap))"
    let ?o = "jobLogHeaderSize + nat (start mod cap)"
    have m: "start mod cap < cap" using "1.prems"(1) by simp
    have n: "0 < ?n" "?n \<le> n" "int ?n \<le> cap - start mod cap" using False m by auto
    have at: "?o + k < length f \<and> f ! (?o + k) = s ! (nat start + k)" if "k < ?n" for k
    proof -
      have "slot cap (start + int k) = ?o + k"
        using slot_segment "1.prems"(1) that n(3) by simp
      moreover have "start + int k = int (nat start + k)" using "1.prems"(2) by simp
      moreover have "nat start + k < length s" using "1.prems"(2,3) that n(2) by linarith
      ultimately show ?thesis using "1.prems"(4,5) by (metis le_add_same_cancel1 of_nat_0_le_iff order_trans)
    qed
    have fits: "?o + ?n \<le> length f" using at [of "?n - 1"] n(1) by linarith
    have first: "readAt f ?o ?n = Some (take ?n (drop (nat start) s))"
    proof -
      have "take ?n (drop ?o f) = take ?n (drop (nat start) s)"
        using at fits n(2) "1.prems"(2,3) by (intro nth_equalityI) auto
      with fits show ?thesis by (simp add: readAt_def)
    qed
    have rest: "readRingBytes f cap (start + int ?n) (n - ?n)
        = Some (take (n - ?n) (drop (nat (start + int ?n)) s))"
      by (rule "1.IH" [OF False _ refl refl refl first])
        (use "1.prems" n(2) in \<open>auto simp: of_nat_diff\<close>)
    have "take ?n (drop (nat start) s) @ take (n - ?n) (drop (nat (start + int ?n)) s)
        = take n (drop (nat start) s)"
      using n(2) "1.prems"(2)
      by (metis add.commute drop_drop le_add_diff_inverse nat_add_distrib nat_int of_nat_0_le_iff take_add)
    then show ?thesis
      using False first rest "1.prems"(1,2) by (simp add: readRingBytes.simps [of f cap start n] Let_def)
  qed
qed


section \<open>job_output\<close>

text \<open>\<open>safeID\<close>: a non-empty string of decimal digits.\<close>

definition safeID :: "string \<Rightarrow> string + string" where
  "safeID s = (if s = [] then Inl ''job_id required''
     else if list_all is_digit s then Inr s else Inl ''invalid job_id'')"

text \<open>
  What the operating system answers while the handler runs: opening the log (the error text
  and whether it was "not exist", or the file contents), the shared lock, and \<open>fstat\<close>.
\<close>

record outputEnv =
  oe_open :: "(bool \<times> string) + bytes"
  oe_flock :: bool
  oe_stat :: bool

definition readLegacyJobOutput :: "bytes \<Rightarrow> int \<Rightarrow> int \<Rightarrow> int \<Rightarrow> Response" where
  "readLegacyJobOutput f sz requested limit =
     (let effective = (if requested > sz then sz else requested);
          want = nat (min limit (sz - effective));
          raw = take want (drop (nat effective) f);
          (output, encoding) = encodeOutputBytes raw;
          next_off = effective + int (length raw)
      in zeroResponse\<lparr>r_ok := True, r_output := output, r_outputEncoding := encoding,
           r_bytesReturned := int (length raw), r_requestedOffset := requested,
           r_availableFromOffset := 0, r_offset := Some requested, r_nextOffset := Some next_off,
           r_currentEnd := sz, r_eof := Some (next_off \<ge> sz)\<rparr>)"

definition readLimit :: "int \<Rightarrow> int" where
  "readLimit l = (if l \<le> 0 \<or> l > int maxJobOutputReadBytes then int maxJobOutputReadBytes else l)"

definition readRingOutput :: "string \<Rightarrow> bytes \<Rightarrow> jobLogHeader \<Rightarrow> int \<Rightarrow> int \<Rightarrow> Response" where
  "readRingOutput jid f h requested limit =
     (let retentionTruncated = (requested < availableFrom h);
          e0 = (if requested < availableFrom h then availableFrom h else requested);
          effective = (if e0 > currentEnd h then currentEnd h else e0);
          remaining = currentEnd h - effective;
          want = (if remaining < limit then remaining else limit)
      in case (if want > 0 then readRingBytes f (capacity h) effective (nat want) else Some []) of
           None \<Rightarrow> jobStateError ''job_output_unavailable'' ''EOF''
         | Some raw \<Rightarrow>
             (let (output, encoding) = encodeOutputBytes raw;
                  next_off = effective + int (length raw)
              in zeroResponse\<lparr>r_ok := True, r_output := output, r_outputEncoding := encoding,
                   r_bytesReturned := int (length raw), r_jobID := jid,
                   r_requestedOffset := requested, r_offset := Some requested,
                   r_availableFromOffset := availableFrom h, r_nextOffset := Some next_off,
                   r_currentEnd := currentEnd h, r_eof := Some (next_off \<ge> currentEnd h),
                   r_retentionTruncated := retentionTruncated\<rparr>))"

definition jobOutputBounded :: "outputEnv \<Rightarrow> Request \<Rightarrow> Response" where
  "jobOutputBounded env req =
     (case safeID (q_jobID req) of
        Inl e \<Rightarrow> failure ''invalid_job_id'' ''validation'' e
      | Inr jid \<Rightarrow>
          (case oe_open env of
             Inl (notExist, e) \<Rightarrow>
               failure (if notExist then ''job_not_found'' else ''job_output_unavailable'') ''state'' e
           | Inr f \<Rightarrow>
               (let requested = (if q_offset req < 0 then 0 else q_offset req);
                    limit = readLimit (q_limit req)
                in if \<not> oe_flock env then jobStateError ''job_output_unavailable'' ''flock''
                   else if \<not> oe_stat env then jobStateError ''job_output_unavailable'' ''stat''
                   else case readJobLogHeader f (int (length f)) of
                     Inl e \<Rightarrow> jobStateError ''job_output_unavailable'' e
                   | Inr None \<Rightarrow> readLegacyJobOutput f (int (length f)) requested limit
                   | Inr (Some h) \<Rightarrow> readRingOutput jid f h requested limit)))"

lemma readLimit_bounds: "0 < readLimit l \<and> readLimit l \<le> int maxJobOutputReadBytes"
  by (simp add: readLimit_def maxJobOutputReadBytes_def)

definition effectiveOffset :: "bytes \<Rightarrow> int \<Rightarrow> int" where
  "effectiveOffset s off = min (int (length s)) (max (max 0 off) (int (length s) - maxJobLogBytes))"

lemma maxJobLogBytes_pos [simp]: "0 < maxJobLogBytes"
  by (simp add: maxJobLogBytes_def)

lemma log_repr_header:
  assumes "log_repr maxJobLogBytes w s" and "int (length s) < 2 ^ 63"
  shows "readJobLogHeader (w_file w) (int (length (w_file w))) = Inr (Some (w_h w))"
  using readJobLogHeader_written [of "w_file w" "int (length s)"] assms
  by (simp add: log_repr_def)

lemma readRingOutput_window:
  assumes r: "log_repr cap w s" and cap: "0 < cap" and req: "0 \<le> requested" and lim: "0 < limit"
  defines "e \<equiv> min (int (length s)) (max requested (int (length s) - cap))"
  defines "raw \<equiv> take (nat limit) (drop (nat e) s)"
  shows "readRingOutput jid (w_file w) (w_h w) requested limit =
    (let (output, encoding) = encodeOutputBytes raw; nx = e + int (length raw) in
     zeroResponse\<lparr>r_ok := True, r_output := output, r_outputEncoding := encoding,
       r_bytesReturned := int (length raw), r_jobID := jid, r_requestedOffset := requested,
       r_offset := Some requested, r_availableFromOffset := max 0 (int (length s) - cap),
       r_nextOffset := Some nx, r_currentEnd := int (length s),
       r_eof := Some (nx \<ge> int (length s)),
       r_retentionTruncated := requested < max 0 (int (length s) - cap)\<rparr>)"
proof -
  have h: "availableFrom (w_h w) = max 0 (int (length s) - cap)" "currentEnd (w_h w) = int (length s)"
    "capacity (w_h w) = cap"
    using r by (simp_all add: log_repr_def header_of_def)
  let ?a = "max 0 (int (length s) - cap)"
  let ?e0 = "if requested < ?a then ?a else requested"
  have e: "(if ?e0 > int (length s) then int (length s) else ?e0) = e"
    using req cap by (auto simp: e_def)
  have e0: "0 \<le> e" "e \<le> int (length s)" "max 0 (int (length s) - cap) \<le> e"
    using req cap by (auto simp: e_def)
  let ?want = "if int (length s) - e < limit then int (length s) - e else limit"
  have raw: "(if ?want > 0 then readRingBytes (w_file w) cap e (nat ?want) else Some []) = Some raw"
  proof (cases "?want > 0")
    case True
    have "readRingBytes (w_file w) cap e (nat ?want) = Some (take (nat ?want) (drop (nat e) s))"
    proof (rule readRing_window [OF cap e0(1) _ e0(3)])
      show "e + int (nat ?want) \<le> int (length s)" using True by auto
      show "\<forall>i < length s. max 0 (int (length s) - cap) \<le> int i \<longrightarrow>
          slot cap (int i) < length (w_file w) \<and> w_file w ! slot cap (int i) = s ! i"
        using r by (simp add: log_repr_def h)
    qed
    moreover have "take (nat ?want) (drop (nat e) s) = raw"
      using e0(1) by (auto simp: raw_def nat_diff_distrib)
    ultimately show ?thesis using True by simp
  next
    case False
    with lim e0(2) have "e = int (length s)" by (simp split: if_splits)
    with False show ?thesis by (simp add: raw_def)
  qed
  show ?thesis
    unfolding readRingOutput_def Let_def h e raw
    by (cases "encodeOutputBytes raw") simp
qed


text \<open>Everything the runner writes, one \<open>Write\<close> call after the other.\<close>

fun writeLogs :: "jobLogWriter \<Rightarrow> bytes list \<Rightarrow> jobLogWriter" where
  "writeLogs w [] = w"
| "writeLogs w (p # ps) = writeLogs (snd (writeLog (\<lambda>_. True) True w p)) ps"

lemma writeLogs_repr:
  "log_repr maxJobLogBytes w s \<Longrightarrow> int (length (s @ concat ps)) < 2 ^ 63 \<Longrightarrow>
   log_repr maxJobLogBytes (writeLogs w ps) (s @ concat ps)"
proof (induction ps arbitrary: w s)
  case Nil
  then show ?case by simp
next
  case (Cons p ps)
  have "int (length (s @ p)) < 2 ^ 63" using Cons.prems(2) by simp
  then obtain w' where "writeLog (\<lambda>_. True) True w p = (Some (int (length p)), w')"
    "log_repr maxJobLogBytes w' (s @ p)"
    using writeLog_repr [OF Cons.prems(1), of p True "\<lambda>_. True"] by auto
  with Cons.IH [of w' "s @ p"] Cons.prems(2) show ?case by simp
qed

definition emptyLog :: logFile where
  "emptyLog = \<lparr>lf_regular = True, lf_owned = True, lf_worldWritable = False, lf_bytes = []\<rparr>"

definition freshWriter :: jobLogWriter where
  "freshWriter = (let h = \<lparr>capacity = maxJobLogBytes, availableFrom = 0, currentEnd = 0\<rparr>
     in \<lparr>w_file = writeJobLogHeader [] h, w_h = h\<rparr>)"

lemma newJobLogWriter_empty: "newJobLogWriter emptyLog True True = Inr freshWriter"
  by (simp add: newJobLogWriter_def emptyLog_def readJobLogHeader_def freshWriter_def Let_def)

lemma fresh_repr: "log_repr maxJobLogBytes freshWriter []"
  by (rule log_repr_new [OF newJobLogWriter_empty]) (simp add: emptyLog_def)

lemma writeLogs_fresh:
  "int (length (concat ps)) < 2 ^ 63 \<Longrightarrow>
   log_repr maxJobLogBytes (writeLogs freshWriter ps) (concat ps)"
  using writeLogs_repr [OF fresh_repr, of ps] by simp

text \<open>The reading client: it asks again at \<open>NextOffset\<close> until \<open>EOF\<close>.\<close>

definition readEnv :: "bytes \<Rightarrow> outputEnv" where
  "readEnv f = \<lparr>oe_open = Inr f, oe_flock = True, oe_stat = True\<rparr>"


lemma jobOutput_ring:
  assumes r: "log_repr maxJobLogBytes w s" and small: "int (length s) < 2 ^ 63"
    and jid: "safeID (q_jobID req) = Inr jid"
  shows "jobOutputBounded (readEnv (w_file w)) req =
    readRingOutput jid (w_file w) (w_h w) (max 0 (q_offset req)) (readLimit (q_limit req))"
  using log_repr_header [OF r small] jid
  by (simp add: jobOutputBounded_def readEnv_def Let_def max_def)

lemma jobOutput_fields:
  assumes r: "log_repr maxJobLogBytes w s" and small: "int (length s) < 2 ^ 63"
    and jid: "safeID (q_jobID req) = Inr jid"
  defines "resp \<equiv> jobOutputBounded (readEnv (w_file w)) req"
    and "e \<equiv> effectiveOffset s (q_offset req)"
  defines "raw \<equiv> take (nat (readLimit (q_limit req))) (drop (nat e) s)"
  shows "r_ok resp \<and> decodeOutput (r_output resp) (r_outputEncoding resp) = raw \<and>
    r_nextOffset resp = Some (e + int (length raw)) \<and>
    r_eof resp = Some (e + int (length raw) \<ge> int (length s)) \<and>
    r_currentEnd resp = int (length s) \<and>
    r_availableFromOffset resp = max 0 (int (length s) - maxJobLogBytes) \<and>
    r_retentionTruncated resp = (max 0 (q_offset req) < max 0 (int (length s) - maxJobLogBytes))"
proof -
  obtain otext oenc where enc: "encodeOutputBytes raw = (otext, oenc)"
    by (cases "encodeOutputBytes raw")
  have "resp = readRingOutput jid (w_file w) (w_h w) (max 0 (q_offset req)) (readLimit (q_limit req))"
    unfolding resp_def by (rule jobOutput_ring [OF r small jid])
  also have "\<dots> = zeroResponse\<lparr>r_ok := True, r_output := otext, r_outputEncoding := oenc,
      r_bytesReturned := int (length raw), r_jobID := jid, r_requestedOffset := max 0 (q_offset req),
      r_offset := Some (max 0 (q_offset req)), r_availableFromOffset := max 0 (int (length s) - maxJobLogBytes),
      r_nextOffset := Some (e + int (length raw)), r_currentEnd := int (length s),
      r_eof := Some (e + int (length raw) \<ge> int (length s)),
      r_retentionTruncated := max 0 (q_offset req) < max 0 (int (length s) - maxJobLogBytes)\<rparr>"
    unfolding readRingOutput_window [OF r maxJobLogBytes_pos max.cobounded1
        readLimit_bounds [THEN conjunct1]]
      effectiveOffset_def [symmetric] e_def [symmetric] raw_def [symmetric] enc Let_def prod.case ..
  finally show ?thesis
    using decode_encodeOutputBytes [OF enc] by simp
qed




section \<open>Properties\<close>

text \<open>C7. The log file refines the stream. Whatever the job prints, in whatever pieces, the file a
  fresh writer leaves behind is accepted by the header check of a later reader, stays within its
  32 bytes of header and 8 MiB of ring, and holds at the slot of every retained stream position
  exactly that byte of the stream; each write reports its full length.\<close>

theorem job_log_refines_stream:
  assumes "int (length (concat ps)) < 2 ^ 63"
  shows "newJobLogWriter emptyLog True True = Inr freshWriter \<and>
    log_repr maxJobLogBytes (writeLogs freshWriter ps) (concat ps) \<and>
    readJobLogHeader (w_file (writeLogs freshWriter ps)) (int (length (w_file (writeLogs freshWriter ps))))
      = Inr (Some (header_of maxJobLogBytes (int (length (concat ps)))))"
  using newJobLogWriter_empty writeLogs_fresh [OF assms] log_repr_header [OF _ assms]
  by (auto simp: log_repr_def)

theorem job_log_refines_stream_witness:
  "newJobLogWriter emptyLog True True = Inr freshWriter \<and>
    log_repr maxJobLogBytes (writeLogs freshWriter [''ab'', ''c'']) (concat [''ab'', ''c'']) \<and>
    readJobLogHeader (w_file (writeLogs freshWriter [''ab'', ''c'']))
      (int (length (w_file (writeLogs freshWriter [''ab'', ''c'']))))
      = Inr (Some (header_of maxJobLogBytes (int (length (concat [''ab'', ''c''])))))"
  by (rule job_log_refines_stream) simp

text \<open>\<open>job_output\<close> on a log: for every offset (negative and past the end included) and every
  limit, the decoded output is the slice of the stream that starts at the requested offset, moved up
  to the oldest retained byte or down to the end, and is as long as the effective limit and the
  stream allow; the next offset, the end-of-file flag, the retained start and the
  retention-truncated flag say exactly that.\<close>

theorem job_output_slice:
  assumes "int (length (concat ps)) < 2 ^ 63" and "safeID (q_jobID req) = Inr jid"
  defines "s \<equiv> concat ps" and "resp \<equiv> jobOutputBounded (readEnv (w_file (writeLogs freshWriter ps))) req"
  defines "e \<equiv> effectiveOffset s (q_offset req)"
  defines "raw \<equiv> take (nat (readLimit (q_limit req))) (drop (nat e) s)"
  shows "r_ok resp \<and> decodeOutput (r_output resp) (r_outputEncoding resp) = raw \<and>
    r_nextOffset resp = Some (e + int (length raw)) \<and>
    r_eof resp = Some (e + int (length raw) \<ge> int (length s)) \<and>
    r_currentEnd resp = int (length s) \<and>
    r_availableFromOffset resp = max 0 (int (length s) - maxJobLogBytes) \<and>
    r_retentionTruncated resp = (max 0 (q_offset req) < max 0 (int (length s) - maxJobLogBytes))"
  unfolding s_def resp_def e_def raw_def
  by (rule jobOutput_fields [OF writeLogs_fresh [OF assms(1)] assms(1,2)])

theorem job_output_slice_witness:
  "let req = zeroRequest\<lparr>q_jobID := ''17'', q_offset := 1, q_limit := 2\<rparr>;
       resp = jobOutputBounded (readEnv (w_file (writeLogs freshWriter [''abc'', ''d'']))) req
   in r_ok resp \<and> decodeOutput (r_output resp) (r_outputEncoding resp) = ''bc'' \<and> r_nextOffset resp = Some 3
     \<and> r_eof resp = Some False"
  using job_output_slice [of "[''abc'', ''d'']" "zeroRequest\<lparr>q_jobID := ''17'', q_offset := 1, q_limit := 2\<rparr>" "''17''"]
  by (simp add: safeID_def char_class_defs effectiveOffset_def readLimit_def maxJobLogBytes_def
      maxJobOutputReadBytes_def)



end
