(* ===== verification/State_Logic.thy ===== *)
theory State_Logic
  imports Prelude
begin

text \<open>
  Reasoning about stateful code. Handlers that touch files, systemd or the audit log are
  programs of the state monad over a world record. Two tools carry their proofs:
  \<^item> \<open>wp m Q s\<close>, the weakest precondition, with one equation per program construct;
  \<^item> the locale \<open>frame\<close>: a reflexive and transitive relation between the state before
    and the state after. A program respects it as soon as its primitives do.
\<close>

abbreviation return :: "'a \<Rightarrow> ('s, 'a) state" where
  "return \<equiv> State_Monad.return"

abbreviation get :: "('s, 's) state" where
  "get \<equiv> State_Monad.get"

definition gets :: "('s \<Rightarrow> 'a) \<Rightarrow> ('s, 'a) state" where
  "gets f = State (\<lambda>s. (f s, s))"

definition modify :: "('s \<Rightarrow> 's) \<Rightarrow> ('s, unit) state" where
  "modify f = State (\<lambda>s. ((), f s))"

lemma run_gets [simp]: "run_state (gets f) s = (f s, s)"
  by (simp add: gets_def)

lemma run_modify [simp]: "run_state (modify f) s = ((), f s)"
  by (simp add: modify_def)

section \<open>Errors\<close>

text \<open>
  A Go \<open>error\<close>: its message, and the identity that \<open>errors.Is\<close> and \<open>os.IsNotExist\<close> look at.
  \<open>wrapErr\<close> is \<open>fmt.Errorf("prefix: %w", err)\<close>, which keeps the identity. The two combinators are the
  two shapes of \<open>if err != nil { return ... }\<close>: after a call that returns a value and an error,
  and after a call that returns an error only.
\<close>

datatype errKind = NotExist | Exist | WouldBlock | Deadline | WaitDelay | Permission | OtherErr

datatype err = Err (ekind: errKind) (emsg: string)

definition newErr :: "string \<Rightarrow> err" where
  "newErr msg = Err OtherErr msg"

definition wrapErr :: "string \<Rightarrow> err \<Rightarrow> err" where
  "wrapErr pre e = Err (ekind e) (pre @ '': '' @ emsg e)"

definition isNotExist :: "err \<Rightarrow> bool" where
  "isNotExist e = (ekind e = NotExist)"

definition tryE :: "('s, 'e + 'a) state \<Rightarrow> ('e \<Rightarrow> ('s, 'b) state) \<Rightarrow> ('a \<Rightarrow> ('s, 'b) state) \<Rightarrow> ('s, 'b) state" where
  "tryE m h f = State_Monad.bind m (\<lambda>r. case r of Inl e \<Rightarrow> h e | Inr x \<Rightarrow> f x)"

definition checkE :: "('s, 'e option) state \<Rightarrow> ('e \<Rightarrow> ('s, 'b) state) \<Rightarrow> ('s, 'b) state \<Rightarrow> ('s, 'b) state" where
  "checkE m h k = State_Monad.bind m (\<lambda>r. case r of Some e \<Rightarrow> h e | None \<Rightarrow> k)"

abbreviation fail :: "'e \<Rightarrow> ('s, 'e + 'a) state" where
  "fail e \<equiv> State_Monad.return (Inl e)"

abbreviation ok :: "'a \<Rightarrow> ('s, 'e + 'a) state" where
  "ok x \<equiv> State_Monad.return (Inr x)"

section \<open>Weakest preconditions\<close>

definition wp :: "('s, 'a) state \<Rightarrow> ('a \<Rightarrow> 's \<Rightarrow> bool) \<Rightarrow> 's \<Rightarrow> bool" where
  "wp m Q s = (case run_state m s of (a, s') \<Rightarrow> Q a s')"

lemma wp_return [simp]: "wp (return x) Q s = Q x s"
  by (simp add: wp_def)

lemma wp_bind [simp]: "wp (State_Monad.bind m f) Q s = wp m (\<lambda>x. wp (f x) Q) s"
  by (simp add: wp_def split: prod.splits)

lemma wp_gets [simp]: "wp (gets f) Q s = Q (f s) s"
  by (simp add: wp_def)

lemma wp_get [simp]: "wp get Q s = Q s s"
  by (simp add: wp_def)

lemma wp_modify [simp]: "wp (modify f) Q s = Q () (f s)"
  by (simp add: wp_def)

lemma wp_if [simp]: "wp (if b then m else n) Q s = (if b then wp m Q s else wp n Q s)"
  by simp

lemma wp_option [simp]:
  "wp (case x of None \<Rightarrow> m | Some y \<Rightarrow> f y) Q s =
   (case x of None \<Rightarrow> wp m Q s | Some y \<Rightarrow> wp (f y) Q s)"
  by (simp split: option.splits)

lemma wp_sum [simp]:
  "wp (case x of Inl e \<Rightarrow> g e | Inr y \<Rightarrow> f y) Q s =
   (case x of Inl e \<Rightarrow> wp (g e) Q s | Inr y \<Rightarrow> wp (f y) Q s)"
  by (simp split: sum.splits)

lemma wp_prod [simp]:
  "wp (case p of (a, b) \<Rightarrow> f a b) Q s = (case p of (a, b) \<Rightarrow> wp (f a b) Q s)"
  by (simp split: prod.splits)

lemma wp_tryE [simp]:
  "wp (tryE m h f) Q s = wp m (\<lambda>r. case r of Inl e \<Rightarrow> wp (h e) Q | Inr x \<Rightarrow> wp (f x) Q) s"
  by (simp add: tryE_def wp_def split: prod.splits sum.splits)

lemma wp_checkE [simp]:
  "wp (checkE m h k) Q s = wp m (\<lambda>r. case r of Some e \<Rightarrow> wp (h e) Q | None \<Rightarrow> wp k Q) s"
  by (simp add: checkE_def wp_def split: prod.splits option.splits)

lemma wp_mono: "wp m Q s \<Longrightarrow> (\<And>a t. Q a t \<Longrightarrow> Q' a t) \<Longrightarrow> wp m Q' s"
  by (auto simp: wp_def split: prod.splits)

lemma wp_conj: "wp m Q s \<Longrightarrow> wp m Q' s \<Longrightarrow> wp m (\<lambda>a t. Q a t \<and> Q' a t) s"
  by (auto simp: wp_def split: prod.splits)

lemma wp_run: "wp m Q s \<longleftrightarrow> Q (fst (run_state m s)) (snd (run_state m s))"
  by (simp add: wp_def split: prod.splits)

lemma wp_runD: "wp m Q s \<Longrightarrow> run_state m s = (x, t) \<Longrightarrow> Q x t"
  by (simp add: wp_def)

section \<open>Relations every step respects\<close>

text \<open>\<open>moves R m s\<close>: started in \<open>s\<close>, the program ends in a state related to it. Unlike
  \<open>state_io_rel\<close> it may use what is known of \<open>s\<close>.\<close>

definition moves :: "('s \<Rightarrow> 's \<Rightarrow> bool) \<Rightarrow> ('s, 'a) state \<Rightarrow> 's \<Rightarrow> bool" where
  "moves R m s = R s (snd (run_state m s))"

lemma moves_all: "state_io_rel R m \<Longrightarrow> moves R m s"
  by (simp add: moves_def state_io_rel_def)

lemma all_moves: "(\<And>s. moves R m s) \<Longrightarrow> state_io_rel R m"
  by (simp add: moves_def state_io_rel_def)

lemma moves_wp: "moves R m s \<longleftrightarrow> wp m (\<lambda>_ t. R s t) s"
  by (simp add: moves_def wp_run)

locale frame =
  fixes R :: "'s \<Rightarrow> 's \<Rightarrow> bool"
  assumes step_refl: "R s s"
    and step_trans: "R s t \<Longrightarrow> R t u \<Longrightarrow> R s u"
begin

lemma on_return: "state_io_rel R (return x)"
  by (rule state_io_relI) (auto simp: step_refl)

lemma on_gets: "state_io_rel R (gets f)"
  by (rule state_io_relI) (auto simp: step_refl)

lemma on_get: "state_io_rel R get"
  by (rule state_io_relI) (auto simp: step_refl)

lemma on_modify: "(\<And>s. R s (f s)) \<Longrightarrow> state_io_rel R (modify f)"
  by (rule state_io_relI) auto

lemma on_bind:
  assumes "state_io_rel R m" and "\<And>x. state_io_rel R (f x)"
  shows "state_io_rel R (State_Monad.bind m f)"
proof (rule state_io_relI)
  fix b s u
  assume "run_state (State_Monad.bind m f) s = (b, u)"
  then obtain a t where "run_state m s = (a, t)" and "run_state (f a) t = (b, u)"
    by (auto split: prod.splits)
  then show "R s u"
    using assms by (metis state_io_relD step_trans)
qed

lemma on_if:
  "(b \<Longrightarrow> state_io_rel R m) \<Longrightarrow> (\<not> b \<Longrightarrow> state_io_rel R n) \<Longrightarrow>
   state_io_rel R (if b then m else n)"
  by simp

lemma on_option:
  "state_io_rel R m \<Longrightarrow> (\<And>y. state_io_rel R (f y)) \<Longrightarrow>
   state_io_rel R (case x of None \<Rightarrow> m | Some y \<Rightarrow> f y)"
  by (simp split: option.splits)

lemma on_sum:
  "(\<And>e. state_io_rel R (g e)) \<Longrightarrow> (\<And>y. state_io_rel R (f y)) \<Longrightarrow>
   state_io_rel R (case x of Inl e \<Rightarrow> g e | Inr y \<Rightarrow> f y)"
  by (simp split: sum.splits)

lemma on_prod:
  "(\<And>a b. state_io_rel R (f a b)) \<Longrightarrow> state_io_rel R (case p of (a, b) \<Rightarrow> f a b)"
  by (simp split: prod.splits)

lemma on_tryE:
  "state_io_rel R m \<Longrightarrow> (\<And>e. state_io_rel R (h e)) \<Longrightarrow> (\<And>x. state_io_rel R (f x)) \<Longrightarrow>
   state_io_rel R (tryE m h f)"
  unfolding tryE_def by (rule on_bind) (simp_all split: sum.splits)

lemma on_checkE:
  "state_io_rel R m \<Longrightarrow> (\<And>e. state_io_rel R (h e)) \<Longrightarrow> state_io_rel R k \<Longrightarrow>
   state_io_rel R (checkE m h k)"
  unfolding checkE_def by (rule on_bind) (simp_all split: option.splits)

lemmas steps = on_return on_gets on_get on_bind on_if on_option on_sum on_prod on_tryE on_checkE

lemma moves_return: "moves R (return x) s"
  by (simp add: moves_def step_refl)

lemma moves_bind:
  assumes "moves R m s" and "\<And>x t. run_state m s = (x, t) \<Longrightarrow> moves R (f x) t"
  shows "moves R (State_Monad.bind m f) s"
proof -
  obtain x t where run: "run_state m s = (x, t)" by fastforce
  with assms(1) have "R s t" by (simp add: moves_def)
  moreover have "R t (snd (run_state (f x) t))" using assms(2)[OF run] by (simp add: moves_def)
  ultimately show ?thesis using run by (simp add: moves_def) (rule step_trans)
qed

lemma moves_tryE:
  assumes "moves R m s" and "\<And>e t. run_state m s = (Inl e, t) \<Longrightarrow> moves R (h e) t"
    and "\<And>x t. run_state m s = (Inr x, t) \<Longrightarrow> moves R (f x) t"
  shows "moves R (tryE m h f) s"
  unfolding tryE_def using assms by (intro moves_bind) (auto split: sum.splits)

lemma moves_checkE:
  assumes "moves R m s" and "\<And>e t. run_state m s = (Some e, t) \<Longrightarrow> moves R (h e) t"
    and "\<And>t. run_state m s = (None, t) \<Longrightarrow> moves R k t"
  shows "moves R (checkE m h k) s"
  unfolding checkE_def using assms by (intro moves_bind) (auto split: option.splits)

lemma moves_if:
  "(b \<Longrightarrow> moves R m s) \<Longrightarrow> (\<not> b \<Longrightarrow> moves R n s) \<Longrightarrow> moves R (if b then m else n) s"
  by simp

lemma moves_option:
  "(x = None \<Longrightarrow> moves R m s) \<Longrightarrow> (\<And>y. x = Some y \<Longrightarrow> moves R (f y) s) \<Longrightarrow>
   moves R (case x of None \<Rightarrow> m | Some y \<Rightarrow> f y) s"
  by (simp split: option.splits)

lemma moves_sum:
  "(\<And>e. x = Inl e \<Longrightarrow> moves R (g e) s) \<Longrightarrow> (\<And>y. x = Inr y \<Longrightarrow> moves R (f y) s) \<Longrightarrow>
   moves R (case x of Inl e \<Rightarrow> g e | Inr y \<Rightarrow> f y) s"
  by (simp split: sum.splits)

lemma moves_prod:
  "(\<And>a b. p = (a, b) \<Longrightarrow> moves R (f a b) s) \<Longrightarrow> moves R (case p of (a, b) \<Rightarrow> f a b) s"
  by (simp split: prod.splits)

lemma moves_bool:
  "(b \<Longrightarrow> moves R m s) \<Longrightarrow> (\<not> b \<Longrightarrow> moves R n s) \<Longrightarrow>
   moves R (case b of True \<Rightarrow> m | False \<Rightarrow> n) s"
  by (simp split: bool.splits)

lemmas moving = moves_return moves_bind moves_tryE moves_checkE moves_if
  moves_option moves_sum moves_prod moves_bool

lemma wp_frame: "state_io_rel R m \<Longrightarrow> wp m (\<lambda>_ t. R s t) s"
  by (auto simp: wp_def split: prod.splits)

lemma run_frame: "state_io_rel R m \<Longrightarrow> R s (snd (run_state m s))"
  by (auto simp: state_io_rel_def)

end

end
