(* ===== verification/Paths.thy ===== *)
theory Paths
  imports State_Logic
begin

text \<open>
  Paths as the executor handles them: the lexical part of Go's \<open>path/filepath\<close> on Unix
  (\<open>Clean\<close>, \<open>Join\<close>, \<open>Rel\<close>, \<open>Base\<close>, \<open>Dir\<close>) and, from \<open>internal/executor/repository.go\<close>,
  \<open>withinPath\<close>, \<open>workspaceRoot\<close> and \<open>workspacePath\<close>, the check that keeps every worker path inside
  the configured workspace. What the kernel answers (symbolic links, file types, the current
  directory) is a parameter.
\<close>

section \<open>Lexical path operations\<close>

definition slash :: char where "slash = CHR 0x2F"

definition isAbs :: "string \<Rightarrow> bool" where
  "isAbs p = (case p of [] \<Rightarrow> False | c # _ \<Rightarrow> c = slash)"

text \<open>One element onto the cleaned stack (kept in reverse), as the loop of \<open>filepath.Clean\<close> does.\<close>

definition pushElem :: "bool \<Rightarrow> string list \<Rightarrow> string \<Rightarrow> string list" where
  "pushElem rooted stack e =
     (if e = [] \<or> e = ''.'' then stack
      else if e = ''..'' then
        (case stack of
           [] \<Rightarrow> if rooted then [] else [e]
         | last_elem # rest \<Rightarrow> if last_elem = ''..'' then e # stack else rest)
      else e # stack)"

definition elems :: "string \<Rightarrow> string list" where
  "elems p = rev (foldl (pushElem (isAbs p)) [] (splitOn slash p))"

fun joinElems :: "string list \<Rightarrow> string" where
  "joinElems [] = []"
| "joinElems [e] = e"
| "joinElems (e # es) = e @ slash # joinElems es"

definition mkPath :: "bool \<Rightarrow> string list \<Rightarrow> string" where
  "mkPath rooted es = (if rooted then slash # joinElems es else if es = [] then ''.'' else joinElems es)"

definition clean :: "string \<Rightarrow> string" where
  "clean p = mkPath (isAbs p) (elems p)"

definition joinPath :: "string list \<Rightarrow> string" where
  "joinPath ps = (case filter (\<lambda>p. p \<noteq> []) ps of [] \<Rightarrow> [] | qs \<Rightarrow> clean (joinElems qs))"

fun dropCommon :: "string list \<Rightarrow> string list \<Rightarrow> string list \<times> string list" where
  "dropCommon (b # bs) (t # ts) = (if b = t then dropCommon bs ts else (b # bs, t # ts))"
| "dropCommon bs ts = (bs, ts)"

text \<open>\<open>filepath.Rel\<close>: None is its error.\<close>

definition relElems :: "string \<Rightarrow> string \<Rightarrow> string list option" where
  "relElems root p =
     (if isAbs root \<noteq> isAbs p then None
      else case dropCommon (elems root) (elems p) of (bs, ts) \<Rightarrow>
        if bs \<noteq> [] \<and> (bs ! 0) = ''..'' then None
        else Some (replicate (length bs) ''..'' @ ts))"

text \<open>\<open>filepath.Base\<close> and \<open>filepath.Dir\<close> of a path that is already clean.\<close>

definition baseOf :: "string \<Rightarrow> string" where
  "baseOf p = (if p = [] then ''.'' else if elems p = [] then (if isAbs p then [slash] else ''.'') else last (elems p))"

definition dirOf :: "string \<Rightarrow> string" where
  "dirOf p = mkPath (isAbs p) (butlast (elems p))"

section \<open>The workspace boundary\<close>

record fsView =
  v_cwd :: string
  v_evalSymlinks :: "string \<Rightarrow> err + string"
  v_isDir :: "string \<Rightarrow> err + bool"

definition withinPath :: "string \<Rightarrow> string \<Rightarrow> bool" where
  "withinPath root p =
     (case relElems root p of None \<Rightarrow> False | Some [] \<Rightarrow> True | Some (e # _) \<Rightarrow> e \<noteq> ''..'')"

definition absPath :: "fsView \<Rightarrow> string \<Rightarrow> string" where
  "absPath V p = (if isAbs p then clean p else joinPath [v_cwd V, p])"

definition workspaceRoot :: "fsView \<Rightarrow> string \<Rightarrow> err + string" where
  "workspaceRoot V workspaceDir =
     (case v_evalSymlinks V (absPath V workspaceDir) of
        Inl e \<Rightarrow> Inl e
      | Inr root \<Rightarrow> Inr (clean root))"

definition workspacePath :: "fsView \<Rightarrow> string \<Rightarrow> string \<Rightarrow> bool \<Rightarrow> err + string" where
  "workspacePath V workspaceDir input mustExist =
     (if trimSpace input = [] then Inl (newErr ''workspace path is empty'')
      else case workspaceRoot V workspaceDir of
        Inl e \<Rightarrow> Inl e
      | Inr root \<Rightarrow>
        let path = clean (if isAbs input then input else joinPath [root, input]) in
        if \<not> withinPath root path then Inl (newErr ''path is outside the configured workspace'')
        else if mustExist then
          (case v_evalSymlinks V path of
             Inl e \<Rightarrow> Inl e
           | Inr resolved0 \<Rightarrow>
             let resolved = clean resolved0 in
             if \<not> withinPath root resolved
             then Inl (newErr ''resolved path is outside the configured workspace'')
             else case v_isDir V resolved of
                 Inl e \<Rightarrow> Inl e
               | Inr d \<Rightarrow> if d then Inr resolved else Inl (newErr ''workspace path is not a directory''))
        else
          (case v_evalSymlinks V (dirOf path) of
             Inl e \<Rightarrow> Inl (wrapErr ''resolve worktree parent'' e)
           | Inr parent0 \<Rightarrow>
             let parent = clean parent0; base = baseOf path in
             if \<not> withinPath root parent
             then Inl (newErr ''worktree parent resolves outside the configured workspace'')
             else if base = ''.'' \<or> base = [slash] \<or> base = [] then Inl (newErr ''invalid worktree path'')
             else Inr (joinPath [parent, base])))"

definition safeWorkspaceRelativeFile :: "string \<Rightarrow> err + string" where
  "safeWorkspaceRelativeFile p =
     (if length p > 4096 \<or> CHR 0x00 \<in> set p \<or> isAbs p
      then Inl (newErr ''file path must be a bounded relative path'')
      else let c = clean p in
        if ''.git'' \<in> set (splitOn slash c)
        then Inl (newErr ''Git administrative files are not ordinary source files'')
        else if c = ''.'' \<or> c = ''..'' \<or> hasPrefix c (''..'' @ [slash])
        then Inl (newErr ''file path must remain within source files, outside Git administrative metadata'')
        else Inr c)"


section \<open>Cleaned paths\<close>

text \<open>The elements a cleaned path can have, and the stacks the cleaning loop can build.\<close>

definition good_elem :: "string \<Rightarrow> bool" where
  "good_elem e = (e \<noteq> [] \<and> e \<noteq> ''.'' \<and> slash \<notin> set e)"

definition good_elems :: "bool \<Rightarrow> string list \<Rightarrow> bool" where
  "good_elems rooted es =
     (list_all good_elem es \<and>
      (\<exists>n rest. es = replicate n ''..'' @ rest \<and> ''..'' \<notin> set rest \<and> (rooted \<longrightarrow> n = 0)))"

lemma splitOn_no_sep: "e \<in> set (splitOn d s) \<Longrightarrow> d \<notin> set e"
  by (induction d s arbitrary: e rule: splitOn.induct) (auto split: if_splits list.splits)

lemma splitOn_noop: "d \<notin> set s \<Longrightarrow> splitOn d s = [s]"
  by (induction s) auto

lemma splitOn_append: "d \<notin> set e \<Longrightarrow> splitOn d (e @ d # s) = e # splitOn d s"
  by (induction e) auto

lemma dots_snoc: "replicate n a @ [a] = replicate (Suc n) a"
  by (induction n) auto

lemma pushElem_good:
  assumes "good_elems r (rev stack)" and "slash \<notin> set e"
  shows "good_elems r (rev (pushElem r stack e))"
proof -
  have all: "list_all good_elem (rev stack)"
    using assms(1) unfolding good_elems_def by (rule conjunct1)
  obtain n rest where st: "rev stack = replicate n ''..'' @ rest" "''..'' \<notin> set rest" "r \<longrightarrow> n = 0"
    using assms(1) unfolding good_elems_def by blast
  consider "e = [] \<or> e = ''.''" | "e = ''..''" | "e \<noteq> []" "e \<noteq> ''.''" "e \<noteq> ''..''" by blast
  then show ?thesis
  proof cases
    case 1
    then show ?thesis using assms(1) by (auto simp: pushElem_def)
  next
    case 2
    show ?thesis
    proof (cases "rest = []")
      case True
      then have stack: "stack = replicate n ''..''"
        using st(1) by (metis append_Nil2 rev_replicate rev_swap)
      have "good_elems r (rev (pushElem r (replicate n ''..'') ''..''))"
      proof (cases n)
        case 0
        have "r \<or> good_elems r [''..'']"
          unfolding good_elems_def
          by (auto intro!: exI[of _ "1::nat"] exI[of _ "[]"] simp: good_elem_def slash_def)
        moreover have "good_elems r []" by (auto simp: good_elems_def)
        ultimately show ?thesis using 0 by (auto simp: pushElem_def)
      next
        case (Suc m)
        then have "\<not> r" using st(3) by simp
        have "rev (pushElem r (replicate n ''..'') ''..'') = replicate (Suc n) ''..''"
          using Suc by (simp add: pushElem_def dots_snoc replicate_append_same)
        moreover have "good_elems r (replicate (Suc n) ''..'')"
          unfolding good_elems_def using \<open>\<not> r\<close>
          by (auto intro!: exI[of _ "Suc n"] exI[of _ "[]"] simp: good_elem_def slash_def list_all_iff)
        ultimately show ?thesis by simp
      qed
      then show ?thesis using stack 2 by simp
    next
      case False
      then obtain xs x where rest: "rest = xs @ [x]" by (metis rev_exhaust)
      then have "stack = x # rev xs @ replicate n ''..''"
        using st(1) by (metis append.assoc rev_append rev_replicate rev_rev_ident rev_singleton_conv append_Cons append_Nil)
      moreover have "x \<noteq> ''..''" using st(2) rest by auto
      ultimately have "rev (pushElem r stack e) = replicate n ''..'' @ xs"
        using 2 by (simp add: pushElem_def)
      then show ?thesis
        using st rest all unfolding good_elems_def by (auto simp: list_all_iff)
    qed
  next
    case 3
    then have "rev (pushElem r stack e) = replicate n ''..'' @ (rest @ [e])"
      using st by (simp add: pushElem_def)
    moreover have "good_elem e" using 3 assms(2) by (simp add: good_elem_def)
    moreover have "list_all good_elem (replicate n ''..'' @ rest)" using all st(1) by simp
    moreover have "''..'' \<notin> set (rest @ [e])" using st(2) 3 by simp
    ultimately show ?thesis
      using st(3) \<open>good_elem e\<close> unfolding good_elems_def
      by (intro conjI exI[of _ n] exI[of _ "rest @ [e]"]) simp_all
  qed
qed

lemma foldl_pushElem_good:
  "good_elems r (rev stack) \<Longrightarrow> \<forall>e \<in> set es. slash \<notin> set e \<Longrightarrow>
   good_elems r (rev (foldl (pushElem r) stack es))"
  by (induction es arbitrary: stack) (auto intro: pushElem_good)

lemma elems_good: "good_elems (isAbs p) (elems p)"
proof -
  have "good_elems (isAbs p) (rev [])" by (auto simp: good_elems_def)
  then show ?thesis
    unfolding elems_def by (rule foldl_pushElem_good) (auto dest: splitOn_no_sep)
qed

lemma foldl_pushElem_id:
  assumes "good_elems r (rev stack @ es)"
  shows "foldl (pushElem r) stack es = rev es @ stack"
  using assms
proof (induction es arbitrary: stack)
  case (Cons e es)
  have g: "good_elem e" using Cons.prems by (auto simp: good_elems_def)
  have "pushElem r stack e = e # stack"
  proof (cases "e = ''..''")
    case True
    obtain n rest where n: "rev stack @ e # es = replicate n ''..'' @ rest" "''..'' \<notin> set rest" "r \<longrightarrow> n = 0"
      using Cons.prems by (auto simp: good_elems_def)
    have len: "length (rev stack) < n"
    proof (rule ccontr)
      assume "\<not> length (rev stack) < n"
      then have "n \<le> length (rev stack)" by simp
      then have "rest = drop n (rev stack @ e # es)" using n(1) by simp
      then have "rest = drop n (rev stack) @ e # es" using \<open>n \<le> length (rev stack)\<close> by simp
      then show False using n(2) True by simp
    qed
    then have "rev stack = take (length stack) (replicate n ''..'' @ rest)"
      using n(1) by (metis append_eq_conv_conj length_rev)
    then have "rev stack = replicate (length stack) ''..''"
      using len by simp
    then have "stack = replicate (length stack) ''..''"
      by (metis rev_replicate rev_swap)
    moreover have "\<not> r" using n(3) len by auto
    ultimately show ?thesis using True by (cases stack) (auto simp: pushElem_def)
  next
    case False
    then show ?thesis using g by (auto simp: pushElem_def good_elem_def)
  qed
  moreover have "good_elems r (rev (e # stack) @ es)" using Cons.prems by simp
  ultimately show ?case using Cons.IH[of "e # stack"] by simp
qed simp

lemma splitOn_joinElems:
  "list_all good_elem es \<Longrightarrow> es \<noteq> [] \<Longrightarrow> splitOn slash (joinElems es) = es"
  by (induction es rule: joinElems.induct)
     (auto simp: splitOn_noop good_elem_def splitOn_append)

lemma isAbs_joinElems: "list_all good_elem es \<Longrightarrow> \<not> isAbs (joinElems es)"
  by (cases es rule: joinElems.cases)
     (auto simp: isAbs_def good_elem_def Cons_eq_append_conv append_eq_Cons_conv split: list.splits)

lemma isAbs_mkPath:
  assumes "good_elems r es"
  shows "isAbs (mkPath r es) = r"
proof (cases r)
  case True
  then show ?thesis by (simp add: mkPath_def isAbs_def)
next
  case False
  have "list_all good_elem es" using assms by (auto simp: good_elems_def)
  then have "\<not> isAbs (joinElems es)" by (rule isAbs_joinElems)
  moreover have "\<not> isAbs ''.''" by (simp add: isAbs_def slash_def)
  ultimately show ?thesis using False by (auto simp: mkPath_def)
qed

lemma elems_mkPath:
  assumes "good_elems r es"
  shows "elems (mkPath r es) = es"
proof -
  have all: "list_all good_elem es" using assms by (auto simp: good_elems_def)
  have abs: "isAbs (mkPath r es) = r" by (rule isAbs_mkPath[OF assms])
  have id: "foldl (pushElem r) [] es = rev es"
    using foldl_pushElem_id[of r "[]" es] assms by simp
  consider "es = []" "r" | "es = []" "\<not> r" | "es \<noteq> []" by blast
  then show ?thesis
  proof cases
    case 1
    then show ?thesis by (simp add: elems_def mkPath_def pushElem_def)
  next
    case 2
    then show ?thesis using abs by (simp add: elems_def mkPath_def pushElem_def slash_def)
  next
    case 3
    have "foldl (pushElem r) [] (splitOn slash (mkPath r es)) = foldl (pushElem r) [] es"
      using 3 all by (simp add: mkPath_def splitOn_joinElems pushElem_def)
    then show ?thesis using abs id by (simp add: elems_def)
  qed
qed

lemma elems_clean [simp]: "elems (clean p) = elems p"
  unfolding clean_def by (rule elems_mkPath[OF elems_good])

lemma isAbs_clean [simp]: "isAbs (clean p) = isAbs p"
  unfolding clean_def by (rule isAbs_mkPath[OF elems_good])

lemma clean_idem [simp]: "clean (clean p) = clean p"
  by (simp add: clean_def[of "clean p"]) (simp add: clean_def)


section \<open>Containment\<close>

lemma dropCommon_prefix: "dropCommon bs ts = ([], rest) \<longleftrightarrow> ts = bs @ rest"
  by (induction bs ts rule: dropCommon.induct) auto

lemma dropCommon_rest: "dropCommon bs ts = (bs', ts') \<Longrightarrow> set bs' \<subseteq> set bs \<and> set ts' \<subseteq> set ts"
  by (induction bs ts rule: dropCommon.induct) (auto split: if_splits)

lemma abs_no_dotdot: "isAbs p \<Longrightarrow> ''..'' \<notin> set (elems p)"
  using elems_good[of p] by (auto simp: good_elems_def)

text \<open>For absolute paths the boundary check is exactly: the root's elements are a prefix.\<close>

lemma withinPath_iff:
  assumes "isAbs root" and "isAbs p"
  shows "withinPath root p \<longleftrightarrow> prefix (elems root) (elems p)"
proof -
  obtain bs ts where d: "dropCommon (elems root) (elems p) = (bs, ts)" by fastforce
  have sub: "set bs \<subseteq> set (elems root)" "set ts \<subseteq> set (elems p)"
    using dropCommon_rest[OF d] by auto
  then have nb: "bs \<noteq> [] \<longrightarrow> bs ! 0 \<noteq> ''..''" and nt: "ts \<noteq> [] \<longrightarrow> ts ! 0 \<noteq> ''..''"
    using abs_no_dotdot[OF assms(1)] abs_no_dotdot[OF assms(2)]
    by (metis nth_mem length_greater_0_conv subsetD)+
  show ?thesis
  proof (cases bs)
    case Nil
    then have "elems p = elems root @ ts" using d dropCommon_prefix by auto
    then show ?thesis
      using assms d Nil nt by (auto simp: withinPath_def relElems_def split: list.splits)
  next
    case (Cons b bs')
    then have "\<not> prefix (elems root) (elems p)"
      using d dropCommon_prefix by (metis list.distinct(1) prefixE prod.inject)
    then show ?thesis
      using assms d Cons nb by (auto simp: withinPath_def relElems_def)
  qed
qed

text \<open>What a resolved path must satisfy.\<close>

definition inside :: "string \<Rightarrow> string \<Rightarrow> bool" where
  "inside root p = (isAbs p \<and> clean p = p \<and> prefix (elems root) (elems p))"

definition resolves_absolute :: "fsView \<Rightarrow> bool" where
  "resolves_absolute V = (isAbs (v_cwd V) \<and>
     (\<forall>p r. isAbs p \<longrightarrow> v_evalSymlinks V p = Inr r \<longrightarrow> isAbs r))"

lemma joinPath_two:
  "a \<noteq> [] \<Longrightarrow> b \<noteq> [] \<Longrightarrow> joinPath [a, b] = clean (a @ slash # b)"
  by (simp add: joinPath_def)

lemma isAbs_append: "isAbs a \<Longrightarrow> isAbs (a @ b)"
  by (auto simp: isAbs_def split: list.splits)

lemma isAbs_joinPath: "isAbs a \<Longrightarrow> isAbs (joinPath [a, b])"
  by (cases "a = []"; cases "b = []")
     (auto simp: joinPath_def isAbs_append, simp add: isAbs_def)

lemma isAbs_absPath: "resolves_absolute V \<Longrightarrow> isAbs (absPath V p)"
  by (auto simp: absPath_def resolves_absolute_def isAbs_joinPath)

lemma workspaceRoot_abs:
  "resolves_absolute V \<Longrightarrow> workspaceRoot V W = Inr root \<Longrightarrow> isAbs root \<and> clean root = root"
  using isAbs_absPath[of V W]
  by (auto simp: workspaceRoot_def resolves_absolute_def split: sum.splits)

lemma splitOn_join: "splitOn d (a @ d # b) = splitOn d a @ splitOn d b"
  by (induction a) (auto split: list.splits)

lemma elems_snoc:
  assumes "isAbs a" and "good_elem e" and "e \<noteq> ''..''"
  shows "elems (joinPath [a, e]) = elems a @ [e]"
proof -
  have "a \<noteq> []" "e \<noteq> []" using assms by (auto simp: isAbs_def good_elem_def)
  then have "elems (joinPath [a, e]) = elems (a @ slash # e)" by (simp add: joinPath_two)
  moreover have "splitOn slash e = [e]" using assms(2) by (simp add: good_elem_def splitOn_noop)
  ultimately show ?thesis
    using assms by (simp add: elems_def isAbs_append splitOn_join pushElem_def good_elem_def)
qed

lemma baseOf_good:
  assumes "isAbs p" and "baseOf p \<noteq> [slash]" and "baseOf p \<noteq> ''.''"
  shows "good_elem (baseOf p) \<and> baseOf p \<noteq> ''..''"
proof -
  have "p \<noteq> []" using assms(1) by (auto simp: isAbs_def)
  moreover have "elems p \<noteq> []"
    using assms(1,2) \<open>p \<noteq> []\<close> by (cases "elems p = []") (simp_all add: baseOf_def)
  ultimately have "elems p \<noteq> []" and "p \<noteq> []" by simp_all
  then have m: "last (elems p) \<in> set (elems p)" and b: "baseOf p = last (elems p)"
    using \<open>p \<noteq> []\<close> by (simp_all add: baseOf_def)
  have "good_elem (last (elems p))"
    using elems_good[of p] m by (simp add: good_elems_def list_all_iff)
  moreover have "last (elems p) \<noteq> ''..''" using m abs_no_dotdot[OF assms(1)] by metis
  ultimately show ?thesis using b by simp
qed

lemma isAbs_dirOf: "isAbs p \<Longrightarrow> isAbs (dirOf p)"
  by (simp add: dirOf_def mkPath_def isAbs_def)

text \<open>C8. A worker path never leaves the workspace. Whatever a caller passes as a workspace path
  (relative, absolute, with dots or doubled slashes) and wherever the symbolic links lead, a path
  that \<open>workspacePath\<close> accepts is absolute, clean, and lies under the resolved workspace root, element
  by element; for a path yet to be created it is a new entry of a directory that lies under it.\<close>

theorem workspacePath_contained:
  assumes "resolves_absolute V"
    and "workspacePath V W input mustExist = Inr p"
  shows "\<exists>root. workspaceRoot V W = Inr root \<and> inside root p \<and>
           (if mustExist then v_isDir V p = Inr True else elems p \<noteq> elems root)"
proof -
  obtain root where root: "workspaceRoot V W = Inr root"
    using assms(2) by (auto simp: workspacePath_def split: if_splits sum.splits)
  note abs_root = workspaceRoot_abs[OF assms(1) root]
  define path where "path = clean (if isAbs input then input else joinPath [root, input])"
  have abs_path: "isAbs path" using abs_root isAbs_joinPath by (simp add: path_def)
  show ?thesis
  proof (cases mustExist)
    case True
    then obtain q where q: "v_evalSymlinks V path = Inr q" "p = clean q" "withinPath root p"
        "v_isDir V p = Inr True"
      using assms(2) root
      by (auto simp: workspacePath_def Let_def path_def[symmetric] split: if_splits sum.splits)
    have "isAbs q" using q(1) abs_path assms(1) by (auto simp: resolves_absolute_def)
    then show ?thesis
      using q root abs_root True by (auto simp: inside_def withinPath_iff)
  next
    case False
    then obtain q where q: "v_evalSymlinks V (dirOf path) = Inr q" "withinPath root (clean q)"
        "baseOf path \<noteq> ''.''" "baseOf path \<noteq> [slash]" "p = joinPath [clean q, baseOf path]"
      using assms(2) root
      by (auto simp: workspacePath_def Let_def path_def[symmetric] split: if_splits sum.splits)
    have "isAbs q"
      using q(1) isAbs_dirOf[OF abs_path] assms(1) by (auto simp: resolves_absolute_def)
    then have pre: "prefix (elems root) (elems q)"
      using q(2) abs_root withinPath_iff[of root "clean q"] by simp
    note good = baseOf_good[OF abs_path q(4,3)]
    have el: "elems p = elems q @ [baseOf path]"
      using q(5) elems_snoc[of "clean q" "baseOf path"] good \<open>isAbs q\<close> by simp
    have "clean p = p"
      using q(5) good \<open>isAbs q\<close> by (auto simp: joinPath_def good_elem_def isAbs_def)
    then have "inside root p"
      using el pre q(5) \<open>isAbs q\<close> isAbs_joinPath by (auto simp: inside_def)
    moreover obtain zs where "elems q = elems root @ zs" using pre by (rule prefixE)
    then have "elems p \<noteq> elems root" using el by simp
    ultimately show ?thesis using root False by auto
  qed
qed

theorem workspacePath_contained_witness:
  "inside ''/srv/ws'' ''/srv/ws/new''"
proof -
  let ?V = "\<lparr>v_cwd = ''/'', v_evalSymlinks = (\<lambda>p. if p = ''/srv/link'' then Inr ''/srv/ws'' else Inr p),
             v_isDir = (\<lambda>_. Inr True)\<rparr>"
  have "resolves_absolute ?V" by (simp add: resolves_absolute_def isAbs_def slash_def)
  moreover have root: "workspaceRoot ?V ''/srv/link'' = Inr ''/srv/ws''" by code_simp
  moreover have "trimSpace ''a/../new'' = ''a/../new''"
    by (simp add: trimSpace_ascii ascii_def rune_space_def)
  moreover have "workspacePath ?V ''/srv/link'' ''a/../new'' False = Inr ''/srv/ws/new''"
  proof -
    have "isAbs ''a/../new'' = False" "joinPath [''/srv/ws'', ''a/../new''] = ''/srv/ws/new''"
      "clean ''/srv/ws/new'' = ''/srv/ws/new''" "clean ''/srv/ws'' = ''/srv/ws''"
      "withinPath ''/srv/ws'' ''/srv/ws/new''" "withinPath ''/srv/ws'' ''/srv/ws''"
      "dirOf ''/srv/ws/new'' = ''/srv/ws''" "baseOf ''/srv/ws/new'' = ''new''"
      "joinPath [''/srv/ws'', ''new''] = ''/srv/ws/new''" "slash = CHR 0x2F"
      by code_simp+
    then show ?thesis using root \<open>trimSpace _ = _\<close> by (simp add: workspacePath_def)
  qed
  ultimately show ?thesis
    using workspacePath_contained[of ?V "''/srv/link''" "''a/../new''" False "''/srv/ws/new''"] by auto
qed

lemma not_dotdot_relative:
  assumes "\<not> isAbs p" and "clean p \<noteq> ''..''" and "\<not> hasPrefix (clean p) (''..'' @ [slash])"
    and "elems p \<noteq> []"
  shows "''..'' \<notin> set (elems p)"
proof -
  obtain n rest where e: "elems p = replicate n ''..'' @ rest" "''..'' \<notin> set rest"
    using elems_good[of p] by (auto simp: good_elems_def)
  have "n = 0"
  proof (rule ccontr)
    assume "n \<noteq> 0"
    then obtain m where "n = Suc m" by (cases n) auto
    then have "elems p = ''..'' # (replicate m ''..'' @ rest)" using e by simp
    moreover have "clean p = joinElems (elems p)" using assms(1,4) by (simp add: clean_def mkPath_def)
    ultimately show False
      using assms(2,3) by (cases "replicate m ''..'' @ rest") (auto simp: hasPrefix_iff)
  qed
  then show ?thesis using e by simp
qed

text \<open>A source-file path that is accepted stays among the source files: joined to any absolute
  root it is strictly below that root, by exactly its own elements, and no element of it is
  \<open>..\<close> or \<open>.git\<close>, so Git's administrative directory is out of reach too.\<close>

theorem safeWorkspaceRelativeFile_sound:
  assumes "safeWorkspaceRelativeFile p = Inr c" and "isAbs root"
  shows "elems (joinPath [root, c]) = elems root @ elems p \<and> elems p \<noteq> [] \<and>
         ''..'' \<notin> set (elems p) \<and> ''.git'' \<notin> set (elems p) \<and> c = clean p"
proof -
  have c: "c = clean p" "\<not> isAbs p" "''.git'' \<notin> set (splitOn slash c)" "c \<noteq> ''.''" "c \<noteq> ''..''"
      "\<not> hasPrefix c (''..'' @ [slash])"
    using assms(1) by (auto simp: safeWorkspaceRelativeFile_def Let_def split: if_splits)
  have ne: "elems p \<noteq> []" using c by (auto simp: clean_def mkPath_def)
  have all: "list_all good_elem (elems p)" using elems_good[of p] by (simp add: good_elems_def)
  have split: "splitOn slash c = elems p"
    using c(1,2) ne all by (simp add: clean_def mkPath_def splitOn_joinElems)
  have nodots: "''..'' \<notin> set (elems p)" using not_dotdot_relative c ne by blast
  have "c \<noteq> []"
  proof
    assume "c = []"
    then have "elems p = [[]]" using split by simp
    then show False using all by (simp add: good_elem_def)
  qed
  moreover have "root \<noteq> []" using assms(2) by (auto simp: isAbs_def)
  ultimately have "elems (joinPath [root, c]) = elems (root @ slash # c)" by (simp add: joinPath_two)
  also have "\<dots> = rev (foldl (pushElem True) (rev (elems root)) (splitOn slash c))"
    using assms(2) by (simp add: elems_def isAbs_append splitOn_join)
  finally have "elems (joinPath [root, c]) = rev (foldl (pushElem True) (rev (elems root)) (elems p))"
    using split by simp
  moreover have "good_elems True (rev (rev (elems root)) @ elems p)"
    using elems_good[of root] abs_no_dotdot[OF assms(2)] all nodots
    by (auto simp: good_elems_def intro!: exI[of _ "elems root @ elems p"] exI[of _ "0::nat"])
  ultimately show ?thesis
    using ne nodots c(1,3) split by (simp add: foldl_pushElem_id)
qed

theorem safeWorkspaceRelativeFile_sound_witness:
  "elems (joinPath [''/srv/ws'', ''a/c'']) = [''srv'', ''ws'', ''a'', ''c'']"
proof -
  have "safeWorkspaceRelativeFile ''./a/b/../c'' = Inr ''a/c''" by code_simp
  moreover have "isAbs ''/srv/ws''" by code_simp
  ultimately have "elems (joinPath [''/srv/ws'', ''a/c'']) = elems ''/srv/ws'' @ elems ''./a/b/../c''"
    using safeWorkspaceRelativeFile_sound by blast
  moreover have "elems ''/srv/ws'' @ elems ''./a/b/../c'' = [''srv'', ''ws'', ''a'', ''c'']" by code_simp
  ultimately show ?thesis by simp
qed

end
