(* ===== verification/JobWorld.thy ===== *)
theory JobWorld
  imports JobLog Paths "HOL-Library.AList"
begin

text \<open>
  The world of the persistent-job handlers of \<open>internal/executor\<close>: the files of the \<open>jobs\<close>
  directory, the protected claims of \<open>jobs/claims\<close>, the audit latch, and a trace of what reached
  systemd and the audit log. Every system call consumes one tick. What the machine answers at a
  tick (clock, failure, systemd's output, what the concurrent job runner does to its files) is the
  environment, a parameter of every operation: a fault can hit any call, and a crash at tick \<open>n\<close>
  is an environment in which every call from \<open>n\<close> on fails.
\<close>

section \<open>State\<close>

datatype fileKind = Regular | Symlink | Directory | Special

record jobFile =
  jf_kind :: fileKind
  jf_uid :: nat
  jf_worldWritable :: bool
  jf_content :: bytes
  jf_mod :: int

record jobClaim =
  c_version :: int
  c_jobID :: string
  c_fingerprint :: string
  c_state :: string
  c_createdAt :: string
  c_principalID :: string
  c_principalClass :: string
  c_root :: bool
  c_workspace :: string
  c_kind :: string
  c_label :: string
  c_verifiedStopped :: bool

text \<open>A claim file holds the document \<open>json.Marshal\<close> wrote, or bytes that are not one (a write that
  failed half way). \<open>cf_private\<close>: no permission bit for group or others.\<close>

datatype claimBody = Doc jobClaim | Junk

record claimFile =
  cf_kind :: fileKind
  cf_uid :: nat
  cf_private :: bool
  cf_body :: claimBody
  cf_size :: int
  cf_mod :: int

datatype event = Systemd "string list" | AuditStart string bool | AuditComplete string bool

record world =
  tick :: nat
  jobFiles :: "(string \<times> jobFile) list"
  claimFiles :: "(string \<times> claimFile) list"
  held :: "string option"
  degraded :: bool
  trace :: "event list"

text \<open>
  The environment: first the executor's own configuration, then what the machine does.
  \<open>e_runner\<close> is what the job's runner and the worker do to the \<open>jobs\<close> files during a tick, told
  which file the executor holds locked.
\<close>

record env =
  sv_stateDir :: string
  sv_workspaceDir :: string
  sv_workerUser :: string
  sv_workerUID :: nat
  sv_workerGID :: nat
  sv_euid :: nat
  sv_token :: bytes
  sv_guard :: Guard
  sv_taskSlots :: int
  sv_serviceSlots :: int
  sv_lifecycleLock :: bool
  sv_audit :: bool
  sv_executable :: string
  e_now :: "nat \<Rightarrow> int"
  e_fault :: "nat \<Rightarrow> err option"
  e_runner :: "nat \<Rightarrow> string option \<Rightarrow> (string \<times> jobFile) list \<Rightarrow> (string \<times> jobFile) list"
  e_systemd :: "nat \<Rightarrow> string list \<Rightarrow> bytes list \<times> err option"
  e_free :: "nat \<Rightarrow> int"
  e_view :: "nat \<Rightarrow> fsView"
  e_home :: "nat \<Rightarrow> bool"
  e_formatTime :: "int \<Rightarrow> string"
  e_parseTime :: "string \<Rightarrow> int option"
  e_sha256 :: "bytes \<Rightarrow> string"
  e_hmac :: "bytes \<Rightarrow> bytes \<Rightarrow> string"

type_synonym 'a prog = "(world, 'a) state"

section \<open>System calls\<close>

definition advance :: "env \<Rightarrow> world \<Rightarrow> world" where
  "advance E w = w\<lparr>tick := tick w + 1, jobFiles := e_runner E (tick w) (held w) (jobFiles w)\<rparr>"

text \<open>One system call whose only result is an error or none.\<close>

definition syscall :: "env \<Rightarrow> err option prog" where
  "syscall E = State (\<lambda>w. (e_fault E (tick w), advance E w))"

definition nowNano :: "env \<Rightarrow> int prog" where
  "nowNano E = State (\<lambda>w. (e_now E (tick w), advance E w))"

definition record_event :: "event \<Rightarrow> unit prog" where
  "record_event ev = modify (\<lambda>w. w\<lparr>trace := ev # trace w\<rparr>)"

text \<open>A call that fails with \<open>Some e\<close>, or runs its continuation.\<close>

abbreviation callV :: "env \<Rightarrow> (err + 'a) prog \<Rightarrow> (err + 'a) prog" where
  "callV E k \<equiv> checkE (syscall E) (\<lambda>e. State_Monad.return (Inl e)) k"

abbreviation callU :: "env \<Rightarrow> err option prog \<Rightarrow> err option prog" where
  "callU E k \<equiv> checkE (syscall E) (\<lambda>e. State_Monad.return (Some e)) k"

abbreviation nil :: "err option prog" where
  "nil \<equiv> State_Monad.return None"

text \<open>\<open>trustedDir\<close>: \<open>Lstat\<close> and the checks on its answer are one call that may refuse.\<close>

definition trustedDir :: "env \<Rightarrow> err option prog" where
  "trustedDir E = syscall E"

section \<open>The jobs directory\<close>

definition putJob :: "string \<Rightarrow> jobFile \<Rightarrow> unit prog" where
  "putJob name f = modify (\<lambda>w. w\<lparr>jobFiles := AList.update name f (jobFiles w)\<rparr>)"

definition editJob :: "string \<Rightarrow> (jobFile \<Rightarrow> jobFile) \<Rightarrow> unit prog" where
  "editJob name g = modify (\<lambda>w. w\<lparr>jobFiles := AList.map_entry name g (jobFiles w)\<rparr>)"

definition openFile :: "env \<Rightarrow> string \<Rightarrow> (err + jobFile) prog" where
  "openFile E name = callV E (gets (\<lambda>w.
     case map_of (jobFiles w) name of
       None \<Rightarrow> Inl (Err NotExist ''no such file or directory'')
     | Some f \<Rightarrow> if jf_kind f = Symlink then Inl (newErr ''too many levels of symbolic links'') else Inr f))"

definition openJobFile :: "env \<Rightarrow> string \<Rightarrow> (err + jobFile) prog" where
  "openJobFile E name =
     tryE (openFile E name) fail (\<lambda>f. callV E (
       if jf_kind f \<noteq> Regular then fail (newErr (''job path is not a regular file: '' @ name))
       else if jf_uid f \<noteq> 0 \<and> jf_uid f \<noteq> sv_workerUID E
       then fail (newErr (''job file has an unexpected owner: '' @ name))
       else if jf_worldWritable f then fail (newErr (''job file is world-writable: '' @ name))
       else ok f))"

text \<open>Reading an open file reads what it holds now; the descriptor outlives the name.\<close>

definition readFile :: "env \<Rightarrow> string \<Rightarrow> jobFile \<Rightarrow> nat \<Rightarrow> (err + bytes) prog" where
  "readFile E name opened n = callV E (gets (\<lambda>w.
     Inr (take n (jf_content (case map_of (jobFiles w) name of None \<Rightarrow> opened | Some f \<Rightarrow> f)))))"

definition createJobFile :: "env \<Rightarrow> string \<Rightarrow> nat \<Rightarrow> err option prog" where
  "createJobFile E name uid = callU E (do {
     w \<leftarrow> get;
     if map_of (jobFiles w) name \<noteq> None then return (Some (Err Exist ''file exists''))
     else do {
       putJob name \<lparr>jf_kind = Regular, jf_uid = sv_euid E, jf_worldWritable = False, jf_content = [],
                    jf_mod = e_now E (tick w)\<rparr>;
       callU E (do {
         editJob name (\<lambda>f. f\<lparr>jf_uid := uid\<rparr>);
         syscall E }) } })"

definition removeFile :: "env \<Rightarrow> string \<Rightarrow> err option prog" where
  "removeFile E name = callU E (do {
     w \<leftarrow> get;
     if map_of (jobFiles w) name = None then return (Some (Err NotExist ''no such file or directory''))
     else do { modify (\<lambda>w. w\<lparr>jobFiles := AList.delete name (jobFiles w)\<rparr>); return None } })"

record jobPaths =
  p_command :: string
  p_log :: string
  p_status :: string
  p_started :: string

definition jobPathsFor :: "string \<Rightarrow> jobPaths" where
  "jobPathsFor jid = \<lparr>p_command = jid @ ''.cmd'', p_log = jid @ ''.log'', p_status = jid @ ''.status'',
     p_started = jid @ ''.started''\<rparr>"

definition allPaths :: "jobPaths \<Rightarrow> string list" where
  "allPaths ps = [p_command ps, p_log ps, p_status ps, p_started ps]"

text \<open>All four are tried; the first error that is not "not exist" is reported.\<close>

fun removeAll :: "env \<Rightarrow> string list \<Rightarrow> err option \<Rightarrow> err option prog" where
  "removeAll E [] firstErr = return firstErr"
| "removeAll E (p # ps) firstErr = do {
     r \<leftarrow> removeFile E p;
     removeAll E ps (case r of
         None \<Rightarrow> firstErr
       | Some e \<Rightarrow> if \<not> isNotExist e \<and> firstErr = None
                  then Some (wrapErr (''remove job artifact '' @ p) e) else firstErr) }"

definition removeJobPaths :: "env \<Rightarrow> jobPaths \<Rightarrow> err option prog" where
  "removeJobPaths E ps = removeAll E (allPaths ps) None"

definition cleanupJobPaths :: "env \<Rightarrow> jobPaths \<Rightarrow> unit prog" where
  "cleanupJobPaths E ps = do { _ \<leftarrow> removeJobPaths E ps; return () }"

definition removeTerminalCommandHandoff :: "env \<Rightarrow> string \<Rightarrow> err option prog" where
  "removeTerminalCommandHandoff E name = do {
     r \<leftarrow> removeFile E name;
     return (case r of
         None \<Rightarrow> None
       | Some e \<Rightarrow> if isNotExist e then None
                  else Some (wrapErr (''remove terminal command handoff '' @ name) e)) }"

fun discardFiles :: "env \<Rightarrow> string list \<Rightarrow> unit prog" where
  "discardFiles E [] = return ()"
| "discardFiles E (p # ps) = do { _ \<leftarrow> removeFile E p; discardFiles E ps }"

fun createAll :: "env \<Rightarrow> nat \<Rightarrow> string list \<Rightarrow> string list \<Rightarrow> err option prog" where
  "createAll E uid created [] = return None"
| "createAll E uid created (p # ps) = do {
     r \<leftarrow> createJobFile E p uid;
     case r of
       Some e \<Rightarrow> do { discardFiles E created; return (Some e) }
     | None \<Rightarrow> createAll E uid (created @ [p]) ps }"

definition prepareJobFiles :: "env \<Rightarrow> jobPaths \<Rightarrow> Request \<Rightarrow> err option prog" where
  "prepareJobFiles E paths req =
     (let uid = (if q_root req then 0 else sv_workerUID E);
          undo = (\<lambda>e. do { cleanupJobPaths E paths; return (Some e) })
      in checkE (createAll E uid [] [p_log paths, p_status paths, p_started paths, p_command paths])
           (\<lambda>e. return (Some e))
         (checkE (syscall E) undo
         (tryE (openFile E (p_command paths)) undo (\<lambda>_. do {
            editJob (p_command paths) (\<lambda>f. f\<lparr>jf_content := []\<rparr>);
            err \<leftarrow> callU E (do { editJob (p_command paths) (\<lambda>f. f\<lparr>jf_content := q_command req\<rparr>); syscall E });
            closeErr \<leftarrow> syscall E;
            (case (case err of None \<Rightarrow> closeErr | Some e \<Rightarrow> Some e) of
               None \<Rightarrow> return None
             | Some e \<Rightarrow> undo e) }))))"

section \<open>Runner status\<close>

definition jobStatusUnknown :: string where "jobStatusUnknown = ''unknown''"
definition jobStatusStopped :: string where "jobStatusStopped = ''stopped''"

text \<open>
  \<open>lockJobStatusFile\<close>: try, sleep 10 ms, give up 750 ms after the first try. Each sleep lets the
  clock advance by at least 10 ms, so 80 rounds are more than the loop can make.
\<close>

fun lockLoop :: "env \<Rightarrow> nat \<Rightarrow> string \<Rightarrow> int \<Rightarrow> err option prog" where
  "lockLoop E 0 name deadline = return (Some (newErr ''job status file is busy; retry after the writer finishes''))"
| "lockLoop E (Suc fuel) name deadline = do {
     r \<leftarrow> syscall E;
     case r of
       None \<Rightarrow> do { modify (\<lambda>w. w\<lparr>held := Some name\<rparr>); return None }
     | Some e \<Rightarrow>
         if ekind e \<noteq> WouldBlock then return (Some e)
         else do {
           t \<leftarrow> nowNano E;
           if t > deadline then return (Some (newErr ''job status file is busy; retry after the writer finishes''))
           else do { _ \<leftarrow> nowNano E; lockLoop E fuel name deadline } } }"

definition lockJobStatusFile :: "env \<Rightarrow> string \<Rightarrow> err option prog" where
  "lockJobStatusFile E name = do { t \<leftarrow> nowNano E; lockLoop E 80 name (t + 750000000) }"

definition unlockFile :: "unit prog" where
  "unlockFile = modify (\<lambda>w. w\<lparr>held := None\<rparr>)"

definition readJobStatusLocked :: "env \<Rightarrow> string \<Rightarrow> jobFile \<Rightarrow> (err + (string \<times> int)) prog" where
  "readJobStatusLocked E name f =
     tryE (readFile E name f 65) fail (\<lambda>b.
       if length b > 64 then fail (newErr (''job status file exceeds limit: '' @ name))
       else callV E (do {
         w \<leftarrow> get;
         (let status = trimSpace b;
              m = jf_mod (case map_of (jobFiles w) name of None \<Rightarrow> f | Some g \<Rightarrow> g)
          in if status \<noteq> [] \<and> status \<noteq> jobStatusUnknown \<and> status \<noteq> jobStatusStopped \<and> atoi status = None
             then fail (newErr (''invalid job status file: '' @ name))
             else ok (status, m)) }))"

definition readJobStatusValue :: "env \<Rightarrow> string \<Rightarrow> (err + (string \<times> int)) prog" where
  "readJobStatusValue E name =
     tryE (openJobFile E name) fail (\<lambda>f.
       checkE (lockJobStatusFile E name) fail (do {
         r \<leftarrow> readJobStatusLocked E name f;
         unlockFile;
         return r }))"

definition jobStarted :: "env \<Rightarrow> string \<Rightarrow> (err + bool) prog" where
  "jobStarted E name =
     tryE (openJobFile E name) (\<lambda>e. if isNotExist e then ok False else fail e) (\<lambda>f.
       tryE (readFile E name f 17) fail (\<lambda>b.
         if length b > 16 then fail (newErr (''job started marker exceeds limit: '' @ name))
         else let marker = trimSpace b in
           if marker = [] then ok False
           else if marker \<noteq> ''started'' then fail (newErr (''invalid job started marker: '' @ name))
           else ok True))"

definition markUnknownLocked :: "env \<Rightarrow> string \<Rightarrow> jobFile \<Rightarrow> err option prog" where
  "markUnknownLocked E name f =
     tryE (readFile E name f 65) (\<lambda>e. return (Some e)) (\<lambda>b.
       if length b > 64 then return (Some (newErr (''job status file exceeds limit: '' @ name)))
       else if trimSpace b \<noteq> [] then nil
       else callU E (do {
         editJob name (\<lambda>f. f\<lparr>jf_content := []\<rparr>);
         callU E (callU E (do {
           w \<leftarrow> get;
           editJob name (\<lambda>f. f\<lparr>jf_content := jobStatusUnknown @ [CHR 0x0A], jf_mod := e_now E (tick w)\<rparr>);
           syscall E })) }))"

definition markJobStatusUnknownIfEmpty :: "env \<Rightarrow> string \<Rightarrow> err option prog" where
  "markJobStatusUnknownIfEmpty E name =
     tryE (openFile E name) (\<lambda>e. return (Some e)) (\<lambda>f. callU E (
       if jf_kind f \<noteq> Regular \<or> (jf_uid f \<noteq> 0 \<and> jf_uid f \<noteq> sv_workerUID E) \<or> jf_worldWritable f
       then return (Some (newErr (''job status file has unsafe ownership or mode: '' @ name)))
       else checkE (lockJobStatusFile E name) (\<lambda>e. return (Some e)) (do {
         r \<leftarrow> markUnknownLocked E name f;
         unlockFile;
         return r })))"

end
