(* ===== verification/Json.thy ===== *)
theory Json
  imports Prelude
begin

text \<open>
  The parts of \<open>encoding/json\<close>, \<open>net/url\<close>, \<open>time\<close> and \<open>strconv\<close> that the persistent stores use:
  how a string and a time are written into a document, what a string is when the document is read
  back, and the escaping of URL components.
\<close>

section \<open>Strings\<close>

definition hexDigit :: "nat \<Rightarrow> char" where
  "hexDigit n = (''0123456789abcdef'' ! n)"

text \<open>\<open>encoding/json\<close> on one rune: HTML characters, controls, line separators and invalid UTF-8.\<close>

definition jsonEscape :: "nat \<times> string \<Rightarrow> string" where
  "jsonEscape seg = (case seg of (r, b) \<Rightarrow>
     let bs = [CHR 0x5C]; u00 = bs @ ''u00'' @ [hexDigit (r div 16 mod 16), hexDigit (r mod 16)] in
     if r = 0xFFFD \<and> length b = 1 then bs @ ''ufffd''
     else if r = 0x22 \<or> r = 0x5C then bs @ b
     else if r = 8 then bs @ ''b''
     else if r = 12 then bs @ ''f''
     else if r = 10 then bs @ ''n''
     else if r = 13 then bs @ ''r''
     else if r = 9 then bs @ ''t''
     else if r < 0x20 \<or> r = 0x3C \<or> r = 0x3E \<or> r = 0x26 then u00
     else if r = 0x2028 then bs @ ''u2028''
     else if r = 0x2029 then bs @ ''u2029''
     else b)"

definition jsonString :: "string \<Rightarrow> string" where
  "jsonString s = CHR 0x22 # concat (map jsonEscape (runes s)) @ [CHR 0x22]"

definition jsonField :: "string \<Rightarrow> string \<Rightarrow> string" where
  "jsonField key v = '','' @ jsonString key @ '':'' @ v"

definition jsonOmitEmpty :: "string \<Rightarrow> string \<Rightarrow> string" where
  "jsonOmitEmpty key v = (if v = [] then [] else jsonField key (jsonString v))"

text \<open>What comes back of a string: invalid bytes have become U+FFFD.\<close>

definition cleanText :: "string \<Rightarrow> string" where
  "cleanText s = concat (map (\<lambda>(r, b). if r = 0xFFFD \<and> length b = 1
     then [CHR 0xEF, CHR 0xBF, CHR 0xBD] else b) (runes s))"

lemma cleanText_ascii: "ascii s \<Longrightarrow> cleanText s = s"
  by (induction s) (auto simp: cleanText_def ascii_def runes_ascii_Cons)

text \<open>Text without controls, quotes, HTML characters or bytes beyond ASCII is written as it is.\<close>

definition plainChar :: "char \<Rightarrow> bool" where
  "plainChar c = (0x20 \<le> byte c \<and> byte c < 0x80 \<and> byte c \<notin> {0x22, 0x5C, 0x3C, 0x3E, 0x26})"

lemma jsonEscape_plain: "plainChar c \<Longrightarrow> jsonEscape (byte c, [c]) = [c]"
  by (simp add: plainChar_def jsonEscape_def Let_def)

lemma jsonString_plain: "list_all plainChar s \<Longrightarrow> jsonString s = CHR 0x22 # s @ [CHR 0x22]"
proof -
  assume p: "list_all plainChar s"
  then have "runes s = map (\<lambda>c. (byte c, [c])) s"
    by (intro runes_ascii) (auto simp: ascii_def list_all_iff plainChar_def)
  moreover have "concat (map (\<lambda>c. jsonEscape (byte c, [c])) s) = s"
    using p by (induction s) (auto simp: jsonEscape_plain)
  ultimately show ?thesis by (simp add: jsonString_def comp_def)
qed

section \<open>Times\<close>

text \<open>
  A time is the number of nanoseconds since the Unix epoch, in UTC. \<open>time.Time.MarshalJSON\<close> writes
  RFC 3339 with as many fractional digits as needed; the date is computed from the number of days
  as years that start in March, in cycles of 400 years.
\<close>

fun padZeros :: "nat \<Rightarrow> string \<Rightarrow> string" where
  "padZeros n s = replicate (n - length s) (CHR ''0'') @ s"

definition civil :: "int \<Rightarrow> int \<times> int \<times> int" where
  "civil days =
     (let z = days + 719468;
          era = z div 146097;
          doe = z mod 146097;
          yoe = (doe - doe div 1460 + doe div 36524 - doe div 146096) div 365;
          doy = doe - (365 * yoe + yoe div 4 - yoe div 100);
          mp = (5 * doy + 2) div 153;
          d = doy - (153 * mp + 2) div 5 + 1;
          m = (if mp < 10 then mp + 3 else mp - 9)
      in (yoe + era * 400 + (if m \<le> 2 then 1 else 0), m, d))"

definition fraction :: "int \<Rightarrow> string" where
  "fraction ns = (if ns = 0 then []
     else CHR ''.'' # rev (dropWhile (\<lambda>c. c = CHR ''0'') (rev (padZeros 9 (itoa ns)))))"

definition rfc3339Nano :: "int \<Rightarrow> string" where
  "rfc3339Nano t =
     (let secs = t div 1000000000; sod = secs mod 86400
      in (case civil (secs div 86400) of (y, m, d) \<Rightarrow>
        padZeros 4 (itoa y) @ ''-'' @ padZeros 2 (itoa m) @ ''-'' @ padZeros 2 (itoa d) @ ''T''
        @ padZeros 2 (itoa (sod div 3600)) @ '':'' @ padZeros 2 (itoa (sod mod 3600 div 60)) @ '':''
        @ padZeros 2 (itoa (sod mod 60)) @ fraction (t mod 1000000000) @ ''Z''))"

text \<open>\<open>time.Time{}\<close>, the first instant of the year one.\<close>

definition zeroTime :: int where
  "zeroTime = - 62135596800000000000"

section \<open>Numbers\<close>

text \<open>\<open>n, _ := strconv.ParseInt(s, 10, 64)\<close>: zero for malformed text, the nearest bound when out of range.\<close>

definition parseIntClamp :: "string \<Rightarrow> int" where
  "parseIntClamp s =
     (let neg = (case s of c # _ \<Rightarrow> c = CHR ''-'' | [] \<Rightarrow> False);
          body = (case s of c # t \<Rightarrow> if c = CHR ''-'' \<or> c = CHR ''+'' then t else s | [] \<Rightarrow> [])
      in if body = [] then 0
         else (case parse_nat 0 body of
                 None \<Rightarrow> 0
               | Some n \<Rightarrow> if neg then max (- int n) (- (2 ^ 63)) else min (int n) (2 ^ 63 - 1)))"

section \<open>URL components\<close>

definition hexUpper :: "nat \<Rightarrow> char" where
  "hexUpper n = (''0123456789ABCDEF'' ! n)"

definition unreserved :: "char \<Rightarrow> bool" where
  "unreserved c = (is_alnum c \<or> c \<in> set ''-_.~'')"

definition percent :: "char \<Rightarrow> string" where
  "percent c = [CHR ''%'', hexUpper (byte c div 16), hexUpper (byte c mod 16)]"

definition pathEscape :: "string \<Rightarrow> string" where
  "pathEscape s = concat (map (\<lambda>c. if unreserved c \<or> c \<in> set ''$&+=:@'' then [c] else percent c) s)"

definition queryEscape :: "string \<Rightarrow> string" where
  "queryEscape s = concat (map (\<lambda>c. if unreserved c then [c] else if c = CHR '' '' then ''+'' else percent c) s)"

end
