(* ===== verification/AuditGate.thy ===== *)
theory AuditGate
  imports Protocol State_Logic
begin

text \<open>
  What the audit gate of \<open>internal/executor/audit.go\<close> calls an action, and its refusal when the
  start record could not be written. The handlers of each component run the gate on their own state.
\<close>

definition auditActionName :: "Request \<Rightarrow> string \<Rightarrow> string" where
  "auditActionName req fallback =
     (if q_auditAction req \<in> {''browser_setup'', ''browser_cleanup'', ''browser_run''}
      then q_auditAction req else fallback)"

definition auditMode :: "bool \<Rightarrow> string" where
  "auditMode root = (if root then ''root'' else ''worker'')"

definition auditUnavailableResponse :: "err \<Rightarrow> Response" where
  "auditUnavailableResponse e =
     (let msg = take 256 (trimSpace (emsg e));
          detail = ''required pre-action audit record could not be durably written; action was not started''
      in (failure ''audit_unavailable'' ''audit'' (if msg = [] then detail else detail @ '': '' @ msg))
           \<lparr>r_status := ''degraded_safety''\<rparr>)"

end
