(* ===== verification/JobClaims.thy ===== *)
theory JobClaims
  imports JobWorld Json AuditGate
begin

text \<open>
  The protected claim store (\<open>jobs/claims\<close>), the bounded systemd calls and the inventory of live
  units, the admission limits, and the audit gate: \<open>jobs.go\<close>, \<open>job_capacity.go\<close>, \<open>job_claims.go\<close>
  and \<open>audit.go\<close> of \<open>internal/executor\<close>.
\<close>

section \<open>Claim documents\<close>

definition claimJSON :: "jobClaim \<Rightarrow> string" where
  "claimJSON c = ''{'' @ jsonString ''version'' @ '':'' @ itoa (c_version c)
     @ jsonField ''job_id'' (jsonString (c_jobID c))
     @ jsonField ''fingerprint'' (jsonString (c_fingerprint c))
     @ jsonField ''state'' (jsonString (c_state c))
     @ jsonField ''created_at'' (jsonString (c_createdAt c))
     @ jsonOmitEmpty ''principal_id'' (c_principalID c)
     @ jsonOmitEmpty ''principal_class'' (c_principalClass c)
     @ (if c_root c then jsonField ''root'' ''true'' else [])
     @ jsonOmitEmpty ''workspace'' (c_workspace c)
     @ jsonOmitEmpty ''kind'' (c_kind c)
     @ jsonOmitEmpty ''label'' (c_label c)
     @ (if c_verifiedStopped c then jsonField ''verified_stopped'' ''true'' else [])
     @ ''}''"

definition decodedClaim :: "jobClaim \<Rightarrow> jobClaim" where
  "decodedClaim c = c\<lparr>c_jobID := cleanText (c_jobID c), c_fingerprint := cleanText (c_fingerprint c),
     c_state := cleanText (c_state c), c_createdAt := cleanText (c_createdAt c),
     c_principalID := cleanText (c_principalID c), c_principalClass := cleanText (c_principalClass c),
     c_workspace := cleanText (c_workspace c), c_kind := cleanText (c_kind c),
     c_label := cleanText (c_label c)\<rparr>"

section \<open>Claim files\<close>

definition putClaim :: "string \<Rightarrow> claimFile \<Rightarrow> unit prog" where
  "putClaim name f = modify (\<lambda>w. w\<lparr>claimFiles := AList.update name f (claimFiles w)\<rparr>)"

definition dropClaim :: "string \<Rightarrow> unit prog" where
  "dropClaim name = modify (\<lambda>w. w\<lparr>claimFiles := AList.delete name (claimFiles w)\<rparr>)"

definition newClaimFile :: "env \<Rightarrow> int \<Rightarrow> claimFile" where
  "newClaimFile E t = \<lparr>cf_kind = Regular, cf_uid = sv_euid E, cf_private = True, cf_body = Junk,
     cf_size = 0, cf_mod = t\<rparr>"

definition claimDocument :: "env \<Rightarrow> int \<Rightarrow> jobClaim \<Rightarrow> claimFile" where
  "claimDocument E t c = (newClaimFile E t)\<lparr>cf_body := Doc (decodedClaim c),
     cf_size := int (length (claimJSON c)) + 1\<rparr>"

text \<open>The claim is created in place: a failure after the exclusive create leaves a file that is not
  a document.\<close>

definition createJobClaim :: "env \<Rightarrow> string \<Rightarrow> jobClaim \<Rightarrow> err option prog" where
  "createJobClaim E name c = callU E (do {
     w \<leftarrow> get;
     if map_of (claimFiles w) name \<noteq> None then return (Some (Err Exist ''file exists''))
     else do {
       putClaim name (newClaimFile E (e_now E (tick w)));
       err \<leftarrow> callU E (do {
         w' \<leftarrow> get;
         putClaim name (claimDocument E (e_now E (tick w')) c);
         syscall E });
       closeErr \<leftarrow> syscall E;
       return (case err of None \<Rightarrow> closeErr | Some e \<Rightarrow> Some e) } })"

text \<open>The name \<open>os.CreateTemp(dir, ".claim-*")\<close> makes: unused, and not a claim's.\<close>

definition tempName :: "nat \<Rightarrow> string" where
  "tempName k = ''.claim-'' @ itoa (int k)"

definition removeTemp :: "env \<Rightarrow> string \<Rightarrow> err option \<Rightarrow> err option prog" where
  "removeTemp E tmp res = do {
     r \<leftarrow> syscall E;
     (case r of None \<Rightarrow> dropClaim tmp | Some _ \<Rightarrow> return ());
     return res }"

text \<open>The claim is replaced through a temporary file and a rename.\<close>

definition updateJobClaim :: "env \<Rightarrow> string \<Rightarrow> jobClaim \<Rightarrow> err option prog" where
  "updateJobClaim E name c =
     checkE (trustedDir E) (\<lambda>e. return (Some e)) (do {
       w \<leftarrow> get;
       (let tmp = tempName (tick w);
            doc = claimDocument E (e_now E (tick w)) c
        in callU E (do {
          putClaim tmp (newClaimFile E (e_now E (tick w)));
          r \<leftarrow> callU E (callU E (do {
            putClaim tmp doc;
            callU E (callU E (callU E (do {
              dropClaim tmp;
              putClaim name doc;
              return None }))) }));
          removeTemp E tmp r })) })"

definition readJobClaim :: "env \<Rightarrow> string \<Rightarrow> (err + jobClaim option) prog" where
  "readJobClaim E name = do {
     f \<leftarrow> callV E (gets (\<lambda>w.
       case map_of (claimFiles w) name of
         None \<Rightarrow> Inl (Err NotExist ''no such file or directory'')
       | Some f \<Rightarrow> if cf_kind f = Symlink then Inl (newErr ''too many levels of symbolic links'') else Inr f));
     case f of
       Inl e \<Rightarrow> return (if isNotExist e then Inr None else Inl e)
     | Inr f \<Rightarrow> callV E (
         if cf_kind f \<noteq> Regular \<or> cf_uid f \<noteq> sv_euid E \<or> \<not> cf_private f
         then fail (newErr ''job claim has unsafe ownership or mode'')
         else callV E (
           if cf_size f > 4096 then fail (newErr ''job claim exceeds size limit'')
           else case cf_body f of
               Junk \<Rightarrow> fail (newErr ''unexpected end of JSON input'')
             | Doc c \<Rightarrow>
                 if c_version c \<noteq> 1 \<or> c_jobID c = [] \<or> c_fingerprint c = []
                 then fail (newErr ''invalid job claim'') else ok (Some c))) }"

definition isClaimEntry :: "string \<times> claimFile \<Rightarrow> bool" where
  "isClaimEntry ent = (cf_kind (snd ent) \<noteq> Directory \<and> hasSuffix (fst ent) ''.json'')"

definition readClaimsDir :: "env \<Rightarrow> (err + (string \<times> claimFile) list) prog" where
  "readClaimsDir E = callV E (gets (\<lambda>w. Inr (sort_key fst (claimFiles w))))"

definition maxCompletedJobArtifacts :: nat where "maxCompletedJobArtifacts = 32"
definition maxFailedJobClaims :: nat where "maxFailedJobClaims = maxCompletedJobArtifacts"
definition maxActivePersistentJobs :: nat where "maxActivePersistentJobs = 64"
definition maxActivePersistentServices :: nat where "maxActivePersistentServices = 64"
definition maxPersistentJobClaims :: nat where
  "maxPersistentJobClaims = 2 * maxCompletedJobArtifacts + maxActivePersistentJobs + maxActivePersistentServices"

fun findLoop :: "env \<Rightarrow> string \<Rightarrow> (jobClaim \<times> string) option \<Rightarrow> (string \<times> claimFile) list \<Rightarrow>
    (err + (jobClaim \<times> string) option) prog" where
  "findLoop E jid found [] = ok found"
| "findLoop E jid found (ent # es) =
     (if \<not> isClaimEntry ent then findLoop E jid found es
      else tryE (readJobClaim E (fst ent)) fail (\<lambda>r.
        case r of
          None \<Rightarrow> findLoop E jid found es
        | Some c \<Rightarrow>
            if c_jobID c \<noteq> jid then findLoop E jid found es
            else if found \<noteq> None then fail (newErr ''ambiguous duplicate protected claims for job'')
            else findLoop E jid (Some (c, fst ent)) es))"

definition findJobClaimForID :: "env \<Rightarrow> string \<Rightarrow> (err + (jobClaim \<times> string) option) prog" where
  "findJobClaimForID E jid =
     checkE (trustedDir E) (\<lambda>e. if isNotExist e then ok None else fail e)
     (tryE (readClaimsDir E) fail (\<lambda>es.
        if length es > maxPersistentJobClaims + maxFailedJobClaims
        then fail (newErr ''job claim directory exceeds bounded recovery capacity'')
        else findLoop E jid None es))"

definition recordVerifiedJobStop :: "env \<Rightarrow> string \<Rightarrow> bool \<Rightarrow> err option prog" where
  "recordVerifiedJobStop E jid hasStatusRecord =
     tryE (findJobClaimForID E jid) (\<lambda>e. return (Some e)) (\<lambda>found.
       case found of
         None \<Rightarrow> return (if hasStatusRecord
                 then Some (newErr ''protected job claim missing for existing status record'') else None)
       | Some (c, name) \<Rightarrow>
           if c_verifiedStopped c then nil else updateJobClaim E name (c\<lparr>c_verifiedStopped := True\<rparr>))"

definition countJobClaims :: "env \<Rightarrow> (err + nat) prog" where
  "countJobClaims E = tryE (readClaimsDir E) fail (\<lambda>es. ok (length (filter isClaimEntry es)))"

fun startedLoop :: "env \<Rightarrow> string \<Rightarrow> (string \<times> claimFile) list \<Rightarrow> (err + bool) prog" where
  "startedLoop E jid [] = ok False"
| "startedLoop E jid (ent # es) =
     (if \<not> isClaimEntry ent then startedLoop E jid es
      else tryE (readJobClaim E (fst ent)) fail (\<lambda>r.
        if (case r of None \<Rightarrow> False | Some c \<Rightarrow> c_jobID c = jid \<and> c_state c = ''started'')
        then ok True else startedLoop E jid es))"

definition jobHasStartedClaim :: "env \<Rightarrow> string \<Rightarrow> (err + bool) prog" where
  "jobHasStartedClaim E jid =
     tryE (readClaimsDir E) (\<lambda>e. if isNotExist e then ok False else fail e) (startedLoop E jid)"

definition removeClaimFile :: "env \<Rightarrow> string \<Rightarrow> err option prog" where
  "removeClaimFile E name = callU E (do {
     w \<leftarrow> get;
     if map_of (claimFiles w) name = None then return (Some (Err NotExist ''no such file or directory''))
     else do { dropClaim name; return None } })"

fun removeClaimsLoop :: "env \<Rightarrow> string \<Rightarrow> (string \<times> claimFile) list \<Rightarrow> err option prog" where
  "removeClaimsLoop E jid [] = nil"
| "removeClaimsLoop E jid (ent # es) =
     (if \<not> isClaimEntry ent then removeClaimsLoop E jid es
      else tryE (readJobClaim E (fst ent)) (\<lambda>e. return (Some e)) (\<lambda>r.
        if (case r of None \<Rightarrow> False | Some c \<Rightarrow> c_jobID c = jid)
        then checkE (removeClaimFile E (fst ent))
               (\<lambda>e. if isNotExist e then removeClaimsLoop E jid es else return (Some e))
               (removeClaimsLoop E jid es)
        else removeClaimsLoop E jid es))"

definition removeClaimsForJob :: "env \<Rightarrow> string \<Rightarrow> err option prog" where
  "removeClaimsForJob E jid = tryE (readClaimsDir E) (\<lambda>e. return (Some e)) (removeClaimsLoop E jid)"

section \<open>Bounded systemd calls\<close>

definition systemdOutputLimit :: nat where "systemdOutputLimit = 64 * 1024"

text \<open>The call is traced before its outcome is known: an interrupted call may have had its effect.\<close>

definition runBoundedJobSystemd :: "env \<Rightarrow> string list \<Rightarrow> (boundedOutputResult \<times> err option) prog" where
  "runBoundedJobSystemd E argv = do {
     record_event (Systemd argv);
     w \<leftarrow> get;
     _ \<leftarrow> syscall E;
     (case e_systemd E (tick w) argv of (chunks, e) \<Rightarrow>
        return (resultCollector (writeAll (newBoundedOutputCollector (int systemdOutputLimit)) chunks),
          (case e of
             Some (Err Deadline m) \<Rightarrow>
               Some (Err Deadline (hd argv @ '' operation exceeded its deadline: context deadline exceeded''))
           | _ \<Rightarrow> e))) }"

definition unitName :: "string \<Rightarrow> string" where
  "unitName jid = ''ai-job-'' @ jid"

definition listUnitsArgs :: "string \<Rightarrow> string list" where
  "listUnitsArgs pat = [''systemctl'', ''list-units'', ''--type=service'',
     ''--state=activating,active,deactivating,reloading'', ''--no-legend'', ''--no-pager'', pat]"

definition jobUnitActive :: "env \<Rightarrow> string \<Rightarrow> (err + bool) prog" where
  "jobUnitActive E jid = do {
     (out, e) \<leftarrow> runBoundedJobSystemd E (listUnitsArgs (unitName jid @ ''.service''));
     return (case e of
         Some e \<Rightarrow> Inl (Err (ekind e) (''inspect persistent job activity: '' @ emsg e @ '': '' @ o_output out))
       | None \<Rightarrow>
           if o_truncated out
           then Inl (newErr ''persistent job activity response exceeded its bounded limit'')
           else Inr (trimSpace (o_output out) \<noteq> [])) }"

definition jobUnitExists :: "env \<Rightarrow> string \<Rightarrow> (err + bool) prog" where
  "jobUnitExists E jid = do {
     (out, e) \<leftarrow> runBoundedJobSystemd E
       [''systemctl'', ''show'', unitName jid, ''--property=LoadState'', ''--value'', ''--no-pager''];
     (let value = trimSpace (o_output out) in
      return (case e of
          Some e \<Rightarrow>
            if ekind e \<noteq> Deadline \<and> ekind e \<noteq> WaitDelay \<and>
               (contains value ''not-found'' \<or> contains value ''could not be found'')
            then Inr False
            else Inl (Err (ekind e) (''inspect persistent job unit: '' @ emsg e @ '': '' @ value))
        | None \<Rightarrow> Inr (value \<noteq> [] \<and> value \<noteq> ''not-found''))) }"

definition jobExecutionEvidenceState :: "env \<Rightarrow> jobPaths \<Rightarrow> string \<Rightarrow> (err + (bool \<times> bool)) prog" where
  "jobExecutionEvidenceState E paths jid =
     tryE (jobStarted E (p_started paths)) fail (\<lambda>started.
       if started then tryE (jobUnitActive E jid) fail (\<lambda>active. ok (True, active))
       else tryE (jobUnitExists E jid) fail (\<lambda>unitKnown.
         if \<not> unitKnown then ok (False, False)
         else tryE (jobUnitActive E jid) fail (\<lambda>active. ok (True, active))))"

section \<open>Inventory and admission\<close>

text \<open>The loop over the listing's lines: unit names only, each a numeric id, none twice, bounded.\<close>

fun unitIDs :: "string list \<Rightarrow> string list \<Rightarrow> err + string list" where
  "unitIDs got [] = Inr got"
| "unitIDs got (l # ls) =
     (case Prelude.fields l of
        [] \<Rightarrow> unitIDs got ls
      | unitn # _ \<Rightarrow>
          if \<not> hasPrefix unitn ''ai-job-'' \<or> \<not> hasSuffix unitn ''.service''
          then Inl (newErr ''systemd job inventory contains unrecognized unit'')
          else let jid = trimSuffix (trimPrefix unitn ''ai-job-'') ''.service'' in
            if safeID jid \<noteq> Inr jid \<or> jid \<in> set got
            then Inl (newErr ''systemd job inventory contains untrusted identity'')
            else if length got + 1 > maxActivePersistentJobs + maxActivePersistentServices
            then Inl (newErr ''active Agent units exceed configured total capacity'')
            else unitIDs (got @ [jid]) ls)"

definition activeAgentUnitIDs :: "env \<Rightarrow> (err + string list) prog" where
  "activeAgentUnitIDs E = do {
     (out, e) \<leftarrow> runBoundedJobSystemd E (listUnitsArgs ''ai-job-*.service'');
     return (case e of
         Some e \<Rightarrow> Inl (wrapErr ''systemd job inventory unavailable'' e)
       | None \<Rightarrow>
           if o_truncated out then Inl (newErr ''systemd job inventory exceeds bound'')
           else unitIDs [] (splitOn (CHR 0x0A) (o_output out))) }"

record activeKindCounts =
  k_tasks :: nat
  k_services :: nat

fun claimsByID :: "env \<Rightarrow> (string \<times> jobClaim) list \<Rightarrow> (string \<times> claimFile) list \<Rightarrow>
    (err + (string \<times> jobClaim) list) prog" where
  "claimsByID E acc [] = ok acc"
| "claimsByID E acc (ent # es) =
     (if \<not> isClaimEntry ent then claimsByID E acc es
      else tryE (readJobClaim E (fst ent)) fail (\<lambda>r.
        case r of
          None \<Rightarrow> claimsByID E acc es
        | Some c \<Rightarrow>
            if map_of acc (c_jobID c) \<noteq> None then fail (newErr ''duplicate persistent job identity'')
            else claimsByID E ((c_jobID c, c) # acc) es))"

fun countKinds :: "(string \<times> jobClaim) list \<Rightarrow> activeKindCounts \<Rightarrow> string list \<Rightarrow> err + activeKindCounts" where
  "countKinds claims counts [] = Inr counts"
| "countKinds claims counts (jid # ids) =
     (case map_of claims jid of
        None \<Rightarrow> Inl (newErr ''active Agent unit lacks a trusted job record'')
      | Some c \<Rightarrow>
          if c_workspace c = [] then Inl (newErr ''active Agent unit lacks a trusted job record'')
          else if c_kind c = ''task''
          then countKinds claims (counts\<lparr>k_tasks := k_tasks counts + 1\<rparr>) ids
          else if c_kind c = ''service''
          then countKinds claims (counts\<lparr>k_services := k_services counts + 1\<rparr>) ids
          else Inl (newErr ''active Agent unit kind is untrusted''))"

definition activeAgentJobKindCounts :: "env \<Rightarrow> (err + activeKindCounts) prog" where
  "activeAgentJobKindCounts E =
     tryE (activeAgentUnitIDs E) fail (\<lambda>ids.
       let zero = \<lparr>k_tasks = 0, k_services = 0\<rparr> in
       if ids = [] then ok zero
       else checkE (trustedDir E) fail
         (tryE (readClaimsDir E) fail (\<lambda>es.
            if length es > maxPersistentJobClaims + maxFailedJobClaims
            then fail (newErr ''persistent job claim namespace exceeds its bound'')
            else tryE (claimsByID E [] es) fail (\<lambda>claims. return (countKinds claims zero ids)))))"

definition defaultTaskSlots :: int where "defaultTaskSlots = 6"
definition defaultServiceSlots :: int where "defaultServiceSlots = 3"

definition persistentTaskCapacity :: "env \<Rightarrow> int" where
  "persistentTaskCapacity E = (let n = sv_taskSlots E in
     if n < 1 \<or> n > int maxActivePersistentJobs then defaultTaskSlots else n)"

definition persistentServiceCapacity :: "env \<Rightarrow> int" where
  "persistentServiceCapacity E = (let n = sv_serviceSlots E in
     if n < 1 \<or> n > int maxActivePersistentServices then defaultServiceSlots else n)"

definition jobStateSafetyReserveBytesForLimits :: "int \<Rightarrow> int \<Rightarrow> int" where
  "jobStateSafetyReserveBytesForLimits taskLimit serviceLimit =
     (2 * int maxCompletedJobArtifacts + taskLimit + serviceLimit) * maxJobLogBytes + 64 * 2 ^ 20"

definition jobStateHasReserve :: "env \<Rightarrow> int \<Rightarrow> (err + (bool \<times> int)) prog" where
  "jobStateHasReserve E reserve = callV E (gets (\<lambda>w.
     let free = e_free E (tick w) in Inr (reserve \<le> free, free)))"

definition busyResponse :: "string \<Rightarrow> string \<Rightarrow> Response" where
  "busyResponse msg status = (failure ''resource_limit'' ''resource'' msg)\<lparr>r_retryable := True, r_status := status\<rparr>"

definition persistentJobAdmissionResponseWithLimits :: "env \<Rightarrow> int \<Rightarrow> int \<Rightarrow> string \<Rightarrow> Response option prog" where
  "persistentJobAdmissionResponseWithLimits E taskLimit0 serviceLimit0 kind =
     (let taskLimit = (if taskLimit0 < 1 \<or> taskLimit0 > int maxActivePersistentJobs
                       then defaultTaskSlots else taskLimit0);
          serviceLimit = (if serviceLimit0 < 1 \<or> serviceLimit0 > int maxActivePersistentServices
                          then defaultServiceSlots else serviceLimit0);
          unavailable = (\<lambda>e. return (Some (jobStateError ''job_state_unavailable'' (emsg e))))
      in tryE (activeAgentJobKindCounts E) unavailable (\<lambda>counts.
        if k_tasks counts > maxActivePersistentJobs \<or> k_services counts > maxActivePersistentServices
        then unavailable (newErr ''active persistent jobs exceed the hard per-kind bounds'')
        else if (kind = ''task'' \<and> int (k_tasks counts) \<ge> taskLimit) \<or>
                (kind = ''service'' \<and> int (k_services counts) \<ge> serviceLimit)
        then return (Some (busyResponse ''persistent task/service execution capacity is busy'' ''busy''))
        else if kind \<noteq> ''task'' \<and> kind \<noteq> ''service''
        then unavailable (newErr ''unrecognized persistent job kind'')
        else let reserve = jobStateSafetyReserveBytesForLimits (max taskLimit (int (k_tasks counts)))
                             (max serviceLimit (int (k_services counts)))
          in tryE (jobStateHasReserve E reserve) unavailable (\<lambda>(enough, free).
            if \<not> enough
            then return (Some (busyResponse (''job state filesystem is below the '' @ itoa reserve
                   @ ''-byte safety reserve ('' @ itoa free @ '' bytes available)'') ''disk_pressure''))
            else return None)))"

section \<open>The audit gate\<close>

text \<open>\<open>Logger.Write\<close> refuses once a completion record was lost; \<open>Logger.WriteCompletion\<close> sets that latch.\<close>

definition auditWrite :: "env \<Rightarrow> event \<Rightarrow> err option prog" where
  "auditWrite E ev = do {
     w \<leftarrow> get;
     if degraded w then return (Some (newErr ''audit logger is degraded''))
     else callU E (do { record_event ev; return None }) }"

definition auditWriteCompletion :: "env \<Rightarrow> event \<Rightarrow> err option prog" where
  "auditWriteCompletion E ev = do {
     w \<leftarrow> get;
     if degraded w then return (Some (newErr ''audit logger is degraded''))
     else checkE (syscall E)
            (\<lambda>e. do { modify (\<lambda>w. w\<lparr>degraded := True\<rparr>); return (Some e) })
            (do { record_event ev; return None }) }"

definition beginActionAudit :: "env \<Rightarrow> Request \<Rightarrow> string \<Rightarrow> Response option prog" where
  "beginActionAudit E req action =
     (if \<not> sv_audit E then return None
      else checkE (auditWrite E (AuditStart (auditActionName req action) (q_approval req)))
        (\<lambda>e. return (Some ((auditUnavailableResponse e)
           \<lparr>r_requestID := q_requestID req, r_operationID := q_operationID req\<rparr>)))
        (return None))"

definition finishActionAudit :: "env \<Rightarrow> Request \<Rightarrow> string \<Rightarrow> Response \<Rightarrow> Response prog" where
  "finishActionAudit E req action resp0 =
     (let resp = resp0\<lparr>r_requestID := q_requestID req, r_operationID := q_operationID req\<rparr> in
      if \<not> sv_audit E then return resp
      else checkE (auditWriteCompletion E (AuditComplete (auditActionName req action) (r_ok resp)))
        (\<lambda>_. return (resp\<lparr>r_auditDegraded := True, r_auditError := ''audit completion could not be durably recorded; further action-capable operations are blocked until the audit path is repaired and the executor is restarted''\<rparr>))
        (return resp))"

end
