(* ===== verification/JobStart.thy ===== *)
theory JobStart
  imports JobClaims
begin

text \<open>
  \<open>start_job\<close> (\<open>jobs.go\<close>, \<open>job_claims.go\<close>): validation, the admission gates, the retention and
  recovery passes, the protected claim that makes an \<open>operation_id\<close> idempotent, the launch through
  systemd, and the replay of a request whose claim already exists.
\<close>

section \<open>Validation\<close>

definition validateJobLabel :: "string \<Rightarrow> string \<Rightarrow> err option" where
  "validateJobLabel kind label =
     (if kind = ''service'' \<and> label = [] then Some (newErr ''service requires a non-secret label'')
      else if length label > 48 then Some (newErr ''job label exceeds 48 bytes'')
      else if list_all (\<lambda>(i, c). is_alnum c \<or> (i \<noteq> 0 \<and> c \<in> set ''_-.'')) (enumerate 0 label) then None
      else Some (newErr ''job label must start with a letter or digit and contain only ASCII letters, digits, dot, dash or underscore''))"

definition maxOperationIDBytes :: nat where "maxOperationIDBytes = 128"

definition validateOperationID :: "string \<Rightarrow> err option" where
  "validateOperationID opid =
     (if opid = [] then None
      else if length opid > maxOperationIDBytes
      then Some (newErr (''operation_id exceeds '' @ itoa (int maxOperationIDBytes) @ '' bytes''))
      else if list_all (\<lambda>c. is_alnum c \<or> c \<in> set ''._:-'') opid then None
      else Some (newErr ''operation_id contains unsupported characters''))"

definition operationClaimName :: "env \<Rightarrow> string \<Rightarrow> string \<Rightarrow> string" where
  "operationClaimName E opid principalID = e_sha256 E (principalID @ [CHR 0x00] @ opid) @ ''.json''"

definition legacyOperationClaimName :: "env \<Rightarrow> string \<Rightarrow> string" where
  "legacyOperationClaimName E opid = e_sha256 E opid @ ''.json''"

text \<open>A question to the file system about paths, answered at the current tick.\<close>

definition askView :: "env \<Rightarrow> (fsView \<Rightarrow> 'a) \<Rightarrow> 'a prog" where
  "askView E f = State (\<lambda>w. (f (e_view E (tick w)), advance E w))"

definition workerCommandWorkspace :: "env \<Rightarrow> string \<Rightarrow> (err + string) prog" where
  "workerCommandWorkspace E input = askView E (\<lambda>V.
     if input = [] then workspaceRoot V (sv_workspaceDir E)
     else workspacePath V (sv_workspaceDir E) input True)"

definition workerSessionHome :: "env \<Rightarrow> (err + string) prog" where
  "workerSessionHome E =
     (let home = joinPath [sv_stateDir E, ''worker-home''] in
      if \<not> isAbs (sv_stateDir E) \<or> clean (sv_stateDir E) \<noteq> sv_stateDir E \<or> sv_stateDir E = [slash]
      then fail (newErr ''worker home requires a trusted absolute Agent state directory'')
      else if withinPath (sv_workspaceDir E) home
      then fail (newErr ''worker home must not be within the project workspace'')
      else checkE (trustedDir E) (\<lambda>e. fail (wrapErr ''worker home parent untrusted'' e))
        (checkE (syscall E) (\<lambda>e. fail (wrapErr ''worker home not provisioned'' e)) (do {
           w \<leftarrow> get;
           if e_home E (tick w) then ok home
           else fail (newErr ''worker home is not an owned private directory'') })))"

definition jobFingerprint :: "env \<Rightarrow> Request \<Rightarrow> string prog" where
  "jobFingerprint E req = do {
     cwd \<leftarrow> (if q_workspace req \<noteq> [] then return (q_workspace req)
            else if q_root req then return ''/root''
            else do {
              r \<leftarrow> askView E (\<lambda>V. workspaceRoot V (sv_workspaceDir E));
              return (case r of Inr root \<Rightarrow> root | Inl _ \<Rightarrow> sv_workspaceDir E) });
     (let z = [CHR 0x00]; kind = (if q_kind req = [] then ''task'' else q_kind req) in
      return (e_hmac E (sv_token E)
        (''persistent-job-v1'' @ z @ (if q_root req then ''root'' else ''worker'') @ z
         @ cwd @ z @ kind @ z @ q_label req @ z @ q_command req))) }"

section \<open>Terminal state\<close>

definition unknownJobLaunchResponse :: "string \<Rightarrow> string \<Rightarrow> Response" where
  "unknownJobLaunchResponse jid msg =
     (failure ''unknown_completion'' ''state'' msg)\<lparr>r_jobID := jid, r_status := ''unknown''\<rparr>"

definition verifiedJobStopResponse :: "string \<Rightarrow> Response" where
  "verifiedJobStopResponse jid =
     (let detail = ''stop verified; command exit code unavailable'' in
      zeroResponse\<lparr>r_ok := True, r_status := ''stopped'', r_jobID := jid, r_exitCode := -1,
        r_output := detail, r_outputEncoding := ''utf-8'', r_bytesSeen := int (length detail),
        r_bytesReturned := int (length detail)\<rparr>)"

definition terminalJobResponse :: "string \<Rightarrow> string \<Rightarrow> Response" where
  "terminalJobResponse status jid =
     (if status = jobStatusUnknown \<or> status = jobStatusStopped
      then unknownJobLaunchResponse jid
             ''persistent job ended without a trusted terminal exit status; completion cannot be proven''
      else case atoi status of
          None \<Rightarrow> jobStateError ''job_status_unavailable'' (''invalid terminal job status for '' @ jid)
        | Some code \<Rightarrow> zeroResponse\<lparr>r_ok := True, r_status := ''completed'', r_output := status,
            r_outputEncoding := ''utf-8'', r_bytesSeen := int (length status),
            r_bytesReturned := int (length status), r_exitCode := code, r_jobID := jid\<rparr>)"

definition stateErr :: "string \<Rightarrow> err \<Rightarrow> Response prog" where
  "stateErr code e = return (jobStateError code (emsg e))"

text \<open>The part of the replay after the runner's status and the verified-stop proof are known.\<close>

definition replayTerminal :: "env \<Rightarrow> string \<Rightarrow> string \<Rightarrow> string \<Rightarrow> bool \<Rightarrow> Response option prog" where
  "replayTerminal E statusName jid status verified =
     (let unavailable = (\<lambda>e. return (Some (jobStateError ''job_status_unavailable'' (emsg e)))) in
      if status = [] \<and> \<not> verified then return None
      else tryE (jobUnitActive E jid) unavailable (\<lambda>active.
        if active then return None
        else checkE (removeTerminalCommandHandoff E (trimSuffix statusName ''.status'' @ ''.cmd'')) unavailable
          (return (Some
            (if status \<noteq> [] \<and> status \<noteq> jobStatusUnknown \<and> status \<noteq> jobStatusStopped
             then terminalJobResponse status jid
             else if verified then verifiedJobStopResponse jid
             else if status = jobStatusStopped
             then unknownJobLaunchResponse jid ''worker job status cannot prove a verified stop''
             else terminalJobResponse status jid)))))"

definition jobTerminalReplayResponse :: "env \<Rightarrow> string \<Rightarrow> string \<Rightarrow> Response option prog" where
  "jobTerminalReplayResponse E statusName jid =
     (let unavailable = (\<lambda>e. return (Some (jobStateError ''job_status_unavailable'' (emsg e))));
          known = (\<lambda>status.
            if status = [] \<or> status = jobStatusUnknown \<or> status = jobStatusStopped
            then tryE (findJobClaimForID E jid) unavailable (\<lambda>found.
                   replayTerminal E statusName jid status
                     (case found of None \<Rightarrow> False | Some (c, _) \<Rightarrow> c_verifiedStopped c))
            else replayTerminal E statusName jid status False)
      in tryE (readJobStatusValue E statusName)
           (\<lambda>e. if isNotExist e then known [] else unavailable e)
           (\<lambda>(status, _). known status))"

text \<open>The value Go's callers use when they ignore the second result.\<close>

definition orZero :: "Response option \<Rightarrow> Response" where
  "orZero r = (case r of None \<Rightarrow> zeroResponse | Some x \<Rightarrow> x)"

section \<open>Retention and recovery passes\<close>

fun completedLoop :: "env \<Rightarrow> (string \<times> int) list \<Rightarrow> string list \<Rightarrow> (err + (string \<times> int) list) prog" where
  "completedLoop E acc [] = ok acc"
| "completedLoop E acc (name # names) =
     (let jid = trimSuffix name ''.status''; paths = jobPathsFor jid;
          accept = (\<lambda>status m.
            if status \<noteq> jobStatusUnknown \<and> status \<noteq> jobStatusStopped \<and> atoi status = None
            then fail (newErr (''invalid job status file: '' @ p_status paths))
            else checkE (removeTerminalCommandHandoff E (p_command paths)) fail
                   (completedLoop E (acc @ [(jid, m)]) names))
      in if \<not> hasSuffix name ''.status'' \<or> safeID jid \<noteq> Inr jid then completedLoop E acc names
      else tryE (readJobStatusValue E (p_status paths)) fail (\<lambda>(status, m).
        tryE (jobUnitActive E jid) fail (\<lambda>active.
          if active then completedLoop E acc names
          else if status \<noteq> [] then accept status m
          else tryE (jobStarted E (p_started paths)) fail (\<lambda>started.
            tryE (if started then ok True else jobHasStartedClaim E jid) fail (\<lambda>accepted.
              if \<not> accepted then completedLoop E acc names
              else checkE (markJobStatusUnknownIfEmpty E (p_status paths)) fail
                (tryE (readJobStatusValue E (p_status paths)) fail (\<lambda>(status', m'). accept status' m')))))))"

fun retireLoop :: "env \<Rightarrow> (string \<times> int) list \<Rightarrow> err option prog" where
  "retireLoop E [] = nil"
| "retireLoop E ((jid, _) # olds) =
     checkE (removeJobPaths E (jobPathsFor jid)) (\<lambda>e. return (Some e))
     (checkE (removeClaimsForJob E jid) (\<lambda>e. return (Some e))
       (retireLoop E olds))"

definition cleanupCompletedJobArtifacts :: "env \<Rightarrow> err option prog" where
  "cleanupCompletedJobArtifacts E =
     tryE (callV E (gets (\<lambda>w. Inr (sort (map fst (filter (\<lambda>ent. jf_kind (snd ent) \<noteq> Directory) (jobFiles w)))))))
       (\<lambda>e. return (Some e)) (\<lambda>names.
     tryE (completedLoop E [] names) (\<lambda>e. return (Some e)) (\<lambda>completed.
       retireLoop E (drop maxCompletedJobArtifacts (sort_key (\<lambda>(_, m). - m) completed))))"

definition executorConnectionTimeout :: int where
  "executorConnectionTimeout = 31 * 60 * 1000000000"

fun staleLoop :: "env \<Rightarrow> int \<Rightarrow> (string \<times> claimFile) list \<Rightarrow> err option prog" where
  "staleLoop E now [] = nil"
| "staleLoop E now (ent # es) =
     (if \<not> isClaimEntry ent then staleLoop E now es
      else tryE (readJobClaim E (fst ent)) (\<lambda>e. return (Some e)) (\<lambda>r.
        case r of
          None \<Rightarrow> staleLoop E now es
        | Some c \<Rightarrow>
          if c_state c \<noteq> ''claimed'' \<and> c_state c \<noteq> ''launching'' then staleLoop E now es
          else case e_parseTime E (c_createdAt c) of
            None \<Rightarrow> return (Some (newErr ''invalid job claim creation time''))
          | Some created \<Rightarrow>
            if now < created \<or> now - created < executorConnectionTimeout then staleLoop E now es
            else case safeID (c_jobID c) of
              Inl m \<Rightarrow> return (Some (newErr (''invalid stale claim job id: '' @ m)))
            | Inr jid \<Rightarrow>
              (let paths = jobPathsFor jid in
               tryE (jobExecutionEvidenceState E paths jid) (\<lambda>e. return (Some e)) (\<lambda>(evidence, active).
                 if evidence
                 then checkE (updateJobClaim E (fst ent) (c\<lparr>c_state := ''started''\<rparr>)) (\<lambda>e. return (Some e))
                   (if active then staleLoop E now es
                    else checkE (markJobStatusUnknownIfEmpty E (p_status paths)) (\<lambda>e. return (Some e))
                      (checkE (removeFile E (p_command paths))
                         (\<lambda>e. if isNotExist e then staleLoop E now es else return (Some e))
                         (staleLoop E now es)))
                 else if c_state c = ''launching'' then staleLoop E now es
                 else checkE (removeJobPaths E paths) (\<lambda>e. return (Some e))
                   (checkE (updateJobClaim E (fst ent) (c\<lparr>c_state := ''failed''\<rparr>)) (\<lambda>e. return (Some e))
                     (staleLoop E now es))))))"

definition cleanupStalePrelaunchClaims :: "env \<Rightarrow> int \<Rightarrow> err option prog" where
  "cleanupStalePrelaunchClaims E now = tryE (readClaimsDir E) (\<lambda>e. return (Some e)) (staleLoop E now)"

fun failedLoop :: "env \<Rightarrow> (string \<times> int) list \<Rightarrow> (string \<times> claimFile) list \<Rightarrow> (err + (string \<times> int) list) prog" where
  "failedLoop E acc [] = ok acc"
| "failedLoop E acc (ent # es) =
     (if \<not> isClaimEntry ent then failedLoop E acc es
      else tryE (readJobClaim E (fst ent)) fail (\<lambda>r.
        case r of
          None \<Rightarrow> failedLoop E acc es
        | Some c \<Rightarrow>
          if c_state c \<noteq> ''failed'' then failedLoop E acc es
          else case safeID (c_jobID c) of
            Inl m \<Rightarrow> fail (newErr (''invalid failed claim job id: '' @ m))
          | Inr jid \<Rightarrow>
            checkE (removeJobPaths E (jobPathsFor jid)) fail
              (checkE (syscall E) fail
                (failedLoop E (acc @ [(fst ent, cf_mod (snd ent))]) es))))"

fun removeOldFailed :: "env \<Rightarrow> (string \<times> int) list \<Rightarrow> err option prog" where
  "removeOldFailed E [] = nil"
| "removeOldFailed E ((name, _) # olds) =
     checkE (removeClaimFile E name)
       (\<lambda>e. if isNotExist e then removeOldFailed E olds else return (Some e))
       (removeOldFailed E olds)"

definition cleanupFailedJobClaims :: "env \<Rightarrow> err option prog" where
  "cleanupFailedJobClaims E =
     tryE (readClaimsDir E) (\<lambda>e. return (Some e)) (\<lambda>es.
     tryE (failedLoop E [] es) (\<lambda>e. return (Some e)) (\<lambda>failed.
       removeOldFailed E (drop maxFailedJobClaims (sort_key (\<lambda>(_, m). - m) failed))))"

definition ensureJobState :: "env \<Rightarrow> err option prog" where
  "ensureJobState E =
     checkE (trustedDir E) (\<lambda>e. return (Some e))
     (checkE (trustedDir E) (\<lambda>e. return (Some e)) (do {
        mk \<leftarrow> syscall E;
        (case mk of
           Some e \<Rightarrow> if ekind e \<noteq> Exist then return (Some e) else callU E (trustedDir E)
         | None \<Rightarrow> callU E (trustedDir E)) }))"

section \<open>Launching\<close>

definition safeCommandPath :: string where
  "safeCommandPath = ''/usr/local/sbin:/usr/local/bin:/usr/sbin:/usr/bin:/sbin:/bin''"

definition jobFilePath :: "env \<Rightarrow> string \<Rightarrow> string" where
  "jobFilePath E name = joinPath [sv_stateDir E, ''jobs'', name]"

definition launchArgs :: "env \<Rightarrow> Request \<Rightarrow> jobPaths \<Rightarrow> string \<Rightarrow> string list" where
  "launchArgs E req paths jid =
     (let home = (if q_root req then ''/root'' else joinPath [sv_stateDir E, ''worker-home'']);
          workDir = (if q_root req then ''/root'' else q_workspace req)
      in [''--unit'', unitName jid, ''--collect'', ''--property=WorkingDirectory='' @ workDir]
         @ (if q_root req then [] else [''--uid='' @ sv_workerUser E])
         @ [''/usr/bin/env'', ''-i'', ''HOME='' @ home,
            ''XDG_CONFIG_HOME='' @ joinPath [home, ''.config''],
            ''XDG_CACHE_HOME='' @ joinPath [home, ''.cache''],
            ''XDG_DATA_HOME='' @ joinPath [home, ''.local'', ''share''],
            ''PATH='' @ safeCommandPath, ''LANG=C.UTF-8'', ''LC_ALL=C.UTF-8'', ''AI_SERVER_AGENT=1'',
            sv_executable E, ''job-runner'',
            ''--command-file'', jobFilePath E (p_command paths),
            ''--log-file'', jobFilePath E (p_log paths),
            ''--status-file'', jobFilePath E (p_status paths),
            ''--started-file'', jobFilePath E (p_started paths)])"

definition acceptedResponse :: "string \<Rightarrow> Response" where
  "acceptedResponse jid = zeroResponse\<lparr>r_ok := True, r_jobID := jid, r_status := ''accepted''\<rparr>"

text \<open>After systemd-run reported an error: look for every trace of a launch before calling it failed.
  First the part once neither an active unit nor a runner status was found.\<close>

definition reconcileUnstarted :: "env \<Rightarrow> jobPaths \<Rightarrow> string \<Rightarrow> boundedOutputResult \<Rightarrow> err \<Rightarrow> Response prog" where
  "reconcileUnstarted E paths jid out err =
     (let unknown = (\<lambda>m. return (applyOutputResult (unknownJobLaunchResponse jid m) out)) in
      tryE (jobStarted E (p_started paths))
        (\<lambda>e. unknown (''systemd-run failed and durable start state could not be read: '' @ emsg e)) (\<lambda>started.
      tryE (jobUnitExists E jid)
        (\<lambda>e. unknown (''systemd-run failed and unit load state could not be reconciled: '' @ emsg e)) (\<lambda>unitKnown.
      if started \<or> unitKnown then
        checkE (markJobStatusUnknownIfEmpty E (p_status paths))
          (\<lambda>e. unknown (''systemd-run failed and unknown completion could not be persisted: '' @ emsg e))
        (checkE (removeTerminalCommandHandoff E (p_command paths))
          (\<lambda>e. unknown (''systemd-run failed and terminal command handoff cleanup failed: '' @ emsg e))
          (unknown ''systemd-run failed after launch became possible; completion cannot be proven''))
      else if ekind err = Deadline \<or> ekind err = WaitDelay then
        unknown ''systemd-run exceeded its process or output deadline; launch outcome remains uncertain; reconcile the original operation_id before retrying''
      else checkE (removeTerminalCommandHandoff E (p_command paths))
          (\<lambda>e. return (applyOutputResult ((jobStateError ''job_state_unavailable'' (emsg e))\<lparr>r_jobID := jid\<rparr>) out))
          (return (applyOutputResult
             ((failure ''job_start_failed'' ''process'' (''persistent job could not be started: '' @ emsg err))
                \<lparr>r_jobID := jid\<rparr>) out)))))"

definition reconcileLaunch :: "env \<Rightarrow> jobPaths \<Rightarrow> string \<Rightarrow> boundedOutputResult \<Rightarrow> err \<Rightarrow> Response prog" where
  "reconcileLaunch E paths jid out err =
     (let unknown = (\<lambda>m. return (applyOutputResult (unknownJobLaunchResponse jid m) out)) in
      tryE (jobUnitActive E jid)
        (\<lambda>e. unknown (''systemd-run failed and authoritative active state could not be determined: '' @ emsg e)) (\<lambda>active.
      if active then return (applyOutputResult (acceptedResponse jid) out)
      else tryE (readJobStatusValue E (p_status paths))
        (\<lambda>e. if \<not> isNotExist e
             then unknown (''systemd-run failed and durable job status could not be read: '' @ emsg e)
             else reconcileUnstarted E paths jid out err)
        (\<lambda>(status, _).
           if status \<noteq> [] then
             checkE (removeTerminalCommandHandoff E (p_command paths))
               (\<lambda>e. unknown (''job reached terminal state but command handoff cleanup failed: '' @ emsg e))
               (return (terminalJobResponse status jid))
           else reconcileUnstarted E paths jid out err)))"

definition launchPreparedJob :: "env \<Rightarrow> Request \<Rightarrow> jobPaths \<Rightarrow> string \<Rightarrow> Response prog" where
  "launchPreparedJob E req paths jid =
     checkE (syscall E) (\<lambda>e. stateErr ''job_start_failed'' (wrapErr ''resolve executor binary'' e)) (do {
       (out, err) \<leftarrow> runBoundedJobSystemd E (''systemd-run'' # launchArgs E req paths jid);
       (case err of
          Some e \<Rightarrow> reconcileLaunch E paths jid out e
        | None \<Rightarrow> return (applyOutputResult (acceptedResponse jid) out)) })"

definition jobClaimFinalizeError :: "string \<Rightarrow> err \<Rightarrow> Response" where
  "jobClaimFinalizeError jid e =
     (failure ''unknown_completion'' ''state''
        (''job started but idempotency state could not be finalized: '' @ emsg e))\<lparr>r_jobID := jid\<rparr>"

definition failJobClaim :: "env \<Rightarrow> string \<Rightarrow> jobClaim \<Rightarrow> unit prog" where
  "failJobClaim E name c = do { _ \<leftarrow> updateJobClaim E name (c\<lparr>c_state := ''failed''\<rparr>); return () }"

section \<open>Replay of a claimed operation\<close>

definition replayed :: "Response \<Rightarrow> Response" where
  "replayed r = r\<lparr>r_idempotentReplay := True\<rparr>"

text \<open>A job that is known to have run and is not active any more.\<close>

definition settleEndedJob :: "env \<Rightarrow> jobPaths \<Rightarrow> string \<Rightarrow> Response prog" where
  "settleEndedJob E paths jid =
     checkE (markJobStatusUnknownIfEmpty E (p_status paths)) (stateErr ''job_state_unavailable'')
     (checkE (removeTerminalCommandHandoff E (p_command paths)) (stateErr ''job_status_unavailable'') (do {
        r \<leftarrow> jobTerminalReplayResponse E (p_status paths) jid;
        return (replayed (orZero r)) }))"

text \<open>The claim is still \<open>claimed\<close>: nothing was dispatched, so the launch may be tried now.\<close>

definition relaunchClaimed :: "env \<Rightarrow> Request \<Rightarrow> string \<Rightarrow> jobClaim \<Rightarrow> string \<Rightarrow> Response prog" where
  "relaunchClaimed E req name c kind =
     (let jid = c_jobID c; paths = jobPathsFor jid in do {
      cleanupJobPaths E paths;
      blocked \<leftarrow> persistentJobAdmissionResponseWithLimits E (persistentTaskCapacity E) (persistentServiceCapacity E) kind;
      (case blocked of
         Some b \<Rightarrow> return (b\<lparr>r_jobID := jid, r_idempotentReplay := True\<rparr>)
       | None \<Rightarrow>
         checkE (prepareJobFiles E paths req)
           (\<lambda>e. do { failJobClaim E name c; stateErr ''job_prepare_failed'' e })
         (checkE (updateJobClaim E name (c\<lparr>c_state := ''launching''\<rparr>))
           (\<lambda>e. do { cleanupJobPaths E paths; stateErr ''job_state_unavailable'' e }) (do {
           resp \<leftarrow> launchPreparedJob E req paths jid;
           if r_ok resp then
             checkE (updateJobClaim E name (c\<lparr>c_state := ''started''\<rparr>))
               (\<lambda>e. return (replayed (jobClaimFinalizeError jid e)))
               (return (replayed resp))
           else if r_errorCode resp \<noteq> ''unknown_completion'' then do {
             cleanupJobPaths E paths;
             failJobClaim E name c;
             return (replayed resp) }
           else return (replayed resp) }))) })"

definition resumeUnsettled :: "env \<Rightarrow> Request \<Rightarrow> string \<Rightarrow> jobClaim \<Rightarrow> string \<Rightarrow> Response prog" where
  "resumeUnsettled E req name c kind =
     (let jid = c_jobID c; paths = jobPathsFor jid in
      tryE (jobExecutionEvidenceState E paths jid) (stateErr ''job_state_unavailable'') (\<lambda>(evidence, active).
        if evidence then
          checkE (updateJobClaim E name (c\<lparr>c_state := ''started''\<rparr>))
            (\<lambda>e. return (replayed (jobClaimFinalizeError jid e)))
            (if active then return (replayed (acceptedResponse jid)) else settleEndedJob E paths jid)
        else if c_state c = ''launching'' then
          return (replayed (unknownJobLaunchResponse jid
            ''persistent job launch may have reached systemd but execution is not proven; inspect the original job_id; the original operation_id cannot be automatically re-dispatched''))
        else relaunchClaimed E req name c kind))"

definition resumeClaimedJob :: "env \<Rightarrow> Request \<Rightarrow> string \<Rightarrow> jobClaim \<Rightarrow> string \<Rightarrow> Response prog" where
  "resumeClaimedJob E req name c fingerprint =
     (let kind = (if c_kind c = [] then ''task'' else c_kind c);
          reqKind = (if q_kind req = [] then ''task'' else q_kind req);
          jid = c_jobID c; paths = jobPathsFor jid
      in if c_fingerprint c \<noteq> fingerprint then
        return ((failure ''idempotency_conflict'' ''conflict''
          ''operation_id is already bound to a different persistent-job request'')\<lparr>r_jobID := jid\<rparr>)
      else if (kind \<noteq> ''task'' \<and> kind \<noteq> ''service'') \<or> kind \<noteq> reqKind then
        stateErr ''job_state_unavailable''
          (newErr ''persistent job claim kind is invalid or does not match replay request'')
      else case safeID jid of
        Inl m \<Rightarrow> stateErr ''job_state_unavailable'' (newErr (''invalid claimed job id: '' @ m))
      | Inr _ \<Rightarrow> do {
          terminal \<leftarrow> jobTerminalReplayResponse E (p_status paths) jid;
          (case terminal of
             Some t \<Rightarrow> return (replayed t)
           | None \<Rightarrow>
             if c_state c = ''started'' then
               tryE (jobUnitActive E jid) (stateErr ''job_state_unavailable'') (\<lambda>active.
                 if active then return (replayed (acceptedResponse jid)) else settleEndedJob E paths jid)
             else if c_state c = ''failed'' then
               return (replayed ((failure ''job_start_failed'' ''state''
                 ''the prior start attempt for this operation_id failed before a durable job start could be proven'')\<lparr>r_jobID := jid\<rparr>))
             else if c_state c = ''claimed'' \<or> c_state c = ''launching'' then resumeUnsettled E req name c kind
             else stateErr ''job_state_unavailable'' (newErr (''unsupported job claim state '' @ c_state c))) })"

section \<open>start\_job\<close>

text \<open>The new claim is written; launch it, or record that the attempt failed.\<close>

definition launchNewJob :: "env \<Rightarrow> Request \<Rightarrow> string \<Rightarrow> jobClaim \<Rightarrow> Response prog" where
  "launchNewJob E req name c =
     (let jid = c_jobID c; paths = jobPathsFor jid in
      checkE (prepareJobFiles E paths req)
        (\<lambda>e. do { failJobClaim E name c; cleanupJobPaths E paths; stateErr ''job_prepare_failed'' e })
      (checkE (updateJobClaim E name (c\<lparr>c_state := ''launching''\<rparr>))
        (\<lambda>e. do { failJobClaim E name c; cleanupJobPaths E paths; stateErr ''job_state_unavailable'' e }) (do {
        resp \<leftarrow> launchPreparedJob E req paths jid;
        if r_ok resp then
          checkE (updateJobClaim E name (c\<lparr>c_state := ''started''\<rparr>))
            (\<lambda>e. return (jobClaimFinalizeError jid e))
            (return resp)
        else if r_errorCode resp \<noteq> ''unknown_completion'' then do {
          cleanupJobPaths E paths;
          failJobClaim E name c;
          return resp }
        else return resp })))"

definition newClaim :: "env \<Rightarrow> Request \<Rightarrow> string \<Rightarrow> int \<Rightarrow> string \<Rightarrow> jobClaim" where
  "newClaim E req jid t fingerprint = \<lparr>c_version = 1, c_jobID = jid, c_fingerprint = fingerprint,
     c_state = ''claimed'', c_createdAt = e_formatTime E t, c_principalID = q_principalID req,
     c_principalClass = q_principalClass req, c_root = q_root req, c_workspace = q_workspace req,
     c_kind = q_kind req, c_label = q_label req, c_verifiedStopped = False\<rparr>"

text \<open>A fresh job id from the clock, and its claim; the claim may turn out to exist after all.\<close>

definition claimNewJob :: "env \<Rightarrow> Request \<Rightarrow> string \<Rightarrow> string \<Rightarrow> Response prog" where
  "claimNewJob E req name fingerprint = do {
     n \<leftarrow> nowNano E;
     t \<leftarrow> nowNano E;
     (let c = newClaim E req (itoa n) t fingerprint in
      checkE (createJobClaim E name c)
        (\<lambda>e. if ekind e = Exist then
               tryE (readJobClaim E name) (stateErr ''job_state_unavailable'') (\<lambda>r.
                 case r of
                   Some c' \<Rightarrow> resumeClaimedJob E req name c' fingerprint
                 | None \<Rightarrow> stateErr ''job_state_unavailable'' e)
             else stateErr ''job_state_unavailable'' e)
        (launchNewJob E req name c)) }"

text \<open>No claim exists for the operation: retention of failed claims, then the capacity checks.\<close>

definition admitNewJob :: "env \<Rightarrow> Request \<Rightarrow> string \<Rightarrow> string \<Rightarrow> Response prog" where
  "admitNewJob E req name fingerprint =
     checkE (cleanupFailedJobClaims E) (stateErr ''job_state_unavailable'')
     (tryE (countJobClaims E) (stateErr ''job_state_unavailable'') (\<lambda>claimCount.
       if claimCount \<ge> maxPersistentJobClaims then
         return (busyResponse ''persistent-job recovery state is at capacity; reconcile retained jobs/operation_ids before creating another'' ''busy'')
       else do {
         blocked \<leftarrow> persistentJobAdmissionResponseWithLimits E (persistentTaskCapacity E)
                      (persistentServiceCapacity E) (q_kind req);
         (case blocked of
            Some b \<Rightarrow> return b
          | None \<Rightarrow> claimNewJob E req name fingerprint) }))"

text \<open>The part of \<open>startJobBounded\<close> between the two audit records.\<close>

definition startJobAudited :: "env \<Rightarrow> Request \<Rightarrow> Response prog" where
  "startJobAudited E req =
     checkE (ensureJobState E) (stateErr ''job_state_unavailable'')
     (checkE (cleanupCompletedJobArtifacts E) (stateErr ''job_state_unavailable'') (do {
        now \<leftarrow> nowNano E;
        checkE (cleanupStalePrelaunchClaims E now) (stateErr ''job_state_unavailable'') (do {
          fingerprint \<leftarrow> jobFingerprint E req;
          (let name = operationClaimName E (q_operationID req) (q_principalID req) in
           tryE (readJobClaim E name) (stateErr ''job_state_unavailable'') (\<lambda>r.
             case r of
               Some c \<Rightarrow> resumeClaimedJob E req name c fingerprint
             | None \<Rightarrow>
               if q_principalID req = ''direct-default'' then
                 (let legacy = legacyOperationClaimName E (q_operationID req) in
                  tryE (readJobClaim E legacy) (stateErr ''job_state_unavailable'') (\<lambda>r.
                    case r of
                      Some c \<Rightarrow> resumeClaimedJob E req legacy c fingerprint
                    | None \<Rightarrow> admitNewJob E req name fingerprint))
               else admitNewJob E req name fingerprint)) }) }))"

definition lockJobState :: "env \<Rightarrow> err option prog" where
  "lockJobState E = syscall E"

definition jobStateBusyResponse :: "string \<Rightarrow> string \<Rightarrow> err \<Rightarrow> Response" where
  "jobStateBusyResponse operation jid e =
     (failure ''job_state_unavailable'' ''state''
        (operation @ '' could not acquire Job state lock within 5s: '' @ emsg e
         @ ''; retry after the other operation finishes''))
        \<lparr>r_status := ''busy'', r_retryable := True, r_jobID := jid\<rparr>"

definition acquirePersistentJobAdmissionLock :: "env \<Rightarrow> Response option prog" where
  "acquirePersistentJobAdmissionLock E =
     (let refuse = (\<lambda>pre e. return (Some (jobStateError ''job_state_unavailable'' (emsg (wrapErr pre e))))) in
      if \<not> sv_lifecycleLock E then return None
      else checkE (trustedDir E) (refuse ''validate lifecycle lock directory'')
        (checkE (syscall E) (refuse ''open lifecycle lock'')
        (checkE (syscall E) (refuse ''inspect lifecycle lock'')
        (checkE (syscall E)
           (\<lambda>e. if ekind e = WouldBlock
                then return (Some (busyResponse ''persistent job admission is unavailable while lifecycle management is active'' ''busy''))
                else refuse ''acquire lifecycle admission lock'' e)
           (return None)))))"

text \<open>From the operation id to the deferred completion record, under the two locks.\<close>

definition startJobLocked :: "env \<Rightarrow> Request \<Rightarrow> Response prog" where
  "startJobLocked E req0 = do {
     req \<leftarrow> (if q_operationID req0 = []
            then do { n \<leftarrow> nowNano E; return (req0\<lparr>q_operationID := ''@internal-'' @ itoa n\<rparr>) }
            else return req0);
     blocked \<leftarrow> beginActionAudit E req ''start_job'';
     (case blocked of
        Some b \<Rightarrow> return b
      | None \<Rightarrow> do {
          resp \<leftarrow> startJobAudited E req;
          finishActionAudit E req ''start_job'' resp }) }"

definition startJobBounded :: "env \<Rightarrow> Request \<Rightarrow> Response prog" where
  "startJobBounded E req =
     (case commandInputError (q_command req) of
        Some bad \<Rightarrow> return bad
      | None \<Rightarrow>
      if q_root req \<and> q_workspace req \<noteq> [] then
        return (fileError ''invalid_workspace'' ''validation'' ''worker workspace cannot be supplied for a root job'')
      else let dec = evaluate (sv_guard E) (q_command req) (q_root req) in
      if \<not> allowed dec then return (failure ''policy_denied'' ''policy'' (reason dec))
      else if requiresApproval dec \<and> \<not> q_approval req then
        return ((failure ''approval_required'' ''approval'' ''approval_required'')\<lparr>r_approval := Some dec\<rparr>)
      else let kind = (if q_kind req = [] then ''task'' else q_kind req) in
      if kind \<noteq> ''task'' \<and> kind \<noteq> ''service'' then
        return (fileError ''invalid_job_kind'' ''validation'' ''kind must be task or service'')
      else case validateJobLabel kind (q_label req) of
        Some e \<Rightarrow> return (fileError ''invalid_job_label'' ''validation'' (emsg e))
      | None \<Rightarrow> do {
          ws \<leftarrow> (if q_root req then return (Inr ''/root'')
                else tryE (workerCommandWorkspace E (q_workspace req))
                       (\<lambda>e. fail (fileError ''invalid_workspace'' ''validation'' (emsg e))) (\<lambda>cwd.
                     tryE (workerSessionHome E)
                       (\<lambda>e. fail (fileError ''worker_home_unavailable'' ''state'' (emsg e)))
                       (\<lambda>_. ok cwd)));
          (case ws of
             Inl r \<Rightarrow> return r
           | Inr cwd \<Rightarrow>
             (case validateOperationID (q_operationID req) of
                Some e \<Rightarrow> return (failure ''invalid_operation_id'' ''validation'' (emsg e))
              | None \<Rightarrow> do {
                  blocked \<leftarrow> acquirePersistentJobAdmissionLock E;
                  (case blocked of
                     Some b \<Rightarrow> return b
                   | None \<Rightarrow>
                     checkE (lockJobState E) (\<lambda>e. return (jobStateBusyResponse ''start_job'' [] e))
                       (startJobLocked E (req\<lparr>q_kind := kind, q_workspace := cwd\<rparr>))) })) })"

end
