(* ===== verification/JobControl.thy ===== *)
theory JobControl
  imports JobStart
begin

text \<open>
  \<open>job_status\<close> and \<open>job_stop\<close> (\<open>executor.go\<close>), and a client's sequence of job requests.
\<close>

section \<open>job\_status\<close>

definition statusFromUnit :: "env \<Rightarrow> string \<Rightarrow> Response prog" where
  "statusFromUnit E jid = do {
     (out, err) \<leftarrow> runBoundedJobSystemd E [''systemctl'', ''show'', unitName jid,
       ''--property=ActiveState,SubState,ExecMainStatus,MainPID'', ''--no-pager''];
     return (case err of
         Some e \<Rightarrow> applyOutputResult (failure ''job_status_unavailable'' ''state'' (emsg e)) out
       | None \<Rightarrow> applyOutputResult (zeroResponse\<lparr>r_ok := True, r_status := trimSpace (o_output out)\<rparr>) out) }"

definition jobStatusLocked :: "env \<Rightarrow> string \<Rightarrow> Response prog" where
  "jobStatusLocked E jid =
     (let paths = jobPathsFor jid; unavailable = stateErr ''job_status_unavailable'' in do {
      terminal \<leftarrow> jobTerminalReplayResponse E (p_status paths) jid;
      (case terminal of
         Some t \<Rightarrow> return t
       | None \<Rightarrow>
         tryE (jobStarted E (p_started paths)) unavailable (\<lambda>started.
         tryE (if started then ok True else jobHasStartedClaim E jid) unavailable (\<lambda>accepted.
         if \<not> accepted then statusFromUnit E jid
         else tryE (jobUnitActive E jid) unavailable (\<lambda>active.
           if active then statusFromUnit E jid
           else checkE (markJobStatusUnknownIfEmpty E (p_status paths)) unavailable
             (checkE (removeTerminalCommandHandoff E (p_command paths)) unavailable (do {
                r \<leftarrow> jobTerminalReplayResponse E (p_status paths) jid;
                return (orZero r) })))))) })"

definition invalidJobID :: "string \<Rightarrow> Response prog" where
  "invalidJobID m = return (failure ''invalid_job_id'' ''validation'' m)"

definition jobStatus :: "env \<Rightarrow> Request \<Rightarrow> Response prog" where
  "jobStatus E req =
     (case safeID (q_jobID req) of
        Inl m \<Rightarrow> invalidJobID m
      | Inr jid \<Rightarrow>
          checkE (lockJobState E) (\<lambda>e. return (jobStateBusyResponse ''job_status'' jid e))
            (jobStatusLocked E jid))"

section \<open>job\_stop\<close>

text \<open>The unit is verified inactive: check the runner's status record, save the proof, answer.\<close>

definition recordStop :: "env \<Rightarrow> string \<Rightarrow> boundedOutputResult \<Rightarrow> Response prog" where
  "recordStop E jid out =
     (let unknown = (\<lambda>m. return (applyOutputResult (unknownJobLaunchResponse jid m) out));
          finish = (\<lambda>hasRecord status.
            checkE (recordVerifiedJobStop E jid hasRecord)
              (\<lambda>e. unknown (''job unit is inactive, but protected stop evidence could not be saved: '' @ emsg e))
              (return (applyOutputResult (zeroResponse\<lparr>r_ok := True, r_jobID := jid, r_status := ''stopped'',
                 r_exitCode := (case atoi status of Some code \<Rightarrow> code | None \<Rightarrow> -1)\<rparr>) out)))
      in tryE (readJobStatusValue E (p_status (jobPathsFor jid)))
           (\<lambda>e. if isNotExist e then finish False []
                else unknown (''job unit is inactive but status evidence is unsafe: '' @ emsg e))
           (\<lambda>(status, _). finish True status))"

definition jobStopLocked :: "env \<Rightarrow> string \<Rightarrow> Response prog" where
  "jobStopLocked E jid = do {
     (out, err) \<leftarrow> runBoundedJobSystemd E [''systemctl'', ''stop'', unitName jid];
     (case err of
        Some e \<Rightarrow>
          return (applyOutputResult
            (if ekind e = Deadline \<or> ekind e = WaitDelay
             then unknownJobLaunchResponse jid ''systemd job stop timed out; unit termination has not been verified''
             else (failure ''job_stop_failed'' ''process'' (emsg e))\<lparr>r_jobID := jid\<rparr>) out)
      | None \<Rightarrow> do {
          active \<leftarrow> jobUnitActive E jid;
          (case active of
             Inl e \<Rightarrow> return (applyOutputResult (unknownJobLaunchResponse jid
                        (''job termination cannot be verified: '' @ emsg e)) out)
           | Inr True \<Rightarrow> return (applyOutputResult (unknownJobLaunchResponse jid
                        ''job unit remains active after stop'') out)
           | Inr False \<Rightarrow> recordStop E jid out) }) }"

definition jobStop :: "env \<Rightarrow> Request \<Rightarrow> Response prog" where
  "jobStop E req0 =
     (case safeID (q_jobID req0) of
        Inl m \<Rightarrow> invalidJobID m
      | Inr jid \<Rightarrow>
        (let req = req0\<lparr>q_jobID := jid\<rparr> in do {
         blocked \<leftarrow> beginActionAudit E req ''job_stop'';
         (case blocked of
            Some b \<Rightarrow> return b
          | None \<Rightarrow> do {
              resp \<leftarrow> checkE (lockJobState E) (\<lambda>e. return (jobStateBusyResponse ''job_stop'' jid e))
                        (jobStopLocked E jid);
              finishActionAudit E req ''job_stop'' resp }) }))"

section \<open>Sequences of requests\<close>

text \<open>A restart loses what the process held in memory: locks and the audit latch.\<close>

datatype call = StartJob Request | JobStatus Request | JobStop Request | Restart

fun serve :: "env \<Rightarrow> call \<Rightarrow> Response prog" where
  "serve E (StartJob req) = startJobBounded E req"
| "serve E (JobStatus req) = jobStatus E req"
| "serve E (JobStop req) = jobStop E req"
| "serve E Restart = do { modify (\<lambda>w. w\<lparr>held := None, degraded := False\<rparr>); return zeroResponse }"

fun serveAll :: "env \<Rightarrow> call list \<Rightarrow> Response list prog" where
  "serveAll E [] = return []"
| "serveAll E (c # cs) = do { r \<leftarrow> serve E c; rs \<leftarrow> serveAll E cs; return (r # rs) }"

end
