(* ===== verification/JobFrame.thy ===== *)
theory JobFrame
  imports JobControl
begin

text \<open>
  What every operation of the job subsystem respects. A relation between worlds that tolerates the
  primitive effects is respected by every operation built from them: the proofs are made once, in
  two locales. \<open>job_frame\<close> covers the operations that leave the claims alone and launch nothing;
  \<open>claim_frame\<close> covers all of them.
\<close>

fun launchedUnit :: "event \<Rightarrow> string option" where
  "launchedUnit (Systemd (prog # opt # u # _)) = (if prog = ''systemd-run'' \<and> opt = ''--unit'' then Some u else None)"
| "launchedUnit _ = None"

named_theorems frame_rules

locale job_frame = frame R for R :: "world \<Rightarrow> world \<Rightarrow> bool" +
  fixes okEvent :: "event \<Rightarrow> bool"
  assumes advance_step: "R w (advance E w)"
    and jobs_step: "R w (w\<lparr>jobFiles := x\<rparr>)"
    and held_step: "R w (w\<lparr>held := h\<rparr>)"
    and degraded_step: "R w (w\<lparr>degraded := d\<rparr>)"
    and event_step: "okEvent ev \<Longrightarrow> R w (w\<lparr>trace := ev # trace w\<rparr>)"
    and ok_query: "launchedUnit (Systemd argv) = None \<Longrightarrow> okEvent (Systemd argv)"
    and ok_audit: "okEvent (AuditStart a b)" "okEvent (AuditComplete a b)"
begin

declare steps [frame_rules]

lemma on_prim [frame_rules]:
  "state_io_rel R (syscall E)" "state_io_rel R (nowNano E)" "state_io_rel R (askView E f)"
  by (auto simp: syscall_def nowNano_def askView_def advance_step intro: state_io_relI)

lemma on_edits [frame_rules]:
  "state_io_rel R (modify (\<lambda>w. w\<lparr>jobFiles := g w\<rparr>))"
  "state_io_rel R (modify (\<lambda>w. w\<lparr>held := h\<rparr>))"
  "state_io_rel R (modify (\<lambda>w. w\<lparr>degraded := d\<rparr>))"
  by (rule on_modify, rule jobs_step held_step degraded_step)+

lemma on_event [frame_rules]: "okEvent ev \<Longrightarrow> state_io_rel R (record_event ev)"
  unfolding record_event_def by (rule on_modify) (rule event_step)

lemma on_files [frame_rules]:
  "state_io_rel R (putJob n f)" "state_io_rel R (editJob n g)" "state_io_rel R unlockFile"
  "state_io_rel R (trustedDir E)" "state_io_rel R (lockJobState E)"
  unfolding putJob_def editJob_def unlockFile_def trustedDir_def lockJobState_def
  by (intro frame_rules)+

lemma on_openFile [frame_rules]: "state_io_rel R (openFile E n)"
  unfolding openFile_def by (intro frame_rules)

lemma on_openJobFile [frame_rules]: "state_io_rel R (openJobFile E n)"
  unfolding openJobFile_def by (intro frame_rules)

lemma on_readFile [frame_rules]: "state_io_rel R (readFile E n f k)"
  unfolding readFile_def by (intro frame_rules)

lemma on_createJobFile [frame_rules]: "state_io_rel R (createJobFile E n uid)"
  unfolding createJobFile_def by (intro frame_rules)

lemma on_removeFile [frame_rules]: "state_io_rel R (removeFile E n)"
  unfolding removeFile_def by (intro frame_rules)

lemma on_removeAll [frame_rules]: "state_io_rel R (removeAll E ps e)"
  by (induction ps arbitrary: e) (auto intro!: frame_rules)

lemma on_removeJobPaths [frame_rules]:
  "state_io_rel R (removeJobPaths E ps)" "state_io_rel R (cleanupJobPaths E ps)"
  unfolding cleanupJobPaths_def removeJobPaths_def by (intro frame_rules)+

lemma on_removeHandoff [frame_rules]: "state_io_rel R (removeTerminalCommandHandoff E n)"
  unfolding removeTerminalCommandHandoff_def by (intro frame_rules)

lemma on_discardFiles [frame_rules]: "state_io_rel R (discardFiles E ps)"
  by (induction ps) (auto intro!: frame_rules)

lemma on_createAll [frame_rules]: "state_io_rel R (createAll E uid got ps)"
  by (induction ps arbitrary: got) (auto intro!: frame_rules)

lemma on_prepareJobFiles [frame_rules]: "state_io_rel R (prepareJobFiles E ps req)"
  unfolding prepareJobFiles_def Let_def by (intro frame_rules)

lemma on_lockLoop [frame_rules]: "state_io_rel R (lockLoop E k n d)"
  by (induction k) (auto intro!: frame_rules)

lemma on_lockJobStatusFile [frame_rules]: "state_io_rel R (lockJobStatusFile E n)"
  unfolding lockJobStatusFile_def by (intro frame_rules)

lemma on_readJobStatus [frame_rules]:
  "state_io_rel R (readJobStatusValue E n)"
  unfolding readJobStatusValue_def readJobStatusLocked_def Let_def by (intro frame_rules)

lemma on_jobStarted [frame_rules]: "state_io_rel R (jobStarted E n)"
  unfolding jobStarted_def Let_def by (intro frame_rules)

lemma on_markUnknown [frame_rules]: "state_io_rel R (markJobStatusUnknownIfEmpty E n)"
  unfolding markJobStatusUnknownIfEmpty_def markUnknownLocked_def Let_def by (intro frame_rules)

lemma on_readJobClaim [frame_rules]: "state_io_rel R (readJobClaim E n)"
  unfolding readJobClaim_def by (intro frame_rules) (auto intro!: frame_rules split: claimBody.splits)

lemma on_readClaimsDir [frame_rules]: "state_io_rel R (readClaimsDir E)"
  unfolding readClaimsDir_def by (intro frame_rules)

lemma on_findLoop [frame_rules]: "state_io_rel R (findLoop E jid m es)"
  by (induction es arbitrary: m) (auto intro!: frame_rules)

lemma on_findJobClaimForID [frame_rules]: "state_io_rel R (findJobClaimForID E jid)"
  unfolding findJobClaimForID_def by (intro frame_rules)

lemma on_countJobClaims [frame_rules]: "state_io_rel R (countJobClaims E)"
  unfolding countJobClaims_def by (intro frame_rules)

lemma on_startedLoop [frame_rules]: "state_io_rel R (startedLoop E jid es)"
  by (induction es) (auto intro!: frame_rules)

lemma on_jobHasStartedClaim [frame_rules]: "state_io_rel R (jobHasStartedClaim E jid)"
  unfolding jobHasStartedClaim_def by (intro frame_rules)

lemma on_systemd [frame_rules]:
  "launchedUnit (Systemd argv) = None \<Longrightarrow> state_io_rel R (runBoundedJobSystemd E argv)"
  unfolding runBoundedJobSystemd_def by (intro frame_rules ok_query)

lemma on_jobUnitActive [frame_rules]: "state_io_rel R (jobUnitActive E jid)"
  unfolding jobUnitActive_def listUnitsArgs_def by (intro frame_rules) simp

lemma on_jobUnitExists [frame_rules]: "state_io_rel R (jobUnitExists E jid)"
  unfolding jobUnitExists_def Let_def by (intro frame_rules) simp

lemma on_evidence [frame_rules]: "state_io_rel R (jobExecutionEvidenceState E ps jid)"
  unfolding jobExecutionEvidenceState_def by (intro frame_rules)

lemma on_activeAgentUnitIDs [frame_rules]: "state_io_rel R (activeAgentUnitIDs E)"
  unfolding activeAgentUnitIDs_def listUnitsArgs_def by (intro frame_rules) simp

lemma on_claimsByID [frame_rules]: "state_io_rel R (claimsByID E acc es)"
  by (induction es arbitrary: acc) (auto intro!: frame_rules)

lemma on_kindCounts [frame_rules]: "state_io_rel R (activeAgentJobKindCounts E)"
  unfolding activeAgentJobKindCounts_def Let_def by (intro frame_rules)

lemma on_admission [frame_rules]:
  "state_io_rel R (persistentJobAdmissionResponseWithLimits E a b k)"
  unfolding persistentJobAdmissionResponseWithLimits_def jobStateHasReserve_def Let_def
  by (intro frame_rules)

lemma on_audit [frame_rules]:
  "state_io_rel R (beginActionAudit E req a)" "state_io_rel R (finishActionAudit E req a r)"
  unfolding beginActionAudit_def finishActionAudit_def auditWrite_def auditWriteCompletion_def Let_def
  by (intro frame_rules ok_audit)+

lemma on_stateErr [frame_rules]: "state_io_rel R (stateErr c e)"
  unfolding stateErr_def by (intro frame_rules)

lemma on_replay [frame_rules]: "state_io_rel R (jobTerminalReplayResponse E n jid)"
  unfolding jobTerminalReplayResponse_def replayTerminal_def Let_def by (intro frame_rules)

lemma on_settle [frame_rules]: "state_io_rel R (settleEndedJob E ps jid)"
  unfolding settleEndedJob_def by (intro frame_rules)

lemma on_completedLoop [frame_rules]: "state_io_rel R (completedLoop E acc ns)"
  by (induction ns arbitrary: acc) (auto simp: Let_def intro!: frame_rules)

lemma on_ensureJobState [frame_rules]: "state_io_rel R (ensureJobState E)"
  unfolding ensureJobState_def by (intro frame_rules)

lemma on_failedLoop [frame_rules]: "state_io_rel R (failedLoop E acc es)"
  by (induction es arbitrary: acc) (auto intro!: frame_rules)

lemma on_fingerprint [frame_rules]: "state_io_rel R (jobFingerprint E req)"
  unfolding jobFingerprint_def Let_def by (intro frame_rules)

lemma on_workspace [frame_rules]:
  "state_io_rel R (workerCommandWorkspace E i)" "state_io_rel R (workerSessionHome E)"
  unfolding workerCommandWorkspace_def workerSessionHome_def Let_def by (intro frame_rules)+

lemma on_lifecycle [frame_rules]: "state_io_rel R (acquirePersistentJobAdmissionLock E)"
  unfolding acquirePersistentJobAdmissionLock_def Let_def by (intro frame_rules)

lemma on_reconcile [frame_rules]: "state_io_rel R (reconcileLaunch E ps jid out e)"
  unfolding reconcileLaunch_def reconcileUnstarted_def Let_def by (intro frame_rules)

lemma on_status [frame_rules]: "state_io_rel R (jobStatus E req)"
  unfolding jobStatus_def jobStatusLocked_def statusFromUnit_def invalidJobID_def Let_def
  by (intro frame_rules) simp_all

end

locale claim_frame = job_frame R okEvent for R :: "world \<Rightarrow> world \<Rightarrow> bool" and okEvent +
  assumes claims_step: "R w (w\<lparr>claimFiles := x\<rparr>)"
    and ok_launch: "okEvent ev"
begin

lemma on_claim_edits [frame_rules]:
  "state_io_rel R (putClaim n f)" "state_io_rel R (dropClaim n)"
  unfolding putClaim_def dropClaim_def by (rule on_modify, rule claims_step)+

lemma on_createJobClaim [frame_rules]: "state_io_rel R (createJobClaim E n c)"
  unfolding createJobClaim_def by (intro frame_rules)

lemma on_updateJobClaim [frame_rules]: "state_io_rel R (updateJobClaim E n c)"
  unfolding updateJobClaim_def removeTemp_def Let_def by (intro frame_rules)

lemma on_removeClaimFile [frame_rules]: "state_io_rel R (removeClaimFile E n)"
  unfolding removeClaimFile_def by (intro frame_rules)

lemma on_removeClaimsLoop [frame_rules]: "state_io_rel R (removeClaimsLoop E jid es)"
  by (induction es) (auto intro!: frame_rules)

lemma on_removeClaimsForJob [frame_rules]: "state_io_rel R (removeClaimsForJob E jid)"
  unfolding removeClaimsForJob_def by (intro frame_rules)

lemma on_retireLoop [frame_rules]: "state_io_rel R (retireLoop E olds)"
  by (induction olds rule: retireLoop.induct) (auto intro!: frame_rules)

lemma on_cleanupCompleted [frame_rules]: "state_io_rel R (cleanupCompletedJobArtifacts E)"
  unfolding cleanupCompletedJobArtifacts_def by (intro frame_rules)

lemma on_staleLoop [frame_rules]: "state_io_rel R (staleLoop E now es)"
  by (induction es) (auto simp: Let_def intro!: frame_rules)

lemma on_removeOldFailed [frame_rules]: "state_io_rel R (removeOldFailed E olds)"
  by (induction olds rule: removeOldFailed.induct) (auto intro!: frame_rules)

lemma on_passes [frame_rules]:
  "state_io_rel R (cleanupStalePrelaunchClaims E now)" "state_io_rel R (cleanupFailedJobClaims E)"
  unfolding cleanupStalePrelaunchClaims_def cleanupFailedJobClaims_def by (intro frame_rules)+

lemma on_anySystemd [frame_rules]: "state_io_rel R (runBoundedJobSystemd E argv)"
  unfolding runBoundedJobSystemd_def by (intro frame_rules ok_launch)

lemma on_failJobClaim [frame_rules]: "state_io_rel R (failJobClaim E n c)"
  unfolding failJobClaim_def by (intro frame_rules)

lemma on_launchPreparedJob [frame_rules]: "state_io_rel R (launchPreparedJob E req ps jid)"
  unfolding launchPreparedJob_def by (intro frame_rules)

lemma on_relaunchClaimed [frame_rules]: "state_io_rel R (relaunchClaimed E req n c k)"
  unfolding relaunchClaimed_def Let_def by (intro frame_rules)

lemma on_resumeUnsettled [frame_rules]: "state_io_rel R (resumeUnsettled E req n c k)"
  unfolding resumeUnsettled_def Let_def by (intro frame_rules)

lemma on_resumeClaimedJob [frame_rules]: "state_io_rel R (resumeClaimedJob E req n c fp)"
  unfolding resumeClaimedJob_def Let_def by (intro frame_rules)

lemma on_launchNewJob [frame_rules]: "state_io_rel R (launchNewJob E req n c)"
  unfolding launchNewJob_def Let_def by (intro frame_rules)

lemma on_claimNewJob [frame_rules]: "state_io_rel R (claimNewJob E req n fp)"
  unfolding claimNewJob_def Let_def by (intro frame_rules)

lemma on_admitNewJob [frame_rules]: "state_io_rel R (admitNewJob E req n fp)"
  unfolding admitNewJob_def by (intro frame_rules)

lemma on_startJobAudited [frame_rules]: "state_io_rel R (startJobAudited E req)"
  unfolding startJobAudited_def Let_def by (intro frame_rules)

lemma on_startJobBounded [frame_rules]: "state_io_rel R (startJobBounded E req)"
  unfolding startJobBounded_def startJobLocked_def Let_def by (intro frame_rules)

lemma on_recordVerifiedJobStop [frame_rules]: "state_io_rel R (recordVerifiedJobStop E jid b)"
  unfolding recordVerifiedJobStop_def by (intro frame_rules)

lemma on_jobStop [frame_rules]: "state_io_rel R (jobStop E req)"
  unfolding jobStop_def jobStopLocked_def recordStop_def invalidJobID_def Let_def
  by (intro frame_rules) (auto intro!: frame_rules split: bool.splits)

end

end
