(* ===== verification/JobSafety.thy ===== *)
theory JobSafety
  imports JobFrame
begin

text \<open>
  At-most-once dispatch. Over any sequence of \<open>start_job\<close>, \<open>job_status\<close>, \<open>job_stop\<close> and restarts,
  with a fault possible at every system call and the runner free to change its files at every
  tick, systemd-run is called at most once for a job id. Most operations are \<^emph>\<open>quiet\<close>: they leave
  the claims and the launches alone. The rest keep an invariant that ties the launches to the
  durable state of the claims.
\<close>

section \<open>Launches and claims\<close>

definition launchTrace :: "world \<Rightarrow> string list" where
  "launchTrace w = List.map_filter launchedUnit (trace w)"

definition launches :: "string \<Rightarrow> world \<Rightarrow> nat" where
  "launches jid w = count_list (launchTrace w) (unitName jid)"

definition docAt :: "string \<Rightarrow> claimFile option \<Rightarrow> jobClaim option" where
  "docAt name f = (case f of None \<Rightarrow> None
     | Some f \<Rightarrow> (case cf_body f of Doc c \<Rightarrow> if hasSuffix name ''.json'' then Some c else None | Junk \<Rightarrow> None))"

definition claimAt :: "world \<Rightarrow> string \<Rightarrow> jobClaim option" where
  "claimAt w name = docAt name (map_of (claimFiles w) name)"

section \<open>Quiet operations\<close>

definition quiet :: "world \<Rightarrow> world \<Rightarrow> bool" where
  "quiet s t = (claimFiles t = claimFiles s \<and> launchTrace t = launchTrace s \<and> tick s \<le> tick t \<and>
     set (trace s) \<subseteq> set (trace t))"

interpretation qf: job_frame quiet "\<lambda>ev. launchedUnit ev = None"
  by unfold_locales (auto simp: quiet_def launchTrace_def advance_def List.map_filter_simps)

section \<open>The invariant\<close>

definition claimStates :: "string set" where
  "claimStates = {''claimed'', ''launching'', ''started'', ''failed''}"

text \<open>An id that can no longer be handed out: if it is a time, that time has passed.\<close>

definition older :: "env \<Rightarrow> world \<Rightarrow> string \<Rightarrow> bool" where
  "older E w jid = (\<forall>n. jid = itoa n \<longrightarrow> n < e_now E (tick w))"

text \<open>The executor has told systemd to stop the job.\<close>

definition stopIssued :: "string \<Rightarrow> world \<Rightarrow> bool" where
  "stopIssued jid w = (Systemd [''systemctl'', ''stop'', unitName jid] \<in> set (trace w))"

definition validClaim :: "env \<Rightarrow> world \<Rightarrow> jobClaim \<Rightarrow> bool" where
  "validClaim E w c = (older E w (c_jobID c) \<and> ascii (c_jobID c) \<and> c_state c \<in> claimStates \<and>
     (0 < launches (c_jobID c) w \<longrightarrow> c_state c \<noteq> ''claimed'') \<and>
     (c_verifiedStopped c \<longrightarrow> stopIssued (c_jobID c) w))"

definition owner :: "string \<Rightarrow> string \<Rightarrow> world \<Rightarrow> bool" where
  "owner name jid w = (\<forall>n c. claimAt w n = Some c \<longrightarrow> c_jobID c = jid \<longrightarrow> n = name)"

definition Inv :: "env \<Rightarrow> world \<Rightarrow> bool" where
  "Inv E w = (strict_mono (e_now E) \<and>
     (\<forall>n c. claimAt w n = Some c \<longrightarrow> validClaim E w c \<and> owner n (c_jobID c) w) \<and>
     (\<forall>jid. launches jid w \<le> 1) \<and> (\<forall>jid. 0 < launches jid w \<longrightarrow> older E w jid))"

text \<open>What a handler knows of the job it works on: the invariant, and that a claim with this id can
  only be at this name; then also that nothing was launched, and that the claim says so durably.\<close>

definition Own :: "env \<Rightarrow> string \<Rightarrow> jobClaim \<Rightarrow> world \<Rightarrow> bool" where
  "Own E name c w = (Inv E w \<and> owner name (c_jobID c) w \<and> older E w (c_jobID c) \<and> ascii (c_jobID c) \<and>
     hasSuffix name ''.json'' \<and> (c_verifiedStopped c \<longrightarrow> stopIssued (c_jobID c) w))"

definition Ready :: "env \<Rightarrow> string \<Rightarrow> jobClaim \<Rightarrow> world \<Rightarrow> bool" where
  "Ready E name c w = (Own E name c w \<and> launches (c_jobID c) w = 0)"

definition Armed :: "env \<Rightarrow> string \<Rightarrow> jobClaim \<Rightarrow> world \<Rightarrow> bool" where
  "Armed E name c w = (Ready E name c w \<and>
     (\<forall>c'. claimAt w name = Some c' \<longrightarrow> c_jobID c' = c_jobID c \<longrightarrow> c_state c' \<noteq> ''claimed''))"

definition Held :: "env \<Rightarrow> string \<Rightarrow> jobClaim \<Rightarrow> world \<Rightarrow> bool" where
  "Held E name c w = (Inv E w \<and> claimAt w name = Some c)"

definition stable :: "(world \<Rightarrow> bool) \<Rightarrow> bool" where
  "stable P = (\<forall>s t. P s \<longrightarrow> quiet s t \<longrightarrow> P t)"

lemma quiet_keeps:
  assumes "quiet s t"
  shows "claimAt t = claimAt s" "launches jid t = launches jid s" "owner n jid t = owner n jid s"
    and "stopIssued jid s \<Longrightarrow> stopIssued jid t"
  using assms by (auto simp: quiet_def claimAt_def launches_def owner_def stopIssued_def fun_eq_iff)

lemma older_mono: "strict_mono (e_now E) \<Longrightarrow> tick s \<le> tick t \<Longrightarrow> older E s jid \<Longrightarrow> older E t jid"
  unfolding older_def using strict_mono_less_eq[of "e_now E" "tick s" "tick t"] by force

lemma stable_Inv: "stable (Inv E)"
  unfolding stable_def
proof (intro allI impI)
  fix s t assume i: "Inv E s" and q: "quiet s t"
  have "older E s jid \<Longrightarrow> older E t jid" for jid
    using i q older_mono[of E s t jid] by (simp add: Inv_def quiet_def)
  then show "Inv E t"
    using i quiet_keeps[OF q] by (auto simp: Inv_def validClaim_def)
qed

lemma stable_rules [intro, simp]:
  "stable (Inv E)" "stable (Own E n c)" "stable (Ready E n c)" "stable (Armed E n c)" "stable (Held E n c)"
proof -
  show "stable (Inv E)" by (rule stable_Inv)
  have own: "Own E n c t" if "Own E n c s" "quiet s t" for s t
  proof -
    have "Inv E s" using that(1) by (simp add: Own_def)
    then have "Inv E t" using that(2) stable_Inv[of E] by (simp add: stable_def)
    moreover have "older E t (c_jobID c)"
      using \<open>Inv E s\<close> that older_mono[of E s t "c_jobID c"] by (simp add: Own_def Inv_def quiet_def)
    ultimately show ?thesis using that(1) quiet_keeps(3,4)[OF that(2)] by (auto simp: Own_def)
  qed
  show "stable (Own E n c)" using own by (simp add: stable_def)
  show "stable (Ready E n c)" using own quiet_keeps by (auto simp: stable_def Ready_def)
  show "stable (Armed E n c)" using own quiet_keeps by (auto simp: stable_def Ready_def Armed_def)
  show "stable (Held E n c)" using stable_Inv[of E] quiet_keeps by (auto simp: stable_def Held_def)
qed

lemma wp_quiet:
  assumes "P s" and "stable P" and "state_io_rel quiet m" and "\<And>a t. P t \<Longrightarrow> quiet s t \<Longrightarrow> Q a t"
  shows "wp m Q s"
proof -
  have q: "quiet s (snd (run_state m s))" using assms(3) by (rule qf.run_frame)
  then have "P (snd (run_state m s))" using assms(1,2) by (auto simp: stable_def)
  then show ?thesis using assms(4) q by (simp add: wp_run)
qed

lemma Held_Own: "Held E n c w \<Longrightarrow> Own E n c w"
  by (auto simp: Held_def Own_def Inv_def validClaim_def claimAt_def docAt_def
      split: option.splits claimBody.splits if_splits)

lemma Held_Ready: "Held E n c w \<Longrightarrow> c_state c = ''claimed'' \<Longrightarrow> Ready E n c w"
  using Held_Own[of E n c w] by (auto simp: Ready_def Held_def Inv_def validClaim_def)

lemma Own_Inv: "Own E n c w \<Longrightarrow> Inv E w" by (simp add: Own_def)
lemma Ready_Own: "Ready E n c w \<Longrightarrow> Own E n c w" by (simp add: Ready_def)
lemma Armed_Ready: "Armed E n c w \<Longrightarrow> Ready E n c w" by (simp add: Armed_def)
lemma Held_Inv: "Held E n c w \<Longrightarrow> Inv E w" by (simp add: Held_def)

section \<open>Operations on claims\<close>

lemma ascii_itoa: "ascii (itoa n)"
proof -
  have "byte c < 0x80" if "c \<in> set (itoa_nat k)" for c k
    using itoa_nat_digits[OF that] by (auto simp: char_class_defs)
  then show ?thesis by (auto simp: ascii_def itoa_def list_all_iff)
qed

lemma ascii_states: "st \<in> claimStates \<Longrightarrow> ascii st"
  by (auto simp: claimStates_def ascii_def)

lemma temp_not_json [simp]: "\<not> hasSuffix (tempName k) ''.json''"
proof
  assume "hasSuffix (tempName k) ''.json''"
  then have "last (trimSuffix (tempName k) ''.json'' @ ''.json'') = last (tempName k)"
    using hasSuffix_trim by metis
  moreover have "itoa (int k) \<noteq> []" by (simp add: itoa_def)
  ultimately have "last (itoa (int k)) = CHR ''n''" by (simp add: tempName_def)
  moreover have "is_digit (last (itoa (int k)))"
    using itoa_nat_digits[of "last (itoa_nat k)" k] by (simp add: itoa_def)
  ultimately show False by (simp add: char_class_defs)
qed

lemma claimAt_put:
  "claimAt (w\<lparr>claimFiles := AList.update n f (claimFiles w)\<rparr>) m = (if m = n then docAt n (Some f) else claimAt w m)"
  by (simp add: claimAt_def update_conv')

lemma claimAt_drop:
  "claimAt (w\<lparr>claimFiles := AList.delete n (claimFiles w)\<rparr>) m = (if m = n then None else claimAt w m)"
  by (simp add: claimAt_def delete_conv' docAt_def)

lemma launches_claims [simp]: "launches j (w\<lparr>claimFiles := x\<rparr>) = launches j w"
  by (simp add: launches_def launchTrace_def)

lemma older_claims [simp]: "older E (w\<lparr>claimFiles := x\<rparr>) = older E w"
  by (simp add: older_def fun_eq_iff)

lemma docAt_new [simp]: "docAt n (Some (newClaimFile E t)) = None"
  by (simp add: docAt_def newClaimFile_def)

lemma docAt_document [simp]:
  "docAt n (Some (claimDocument E t c)) = (if hasSuffix n ''.json'' then Some (decodedClaim c) else None)"
  by (simp add: docAt_def claimDocument_def newClaimFile_def)

lemma decoded_verified [simp]: "c_verifiedStopped (decodedClaim c) = c_verifiedStopped c"
  by (simp add: decodedClaim_def)

lemma decoded_simps:
  "ascii (c_jobID c) \<Longrightarrow> c_jobID (decodedClaim c) = c_jobID c"
  "ascii (c_state c) \<Longrightarrow> c_state (decodedClaim c) = c_state c"
  by (simp_all add: decodedClaim_def cleanText_ascii)

lemma wp_syscall [simp]: "wp (syscall E) Q s = Q (e_fault E (tick s)) (advance E s)"
  by (simp add: wp_def syscall_def)

lemma wp_nowNano [simp]: "wp (nowNano E) Q s = Q (e_now E (tick s)) (advance E s)"
  by (simp add: wp_def nowNano_def)

lemma advance_simps [simp]:
  "claimFiles (advance E w) = claimFiles w" "tick (advance E w) = Suc (tick w)"
  "launchTrace (advance E w) = launchTrace w" "trace (advance E w) = trace w"
  "degraded (advance E w) = degraded w"
  by (simp_all add: advance_def launchTrace_def)

lemma claimAt_advance [simp]: "claimAt (advance E w) = claimAt w"
  by (simp add: claimAt_def fun_eq_iff)

lemma launchTrace_claims [simp]: "launchTrace (w\<lparr>claimFiles := x\<rparr>) = launchTrace w"
  by (simp add: launchTrace_def)

text \<open>How the launches and the clock relate across an operation on the claims.\<close>

definition sameLaunches :: "world \<Rightarrow> world \<Rightarrow> bool" where
  "sameLaunches s t = (launchTrace t = launchTrace s \<and> tick s \<le> tick t \<and> set (trace s) \<subseteq> set (trace t))"

lemma sameLaunches_count: "sameLaunches s t \<Longrightarrow> launches j t = launches j s"
  by (simp add: sameLaunches_def launches_def)

lemma sameLaunches_stop: "sameLaunches s t \<Longrightarrow> stopIssued j s \<Longrightarrow> stopIssued j t"
  by (auto simp: sameLaunches_def stopIssued_def)

lemma Inv_fewer:
  assumes "Inv E s" and "sameLaunches s t" and "\<And>n c. claimAt t n = Some c \<Longrightarrow> claimAt s n = Some c"
  shows "Inv E t"
proof -
  have "older E s j \<Longrightarrow> older E t j" for j
    using assms(1,2) older_mono[of E s t j] by (simp add: Inv_def sameLaunches_def)
  note old = this
  note cnt = sameLaunches_count[OF assms(2)]
  have "validClaim E t c \<and> owner n (c_jobID c) t" if "claimAt t n = Some c" for n c
  proof -
    have "validClaim E s c \<and> owner n (c_jobID c) s"
      using assms(1) assms(3)[OF that] by (simp add: Inv_def)
    then show ?thesis
      using old cnt assms(3) sameLaunches_stop[OF assms(2)] by (auto simp: validClaim_def owner_def)
  qed
  then show ?thesis using assms(1) old cnt by (simp add: Inv_def)
qed

lemma Own_fewer:
  assumes "Own E n c s" and "sameLaunches s t" and "claimAt t = claimAt s"
  shows "Own E n c t"
proof -
  have i: "Inv E s" using assms(1) by (simp add: Own_def)
  then have "older E t (c_jobID c)"
    using assms(1,2) older_mono[of E s t "c_jobID c"] by (simp add: Own_def Inv_def sameLaunches_def)
  moreover have "Inv E t" using i assms(2) Inv_fewer assms(3) by metis
  ultimately show ?thesis
    using assms(1,3) sameLaunches_stop[OF assms(2)] by (auto simp: Own_def owner_def)
qed

lemma Own_set:
  assumes own: "Own E n c s" and same: "sameLaunches s t"
    and at: "claimAt t = (claimAt s)(n := Some d)"
    and id: "c_jobID d = c_jobID c" "c_verifiedStopped d = c_verifiedStopped c"
    and st: "c_state d \<in> claimStates"
    and cl: "0 < launches (c_jobID c) s \<longrightarrow> c_state d \<noteq> ''claimed''"
  shows "Own E n c t"
proof -
  have i: "Inv E s" and mono: "strict_mono (e_now E)" using own by (auto simp: Own_def Inv_def)
  have old: "older E s k \<Longrightarrow> older E t k" for k
    using same mono older_mono[of E s t k] by (simp add: sameLaunches_def)
  note cnt = sameLaunches_count[OF same]
  note stop = sameLaunches_stop[OF same]
  have ownr: "owner n (c_jobID c) t" using own at by (auto simp: Own_def owner_def)
  have valid: "validClaim E t c'" if "claimAt t m = Some c'" for m c'
  proof (cases "m = n")
    case True
    then have "c' = d" using that at by simp
    then show ?thesis using own id st cl old cnt stop by (auto simp: validClaim_def Own_def)
  next
    case False
    then have "claimAt s m = Some c'" using that at by simp
    then show ?thesis using i old cnt stop by (auto simp: Inv_def validClaim_def)
  qed
  have owners: "owner m (c_jobID c') t" if "claimAt t m = Some c'" for m c'
  proof (cases "c_jobID c' = c_jobID c")
    case True
    then show ?thesis using ownr that by (auto simp: owner_def)
  next
    case False
    then have "claimAt s m = Some c'" using that at id by (auto split: if_splits)
    then have "owner m (c_jobID c') s" using i by (simp add: Inv_def)
    then show ?thesis using at id False by (auto simp: owner_def)
  qed
  have "Inv E t" using valid owners i cnt old mono by (simp add: Inv_def)
  then show ?thesis using own old ownr stop by (auto simp: Own_def)
qed

lemma wp_putClaim [simp]:
  "wp (putClaim n f) Q s = Q () (s\<lparr>claimFiles := AList.update n f (claimFiles s)\<rparr>)"
  by (simp add: putClaim_def)

lemma wp_dropClaim [simp]:
  "wp (dropClaim n) Q s = Q () (s\<lparr>claimFiles := AList.delete n (claimFiles s)\<rparr>)"
  by (simp add: dropClaim_def)

lemma claimAt_put_advance:
  "claimAt ((advance E w)\<lparr>claimFiles := x\<rparr>) = claimAt (w\<lparr>claimFiles := x\<rparr>)"
  by (simp add: claimAt_def fun_eq_iff)

lemmas claim_table = claimAt_put claimAt_drop claimAt_put_advance sameLaunches_def fun_eq_iff

definition docTable :: "(string \<times> claimFile) list \<Rightarrow> string \<Rightarrow> jobClaim option" where
  "docTable cs name = docAt name (map_of cs name)"

lemma claimAt_docTable: "claimAt w = docTable (claimFiles w)"
  by (simp add: claimAt_def docTable_def fun_eq_iff)

lemma docTable_simps [simp]:
  "docTable (AList.update n f cs) = (docTable cs)(n := docAt n (Some f))"
  "docTable (AList.delete n cs) = (docTable cs)(n := None)"
  by (auto simp: docTable_def update_conv' delete_conv' docAt_def fun_eq_iff)

lemma updateJobClaim_effect:
  assumes "hasSuffix n ''.json''"
  shows "wp (updateJobClaim E n c) (\<lambda>r t. sameLaunches s t \<and>
           claimAt t = (if r = None then (claimAt s)(n := Some (decodedClaim c)) else claimAt s)) s"
proof -
  have tmp: "(docTable cs)(tempName k := None) = docTable cs" for cs k
    by (auto simp: docTable_def docAt_def fun_eq_iff split: option.splits claimBody.splits)
  have ne: "tempName k \<noteq> n" for k using assms temp_not_json by metis
  have tmp2: "(docTable cs)(n \<mapsto> d, tempName k := None) = (docTable cs)(n \<mapsto> d)" for cs k d
    using ne[of k] tmp[of cs k] by (metis fun_upd_twist)
  show ?thesis
    using assms ne ne[symmetric] tmp tmp2
    unfolding updateJobClaim_def trustedDir_def removeTemp_def Let_def claimAt_docTable
    by (auto simp: sameLaunches_def fun_upd_twist split: option.splits)
qed

lemma createJobClaim_effect:
  assumes "hasSuffix n ''.json''"
  shows "wp (createJobClaim E n c) (\<lambda>r t. sameLaunches s t \<and>
           (claimAt t = (claimAt s)(n := Some (decodedClaim c)) \<or> claimAt t = claimAt s \<and> r \<noteq> None)) s"
proof -
  have none: "(docTable cs)(n := None) = docTable cs" if "map_of cs n = None" for cs
    using that by (auto simp: docTable_def docAt_def fun_eq_iff)
  show ?thesis
    using assms none unfolding createJobClaim_def claimAt_docTable
    by (auto simp: sameLaunches_def split: option.splits)
qed

lemma removeClaimFile_effect:
  "wp (removeClaimFile E n) (\<lambda>_ t. sameLaunches s t \<and> (\<forall>m c. claimAt t m = Some c \<longrightarrow> claimAt s m = Some c)) s"
  unfolding removeClaimFile_def claimAt_docTable
  by (auto simp: sameLaunches_def split: option.splits if_splits)

lemma readJobClaim_effect:
  "wp (readJobClaim E n) (\<lambda>r t. quiet s t \<and>
     (\<forall>c. r = Inr (Some c) \<longrightarrow> hasSuffix n ''.json'' \<longrightarrow> claimAt t n = Some c)) s"
proof -
  have "wp (readJobClaim E n) (\<lambda>r t. \<forall>c. r = Inr (Some c) \<longrightarrow> hasSuffix n ''.json'' \<longrightarrow> claimAt t n = Some c) s"
    unfolding readJobClaim_def
    by (auto simp: claimAt_def docAt_def split: option.splits sum.splits claimBody.splits if_splits)
  then show ?thesis using qf.wp_frame[OF qf.on_readJobClaim] wp_conj by fastforce
qed


section \<open>Rules for the handlers\<close>

lemma wp_update:
  assumes own: "Own E n c s" and st: "c_state c \<in> claimStates"
    and cl: "0 < launches (c_jobID c) s \<longrightarrow> c_state c \<noteq> ''claimed''"
    and post: "\<And>r t. Own E n c t \<Longrightarrow> launches (c_jobID c) t = launches (c_jobID c) s \<Longrightarrow>
      (r = None \<Longrightarrow> claimAt t n = Some (decodedClaim c)) \<Longrightarrow> Q r t"
  shows "wp (updateJobClaim E n c) Q s"
proof (rule wp_mono[OF updateJobClaim_effect])
  show "hasSuffix n ''.json''" using own by (simp add: Own_def)
  fix r :: "err option" and t
  assume e: "sameLaunches s t \<and> claimAt t = (if r = None then (claimAt s)(n := Some (decodedClaim c)) else claimAt s)"
  have asc: "ascii (c_jobID c)" "ascii (c_state c)" using own st ascii_states by (auto simp: Own_def)
  have "Own E n c t"
  proof (cases "r = None")
    case True
    then show ?thesis using Own_set[OF own, of t "decodedClaim c"] e st cl asc by (simp add: decoded_simps)
  next
    case False
    then show ?thesis using Own_fewer[OF own, of t] e by (metis (full_types))
  qed
  then show "Q r t" using post e sameLaunches_count[of s t "c_jobID c"] by auto
qed

lemma Own_state [simp]: "Own E n (c\<lparr>c_state := st\<rparr>) = Own E n c"
  by (simp add: Own_def fun_eq_iff)

text \<open>Writing any state but \<open>claimed\<close> is always allowed to the owner.\<close>

lemma wp_update_forward:
  assumes "Own E n c s" and "st \<in> claimStates - {''claimed''}"
    and "\<And>r t. Own E n c t \<Longrightarrow> Q r t"
  shows "wp (updateJobClaim E n (c\<lparr>c_state := st\<rparr>)) Q s"
  using assms by (auto intro!: wp_update[of E n "c\<lparr>c_state := st\<rparr>" s])

lemma wp_update_launching:
  assumes "Ready E n c s"
    and "\<And>t. Armed E n c t \<Longrightarrow> Q None t" and "\<And>e t. Own E n c t \<Longrightarrow> Q (Some e) t"
  shows "wp (updateJobClaim E n (c\<lparr>c_state := ''launching''\<rparr>)) Q s"
proof (rule wp_update)
  let ?c = "c\<lparr>c_state := ''launching''\<rparr>"
  show "Own E n ?c s" using Ready_Own[OF assms(1)] by simp
  show "c_state ?c \<in> claimStates" by (simp add: claimStates_def)
  show "0 < launches (c_jobID ?c) s \<longrightarrow> c_state ?c \<noteq> ''claimed''" by simp
  fix r :: "err option" and t
  assume "Own E n ?c t" "launches (c_jobID ?c) t = launches (c_jobID ?c) s"
  then have t: "Own E n c t" "launches (c_jobID c) t = launches (c_jobID c) s" by simp_all
  assume at: "r = None \<Longrightarrow> claimAt t n = Some (decodedClaim ?c)"
  have "c_state (decodedClaim ?c) = ''launching''" by (rule trans[OF decoded_simps(2)]) (simp_all add: ascii_def)
  then have "r = None \<Longrightarrow> Armed E n c t"
    using t at assms(1) by (auto simp: Armed_def Ready_def)
  then show "Q r t" using assms(2,3) t(1) by (cases r) auto
qed

lemma launch_step:
  assumes a: "Armed E n c0 s" and j: "j = c_jobID c0" and tr: "launchTrace t = unitName j # launchTrace s"
    and at: "claimAt t = claimAt s" and ti: "tick s \<le> tick t" and ev: "set (trace s) \<subseteq> set (trace t)"
  shows "Own E n c0 t"
proof -
  have own: "Own E n c0 s" and zero: "launches j s = 0" and i: "Inv E s"
    using a j by (auto simp: Armed_def Ready_def Own_def)
  have stop: "stopIssued k s \<Longrightarrow> stopIssued k t" for k using ev by (auto simp: stopIssued_def)
  have mono: "strict_mono (e_now E)" using i by (simp add: Inv_def)
  have old: "older E s k \<Longrightarrow> older E t k" for k using mono ti older_mono by blast
  have cnt: "launches k t = (if k = j then 1 else launches k s)" for k
    using tr zero by (simp add: launches_def unitName_def)
  have "validClaim E t c \<and> owner m (c_jobID c) t" if m: "claimAt t m = Some c" for m c
  proof -
    have s: "validClaim E s c" "owner m (c_jobID c) s" using i m at by (auto simp: Inv_def)
    have "c_state c \<noteq> ''claimed''" if "c_jobID c = j"
    proof -
      have "m = n" using own m at that j by (auto simp: Own_def owner_def)
      then show ?thesis using a m at that j by (simp add: Armed_def)
    qed
    then show ?thesis using s old cnt at stop by (auto simp: validClaim_def owner_def)
  qed
  moreover have "launches k t \<le> 1" for k using cnt i by (simp add: Inv_def)
  moreover have "older E t k" if "0 < launches k t" for k
    using that cnt i own old j by (cases "k = j") (auto simp: Inv_def Own_def)
  ultimately have "Inv E t" using mono by (simp add: Inv_def)
  then show ?thesis using own old at stop by (auto simp: Own_def owner_def)
qed

lemma launchArgs_unit: "\<exists>rest. launchArgs E req ps j = ''--unit'' # unitName j # rest"
  by (simp add: launchArgs_def Let_def)

lemma wp_launch:
  assumes "Armed E n c s" and "\<And>a t. Own E n c t \<Longrightarrow> Q a t"
  shows "wp (runBoundedJobSystemd E (''systemd-run'' # launchArgs E req ps (c_jobID c))) Q s"
proof -
  let ?j = "c_jobID c"
  obtain rest where args: "launchArgs E req ps ?j = ''--unit'' # unitName ?j # rest"
    using launchArgs_unit by blast
  let ?ev = "Systemd (''systemd-run'' # ''--unit'' # unitName ?j # rest)"
  have "Own E n c (advance E (s\<lparr>trace := ?ev # trace s\<rparr>))"
    by (rule launch_step[OF assms(1) refl])
       (auto simp: launchTrace_def List.map_filter_simps claimAt_def fun_eq_iff)
  then show ?thesis
    using assms(2) unfolding runBoundedJobSystemd_def record_event_def args
    by (simp split: prod.splits)
qed

lemma wp_create:
  assumes i: "Inv E s" and j: "c_jobID c = j" and suf: "hasSuffix n ''.json''"
    and st: "c_state c = ''claimed''" "\<not> c_verifiedStopped c"
    and fresh: "\<And>m c'. claimAt s m = Some c' \<Longrightarrow> c_jobID c' \<noteq> j" "launches j s = 0" "older E s j" "ascii j"
    and post: "\<And>r t. Ready E n c t \<Longrightarrow> Q r t"
  shows "wp (createJobClaim E n c) Q s"
proof (rule wp_mono[OF createJobClaim_effect[OF suf]])
  fix r :: "err option" and t
  assume e: "sameLaunches s t \<and> (claimAt t = (claimAt s)(n := Some (decodedClaim c)) \<or> claimAt t = claimAt s \<and> r \<noteq> None)"
  have own: "Own E n c s" using i suf fresh j st by (auto simp: Own_def owner_def)
  have dec: "c_jobID (decodedClaim c) = c_jobID c" "c_state (decodedClaim c) = ''claimed''"
      "c_verifiedStopped (decodedClaim c) = c_verifiedStopped c"
    using j st fresh(4) by (simp_all add: decodedClaim_def cleanText_ascii ascii_def)
  have "Own E n c t"
    using e own Own_fewer[OF own] Own_set[OF own, of t "decodedClaim c"] dec fresh(2) j
    by (auto simp: claimStates_def)
  then show "Q r t" using post e fresh(2) j sameLaunches_count[of s t j] by (auto simp: Ready_def)
qed

lemma wp_readClaim:
  assumes "Inv E s" and "hasSuffix n ''.json''"
    and "\<And>t. Inv E t \<Longrightarrow> quiet s t \<Longrightarrow> Q (Inr None) t" and "\<And>e t. Inv E t \<Longrightarrow> Q (Inl e) t"
    and "\<And>c t. Held E n c t \<Longrightarrow> Q (Inr (Some c)) t"
  shows "wp (readJobClaim E n) Q s"
proof (rule wp_mono[OF readJobClaim_effect])
  fix r :: "err + jobClaim option" and t
  assume e: "quiet s t \<and> (\<forall>c. r = Inr (Some c) \<longrightarrow> hasSuffix n ''.json'' \<longrightarrow> claimAt t n = Some c)"
  then have "Inv E t" using assms(1) stable_Inv[of E] by (auto simp: stable_def)
  then show "Q r t"
  proof (cases r)
    case (Inr x)
    then show ?thesis using \<open>Inv E t\<close> assms(2-5) e by (cases x) (auto simp: Held_def)
  qed (use assms(4) in auto)
qed

lemma wpq_Inv: "Inv E s \<Longrightarrow> state_io_rel quiet m \<Longrightarrow> (\<And>a t. Inv E t \<Longrightarrow> Q a t) \<Longrightarrow> wp m Q s"
  by (rule wp_quiet[of "Inv E"]) auto

lemma wpq_Own: "Own E n c s \<Longrightarrow> state_io_rel quiet m \<Longrightarrow> (\<And>a t. Own E n c t \<Longrightarrow> Q a t) \<Longrightarrow> wp m Q s"
  by (rule wp_quiet[of "Own E n c"]) auto

lemma wpq_Ready: "Ready E n c s \<Longrightarrow> state_io_rel quiet m \<Longrightarrow> (\<And>a t. Ready E n c t \<Longrightarrow> Q a t) \<Longrightarrow> wp m Q s"
  by (rule wp_quiet[of "Ready E n c"]) auto

lemma wpq_Armed: "Armed E n c s \<Longrightarrow> state_io_rel quiet m \<Longrightarrow> (\<And>a t. Armed E n c t \<Longrightarrow> Q a t) \<Longrightarrow> wp m Q s"
  by (rule wp_quiet[of "Armed E n c"]) auto

lemma wpq_Held: "Held E n c s \<Longrightarrow> state_io_rel quiet m \<Longrightarrow> (\<And>a t. Held E n c t \<Longrightarrow> Q a t) \<Longrightarrow> wp m Q s"
  by (rule wp_quiet[of "Held E n c"]) auto

lemma wp_stateErr [simp]: "wp (stateErr code e) Q s = Q (jobStateError code (emsg e)) s"
  by (simp add: stateErr_def)

section \<open>The passes keep the invariant\<close>

lemma removeClaimFile_Inv: "Inv E s \<Longrightarrow> (\<And>r t. Inv E t \<Longrightarrow> Q r t) \<Longrightarrow> wp (removeClaimFile E n) Q s"
  by (rule wp_mono[OF removeClaimFile_effect]) (blast intro: Inv_fewer)

lemma removeClaimsLoop_Inv: "Inv E s \<Longrightarrow> wp (removeClaimsLoop E jid es) (\<lambda>_. Inv E) s"
proof (induction es arbitrary: s)
  case (Cons ent es)
  then show ?case
    by (auto intro!: wp_readClaim removeClaimFile_Inv simp: isClaimEntry_def Held_Inv
        split: option.splits)
qed simp

lemma removeClaimsForJob_Inv: "Inv E s \<Longrightarrow> (\<And>r t. Inv E t \<Longrightarrow> Q r t) \<Longrightarrow> wp (removeClaimsForJob E jid) Q s"
  unfolding removeClaimsForJob_def
  by (auto intro!: wpq_Inv[of E s] frame_rules wp_mono[OF removeClaimsLoop_Inv] split: sum.splits)

lemma retireLoop_Inv: "Inv E s \<Longrightarrow> wp (retireLoop E olds) (\<lambda>_. Inv E) s"
proof (induction olds arbitrary: s)
  case (Cons a olds)
  obtain jid m where "a = (jid, m)" by fastforce
  then show ?case
    using Cons.prems
    by (auto intro!: wpq_Inv[of E s] qf.on_removeJobPaths removeClaimsForJob_Inv Cons.IH split: option.splits)
qed simp

lemma cleanupCompleted_Inv: "Inv E s \<Longrightarrow> (\<And>r t. Inv E t \<Longrightarrow> Q r t) \<Longrightarrow> wp (cleanupCompletedJobArtifacts E) Q s"
  unfolding cleanupCompletedJobArtifacts_def wp_tryE
  by (rule wpq_Inv, assumption, intro frame_rules)
     (auto intro!: wpq_Inv[OF _ qf.on_completedLoop] wp_mono[OF retireLoop_Inv] split: sum.splits)


lemma removeOldFailed_Inv: "Inv E s \<Longrightarrow> wp (removeOldFailed E olds) (\<lambda>_. Inv E) s"
proof (induction olds arbitrary: s)
  case (Cons a olds)
  obtain n m where "a = (n, m)" by fastforce
  then show ?case using Cons by (auto intro!: removeClaimFile_Inv split: option.splits)
qed simp

lemma cleanupFailed_Inv: "Inv E s \<Longrightarrow> (\<And>r t. Inv E t \<Longrightarrow> Q r t) \<Longrightarrow> wp (cleanupFailedJobClaims E) Q s"
  unfolding cleanupFailedJobClaims_def
  by (auto intro!: wpq_Inv[OF _ qf.on_readClaimsDir] wpq_Inv[OF _ qf.on_failedLoop]
      wp_mono[OF removeOldFailed_Inv] split: sum.splits)

lemma Ready_Inv: "Ready E n c w \<Longrightarrow> Inv E w"
  by (simp add: Ready_def Own_def)

lemma Armed_Own: "Armed E n c w \<Longrightarrow> Own E n c w"
  by (simp add: Armed_def Ready_def)

lemmas knowledge = Armed_Own Own_Inv Ready_Inv Ready_Own Armed_Ready Held_Inv Held_Own

lemma staleLoop_Inv: "Inv E s \<Longrightarrow> wp (staleLoop E now es) (\<lambda>_. Inv E) s"
proof (induction es arbitrary: s)
  case (Cons ent es)
  note rest = Cons.IH
  have tail: "wp (checkE (markJobStatusUnknownIfEmpty E p) (\<lambda>e. return (Some e))
                 (checkE (removeFile E q) (\<lambda>e. if isNotExist e then staleLoop E now es else return (Some e))
                    (staleLoop E now es))) (\<lambda>_. Inv E) t"
    if "Inv E t" for p q t
    using that by (auto intro!: wpq_Inv[OF _ qf.on_markUnknown] wpq_Inv[OF _ qf.on_removeFile] rest
        split: option.splits)
  have upd: "wp (updateJobClaim E (fst ent) (c\<lparr>c_state := st\<rparr>)) (\<lambda>r t. Inv E t) t"
    if "Held E (fst ent) c t" "st \<in> {''started'', ''failed''}" for c st t
    by (rule wp_update_forward[OF Held_Own[OF that(1)]])
       (use that(2) in \<open>auto simp: claimStates_def Own_Inv\<close>)
  show ?case
    using Cons.prems
    by (auto intro!: wp_readClaim rest wpq_Held[OF _ qf.on_evidence] wp_mono[OF upd] tail[simplified]
        wpq_Held[OF _ qf.on_removeJobPaths(1)] simp: isClaimEntry_def Let_def
        split: option.splits sum.splits prod.splits) (assumption | erule knowledge)+
qed simp


lemma cleanupStale_Inv:
  "Inv E s \<Longrightarrow> (\<And>r t. Inv E t \<Longrightarrow> Q r t) \<Longrightarrow> wp (cleanupStalePrelaunchClaims E now) Q s"
  unfolding cleanupStalePrelaunchClaims_def
  by (auto intro!: wpq_Inv[OF _ qf.on_readClaimsDir] wp_mono[OF staleLoop_Inv] split: sum.splits)

section \<open>The handlers keep the invariant\<close>

lemma failJobClaim_Own:
  "Own E n c s \<Longrightarrow> (\<And>r t. Own E n c t \<Longrightarrow> Q r t) \<Longrightarrow> wp (failJobClaim E n c) Q s"
  unfolding failJobClaim_def by (auto intro!: wp_update_forward simp: claimStates_def)

lemma launchPreparedJob_Own:
  assumes "Armed E n c s" and "\<And>r t. Own E n c t \<Longrightarrow> Q r t"
  shows "wp (launchPreparedJob E req ps (c_jobID c)) Q s"
  unfolding launchPreparedJob_def wp_checkE
  by (rule wpq_Armed[OF assms(1) qf.on_prim(1)])
     (auto intro!: wp_launch wpq_Own[OF _ qf.on_reconcile] assms(2) 
       split: option.splits prod.splits, ((assumption | erule knowledge)+)?)

text \<open>The common end of the two launch paths.\<close>

lemma after_launch_Inv:
  assumes "Armed E n c s"
  shows "wp (State_Monad.bind (launchPreparedJob E req ps (c_jobID c)) (\<lambda>resp.
      if r_ok resp then
        checkE (updateJobClaim E n (c\<lparr>c_state := ''started''\<rparr>)) (\<lambda>e. return (f e)) (return (g resp))
      else if r_errorCode resp \<noteq> ''unknown_completion''
      then State_Monad.bind (cleanupJobPaths E ps) (\<lambda>_. State_Monad.bind (failJobClaim E n c) (\<lambda>_. return (g resp)))
      else return (g resp))) (\<lambda>_. Inv E) s"
  using assms
  by (auto intro!: launchPreparedJob_Own wp_update_forward failJobClaim_Own
      wpq_Own[OF _ qf.on_removeJobPaths(2)] simp: claimStates_def split: option.splits)
    (assumption | erule knowledge)+

lemma relaunchClaimed_Inv:
  assumes "Held E n c s" and "c_state c = ''claimed''"
  shows "wp (relaunchClaimed E req n c kind) (\<lambda>_. Inv E) s"
  unfolding relaunchClaimed_def Let_def wp_bind
  by (rule wpq_Ready[OF Held_Ready[OF assms] qf.on_removeJobPaths(2)])
     (auto intro!: wpq_Ready[OF _ qf.on_admission] wpq_Ready[OF _ qf.on_prepareJobFiles]
        wp_update_launching failJobClaim_Own wpq_Own[OF _ qf.on_removeJobPaths(2)]
        after_launch_Inv[where g=replayed, simplified]
        split: option.splits, ((assumption | erule knowledge)+)?)

lemma resumeUnsettled_Inv:
  assumes "Held E n c s" and "c_state c = ''claimed'' \<or> c_state c = ''launching''"
  shows "wp (resumeUnsettled E req n c kind) (\<lambda>_. Inv E) s"
  unfolding resumeUnsettled_def Let_def wp_tryE
  by (rule wpq_Held[OF assms(1) qf.on_evidence])
     (use assms(2) in \<open>auto intro!: wp_update_forward wpq_Own[OF _ qf.on_settle] relaunchClaimed_Inv
        simp: claimStates_def split: option.splits sum.splits prod.splits\<close>, ((assumption | erule knowledge)+)?)

text \<open>Case splits on the program text, for handlers with long chains of guards.\<close>

lemma wp_ifI: "(b \<Longrightarrow> wp m Q s) \<Longrightarrow> (\<not> b \<Longrightarrow> wp n Q s) \<Longrightarrow> wp (if b then m else n) Q s"
  by simp

lemma wp_optionI:
  "(x = None \<Longrightarrow> wp m Q s) \<Longrightarrow> (\<And>y. x = Some y \<Longrightarrow> wp (f y) Q s) \<Longrightarrow>
   wp (case x of None \<Rightarrow> m | Some y \<Rightarrow> f y) Q s"
  by (simp split: option.splits)

lemma wp_sumI:
  "(\<And>e. x = Inl e \<Longrightarrow> wp (g e) Q s) \<Longrightarrow> (\<And>y. x = Inr y \<Longrightarrow> wp (f y) Q s) \<Longrightarrow>
   wp (case x of Inl e \<Rightarrow> g e | Inr y \<Rightarrow> f y) Q s"
  by (simp split: sum.splits)

lemma wp_returnI: "Q x s \<Longrightarrow> wp (return x) Q s"
  by simp

lemma wp_stateErrI: "Q (jobStateError code (emsg e)) s \<Longrightarrow> wp (stateErr code e) Q s"
  by simp

lemmas wp_cases = wp_ifI wp_optionI wp_sumI wp_returnI wp_stateErrI

lemma resumeClaimedJob_Inv:
  assumes "Held E n c s"
  shows "wp (resumeClaimedJob E req n c fp) (\<lambda>_. Inv E) s"
proof -
  have go: "wp (State_Monad.bind (jobTerminalReplayResponse E p j) f) (\<lambda>_. Inv E) s"
    if "\<And>a t. Held E n c t \<Longrightarrow> wp (f a) (\<lambda>_. Inv E) t" for f p j
    unfolding wp_bind by (rule wpq_Held[OF assms qf.on_replay]) (rule that)
  have active: "wp (tryE (jobUnitActive E j) (stateErr code) (\<lambda>active.
      if active then return r else settleEndedJob E ps j)) (\<lambda>_. Inv E) t" if "Held E n c t" for j code r ps t
    unfolding wp_tryE
    by (rule wpq_Held[OF that qf.on_jobUnitActive])
       (auto intro!: wpq_Held[OF _ qf.on_settle] split: sum.splits, (assumption | erule knowledge)+)
  show ?thesis
    unfolding resumeClaimedJob_def Let_def
    by (intro wp_cases go active resumeUnsettled_Inv; (assumption | rule Held_Inv[OF assms] | erule knowledge)?)
qed

lemma launchNewJob_Inv:
  assumes "Ready E n c s"
  shows "wp (launchNewJob E req n c) (\<lambda>_. Inv E) s"
  unfolding launchNewJob_def Let_def wp_checkE
  by (rule wpq_Ready[OF assms qf.on_prepareJobFiles])
     (auto intro!: wp_update_launching failJobClaim_Own wpq_Own[OF _ qf.on_removeJobPaths(2)]
        after_launch_Inv[where g="\<lambda>r. r", simplified]
        split: option.splits, ((assumption | erule knowledge)+)?)


lemma fresh_id:
  assumes "Inv E s"
  shows "claimAt s m = Some c \<Longrightarrow> c_jobID c \<noteq> itoa (e_now E (tick s))"
    and "launches (itoa (e_now E (tick s))) s = 0"
proof -
  show "c_jobID c \<noteq> itoa (e_now E (tick s))" if "claimAt s m = Some c"
    using assms that by (auto simp: Inv_def validClaim_def older_def)
  have "\<not> older E s (itoa (e_now E (tick s)))" by (auto simp: older_def)
  then show "launches (itoa (e_now E (tick s))) s = 0" using assms by (auto simp: Inv_def)
qed

lemma create_fresh_Ready:
  assumes i: "Inv E s" and suf: "hasSuffix n ''.json''"
    and post: "\<And>r t. Ready E n (newClaim E req (itoa (e_now E (tick s))) k fp) t \<Longrightarrow> Q r t"
  shows "wp (createJobClaim E n (newClaim E req (itoa (e_now E (tick s))) k fp)) Q (advance E (advance E s))"
proof (rule wp_create)
  let ?t = "advance E (advance E s)"
  have q: "quiet s ?t" by (simp add: quiet_def)
  show "Inv E ?t" using i q stable_Inv[of E] by (auto simp: stable_def)
  show "c_jobID (newClaim E req (itoa (e_now E (tick s))) k fp) = itoa (e_now E (tick s))"
    "c_state (newClaim E req (itoa (e_now E (tick s))) k fp) = ''claimed''"
    "\<not> c_verifiedStopped (newClaim E req (itoa (e_now E (tick s))) k fp)" by (simp_all add: newClaim_def)
  show "hasSuffix n ''.json''" by (rule suf)
  show "c_jobID c' \<noteq> itoa (e_now E (tick s))" if "claimAt ?t m = Some c'" for m c'
    using that fresh_id(1)[OF i] by simp
  show "launches (itoa (e_now E (tick s))) ?t = 0"
    using fresh_id(2)[OF i] quiet_keeps(2)[OF q] by simp
  have "strict_mono (e_now E)" using i by (simp add: Inv_def)
  then have "e_now E (tick s) < e_now E (tick ?t)" by (simp add: strict_mono_def)
  then show "older E ?t (itoa (e_now E (tick s)))" by (auto simp: older_def itoa_inject)
  show "ascii (itoa (e_now E (tick s)))" by (rule ascii_itoa)
qed (rule post)

lemma claimNewJob_Inv:
  assumes i: "Inv E s" and suf: "hasSuffix n ''.json''"
  shows "wp (claimNewJob E req n fp) (\<lambda>_. Inv E) s"
proof -
  let ?c = "newClaim E req (itoa (e_now E (tick s))) (e_now E (Suc (tick s))) fp"
  have first: "wp (checkE (createJobClaim E n ?c) h (launchNewJob E req n ?c)) (\<lambda>_. Inv E) (advance E (advance E s))"
    if h: "\<And>e t. Inv E t \<Longrightarrow> wp (h e) (\<lambda>_. Inv E) t" for h
    unfolding wp_checkE
  proof (rule create_fresh_Ready[OF i suf])
    fix r :: "err option" and u
    assume r: "Ready E n ?c u"
    have "wp (launchNewJob E req n ?c) (\<lambda>_. Inv E) u"
      by (rule launchNewJob_Inv[OF r])
    then show "(case r of None \<Rightarrow> wp (launchNewJob E req n ?c) (\<lambda>_. Inv E) | Some e \<Rightarrow> wp (h e) (\<lambda>_. Inv E)) u"
      using h Ready_Inv[OF r] by (simp split: option.splits)
  qed
  have second: "wp (if ekind e = Exist then
             tryE (readJobClaim E n) (stateErr ''job_state_unavailable'') (\<lambda>r. case r of
                 Some c' \<Rightarrow> resumeClaimedJob E req n c' fp
               | None \<Rightarrow> stateErr ''job_state_unavailable'' e)
           else stateErr ''job_state_unavailable'' e) (\<lambda>_. Inv E) t" if "Inv E t" for e t
  proof (intro wp_cases that)
    show "wp (tryE (readJobClaim E n) (stateErr ''job_state_unavailable'') (\<lambda>r. case r of
                 Some c' \<Rightarrow> resumeClaimedJob E req n c' fp
               | None \<Rightarrow> stateErr ''job_state_unavailable'' e)) (\<lambda>_. Inv E) t"
      unfolding wp_tryE by (rule wp_readClaim[OF that suf]) (simp_all add: resumeClaimedJob_Inv)
  qed
  show ?thesis
    unfolding claimNewJob_def Let_def wp_bind wp_nowNano advance_simps by (rule first[OF second])
qed

lemma admitNewJob_Inv:
  assumes "Inv E s" and "hasSuffix n ''.json''"
  shows "wp (admitNewJob E req n fp) (\<lambda>_. Inv E) s"
  unfolding admitNewJob_def wp_checkE
  by (rule cleanupFailed_Inv[OF assms(1)])
     (auto intro!: wpq_Inv[OF _ qf.on_countJobClaims] wpq_Inv[OF _ qf.on_admission] claimNewJob_Inv assms(2)
       split: option.splits sum.splits, (assumption+)?)

lemma claim_names [simp]:
  "hasSuffix (operationClaimName E a b) ''.json''" "hasSuffix (legacyOperationClaimName E a) ''.json''"
  unfolding operationClaimName_def legacyOperationClaimName_def by (rule hasSuffix_append)+

lemma lookup_Inv:
  assumes "Inv E s" and "hasSuffix n ''.json''" and "\<And>t. Inv E t \<Longrightarrow> wp k (\<lambda>_. Inv E) t"
  shows "wp (tryE (readJobClaim E n) (stateErr code) (\<lambda>r. case r of
             Some c \<Rightarrow> resumeClaimedJob E req n c fp | None \<Rightarrow> k)) (\<lambda>_. Inv E) s"
  unfolding wp_tryE by (rule wp_readClaim[OF assms(1,2)]) (simp_all add: resumeClaimedJob_Inv assms(3))

lemma startJobAudited_Inv:
  assumes "Inv E s"
  shows "wp (startJobAudited E req) (\<lambda>_. Inv E) s"
proof -
  let ?n = "operationClaimName E (q_operationID req) (q_principalID req)"
  have find: "wp (tryE (readJobClaim E ?n) (stateErr ''job_state_unavailable'') (\<lambda>r.
             case r of
               Some c \<Rightarrow> resumeClaimedJob E req ?n c fp
             | None \<Rightarrow>
               if q_principalID req = ''direct-default'' then
                  tryE (readJobClaim E (legacyOperationClaimName E (q_operationID req))) (stateErr ''job_state_unavailable'') (\<lambda>r.
                    case r of
                      Some c \<Rightarrow> resumeClaimedJob E req (legacyOperationClaimName E (q_operationID req)) c fp
                    | None \<Rightarrow> admitNewJob E req ?n fp)
               else admitNewJob E req ?n fp)) (\<lambda>_. Inv E) t" if "Inv E t" for fp t
    by (intro lookup_Inv wp_ifI admitNewJob_Inv that claim_names) assumption+
  have inv: "Inv E (advance E t)" if "Inv E t" for t
    using that qf.advance_step stable_Inv by (auto simp: stable_def)
  show ?thesis
    unfolding startJobAudited_def Let_def wp_checkE
    by (rule wpq_Inv[OF assms qf.on_ensureJobState])
       (auto intro!: cleanupCompleted_Inv cleanupStale_Inv wpq_Inv[OF _ qf.on_fingerprint] inv find
         simp del: wp_tryE split: option.splits, (assumption+)?)
qed

lemma startJobBounded_Inv:
  assumes "Inv E s"
  shows "wp (startJobBounded E req) (\<lambda>_. Inv E) s"
proof -
  have q: "wp (State_Monad.bind m f) (\<lambda>_. Inv E) t"
    if "Inv E t" "state_io_rel quiet m" "\<And>a u. Inv E u \<Longrightarrow> wp (f a) (\<lambda>_. Inv E) u" for m f t
    unfolding wp_bind by (rule wpq_Inv[OF that(1,2)]) (rule that(3))
  have audited: "wp (State_Monad.bind (startJobAudited E r) (\<lambda>resp. finishActionAudit E r ''start_job'' resp)) (\<lambda>_. Inv E) t"
    if "Inv E t" for r t
    unfolding wp_bind
    by (rule wp_mono[OF startJobAudited_Inv[OF that]]) (auto intro: wpq_Inv[OF _ qf.on_audit(2)])
  have locked: "wp (startJobLocked E r) (\<lambda>_. Inv E) t" if "Inv E t" for r t
    unfolding startJobLocked_def
    by (intro q wp_cases audited that frame_rules) assumption+
  have check: "wp (checkE (lockJobState E) h k) (\<lambda>_. Inv E) t"
    if "Inv E t" "\<And>e u. Inv E u \<Longrightarrow> wp (h e) (\<lambda>_. Inv E) u" "\<And>u. Inv E u \<Longrightarrow> wp k (\<lambda>_. Inv E) u" for h k t
    unfolding wp_checkE
    by (rule wpq_Inv[OF that(1) qf.on_files(5)]) (use that in \<open>auto split: option.splits\<close>)
  show ?thesis
    unfolding startJobBounded_def Let_def
    by (intro q wp_cases locked check assms frame_rules) assumption+
qed

section \<open>Stopping\<close>

lemma findLoop_effect:
  assumes "Inv E s" and "\<And>c n. found = Some (c, n) \<Longrightarrow> Held E n c s \<and> c_jobID c = jid"
  shows "wp (findLoop E jid found es) (\<lambda>r t. Inv E t \<and> (\<forall>c n. r = Inr (Some (c, n)) \<longrightarrow> Held E n c t \<and> c_jobID c = jid)) s"
  using assms
proof (induction es arbitrary: found s jid)
  case (Cons ent es)
  have keep: "Held E n c t" if "Held E n c s" "quiet s t" for n c t
    using that stable_rules(5)[of E n c] by (auto simp: stable_def)
  show ?case
  proof (cases "isClaimEntry ent")
    case True
    then have suf: "hasSuffix (fst ent) ''.json''" by (simp add: isClaimEntry_def)
    have "wp (readJobClaim E (fst ent)) (\<lambda>r. case r of
        Inl e \<Rightarrow> (\<lambda>t. Inv E t)
      | Inr x \<Rightarrow> wp (case x of None \<Rightarrow> findLoop E jid found es | Some c \<Rightarrow>
            if c_jobID c \<noteq> jid then findLoop E jid found es
            else if found \<noteq> None then fail (newErr ''ambiguous duplicate protected claims for job'')
            else findLoop E jid (Some (c, fst ent)) es)
          (\<lambda>r t. Inv E t \<and> (\<forall>c n. r = Inr (Some (c, n)) \<longrightarrow> Held E n c t \<and> c_jobID c = jid))) s"
    proof (rule wp_mono[OF readJobClaim_effect])
      fix r :: "err + jobClaim option" and t
      assume e: "quiet s t \<and> (\<forall>c. r = Inr (Some c) \<longrightarrow> hasSuffix (fst ent) ''.json'' \<longrightarrow> claimAt t (fst ent) = Some c)"
      then have i: "Inv E t" using Cons.prems(1) stable_Inv[of E] by (auto simp: stable_def)
      have f: "Held E n c t \<and> c_jobID c = jid" if "found = Some (c, n)" for c n using Cons.prems(2)[OF that] keep e by blast
      have h: "r = Inr (Some c) \<Longrightarrow> Held E (fst ent) c t" for c using e suf i by (simp add: Held_def)
      show "(case r of Inl e \<Rightarrow> (\<lambda>t. Inv E t)
      | Inr x \<Rightarrow> wp (case x of None \<Rightarrow> findLoop E jid found es | Some c \<Rightarrow>
            if c_jobID c \<noteq> jid then findLoop E jid found es
            else if found \<noteq> None then fail (newErr ''ambiguous duplicate protected claims for job'')
            else findLoop E jid (Some (c, fst ent)) es)
          (\<lambda>r t. Inv E t \<and> (\<forall>c n. r = Inr (Some (c, n)) \<longrightarrow> Held E n c t \<and> c_jobID c = jid))) t"
        using i f h by (auto intro!: Cons.IH split: sum.splits option.splits)
    qed
    then show ?thesis using True by (auto elim!: wp_mono split: sum.splits option.splits)
  next
    case False
    then show ?thesis using Cons by simp
  qed
qed simp


lemma findJobClaimForID_effect:
  assumes "Inv E s"
  shows "wp (findJobClaimForID E jid) (\<lambda>r t. Inv E t \<and>
      (\<forall>c n. r = Inr (Some (c, n)) \<longrightarrow> Held E n c t \<and> c_jobID c = jid)) s"
  unfolding findJobClaimForID_def wp_checkE
  by (rule wpq_Inv[OF assms qf.on_files(4)])
     (auto intro!: wpq_Inv[OF _ qf.on_readClaimsDir] findLoop_effect split: option.splits sum.splits,
      (assumption+)?)

lemma recordVerified_Inv:
  assumes "Inv E s" and "stopIssued jid s" and "\<And>r t. Inv E t \<Longrightarrow> Q r t"
  shows "wp (recordVerifiedJobStop E jid has) Q s"
proof -
  have upd: "wp (updateJobClaim E n (c\<lparr>c_verifiedStopped := True\<rparr>)) Q t"
    if "Held E n c t" "stopIssued (c_jobID c) t" for n c t
  proof (rule wp_update)
    have v: "validClaim E t c" using that by (auto simp: Held_def Inv_def)
    show "Own E n (c\<lparr>c_verifiedStopped := True\<rparr>) t" using Held_Own[OF that(1)] that(2) by (simp add: Own_def)
    show "c_state (c\<lparr>c_verifiedStopped := True\<rparr>) \<in> claimStates"
      and "0 < launches (c_jobID (c\<lparr>c_verifiedStopped := True\<rparr>)) t \<longrightarrow>
           c_state (c\<lparr>c_verifiedStopped := True\<rparr>) \<noteq> ''claimed''"
      using v by (simp_all add: validClaim_def)
  qed (use assms(3) Own_Inv in auto)
  note find = findJobClaimForID_effect[OF assms(1), of jid]
  show ?thesis
    unfolding recordVerifiedJobStop_def wp_tryE
  proof (rule wp_mono[OF wp_conj[OF find qf.wp_frame[OF qf.on_findJobClaimForID]]], elim conjE)
    fix r :: "err + (jobClaim \<times> string) option" and t
    assume r: "Inv E t" "\<forall>c n. r = Inr (Some (c, n)) \<longrightarrow> Held E n c t \<and> c_jobID c = jid" and q: "quiet s t"
    have "stopIssued jid t" using assms(2) quiet_keeps(4)[OF q] by simp
    then show "(case r of Inl e \<Rightarrow> wp (return (Some e)) Q
        | Inr found \<Rightarrow> wp (case found of
             None \<Rightarrow> return (if has then Some (newErr ''protected job claim missing for existing status record'') else None)
           | Some (c, name) \<Rightarrow> if c_verifiedStopped c then nil
               else updateJobClaim E name (c\<lparr>c_verifiedStopped := True\<rparr>)) Q) t"
      using r by (auto intro!: upd assms(3) split: sum.splits option.splits)
  qed
qed

text \<open>After the stop command was issued the invariant holds together with that fact.\<close>

lemma wpq_Stopping:
  "Inv E s \<Longrightarrow> stopIssued j s \<Longrightarrow> state_io_rel quiet m \<Longrightarrow>
   (\<And>a t. Inv E t \<Longrightarrow> stopIssued j t \<Longrightarrow> Q a t) \<Longrightarrow> wp m Q s"
  using wp_quiet[of "\<lambda>w. Inv E w \<and> stopIssued j w" s m Q] stable_Inv[of E] quiet_keeps(4)
  unfolding stable_def by blast

lemma jobStop_Inv:
  assumes "Inv E s"
  shows "wp (jobStop E req) (\<lambda>_. Inv E) s"
proof -
  have q: "wp (State_Monad.bind m f) (\<lambda>_. Inv E) t"
    if "Inv E t" "state_io_rel quiet m" "\<And>a u. Inv E u \<Longrightarrow> wp (f a) (\<lambda>_. Inv E) u" for m f t
    unfolding wp_bind by (rule wpq_Inv[OF that(1,2)]) (rule that(3))
  have rec: "wp (recordStop E jid out) (\<lambda>_. Inv E) t" if "Inv E t" "stopIssued jid t" for jid out t
    unfolding recordStop_def Let_def wp_tryE
    by (rule wpq_Stopping[OF that qf.on_readJobStatus])
       (auto intro!: recordVerified_Inv split: sum.splits option.splits)
  have issue: "wp (runBoundedJobSystemd E [''systemctl'', ''stop'', unitName jid]) Q t"
    if "Inv E t" "\<And>r u. Inv E u \<Longrightarrow> stopIssued jid u \<Longrightarrow> Q r u" for jid Q t
  proof -
    let ?ev = "Systemd [''systemctl'', ''stop'', unitName jid]"
    have "quiet t (advance E (t\<lparr>trace := ?ev # trace t\<rparr>))"
      by (auto simp: quiet_def launchTrace_def List.map_filter_simps)
    then have "Inv E (advance E (t\<lparr>trace := ?ev # trace t\<rparr>))"
      using that(1) stable_Inv[of E] by (auto simp: stable_def)
    then show ?thesis
      using that(2) unfolding runBoundedJobSystemd_def record_event_def
      by (simp add: stopIssued_def split: prod.splits)
  qed
  have stop: "wp (jobStopLocked E jid) (\<lambda>_. Inv E) t" if "Inv E t" for jid t
    unfolding jobStopLocked_def wp_bind
    by (rule issue[OF that])
       (auto intro!: wpq_Stopping[OF _ _ qf.on_jobUnitActive] rec
         split: option.splits sum.splits bool.splits prod.splits, (assumption+)?)
  have lock: "wp (checkE (lockJobState E) (\<lambda>e. return (f e)) (jobStopLocked E jid)) (\<lambda>_. Inv E) t"
    if "Inv E t" for f jid t
    unfolding wp_checkE
    by (rule wpq_Inv[OF that qf.on_files(5)]) (auto intro!: stop split: option.splits)
  have audit: "wp (State_Monad.bind (checkE (lockJobState E) (\<lambda>e. return (f e)) (jobStopLocked E jid))
      (\<lambda>resp. finishActionAudit E r a resp)) (\<lambda>_. Inv E) t" if "Inv E t" for f jid r a t
    unfolding wp_bind
    by (rule wp_mono[OF lock[OF that]]) (rule wpq_Inv[OF _ qf.on_audit(2)])
  show ?thesis
    unfolding jobStop_def invalidJobID_def Let_def
    by (intro wp_cases q frame_rules audit assms) assumption+
qed

section \<open>Sequences of requests\<close>

lemma serve_Inv:
  assumes "Inv E s"
  shows "wp (serve E c) (\<lambda>_. Inv E) s"
proof (cases c)
  case Restart
  have "quiet s (s\<lparr>held := None, degraded := False\<rparr>)" by (simp add: quiet_def launchTrace_def)
  then show ?thesis using Restart assms stable_Inv[of E] by (auto simp: stable_def)
qed (use assms startJobBounded_Inv jobStop_Inv wpq_Inv[OF assms qf.on_status] in auto)

lemma serveAll_Inv: "Inv E s \<Longrightarrow> wp (serveAll E cs) (\<lambda>_. Inv E) s"
proof (induction cs arbitrary: s)
  case (Cons c cs)
  then show ?case by (auto intro!: wp_mono[OF serve_Inv] wp_mono[OF Cons.IH])
qed simp

definition freshInstall :: "world \<Rightarrow> bool" where
  "freshInstall w = (claimFiles w = [] \<and> trace w = [])"

lemma Inv_init: "strict_mono (e_now E) \<Longrightarrow> freshInstall w \<Longrightarrow> Inv E w"
  by (simp add: Inv_def freshInstall_def claimAt_def docAt_def launches_def launchTrace_def List.map_filter_simps)


text \<open>A concrete machine and configuration, for the examples: every call succeeds, the clock counts
  ticks, systemd says nothing.\<close>

definition exampleEnv :: env where
  "exampleEnv = \<lparr>sv_stateDir = ''/var/lib/agent'', sv_workspaceDir = ''/srv/ws'', sv_workerUser = ''aiworker'',
     sv_workerUID = 1000, sv_workerGID = 1000, sv_euid = 0, sv_token = ''token'', sv_guard = newGuard [],
     sv_taskSlots = 6, sv_serviceSlots = 3, sv_lifecycleLock = True, sv_audit = True,
     sv_executable = ''/usr/local/bin/agent'', e_now = int, e_fault = (\<lambda>_. None), e_runner = (\<lambda>_ _ fs. fs),
     e_systemd = (\<lambda>_ _. ([], None)), e_free = (\<lambda>_. 2 ^ 40),
     e_view = (\<lambda>_. \<lparr>v_cwd = ''/'', v_evalSymlinks = Inr, v_isDir = (\<lambda>_. Inr True)\<rparr>), e_home = (\<lambda>_. True),
     e_formatTime = itoa, e_parseTime = atoi, e_sha256 = (\<lambda>s. s), e_hmac = (\<lambda>k s. s)\<rparr>"

definition exampleWorld :: world where
  "exampleWorld = \<lparr>tick = 0, jobFiles = [], claimFiles = [], held = None, degraded = False, trace = []\<rparr>"

definition exampleRequest :: Request where
  "exampleRequest = zeroRequest\<lparr>q_command := ''echo hello'', q_root := True, q_operationID := ''op-1''\<rparr>"

text \<open>C1. At most one dispatch per job. From a fresh install, over any sequence of \<open>start_job\<close>,
  \<open>job_status\<close> and \<open>job_stop\<close> requests and executor restarts, with any system call failing at any
  moment, systemd answering anything, and the job runner changing its own files at every step,
  \<open>systemd-run\<close> is invoked at most once for any job id. The only assumption is that the wall clock,
  which is where job ids come from, moves forward.\<close>

theorem job_dispatched_at_most_once:
  assumes "strict_mono (e_now E)" and "freshInstall w"
  shows "launches jid (snd (run_state (serveAll E calls) w)) \<le> 1"
proof -
  have "Inv E (snd (run_state (serveAll E calls) w))"
    using serveAll_Inv[OF Inv_init[OF assms]] by (simp add: wp_run)
  then show ?thesis by (simp add: Inv_def)
qed


theorem job_dispatched_at_most_once_witness:
  "launches ''25'' (snd (run_state (serveAll exampleEnv
     [StartJob exampleRequest, StartJob exampleRequest, Restart, JobStop exampleRequest, StartJob exampleRequest])
     exampleWorld)) \<le> 1"
  by (rule job_dispatched_at_most_once)
     (simp_all add: exampleEnv_def exampleWorld_def freshInstall_def strict_mono_def)

end
