(* ===== verification/JobProps.thy ===== *)
theory JobProps
  imports JobSafety
begin

text \<open>
  Further guarantees of the job handlers: what must precede a dispatch, what a reported stop
  proves, that reconciliation never overwrites the runner's exit status, and that a clean start is
  accepted.
\<close>

section \<open>The trace only grows\<close>

definition extends :: "world \<Rightarrow> world \<Rightarrow> bool" where
  "extends s t = suffix (trace s) (trace t)"

interpretation tf: claim_frame extends "\<lambda>_. True"
  by unfold_locales (auto simp: extends_def advance_def suffix_Cons)

text \<open>Nothing launched since \<open>w\<close>, and the trace of \<open>w\<close> is still there.\<close>

definition idle :: "world \<Rightarrow> world \<Rightarrow> bool" where
  "idle w t = (quiet w t \<and> extends w t)"

interpretation idf: job_frame idle "\<lambda>ev. launchedUnit ev = None"
  by unfold_locales
     (auto simp: idle_def qf.step_refl tf.step_refl qf.advance_step tf.advance_step qf.jobs_step tf.jobs_step
       qf.held_step tf.held_step qf.degraded_step tf.degraded_step qf.event_step tf.event_step
       intro: qf.step_trans tf.step_trans)

lemma wp_idle:
  "idle w s \<Longrightarrow> state_io_rel idle m \<Longrightarrow> (\<And>a t. idle w t \<Longrightarrow> Q a t) \<Longrightarrow> wp m Q s"
  using idf.run_frame[of m s] idf.step_trans by (auto simp: wp_run)

section \<open>What precedes a dispatch\<close>

text \<open>The record the trace must hold between the start of the request and its first launch.\<close>

definition auditedSince :: "world \<Rightarrow> string \<Rightarrow> bool \<Rightarrow> world \<Rightarrow> bool" where
  "auditedSince w action approved t = (\<exists>later earlier.
     trace t = later @ AuditStart action approved # earlier @ trace w \<and> List.map_filter launchedUnit earlier = [])"

lemma auditedSince_extends: "auditedSince w a b s \<Longrightarrow> extends s t \<Longrightarrow> auditedSince w a b t"
  unfolding auditedSince_def extends_def suffix_def by (metis append.assoc)

lemma map_filter_append: "List.map_filter f (xs @ ys) = List.map_filter f xs @ List.map_filter f ys"
  by (simp add: List.map_filter_def)

lemma idle_earlier:
  assumes "idle w t"
  obtains earlier where "trace t = earlier @ trace w" "List.map_filter launchedUnit earlier = []"
proof -
  obtain earlier where e: "trace t = earlier @ trace w"
    using assms by (auto simp: idle_def extends_def suffix_def)
  then have "List.map_filter launchedUnit earlier = []"
    using assms by (simp add: idle_def quiet_def launchTrace_def map_filter_append)
  then show ?thesis using that e by blast
qed

lemma beginActionAudit_effect:
  assumes "idle w s"
  shows "wp (beginActionAudit E req a) (\<lambda>r t. idle w t \<and>
     (r = None \<longrightarrow> sv_audit E \<longrightarrow> auditedSince w (auditActionName req a) (q_approval req) t)) s"
proof -
  have "wp (beginActionAudit E req a) (\<lambda>r t. r = None \<longrightarrow> sv_audit E \<longrightarrow>
      auditedSince w (auditActionName req a) (q_approval req) t) s"
  proof -
    obtain earlier where "trace s = earlier @ trace w" "List.map_filter launchedUnit earlier = []"
      using idle_earlier[OF assms] by blast
    then have "auditedSince w x b ((advance E s)\<lparr>trace := AuditStart x b # trace s\<rparr>)" for x b
      unfolding auditedSince_def
      by (intro exI[of _ "[]"] exI[of _ earlier]) simp
    then show ?thesis
      unfolding beginActionAudit_def auditWrite_def record_event_def
      by (auto split: option.splits)
  qed
  moreover have "wp (beginActionAudit E req a) (\<lambda>r t. idle w t) s"
    by (rule wp_idle[OF assms idf.on_audit(1)])
  ultimately show ?thesis using wp_conj by fastforce
qed


text \<open>The request was within bounds, allowed, and approved where the policy demands it.\<close>

definition admissible :: "env \<Rightarrow> Request \<Rightarrow> bool" where
  "admissible E req = (length (q_command req) \<le> maxCommandBytes \<and>
     (let d = evaluate (sv_guard E) (q_command req) (q_root req) in
      allowed d \<and> (requiresApproval d \<longrightarrow> q_approval req)))"

definition gated :: "env \<Rightarrow> Request \<Rightarrow> world \<Rightarrow> world \<Rightarrow> bool" where
  "gated E req w t = (idle w t \<or> (admissible E req \<and>
     (sv_audit E \<longrightarrow> auditedSince w (auditActionName req ''start_job'') (q_approval req) t)))"

lemma startJobLocked_gated:
  assumes "idle w s" and "admissible E req0"
    and "q_approval req = q_approval req0" and "q_auditAction req = q_auditAction req0"
  shows "wp (startJobLocked E req) (\<lambda>_. gated E req0 w) s"
proof -
  have audited: "wp (State_Monad.bind (startJobAudited E r) (\<lambda>resp. finishActionAudit E r a resp)) (\<lambda>_. gated E req0 w) t"
    if "sv_audit E \<longrightarrow> auditedSince w (auditActionName req0 ''start_job'') (q_approval req0) t" for r a t
  proof -
    have "state_io_rel extends (State_Monad.bind (startJobAudited E r) (\<lambda>resp. finishActionAudit E r a resp))"
      by (intro tf.on_bind tf.on_startJobAudited tf.on_audit(2))
    then have "wp (State_Monad.bind (startJobAudited E r) (\<lambda>resp. finishActionAudit E r a resp)) (\<lambda>_ u. extends t u) t"
      by (rule tf.wp_frame)
    then show ?thesis
      by (rule wp_mono) (use that assms(2) auditedSince_extends in \<open>auto simp: gated_def\<close>)
  qed
  have begin_audit: "wp (State_Monad.bind (beginActionAudit E r ''start_job'') (\<lambda>blocked. case blocked of
        Some b \<Rightarrow> return b
      | None \<Rightarrow> State_Monad.bind (startJobAudited E r) (\<lambda>resp. finishActionAudit E r ''start_job'' resp)))
      (\<lambda>_. gated E req0 w) t"
    if "idle w t" "q_approval r = q_approval req0" "q_auditAction r = q_auditAction req0" for r t
  proof -
    have name: "auditActionName r ''start_job'' = auditActionName req0 ''start_job''"
      using that(3) by (simp add: auditActionName_def)
    show ?thesis
      unfolding wp_bind[of "beginActionAudit _ _ _"]
      by (rule wp_mono[OF beginActionAudit_effect[OF that(1)]])
         (use that(2) name audited in \<open>auto simp: gated_def simp del: wp_bind split: option.splits\<close>)
  qed
  have now: "idle w (advance E s)" using assms(1) idf.advance_step idf.step_trans by blast
  show ?thesis
    unfolding startJobLocked_def wp_bind[of "if _ then _ else _"]
    using begin_audit[OF assms(1,3,4)] begin_audit[OF now, of "req\<lparr>q_operationID := _\<rparr>"] assms(3,4)
    by simp
qed

section \<open>A clean start is accepted\<close>

text \<open>A machine on which nothing goes wrong: no call fails, the runner is quiet, systemd lists no
  unit and accepts the launch, and there is room on the disk.\<close>

definition calm :: "env \<Rightarrow> bool" where
  "calm E = ((\<forall>t. e_fault E t = None) \<and> (\<forall>t h fs. e_runner E t h fs = fs) \<and>
     (\<forall>t argv. e_systemd E t argv = ([], None)) \<and>
     (\<forall>t. jobStateSafetyReserveBytesForLimits 64 64 \<le> e_free E t))"

lemma calm_advance: "calm E \<Longrightarrow> advance E w = w\<lparr>tick := Suc (tick w)\<rparr>"
  by (simp add: calm_def advance_def)

lemma calm_fault: "calm E \<Longrightarrow> e_fault E t = None"
  by (simp add: calm_def)

lemma emptyOutput:
  "resultCollector (writeAll (newBoundedOutputCollector (int systemdOutputLimit)) []) =
   \<lparr>o_output = [], o_encoding = ''utf-8'', o_bytesSeen = 0, o_bytesReturned = 0, o_truncated = False,
    o_omittedBytes = 0, o_headBytes = 0, o_tailBytes = 0\<rparr>"
  by (simp add: writeAll_def newBoundedOutputCollector_def resultCollector_def encodeBoundedOutput_def
      encodeOutputBytes_def systemdOutputLimit_def utf8_valid_def Let_def)

lemma calm_systemd:
  "calm E \<Longrightarrow> wp (runBoundedJobSystemd E argv) Q w =
     Q (resultCollector (writeAll (newBoundedOutputCollector (int systemdOutputLimit)) []), None)
       (w\<lparr>tick := Suc (tick w), trace := Systemd argv # trace w\<rparr>)"
  by (cases w) (simp add: runBoundedJobSystemd_def record_event_def calm_advance, simp add: calm_def)

lemma calm_inactive:
  "calm E \<Longrightarrow> wp (activeAgentJobKindCounts E) Q w =
     Q (Inr \<lparr>k_tasks = 0, k_services = 0\<rparr>)
       (w\<lparr>tick := Suc (tick w), trace := Systemd (listUnitsArgs ''ai-job-*.service'') # trace w\<rparr>)"
  by (cases w) (simp add: activeAgentJobKindCounts_def activeAgentUnitIDs_def calm_systemd emptyOutput
      Prelude.fields_def runes.simps)

lemma calm_admission:
  assumes "calm E" and "kind = ''task'' \<or> kind = ''service''"
  shows "wp (persistentJobAdmissionResponseWithLimits E (persistentTaskCapacity E) (persistentServiceCapacity E) kind) Q w =
     Q None (w\<lparr>tick := Suc (Suc (tick w)), trace := Systemd (listUnitsArgs ''ai-job-*.service'') # trace w\<rparr>)"
proof -
  have cap: "1 \<le> persistentTaskCapacity E" "persistentTaskCapacity E \<le> 64"
      "1 \<le> persistentServiceCapacity E" "persistentServiceCapacity E \<le> 64"
    by (simp_all add: persistentTaskCapacity_def persistentServiceCapacity_def Let_def defaultTaskSlots_def
        defaultServiceSlots_def maxActivePersistentJobs_def maxActivePersistentServices_def)
  then have "jobStateSafetyReserveBytesForLimits (persistentTaskCapacity E) (persistentServiceCapacity E)
      \<le> jobStateSafetyReserveBytesForLimits 64 64"
    by (simp add: jobStateSafetyReserveBytesForLimits_def maxJobLogBytes_def maxCompletedJobArtifacts_def)
  then have room: "jobStateSafetyReserveBytesForLimits (persistentTaskCapacity E) (persistentServiceCapacity E) \<le> e_free E t" for t
    using assms(1) order_trans unfolding calm_def by blast
  show ?thesis
    using assms(2) cap room
    by (cases w) (auto simp: persistentJobAdmissionResponseWithLimits_def calm_inactive[OF assms(1)]
        jobStateHasReserve_def calm_fault[OF assms(1)] calm_advance[OF assms(1)] Let_def
        maxActivePersistentJobs_def maxActivePersistentServices_def max_def)
qed

text \<open>Outcome of the steps that lead to an accepted launch, as facts about the world after them.\<close>

definition handedOver :: "string \<Rightarrow> string \<Rightarrow> world \<Rightarrow> bool" where
  "handedOver jid command t = (map_option jf_content (map_of (jobFiles t) (jid @ ''.cmd'')) = Some command)"

lemma calm_prepare:
  assumes "calm E" and "jobFiles w = []"
  shows "wp (prepareJobFiles E (jobPathsFor jid) req) (\<lambda>r t. r = None \<and> claimFiles t = claimFiles w \<and>
     trace t = trace w \<and> degraded t = degraded w \<and> handedOver jid (q_command req) t) w"
  using assms
  by (cases w) (simp add: prepareJobFiles_def createJobFile_def putJob_def editJob_def openFile_def jobPathsFor_def
      handedOver_def calm_fault calm_advance Let_def update_conv' split: option.splits)

lemma calm_update:
  assumes "calm E" and "hasSuffix n ''.json''" and "handedOver j cmd w" and "c_jobID c = j" "ascii j"
  shows "wp (updateJobClaim E n c) (\<lambda>r t. r = None \<and> handedOver j cmd t \<and> claimAt t n = Some (decodedClaim c) \<and>
     trace t = trace w \<and> degraded t = degraded w) w"
proof -
  have "wp (updateJobClaim E n c) (\<lambda>r t. r = None \<and> handedOver j cmd t \<and> trace t = trace w \<and> degraded t = degraded w) w"
    using assms(1,3)
    by (cases w) (simp add: updateJobClaim_def trustedDir_def removeTemp_def Let_def calm_fault calm_advance handedOver_def)
  from wp_conj[OF this updateJobClaim_effect[OF assms(2)]] show ?thesis
    by (rule wp_mono) auto
qed

lemma calm_launch:
  assumes "calm E" and "handedOver j cmd w"
  shows "wp (launchPreparedJob E req (jobPathsFor j) j) (\<lambda>r t. handedOver j cmd t \<and> claimAt t = claimAt w \<and>
     degraded t = degraded w \<and> launchTrace t = unitName j # launchTrace w \<and>
     r_ok r \<and> r_status r = ''accepted'' \<and> r_jobID r = j) w"
proof -
  obtain rest where args: "launchArgs E req (jobPathsFor j) j = ''--unit'' # unitName j # rest"
    using launchArgs_unit by blast
  show ?thesis
    unfolding launchPreparedJob_def args using assms
    by (cases w) (simp add: calm_fault calm_advance calm_systemd handedOver_def claimAt_def launchTrace_def
        List.map_filter_simps fun_eq_iff acceptedResponse_def)
qed

lemma calm_create:
  assumes "calm E" and "claimFiles w = []" and "hasSuffix n ''.json''"
  shows "wp (createJobClaim E n c) (\<lambda>r t. r = None \<and> jobFiles t = jobFiles w \<and> trace t = trace w \<and> degraded t = degraded w) w"
  using assms by (cases w) (simp add: createJobClaim_def calm_fault calm_advance)


definition accepted :: "Request \<Rightarrow> string \<Rightarrow> world \<Rightarrow> Response \<Rightarrow> world \<Rightarrow> bool" where
  "accepted req n w r t = (\<exists>jid c. r_ok r \<and> r_status r = ''accepted'' \<and> r_jobID r = jid \<and>
     launchTrace t = unitName jid # launchTrace w \<and> handedOver jid (q_command req) t \<and>
     claimAt t n = Some c \<and> c_jobID c = jid \<and> c_state c = ''started'' \<and> degraded t = degraded w)"

lemma calm_launchNew:
  assumes "calm E" and "jobFiles w = []" and "hasSuffix n ''.json''" and "ascii (c_jobID c)"
  shows "wp (launchNewJob E req n c) (accepted req n w) w"
proof -
  let ?j = "c_jobID c"
  have st: "c_jobID (decodedClaim (c\<lparr>c_state := ''started''\<rparr>)) = ?j"
      "c_state (decodedClaim (c\<lparr>c_state := ''started''\<rparr>)) = ''started''"
    using assms(4) by (simp_all add: decodedClaim_def cleanText_ascii ascii_def)
  have finish: "wp (updateJobClaim E n (c\<lparr>c_state := ''started''\<rparr>)) (\<lambda>r t. r = None \<and> handedOver ?j cmd t \<and>
      claimAt t n = Some (decodedClaim (c\<lparr>c_state := ''started''\<rparr>)) \<and> trace t = trace u \<and> degraded t = degraded u) u"
    if "handedOver ?j cmd u" for u cmd
    using calm_update[OF assms(1,3) that, of "c\<lparr>c_state := ''started''\<rparr>"] assms(4) by simp
  have launching: "wp (updateJobClaim E n (c\<lparr>c_state := ''launching''\<rparr>)) (\<lambda>r t. r = None \<and> handedOver ?j cmd t \<and>
      trace t = trace u \<and> degraded t = degraded u) u" if "handedOver ?j cmd u" for u cmd
    using calm_update[OF assms(1,3) that, of "c\<lparr>c_state := ''launching''\<rparr>"] assms(4)
    by (auto elim: wp_mono)
  show ?thesis
    unfolding launchNewJob_def Let_def wp_checkE
    by (rule wp_mono[OF calm_prepare[OF assms(1,2)]])
       (auto intro!: wp_mono[OF launching] wp_mono[OF calm_launch[OF assms(1)]] wp_mono[OF finish]
          simp: accepted_def st launchTrace_def)
qed

lemma calm_admitNew:
  assumes "calm E" and "jobFiles w = []" and "claimFiles w = []" and "hasSuffix n ''.json''"
    and "q_kind req = ''task'' \<or> q_kind req = ''service''"
  shows "wp (admitNewJob E req n fp) (accepted req n w) w"
proof -
  let ?w = "w\<lparr>tick := tick w + 2\<rparr>"
  have pass: "wp (cleanupFailedJobClaims E) Q u = Q None (u\<lparr>tick := Suc (tick u)\<rparr>)"
      "wp (countJobClaims E) P u = P (Inr 0) (u\<lparr>tick := Suc (tick u)\<rparr>)" if "claimFiles u = []" for Q P u
    using that assms(1)
    by (cases u; simp add: cleanupFailedJobClaims_def countJobClaims_def readClaimsDir_def calm_fault calm_advance)+
  have new: "wp (claimNewJob E req n fp) (accepted req n w) u"
    if "jobFiles u = []" "claimFiles u = []" "launchTrace u = launchTrace w" "degraded u = degraded w" for u
  proof -
    let ?c = "newClaim E req (itoa (e_now E (tick u))) (e_now E (Suc (tick u))) fp"
    have "wp (createJobClaim E n ?c) (\<lambda>r t. r = None \<and> jobFiles t = [] \<and> launchTrace t = launchTrace w \<and> degraded t = degraded w)
        (advance E (advance E u))"
      using calm_create[OF assms(1) _ assms(4), of "advance E (advance E u)" ?c] that
      by (auto elim!: wp_mono simp: calm_advance[OF assms(1)] launchTrace_def)
    moreover have "wp (launchNewJob E req n ?c) (accepted req n w) t"
      if "jobFiles t = []" "launchTrace t = launchTrace w" "degraded t = degraded w" for t
      using calm_launchNew[OF assms(1) that(1) assms(4), of ?c req] that
      by (auto elim!: wp_mono simp: newClaim_def ascii_itoa accepted_def)
    ultimately show ?thesis
      unfolding claimNewJob_def Let_def by (auto elim!: wp_mono)
  qed
  show ?thesis
    unfolding admitNewJob_def using assms(2,3)
    by (auto simp: pass calm_admission[OF assms(1,5)] maxPersistentJobClaims_def maxCompletedJobArtifacts_def
        launchTrace_def List.map_filter_simps listUnitsArgs_def intro!: new)
qed


lemma calm_ensure: "calm E \<Longrightarrow> wp (ensureJobState E) Q u = Q None (u\<lparr>tick := tick u + 5\<rparr>)"
  by (simp add: ensureJobState_def trustedDir_def calm_fault calm_advance eval_nat_numeral)

lemma calm_completed:
  "calm E \<Longrightarrow> jobFiles u = [] \<Longrightarrow> wp (cleanupCompletedJobArtifacts E) Q u = Q None (u\<lparr>tick := Suc (tick u)\<rparr>)"
  by (simp add: cleanupCompletedJobArtifacts_def calm_fault calm_advance)

lemma calm_stale:
  "calm E \<Longrightarrow> claimFiles u = [] \<Longrightarrow> wp (cleanupStalePrelaunchClaims E now) Q u = Q None (u\<lparr>tick := Suc (tick u)\<rparr>)"
  by (simp add: cleanupStalePrelaunchClaims_def readClaimsDir_def calm_fault calm_advance)

lemma calm_read:
  "calm E \<Longrightarrow> claimFiles u = [] \<Longrightarrow> wp (readJobClaim E m) P u = P (Inr None) (u\<lparr>tick := Suc (tick u)\<rparr>)"
  by (simp add: readJobClaim_def isNotExist_def calm_fault calm_advance)

lemmas calm_passes = calm_ensure calm_completed calm_stale calm_read

lemma calm_audited:
  assumes "calm E" and "jobFiles w = []" and "claimFiles w = []" and "q_root req" "q_workspace req \<noteq> []"
    and "q_kind req = ''task'' \<or> q_kind req = ''service''"
  shows "wp (startJobAudited E req) (accepted req (operationClaimName E (q_operationID req) (q_principalID req)) w) w"
proof -
  define n where "n = operationClaimName E (q_operationID req) (q_principalID req)"
  have suf: "hasSuffix n ''.json''" by (simp add: n_def)
  have admit: "wp (admitNewJob E req n fp) (accepted req n w) u"
    if "jobFiles u = []" "claimFiles u = []" "launchTrace u = launchTrace w" "degraded u = degraded w" for u fp
    by (rule wp_mono[OF calm_admitNew[OF assms(1) that(1,2) suf assms(6)]])
       (use that in \<open>simp add: accepted_def\<close>)
  show ?thesis
    unfolding startJobAudited_def jobFingerprint_def Let_def n_def[symmetric] using assms(2-5)
    by (auto simp: calm_passes[OF assms(1)] calm_advance[OF assms(1)] launchTrace_def intro!: admit)
qed

text \<open>The requests the theorem below is about: a root task or service that passes validation.\<close>

definition startable :: "env \<Rightarrow> Request \<Rightarrow> bool" where
  "startable E req = (admissible E req \<and> q_root req \<and> q_workspace req = [] \<and>
     q_kind req \<in> {[], ''task'', ''service''} \<and>
     validateJobLabel (if q_kind req = [] then ''task'' else q_kind req) (q_label req) = None \<and>
     validateOperationID (q_operationID req) = None \<and> q_operationID req \<noteq> [])"

lemma finish_accepted:
  assumes "calm E" and "accepted req n w r s" and "\<not> degraded s"
  shows "wp (finishActionAudit E q a r) (accepted req n w) s"
proof -
  have ext: "accepted req n w (r\<lparr>r_requestID := x, r_operationID := y\<rparr>) t"
    if "launchTrace t = launchTrace s" "jobFiles t = jobFiles s" "claimFiles t = claimFiles s" "degraded t = degraded s" for x y t
    using assms(2) that by (auto simp: accepted_def handedOver_def claimAt_def)
  show ?thesis
    using assms(1,3)
    by (auto simp: finishActionAudit_def auditWriteCompletion_def record_event_def calm_fault calm_advance
        launchTrace_def List.map_filter_simps Let_def intro!: ext)
qed

lemma clean_start:
  assumes "calm E" and "startable E req" and "jobFiles w = []" "claimFiles w = []" "\<not> degraded w"
  shows "wp (startJobBounded E req) (accepted req (operationClaimName E (q_operationID req) (q_principalID req)) w) w"
proof -
  let ?n = "operationClaimName E (q_operationID req) (q_principalID req)"
  have kind: "q_kind req = [] \<or> q_kind req = ''task'' \<or> q_kind req = ''service''"
    using assms(2) by (auto simp: startable_def)
  have audited: "wp (State_Monad.bind (startJobAudited E r) (\<lambda>resp. finishActionAudit E r ''start_job'' resp)) (accepted req ?n w) u"
    if "jobFiles u = []" "claimFiles u = []" "launchTrace u = launchTrace w" "degraded u = degraded w"
      "q_root r" "q_workspace r \<noteq> []" "q_kind r = ''task'' \<or> q_kind r = ''service''"
      "operationClaimName E (q_operationID r) (q_principalID r) = ?n" "q_command r = q_command req" for r u
  proof -
    have "wp (startJobAudited E r) (\<lambda>x t. accepted req ?n w x t \<and> \<not> degraded t) u"
      by (rule wp_mono[OF calm_audited[OF assms(1) that(1,2,5,6,7)]])
         (use that assms(5) in \<open>auto simp: accepted_def\<close>)
    then show ?thesis by (auto elim!: wp_mono intro!: finish_accepted[OF assms(1)])
  qed
  have locked: "wp (startJobLocked E (req\<lparr>q_kind := k, q_workspace := ''/root''\<rparr>)) (accepted req ?n w) u"
    if "jobFiles u = []" "claimFiles u = []" "launchTrace u = launchTrace w" "degraded u = degraded w"
      "k = ''task'' \<or> k = ''service''" for u k
    using that assms(2,5)
    by (auto simp: startJobLocked_def startable_def beginActionAudit_def auditWrite_def record_event_def
        calm_fault[OF assms(1)] calm_advance[OF assms(1)] launchTrace_def List.map_filter_simps
        simp del: wp_bind[of "startJobAudited _ _"] intro!: audited[unfolded wp_bind])
  show ?thesis
    using assms(2-5) kind
    by (auto simp: startJobBounded_def startable_def admissible_def commandInputError_def Let_def
        acquirePersistentJobAdmissionLock_def trustedDir_def lockJobState_def
        calm_fault[OF assms(1)] calm_advance[OF assms(1)] launchTrace_def intro!: locked)
qed

text \<open>C4. A clean start is accepted. On an empty job store, with nothing failing, a valid root request
  that the policy lets pass ends with: status \<open>accepted\<close> and the new job's id, exactly one launch, of
  that unit, the command handed over in the job's command file, and a durable claim of the
  operation in state \<open>started\<close>.\<close>

theorem start_job_accepted:
  assumes "calm E" and "startable E req" and "jobFiles w = []" "claimFiles w = []" "\<not> degraded w"
  shows "\<exists>r t. run_state (startJobBounded E req) w = (r, t) \<and>
           accepted req (operationClaimName E (q_operationID req) (q_principalID req)) w r t"
  using clean_start[OF assms] by (auto simp: wp_run intro: prod.collapse[symmetric])

lemma example_calm: "calm exampleEnv"
  by (simp add: calm_def exampleEnv_def jobStateSafetyReserveBytesForLimits_def maxJobLogBytes_def
      maxCompletedJobArtifacts_def)

lemma example_startable: "startable exampleEnv exampleRequest"
proof -
  have "trimSpace ''echo hello'' = ''echo hello''" by (simp add: trimSpace_ascii ascii_def rune_space_def)
  moreover have "literalOutputCommand ''echo hello''" by code_simp
  ultimately have "evaluate (sv_guard exampleEnv) ''echo hello'' True =
      \<lparr>allowed = True, requiresApproval = False, category = ''root'',
       reason = ''literal text output does not execute the quoted operation''\<rparr>"
    by (simp add: evaluate_def Let_def)
  then show ?thesis
    by (simp add: startable_def admissible_def exampleRequest_def zeroRequest_def validateJobLabel_def
        validateOperationID_def maxOperationIDBytes_def maxCommandBytes_def char_class_defs)
qed

theorem start_job_accepted_witness:
  "\<exists>r t. run_state (startJobBounded exampleEnv exampleRequest) exampleWorld = (r, t) \<and>
     accepted exampleRequest (operationClaimName exampleEnv (q_operationID exampleRequest) (q_principalID exampleRequest)) exampleWorld r t"
  by (rule start_job_accepted[OF example_calm example_startable]) (simp_all add: exampleWorld_def)

section \<open>Permits before dispatch\<close>

text \<open>C3. Nothing is dispatched without its permits. If a \<open>start_job\<close> request makes \<open>systemd-run\<close> run
  at all, then its command is within the size limit, the policy allows it, an approval is present
  whenever the policy demands one, and (with auditing on) a start record that carries this approval
  was durably written during the request and before the launch.\<close>

theorem dispatch_needs_permits:
  assumes "launchTrace (snd (run_state (startJobBounded E req) w)) \<noteq> launchTrace w"
  shows "admissible E req \<and>
    (sv_audit E \<longrightarrow> auditedSince w (auditActionName req ''start_job'') (q_approval req)
                      (snd (run_state (startJobBounded E req) w)))"
proof -
  have q: "wp (State_Monad.bind m f) (\<lambda>_. gated E req w) t"
    if "idle w t" "state_io_rel idle m" "\<And>a u. idle w u \<Longrightarrow> wp (f a) (\<lambda>_. gated E req w) u" for m f t
    unfolding wp_bind by (rule wp_idle[OF that(1,2)]) (rule that(3))
  have check: "wp (checkE (lockJobState E) h k) (\<lambda>_. gated E req w) t"
    if "idle w t" "\<And>e u. idle w u \<Longrightarrow> wp (h e) (\<lambda>_. gated E req w) u"
      "\<And>u. idle w u \<Longrightarrow> wp k (\<lambda>_. gated E req w) u" for h k t
    unfolding wp_checkE
    by (rule wp_idle[OF that(1) idf.on_files(5)]) (use that in \<open>auto split: option.splits\<close>)
  have here: "idle w w" by (rule idf.step_refl)
  have stay: "gated E req w t" if "idle w t" for t using that by (simp add: gated_def)
  have adm: "admissible E req"
    if "commandInputError (q_command req) = None"
      "\<not> \<not> allowed (evaluate (sv_guard E) (q_command req) (q_root req))"
      "\<not> (requiresApproval (evaluate (sv_guard E) (q_command req) (q_root req)) \<and> \<not> q_approval req)"
    using that by (auto simp: admissible_def commandInputError_def Let_def split: if_splits)
  have "wp (startJobBounded E req) (\<lambda>_. gated E req w) w"
    unfolding startJobBounded_def Let_def
    by (intro q wp_cases check startJobLocked_gated here stay adm frame_rules; (assumption | simp)?)
  then have "gated E req w (snd (run_state (startJobBounded E req) w))" by (simp add: wp_run)
  then show ?thesis using assms by (auto simp: gated_def idle_def quiet_def)
qed


theorem dispatch_needs_permits_witness:
  "auditedSince exampleWorld ''start_job'' False (snd (run_state (startJobBounded exampleEnv exampleRequest) exampleWorld))"
proof -
  have "wp (startJobBounded exampleEnv exampleRequest)
      (accepted exampleRequest (operationClaimName exampleEnv (q_operationID exampleRequest) (q_principalID exampleRequest)) exampleWorld)
      exampleWorld"
    by (rule clean_start[OF example_calm example_startable]) (simp_all add: exampleWorld_def)
  then have "launchTrace (snd (run_state (startJobBounded exampleEnv exampleRequest) exampleWorld)) \<noteq> launchTrace exampleWorld"
    by (auto simp: wp_run accepted_def)
  moreover have "auditActionName exampleRequest ''start_job'' = ''start_job''" "q_approval exampleRequest = False" "sv_audit exampleEnv"
    by (simp_all add: auditActionName_def exampleRequest_def zeroRequest_def exampleEnv_def)
  ultimately show ?thesis using dispatch_needs_permits[of exampleEnv exampleRequest exampleWorld] by simp
qed

end
