(* ===== verification/JobStopProps.thy ===== *)
theory JobStopProps
  imports JobProps
begin

text \<open>
  Stopping and reconciliation: a job is reported stopped only if the executor told systemd to stop
  it, whatever the worker wrote into its own files; and the reconciliation that marks a vanished
  job as unknown never overwrites an exit status the runner has recorded.
\<close>

section \<open>A reported stop is a real stop\<close>

lemma replayTerminal_status:
  "wp (replayTerminal E n jid status verified) (\<lambda>r t. \<forall>x. r = Some x \<longrightarrow> r_status x = ''stopped'' \<longrightarrow> verified) s"
proof -
  have "r_status (terminalJobResponse st jid) \<noteq> ''stopped''" for st
    by (simp add: terminalJobResponse_def unknownJobLaunchResponse_def split: option.splits)
  then show ?thesis
    unfolding replayTerminal_def Let_def
    by (auto simp: wp_run unknownJobLaunchResponse_def tryE_def checkE_def split: sum.splits option.splits prod.splits)
qed

lemma replay_stopped:
  assumes "Inv E s"
  shows "wp (jobTerminalReplayResponse E n jid) (\<lambda>r t. Inv E t \<and>
     (\<forall>x. r = Some x \<longrightarrow> r_status x = ''stopped'' \<longrightarrow> stopIssued jid t)) s"
proof -
  have tail: "wp (replayTerminal E n jid status verified) (\<lambda>r t. Inv E t \<and>
     (\<forall>x. r = Some x \<longrightarrow> r_status x = ''stopped'' \<longrightarrow> stopIssued jid t)) u"
    if "Inv E u" "verified \<longrightarrow> stopIssued jid u" for status verified u
  proof -
    have q: "state_io_rel quiet (replayTerminal E n jid status verified)"
      unfolding replayTerminal_def Let_def by (intro frame_rules)
    have i: "wp (replayTerminal E n jid status verified) (\<lambda>_ t. Inv E t \<and> (verified \<longrightarrow> stopIssued jid t)) u"
      by (rule wp_quiet[of "\<lambda>w. Inv E w \<and> (verified \<longrightarrow> stopIssued jid w)", OF _ _ q])
         (use that stable_Inv[of E] quiet_keeps(4) in \<open>auto simp: stable_def\<close>)
    show ?thesis by (rule wp_mono[OF wp_conj[OF i replayTerminal_status]]) blast
  qed
  have known: "wp (tryE (findJobClaimForID E jid) (\<lambda>e. return (Some (jobStateError c (emsg e)))) (\<lambda>found.
        replayTerminal E n jid status (case found of None \<Rightarrow> False | Some (c, _) \<Rightarrow> c_verifiedStopped c)))
      (\<lambda>r t. Inv E t \<and> (\<forall>x. r = Some x \<longrightarrow> r_status x = ''stopped'' \<longrightarrow> stopIssued jid t)) u"
    if "Inv E u" for status c u
    unfolding wp_tryE
  proof (rule wp_mono[OF findJobClaimForID_effect[OF that]])
    fix r :: "err + (jobClaim \<times> string) option" and t
    assume r: "Inv E t \<and> (\<forall>c n. r = Inr (Some (c, n)) \<longrightarrow> Held E n c t \<and> c_jobID c = jid)"
    have "c_verifiedStopped d \<longrightarrow> stopIssued jid t" if "r = Inr (Some (d, m))" for d m
      using r that by (auto simp: Held_def Inv_def validClaim_def)
    then show "(case r of Inl e \<Rightarrow> wp (return (Some (jobStateError c (emsg e))))
          (\<lambda>r t. Inv E t \<and> (\<forall>x. r = Some x \<longrightarrow> r_status x = ''stopped'' \<longrightarrow> stopIssued jid t))
        | Inr found \<Rightarrow> wp (replayTerminal E n jid status (case found of None \<Rightarrow> False | Some (c, _) \<Rightarrow> c_verifiedStopped c))
          (\<lambda>r t. Inv E t \<and> (\<forall>x. r = Some x \<longrightarrow> r_status x = ''stopped'' \<longrightarrow> stopIssued jid t))) t"
      using r by (auto intro!: tail split: sum.splits option.splits)
  qed
  show ?thesis
    unfolding jobTerminalReplayResponse_def Let_def wp_tryE[of "readJobStatusValue _ _"]
    by (rule wpq_Inv[OF assms qf.on_readJobStatus])
       (auto intro!: known tail simp del: wp_tryE split: sum.splits)
qed

lemma statusFromUnit_noID:
  "wp (statusFromUnit E jid) (\<lambda>r t. r_jobID r = []) s"
  unfolding statusFromUnit_def
  by (auto simp: wp_run zeroResponse_def split: option.splits prod.splits)

text \<open>C2. A reported stop is a real stop. When \<open>job_status\<close> says that a job is \<open>stopped\<close> (a reply about
  the job itself, not systemd's own words), the executor has issued \<open>systemctl stop\<close> for exactly that
  unit. A worker that writes \<open>stopped\<close>, or anything else, into its status file cannot bring this
  about: the files of the job are unconstrained.\<close>

theorem stopped_reply_is_real:
  assumes "Inv E s" and "run_state (jobStatus E req) s = (r, t)"
    and "r_status r = ''stopped''" and "r_jobID r \<noteq> []"
  shows "stopIssued (q_jobID req) t"
proof -
  let ?Q = "\<lambda>jid r t. Inv E t \<and> (r_status r = ''stopped'' \<longrightarrow> r_jobID r \<noteq> [] \<longrightarrow> stopIssued jid t)"
  have zero: "?Q jid (orZero x) t" if "Inv E t \<and> (\<forall>y. x = Some y \<longrightarrow> r_status y = ''stopped'' \<longrightarrow> stopIssued jid t)" for jid x t
    using that by (auto simp: orZero_def zeroResponse_def split: option.splits)
  have fromUnit: "wp (statusFromUnit E jid) (?Q jid) u" if "Inv E u" for jid u
  proof -
    have "wp (statusFromUnit E jid) (\<lambda>_. Inv E) u"
      by (rule wpq_Inv[OF that]) (auto simp: statusFromUnit_def intro!: frame_rules)
    from wp_conj[OF this statusFromUnit_noID[of E jid u]] show ?thesis by (rule wp_mono) simp
  qed
  have last: "wp (State_Monad.bind (jobTerminalReplayResponse E n jid) (\<lambda>r. return (orZero r))) (?Q jid) u"
    if "Inv E u" for n jid u
    unfolding wp_bind by (rule wp_mono[OF replay_stopped[OF that, of n jid]]) (unfold wp_return, rule zero)
  have rest: "wp (tryE (jobStarted E sn) (stateErr code) (\<lambda>started.
         tryE (if started then ok True else jobHasStartedClaim E jid) (stateErr code) (\<lambda>accepted.
         if \<not> accepted then statusFromUnit E jid
         else tryE (jobUnitActive E jid) (stateErr code) (\<lambda>active.
           if active then statusFromUnit E jid
           else checkE (markJobStatusUnknownIfEmpty E n) (stateErr code)
             (checkE (removeTerminalCommandHandoff E cn) (stateErr code)
                (State_Monad.bind (jobTerminalReplayResponse E n jid) (\<lambda>r. return (orZero r)))))))) (?Q jid) u"
    if "Inv E u" for jid sn n cn code u
    using that
    by (auto intro!: wpq_Inv[OF _ qf.on_jobStarted] wpq_Inv[OF _ qf.on_jobHasStartedClaim] fromUnit
        wpq_Inv[OF _ qf.on_jobUnitActive] wpq_Inv[OF _ qf.on_markUnknown] wpq_Inv[OF _ qf.on_removeHandoff]
        last[unfolded wp_bind] split: sum.splits option.splits) (assumption+)?
  have locked: "wp (jobStatusLocked E jid) (?Q jid) u" if "Inv E u" for jid u
    unfolding jobStatusLocked_def Let_def wp_bind[of "jobTerminalReplayResponse _ _ _" "case_option _ _"]
    by (rule wp_mono[OF replay_stopped[OF that]]) (auto intro!: rest simp del: wp_tryE split: option.splits)
  have "wp (jobStatus E req) (\<lambda>r t. r_status r = ''stopped'' \<longrightarrow> r_jobID r \<noteq> [] \<longrightarrow> stopIssued (q_jobID req) t) s"
  proof (cases "safeID (q_jobID req)")
    case (Inr jid)
    then have "jid = q_jobID req" by (auto simp: safeID_def split: if_splits)
    then show ?thesis
      unfolding jobStatus_def Inr sum.case wp_checkE
      by (intro wpq_Inv[OF assms(1) qf.on_files(5)])
         (auto intro!: wp_mono[OF locked] simp: jobStateBusyResponse_def split: option.splits)
  qed (simp add: jobStatus_def invalidJobID_def)
  then show ?thesis using assms(2-4) by (simp add: wp_run)
qed


definition stoppedClaim :: jobClaim where
  "stoppedClaim = (newClaim exampleEnv exampleRequest ''25'' 26 ''fp'')\<lparr>c_state := ''started'', c_verifiedStopped := True\<rparr>"

text \<open>A store with one job that was started and stopped, and whose own files are gone.\<close>

definition stoppedWorld :: world where
  "stoppedWorld = exampleWorld\<lparr>tick := 100,
     claimFiles := [(''op.json'', (newClaimFile exampleEnv 26)\<lparr>cf_body := Doc stoppedClaim, cf_size := 300\<rparr>)],
     trace := [Systemd [''systemctl'', ''stop'', unitName ''25'']]\<rparr>"

lemma stoppedWorld_Inv: "Inv exampleEnv stoppedWorld"
proof -
  have at: "claimAt stoppedWorld n = (if n = ''op.json'' then Some stoppedClaim else None)" for n
    by (simp add: claimAt_def docAt_def stoppedWorld_def newClaimFile_def hasSuffix_def)
  have i: "itoa 25 = ''25''" by code_simp
  have "older exampleEnv stoppedWorld ''25''"
    unfolding older_def
  proof (intro allI impI)
    fix n assume "''25'' = itoa n"
    then have "n = 25" using i itoa_inject by metis
    then show "n < e_now exampleEnv (tick stoppedWorld)" by (simp add: exampleEnv_def stoppedWorld_def)
  qed
  moreover have "launches jid stoppedWorld = 0" for jid
    by (simp add: launches_def launchTrace_def stoppedWorld_def List.map_filter_simps)
  moreover have "strict_mono (e_now exampleEnv)" by (simp add: exampleEnv_def strict_mono_def)
  moreover have "stopIssued ''25'' stoppedWorld" by (simp add: stopIssued_def stoppedWorld_def)
  moreover have "c_jobID stoppedClaim = ''25''" "c_state stoppedClaim = ''started''"
    by (simp_all add: stoppedClaim_def newClaim_def)
  ultimately show ?thesis
    by (simp add: Inv_def at validClaim_def owner_def ascii_def claimStates_def)
qed

theorem stopped_reply_is_real_witness:
  "\<exists>r t. run_state (jobStatus exampleEnv (exampleRequest\<lparr>q_jobID := ''25''\<rparr>)) stoppedWorld = (r, t) \<and>
     r_status r = ''stopped'' \<and> stopIssued ''25'' t"
proof -
  let ?req = "exampleRequest\<lparr>q_jobID := ''25''\<rparr>"
  have "wp (jobStatus exampleEnv ?req) (\<lambda>r t. r_status r = ''stopped'' \<and> r_jobID r = ''25'') stoppedWorld"
    by (simp add: jobStatus_def jobStatusLocked_def jobTerminalReplayResponse_def replayTerminal_def
        readJobStatusValue_def openJobFile_def openFile_def findJobClaimForID_def readClaimsDir_def readJobClaim_def
        jobUnitActive_def removeTerminalCommandHandoff_def removeFile_def verifiedJobStopResponse_def
        lockJobState_def trustedDir_def safeID_def char_class_defs jobPathsFor_def isNotExist_def isClaimEntry_def
        hasSuffix_def trimSuffix_def emptyOutput calm_systemd[OF example_calm] calm_fault[OF example_calm]
        calm_advance[OF example_calm] stoppedWorld_def exampleWorld_def stoppedClaim_def newClaim_def
        newClaimFile_def maxPersistentJobClaims_def maxFailedJobClaims_def maxCompletedJobArtifacts_def
        exampleRequest_def Let_def)
  then obtain r t where "run_state (jobStatus exampleEnv ?req) stoppedWorld = (r, t)"
      "r_status r = ''stopped''" "r_jobID r = ''25''"
    by (auto simp: wp_def split: prod.splits)
  then show ?thesis
    using stopped_reply_is_real[OF stoppedWorld_Inv, of ?req r t] by auto
qed

section \<open>Reconciliation does not overwrite an exit status\<close>

text \<open>The runner writes its exit status under the same lock (\<open>writeJobStatus\<close>), so while the
  executor holds it the file does not change under its feet.\<close>

definition respectsLock :: "env \<Rightarrow> bool" where
  "respectsLock E = (\<forall>t n fs. map_of (e_runner E t (Some n) fs) n = map_of fs n)"

text \<open>Marking a job's end as unknown never overwrites recorded evidence. While the executor holds
  the lock on the status file: if the file holds anything but blanks, it is left exactly as it is,
  whatever fails; and if it holds only blanks and the operation reports success, it now says
  \<open>unknown\<close>.\<close>

theorem unknown_never_overwrites:
  assumes "respectsLock E" and "held u = Some n" and "map_of (jobFiles u) n = Some g"
    and "run_state (markUnknownLocked E n f) u = (r, t)"
  shows "(trimSpace (jf_content g) \<noteq> [] \<longrightarrow> map_of (jobFiles t) n = Some g) \<and>
         (trimSpace (jf_content g) = [] \<longrightarrow> r = None \<longrightarrow>
            map_option jf_content (map_of (jobFiles t) n) = Some (''unknown'' @ [CHR 0x0A]))"
proof -
  have adv: "map_of (jobFiles (advance E w)) n = map_of (jobFiles w) n" "held (advance E w) = held w"
    if "held w = Some n" for w
    using that assms(1) by (simp_all add: advance_def respectsLock_def)
  have short: "take 65 (jf_content g) = jf_content g" if "\<not> 64 < length (take 65 (jf_content g))"
    using that by simp
  have "wp (markUnknownLocked E n f) (\<lambda>r t.
      (trimSpace (jf_content g) \<noteq> [] \<longrightarrow> map_of (jobFiles t) n = Some g) \<and>
      (trimSpace (jf_content g) = [] \<longrightarrow> r = None \<longrightarrow>
         map_option jf_content (map_of (jobFiles t) n) = Some (''unknown'' @ [CHR 0x0A]))) u"
    unfolding markUnknownLocked_def readFile_def editJob_def
    using assms(2,3) short
    by (auto simp: adv map_of_map_entry jobStatusUnknown_def split: option.splits)
  then show ?thesis using assms(4) by (simp add: wp_run)
qed


theorem unknown_never_overwrites_witness:
  "map_option jf_content (map_of (jobFiles (snd (run_state (markUnknownLocked exampleEnv ''25.status''
      \<lparr>jf_kind = Regular, jf_uid = 0, jf_worldWritable = False, jf_content = ''137'', jf_mod = 3\<rparr>)
      (exampleWorld\<lparr>held := Some ''25.status'', jobFiles := [(''25.status'',
        \<lparr>jf_kind = Regular, jf_uid = 0, jf_worldWritable = False, jf_content = ''137'', jf_mod = 3\<rparr>)]\<rparr>)))) ''25.status'')
   = Some ''137''"
proof -
  let ?f = "\<lparr>jf_kind = Regular, jf_uid = 0, jf_worldWritable = False, jf_content = ''137'', jf_mod = 3\<rparr>"
  let ?u = "exampleWorld\<lparr>held := Some ''25.status'', jobFiles := [(''25.status'', ?f)]\<rparr>"
  obtain r t where run: "run_state (markUnknownLocked exampleEnv ''25.status'' ?f) ?u = (r, t)" by fastforce
  have "respectsLock exampleEnv" by (simp add: respectsLock_def exampleEnv_def)
  moreover have "trimSpace ''137'' = ''137''" by (simp add: trimSpace_ascii ascii_def rune_space_def)
  ultimately have "map_of (jobFiles t) ''25.status'' = Some ?f"
    using unknown_never_overwrites[OF _ _ _ run, of ?f] by simp
  then show ?thesis using run by simp
qed

text \<open>C5. The job store stays consistent. Every request and every restart keeps the invariant of the
  store: each readable claim has one of the four states, an ASCII job id that no later job can get
  and that no other claim carries; a job that was dispatched (once) is not recorded as merely
  claimed; and a claim says verified-stopped only if the stop was issued.\<close>

theorem job_store_invariant:
  assumes "Inv E w"
  shows "Inv E (snd (run_state (serve E c) w))"
  using serve_Inv[OF assms, of c] by (simp add: wp_run)

theorem job_store_invariant_witness:
  "Inv exampleEnv (snd (run_state (serve exampleEnv (JobStop (exampleRequest\<lparr>q_jobID := ''25''\<rparr>))) stoppedWorld))"
  by (rule job_store_invariant[OF stoppedWorld_Inv])

end
