(* ===== verification/IncusWorld.thy ===== *)
theory IncusWorld
  imports State_Logic Json
begin

text \<open>
  The optional native Incus backend, \<open>internal/managedincus\<close>: its data, the world its operations
  run in, and the calls of the \<open>incus\<close> command line (\<open>incus.go\<close>). The backend keeps no state in
  memory; what it knows is two journal files under its lock directory, and what Incus answers.
  Incus, the clock, the kernel and every failure are the environment, a parameter of all operations:
  each system call consumes one tick, and the environment says what happens at a tick. The text of a
  native answer is turned into a value by \<open>json.Unmarshal\<close>; these decoders are parameters too
  (None when decoding fails).
\<close>

section \<open>Data\<close>

record incusRequest =
  n_operation :: string
  n_project :: string
  n_instance :: string
  n_uuid :: string
  n_image :: string
  n_type :: string
  n_workID :: string
  n_operationID :: string
  n_actorID :: string
  n_cpu :: int
  n_memoryMiB :: int
  n_diskGiB :: int
  n_storagePool :: string
  n_command :: "string list"
  n_snapshot :: string

type_synonym strmap = "(string \<times> string) list"

text \<open>A guest as the native list reports it; a network is its list of (address, scope) pairs.\<close>

record incusInstance =
  i_name :: string
  i_project :: string
  i_type :: string
  i_status :: string
  i_config :: strmap
  i_devices :: "(string \<times> strmap) list"
  i_expandedDevices :: "(string \<times> strmap) list"
  i_network :: "(string \<times> string) list list option"

record summary =
  s_hostID :: string
  s_project :: string
  s_name :: string
  s_uuid :: string
  s_generation :: string
  s_type :: string
  s_status :: string
  s_workID :: string
  s_operationID :: string
  s_cpu :: string
  s_memory :: string
  s_diskLimit :: string
  s_storagePool :: string
  s_addresses :: "string list"
  s_managed :: bool

record createIntent =
  ci_hostID :: string
  ci_project :: string
  ci_instance :: string
  ci_workID :: string
  ci_operationID :: string
  ci_type :: string
  ci_image :: string
  ci_storagePool :: string
  ci_submittedAt :: int
  ci_state :: string
  ci_nativeUUID :: string
  ci_abandonedAt :: "int option"

record nativeOperation =
  no_hostID :: string
  no_workID :: string
  no_actorID :: string
  no_id :: string
  no_project :: string
  no_instance :: string
  no_uuid :: string
  no_action :: string
  no_snapshot :: string
  no_nativeID :: string
  no_state :: string
  no_nativeTerminal :: string
  no_diagnostic :: string
  no_submittedAt :: int
  no_updatedAt :: int

record incusResult =
  rs_status :: string
  rs_hostID :: string
  rs_available :: bool
  rs_diagnostic :: string
  rs_instances :: "summary list"
  rs_instance :: "summary option"
  rs_output :: string
  rs_exitCode :: int
  rs_snapshots :: "string list"
  rs_pending :: "createIntent list"
  rs_operations :: "nativeOperation list"
  rs_operation :: "nativeOperation option"
  rs_outputTruncated :: bool

text \<open>A journal file: its identity, its size, and the version and records its JSON holds, if it is JSON.\<close>

record 'r journalFile =
  jn_symlink :: bool
  jn_regular :: bool
  jn_perm :: nat
  jn_nlink :: nat
  jn_uid :: nat
  jn_size :: int
  jn_body :: "(int \<times> 'r list) option"

text \<open>What reached Incus: a command of the CLI, or a request on the native socket.\<close>

datatype incusEvent = Cli "string list" | Api string string

record iworld =
  i_tick :: nat
  i_intents :: "createIntent journalFile option"
  i_native :: "nativeOperation journalFile option"
  i_trace :: "incusEvent list"

type_synonym 'a iprog = "(iworld, 'a) state"

section \<open>The environment\<close>

datatype procEnd = Succeeded | ExitWith int | RunErr err

record lstatInfo =
  ls_uid :: nat
  ls_regular :: bool
  ls_socket :: bool
  ls_perm :: nat

text \<open>The answer of the native socket: the connection failed, or a status, an ETag and a body.\<close>

datatype apiAnswer = NoAnswer err | Answer int string string

record asyncAck =
  aa_type :: string
  aa_operation :: string
  aa_id :: string

record opMeta =
  om_type :: string
  om_id :: string
  om_code :: int
  om_project :: string

record opCandidate =
  oc_id :: string
  oc_description :: string
  oc_project :: string
  oc_createdAt :: int
  oc_code :: int
  oc_resources :: "(string \<times> string list) list"

record urlRef =
  ur_abs :: bool
  ur_host :: string
  ur_fragment :: string
  ur_path :: string
  ur_query :: "(string \<times> string list) list option"

record incusEnv =
  b_hostID :: string
  x_euid :: nat
  x_now :: "nat \<Rightarrow> int"
  x_fault :: "nat \<Rightarrow> err option"
  x_lstat :: "nat \<Rightarrow> string \<Rightarrow> lstatInfo option"
  x_lockDir :: "nat \<Rightarrow> bool"
  x_cli :: "nat \<Rightarrow> string list \<Rightarrow> string option \<Rightarrow> string list \<times> procEnd"
  x_api :: "nat \<Rightarrow> string \<Rightarrow> string \<Rightarrow> string option \<Rightarrow> string \<Rightarrow> apiAnswer"
  x_meminfo :: "nat \<Rightarrow> string option"
  d_instances :: "string \<Rightarrow> incusInstance list option option"
  d_snapshots :: "string \<Rightarrow> string list option"
  d_rawList :: "string \<Rightarrow> string list option option"
  d_apiVersion :: "string \<Rightarrow> string option"
  d_space :: "string \<Rightarrow> (int \<times> int) option"
  d_ack :: "string \<Rightarrow> asyncAck option"
  d_opMeta :: "string \<Rightarrow> opMeta option"
  d_envelope :: "string \<Rightarrow> string option"
  d_props :: "string \<Rightarrow> (string \<times> string) list option"
  d_config :: "string \<Rightarrow> strmap option"
  d_opGroups :: "string \<Rightarrow> (string \<times> (string \<times> string list) list option) option"
  d_candidate :: "string \<Rightarrow> opCandidate option"
  d_url :: "string \<Rightarrow> urlRef option"
  d_compact :: "string \<Rightarrow> string"

text \<open>One system call: it fails with the fault of its tick, if there is one.\<close>

definition itick :: "(nat \<Rightarrow> 'a) \<Rightarrow> 'a iprog" where
  "itick f = State (\<lambda>w. (f (i_tick w), w\<lparr>i_tick := i_tick w + 1\<rparr>))"

definition icall :: "incusEnv \<Rightarrow> err option iprog" where
  "icall E = itick (x_fault E)"

definition inow :: "incusEnv \<Rightarrow> int iprog" where
  "inow E = itick (x_now E)"

definition native :: "incusEvent \<Rightarrow> unit iprog" where
  "native ev = modify (\<lambda>w. w\<lparr>i_trace := ev # i_trace w\<rparr>)"

abbreviation icallV :: "incusEnv \<Rightarrow> (err + 'a) iprog \<Rightarrow> (err + 'a) iprog" where
  "icallV E k \<equiv> checkE (icall E) (\<lambda>e. State_Monad.return (Inl e)) k"

abbreviation icallU :: "incusEnv \<Rightarrow> err option iprog \<Rightarrow> err option iprog" where
  "icallU E k \<equiv> checkE (icall E) (\<lambda>e. State_Monad.return (Some e)) k"

definition valueOf :: "strmap \<Rightarrow> string \<Rightarrow> string" where
  "valueOf m k = (case map_of m k of None \<Rightarrow> [] | Some v \<Rightarrow> v)"

section \<open>Names\<close>

definition matchesName :: "(char \<Rightarrow> bool) \<Rightarrow> nat \<Rightarrow> string \<Rightarrow> bool" where
  "matchesName rest n s = (case s of [] \<Rightarrow> False
     | c # t \<Rightarrow> is_alnum c \<and> list_all rest t \<and> length t \<le> n)"

definition validName :: "string \<Rightarrow> bool" where
  "validName = matchesName (\<lambda>c. is_alnum c \<or> c \<in> set ''_.-'') 119"

definition imagePattern :: "string \<Rightarrow> bool" where
  "imagePattern = matchesName (\<lambda>c. is_alnum c \<or> c \<in> set ''_./:@-'') 255"

definition isHex :: "char \<Rightarrow> bool" where
  "isHex c = (is_digit c \<or> between CHR ''a'' CHR ''f'' c \<or> between CHR ''A'' CHR ''F'' c)"

definition uuidPattern :: "string \<Rightarrow> bool" where
  "uuidPattern s = (let parts = splitOn CHR ''-'' s
     in map length parts = [8, 4, 4, 4, 12] \<and> list_all (list_all isHex) parts)"

section \<open>The command line\<close>

definition maxOutput :: nat where "maxOutput = 64 * 1024"

record bounded =
  bd_b :: string
  bd_seen :: nat

definition boundedWrite :: "bounded \<Rightarrow> string \<Rightarrow> bounded" where
  "boundedWrite x p =
     (let remain = int maxOutput - int (length (bd_b x)) in
      \<lparr>bd_b = (if remain > 0 then bd_b x @ take (min (length p) (nat remain)) p else bd_b x),
       bd_seen = bd_seen x + length p\<rparr>)"

definition trustedBinary :: "lstatInfo \<Rightarrow> bool" where
  "trustedBinary st = (ls_uid st = 0 \<and> ls_regular st
     \<and> and (ls_perm st) 73 \<noteq> 0 \<and> and (ls_perm st) 18 = 0)"

fun binaryLoop :: "incusEnv \<Rightarrow> string list \<Rightarrow> (err + string) iprog" where
  "binaryLoop E [] = fail (newErr ''incus_missing: install and initialize optional Incus on an authorized host; ordinary Agent tools remain available'')"
| "binaryLoop E (path # ps) = do {
     fi \<leftarrow> itick (\<lambda>t. x_lstat E t path);
     case fi of
       None \<Rightarrow> binaryLoop E ps
     | Some st \<Rightarrow> if trustedBinary st then ok path else binaryLoop E ps }"

definition binary :: "incusEnv \<Rightarrow> (err + string) iprog" where
  "binary E = binaryLoop E [''/usr/bin/incus'', ''/usr/local/bin/incus'']"

text \<open>The command is recorded before its outcome is known: a failed command may have had its effect.\<close>

definition cli :: "incusEnv \<Rightarrow> string option \<Rightarrow> bool \<Rightarrow> string list \<Rightarrow>
    (string \<times> int \<times> bool \<times> err option) iprog" where
  "cli E input discardOutput args =
     tryE (binary E) (\<lambda>e. return ([], -1, False, Some e)) (\<lambda>bin. do {
       native (Cli args);
       (chunks, res) \<leftarrow> itick (\<lambda>t. x_cli E t args input);
       (let out = fold (\<lambda>p x. boundedWrite x p) chunks \<lparr>bd_b = [], bd_seen = 0\<rparr>;
            (code, err) = (case res of
               Succeeded \<Rightarrow> (0, None)
             | ExitWith c \<Rightarrow> (c, Some (newErr (''exit status '' @ itoa c)))
             | RunErr e \<Rightarrow> (-1, Some e))
        in if discardOutput then return ([], code, False, err)
           else return (bd_b out, code, bd_seen out > maxOutput, err)) })"

definition command :: "incusEnv \<Rightarrow> string list \<Rightarrow> (err + string) iprog" where
  "command E args = do {
     (out, _, truncated, err) \<leftarrow> cli E None False args;
     if truncated then fail (newErr ''incus output exceeded bounded response'')
     else case err of
       Some e \<Rightarrow> fail (wrapErr (''native Incus operation failed ('' @
                   (case args of a # b # _ \<Rightarrow> a @ '' '' @ b | [a] \<Rightarrow> a | [] \<Rightarrow> []) @ '')'') e)
     | None \<Rightarrow> ok out }"

definition summarize :: "incusInstance \<Rightarrow> string \<Rightarrow> summary" where
  "summarize x host =
     (let p = (if i_project x = [] then ''default'' else i_project x);
          c = i_config x;
          rootOf = (\<lambda>m. case map_of m ''root'' of None \<Rightarrow> [] | Some r \<Rightarrow> r);
          root = (if rootOf (i_expandedDevices x) = [] then rootOf (i_devices x)
                  else rootOf (i_expandedDevices x))
      in \<lparr>s_hostID = host, s_project = p, s_name = i_name x, s_uuid = valueOf c ''volatile.uuid'',
          s_generation = valueOf c ''volatile.uuid.generation'', s_type = i_type x,
          s_status = i_status x, s_workID = valueOf c ''user.asa.work'',
          s_operationID = valueOf c ''user.asa.operation'', s_cpu = valueOf c ''limits.cpu'',
          s_memory = valueOf c ''limits.memory'', s_diskLimit = valueOf root ''size'',
          s_storagePool = valueOf root ''pool'',
          s_addresses = (case i_network x of None \<Rightarrow> []
            | Some ifaces \<Rightarrow> concat (map (\<lambda>iface. map fst (filter (\<lambda>(a, scope). scope = ''global'' \<and> a \<noteq> []) iface)) ifaces)),
          s_managed = (valueOf c ''user.asa.host'' = host \<and> host \<noteq> [])\<rparr>)"

fun summarizeAll :: "string \<Rightarrow> string \<Rightarrow> incusInstance list \<Rightarrow> err + summary list" where
  "summarizeAll host project [] = Inr []"
| "summarizeAll host project (x # xs) =
     (if \<not> validName (i_name x) \<or> (project = [] \<and> \<not> validName (i_project x))
      then Inl (newErr ''incus_native_inventory_unverified: native instance lacks a valid name or all-project identity'')
      else case summarizeAll host project xs of
        Inl e \<Rightarrow> Inl e
      | Inr r \<Rightarrow> Inr (summarize (if project \<noteq> [] then x\<lparr>i_project := project\<rparr> else x) host # r))"

definition listGuests :: "incusEnv \<Rightarrow> string \<Rightarrow> (err + summary list) iprog" where
  "listGuests E project =
     (if project \<noteq> [] \<and> \<not> validName project then fail (newErr ''invalid Incus project'')
      else tryE (command E ([''list'', ''--format'', ''json''] @
                  (if project = [] then [''--all-projects''] else [''--project'', project]))) fail (\<lambda>out.
        case d_instances E out of
          None \<Rightarrow> fail (newErr ''invalid native Incus list JSON'')
        | Some None \<Rightarrow> fail (newErr ''incus_native_inventory_unverified: native list must be a non-null array'')
        | Some (Some xs) \<Rightarrow> return (summarizeAll (b_hostID E) project xs)))"

definition snapshots :: "incusEnv \<Rightarrow> string \<Rightarrow> string \<Rightarrow> (err + string list) iprog" where
  "snapshots E project name =
     tryE (command E [''snapshot'', ''list'', name, ''--project'', project, ''--format'', ''json'']) fail (\<lambda>out.
       case d_snapshots E out of
         None \<Rightarrow> fail (newErr ''invalid native Incus snapshot list JSON'')
       | Some rows \<Rightarrow> ok (filter (\<lambda>v. v \<noteq> []) rows))"

definition hasSnapshot :: "string list \<Rightarrow> string \<Rightarrow> bool" where
  "hasSnapshot names name = (name \<in> set names)"

definition inspect :: "incusEnv \<Rightarrow> string \<Rightarrow> string \<Rightarrow> (err + summary option) iprog" where
  "inspect E project name =
     tryE (listGuests E project) fail (\<lambda>all.
       ok (find (\<lambda>v. s_name v = name \<and> s_project v = project) all))"

section \<open>Readiness and capacity\<close>

definition emptyResult :: incusResult where
  "emptyResult = \<lparr>rs_status = [], rs_hostID = [], rs_available = False, rs_diagnostic = [],
     rs_instances = [], rs_instance = None, rs_output = [], rs_exitCode = 0, rs_snapshots = [],
     rs_pending = [], rs_operations = [], rs_operation = None, rs_outputTruncated = False\<rparr>"

definition ready :: "incusEnv \<Rightarrow> incusResult iprog" where
  "ready E =
     (let r = emptyResult\<lparr>rs_hostID := b_hostID E, rs_status := ''unavailable''\<rparr>
      in tryE (binary E) (\<lambda>e. return (r\<lparr>rs_diagnostic := emsg e\<rparr>)) (\<lambda>_.
         tryE (command E [''query'', ''/1.0''])
           (\<lambda>_. return (r\<lparr>rs_diagnostic := ''incus_unready: native daemon/socket/project not initialized or unavailable; inspect incus admin status and initialization''\<rparr>))
         (\<lambda>root.
           if d_apiVersion E root = None \<or> d_apiVersion E root = Some []
           then return (r\<lparr>rs_diagnostic := ''incus_unready: native API root returned invalid or incomplete JSON''\<rparr>)
           else do {
             kvm \<leftarrow> icall E;
             return (r\<lparr>rs_available := True, rs_status := ''ready'',
               rs_diagnostic := (if kvm \<noteq> None
                 then ''KVM unavailable for VMs; containers may still work; verify /dev/kvm and host virtualization''
                 else [])\<rparr>) })))"

definition memAvailable :: "string \<Rightarrow> int option" where
  "memAvailable data =
     (case find (\<lambda>line. hasPrefix line ''MemAvailable:'') (splitOn CHR 0x0A data) of
        None \<Rightarrow> None
      | Some line \<Rightarrow> (case Prelude.fields line of _ # n # _ \<Rightarrow> Some (parseIntClamp n) | _ \<Rightarrow> None))"

definition capacity :: "incusEnv \<Rightarrow> int \<Rightarrow> err option iprog" where
  "capacity E memoryMiB = do {
     data \<leftarrow> itick (x_meminfo E);
     return (case data of None \<Rightarrow> None
       | Some text \<Rightarrow> (case memAvailable text of None \<Rightarrow> None
         | Some n \<Rightarrow>
             if n > 0 \<and> n div 1024 < i64 (memoryMiB + 256)
             then Some (newErr ''host_capacity_memory_insufficient: use a smaller authorized guest or free host memory'')
             else None)) }"

text \<open>\<open>uint64\<close> arithmetic: the product wraps at 64 bits.\<close>

definition requiredBytes :: "int \<Rightarrow> int" where
  "requiredBytes diskGiB = (diskGiB mod 2 ^ 64 * 2 ^ 30) mod 2 ^ 64"

definition checkNativePool :: "incusEnv \<Rightarrow> string \<Rightarrow> int \<Rightarrow> err option iprog" where
  "checkNativePool E pool diskGiB =
     (if \<not> validName pool then return (Some (newErr ''storage_pool_required''))
      else tryE (command E [''query'', ''/1.0/storage-pools/'' @ pathEscape pool @ ''/resources''])
        (\<lambda>_. return (Some (newErr ''incus_storage_unavailable: selected pool resources cannot be read; inspect Incus storage pool and driver'')))
      (\<lambda>raw. return (case d_space E raw of
           None \<Rightarrow> Some (newErr ''incus_storage_capacity_unknown: storage pool resources did not report usable total/used space'')
         | Some (tot, used) \<Rightarrow>
             if tot = 0 \<or> used > tot
             then Some (newErr ''incus_storage_capacity_unknown: storage pool resources did not report usable total/used space'')
             else if tot - used < requiredBytes diskGiB
             then Some (newErr (''incus_storage_capacity_insufficient: selected pool '' @ pool @ '' has ''
                    @ itoa (tot - used) @ '' free bytes, requested root limit ''
                    @ itoa (requiredBytes diskGiB) @ '' bytes''))
             else None)))"

text \<open>The lock directory is made and checked, the lock file opened and locked; then \<open>fn\<close> runs alone.\<close>

definition locked :: "incusEnv \<Rightarrow> (incusResult \<times> err option) iprog \<Rightarrow> (incusResult \<times> err option) iprog" where
  "locked E fn =
     (let stop = (\<lambda>e. return (emptyResult, Some e))
      in checkE (icall E) stop
         (checkE (icall E) stop (do {
            safe \<leftarrow> itick (x_lockDir E);
            if \<not> safe then stop (newErr ''unsafe Incus lock directory'')
            else checkE (icall E) stop (checkE (icall E) stop fn) })))"

end
