(* ===== verification/IncusIntents.thy ===== *)
theory IncusIntents
  imports IncusWorld
begin

text \<open>
  The durable journal of native creates (\<open>managedincus/intent.go\<close>) and the identity check that
  every guest operation makes against it (\<open>selectInstance\<close> of \<open>incus.go\<close>).
\<close>

section \<open>Journal files\<close>

definition journalLimit :: int where "journalLimit = 2 ^ 20"

text \<open>
  The common part of loading a journal: open without following a link, check the identity of what was
  opened, read at most the limit. None is a journal that does not exist. A file that is there is
  never reported as missing.
\<close>

definition openErr :: "err \<Rightarrow> err" where
  "openErr e = Err (if ekind e = NotExist then OtherErr else ekind e) (emsg e)"

definition safeJournal :: "incusEnv \<Rightarrow> 'r journalFile \<Rightarrow> bool" where
  "safeJournal E f = (jn_regular f \<and> jn_perm f = 384 \<and> jn_nlink f = 1 \<and> jn_uid f = x_euid E)"

definition readJournal :: "incusEnv \<Rightarrow> (iworld \<Rightarrow> 'r journalFile option) \<Rightarrow> string \<Rightarrow> string \<Rightarrow>
    (err + 'r journalFile option) iprog" where
  "readJournal E sel unsafe tooBig = do {
     w \<leftarrow> get;
     case sel w of
       None \<Rightarrow> checkE (icall E) (\<lambda>e. if isNotExist e then ok None else fail e) (ok None)
     | Some f \<Rightarrow> checkE (icall E) (\<lambda>e. fail (openErr e)) (
         if jn_symlink f then fail (newErr ''too many levels of symbolic links'')
         else icallV E (
           if \<not> safeJournal E f then fail (newErr unsafe)
           else icallV E (
             if jn_size f > journalLimit then fail (newErr tooBig) else ok (Some f)))) }"

text \<open>
  The common part of saving: random name, exclusive create, write, sync, close, then the rename
  that puts the new document in place, then the directory is opened and synced. The temporary file
  carries a fresh random name and nothing ever reads it, so it is not part of the state.
\<close>

definition newJournal :: "incusEnv \<Rightarrow> int \<Rightarrow> int \<Rightarrow> 'r list \<Rightarrow> 'r journalFile" where
  "newJournal E len version rs = \<lparr>jn_symlink = False, jn_regular = True, jn_perm = 384, jn_nlink = 1,
     jn_uid = x_euid E, jn_size = len, jn_body = Some (version, rs)\<rparr>"

definition writeJournal :: "incusEnv \<Rightarrow> (iworld \<Rightarrow> iworld) \<Rightarrow> err option iprog" where
  "writeJournal E rename =
     icallU E (icallU E (icallU E (icallU E (icallU E (icallU E (do {
       modify rename;
       icallU E (icall E) }))))))"

section \<open>Create intents\<close>

definition intentJSON :: "createIntent \<Rightarrow> string" where
  "intentJSON x = ''{'' @ jsonString ''host_id'' @ '':'' @ jsonString (ci_hostID x)
     @ jsonField ''project'' (jsonString (ci_project x))
     @ jsonField ''instance'' (jsonString (ci_instance x))
     @ jsonField ''work_id'' (jsonString (ci_workID x))
     @ jsonField ''operation_id'' (jsonString (ci_operationID x))
     @ jsonField ''type'' (jsonString (ci_type x))
     @ jsonField ''image'' (jsonString (ci_image x))
     @ jsonOmitEmpty ''storage_pool'' (ci_storagePool x)
     @ jsonField ''submitted_at'' (jsonString (rfc3339Nano (ci_submittedAt x)))
     @ jsonField ''state'' (jsonString (ci_state x))
     @ jsonOmitEmpty ''native_uuid'' (ci_nativeUUID x)
     @ (case ci_abandonedAt x of None \<Rightarrow> []
        | Some t \<Rightarrow> jsonField ''abandoned_at'' (jsonString (rfc3339Nano t)))
     @ ''}''"

fun commaJoin :: "string list \<Rightarrow> string" where
  "commaJoin [] = []"
| "commaJoin [x] = x"
| "commaJoin (x # xs) = x @ '','' @ commaJoin xs"

definition jsonJournal :: "string \<Rightarrow> int \<Rightarrow> string list \<Rightarrow> string" where
  "jsonJournal key version docs = ''{'' @ jsonString ''version'' @ '':'' @ itoa version
     @ jsonField key (''['' @ commaJoin docs @ '']'') @ ''}''"

definition decodedIntent :: "createIntent \<Rightarrow> createIntent" where
  "decodedIntent x = x\<lparr>ci_hostID := cleanText (ci_hostID x), ci_project := cleanText (ci_project x),
     ci_instance := cleanText (ci_instance x), ci_workID := cleanText (ci_workID x),
     ci_operationID := cleanText (ci_operationID x), ci_type := cleanText (ci_type x),
     ci_image := cleanText (ci_image x), ci_storagePool := cleanText (ci_storagePool x),
     ci_state := cleanText (ci_state x), ci_nativeUUID := cleanText (ci_nativeUUID x)\<rparr>"

definition validIntent :: "createIntent \<Rightarrow> bool" where
  "validIntent x = (\<not> (ci_hostID x = [] \<or> \<not> validName (ci_project x) \<or> \<not> validName (ci_instance x)
     \<or> \<not> validName (ci_operationID x) \<or> \<not> validName (ci_workID x) \<or> \<not> imagePattern (ci_image x)
     \<or> \<not> validName (ci_storagePool x)
     \<or> (ci_state x \<noteq> ''submitted'' \<and> ci_state x \<noteq> ''confirmed'' \<and> ci_state x \<noteq> ''abandoned'')
     \<or> (ci_nativeUUID x \<noteq> [] \<and> \<not> uuidPattern (ci_nativeUUID x))
     \<or> (ci_state x = ''submitted'' \<and> (ci_nativeUUID x \<noteq> [] \<or> ci_abandonedAt x \<noteq> None))
     \<or> (ci_state x = ''abandoned'' \<and> (ci_abandonedAt x = None \<or> ci_nativeUUID x \<noteq> []))
     \<or> (ci_state x = ''confirmed'' \<and> ci_abandonedAt x \<noteq> None)))"

fun validIntents :: "string set \<Rightarrow> createIntent list \<Rightarrow> bool" where
  "validIntents known [] = True"
| "validIntents known (x # xs) =
     (validIntent x \<and> ci_operationID x \<notin> known \<and> validIntents (insert (ci_operationID x) known) xs)"

definition loadIntents :: "incusEnv \<Rightarrow> (err + createIntent list) iprog" where
  "loadIntents E =
     tryE (readJournal E i_intents ''unsafe Incus create intent file identity''
             ''Incus create intents exceed size bound'') fail (\<lambda>f.
       case f of
         None \<Rightarrow> ok []
       | Some f \<Rightarrow> (case jn_body f of
           None \<Rightarrow> fail (newErr ''corrupt Incus create intent journal'')
         | Some (version, xs) \<Rightarrow>
             if version \<noteq> 1 then fail (newErr ''unsupported Incus create intent journal version'')
             else if \<not> validIntents {} xs then fail (newErr ''invalid/duplicate Incus create intent'')
             else ok xs))"

definition saveIntents :: "incusEnv \<Rightarrow> createIntent list \<Rightarrow> err option iprog" where
  "saveIntents E xs =
     (let len = int (length (jsonJournal ''intents'' 1 (map intentJSON xs)))
      in if len > journalLimit then return (Some (newErr ''Incus create intent journal exceeded limit''))
         else writeJournal E (\<lambda>w. w\<lparr>i_intents := Some (newJournal E len 1 (map decodedIntent xs))\<rparr>))"

definition intentFor :: "incusRequest \<Rightarrow> string \<Rightarrow> int \<Rightarrow> createIntent" where
  "intentFor req host now = \<lparr>ci_hostID = host, ci_project = n_project req, ci_instance = n_instance req,
     ci_workID = n_workID req, ci_operationID = n_operationID req, ci_type = n_type req,
     ci_image = n_image req, ci_storagePool = n_storagePool req, ci_submittedAt = now,
     ci_state = ''submitted'', ci_nativeUUID = [], ci_abandonedAt = None\<rparr>"

text \<open>The scan of the journal: an error, a replay of a recorded submission, or nothing against it.\<close>

fun reserveScan :: "string \<Rightarrow> incusRequest \<Rightarrow> createIntent list \<Rightarrow> err + bool" where
  "reserveScan host req [] = Inr False"
| "reserveScan host req (x # xs) =
     (if ci_hostID x \<noteq> host then Inl (newErr ''create_intent_host_mismatch'')
      else if ci_operationID x = n_operationID req then
        (if ci_state x = ''abandoned''
         then Inl (newErr ''create_intent_abandoned_operation_id: use a fresh id for a new authorized launch'')
         else if ci_project x \<noteq> n_project req \<or> ci_instance x \<noteq> n_instance req \<or> ci_workID x \<noteq> n_workID req
             \<or> ci_type x \<noteq> n_type req \<or> ci_image x \<noteq> n_image req \<or> ci_storagePool x \<noteq> n_storagePool req
         then Inl (newErr ''create_intent_collision: stable operation ID already submitted with different parameters'')
         else Inr True)
      else if ci_state x \<noteq> ''abandoned'' \<and> ci_project x = n_project req \<and> ci_instance x = n_instance req
      then Inl (newErr ''create_intent_collision: a different creation operation already reserves this project/name'')
      else reserveScan host req xs)"

definition reserveCreate :: "incusEnv \<Rightarrow> incusRequest \<Rightarrow> (err + bool) iprog" where
  "reserveCreate E req =
     tryE (loadIntents E) fail (\<lambda>d.
       case reserveScan (b_hostID E) req d of
         Inl e \<Rightarrow> fail e
       | Inr True \<Rightarrow> ok True
       | Inr False \<Rightarrow> do {
           now \<leftarrow> inow E;
           checkE (saveIntents E (d @ [intentFor req (b_hostID E) now])) fail (ok False) })"

text \<open>The first entry of an operation: the entries before it, the entry, the entries after it.\<close>

fun splitOp :: "string \<Rightarrow> createIntent list \<Rightarrow> (createIntent list \<times> createIntent \<times> createIntent list) option" where
  "splitOp op [] = None"
| "splitOp op (x # xs) =
     (if ci_operationID x = op then Some ([], x, xs)
      else (case splitOp op xs of None \<Rightarrow> None | Some (a, y, b) \<Rightarrow> Some (x # a, y, b)))"

definition confirmCreate :: "incusEnv \<Rightarrow> string \<Rightarrow> string \<Rightarrow> err option iprog" where
  "confirmCreate E operationID nativeUUID =
     (if \<not> uuidPattern nativeUUID
      then return (Some (newErr ''native_uuid_unverified: malformed native guest UUID''))
      else tryE (loadIntents E) (\<lambda>e. return (Some e)) (\<lambda>d.
        case splitOp operationID d of
          None \<Rightarrow> return (Some (newErr ''create_intent_missing: cannot confirm unrecorded launch''))
        | Some (a, x, b) \<Rightarrow>
            if ci_hostID x \<noteq> b_hostID E then return (Some (newErr ''create_intent_host_mismatch''))
            else if ci_state x = ''confirmed'' then
              (if ci_nativeUUID x = []
               then return (Some (newErr ''create_intent_uuid_unavailable: confirmed record lacks original UUID; manual reconciliation required''))
               else if ci_nativeUUID x \<noteq> nativeUUID
               then return (Some (newErr ''create_intent_native_uuid_conflict: native guest UUID differs from the originally confirmed instance''))
               else return None)
            else if ci_state x = ''submitted'' then
              saveIntents E (a @ x\<lparr>ci_state := ''confirmed'', ci_nativeUUID := nativeUUID\<rparr> # b)
            else return (Some (newErr ''create_intent_abandoned: cannot silently reinstate retired operation''))))"

definition abandonIntent :: "incusEnv \<Rightarrow> incusRequest \<Rightarrow> (err + createIntent) iprog" where
  "abandonIntent E req =
     tryE (loadIntents E) fail (\<lambda>d.
       case splitOp (n_operationID req) d of
         None \<Rightarrow> fail (newErr ''create_intent_missing: no matching submitted create operation'')
       | Some (a, x, b) \<Rightarrow>
           if ci_hostID x \<noteq> b_hostID E \<or> ci_project x \<noteq> n_project req \<or> ci_instance x \<noteq> n_instance req
             \<or> ci_workID x \<noteq> n_workID req
           then fail (newErr ''create_intent_identity_mismatch: full host/project/name/work/operation identity required'')
           else if ci_state x \<noteq> ''submitted'' \<or> ci_nativeUUID x \<noteq> []
           then fail (newErr ''create_intent_not_pending: confirmed or previously abandoned operations cannot be retired as uncertain'')
           else do {
             now \<leftarrow> inow E;
             (let x' = x\<lparr>ci_state := ''abandoned'', ci_abandonedAt := Some now\<rparr>
              in checkE (saveIntents E (a @ x' # b)) fail (ok x')) })"

fun checkBinding :: "string \<Rightarrow> summary \<Rightarrow> createIntent list \<Rightarrow> err option" where
  "checkBinding host x [] = None"
| "checkBinding host x (intent # is) =
     (let sameName = (ci_project intent = s_project x \<and> ci_instance intent = s_name x);
          sameOperation = (ci_operationID intent = s_operationID x)
      in if ci_hostID intent \<noteq> host
         then Some (newErr ''create_intent_host_mismatch: local journal belongs to a different Agent identity'')
         else if ci_state intent = ''abandoned'' then
           (if sameOperation
            then Some (newErr ''create_intent_abandoned_identity_conflict: retired native operation reappeared'')
            else checkBinding host x is)
         else if \<not> sameName \<and> \<not> sameOperation then checkBinding host x is
         else if \<not> sameName
         then Some (newErr ''create_intent_identity_mismatch: native operation tag is bound to a different project/name'')
         else if ci_state intent = ''confirmed'' \<and> ci_nativeUUID intent = []
         then Some (newErr ''create_intent_uuid_unavailable: confirmed record lacks original UUID'')
         else if ci_state intent = ''confirmed'' \<and> ci_nativeUUID intent \<noteq> s_uuid x
         then Some (newErr ''create_intent_native_uuid_conflict: guest was replaced after original confirmation'')
         else if \<not> sameOperation \<or> ci_workID intent \<noteq> s_workID x
         then Some (newErr ''create_intent_identity_mismatch: native work/operation tags differ from the protected project/name binding'')
         else if ci_state intent = ''submitted''
         then Some (newErr ''create_intent_unconfirmed: finish create reconciliation before mutation'')
         else checkBinding host x is)"

definition checkConfirmedIdentity :: "incusEnv \<Rightarrow> summary \<Rightarrow> err option iprog" where
  "checkConfirmedIdentity E x =
     tryE (loadIntents E) (\<lambda>e. return (Some e)) (\<lambda>d. return (checkBinding (b_hostID E) x d))"

fun retireScan :: "string \<Rightarrow> string \<Rightarrow> string \<Rightarrow> string \<Rightarrow> createIntent list \<Rightarrow> (createIntent list \<times> bool) option" where
  "retireScan project name operationID nativeUUID [] = Some ([], False)"
| "retireScan project name operationID nativeUUID (x # xs) =
     (if ci_project x \<noteq> project \<or> ci_instance x \<noteq> name \<or> ci_operationID x \<noteq> operationID
      then map_option (\<lambda>(kept, removed). (x # kept, removed)) (retireScan project name operationID nativeUUID xs)
      else if ci_state x \<noteq> ''confirmed'' \<or> ci_nativeUUID x \<noteq> nativeUUID then None
      else map_option (\<lambda>(kept, _). (kept, True)) (retireScan project name operationID nativeUUID xs))"

definition retireDeleted :: "incusEnv \<Rightarrow> string \<Rightarrow> string \<Rightarrow> string \<Rightarrow> string \<Rightarrow> err option iprog" where
  "retireDeleted E project name operationID nativeUUID =
     tryE (loadIntents E) (\<lambda>e. return (Some e)) (\<lambda>d.
       case retireScan project name operationID nativeUUID d of
         None \<Rightarrow> return (Some (newErr ''create_intent_delete_identity_conflict: confirmed journal identity disagrees with native deleted guest''))
       | Some (kept, removed) \<Rightarrow> if removed then saveIntents E kept else return None)"

section \<open>Selecting a guest\<close>

definition selectInstance :: "incusEnv \<Rightarrow> incusRequest \<Rightarrow> (err + summary) iprog" where
  "selectInstance E req =
     (if \<not> validName (n_project req) \<or> \<not> validName (n_instance req) \<or> \<not> uuidPattern (n_uuid req)
      then fail (newErr ''project, instance and verified native UUID required'')
      else tryE (inspect E (n_project req) (n_instance req)) fail (\<lambda>found.
        case found of
          None \<Rightarrow> fail (newErr ''instance_missing: rediscover native Incus state before retry'')
        | Some guest \<Rightarrow>
            if \<not> s_managed guest \<or> \<not> uuidPattern (s_uuid guest) \<or> s_uuid guest \<noteq> n_uuid req
            then fail (newErr ''instance_identity_mismatch: host/provider/UUID does not match this Agent-managed guest'')
            else checkE (checkConfirmedIdentity E guest) fail (ok guest)))"

end
