(* ===== verification/IncusNative.thy ===== *)
theory IncusNative
  imports IncusIntents
begin

text \<open>
  Nonblocking native snapshot and restore operations (\<open>managedincus/operations.go\<close>): the journal of
  submissions, the native socket, submission, status reconciliation, the approved closing of an
  operation whose outcome stays unknown, and the watcher.
\<close>

section \<open>The journal\<close>

definition maxNativeOperationRecords :: nat where "maxNativeOperationRecords = 256"
definition nativeOperationRetention :: int where "nativeOperationRetention = 30 * 24 * 3600 * 1000000000"

definition nativeOpJSON :: "nativeOperation \<Rightarrow> string" where
  "nativeOpJSON v = ''{'' @ jsonString ''host_id'' @ '':'' @ jsonString (no_hostID v)
     @ jsonField ''work_id'' (jsonString (no_workID v))
     @ jsonOmitEmpty ''actor_id'' (no_actorID v)
     @ jsonField ''id'' (jsonString (no_id v))
     @ jsonField ''project'' (jsonString (no_project v))
     @ jsonField ''instance'' (jsonString (no_instance v))
     @ jsonField ''uuid'' (jsonString (no_uuid v))
     @ jsonField ''action'' (jsonString (no_action v))
     @ jsonField ''snapshot'' (jsonString (no_snapshot v))
     @ jsonOmitEmpty ''native_id'' (no_nativeID v)
     @ jsonField ''state'' (jsonString (no_state v))
     @ jsonOmitEmpty ''native_terminal'' (no_nativeTerminal v)
     @ jsonOmitEmpty ''diagnostic'' (no_diagnostic v)
     @ jsonField ''submitted_at'' (jsonString (rfc3339Nano (no_submittedAt v)))
     @ jsonField ''updated_at'' (jsonString (rfc3339Nano (no_updatedAt v)))
     @ ''}''"

definition decodedNativeOp :: "nativeOperation \<Rightarrow> nativeOperation" where
  "decodedNativeOp v = v\<lparr>no_hostID := cleanText (no_hostID v), no_workID := cleanText (no_workID v),
     no_actorID := cleanText (no_actorID v), no_id := cleanText (no_id v),
     no_project := cleanText (no_project v), no_instance := cleanText (no_instance v),
     no_uuid := cleanText (no_uuid v), no_action := cleanText (no_action v),
     no_snapshot := cleanText (no_snapshot v), no_nativeID := cleanText (no_nativeID v),
     no_state := cleanText (no_state v), no_nativeTerminal := cleanText (no_nativeTerminal v),
     no_diagnostic := cleanText (no_diagnostic v)\<rparr>"

definition nativeStates :: "string list" where
  "nativeStates = [''submitted'', ''running'', ''native_succeeded'', ''native_failed'',
     ''outcome_uncertain'', ''closed_unverified'']"

definition checkNativeOp :: "string \<Rightarrow> string set \<Rightarrow> nativeOperation \<Rightarrow> err option" where
  "checkNativeOp host known v =
     (if no_hostID v \<noteq> host
        \<or> length (no_actorID v) > 160 \<or> list_ex (\<lambda>(r, _). r < 32 \<or> r = 127) (runes (no_actorID v))
        \<or> \<not> validName (no_workID v) \<or> \<not> validName (no_id v) \<or> \<not> validName (no_project v)
        \<or> \<not> validName (no_instance v) \<or> \<not> uuidPattern (no_uuid v) \<or> \<not> validName (no_snapshot v)
        \<or> (no_action v \<noteq> ''snapshot'' \<and> no_action v \<noteq> ''restore'') \<or> no_id v \<in> known
        \<or> no_submittedAt v = zeroTime \<or> no_updatedAt v = zeroTime
        \<or> (no_nativeID v \<noteq> [] \<and> \<not> uuidPattern (no_nativeID v))
      then Some (newErr ''invalid native Incus operation record identity'')
      else if no_state v \<notin> set nativeStates then Some (newErr ''invalid native Incus operation state'')
      else if no_state v = ''running'' \<and> no_nativeID v = []
      then Some (newErr ''running Incus record lacks native operation ID'')
      else if no_nativeTerminal v \<noteq> [] \<and> no_nativeTerminal v \<noteq> ''success'' \<and> no_nativeTerminal v \<noteq> ''failure''
      then Some (newErr ''invalid native terminal evidence'')
      else None)"

fun checkNativeOps :: "string \<Rightarrow> string set \<Rightarrow> nativeOperation list \<Rightarrow> err option" where
  "checkNativeOps host known [] = None"
| "checkNativeOps host known (v # vs) =
     (case checkNativeOp host known v of
        Some e \<Rightarrow> Some e
      | None \<Rightarrow> checkNativeOps host (insert (no_id v) known) vs)"

definition loadNativeOperations :: "incusEnv \<Rightarrow> (err + nativeOperation list) iprog" where
  "loadNativeOperations E =
     tryE (readJournal E i_native ''unsafe native Incus operation journal''
             ''native Incus operation journal exceeds size limit'') fail (\<lambda>f.
       case f of
         None \<Rightarrow> ok []
       | Some f \<Rightarrow> (case jn_body f of
           None \<Rightarrow> fail (newErr ''corrupt/unsupported native Incus operation journal'')
         | Some (version, vs) \<Rightarrow>
             if version \<noteq> 1 then fail (newErr ''corrupt/unsupported native Incus operation journal'')
             else if length vs > maxNativeOperationRecords
             then fail (newErr ''native Incus operation journal exceeds record limit'')
             else case checkNativeOps (b_hostID E) {} vs of Some e \<Rightarrow> fail e | None \<Rightarrow> ok vs))"

definition nativeTerminal :: "string \<Rightarrow> bool" where
  "nativeTerminal st = (st = ''native_succeeded'' \<or> st = ''native_failed'' \<or> st = ''closed_unverified'')"

definition saveNativeOperations :: "incusEnv \<Rightarrow> nativeOperation list \<Rightarrow> err option iprog" where
  "saveNativeOperations E vs =
     (if length vs > maxNativeOperationRecords
      then return (Some (newErr ''native Incus operation journal full; retain unresolved operations and reconcile old results before submitting more''))
      else let len = int (length (jsonJournal ''operations'' 1 (map nativeOpJSON vs)))
      in if len > journalLimit then return (Some (newErr ''native Incus operation journal exceeds size limit''))
         else writeJournal E (\<lambda>w. w\<lparr>i_native := Some (newJournal E len 1 (map decodedNativeOp vs))\<rparr>))"

definition pruneNativeOperations :: "int \<Rightarrow> nativeOperation list \<Rightarrow> nativeOperation list" where
  "pruneNativeOperations now vs =
     filter (\<lambda>v. \<not> (nativeTerminal (no_state v) \<and> no_updatedAt v < now - nativeOperationRetention)) vs"

definition nativeOperationMatches :: "nativeOperation \<Rightarrow> incusRequest \<Rightarrow> string \<Rightarrow> bool" where
  "nativeOperationMatches x req host = (no_hostID x = host \<and> no_project x = n_project req
     \<and> no_instance x = n_instance req \<and> no_uuid x = n_uuid req \<and> no_action x = n_operation req
     \<and> no_snapshot x = n_snapshot req \<and> (no_actorID x = [] \<or> no_actorID x = n_actorID req))"

definition inFlightFor :: "incusRequest \<Rightarrow> nativeOperation \<Rightarrow> bool" where
  "inFlightFor req v = (no_project v = n_project req \<and> no_instance v = n_instance req
     \<and> no_uuid v = n_uuid req \<and> \<not> nativeTerminal (no_state v))"

definition nativeConflict :: "incusEnv \<Rightarrow> incusRequest \<Rightarrow> err option iprog" where
  "nativeConflict E req =
     tryE (loadNativeOperations E) (\<lambda>e. return (Some e)) (\<lambda>vs.
       return (case find (inFlightFor req) vs of
           None \<Rightarrow> None
         | Some v \<Rightarrow> Some (newErr (''native_operation_in_flight: '' @ no_id v @ '' ('' @ no_state v
             @ ''); query operation_status and reconcile before another guest mutation''))))"

section \<open>The native socket\<close>

record nativeAPIResponse =
  ar_status :: int
  ar_etag :: string
  ar_body :: string

definition noResponse :: nativeAPIResponse where
  "noResponse = \<lparr>ar_status = 0, ar_etag = [], ar_body = []\<rparr>"

definition trustedSocket :: "lstatInfo \<Rightarrow> bool" where
  "trustedSocket st = (ls_socket st \<and> ls_uid st = 0 \<and> and (ls_perm st) 2 = 0)"

fun socketLoop :: "incusEnv \<Rightarrow> string list \<Rightarrow> string iprog" where
  "socketLoop E [] = return []"
| "socketLoop E (path # ps) = do {
     st \<leftarrow> itick (\<lambda>t. x_lstat E t path);
     case st of
       None \<Rightarrow> socketLoop E ps
     | Some st \<Rightarrow> if trustedSocket st then return path else socketLoop E ps }"

definition nativeRequest :: "incusEnv \<Rightarrow> string \<Rightarrow> string \<Rightarrow> string option \<Rightarrow> string \<Rightarrow>
    (nativeAPIResponse \<times> err option) iprog" where
  "nativeRequest E method route body etag = do {
     socket \<leftarrow> socketLoop E [''/var/lib/incus/unix.socket'', ''/run/incus/unix.socket''];
     if socket = [] then return (noResponse, Some (newErr ''incus_socket_unavailable: trusted local Incus UNIX socket not found''))
     else if \<not> hasPrefix route ''/1.0/'' \<or> contains route ''#''
     then return (noResponse, Some (newErr ''invalid native Incus API route''))
     else checkE (icall E) (\<lambda>e. return (noResponse, Some e)) (do {
       native (Api method route);
       ans \<leftarrow> itick (\<lambda>t. x_api E t method route body etag);
       case ans of
         NoAnswer e \<Rightarrow> return (noResponse, Some (wrapErr ''native Incus API acknowledgement uncertain'' e))
       | Answer status tag content \<Rightarrow> do {
           r \<leftarrow> icall E;
           if r \<noteq> None \<or> length content > maxOutput
           then return (noResponse, Some (newErr ''native Incus API response truncated or unreadable''))
           else (let out = \<lparr>ar_status = status, ar_etag = tag, ar_body = content\<rparr>
             in return (out, if status \<ge> 400
                  then Some (newErr (''incus_api_http_'' @ itoa status @ '': native request rejected'')) else None)) } }) }"

definition nativeRoute :: "incusRequest \<Rightarrow> string" where
  "nativeRoute req = ''/1.0/instances/'' @ pathEscape (n_instance req) @ ''?project='' @ queryEscape (n_project req)"

definition acceptedNativeID :: "incusEnv \<Rightarrow> nativeAPIResponse \<Rightarrow> err + string" where
  "acceptedNativeID E resp =
     (if ar_status resp \<noteq> 202 then Inl (newErr ''native Incus mutation did not return HTTP 202'')
      else case d_ack E (ar_body resp) of
        None \<Rightarrow> Inl (newErr ''native Incus asynchronous acknowledgement malformed'')
      | Some outer \<Rightarrow>
          if aa_type outer \<noteq> ''async'' \<or> \<not> uuidPattern (aa_id outer)
             \<or> aa_operation outer \<noteq> ''/1.0/operations/'' @ aa_id outer
          then Inl (newErr ''native Incus asynchronous acknowledgement malformed'')
          else Inr (aa_id outer))"

definition restoreKeys :: "string list" where
  "restoreKeys = [''config'', ''devices'', ''profiles'', ''architecture'', ''ephemeral'', ''stateful'', ''description'']"

text \<open>\<open>json.Marshal\<close> of the property map: keys in order, the raw values compacted.\<close>

definition restorePayload :: "incusEnv \<Rightarrow> (string \<times> string) list \<Rightarrow> string \<Rightarrow> string" where
  "restorePayload E props snap =
     (let field = (\<lambda>k. jsonString k @ '':'' @
            (if k = ''restore'' then jsonString snap else d_compact E (valueOf props k)))
      in ''{'' @ commaJoin (map field [''architecture'', ''config'', ''description'', ''devices'',
           ''ephemeral'', ''profiles'', ''restore'', ''stateful'']) @ ''}'')"

definition prepareNativeRestore :: "incusEnv \<Rightarrow> incusRequest \<Rightarrow> (err + string \<times> string) iprog" where
  "prepareNativeRestore E req = do {
     (current, err) \<leftarrow> nativeRequest E ''GET'' (nativeRoute req) None [];
     case err of
       Some e \<Rightarrow> fail (wrapErr ''native_restore_preflight_unavailable'' e)
     | None \<Rightarrow>
         if ar_status current \<noteq> 200 \<or> ar_etag current = []
         then fail (newErr ''native_restore_etag_unavailable: refuse blind PUT'')
         else case d_envelope E (ar_body current) of
           None \<Rightarrow> fail (newErr ''native_restore_preflight_invalid: metadata missing'')
         | Some meta \<Rightarrow>
             if meta = [] then fail (newErr ''native_restore_preflight_invalid: metadata missing'')
             else case d_props E meta of
               None \<Rightarrow> fail (newErr ''native_restore_preflight_invalid: metadata invalid'')
             | Some props \<Rightarrow>
                 (case d_config E meta of
                    None \<Rightarrow> fail (newErr ''native_restore_identity_mismatch: guest UUID/host changed before PUT'')
                  | Some config \<Rightarrow>
                      if valueOf config ''volatile.uuid'' \<noteq> n_uuid req \<or> valueOf config ''user.asa.host'' \<noteq> b_hostID E
                      then fail (newErr ''native_restore_identity_mismatch: guest UUID/host changed before PUT'')
                      else if list_ex (\<lambda>k. map_of props k = None) restoreKeys
                      then fail (newErr ''native_restore_configuration_unverified: cannot preserve instance PUT properties'')
                      else ok (restorePayload E props (n_snapshot req), ar_etag current)) }"

section \<open>Submission\<close>

definition rejectedStatus :: "int \<Rightarrow> bool" where
  "rejectedStatus st = (st \<in> {400, 401, 403, 404, 409, 412})"

text \<open>What the answer to the mutation makes of the journal entry.\<close>

definition settleSubmission :: "incusEnv \<Rightarrow> nativeAPIResponse \<Rightarrow> err option \<Rightarrow> nativeOperation \<Rightarrow> nativeOperation" where
  "settleSubmission E answer err entry =
     (case err of
        Some e \<Rightarrow>
          if rejectedStatus (ar_status answer)
          then entry\<lparr>no_state := ''native_failed'',
                 no_diagnostic := ''Incus rejected native submission (HTTP '' @ itoa (ar_status answer)
                   @ ''); no async operation accepted. Correct the preflight before a NEW operation_id.''\<rparr>
          else entry\<lparr>no_state := ''outcome_uncertain'',
                 no_diagnostic := ''Native submission/acknowledgement unavailable; inspect operation_status and native Incus operations before any retry''\<rparr>
      | None \<Rightarrow> (case acceptedNativeID E answer of
          Inl _ \<Rightarrow> entry\<lparr>no_state := ''outcome_uncertain'',
                   no_diagnostic := ''Native submission acknowledgement malformed; reconciliation required''\<rparr>
        | Inr nid \<Rightarrow> entry\<lparr>no_nativeID := nid, no_state := ''running''\<rparr>))"

definition sendMutation :: "incusEnv \<Rightarrow> incusRequest \<Rightarrow> string \<Rightarrow> string \<Rightarrow> (nativeAPIResponse \<times> err option) iprog" where
  "sendMutation E req payload etag =
     (if n_operation req = ''snapshot''
      then nativeRequest E ''POST''
             (''/1.0/instances/'' @ pathEscape (n_instance req) @ ''/snapshots?project='' @ queryEscape (n_project req))
             (Some (''{'' @ jsonString ''name'' @ '':'' @ jsonString (n_snapshot req) @ jsonField ''stateful'' ''false'' @ ''}'')) []
      else nativeRequest E ''PUT'' (nativeRoute req) (Some payload) etag)"

definition persistAndSend :: "incusEnv \<Rightarrow> incusRequest \<Rightarrow> summary \<Rightarrow> nativeOperation list \<Rightarrow> string \<Rightarrow> string \<Rightarrow>
    incusResult \<Rightarrow> (incusResult \<times> err option) iprog" where
  "persistAndSend E req latest journal payload etag result = do {
     t1 \<leftarrow> inow E;
     t2 \<leftarrow> inow E;
     t3 \<leftarrow> inow E;
     (let entry = \<lparr>no_hostID = b_hostID E, no_workID = s_workID latest, no_actorID = n_actorID req,
            no_id = n_operationID req, no_project = n_project req, no_instance = n_instance req,
            no_uuid = n_uuid req, no_action = n_operation req, no_snapshot = n_snapshot req,
            no_nativeID = [], no_state = ''submitted'', no_nativeTerminal = [], no_diagnostic = [],
            no_submittedAt = t1, no_updatedAt = t2\<rparr>;
          kept = pruneNativeOperations t3 journal
      in checkE (saveNativeOperations E (kept @ [entry])) (\<lambda>e. return (result, Some e)) (do {
           (answer, err) \<leftarrow> sendMutation E req payload etag;
           now \<leftarrow> inow E;
           (let entry' = (settleSubmission E answer err entry)\<lparr>no_updatedAt := now\<rparr>
            in checkE (saveNativeOperations E (kept @ [entry']))
                 (\<lambda>e. return (result\<lparr>rs_operation := Some entry'\<rparr>,
                    Some (wrapErr ''native_operation_outcome_uncertain: native submission may have started but acknowledgement could not be durably recorded'' e)))
                 (return (result\<lparr>rs_operation := Some entry', rs_status := no_state entry',
                    rs_diagnostic := (if err \<noteq> None \<or> no_state entry' = ''outcome_uncertain''
                                      then no_diagnostic entry' else [])\<rparr>, None))) })) }"

definition submitNativeLocked :: "incusEnv \<Rightarrow> incusRequest \<Rightarrow> summary \<Rightarrow> (incusResult \<times> err option) iprog" where
  "submitNativeLocked E req x =
     (let result = emptyResult\<lparr>rs_status := ''submitted'', rs_available := True, rs_hostID := b_hostID E,
            rs_instance := Some x\<rparr>;
          stop = (\<lambda>e. return (result, Some e))
      in if \<not> validName (n_operationID req)
         then stop (newErr ''operation_id_required: supply stable operation_id for nonblocking snapshot/restore'')
         else tryE (loadNativeOperations E) stop (\<lambda>journal.
           case find (\<lambda>v. no_id v = n_operationID req) journal of
             Some prior \<Rightarrow>
               if \<not> nativeOperationMatches prior req (b_hostID E)
               then stop (newErr ''native_operation_id_collision: operation_id already belongs to another native identity'')
               else return (result\<lparr>rs_operation := Some prior, rs_status := no_state prior\<rparr>, None)
           | None \<Rightarrow>
               tryE (snapshots E (n_project req) (n_instance req)) stop (\<lambda>names.
                 if n_operation req = ''snapshot'' \<and> hasSnapshot names (n_snapshot req)
                 then stop (newErr ''snapshot_collision: native snapshot already exists'')
                 else if n_operation req = ''restore'' \<and> \<not> hasSnapshot names (n_snapshot req)
                 then stop (newErr ''snapshot_missing: restore target absent'')
                 else checkE (nativeConflict E req) stop
                   (let changed = newErr ''instance_identity_changed_before_mutation: refusing native submission''
                    in tryE (selectInstance E req) (\<lambda>_. stop changed) (\<lambda>latest.
                      if s_uuid latest \<noteq> s_uuid x then stop changed
                      else if n_operation req = ''restore'' \<and> s_status latest \<noteq> ''Stopped''
                      then stop (newErr ''restore_requires_stopped_guest: stop and inspect VM before restore'')
                      else if n_operation req = ''restore''
                      then tryE (prepareNativeRestore E req) stop
                             (\<lambda>(payload, etag). persistAndSend E req latest journal payload etag result)
                      else persistAndSend E req latest journal [] [] result)))))"

section \<open>Status\<close>

definition operationMetadata :: "incusEnv \<Rightarrow> string \<Rightarrow> opMeta option" where
  "operationMetadata E data = (case d_opMeta E data of
       None \<Rightarrow> None
     | Some m \<Rightarrow> if om_type m \<noteq> ''sync'' \<or> \<not> uuidPattern (om_id m) then None else Some m)"

definition nativeResourceMatches :: "incusEnv \<Rightarrow> string list \<Rightarrow> string \<Rightarrow> string \<Rightarrow> bool" where
  "nativeResourceMatches E paths targetPath project =
     (case paths of
        [raw] \<Rightarrow> (case d_url E raw of
            None \<Rightarrow> False
          | Some ref \<Rightarrow>
              if ur_abs ref \<or> ur_host ref \<noteq> [] \<or> ur_fragment ref \<noteq> [] \<or> ur_path ref \<noteq> targetPath then False
              else (case ur_query ref of
                  None \<Rightarrow> False
                | Some query \<Rightarrow>
                    if filter (\<lambda>(k, _). k \<noteq> ''project'') query \<noteq> [] then False
                    else (case map_of query ''project'' of
                        None \<Rightarrow> project = ''default''
                      | Some projects \<Rightarrow> projects = [project])))
      | _ \<Rightarrow> False)"

definition nativeOperationCorrelates :: "incusEnv \<Rightarrow> int \<Rightarrow> opCandidate \<Rightarrow> nativeOperation \<Rightarrow> bool" where
  "nativeOperationCorrelates E now op v =
     (if \<not> uuidPattern (oc_id op) \<or> (oc_project op \<noteq> [] \<and> oc_project op \<noteq> no_project v)
        \<or> oc_createdAt op = zeroTime \<or> oc_createdAt op < no_submittedAt v
        \<or> oc_createdAt op > now + 10 * 1000000000
      then False
      else if \<not> (no_action v = ''snapshot'' \<and> oc_description op = ''Snapshotting instance''
               \<or> no_action v = ''restore'' \<and> oc_description op = ''Restoring snapshot'')
      then False
      else (let instancePath = ''/1.0/instances/'' @ pathEscape (no_instance v);
                snapshotPath = instancePath @ ''/snapshots/'' @ pathEscape (no_snapshot v);
                resources = (\<lambda>k. case map_of (oc_resources op) k of None \<Rightarrow> [] | Some r \<Rightarrow> r)
            in nativeResourceMatches E (resources ''instances'') instancePath (no_project v)
               \<and> nativeResourceMatches E (resources ''instances_snapshots'') snapshotPath (no_project v)))"

definition observableCode :: "int \<Rightarrow> bool" where
  "observableCode c = ((100 \<le> c \<and> c < 200) \<or> c = 200 \<or> c = 400 \<or> c = 401)"

fun candidates :: "incusEnv \<Rightarrow> nativeOperation \<Rightarrow> string list \<Rightarrow> opCandidate list iprog" where
  "candidates E v [] = return []"
| "candidates E v (item # items) = do {
     now \<leftarrow> inow E;
     rest \<leftarrow> candidates E v items;
     return (case d_candidate E item of
         None \<Rightarrow> rest
       | Some op \<Rightarrow> if nativeOperationCorrelates E now op v \<and> observableCode (oc_code op) then op # rest else rest) }"

definition adopt :: "opCandidate \<Rightarrow> nativeOperation \<Rightarrow> nativeOperation" where
  "adopt op v = (let v' = v\<lparr>no_nativeID := oc_id op, no_diagnostic := []\<rparr> in
     if oc_code op = 200 then v'\<lparr>no_nativeTerminal := ''success'', no_state := ''native_succeeded''\<rparr>
     else if oc_code op = 400 \<or> oc_code op = 401
     then v'\<lparr>no_nativeTerminal := ''failure'', no_state := ''native_failed''\<rparr>
     else v'\<lparr>no_state := ''running''\<rparr>)"

definition reconcileLostAck :: "incusEnv \<Rightarrow> nativeOperation \<Rightarrow> nativeOperation iprog" where
  "reconcileLostAck E v = do {
     (response, err) \<leftarrow> nativeRequest E ''GET'' (''/1.0/operations?recursion=1&project='' @ queryEscape (no_project v)) None [];
     if err \<noteq> None \<or> ar_status response \<noteq> 200 then return v
     else case d_opGroups E (ar_body response) of
       None \<Rightarrow> return v
     | Some (ty, groups) \<Rightarrow> (case groups of
         None \<Rightarrow> return v
       | Some groups \<Rightarrow>
           if ty \<noteq> ''sync'' then return v
           else do {
             found \<leftarrow> candidates E v (concat (map snd groups));
             return (case found of [op] \<Rightarrow> adopt op v | _ \<Rightarrow> v) }) }"

text \<open>The answer to a poll of the native operation itself.\<close>

definition settlePoll :: "incusEnv \<Rightarrow> nativeAPIResponse \<Rightarrow> err option \<Rightarrow> nativeOperation \<Rightarrow> nativeOperation" where
  "settlePoll E response callErr v =
     (case callErr of
        None \<Rightarrow> (case operationMetadata E (ar_body response) of
            None \<Rightarrow> v\<lparr>no_state := ''outcome_uncertain'', no_diagnostic := ''Native operation status identity could not be verified''\<rparr>
          | Some m \<Rightarrow>
              if om_id m \<noteq> no_nativeID v \<or> (om_project m \<noteq> [] \<and> om_project m \<noteq> no_project v)
              then v\<lparr>no_state := ''outcome_uncertain'', no_diagnostic := ''Native operation status identity could not be verified''\<rparr>
              else if om_code m = 200
              then v\<lparr>no_nativeTerminal := ''success'', no_state := ''native_succeeded'',
                     no_diagnostic := ''Native Incus operation succeeded; verify guest contents and application health separately''\<rparr>
              else if om_code m = 400 \<or> om_code m = 401
              then v\<lparr>no_nativeTerminal := ''failure'', no_state := ''native_failed'',
                     no_diagnostic := ''Native Incus operation failed or was canceled; inspect native diagnostics before a new request''\<rparr>
              else if 100 \<le> om_code m \<and> om_code m < 200 \<and> om_code m \<noteq> 112
              then v\<lparr>no_state := ''running'', no_diagnostic := []\<rparr>
              else v\<lparr>no_state := ''outcome_uncertain'', no_diagnostic := ''Unknown native Incus operation status code''\<rparr>)
      | Some e \<Rightarrow>
          if contains (emsg e) ''incus_api_http_404''
          then v\<lparr>no_state := ''outcome_uncertain'', no_diagnostic := ''Native operation expired before a terminal outcome was recorded; snapshot existence alone does not establish success''\<rparr>
          else v\<lparr>no_diagnostic := ''Native status temporarily unavailable; retry operation_status with the same identity''\<rparr>)"

definition observeNative :: "incusEnv \<Rightarrow> nativeOperation \<Rightarrow> nativeOperation iprog" where
  "observeNative E original = do {
     v \<leftarrow> (if no_nativeID original = [] then reconcileLostAck E original else return original);
     if no_nativeTerminal v = ''success'' then return (v\<lparr>no_state := ''native_succeeded''\<rparr>)
     else if no_nativeTerminal v = ''failure'' then return (v\<lparr>no_state := ''native_failed''\<rparr>)
     else if no_nativeID v \<noteq> [] then do {
       (response, callErr) \<leftarrow> nativeRequest E ''GET'' (''/1.0/operations/'' @ no_nativeID v @ ''?project='' @ queryEscape (no_project v)) None [];
       return (settlePoll E response callErr v) }
     else return (v\<lparr>no_state := ''outcome_uncertain'',
       no_diagnostic := ''Submission acknowledgement was lost and no uniquely matched running Incus operation was found; do not blindly retry''\<rparr>) }"

text \<open>A native success is believed only if the guest is still the one the operation was submitted for.\<close>

definition reverifyGuest :: "incusEnv \<Rightarrow> nativeOperation \<Rightarrow> nativeOperation iprog" where
  "reverifyGuest E v =
     (if no_state v \<noteq> ''native_succeeded'' then return v
      else let doubt = v\<lparr>no_state := ''outcome_uncertain'',
                 no_diagnostic := ''Native operation succeeded but guest identity could not be reverified''\<rparr>
      in tryE (inspect E (no_project v) (no_instance v)) (\<lambda>_. return doubt) (\<lambda>found.
        case found of
          None \<Rightarrow> return doubt
        | Some current \<Rightarrow>
            if s_uuid current \<noteq> no_uuid v \<or> \<not> s_managed current then return doubt
            else checkE (checkConfirmedIdentity E current) (\<lambda>_. return doubt)
              (if no_action v = ''snapshot'' then do {
                 names \<leftarrow> snapshots E (no_project v) (no_instance v);
                 return (case names of
                     Inr ns \<Rightarrow> if hasSnapshot ns (no_snapshot v) then v
                       else v\<lparr>no_state := ''outcome_uncertain'', no_diagnostic := ''Native snapshot completion verified but snapshot list/identity not verified''\<rparr>
                   | Inl _ \<Rightarrow> v\<lparr>no_state := ''outcome_uncertain'', no_diagnostic := ''Native snapshot completion verified but snapshot list/identity not verified''\<rparr>) }
               else return v)))"

fun splitNative :: "string \<Rightarrow> nativeOperation list \<Rightarrow>
    (nativeOperation list \<times> nativeOperation \<times> nativeOperation list) option" where
  "splitNative nid [] = None"
| "splitNative nid (v # vs) =
     (if no_id v = nid then Some ([], v, vs)
      else (case splitNative nid vs of None \<Rightarrow> None | Some (a, y, b) \<Rightarrow> Some (v # a, y, b)))"

definition nativeStatusLocked :: "incusEnv \<Rightarrow> incusRequest \<Rightarrow> (incusResult \<times> err option) iprog" where
  "nativeStatusLocked E req =
     (let base = emptyResult\<lparr>rs_status := ''operation_not_found'', rs_available := True, rs_hostID := b_hostID E\<rparr>;
          stop = (\<lambda>e. return (base, Some e))
      in if \<not> validName (n_operationID req) \<or> \<not> validName (n_project req) \<or> \<not> validName (n_instance req)
            \<or> \<not> uuidPattern (n_uuid req)
         then stop (newErr ''operation_status requires stable operation_id and project/instance/native UUID'')
         else tryE (loadNativeOperations E) stop (\<lambda>journal.
           case splitNative (n_operationID req) journal of
             None \<Rightarrow> stop (newErr ''native_operation_not_found: no journal record for this operation_id'')
           | Some (a, original, b) \<Rightarrow>
               if no_project original \<noteq> n_project req \<or> no_instance original \<noteq> n_instance req
                 \<or> no_uuid original \<noteq> n_uuid req \<or> no_hostID original \<noteq> b_hostID E
                 \<or> (no_actorID original \<noteq> [] \<and> no_actorID original \<noteq> n_actorID req)
               then stop (newErr ''native_operation_identity_mismatch'')
               else if nativeTerminal (no_state original)
               then return (base\<lparr>rs_operation := Some original, rs_status := no_state original\<rparr>, None)
               else do {
                 v0 \<leftarrow> observeNative E original;
                 v \<leftarrow> reverifyGuest E v0;
                 if no_nativeID v \<noteq> no_nativeID original \<or> no_state v \<noteq> no_state original
                    \<or> no_diagnostic v \<noteq> no_diagnostic original \<or> no_nativeTerminal v \<noteq> no_nativeTerminal original
                 then do {
                   now \<leftarrow> inow E;
                   (let v' = v\<lparr>no_updatedAt := now\<rparr>
                    in checkE (saveNativeOperations E (a @ v' # b))
                         (\<lambda>e. return (base\<lparr>rs_operation := Some v', rs_status := no_state original\<rparr>,
                            Some (wrapErr ''native_operation_outcome_uncertain: status persistence failed'' e)))
                         (return (base\<lparr>rs_operation := Some v', rs_status := no_state v', rs_diagnostic := no_diagnostic v'\<rparr>, None))) }
                 else return (base\<lparr>rs_operation := Some v, rs_status := no_state v, rs_diagnostic := no_diagnostic v\<rparr>, None) }))"

section \<open>Closing an uncertain operation\<close>

fun absenceScans :: "incusEnv \<Rightarrow> incusRequest \<Rightarrow> nat \<Rightarrow> err option iprog" where
  "absenceScans E req 0 = return None"
| "absenceScans E req (Suc n) =
     tryE (command E [''operation'', ''list'', ''--all-projects'', ''--format'', ''json''])
       (\<lambda>_. return (Some (newErr ''native_operation_absence_unverified: operation inventory unavailable'')))
     (\<lambda>raw. case d_rawList E raw of
         None \<Rightarrow> return (Some (newErr ''native_operation_absence_unverified: native inventory invalid''))
       | Some None \<Rightarrow> return (Some (newErr ''native_operation_absence_unverified: native inventory invalid''))
       | Some (Some entries) \<Rightarrow>
           if entries \<noteq> [] then return (Some (newErr ''native_operation_absence_unverified: active Incus operation present; do not retire''))
           else tryE (selectInstance E req)
                  (\<lambda>_. return (Some (newErr ''native_operation_identity_changed: cannot retire journal'')))
                (\<lambda>_. absenceScans E req n))"

definition resolveUncertainLocked :: "incusEnv \<Rightarrow> incusRequest \<Rightarrow> bool \<Rightarrow> (incusResult \<times> err option) iprog" where
  "resolveUncertainLocked E req approval =
     (let base = emptyResult\<lparr>rs_status := ''outcome_uncertain'', rs_available := True, rs_hostID := b_hostID E\<rparr>;
          stop = (\<lambda>e. return (base, Some e))
      in if \<not> approval then stop (newErr ''approval_required: manual uncertain operation resolution requires explicit Owner authorization and inspected guest state'')
         else if \<not> validName (n_operationID req) \<or> \<not> validName (n_project req) \<or> \<not> validName (n_instance req)
            \<or> \<not> uuidPattern (n_uuid req)
         then stop (newErr ''resolve_uncertain requires exact operation_id, project, instance and native UUID'')
         else do {
           (current, err) \<leftarrow> nativeStatusLocked E req;
           case err of
             Some e \<Rightarrow> stop e
           | None \<Rightarrow>
               if rs_status current \<noteq> ''outcome_uncertain''
               then return (current, Some (newErr ''native_operation_not_uncertain: terminal or running native operation cannot be retired''))
               else tryE (selectInstance E req) stop (\<lambda>_.
                 checkE (absenceScans E req 2) stop
                 (tryE (loadNativeOperations E) stop (\<lambda>journal.
                    case splitNative (n_operationID req) journal of
                      None \<Rightarrow> stop (newErr ''native_operation_not_found'')
                    | Some (a, v, b) \<Rightarrow>
                        if no_state v \<noteq> ''outcome_uncertain'' \<or> no_project v \<noteq> n_project req
                          \<or> no_instance v \<noteq> n_instance req \<or> no_uuid v \<noteq> n_uuid req
                          \<or> (no_actorID v \<noteq> [] \<and> no_actorID v \<noteq> n_actorID req)
                        then stop (newErr ''native_operation_identity_or_state_mismatch'')
                        else do {
                          now \<leftarrow> inow E;
                          (let v' = v\<lparr>no_state := ''closed_unverified'', no_updatedAt := now,
                                 no_diagnostic := ''Manually closed with current Owner approval after two verified empty native operation scans. Native outcome is NOT proven; inspect guest contents/application health. Never reuse this operation_id.''\<rparr>
                           in checkE (saveNativeOperations E (a @ v' # b)) stop
                                (return (base\<lparr>rs_status := no_state v', rs_operation := Some v', rs_diagnostic := no_diagnostic v'\<rparr>, None))) }))) })"

section \<open>Recovery and watching\<close>

definition recoverableNativeOperations :: "incusEnv \<Rightarrow> (err + nativeOperation list) iprog" where
  "recoverableNativeOperations E = do {
     w \<leftarrow> get;
     r \<leftarrow> icall E;
     case (if i_native w = None then Some (Err NotExist ''no such file or directory'') else map_option openErr r) of
       Some e \<Rightarrow> if isNotExist e then ok [] else fail e
     | None \<Rightarrow> do {
         (res, err) \<leftarrow> locked E (tryE (loadNativeOperations E) (\<lambda>e. return (emptyResult, Some e)) (\<lambda>d.
           return (emptyResult\<lparr>rs_operations := filter (\<lambda>op. \<not> nativeTerminal (no_state op)) d\<rparr>, None)));
         case err of Some e \<Rightarrow> fail e | None \<Rightarrow> ok (rs_operations res) } }"

text \<open>The watcher polls once a second until its context ends; \<open>turns\<close> is the number of polls that
  fit before that, plus one.\<close>

fun watchNativeOperation :: "incusEnv \<Rightarrow> incusRequest \<Rightarrow> nat \<Rightarrow> bool iprog" where
  "watchNativeOperation E req 0 = return False"
| "watchNativeOperation E req (Suc turns) = do {
     (res, err) \<leftarrow> locked E (nativeStatusLocked E req);
     if err = None \<and> rs_operation res \<noteq> None \<and> nativeTerminal (rs_status res) then return True
     else watchNativeOperation E req turns }"

end
