(* ===== verification/IncusRun.thy ===== *)
theory IncusRun
  imports IncusNative
begin

text \<open>
  The operations of the managed Incus backend: \<open>Backend.Run\<close> of \<open>managedincus/incus.go\<close>, one
  definition per case of its dispatch. Every case that reads or writes a journal or changes a
  guest runs under the backend's lock, so calls are a sequence.
\<close>

type_synonym incusReply = "incusResult \<times> err option"

section \<open>Listing journals\<close>

fun selectOps :: "incusRequest \<Rightarrow> nativeOperation list \<Rightarrow> nativeOperation list \<Rightarrow> nativeOperation list option" where
  "selectOps req acc [] = Some acc"
| "selectOps req acc (v # vs) =
     (if no_actorID v \<noteq> [] \<and> no_actorID v \<noteq> n_actorID req then selectOps req acc vs
      else if n_project req \<noteq> [] \<and> no_project v \<noteq> n_project req then selectOps req acc vs
      else if n_instance req \<noteq> [] \<and> no_instance v \<noteq> n_instance req then selectOps req acc vs
      else if length (acc @ [v]) > 64 then None
      else selectOps req (acc @ [v]) vs)"

definition operationList :: "incusEnv \<Rightarrow> incusRequest \<Rightarrow> incusReply iprog" where
  "operationList E req =
     tryE (loadNativeOperations E) (\<lambda>e. return (emptyResult, Some e)) (\<lambda>journal.
       let result = emptyResult\<lparr>rs_status := ''native_operations_observed'', rs_hostID := b_hostID E, rs_available := True\<rparr>
       in if n_project req \<noteq> [] \<and> \<not> validName (n_project req)
          then return (result, Some (newErr ''invalid native operation project filter''))
          else if n_instance req \<noteq> [] \<and> \<not> validName (n_instance req)
          then return (result, Some (newErr ''invalid native operation instance filter''))
          else case selectOps req [] journal of
            None \<Rightarrow> return (emptyResult, Some (newErr ''native_operation_list_bounded: more than 64 records; narrow project/instance filter''))
          | Some ops \<Rightarrow> return (result\<lparr>rs_operations := ops\<rparr>, None))"

definition pendingCreates :: "incusEnv \<Rightarrow> incusReply iprog" where
  "pendingCreates E =
     tryE (loadIntents E) (\<lambda>e. return (emptyResult, Some e)) (\<lambda>d.
       return (emptyResult\<lparr>rs_status := ''pending_creates_observed'', rs_hostID := b_hostID E,
                 rs_available := True, rs_pending := d\<rparr>, None))"

section \<open>Abandoning a create\<close>

text \<open>Every entry of the operation must be this pending identity, and there must be one.\<close>

fun abandonScan :: "string \<Rightarrow> incusRequest \<Rightarrow> bool \<Rightarrow> createIntent list \<Rightarrow> err option" where
  "abandonScan host req found [] =
     (if found then None else Some (newErr ''create_intent_missing: no matching pending native create''))"
| "abandonScan host req found (x # xs) =
     (if ci_operationID x \<noteq> n_operationID req then abandonScan host req found xs
      else if ci_hostID x \<noteq> host \<or> ci_project x \<noteq> n_project req \<or> ci_instance x \<noteq> n_instance req
        \<or> ci_workID x \<noteq> n_workID req
      then Some (newErr ''create_intent_identity_mismatch: cannot abandon another identity'')
      else if ci_state x \<noteq> ''submitted'' \<or> ci_nativeUUID x \<noteq> []
      then Some (newErr ''create_intent_not_pending: confirmed or abandoned intent cannot be retired'')
      else abandonScan host req True xs)"

definition occupies :: "incusRequest \<Rightarrow> summary \<Rightarrow> bool" where
  "occupies req guest = ((s_project guest = n_project req \<and> s_name guest = n_instance req)
     \<or> (s_managed guest \<and> s_operationID guest = n_operationID req))"

fun absenceChecks :: "incusEnv \<Rightarrow> incusRequest \<Rightarrow> nat \<Rightarrow> err option iprog" where
  "absenceChecks E req 0 = return None"
| "absenceChecks E req (Suc n) =
     tryE (command E [''operation'', ''list'', ''--all-projects'', ''--format'', ''json''])
       (\<lambda>_. return (Some (newErr ''create_abandon_outcome_uncertain: Incus outstanding operations could not be enumerated; intent retained'')))
     (\<lambda>operations. case d_rawList E operations of
         None \<Rightarrow> return (Some (newErr ''create_abandon_outcome_uncertain: native operation list invalid or incomplete; intent retained''))
       | Some None \<Rightarrow> return (Some (newErr ''create_abandon_outcome_uncertain: native operation list invalid or incomplete; intent retained''))
       | Some (Some entries) \<Rightarrow>
           if entries \<noteq> [] then return (Some (newErr ''create_abandon_outcome_uncertain: native background operations still exist; verify their completion before abandonment''))
           else tryE (listGuests E [])
                  (\<lambda>_. return (Some (newErr ''create_abandon_outcome_uncertain: all-project native guest discovery failed; intent retained'')))
                (\<lambda>all. if list_ex (occupies req) all
                   then return (Some (newErr ''create_abandon_identity_conflict: a native instance still occupies this creation identity; reconcile it instead''))
                   else absenceChecks E req n))"

definition abandonCreate :: "incusEnv \<Rightarrow> incusRequest \<Rightarrow> bool \<Rightarrow> incusResult \<Rightarrow> incusReply iprog" where
  "abandonCreate E req approval base =
     (let stop = (\<lambda>e. return (base, Some e))
      in if \<not> approval then stop (newErr ''approval_required: abandoning a durably reserved native create requires explicit current Owner authorization'')
         else if \<not> validName (n_project req) \<or> \<not> validName (n_instance req) \<or> \<not> validName (n_operationID req) \<or> \<not> validName (n_workID req)
         then stop (newErr ''abandon_create requires exact project, instance, operation_id and work_id'')
         else tryE (loadIntents E) stop (\<lambda>journal.
           case abandonScan (b_hostID E) req False journal of
             Some e \<Rightarrow> stop e
           | None \<Rightarrow> checkE (absenceChecks E req 2) stop
               (tryE (abandonIntent E req) stop (\<lambda>abandoned.
                 return (base\<lparr>rs_status := ''create_intent_abandoned'', rs_pending := [abandoned],
                   rs_diagnostic := ''Abandoned only after explicit approval and two successful Incus all-project instance/operation absence checks. Old operation_id stays retired; use a new stable ID for a subsequent launch. Does not cancel any native operation.''\<rparr>, None)))))"

section \<open>Creating a guest\<close>

definition createInputError :: "incusRequest \<Rightarrow> err option" where
  "createInputError req =
     (if \<not> validName (n_project req) \<or> \<not> validName (n_instance req) \<or> \<not> validName (n_workID req)
        \<or> \<not> validName (n_operationID req) \<or> \<not> imagePattern (n_image req)
      then Some (newErr ''create requires validated project, instance, image, work_id and stable operation_id'')
      else if n_type req \<noteq> ''container'' \<and> n_type req \<noteq> ''virtual-machine''
      then Some (newErr ''type must be container or virtual-machine'')
      else if n_cpu req < 1 \<or> n_memoryMiB req < 128 \<or> n_diskGiB req < 1 \<or> \<not> validName (n_storagePool req)
      then Some (newErr ''explicit positive cpu/memory_mib/disk_gib and a native storage_pool required'')
      else None)"

definition ownsOther :: "incusRequest \<Rightarrow> summary \<Rightarrow> bool" where
  "ownsOther req prior = (s_managed prior \<and> s_operationID prior = n_operationID req
     \<and> (s_project prior \<noteq> n_project req \<or> s_name prior \<noteq> n_instance req \<or> s_workID prior \<noteq> n_workID req
        \<or> s_type prior \<noteq> n_type req))"

definition sameGuest :: "incusRequest \<Rightarrow> summary \<Rightarrow> bool" where
  "sameGuest req x = (s_managed x \<and> s_operationID x = n_operationID req \<and> s_workID x = n_workID req \<and> s_type x = n_type req)"

definition reconcileExisting :: "incusEnv \<Rightarrow> incusRequest \<Rightarrow> incusResult \<Rightarrow> summary \<Rightarrow> incusReply iprog" where
  "reconcileExisting E req base x =
     (let stop = (\<lambda>e. return (base, Some e))
      in if s_storagePool x = [] \<or> s_diskLimit x = []
         then stop (newErr ''native_root_device_unverified: selected pool or root disk limit absent from current Incus instance state'')
         else if s_storagePool x \<noteq> n_storagePool req
         then stop (newErr ''instance_storage_pool_mismatch: native root pool no longer matches the creation intent'')
         else if \<not> uuidPattern (s_uuid x)
         then stop (newErr ''native_uuid_unverified: Incus guest UUID missing or malformed'')
         else tryE (reserveCreate E req) stop (\<lambda>_.
           checkE (confirmCreate E (n_operationID req) (s_uuid x)) stop
           (return (base\<lparr>rs_instance := Some x, rs_status := ''reconciled_existing''\<rparr>, None))))"

definition kvmMissing :: "incusEnv \<Rightarrow> incusRequest \<Rightarrow> err option iprog" where
  "kvmMissing E req =
     (if n_type req = ''virtual-machine''
      then checkE (icall E) (\<lambda>_. return (Some (newErr ''kvm_unavailable: VM requires KVM; choose container only if its isolation is suitable''))) (return None)
      else return None)"

definition launchGuestArgs :: "string \<Rightarrow> incusRequest \<Rightarrow> string list" where
  "launchGuestArgs host req =
     [''launch'', n_image req, n_instance req, ''--project'', n_project req, ''--storage'', n_storagePool req,
      ''-c'', ''user.asa.host='' @ host, ''-c'', ''user.asa.work='' @ n_workID req,
      ''-c'', ''user.asa.operation='' @ n_operationID req, ''-c'', ''limits.cpu='' @ itoa (n_cpu req),
      ''-c'', ''limits.memory='' @ itoa (n_memoryMiB req) @ ''MiB'',
      ''-d'', ''root,size='' @ itoa (n_diskGiB req) @ ''GiB'']
     @ (if n_type req = ''virtual-machine'' then [''--vm''] else [])"

definition reconcileCreated :: "incusEnv \<Rightarrow> incusRequest \<Rightarrow> incusResult \<Rightarrow> bool \<Rightarrow> incusReply iprog" where
  "reconcileCreated E req base launchFailed =
     (let stop = (\<lambda>e. return (base, Some e))
      in tryE (inspect E (n_project req) (n_instance req))
           (\<lambda>_. stop (newErr ''create_outcome_uncertain: native state could not be reconciled; inspect before retry''))
         (\<lambda>found. case found of
           Some x \<Rightarrow>
             if sameGuest req x then
               (if s_storagePool x = [] \<or> s_diskLimit x = []
                then stop (newErr ''native_root_device_unverified: selected pool or root disk limit missing after launch'')
                else if s_storagePool x \<noteq> n_storagePool req
                then stop (newErr ''create_outcome_uncertain: native root storage pool differs from requested pool'')
                else if \<not> uuidPattern (s_uuid x)
                then stop (newErr ''native_uuid_unverified: created guest UUID missing or malformed'')
                else checkE (confirmCreate E (n_operationID req) (s_uuid x))
                  (\<lambda>_. stop (newErr ''create_outcome_uncertain: native guest exists but local intent confirmation failed; do not retry''))
                  (return (base\<lparr>rs_instance := Some x,
                     rs_status := (if launchFailed then ''created_but_launch_reported_error'' else ''created'')\<rparr>, None)))
             else stop (newErr ''create_collision_after_launch: unexpected guest identity'')
         | None \<Rightarrow>
             if launchFailed
             then stop (newErr ''create_outcome_uncertain: launch reported an error and no native guest is yet visible; submission remains durably reserved for reconciliation'')
             else stop (newErr ''create_unverified: Incus reported success but instance not found'')))"

definition launchGuest :: "incusEnv \<Rightarrow> incusRequest \<Rightarrow> incusResult \<Rightarrow> incusReply iprog" where
  "launchGuest E req base =
     (let stop = (\<lambda>e. return (base, Some e))
      in checkE (kvmMissing E req) stop
         (checkE (capacity E (n_memoryMiB req)) stop
         (checkE (checkNativePool E (n_storagePool req) (n_diskGiB req)) stop
         (tryE (reserveCreate E req) stop (\<lambda>previouslySubmitted.
            if previouslySubmitted
            then stop (newErr ''create_outcome_uncertain: a prior submission exists; native guest is not yet visible. Do not resubmit; inspect Incus operations/guest state'')
            else do {
              launched \<leftarrow> command E (launchGuestArgs (b_hostID E) req);
              reconcileCreated E req base (case launched of Inl _ \<Rightarrow> True | Inr _ \<Rightarrow> False) })))))"

definition createGuest :: "incusEnv \<Rightarrow> incusRequest \<Rightarrow> incusResult \<Rightarrow> incusReply iprog" where
  "createGuest E req base =
     (let stop = (\<lambda>e. return (base, Some e))
      in case createInputError req of
           Some e \<Rightarrow> stop e
         | None \<Rightarrow>
             tryE (listGuests E []) stop (\<lambda>all.
               if list_ex (ownsOther req) all
               then stop (newErr ''operation_id_collision: existing managed guest already owns this creation id; list and inspect native state before retry'')
               else tryE (inspect E (n_project req) (n_instance req)) stop (\<lambda>found.
                 case found of
                   Some x \<Rightarrow>
                     if sameGuest req x then reconcileExisting E req base x
                     else stop (newErr ''instance_collision: name exists with different provider identity or operation; inspect before choosing another name'')
                 | None \<Rightarrow> launchGuest E req base)))"

section \<open>Operating a guest\<close>

definition guestArgs :: "incusRequest \<Rightarrow> summary \<Rightarrow> err + string list" where
  "guestArgs req x =
     (if n_operation req = ''start'' then Inr [''start'', n_instance req, ''--project'', n_project req]
      else if n_operation req = ''stop'' then Inr [''stop'', n_instance req, ''--project'', n_project req]
      else if n_operation req = ''delete'' then
        (if s_status x \<noteq> ''Stopped'' then Inl (newErr ''stop and inspect guest before deletion (no implicit force)'')
         else Inr [''delete'', n_instance req, ''--project'', n_project req])
      else if n_operation req = ''exec'' then
        (if n_command req = [] \<or> length (n_command req) > 64 then Inl (newErr ''guest command argv required (1..64)'')
         else if list_ex (\<lambda>s. s = [] \<or> length s > 4096 \<or> CHR 0x00 \<in> set s) (n_command req)
         then Inl (newErr ''invalid guest argv'')
         else Inr ([''exec'', n_instance req, ''--project'', n_project req, ''--mode'', ''non-interactive'', ''--'']
                   @ n_command req))
      else Inr [])"

text \<open>What follows a native command that succeeded.\<close>

definition afterCommand :: "incusEnv \<Rightarrow> incusRequest \<Rightarrow> summary \<Rightarrow> incusResult \<Rightarrow> incusReply iprog" where
  "afterCommand E req x base =
     (let stop = (\<lambda>e. return (base, Some e))
      in if n_operation req = ''exec'' then do {
           verified \<leftarrow> selectInstance E req;
           case verified of
             Inr v \<Rightarrow> if s_uuid v = s_uuid x then return (base\<lparr>rs_status := ''guest_command_completed''\<rparr>, None)
               else return (base\<lparr>rs_output := []\<rparr>, Some (newErr ''guest_exec_outcome_uncertain: native guest identity changed during execution; no output delivered''))
           | Inl _ \<Rightarrow> return (base\<lparr>rs_output := []\<rparr>, Some (newErr ''guest_exec_outcome_uncertain: native guest identity changed during execution; no output delivered'')) }
         else if n_operation req = ''delete'' then
           tryE (inspect E (n_project req) (n_instance req))
             (\<lambda>_. stop (newErr ''delete_outcome_uncertain: inspect Incus state'')) (\<lambda>found.
             if found \<noteq> None then stop (newErr ''delete_unverified: instance still exists'')
             else checkE (retireDeleted E (n_project req) (n_instance req) (s_operationID x) (s_uuid x))
               (\<lambda>_. stop (newErr ''delete_outcome_uncertain: native absence verified but local operation intent cleanup failed''))
               (return (base\<lparr>rs_instance := None, rs_status := ''deleted''\<rparr>, None)))
         else tryE (inspect E (n_project req) (n_instance req))
             (\<lambda>_. stop (newErr ''operation_outcome_uncertain: inspect current native state'')) (\<lambda>found.
             case found of
               None \<Rightarrow> stop (newErr ''operation_outcome_uncertain: inspect current native state'')
             | Some after \<Rightarrow>
                 if s_uuid after \<noteq> s_uuid x \<or> \<not> s_managed after
                 then stop (newErr ''instance_identity_changed: rediscover before further operations'')
                 else checkE (checkConfirmedIdentity E after)
                   (\<lambda>_. stop (newErr ''operation_outcome_uncertain: native guest no longer matches its durable journal identity''))
                   (return (base\<lparr>rs_instance := Some after, rs_status := ''completed_native''\<rparr>, None))))"

definition asciiLower :: "string \<Rightarrow> string" where
  "asciiLower s = map (\<lambda>c. if is_upper c then char_of (byte c + 32) else c) s"

definition guestCommand :: "incusEnv \<Rightarrow> incusRequest \<Rightarrow> string \<Rightarrow> summary \<Rightarrow> incusResult \<Rightarrow> string list \<Rightarrow> incusReply iprog" where
  "guestCommand E req secret x base args =
     (let stop = (\<lambda>e. return (base, Some e))
      in tryE (selectInstance E req)
           (\<lambda>_. stop (newErr ''instance_identity_changed_before_mutation: refused name-based operation''))
         (\<lambda>latest.
           if s_uuid latest \<noteq> s_uuid x then stop (newErr ''instance_identity_changed_before_mutation'')
           else do {
             (out, code, trunc, runErr) \<leftarrow> cli E (if secret = [] then None else Some (secret @ [CHR 0x0A])) (secret \<noteq> []) args;
             (let base' = base\<lparr>rs_output := out, rs_exitCode := code, rs_outputTruncated := trunc\<rparr>
              in case runErr of
                   Some e \<Rightarrow>
                     if n_operation req = ''exec'' \<and> s_type x = ''virtual-machine'' \<and> contains (asciiLower out) ''agent''
                     then return (base', Some (newErr ''guest_agent_unavailable: Incus VM guest agent is required for native exec''))
                     else return (base', Some (wrapErr (''native operation failed, exit_code='' @ itoa code) e))
                 | None \<Rightarrow> afterCommand E req x base') }))"

definition guestOperation :: "incusEnv \<Rightarrow> incusRequest \<Rightarrow> bool \<Rightarrow> string \<Rightarrow> incusResult \<Rightarrow> incusReply iprog" where
  "guestOperation E req approval secret base0 =
     tryE (selectInstance E req) (\<lambda>e. return (base0, Some e)) (\<lambda>x.
       let base = base0\<lparr>rs_instance := Some x\<rparr>;
           stop = (\<lambda>e. return (base, Some e))
       in if n_operation req = ''snapshot'' \<or> n_operation req = ''restore'' then
            (if \<not> validName (n_snapshot req) then stop (newErr ''snapshot name required'')
             else if n_operation req = ''restore'' \<and> \<not> approval
             then stop (newErr ''approval_required: destructive guest restore requires explicit current Owner approval'')
             else submitNativeLocked E req x)
          else if n_operation req = ''snapshots'' then do {
            names \<leftarrow> snapshots E (n_project req) (n_instance req);
            case names of
              Inl e \<Rightarrow> stop e
            | Inr ns \<Rightarrow> return (base\<lparr>rs_snapshots := ns, rs_status := ''snapshots_observed''\<rparr>, None) }
          else checkE (nativeConflict E req) stop (
            if n_operation req = ''delete'' \<and> \<not> approval
            then stop (newErr ''approval_required: destructive guest operation requires explicit current Owner approval'')
            else case guestArgs req x of
              Inl e \<Rightarrow> stop e
            | Inr args \<Rightarrow> guestCommand E req secret x base args))"

section \<open>Dispatch\<close>

definition guestOps :: "string list" where
  "guestOps = [''start'', ''stop'', ''exec'', ''snapshots'', ''snapshot'', ''restore'', ''delete'']"

definition readyOperation :: "incusEnv \<Rightarrow> incusRequest \<Rightarrow> bool \<Rightarrow> string \<Rightarrow> incusReply iprog" where
  "readyOperation E req approval secret =
     (let base = emptyResult\<lparr>rs_status := ''observed'', rs_available := True, rs_hostID := b_hostID E\<rparr>
      in if n_operation req = ''list'' then do {
           xs \<leftarrow> listGuests E (n_project req);
           case xs of
             Inl e \<Rightarrow> return (base, Some e)
           | Inr xs \<Rightarrow> return (base\<lparr>rs_instances := xs\<rparr>, None) }
         else if n_operation req = ''inspect'' then
           (if \<not> validName (n_project req) \<or> \<not> validName (n_instance req)
            then return (base, Some (newErr ''project and instance required''))
            else tryE (inspect E (n_project req) (n_instance req)) (\<lambda>e. return (base, Some e)) (\<lambda>found.
              case found of
                None \<Rightarrow> return (base, Some (newErr ''instance_missing''))
              | Some x \<Rightarrow> return (base\<lparr>rs_instance := Some x\<rparr>, None)))
         else if n_operation req = ''abandon_create'' then locked E (abandonCreate E req approval base)
         else if n_operation req = ''create'' then locked E (createGuest E req base)
         else if n_operation req \<in> set guestOps then locked E (guestOperation E req approval secret base)
         else return (base, Some (newErr ''unsupported managed environment operation'')))"

definition runIncus :: "incusEnv \<Rightarrow> incusRequest \<Rightarrow> bool \<Rightarrow> string \<Rightarrow> incusReply iprog" where
  "runIncus E req approval secret =
     (if n_operation req = ''operation_list'' then locked E (operationList E req)
      else if n_operation req = ''operation_status'' then locked E (nativeStatusLocked E req)
      else if n_operation req = ''resolve_uncertain'' then locked E (resolveUncertainLocked E req approval)
      else if n_operation req = ''pending_creates'' then locked E (pendingCreates E)
      else if n_operation req = ''status'' then do { r \<leftarrow> ready E; return (r, None) }
      else do {
        r \<leftarrow> ready E;
        if \<not> rs_available r then return (r, None) else readyOperation E req approval secret })"

text \<open>A call of the backend: a request with the approval and the secret the executor passes, a
  watcher turn, or the recovery at startup. The backend has no memory, so a restart is no event.\<close>

datatype incusCall = Run incusRequest bool string | Watch incusRequest nat | Recover

fun incusStep :: "incusEnv \<Rightarrow> incusCall \<Rightarrow> unit iprog" where
  "incusStep E (Run req approval secret) = do { _ \<leftarrow> runIncus E req approval secret; return () }"
| "incusStep E (Watch req turns) = do { _ \<leftarrow> watchNativeOperation E req turns; return () }"
| "incusStep E Recover = do { _ \<leftarrow> recoverableNativeOperations E; return () }"

fun incusSteps :: "incusEnv \<Rightarrow> incusCall list \<Rightarrow> unit iprog" where
  "incusSteps E [] = return ()"
| "incusSteps E (c # cs) = do { incusStep E c; incusSteps E cs }"

section \<open>An example\<close>

text \<open>A quiet host: nothing fails, the clock stands still, Incus is not installed.\<close>

definition exampleIncus :: incusEnv where
  "exampleIncus = \<lparr>b_hostID = ''host-1'', x_euid = 0, x_now = (\<lambda>_. 1700000000000000000), x_fault = (\<lambda>_. None),
     x_lstat = (\<lambda>_ _. None), x_lockDir = (\<lambda>_. True), x_cli = (\<lambda>_ _ _. ([], Succeeded)),
     x_api = (\<lambda>_ _ _ _ _. NoAnswer (newErr ''refused'')), x_meminfo = (\<lambda>_. None),
     d_instances = (\<lambda>_. None), d_snapshots = (\<lambda>_. None), d_rawList = (\<lambda>_. None),
     d_apiVersion = (\<lambda>_. None), d_space = (\<lambda>_. None), d_ack = (\<lambda>_. None), d_opMeta = (\<lambda>_. None),
     d_envelope = (\<lambda>_. None), d_props = (\<lambda>_. None), d_config = (\<lambda>_. None), d_opGroups = (\<lambda>_. None),
     d_candidate = (\<lambda>_. None), d_url = (\<lambda>_. None), d_compact = (\<lambda>s. s)\<rparr>"

definition exampleUUID :: string where
  "exampleUUID = ''01234567-89ab-cdef-0123-456789abcdef''"

definition exampleIntent :: createIntent where
  "exampleIntent = \<lparr>ci_hostID = ''host-1'', ci_project = ''default'', ci_instance = ''web'', ci_workID = ''w1'',
     ci_operationID = ''op-1'', ci_type = ''container'', ci_image = ''images:debian/12'', ci_storagePool = ''pool'',
     ci_submittedAt = 1700000000000000000, ci_state = ''confirmed'', ci_nativeUUID = exampleUUID,
     ci_abandonedAt = None\<rparr>"

definition exampleAbandoned :: createIntent where
  "exampleAbandoned = exampleIntent\<lparr>ci_operationID := ''op-0'', ci_state := ''abandoned'', ci_nativeUUID := [],
     ci_abandonedAt := Some 1700000000000000000\<rparr>"

definition exampleOperation :: nativeOperation where
  "exampleOperation = \<lparr>no_hostID = ''host-1'', no_workID = ''w1'', no_actorID = [], no_id = ''snap-1'',
     no_project = ''default'', no_instance = ''web'', no_uuid = exampleUUID, no_action = ''snapshot'',
     no_snapshot = ''s1'', no_nativeID = [], no_state = ''native_failed'', no_nativeTerminal = [],
     no_diagnostic = [], no_submittedAt = 1700000000000000000, no_updatedAt = 1700000000000000000\<rparr>"

definition exampleIncusWorld :: iworld where
  "exampleIncusWorld = \<lparr>i_tick = 0,
     i_intents = Some (newJournal exampleIncus 700 1 [exampleAbandoned, exampleIntent]),
     i_native = Some (newJournal exampleIncus 400 1 [exampleOperation]), i_trace = []\<rparr>"

definition exampleGuestRequest :: incusRequest where
  "exampleGuestRequest = \<lparr>n_operation = ''snapshot'', n_project = ''default'', n_instance = ''web'',
     n_uuid = ''ffffffff-89ab-cdef-0123-456789abcdef'', n_image = [], n_type = [], n_workID = [],
     n_operationID = ''snap-1'', n_actorID = [], n_cpu = 0, n_memoryMiB = 0, n_diskGiB = 0,
     n_storagePool = [], n_command = [], n_snapshot = ''s1''\<rparr>"

lemmas example_incus_defs = exampleIncus_def exampleUUID_def exampleIntent_def exampleAbandoned_def
  exampleOperation_def exampleIncusWorld_def exampleGuestRequest_def newJournal_def

end
