(* ===== verification/IncusFrame.thy ===== *)
theory IncusFrame
  imports IncusRun
begin

text \<open>
  What the operations of the Incus backend leave alone. Four interfaces for relations between the
  world before and the world after: \<open>incus_frame\<close> (it tolerates clock ticks and native observations)
  covers everything that only looks; \<open>intents_frame\<close> also tolerates changes of the native-operation
  journal and every native event but a launch, and covers the whole snapshot/restore machinery;
  \<open>create_frame\<close> tolerates changes of the intent journal and launches, and covers creation;
  \<open>native_frame\<close> tolerates every command of the CLI.
\<close>

fun observation :: "incusEvent \<Rightarrow> bool" where
  "observation (Cli args) = (take 1 args \<in> {[''list''], [''query''], [''operation'']}
     \<or> take 2 args = [''snapshot'', ''list''])"
| "observation (Api method route) = (method = ''GET'')"

fun isLaunch :: "incusEvent \<Rightarrow> bool" where
  "isLaunch (Cli args) = (take 1 args = [''launch''])"
| "isLaunch (Api method route) = False"

lemma observation_not_launch: "observation ev \<Longrightarrow> \<not> isLaunch ev"
proof (cases ev)
  case (Cli args)
  moreover assume "observation ev"
  ultimately show ?thesis by (cases args) (auto simp: numeral_2_eq_2)
qed simp

locale incus_frame = frame R for R :: "iworld \<Rightarrow> iworld \<Rightarrow> bool" +
  assumes ticks: "R w (w\<lparr>i_tick := n\<rparr>)"
    and looks: "observation ev \<Longrightarrow> R w (w\<lparr>i_trace := ev # i_trace w\<rparr>)"
begin

lemma on_itick: "state_io_rel R (itick f)"
  by (rule state_io_relI) (auto simp: itick_def ticks)

lemma on_native: "(\<And>w. R w (w\<lparr>i_trace := ev # i_trace w\<rparr>)) \<Longrightarrow> state_io_rel R (native ev)"
  unfolding native_def by (rule on_modify)

lemma on_calls: "state_io_rel R (icall E)" "state_io_rel R (inow E)"
  by (auto simp: icall_def inow_def intro: on_itick)

lemmas basic = steps on_itick on_calls

lemma on_binary: "state_io_rel R (binary E)"
proof -
  have "state_io_rel R (binaryLoop E ps)" for ps
    by (induction ps) (auto intro!: basic)
  then show ?thesis unfolding binary_def .
qed

lemma on_cli:
  "(\<And>w. R w (w\<lparr>i_trace := Cli args # i_trace w\<rparr>)) \<Longrightarrow> state_io_rel R (cli E inp b args)"
  unfolding cli_def Let_def by (intro basic on_binary on_native) auto

lemma on_command:
  "(\<And>w. R w (w\<lparr>i_trace := Cli args # i_trace w\<rparr>)) \<Longrightarrow> state_io_rel R (command E args)"
  unfolding command_def by (intro basic on_cli) auto

lemma on_look: "observation (Cli args) \<Longrightarrow> state_io_rel R (command E args)"
  by (rule on_command) (rule looks)

lemma on_listGuests: "state_io_rel R (listGuests E p)"
  unfolding listGuests_def by (intro basic on_look) simp

lemma on_snapshots: "state_io_rel R (snapshots E p n)"
  unfolding snapshots_def by (intro basic on_look) simp

lemma on_inspect: "state_io_rel R (inspect E p n)"
  unfolding inspect_def by (intro basic on_listGuests)

lemma on_ready: "state_io_rel R (ready E)"
  unfolding ready_def Let_def by (intro basic on_binary on_look) simp

lemma on_capacity: "state_io_rel R (capacity E m)"
  unfolding capacity_def by (intro basic)

lemma on_checkNativePool: "state_io_rel R (checkNativePool E p d)"
  unfolding checkNativePool_def by (intro basic on_look) simp

lemma on_kvmMissing: "state_io_rel R (kvmMissing E req)"
  unfolding kvmMissing_def by (intro basic)

lemma on_locked: "state_io_rel R fn \<Longrightarrow> state_io_rel R (locked E fn)"
  unfolding locked_def Let_def by (intro basic)

lemma on_readJournal: "state_io_rel R (readJournal E sel a b)"
  unfolding readJournal_def by (intro basic)

lemma on_loadIntents: "state_io_rel R (loadIntents E)"
  unfolding loadIntents_def by (intro basic on_readJournal)

lemma on_loadNativeOperations: "state_io_rel R (loadNativeOperations E)"
  unfolding loadNativeOperations_def by (intro basic on_readJournal)

lemma on_checkConfirmedIdentity: "state_io_rel R (checkConfirmedIdentity E x)"
  unfolding checkConfirmedIdentity_def by (intro basic on_loadIntents)

lemma on_selectInstance: "state_io_rel R (selectInstance E req)"
  unfolding selectInstance_def by (intro basic on_inspect on_checkConfirmedIdentity)

lemma on_nativeConflict: "state_io_rel R (nativeConflict E req)"
  unfolding nativeConflict_def by (intro basic on_loadNativeOperations)

lemma on_socketLoop: "state_io_rel R (socketLoop E ps)"
  by (induction ps) (auto intro!: basic)

lemma on_apiAnswer:
  "(\<And>e. state_io_rel R (f e)) \<Longrightarrow> (\<And>a b c. state_io_rel R (g a b c)) \<Longrightarrow>
   state_io_rel R (case x of NoAnswer e \<Rightarrow> f e | Answer a b c \<Rightarrow> g a b c)"
  by (cases x) auto

lemma on_nativeRequest:
  "(\<And>w. R w (w\<lparr>i_trace := Api m r # i_trace w\<rparr>)) \<Longrightarrow> state_io_rel R (nativeRequest E m r body tag)"
  unfolding nativeRequest_def Let_def by (intro basic on_socketLoop on_native on_apiAnswer) auto

lemma on_GET: "state_io_rel R (nativeRequest E ''GET'' r body tag)"
  by (intro on_nativeRequest looks) simp

lemma on_prepareNativeRestore: "state_io_rel R (prepareNativeRestore E req)"
  unfolding prepareNativeRestore_def by (intro basic on_GET)

lemma on_candidates: "state_io_rel R (candidates E v items)"
  by (induction items) (auto intro!: basic)

lemma on_reconcileLostAck: "state_io_rel R (reconcileLostAck E v)"
  unfolding reconcileLostAck_def by (intro basic on_GET on_candidates)

lemma on_observeNative: "state_io_rel R (observeNative E v)"
  unfolding observeNative_def by (intro basic on_GET on_reconcileLostAck)

lemma on_reverifyGuest: "state_io_rel R (reverifyGuest E v)"
  unfolding reverifyGuest_def Let_def
  by (intro basic on_inspect on_checkConfirmedIdentity on_snapshots)

lemma on_absenceScans: "state_io_rel R (absenceScans E req n)"
  by (induction n) (auto intro!: basic on_look on_selectInstance)

lemma on_absenceChecks: "state_io_rel R (absenceChecks E req n)"
  by (induction n) (auto intro!: basic on_look on_listGuests)

lemma on_operationList: "state_io_rel R (operationList E req)"
  unfolding operationList_def Let_def by (intro basic on_loadNativeOperations)

lemma on_pendingCreates: "state_io_rel R (pendingCreates E)"
  unfolding pendingCreates_def by (intro basic on_loadIntents)

lemma on_recoverable: "state_io_rel R (recoverableNativeOperations E)"
  unfolding recoverableNativeOperations_def
  by (intro basic on_locked on_loadNativeOperations)

lemma on_writeJournal: "(\<And>w. R w (f w)) \<Longrightarrow> state_io_rel R (writeJournal E f)"
  unfolding writeJournal_def by (intro basic on_modify)

lemmas looking = basic on_locked on_ready on_listGuests on_inspect on_snapshots on_selectInstance
  on_checkConfirmedIdentity on_nativeConflict on_loadIntents on_loadNativeOperations
  on_prepareNativeRestore on_observeNative on_reverifyGuest on_absenceScans on_absenceChecks
  on_operationList on_pendingCreates on_recoverable on_capacity on_checkNativePool on_kvmMissing

end

section \<open>Snapshot and restore leave creation alone\<close>

locale intents_frame = incus_frame R for R +
  assumes native_journal: "R w (w\<lparr>i_native := f\<rparr>)"
    and not_launch: "\<not> isLaunch ev \<Longrightarrow> R w (w\<lparr>i_trace := ev # i_trace w\<rparr>)"
begin

lemma on_saveNative: "state_io_rel R (saveNativeOperations E vs)"
  unfolding saveNativeOperations_def Let_def by (intro basic on_writeJournal native_journal)

lemma on_sendMutation: "state_io_rel R (sendMutation E req p t)"
  unfolding sendMutation_def by (intro basic on_nativeRequest not_launch) simp_all

lemma on_persistAndSend: "state_io_rel R (persistAndSend E req g j p t r)"
  unfolding persistAndSend_def Let_def by (intro basic on_saveNative on_sendMutation)

lemma on_submitNativeLocked: "state_io_rel R (submitNativeLocked E req x)"
  unfolding submitNativeLocked_def Let_def by (intro looking on_persistAndSend)

lemma on_nativeStatusLocked: "state_io_rel R (nativeStatusLocked E req)"
  unfolding nativeStatusLocked_def Let_def by (intro looking on_saveNative)

lemma on_resolveUncertainLocked: "state_io_rel R (resolveUncertainLocked E req approval)"
  unfolding resolveUncertainLocked_def Let_def
  by (intro looking on_nativeStatusLocked on_saveNative)

lemma on_watch: "state_io_rel R (watchNativeOperation E req n)"
  by (induction n) (auto intro!: looking on_nativeStatusLocked)

end

section \<open>Creation leaves snapshot and restore alone\<close>

locale create_frame = incus_frame R for R +
  assumes intent_journal: "R w (w\<lparr>i_intents := f\<rparr>)"
    and launches: "isLaunch ev \<Longrightarrow> R w (w\<lparr>i_trace := ev # i_trace w\<rparr>)"
begin

lemma on_saveIntents: "state_io_rel R (saveIntents E xs)"
  unfolding saveIntents_def Let_def by (intro basic on_writeJournal intent_journal)

lemma on_bool: "state_io_rel R m \<Longrightarrow> state_io_rel R n \<Longrightarrow> state_io_rel R (case b of True \<Rightarrow> m | False \<Rightarrow> n)"
  by (cases b) auto

lemma on_reserveCreate: "state_io_rel R (reserveCreate E req)"
  unfolding reserveCreate_def by (intro looking on_bool on_saveIntents)

lemma on_confirmCreate: "state_io_rel R (confirmCreate E op u)"
  unfolding confirmCreate_def by (intro looking on_saveIntents)

lemma on_abandonIntent: "state_io_rel R (abandonIntent E req)"
  unfolding abandonIntent_def Let_def by (intro looking on_saveIntents)

lemma on_retireDeleted: "state_io_rel R (retireDeleted E p n op u)"
  unfolding retireDeleted_def by (intro looking on_saveIntents)

lemma on_abandonCreate: "state_io_rel R (abandonCreate E req approval base)"
  unfolding abandonCreate_def Let_def by (intro looking on_abandonIntent)

lemma on_reconcileExisting: "state_io_rel R (reconcileExisting E req base x)"
  unfolding reconcileExisting_def Let_def by (intro looking on_reserveCreate on_confirmCreate)

lemma on_reconcileCreated: "state_io_rel R (reconcileCreated E req base b)"
  unfolding reconcileCreated_def Let_def by (intro looking on_confirmCreate)

lemma on_launchGuest: "state_io_rel R (launchGuest E req base)"
  unfolding launchGuest_def Let_def
  by (intro looking on_reserveCreate on_command launches on_reconcileCreated) (simp add: launchGuestArgs_def)

lemma on_createGuest: "state_io_rel R (createGuest E req base)"
  unfolding createGuest_def Let_def by (intro looking on_reconcileExisting on_launchGuest)

lemma on_afterCommand: "state_io_rel R (afterCommand E req x base)"
  unfolding afterCommand_def Let_def by (intro looking on_retireDeleted)

lemma on_guestCommand:
  "(\<And>w. R w (w\<lparr>i_trace := Cli args # i_trace w\<rparr>)) \<Longrightarrow> state_io_rel R (guestCommand E req secret x base args)"
  unfolding guestCommand_def Let_def by (intro looking on_cli on_afterCommand)

end

text \<open>A relation that tolerates every command tolerates creation and the operation of a guest.\<close>

locale native_frame = incus_frame R for R +
  assumes intent_writes: "R w (w\<lparr>i_intents := f\<rparr>)"
    and commands: "R w (w\<lparr>i_trace := Cli args # i_trace w\<rparr>)"

sublocale native_frame \<subseteq> create_frame R
proof
  fix w f ev
  show "R w (w\<lparr>i_intents := f\<rparr>)" by (rule intent_writes)
  show "isLaunch ev \<Longrightarrow> R w (w\<lparr>i_trace := ev # i_trace w\<rparr>)" by (cases ev) (auto intro: commands)
qed

section \<open>Looking changes nothing\<close>

text \<open>\<open>still w w'\<close>: both journals are untouched and only observations reached Incus.\<close>

definition still :: "iworld \<Rightarrow> iworld \<Rightarrow> bool" where
  "still w w' = (i_intents w' = i_intents w \<and> i_native w' = i_native w
     \<and> (\<exists>seen. list_all observation seen \<and> i_trace w' = seen @ i_trace w))"

interpretation st: incus_frame still
proof
  fix s t u :: iworld
  show "still s s" by (simp add: still_def)
  show "still s t \<Longrightarrow> still t u \<Longrightarrow> still s u"
    by (force simp: still_def)
next
  fix w n show "still w (w\<lparr>i_tick := n\<rparr>)" by (simp add: still_def)
next
  fix ev w
  assume "observation ev"
  then show "still w (w\<lparr>i_trace := ev # i_trace w\<rparr>)"
    by (auto simp: still_def intro!: exI[of _ "[ev]"])
qed

text \<open>With it, a program that only looks may be followed by anything: the state is as good as before.\<close>

lemma wp_still:
  assumes "state_io_rel still m" and "\<And>x t. still s t \<Longrightarrow> Q x t"
  shows "wp m Q s"
  unfolding wp_run using assms(1) by (intro assms(2)) (simp add: state_io_rel_def)

end
