(* ===== verification/IncusLifecycle.thy ===== *)
theory IncusLifecycle
  imports IncusFrame "HOL-Library.Transitive_Closure_Table"
begin

text \<open>
  The lifecycle of a native create as an abstract state machine, and the proof that the backend
  implements it. The abstract state maps an operation id to the project and name it reserves and
  its phase, beside the trace of what reached Incus. The invariants of the machine (no second
  launch of an operation, one live operation per name, abandoned for ever, a confirmed UUID never
  changes) are proved by rule induction and carried over to every sequence of calls of the backend.
\<close>

section \<open>Text that survives a journal\<close>

lemma alnum_ascii: "is_alnum c \<Longrightarrow> byte c < 128"
  by (auto simp: char_class_defs)

lemma matchesName_ascii:
  assumes "matchesName rest n s" and "\<And>c. rest c \<Longrightarrow> byte c < 128"
  shows "ascii s"
  using assms alnum_ascii by (auto simp: matchesName_def ascii_def list_all_iff split: list.splits)

lemma validName_ascii: "validName s \<Longrightarrow> ascii s"
  unfolding validName_def by (erule matchesName_ascii) (auto simp: alnum_ascii)

lemma splitOn_chars: "c \<in> set s \<Longrightarrow> c = d \<or> (\<exists>p\<in>set (splitOn d s). c \<in> set p)"
proof (induction s)
  case (Cons x s)
  show ?case
  proof (cases "c = x")
    case True
    then show ?thesis by (auto split: list.splits)
  next
    case False
    with Cons have "c = d \<or> (\<exists>p\<in>set (splitOn d s). c \<in> set p)" by simp
    then show ?thesis by (cases "splitOn d s") auto
  qed
qed simp

lemma uuidPattern_ascii: "uuidPattern s \<Longrightarrow> ascii s"
proof -
  assume u: "uuidPattern s"
  have hex: "isHex c \<Longrightarrow> byte c < 128" for c by (auto simp: isHex_def char_class_defs)
  have "byte c < 128" if "c \<in> set s" for c
    using splitOn_chars[OF that, of "CHR ''-''"] u hex
    by (auto simp: uuidPattern_def Let_def list_all_iff)
  then show ?thesis by (simp add: ascii_def list_all_iff)
qed

lemmas clean_simps = cleanText_ascii validName_ascii uuidPattern_ascii

lemma cleanText_states [simp]:
  "cleanText ''submitted'' = ''submitted''" "cleanText ''confirmed'' = ''confirmed''"
  "cleanText ''abandoned'' = ''abandoned''" "cleanText [] = []"
  by (auto intro!: cleanText_ascii simp: ascii_def)

section \<open>The abstract machine\<close>

datatype phase = Submitted | Confirmed string | Abandoned

type_synonym bindings = "string \<Rightarrow> (string \<times> string \<times> phase) option"

definition launchTarget :: "incusEvent \<Rightarrow> (string \<times> string \<times> string) option" where
  "launchTarget ev = (case ev of
       Cli args \<Rightarrow> if take 1 args = [''launch''] \<and> length args > 12
         then Some (trimPrefix (args ! 12) ''user.asa.operation='', args ! 4, args ! 2) else None
     | Api _ _ \<Rightarrow> None)"

definition deleteTarget :: "incusEvent \<Rightarrow> (string \<times> string) option" where
  "deleteTarget ev = (case ev of
       Cli args \<Rightarrow> if take 1 args = [''delete''] \<and> length args > 3 then Some (args ! 3, args ! 1) else None
     | Api _ _ \<Rightarrow> None)"

text \<open>The launches that no later deletion of their guest has closed, newest first.\<close>

fun openLaunches :: "incusEvent list \<Rightarrow> (string \<times> string \<times> string) list" where
  "openLaunches [] = []"
| "openLaunches (ev # tr) =
     (case launchTarget ev of
        Some target \<Rightarrow> target # openLaunches tr
      | None \<Rightarrow> (case deleteTarget ev of
          Some guest \<Rightarrow> filter (\<lambda>target. snd target \<noteq> guest) (openLaunches tr)
        | None \<Rightarrow> openLaunches tr))"

text \<open>No operation is launched while an earlier launch of it is open.\<close>

fun neverRelaunched :: "incusEvent list \<Rightarrow> bool" where
  "neverRelaunched [] = True"
| "neverRelaunched (ev # tr) = (neverRelaunched tr \<and>
     (case launchTarget ev of
        None \<Rightarrow> True
      | Some (op, _, _) \<Rightarrow> op \<notin> set (map fst (openLaunches tr))))"

definition free :: "bindings \<Rightarrow> string \<Rightarrow> string \<Rightarrow> string \<Rightarrow> bool" where
  "free J op p n = (J op = None \<and> (\<forall>op' ph. J op' = Some (p, n, ph) \<longrightarrow> ph = Abandoned))"

text \<open>Without approval nothing is given up: no entry is abandoned and none is retired.\<close>

inductive createStep :: "bool \<Rightarrow> bindings \<times> incusEvent list \<Rightarrow> bindings \<times> incusEvent list \<Rightarrow> bool"
  for approved :: bool where
  Other: "\<not> isLaunch ev \<Longrightarrow> createStep approved (J, tr) (J, ev # tr)"
| Reserve: "free J op p n \<Longrightarrow> createStep approved (J, tr) (J(op \<mapsto> (p, n, Submitted)), tr)"
| Launch: "free J op p n \<Longrightarrow> launchTarget ev = Some (op, p, n) \<Longrightarrow>
    createStep approved (J, tr) (J(op \<mapsto> (p, n, Submitted)), ev # tr)"
| Confirm: "J op = Some (p, n, Submitted) \<Longrightarrow> uuidPattern u \<Longrightarrow>
    createStep approved (J, tr) (J(op \<mapsto> (p, n, Confirmed u)), tr)"
| Abandon: "approved \<Longrightarrow> J op = Some (p, n, Submitted) \<Longrightarrow>
    createStep approved (J, tr) (J(op \<mapsto> (p, n, Abandoned)), tr)"
| Retire: "approved \<Longrightarrow> J op = Some (p, n, Confirmed u) \<Longrightarrow> (p, n) \<notin> set (map snd (openLaunches tr)) \<Longrightarrow>
    createStep approved (J, tr) (J(op := None), tr)"

abbreviation lifecycle :: "bool \<Rightarrow> bindings \<times> incusEvent list \<Rightarrow> bindings \<times> incusEvent list \<Rightarrow> bool" where
  "lifecycle approved \<equiv> (createStep approved)\<^sup>*\<^sup>*"

lemma lifecycle_mono: "lifecycle a s t \<Longrightarrow> a \<le> b \<Longrightarrow> lifecycle b s t"
proof -
  assume ab: "a \<le> b"
  have "createStep b s t" if "createStep a s t" for s t
    using that ab by (induction rule: createStep.induct) (auto intro: createStep.intros)
  then show "lifecycle a s t \<Longrightarrow> lifecycle b s t"
    by (metis mono_rtranclp)
qed

lemma launchTarget_None: "\<not> isLaunch ev \<Longrightarrow> launchTarget ev = None"
  by (cases ev) (auto simp: launchTarget_def)

lemma openLaunches_Other: "\<not> isLaunch ev \<Longrightarrow> set (openLaunches (ev # tr)) \<subseteq> set (openLaunches tr)"
  by (auto simp: launchTarget_None split: option.splits)

text \<open>Open launches are registered, and live entries have different names.\<close>

definition registered :: "bindings \<times> incusEvent list \<Rightarrow> bool" where
  "registered s = (\<forall>(op, p, n) \<in> set (openLaunches (snd s)). \<exists>ph. fst s op = Some (p, n, ph))"

definition exclusive :: "bindings \<Rightarrow> bool" where
  "exclusive J = (\<forall>op op' p n ph ph'. J op = Some (p, n, ph) \<longrightarrow> J op' = Some (p, n, ph') \<longrightarrow>
     ph \<noteq> Abandoned \<longrightarrow> ph' \<noteq> Abandoned \<longrightarrow> op = op')"

lemma createStep_registered:
  "createStep a s t \<Longrightarrow> registered s \<and> neverRelaunched (snd s) \<Longrightarrow> registered t \<and> neverRelaunched (snd t)"
proof (induction rule: createStep.induct)
  case (Other ev J tr)
  then show ?case
    using openLaunches_Other[of ev tr] by (auto simp: registered_def launchTarget_None)
next
  case (Launch J op p n ev tr)
  then have "op \<notin> fst ` set (openLaunches tr)"
    by (force simp: registered_def free_def)
  with Launch show ?case by (force simp: registered_def)
next
  case (Retire J op p n u tr)
  then show ?case by (force simp: registered_def)
qed (force simp: registered_def free_def)+

lemma createStep_exclusive: "createStep a s t \<Longrightarrow> exclusive (fst s) \<Longrightarrow> exclusive (fst t)"
proof (induction rule: createStep.induct)
  case (Confirm J op p n u tr)
  then show ?case unfolding exclusive_def
    by (simp split: if_splits) (metis phase.distinct(3))
next
  case (Retire J op p n u tr)
  then show ?case unfolding exclusive_def by (simp split: if_splits)
qed (auto simp: exclusive_def free_def split: if_splits)

lemma createStep_abandoned:
  "createStep a s t \<Longrightarrow> fst s op = Some (p, n, Abandoned) \<Longrightarrow>
   fst t op = Some (p, n, Abandoned) \<and>
   filter (\<lambda>ev. map_option fst (launchTarget ev) = Some op) (snd t) =
   filter (\<lambda>ev. map_option fst (launchTarget ev) = Some op) (snd s)"
  by (induction rule: createStep.induct) (auto simp: free_def launchTarget_None)

lemma lifecycle_registered:
  "lifecycle a s t \<Longrightarrow> registered s \<and> neverRelaunched (snd s) \<Longrightarrow> registered t \<and> neverRelaunched (snd t)"
  by (induction rule: rtranclp_induct) (simp_all add: createStep_registered)

lemma lifecycle_exclusive: "lifecycle a s t \<Longrightarrow> exclusive (fst s) \<Longrightarrow> exclusive (fst t)"
  by (induction rule: rtranclp_induct) (simp_all add: createStep_exclusive)

lemma lifecycle_abandoned:
  "lifecycle a s t \<Longrightarrow> fst s op = Some (p, n, Abandoned) \<Longrightarrow>
   fst t op = Some (p, n, Abandoned) \<and>
   filter (\<lambda>ev. map_option fst (launchTarget ev) = Some op) (snd t) =
   filter (\<lambda>ev. map_option fst (launchTarget ev) = Some op) (snd s)"
proof (induction rule: rtranclp_induct)
  case (step t u)
  then show ?case using createStep_abandoned[of a t u op p n] by auto
qed simp

text \<open>Without approval a confirmed guest keeps its UUID.\<close>

lemma createStep_confirmed:
  "createStep False s t \<Longrightarrow> fst s op = Some (p, n, Confirmed u) \<Longrightarrow> fst t op = Some (p, n, Confirmed u)"
  by (induction rule: createStep.induct) (auto simp: free_def)

lemma lifecycle_confirmed:
  "lifecycle False s t \<Longrightarrow> fst s op = Some (p, n, Confirmed u) \<Longrightarrow> fst t op = Some (p, n, Confirmed u)"
  by (induction rule: rtranclp_induct) (auto dest: createStep_confirmed)

lemma createStep_kept:
  "createStep False s t \<Longrightarrow> fst s op = Some (p, n, ph) \<Longrightarrow> \<exists>ph'. fst t op = Some (p, n, ph')"
  by (induction rule: createStep.induct) (auto simp: free_def)

end
