(* ===== verification/IncusRefine.thy ===== *)
theory IncusRefine
  imports IncusLifecycle
begin

text \<open>The backend implements the lifecycle machine: every call is a sequence of its steps.\<close>

section \<open>Abstraction\<close>

definition intentsOf :: "iworld \<Rightarrow> createIntent list" where
  "intentsOf w = (case i_intents w of None \<Rightarrow> []
     | Some f \<Rightarrow> (case jn_body f of None \<Rightarrow> [] | Some (_, xs) \<Rightarrow> xs))"

definition phaseOf :: "createIntent \<Rightarrow> phase" where
  "phaseOf x = (if ci_state x = ''submitted'' then Submitted
     else if ci_state x = ''confirmed'' then Confirmed (ci_nativeUUID x) else Abandoned)"

definition binding :: "createIntent \<Rightarrow> string \<times> (string \<times> string \<times> phase)" where
  "binding x = (ci_operationID x, ci_project x, ci_instance x, phaseOf x)"

definition absIntents :: "createIntent list \<Rightarrow> bindings" where
  "absIntents xs = map_of (map binding xs)"

definition absCreate :: "iworld \<Rightarrow> bindings \<times> incusEvent list" where
  "absCreate w = (absIntents (intentsOf w), i_trace w)"

definition refines :: "bool \<Rightarrow> iworld \<Rightarrow> iworld \<Rightarrow> bool" where
  "refines g w w' = lifecycle g (absCreate w) (absCreate w')"

section \<open>The journal\<close>

lemma validIntents_iff:
  "validIntents known xs \<longleftrightarrow> (\<forall>x\<in>set xs. validIntent x) \<and> distinct (map ci_operationID xs)
     \<and> known \<inter> ci_operationID ` set xs = {}"
  by (induction known xs rule: validIntents.induct) auto

lemma binding_decoded: "validIntent x \<Longrightarrow> binding (decodedIntent x) = binding x"
  by (auto simp: validIntent_def binding_def decodedIntent_def phaseOf_def clean_simps)

lemma absIntents_decoded:
  "(\<And>x. x \<in> set xs \<Longrightarrow> validIntent x) \<Longrightarrow> absIntents (map decodedIntent xs) = absIntents xs"
  unfolding absIntents_def
  by (rule arg_cong[where f = map_of]) (auto simp: binding_decoded)

lemma absIntents_simps:
  "absIntents [] = Map.empty"
  "absIntents (x # xs) = (absIntents xs)(ci_operationID x \<mapsto> (ci_project x, ci_instance x, phaseOf x))"
  by (auto simp: absIntents_def binding_def)

lemma absIntents_None: "absIntents xs op = None \<longleftrightarrow> op \<notin> ci_operationID ` set xs"
  by (induction xs) (auto simp: absIntents_simps)

lemma absIntents_Some:
  "absIntents xs op = Some b \<Longrightarrow> \<exists>x\<in>set xs. binding x = (op, b)"
  unfolding absIntents_def by (drule map_of_SomeD) auto

lemma absIntents_split:
  assumes "op = ci_operationID x" and "op \<notin> ci_operationID ` set a"
  shows "absIntents (a @ x # b) = (absIntents (a @ b))(op \<mapsto> (ci_project x, ci_instance x, phaseOf x))"
  using assms by (induction a) (auto simp: absIntents_simps fun_upd_twist)

lemma splitOp_Some:
  "splitOp op xs = Some (a, x, b) \<Longrightarrow> xs = a @ x # b \<and> ci_operationID x = op \<and> op \<notin> ci_operationID ` set a"
  by (induction op xs arbitrary: a rule: splitOp.induct) (auto split: if_splits option.splits)

lemma loadIntents_wp:
  "wp (loadIntents E) (\<lambda>r t. still w t \<and> (\<forall>d. r = Inr d \<longrightarrow> d = intentsOf w \<and> validIntents {} d)) w"
proof (rule wp_conj)
  show "wp (loadIntents E) (\<lambda>r t. still w t) w"
    by (rule st.wp_frame) (rule st.on_loadIntents)
  show "wp (loadIntents E) (\<lambda>r t. \<forall>d. r = Inr d \<longrightarrow> d = intentsOf w \<and> validIntents {} d) w"
    unfolding loadIntents_def readJournal_def
    by (auto simp: wp_def icall_def itick_def intentsOf_def tryE_def checkE_def
        split: prod.splits sum.splits option.splits if_splits)
qed

lemma saveIntents_wp:
  "wp (saveIntents E xs) (\<lambda>r t. i_trace t = i_trace w \<and> i_native t = i_native w \<and>
     (r \<noteq> None \<and> i_intents t = i_intents w \<or> intentsOf t = map decodedIntent xs)) w"
  unfolding saveIntents_def writeJournal_def Let_def
  by (auto simp: wp_def icall_def itick_def checkE_def intentsOf_def newJournal_def
      split: prod.splits option.splits)

lemma still_intents: "still w t \<Longrightarrow> intentsOf t = intentsOf w"
  by (simp add: still_def intentsOf_def)

text \<open>Saving one changed entry is one step of the machine, whether or not the save reports success.\<close>

lemma save_step:
  assumes "\<And>x. x \<in> set xs \<Longrightarrow> validIntent x"
    and "lifecycle g (absCreate w) (absIntents xs, i_trace w)"
  shows "moves (refines g) (saveIntents E xs) w"
  unfolding moves_wp
proof (rule wp_mono[OF saveIntents_wp])
  fix r :: "err option" and t
  assume "i_trace t = i_trace w \<and> i_native t = i_native w \<and>
    (r \<noteq> None \<and> i_intents t = i_intents w \<or> intentsOf t = map decodedIntent xs)"
  then show "refines g w t"
    using assms(2) absIntents_decoded[OF assms(1), of xs]
    by (auto simp: refines_def absCreate_def intentsOf_def)
qed

text \<open>Reading the journal and then acting on it: the action starts from the journal that was read.\<close>

context incus_frame
begin

lemma load_then:
  assumes "\<And>e. state_io_rel R (h e)"
    and "\<And>d t. intentsOf t = d \<Longrightarrow> validIntents {} d \<Longrightarrow> moves R (f d) t"
  shows "moves R (tryE (loadIntents E) h f) s"
proof (rule moves_tryE)
  show "moves R (loadIntents E) s" by (intro moves_all looking)
  show "moves R (h e) t" for e t by (intro moves_all assms)
  fix d t
  assume "run_state (loadIntents E) s = (Inr d, t)"
  from wp_runD[OF loadIntents_wp this] show "moves R (f d) t"
    by (intro assms(2)) (auto simp: still_intents)
qed

lemma tick_then:
  assumes "\<And>x t. intentsOf t = intentsOf s \<Longrightarrow> moves R (f x) t"
  shows "moves R (State_Monad.bind (inow E) f) s"
proof (rule moves_bind)
  show "moves R (inow E) s" by (intro moves_all looking)
  show "run_state (inow E) s = (x, t) \<Longrightarrow> moves R (f x) t" for x t
    by (intro assms) (auto simp: inow_def itick_def intentsOf_def)
qed

lemma checked_save:
  assumes "moves R (saveIntents E xs) s"
    and "\<And>e. state_io_rel R (h e)" and "state_io_rel R k"
  shows "moves R (checkE (saveIntents E xs) h k) s"
  by (intro moves_checkE assms(1) moves_all assms(2,3))

end

section \<open>Operations that respect the machine\<close>

interpretation cr: intents_frame "refines g" for g
proof
  fix s t u :: iworld
  show "refines g s s" by (simp add: refines_def)
  show "refines g s t \<Longrightarrow> refines g t u \<Longrightarrow> refines g s u" by (simp add: refines_def)
next
  fix w n show "refines g w (w\<lparr>i_tick := n\<rparr>)"
    by (simp add: refines_def absCreate_def intentsOf_def)
next
  fix w and f :: "nativeOperation journalFile option" show "refines g w (w\<lparr>i_native := f\<rparr>)"
    by (simp add: refines_def absCreate_def intentsOf_def)
next
  fix ev w
  have *: "\<not> isLaunch ev \<Longrightarrow> refines g w (w\<lparr>i_trace := ev # i_trace w\<rparr>)"
    by (auto simp: refines_def absCreate_def intentsOf_def intro: createStep.Other)
  show "\<not> isLaunch ev \<Longrightarrow> refines g w (w\<lparr>i_trace := ev # i_trace w\<rparr>)" by (rule *)
  show "observation ev \<Longrightarrow> refines g w (w\<lparr>i_trace := ev # i_trace w\<rparr>)"
    by (intro * observation_not_launch)
qed

lemma still_refines: "still s t \<Longrightarrow> refines g s t"
proof -
  assume "still s t"
  then obtain seen where seen: "list_all observation seen" "i_trace t = seen @ i_trace s"
    and same: "intentsOf t = intentsOf s"
    by (auto simp: still_def intentsOf_def)
  have "lifecycle g (J, tr) (J, seen @ tr)" for J tr
    using seen(1)
    by (induction seen) (auto intro: rtranclp.rtrancl_into_rtrancl createStep.Other
        dest: observation_not_launch)
  with seen same show ?thesis by (simp add: refines_def absCreate_def)
qed

lemma refines_trans: "refines g s t \<Longrightarrow> refines g t u \<Longrightarrow> refines g s u"
  by (simp add: refines_def)

text \<open>Replacing the entry of an operation.\<close>

lemma replaced_entry:
  assumes "splitOp op xs = Some (a, x, b)" and "validIntents {} xs"
    and "binding y = (op, ci_project x, ci_instance x, ph)" and "validIntent y"
    and "createStep g (absIntents xs, tr) ((absIntents xs)(op \<mapsto> (ci_project x, ci_instance x, ph)), tr)"
  shows "(\<forall>z\<in>set (a @ y # b). validIntent z) \<and> lifecycle g (absIntents xs, tr) (absIntents (a @ y # b), tr)"
proof -
  from splitOp_Some[OF assms(1)] have xs: "xs = a @ x # b" "ci_operationID x = op" "op \<notin> ci_operationID ` set a"
    by auto
  have y: "ci_operationID y = op" "ci_project y = ci_project x" "ci_instance y = ci_instance x" "phaseOf y = ph"
    using assms(3) by (auto simp: binding_def)
  have "absIntents (a @ y # b) = (absIntents xs)(op \<mapsto> (ci_project x, ci_instance x, ph))"
    using absIntents_split[of op y a b] absIntents_split[of op x a b] xs y by simp
  with assms xs show ?thesis by (auto simp: validIntents_iff)
qed

lemma split_lookup:
  "splitOp op xs = Some (a, x, b) \<Longrightarrow> absIntents xs op = Some (ci_project x, ci_instance x, phaseOf x)"
  using splitOp_Some[of op xs a x b] absIntents_split[of op x a b] by auto

lemma life_confirmCreate: "state_io_rel (refines g) (confirmCreate E op u)"
proof (cases "uuidPattern u")
  case True
  have "moves (refines g) (saveIntents E (a @ x\<lparr>ci_state := ''confirmed'', ci_nativeUUID := u\<rparr> # b)) t"
    if d: "intentsOf t = d" "validIntents {} d" and sp: "splitOp op d = Some (a, x, b)"
      and st: "ci_state x = ''submitted''" for d t a x b
  proof -
    let ?y = "x\<lparr>ci_state := ''confirmed'', ci_nativeUUID := u\<rparr>"
    have "validIntent x" using splitOp_Some[OF sp] d(2) by (auto simp: validIntents_iff)
    then have "validIntent ?y" using st True by (auto simp: validIntent_def)
    moreover have "binding ?y = (op, ci_project x, ci_instance x, Confirmed u)"
      using splitOp_Some[OF sp] by (simp add: binding_def phaseOf_def)
    moreover have "absIntents d op = Some (ci_project x, ci_instance x, Submitted)"
      using split_lookup[OF sp] st by (simp add: phaseOf_def)
    then have "createStep g (absIntents d, i_trace t) ((absIntents d)(op \<mapsto> (ci_project x, ci_instance x, Confirmed u)), i_trace t)"
      using True by (rule createStep.Confirm)
    ultimately have "(\<forall>z\<in>set (a @ ?y # b). validIntent z) \<and>
        lifecycle g (absIntents d, i_trace t) (absIntents (a @ ?y # b), i_trace t)"
      by (intro replaced_entry[OF sp d(2)])
    then show ?thesis by (intro save_step) (auto simp: d(1) absCreate_def)
  qed
  then show ?thesis
    unfolding confirmCreate_def using True
    by (auto intro!: all_moves cr.load_then cr.steps cr.moving split del: if_split)
qed (auto simp: confirmCreate_def intro: cr.steps)

lemma life_abandonIntent: "g \<Longrightarrow> state_io_rel (refines g) (abandonIntent E req)"
proof -
  assume g: g
  have "moves (refines g) (checkE (saveIntents E (a @ x\<lparr>ci_state := ''abandoned'', ci_abandonedAt := Some now\<rparr> # b)) fail
      (ok (x\<lparr>ci_state := ''abandoned'', ci_abandonedAt := Some now\<rparr>))) t"
    if d: "intentsOf t = d" "validIntents {} d" and sp: "splitOp (n_operationID req) d = Some (a, x, b)"
      and st: "ci_state x = ''submitted''" for d t a x b now
  proof -
    let ?y = "x\<lparr>ci_state := ''abandoned'', ci_abandonedAt := Some now\<rparr>"
    have "validIntent x" using splitOp_Some[OF sp] d(2) by (auto simp: validIntents_iff)
    then have "validIntent ?y" using st by (auto simp: validIntent_def)
    moreover have "binding ?y = (n_operationID req, ci_project x, ci_instance x, Abandoned)"
      using splitOp_Some[OF sp] by (simp add: binding_def phaseOf_def)
    moreover have "absIntents d (n_operationID req) = Some (ci_project x, ci_instance x, Submitted)"
      using split_lookup[OF sp] st by (simp add: phaseOf_def)
    then have "createStep g (absIntents d, i_trace t)
        ((absIntents d)(n_operationID req \<mapsto> (ci_project x, ci_instance x, Abandoned)), i_trace t)"
      by (rule createStep.Abandon[OF g])
    ultimately have "(\<forall>z\<in>set (a @ ?y # b). validIntent z) \<and>
        lifecycle g (absIntents d, i_trace t) (absIntents (a @ ?y # b), i_trace t)"
      by (intro replaced_entry[OF sp d(2)])
    then show ?thesis by (intro cr.checked_save save_step cr.steps) (auto simp: d(1) absCreate_def)
  qed
  then show ?thesis
    unfolding abandonIntent_def Let_def
    by (auto intro!: all_moves cr.load_then cr.steps cr.tick_then cr.moves_option cr.moves_prod
        cr.moves_if cr.moves_return split del: if_split)
qed

lemma life_abandonCreate: "state_io_rel (refines approval) (abandonCreate E req approval base)"
  unfolding abandonCreate_def Let_def by (intro cr.looking life_abandonIntent) simp

section \<open>Reserving and launching\<close>

lemma reserveScan_free:
  "reserveScan host req xs = Inr False \<Longrightarrow> free (absIntents xs) (n_operationID req) (n_project req) (n_instance req)"
proof (induction xs)
  case Nil
  then show ?case by (simp add: free_def absIntents_simps)
next
  case (Cons x xs)
  then have "free (absIntents xs) (n_operationID req) (n_project req) (n_instance req)"
    and "ci_operationID x \<noteq> n_operationID req"
    and "ci_state x = ''abandoned'' \<or> ci_project x \<noteq> n_project req \<or> ci_instance x \<noteq> n_instance req"
    by (auto split: if_splits)
  then show ?case by (auto simp: free_def absIntents_simps phaseOf_def)
qed

lemma new_intent_valid:
  "createInputError req = None \<Longrightarrow> host \<noteq> [] \<Longrightarrow> validIntent (intentFor req host now)"
  by (auto simp: createInputError_def validIntent_def intentFor_def split: if_splits)

lemma binding_new: 
  "createInputError req = None \<Longrightarrow>
   binding (decodedIntent (intentFor req host now)) = (n_operationID req, n_project req, n_instance req, Submitted)"
  by (auto simp: createInputError_def binding_def decodedIntent_def intentFor_def phaseOf_def clean_simps
      split: if_splits)

text \<open>What a reservation leaves behind: nothing but observations, or the new entry.\<close>

definition reserved :: "incusRequest \<Rightarrow> iworld \<Rightarrow> iworld \<Rightarrow> bool" where
  "reserved req s t = (i_trace t = i_trace s \<and>
     free (absIntents (intentsOf s)) (n_operationID req) (n_project req) (n_instance req) \<and>
     absIntents (intentsOf t) =
       (absIntents (intentsOf s))(n_operationID req \<mapsto> (n_project req, n_instance req, Submitted)))"

lemma absIntents_snoc:
  "op \<notin> ci_operationID ` set xs \<Longrightarrow> binding x = (op, b) \<Longrightarrow> absIntents (xs @ [x]) = (absIntents xs)(op \<mapsto> b)"
proof (induction xs)
  case (Cons y xs)
  then show ?case by (auto simp: absIntents_simps)
qed (simp add: absIntents_simps absIntents_def)

lemma reserve_saved:
  assumes "createInputError req = None" and "intentsOf s = d" and "validIntents {} d"
    and "reserveScan host req d = Inr False"
    and "run_state (saveIntents E (d @ [intentFor req host now])) s = (r, t)"
  shows "if r = None then reserved req s t else refines g s t"
proof -
  let ?new = "intentFor req host now"
  have fr: "free (absIntents d) (n_operationID req) (n_project req) (n_instance req)"
    using assms(4) by (rule reserveScan_free)
  then have "n_operationID req \<notin> ci_operationID ` set (map decodedIntent d)"
    using assms(3) by (auto simp: free_def absIntents_None decodedIntent_def validIntents_iff
        validIntent_def clean_simps image_iff)
  then have new: "absIntents (map decodedIntent (d @ [?new])) =
      (absIntents d)(n_operationID req \<mapsto> (n_project req, n_instance req, Submitted))"
    using absIntents_snoc[OF _ binding_new[OF assms(1)]] absIntents_decoded[of d] assms(3)
    by (simp add: validIntents_iff)
  have step: "createStep g (absIntents d, i_trace s) (absIntents (map decodedIntent (d @ [?new])), i_trace s)"
    unfolding new using fr by (rule createStep.Reserve)
  from wp_runD[OF saveIntents_wp assms(5)] new fr step assms(2) show ?thesis
    by (auto simp: reserved_def refines_def absCreate_def intentsOf_def[of t] intentsOf_def[of s])
qed

lemma reserved_refines: "reserved req s t \<Longrightarrow> refines g s t"
  by (auto simp: reserved_def refines_def absCreate_def intro: createStep.Reserve)

lemma reserveCreate_run:
  assumes "createInputError req = None" and "run_state (reserveCreate E req) s = (r, t)"
  shows "refines g s t \<and> (r = Inr False \<longrightarrow> (\<exists>u. refines g s u \<and> reserved req u t))"
proof -
  have "wp (reserveCreate E req) (\<lambda>r t. refines g s t \<and> (r = Inr False \<longrightarrow> (\<exists>u. refines g s u \<and> reserved req u t))) s"
    unfolding reserveCreate_def wp_tryE
  proof (rule wp_mono[OF loadIntents_wp])
    fix l u
    assume l: "still s u \<and> (\<forall>d. l = Inr d \<longrightarrow> d = intentsOf s \<and> validIntents {} d)"
    then have su: "refines g s u" by (simp add: still_refines)
    define v where "v = u\<lparr>i_tick := Suc (i_tick u)\<rparr>"
    have sv: "refines g s v" unfolding v_def using su cr.ticks[of _ u] refines_trans by blast
    have save: "refines g s t \<and> (r = None \<longrightarrow> reserved req v t)"
      if "l = Inr d" "reserveScan (b_hostID E) req d = Inr False"
        "run_state (saveIntents E (d @ [intentFor req (b_hostID E) now])) v = (r, t)" for d now r t
    proof -
      have "intentsOf v = d" using l that(1) still_intents[of s u] by (simp add: intentsOf_def v_def)
      moreover have "validIntents {} d" using l that(1) by blast
      ultimately have "if r = None then reserved req v t else refines g v t"
        using reserve_saved[OF assms(1) _ _ that(2,3)] by blast
      with sv show ?thesis by (auto split: if_splits intro: refines_trans reserved_refines)
    qed
    show "(case l of Inl e \<Rightarrow> wp (fail e) (\<lambda>r t. refines g s t \<and> (r = Inr False \<longrightarrow> (\<exists>u. refines g s u \<and> reserved req u t)))
        | Inr d \<Rightarrow> wp (case reserveScan (b_hostID E) req d of Inl e \<Rightarrow> fail e | Inr True \<Rightarrow> ok True
            | Inr False \<Rightarrow> do { now \<leftarrow> inow E;
                checkE (saveIntents E (d @ [intentFor req (b_hostID E) now])) fail (ok False) })
            (\<lambda>r t. refines g s t \<and> (r = Inr False \<longrightarrow> (\<exists>u. refines g s u \<and> reserved req u t)))) u"
      using su sv
      by (auto simp: wp_run inow_def itick_def checkE_def v_def[symmetric]
          split: sum.splits bool.splits option.splits prod.splits dest!: save)
  qed
  from wp_runD[OF this assms(2)] show ?thesis .
qed

lemma life_reserveCreate: "createInputError req = None \<Longrightarrow> state_io_rel (refines g) (reserveCreate E req)"
  by (rule state_io_relI) (auto dest: reserveCreate_run)

lemma launchTarget_args:
  "launchTarget (Cli (launchGuestArgs host req)) = Some (n_operationID req, n_project req, n_instance req)"
  by (simp add: launchTarget_def launchGuestArgs_def trimPrefix_def hasPrefix_def)

text \<open>A launch that follows a reservation is, with it, one step of the machine.\<close>

lemma reserved_launch:
  assumes "reserved req s t"
  shows "refines g s (t\<lparr>i_trace := Cli (launchGuestArgs host req) # i_trace t\<rparr>)"
  using assms launchTarget_args[of host req]
  by (auto simp: reserved_def refines_def absCreate_def intentsOf_def intro!: createStep.Launch)

lemma reserved_ticks: "reserved req s t \<Longrightarrow> reserved req s (t\<lparr>i_tick := n\<rparr>)"
  by (simp add: reserved_def intentsOf_def)

lemma binary_run: "\<exists>n. snd (run_state (binary E) t) = t\<lparr>i_tick := n\<rparr>"
proof -
  have "\<exists>n. snd (run_state (binaryLoop E ps) t) = t\<lparr>i_tick := n\<rparr>" for ps t
  proof (induction ps arbitrary: t)
    case Nil
    show ?case by (rule exI[of _ "i_tick t"]) simp
  next
    case (Cons p ps)
    show ?case
      using Cons[of "t\<lparr>i_tick := Suc (i_tick t)\<rparr>"] by (auto simp: itick_def split: option.splits)
  qed
  then show ?thesis unfolding binary_def .
qed

lemma launch_moves:
  assumes "reserved req s t"
  shows "refines g s (snd (run_state (command E (launchGuestArgs (b_hostID E) req)) t))"
proof -
  let ?args = "launchGuestArgs (b_hostID E) req"
  obtain r u where bin: "run_state (binary E) t = (r, u)" by fastforce
  then obtain n where u: "u = t\<lparr>i_tick := n\<rparr>" using binary_run[of E t] by auto
  have ru: "refines g s u"
    unfolding u by (rule reserved_refines[OF reserved_ticks[OF assms]])
  have rv: "refines g s (u\<lparr>i_trace := Cli ?args # i_trace u\<rparr>)"
    unfolding u by (intro reserved_launch reserved_ticks assms)
  have "refines g s (snd (run_state (cli E None False ?args) t))"
    using bin ru rv refines_trans[OF rv cr.ticks]
    by (auto simp: cli_def tryE_def native_def itick_def Let_def split: sum.splits prod.splits)
  then show ?thesis
    by (auto simp: command_def split: prod.splits option.splits)
qed

lemma life_reconcileExisting:
  "createInputError req = None \<Longrightarrow> state_io_rel (refines g) (reconcileExisting E req base x)"
  unfolding reconcileExisting_def Let_def by (intro cr.looking life_reserveCreate life_confirmCreate)

lemma life_reconcileCreated: "state_io_rel (refines g) (reconcileCreated E req base b)"
  unfolding reconcileCreated_def Let_def by (intro cr.looking life_confirmCreate)

lemma reserve_and_launch:
  assumes "createInputError req = None"
  shows "state_io_rel (refines g) (tryE (reserveCreate E req) (\<lambda>e. return (base, Some e)) (\<lambda>prev.
    if prev then return (base, Some e') else do {
      launched \<leftarrow> command E (launchGuestArgs (b_hostID E) req);
      reconcileCreated E req base (case launched of Inl _ \<Rightarrow> True | Inr _ \<Rightarrow> False) }))"
proof (rule state_io_relI)
  fix b s v
  let ?m = "do { launched \<leftarrow> command E (launchGuestArgs (b_hostID E) req);
      reconcileCreated E req base (case launched of Inl _ \<Rightarrow> True | Inr _ \<Rightarrow> False) }"
  assume run: "run_state (tryE (reserveCreate E req) (\<lambda>e. return (base, Some e)) (\<lambda>prev.
    if prev then return (base, Some e') else ?m)) s = (b, v)"
  obtain r t where r: "run_state (reserveCreate E req) s = (r, t)" by fastforce
  note res = reserveCreate_run[OF assms r]
  show "refines g s v"
  proof (cases "r = Inr False")
    case True
    then obtain u where u: "refines g s u" "reserved req u t" using res by blast
    obtain l w where l: "run_state (command E (launchGuestArgs (b_hostID E) req)) t = (l, w)" by fastforce
    have "refines g u w" using launch_moves[OF u(2), of _ E] l by simp
    moreover have "refines g w (snd (run_state (reconcileCreated E req base fl) w))" for fl
      using life_reconcileCreated by (rule cr.run_frame)
    ultimately show ?thesis
      using run r l True u(1) by (auto simp: tryE_def split: prod.splits dest!: sndI intro: refines_trans)
  next
    case False
    then show ?thesis using run r res by (auto simp: tryE_def split: sum.splits if_splits)
  qed
qed

lemma life_launchGuest:
  "createInputError req = None \<Longrightarrow> state_io_rel (refines g) (launchGuest E req base)"
  unfolding launchGuest_def Let_def by (intro cr.looking reserve_and_launch)

lemma life_createGuest: "state_io_rel (refines g) (createGuest E req base)"
  unfolding createGuest_def Let_def
  by (auto split: option.split intro!: cr.looking life_reconcileExisting life_launchGuest split del: if_split)

section \<open>Deleting\<close>

text \<open>A guest is gone from the open launches once its deletion reached Incus.\<close>

lemma openLaunches_seen:
  "list_all observation seen \<Longrightarrow> set (openLaunches (seen @ tr)) \<subseteq> set (openLaunches tr)"
proof (induction seen)
  case (Cons ev seen)
  then show ?case
    using openLaunches_Other[of ev "seen @ tr"] observation_not_launch[of ev] by fastforce
qed simp

definition deleted :: "incusRequest \<Rightarrow> iworld \<Rightarrow> bool" where
  "deleted req w = ((n_project req, n_instance req) \<notin> set (map snd (openLaunches (i_trace w))))"

lemma deleted_still: "deleted req s \<Longrightarrow> still s t \<Longrightarrow> deleted req t"
  unfolding deleted_def still_def using openLaunches_seen by fastforce

lemma deleted_event:
  "deleted req (w\<lparr>i_trace := Cli [''delete'', n_instance req, ''--project'', n_project req] # i_trace w\<rparr>)"
  by (auto simp: deleted_def launchTarget_def deleteTarget_def)

lemma retireScan_Some:
  assumes "retireScan p n op u xs = Some (kept, removed)"
  shows "kept = filter (\<lambda>x. \<not> (ci_project x = p \<and> ci_instance x = n \<and> ci_operationID x = op)) xs
    \<and> (removed \<longrightarrow> (\<exists>x\<in>set xs. ci_project x = p \<and> ci_instance x = n \<and> ci_operationID x = op))
    \<and> (\<forall>x\<in>set xs. ci_project x = p \<and> ci_instance x = n \<and> ci_operationID x = op \<longrightarrow>
        ci_state x = ''confirmed'' \<and> ci_nativeUUID x = u)"
  using assms
  by (induction xs arbitrary: kept removed) (auto split: if_splits)

lemma absIntents_lookup:
  "distinct (map ci_operationID xs) \<Longrightarrow> x \<in> set xs \<Longrightarrow>
   absIntents xs (ci_operationID x) = Some (ci_project x, ci_instance x, phaseOf x)"
  by (induction xs) (auto simp: absIntents_simps rev_image_eqI)

lemma absIntents_remove:
  assumes "distinct (map ci_operationID xs)" and "x \<in> set xs"
    and "\<And>y. y \<in> set xs \<Longrightarrow> P y \<longleftrightarrow> ci_operationID y \<noteq> ci_operationID x"
  shows "absIntents (filter P xs) = (absIntents xs)(ci_operationID x := None)"
  using assms(3)
proof (induction xs)
  case (Cons y ys)
  then show ?case by (auto simp: absIntents_simps fun_upd_def fun_eq_iff)
qed (simp add: absIntents_simps)

lemma retire_step:
  assumes "validIntents {} xs" and "retireScan p n op u xs = Some (kept, True)" and g: g
    and "(p, n) \<notin> set (map snd (openLaunches tr))"
  shows "(\<forall>x\<in>set kept. validIntent x) \<and> lifecycle g (absIntents xs, tr) (absIntents kept, tr)"
proof -
  note k = retireScan_Some[OF assms(2)]
  then obtain x where x: "x \<in> set xs" "ci_project x = p" "ci_instance x = n" "ci_operationID x = op"
    and st: "ci_state x = ''confirmed''" by blast
  have dist: "distinct (map ci_operationID xs)" using assms(1) by (simp add: validIntents_iff)
  have "\<not> (ci_project y = p \<and> ci_instance y = n \<and> ci_operationID y = op) \<longleftrightarrow> ci_operationID y \<noteq> ci_operationID x"
    if "y \<in> set xs" for y
    using that x dist by (metis (no_types, lifting) distinct_map inj_on_eq_iff)
  then have kept: "absIntents kept = (absIntents xs)(op := None)"
    using absIntents_remove[OF dist x(1)] k x(4) by simp
  have "absIntents xs op = Some (p, n, Confirmed (ci_nativeUUID x))"
    using absIntents_lookup[OF dist x(1)] x st by (simp add: phaseOf_def)
  then have "createStep g (absIntents xs, tr) (absIntents kept, tr)"
    unfolding kept using assms(4) by (rule createStep.Retire[OF g])
  moreover have "\<forall>x\<in>set kept. validIntent x" using k assms(1) by (auto simp: validIntents_iff)
  ultimately show ?thesis by blast
qed

lemma retireDeleted_moves:
  assumes "deleted req s" and g: g
  shows "moves (refines g) (retireDeleted E (n_project req) (n_instance req) op u) s"
  unfolding retireDeleted_def
proof (rule cr.moves_tryE)
  show "moves (refines g) (loadIntents E) s" by (intro moves_all cr.looking)
  show "moves (refines g) (return (Some e)) t" for e t by (rule cr.moves_return)
  fix d t
  assume "run_state (loadIntents E) s = (Inr d, t)"
  from wp_runD[OF loadIntents_wp this] have d: "intentsOf t = d" "validIntents {} d" and st: "still s t"
    by (auto simp: still_intents)
  have del: "(n_project req, n_instance req) \<notin> set (map snd (openLaunches (i_trace t)))"
    using deleted_still[OF assms(1) st] by (simp add: deleted_def)
  have "moves (refines g) (saveIntents E kept) t"
    if "retireScan (n_project req) (n_instance req) op u d = Some (kept, True)" for kept
    using retire_step[OF d(2) that g del] d(1) by (intro save_step) (auto simp: absCreate_def)
  then show "moves (refines g) (case retireScan (n_project req) (n_instance req) op u d of
      None \<Rightarrow> return (Some (newErr ''create_intent_delete_identity_conflict: confirmed journal identity disagrees with native deleted guest''))
    | Some (kept, removed) \<Rightarrow> if removed then saveIntents E kept else return None) t"
    by (auto intro!: cr.moves_option cr.moves_prod cr.moves_if cr.moves_return)
qed

lemma cli_success:
  assumes "run_state (cli E inp b args) t = ((out, code, trunc, None), u)"
  shows "\<exists>n. u = t\<lparr>i_trace := Cli args # i_trace t, i_tick := n\<rparr>"
proof -
  obtain r v where bin: "run_state (binary E) t = (r, v)" by fastforce
  then obtain n where v: "v = t\<lparr>i_tick := n\<rparr>" using binary_run[of E t] by auto
  with bin assms show ?thesis
    by (auto simp: cli_def tryE_def native_def itick_def Let_def
        split: sum.splits prod.splits if_splits)
qed

lemma afterCommand_moves:
  assumes "n_operation req = ''delete'' \<Longrightarrow> deleted req s \<and> g"
  shows "moves (refines g) (afterCommand E req x base) s"
proof (cases "n_operation req = ''delete''")
  case True
  then have del: "deleted req s" and g: g using assms by auto
  have *: "moves (refines g) (retireDeleted E (n_project req) (n_instance req) op u) t"
    if "run_state (inspect E p n) s = (r, t)" for op u t p n r
    using that wp_runD[OF st.wp_frame[OF st.on_inspect] that] by (intro retireDeleted_moves deleted_still[OF del] g)
  show ?thesis
    unfolding afterCommand_def Let_def using True
    by (auto intro!: cr.moves_tryE cr.moves_checkE cr.moves_if cr.moves_return * moves_all[OF cr.on_inspect]
        split del: if_split)
next
  case False
  then show ?thesis
    unfolding afterCommand_def Let_def
    by (auto intro!: moves_all cr.looking split del: if_split)
qed

lemma guestCommand_moves:
  assumes "\<not> isLaunch (Cli args)"
    and "n_operation req = ''delete'' \<Longrightarrow> g \<and> args = [''delete'', n_instance req, ''--project'', n_project req]"
  shows "state_io_rel (refines g) (guestCommand E req secret x base args)"
proof -
  have cmd: "state_io_rel (refines g) (cli E inp b args)" for inp b
    by (intro cr.on_cli cr.not_launch assms(1))
  have "moves (refines g) (afterCommand E req x base') u"
    if run: "run_state (cli E inp b args) t = ((out, code, trunc, None), u)" for inp b t out code trunc u base'
  proof (rule afterCommand_moves)
    assume d: "n_operation req = ''delete''"
    obtain n where "u = t\<lparr>i_trace := Cli args # i_trace t, i_tick := n\<rparr>"
      using cli_success[OF run] by blast
    then show "deleted req u \<and> g"
      using assms(2)[OF d] deleted_event[of req t] by (simp add: deleted_def)
  qed
  then show ?thesis
    unfolding guestCommand_def Let_def
    by (auto intro!: all_moves cr.moves_tryE cr.moves_if cr.moves_return cr.moves_bind cr.moves_option
        cr.moves_prod moves_all[OF cr.on_selectInstance] moves_all[OF cmd] split del: if_split)
qed

lemma guestArgs_shape:
  assumes "guestArgs req x = Inr args" and "n_operation req \<in> set guestOps"
    and "n_operation req \<notin> {''snapshots'', ''snapshot'', ''restore''}"
  shows "\<not> isLaunch (Cli args) \<and>
    (n_operation req = ''delete'' \<longrightarrow> args = [''delete'', n_instance req, ''--project'', n_project req])"
  using assms by (auto simp: guestArgs_def guestOps_def split: if_splits)

lemma life_guestOperation:
  assumes "n_operation req \<in> set guestOps"
  shows "state_io_rel (refines approval) (guestOperation E req approval secret base)"
proof -
  have cmd: "moves (refines approval) (guestCommand E req secret x base' args) t"
    if "guestArgs req x = Inr args" "n_operation req \<notin> {''snapshots'', ''snapshot'', ''restore''}"
      "n_operation req = ''delete'' \<longrightarrow> approval" for x base' args t
    using guestArgs_shape[OF that(1) assms that(2)] that(3) by (intro moves_all guestCommand_moves) auto
  show ?thesis
    unfolding guestOperation_def Let_def
    by (auto intro!: all_moves cr.moves_tryE cr.moves_checkE cr.moves_if cr.moves_bind cr.moves_sum
        cr.moves_return moves_all[OF cr.on_submitNativeLocked] moves_all[OF cr.on_selectInstance]
        moves_all[OF cr.on_snapshots] moves_all[OF cr.on_nativeConflict] cmd split del: if_split)
qed

lemma life_readyOperation: "state_io_rel (refines approval) (readyOperation E req approval secret)"
  unfolding readyOperation_def Let_def
  by (intro cr.looking life_abandonCreate life_createGuest life_guestOperation)

lemma life_runIncus: "state_io_rel (refines approval) (runIncus E req approval secret)"
  unfolding runIncus_def
  by (intro cr.looking cr.on_nativeStatusLocked cr.on_resolveUncertainLocked life_readyOperation)

fun approvedCall :: "incusCall \<Rightarrow> bool" where
  "approvedCall (Run req approval secret) = approval"
| "approvedCall _ = False"

lemma life_incusStep: "state_io_rel (refines (approvedCall c)) (incusStep E c)"
  by (cases c) (auto intro!: cr.steps life_runIncus cr.on_watch cr.on_recoverable)

lemma refines_mono: "refines g s t \<Longrightarrow> g \<le> h \<Longrightarrow> refines h s t"
  unfolding refines_def by (rule lifecycle_mono)

lemma life_incusSteps: "\<forall>c\<in>set cs. approvedCall c \<longrightarrow> g \<Longrightarrow> state_io_rel (refines g) (incusSteps E cs)"
proof (induction cs)
  case (Cons c cs)
  have "state_io_rel (refines g) (incusStep E c)"
    using life_incusStep[of c E] Cons.prems by (auto simp: state_io_rel_def intro: refines_mono)
  with Cons show ?case by (auto intro!: cr.steps)
qed (auto intro: cr.steps)

lemmas run_lifecycle = cr.run_frame[OF life_incusSteps, unfolded refines_def]

end
