(* ===== verification/IncusNativeLife.thy ===== *)
theory IncusNativeLife
  imports IncusRefine
begin

text \<open>
  The lifecycle of a native snapshot or restore as an abstract state machine, and the proof that
  the backend implements it. An operation id is bound to a target (project, name, UUID, action,
  snapshot) before anything is sent; a terminal state is final; a record disappears only when it is
  terminal and older than the retention.
\<close>

section \<open>The abstract machine\<close>

type_synonym target = "string \<times> string \<times> string \<times> string \<times> string"
type_synonym submissions = "string \<Rightarrow> (target \<times> string \<times> int) option"

fun guestOf :: "target \<Rightarrow> string \<times> string \<times> string" where
  "guestOf (p, n, u, act, snap) = (p, n, u)"

fun nativeMutation :: "incusEvent \<Rightarrow> bool" where
  "nativeMutation (Api method route) = (method \<noteq> ''GET'')"
| "nativeMutation (Cli args) = False"

definition idle :: "submissions \<Rightarrow> string \<times> string \<times> string \<Rightarrow> bool" where
  "idle J g = (\<forall>nid tg st t. J nid = Some (tg, st, t) \<longrightarrow> guestOf tg = g \<longrightarrow> nativeTerminal st)"

inductive nativeStep :: "incusEnv \<Rightarrow> submissions \<times> incusEvent list \<Rightarrow> submissions \<times> incusEvent list \<Rightarrow> bool"
  for E :: incusEnv where
  Other: "\<not> nativeMutation ev \<Longrightarrow> nativeStep E (J, tr) (J, ev # tr)"
| Submit: "J nid = None \<Longrightarrow> idle J (guestOf tg) \<Longrightarrow>
    nativeStep E (J, tr) (J(nid \<mapsto> (tg, ''submitted'', t)), tr)"
| Send: "J nid = None \<Longrightarrow> idle J (guestOf tg) \<Longrightarrow>
    nativeStep E (J, tr) (J(nid \<mapsto> (tg, ''submitted'', t)), ev # tr)"
| Observe: "J nid = Some (tg, st, t) \<Longrightarrow> \<not> nativeTerminal st \<Longrightarrow> st' \<in> set nativeStates \<Longrightarrow>
    nativeStep E (J, tr) (J(nid \<mapsto> (tg, st', t')), tr)"
| Expire: "J nid = Some (tg, st, t) \<Longrightarrow> nativeTerminal st \<Longrightarrow> t < x_now E n - nativeOperationRetention \<Longrightarrow>
    nativeStep E (J, tr) (J(nid := None), tr)"

abbreviation nativeLife :: "incusEnv \<Rightarrow> submissions \<times> incusEvent list \<Rightarrow> submissions \<times> incusEvent list \<Rightarrow> bool" where
  "nativeLife E \<equiv> (nativeStep E)\<^sup>*\<^sup>*"

definition singleFlight :: "submissions \<Rightarrow> bool" where
  "singleFlight J = (\<forall>a b tg tg' st st' t t'. J a = Some (tg, st, t) \<longrightarrow> J b = Some (tg', st', t') \<longrightarrow>
     guestOf tg = guestOf tg' \<longrightarrow> \<not> nativeTerminal st \<longrightarrow> \<not> nativeTerminal st' \<longrightarrow> a = b)"

lemma submit_singleFlight:
  "J nid = None \<Longrightarrow> idle J (guestOf tg) \<Longrightarrow> singleFlight J \<Longrightarrow> singleFlight (J(nid \<mapsto> (tg, st, t)))"
  unfolding singleFlight_def idle_def by (simp del: split_paired_All split: if_splits)

lemma nativeStep_singleFlight: "nativeStep E s t \<Longrightarrow> singleFlight (fst s) \<Longrightarrow> singleFlight (fst t)"
proof (induction rule: nativeStep.induct)
  case (Observe J nid tg st t st' tr t')
  then show ?case unfolding singleFlight_def by (simp split: if_splits) metis
next
  case (Expire J nid tg st t n tr)
  then show ?case unfolding singleFlight_def by (simp split: if_splits)
qed (simp_all add: submit_singleFlight)

lemma nativeLife_singleFlight: "nativeLife E s t \<Longrightarrow> singleFlight (fst s) \<Longrightarrow> singleFlight (fst t)"
  by (induction rule: rtranclp_induct) (simp_all add: nativeStep_singleFlight)

lemma nativeStep_terminal:
  "nativeStep E s t \<Longrightarrow> fst s nid = Some (tg, st, u) \<Longrightarrow> nativeTerminal st \<Longrightarrow>
   (\<And>n. x_now E n \<le> u + nativeOperationRetention) \<Longrightarrow> fst t nid = Some (tg, st, u)"
proof (induction rule: nativeStep.induct)
  case (Expire J nid' tg' st' t' n tr)
  have "nid' \<noteq> nid"
  proof
    assume "nid' = nid"
    then have "u < x_now E n - nativeOperationRetention" using Expire by simp
    with Expire(6)[of n] show False by simp
  qed
  with Expire show ?case by simp
qed auto

lemma nativeLife_terminal:
  "nativeLife E s t \<Longrightarrow> fst s nid = Some (tg, st, u) \<Longrightarrow> nativeTerminal st \<Longrightarrow>
   (\<And>n. x_now E n \<le> u + nativeOperationRetention) \<Longrightarrow> fst t nid = Some (tg, st, u)"
  by (induction rule: rtranclp_induct) (auto dest: nativeStep_terminal)

text \<open>While a record is kept, the id stays bound to the same target.\<close>

lemma nativeStep_target:
  "nativeStep E s t \<Longrightarrow> fst s nid = Some (tg, r) \<Longrightarrow> fst t nid = None \<or> (\<exists>r'. fst t nid = Some (tg, r'))"
  by (induction rule: nativeStep.induct) (cases r; auto)+

section \<open>Abstraction\<close>

definition nativeOf :: "iworld \<Rightarrow> nativeOperation list" where
  "nativeOf w = (case i_native w of None \<Rightarrow> []
     | Some f \<Rightarrow> (case jn_body f of None \<Rightarrow> [] | Some (_, vs) \<Rightarrow> vs))"

definition targetOf :: "nativeOperation \<Rightarrow> target" where
  "targetOf v = (no_project v, no_instance v, no_uuid v, no_action v, no_snapshot v)"

definition nkey :: "nativeOperation \<Rightarrow> string \<times> target \<times> string \<times> int" where
  "nkey v = (no_id v, targetOf v, no_state v, no_updatedAt v)"

definition absNative :: "nativeOperation list \<Rightarrow> submissions" where
  "absNative vs = map_of (map nkey vs)"

definition absOps :: "iworld \<Rightarrow> submissions \<times> incusEvent list" where
  "absOps w = (absNative (nativeOf w), i_trace w)"

definition progresses :: "incusEnv \<Rightarrow> iworld \<Rightarrow> iworld \<Rightarrow> bool" where
  "progresses E w w' = nativeLife E (absOps w) (absOps w')"

definition soundOp :: "nativeOperation \<Rightarrow> bool" where
  "soundOp v = (validName (no_id v) \<and> validName (no_project v) \<and> validName (no_instance v)
     \<and> validName (no_snapshot v) \<and> uuidPattern (no_uuid v)
     \<and> no_action v \<in> {''snapshot'', ''restore''} \<and> no_state v \<in> set nativeStates)"

lemma clean_words:
  "cleanText ''snapshot'' = ''snapshot''" "cleanText ''restore'' = ''restore''"
  "st \<in> set nativeStates \<Longrightarrow> cleanText st = st"
  by (auto intro!: cleanText_ascii simp: ascii_def nativeStates_def)

lemma nkey_decoded: "soundOp v \<Longrightarrow> nkey (decodedNativeOp v) = nkey v"
  by (auto simp: soundOp_def nkey_def targetOf_def decodedNativeOp_def clean_simps clean_words)

lemma absNative_decoded:
  "\<forall>v\<in>set vs. soundOp v \<Longrightarrow> absNative (map decodedNativeOp vs) = absNative vs"
  unfolding absNative_def by (rule arg_cong[where f = map_of]) (simp add: nkey_decoded)

lemma checkNativeOp_sound: "checkNativeOp host known v = None \<Longrightarrow> soundOp v \<and> no_id v \<notin> known \<and> no_hostID v = host"
  by (auto simp: checkNativeOp_def soundOp_def split: if_splits)

lemma checkNativeOps_sound:
  "checkNativeOps host known vs = None \<Longrightarrow>
   (\<forall>v\<in>set vs. soundOp v \<and> no_hostID v = host) \<and> distinct (map no_id vs) \<and> known \<inter> no_id ` set vs = {}"
proof (induction host known vs rule: checkNativeOps.induct)
  case (2 host known v vs)
  then show ?case using checkNativeOp_sound[of host known v] by (auto split: option.splits)
qed simp

lemma absNative_simps:
  "absNative [] = Map.empty"
  "absNative (v # vs) = (absNative vs)(no_id v \<mapsto> (targetOf v, no_state v, no_updatedAt v))"
  by (auto simp: absNative_def nkey_def)

lemma absNative_None: "absNative vs nid = None \<longleftrightarrow> nid \<notin> no_id ` set vs"
  by (induction vs) (auto simp: absNative_simps)

lemma absNative_Some: "absNative vs nid = Some b \<Longrightarrow> \<exists>v\<in>set vs. nkey v = (nid, b)"
  unfolding absNative_def by (drule map_of_SomeD) auto

lemma absNative_snoc:
  "no_id v \<notin> no_id ` set vs \<Longrightarrow>
   absNative (vs @ [v]) = (absNative vs)(no_id v \<mapsto> (targetOf v, no_state v, no_updatedAt v))"
  by (induction vs) (auto simp: absNative_simps fun_upd_twist)

lemma splitNative_Some:
  "splitNative nid vs = Some (a, v, b) \<Longrightarrow> vs = a @ v # b \<and> no_id v = nid \<and> nid \<notin> no_id ` set a"
  by (induction nid vs arbitrary: a rule: splitNative.induct) (auto split: if_splits option.splits)

lemma absNative_split:
  assumes "nid = no_id v" and "nid \<notin> no_id ` set a"
  shows "absNative (a @ v # b) = (absNative (a @ b))(nid \<mapsto> (targetOf v, no_state v, no_updatedAt v))"
  using assms by (induction a) (auto simp: absNative_simps fun_upd_twist)

lemma loadNative_wp:
  "wp (loadNativeOperations E)
     (\<lambda>r t. still w t \<and> (\<forall>d. r = Inr d \<longrightarrow> d = nativeOf w \<and> checkNativeOps (b_hostID E) {} d = None)) w"
proof (rule wp_conj)
  show "wp (loadNativeOperations E) (\<lambda>r t. still w t) w"
    by (rule st.wp_frame) (rule st.on_loadNativeOperations)
  show "wp (loadNativeOperations E)
      (\<lambda>r t. \<forall>d. r = Inr d \<longrightarrow> d = nativeOf w \<and> checkNativeOps (b_hostID E) {} d = None) w"
    unfolding loadNativeOperations_def readJournal_def
    by (auto simp: wp_def icall_def itick_def nativeOf_def tryE_def checkE_def
        split: prod.splits sum.splits option.splits if_splits)
qed

lemma saveNative_wp:
  "wp (saveNativeOperations E vs) (\<lambda>r t. i_trace t = i_trace w \<and> i_intents t = i_intents w \<and>
     (r \<noteq> None \<and> i_native t = i_native w \<or> nativeOf t = map decodedNativeOp vs)) w"
  unfolding saveNativeOperations_def writeJournal_def Let_def
  by (auto simp: wp_def icall_def itick_def checkE_def nativeOf_def newJournal_def
      split: prod.splits option.splits)

lemma still_native: "still w t \<Longrightarrow> nativeOf t = nativeOf w"
  by (simp add: still_def nativeOf_def)

interpretation nt: native_frame "progresses E" for E
proof
  fix s t u :: iworld
  show "progresses E s s" by (simp add: progresses_def)
  show "progresses E s t \<Longrightarrow> progresses E t u \<Longrightarrow> progresses E s u" by (simp add: progresses_def)
next
  fix w n show "progresses E w (w\<lparr>i_tick := n\<rparr>)"
    by (simp add: progresses_def absOps_def nativeOf_def)
next
  fix w and f :: "createIntent journalFile option" show "progresses E w (w\<lparr>i_intents := f\<rparr>)"
    by (simp add: progresses_def absOps_def nativeOf_def)
next
  fix w and ev
  have *: "\<not> nativeMutation ev \<Longrightarrow> progresses E w (w\<lparr>i_trace := ev # i_trace w\<rparr>)" for ev
    by (auto simp: progresses_def absOps_def nativeOf_def intro: nativeStep.Other)
  show "observation ev \<Longrightarrow> progresses E w (w\<lparr>i_trace := ev # i_trace w\<rparr>)"
    by (rule *) (cases ev; simp)
  show "progresses E w (w\<lparr>i_trace := Cli args # i_trace w\<rparr>)" for args by (rule *) simp
qed

lemma progresses_trans: "progresses E s t \<Longrightarrow> progresses E t u \<Longrightarrow> progresses E s u"
  by (rule nt.step_trans)

lemma saveNative_step:
  assumes "\<forall>v\<in>set vs. soundOp v" and "nativeLife E (absOps w) (absNative vs, i_trace w)"
  shows "moves (progresses E) (saveNativeOperations E vs) w"
  unfolding moves_wp
proof (rule wp_mono[OF saveNative_wp])
  fix r :: "err option" and t
  assume "i_trace t = i_trace w \<and> i_intents t = i_intents w \<and>
    (r \<noteq> None \<and> i_native t = i_native w \<or> nativeOf t = map decodedNativeOp vs)"
  then show "progresses E w t"
    using assms(2) absNative_decoded[OF assms(1)]
    by (auto simp: progresses_def absOps_def nativeOf_def)
qed

text \<open>Replacing a record that is not terminal.\<close>

lemma replaced_op:
  assumes sp: "splitNative nid d = Some (a, v, b)" and chk: "checkNativeOps host {} d = None"
    and "nativeOf s = d" and "\<not> nativeTerminal (no_state v)"
    and "no_id v' = no_id v" and "targetOf v' = targetOf v" and st: "no_state v' \<in> set nativeStates"
  shows "moves (progresses E) (saveNativeOperations E (a @ v' # b)) s"
proof (rule saveNative_step)
  note d = splitNative_Some[OF sp]
  have sound: "\<forall>v\<in>set d. soundOp v" using checkNativeOps_sound[OF chk] by blast
  then have "soundOp v" using d by auto
  then have "soundOp v'" using assms(5,6) st by (auto simp: soundOp_def targetOf_def)
  with sound d show "\<forall>v\<in>set (a @ v' # b). soundOp v" by auto
  have old: "absNative d = (absNative (a @ b))(nid \<mapsto> (targetOf v, no_state v, no_updatedAt v))"
    using d absNative_split[of nid v a b] by auto
  have "absNative (a @ v' # b) = (absNative d)(nid \<mapsto> (targetOf v, no_state v', no_updatedAt v'))"
    using d absNative_split[of nid v' a b] assms(5,6) old by auto
  moreover have "nativeStep E (absNative d, i_trace s)
      ((absNative d)(nid \<mapsto> (targetOf v, no_state v', no_updatedAt v')), i_trace s)"
    using assms(4) st by (intro nativeStep.Observe[of _ _ _ "no_state v" "no_updatedAt v"]) (simp_all add: old)
  ultimately show "nativeLife E (absOps s) (absNative (a @ v' # b), i_trace s)"
    using assms(3) by (auto simp: absOps_def)
qed

section \<open>Status and closing\<close>

definition sameOp :: "nativeOperation \<Rightarrow> nativeOperation \<Rightarrow> bool" where
  "sameOp v v' = (no_id v' = no_id v \<and> targetOf v' = targetOf v \<and> no_hostID v' = no_hostID v
     \<and> no_workID v' = no_workID v \<and> no_actorID v' = no_actorID v)"

definition evolved :: "nativeOperation \<Rightarrow> nativeOperation \<Rightarrow> bool" where
  "evolved v v' = (sameOp v v' \<and> (no_state v \<in> set nativeStates \<longrightarrow> no_state v' \<in> set nativeStates))"

lemmas evolved_defs = evolved_def sameOp_def targetOf_def nativeStates_def

lemma evolved_refl: "evolved v v"
  by (simp add: evolved_def sameOp_def)

lemma evolved_trans: "evolved u v \<Longrightarrow> evolved v w \<Longrightarrow> evolved u w"
  by (auto simp: evolved_def sameOp_def)

lemma adopt_evolved: "evolved v (adopt op v)"
  by (simp add: adopt_def Let_def evolved_defs)

lemma settlePoll_evolved: "evolved v (settlePoll E r e v)"
  unfolding settlePoll_def by (simp add: evolved_defs split: option.splits)

lemma settleSubmission_evolved: "evolved v (settleSubmission E r e v)"
  unfolding settleSubmission_def by (simp add: evolved_defs split: option.splits sum.splits)

lemma run_bindD:
  "run_state (State_Monad.bind m f) s = (x, u) \<Longrightarrow> \<exists>y t. run_state m s = (y, t) \<and> run_state (f y) t = (x, u)"
  by (auto split: prod.splits)

lemma reconcileLostAck_evolved: "run_state (reconcileLostAck E v) s = (v', t) \<Longrightarrow> evolved v v'"
  unfolding reconcileLostAck_def
  by (auto simp: evolved_refl adopt_evolved split: prod.splits if_splits option.splits list.splits)

lemma observeNative_evolved:
  assumes "run_state (observeNative E v) s = (v', t)"
  shows "evolved v v'"
proof -
  obtain u s' where first: "run_state (if no_nativeID v = [] then reconcileLostAck E v else return v) s = (u, s')"
    by fastforce
  then have "evolved v u"
    by (auto split: if_splits dest: reconcileLostAck_evolved simp: evolved_refl)
  moreover have "evolved u v'"
    using assms first unfolding observeNative_def
    by (auto simp: settlePoll_evolved split: prod.splits if_splits)
      (simp_all add: evolved_defs)
  ultimately show ?thesis by (rule evolved_trans)
qed

lemma reverifyGuest_evolved: "run_state (reverifyGuest E v) s = (v', t) \<Longrightarrow> evolved v v'"
  unfolding reverifyGuest_def Let_def tryE_def checkE_def
  by (auto split: prod.splits if_splits option.splits sum.splits) (simp_all add: evolved_defs)

text \<open>Reading the journal first: the continuation starts from the records that were read.\<close>

lemma loadNative_then:
  assumes "\<And>e. state_io_rel (progresses E) (h e)"
    and "\<And>d t. nativeOf t = d \<Longrightarrow> checkNativeOps (b_hostID E) {} d = None \<Longrightarrow> still s t \<Longrightarrow> moves (progresses E) (f d) t"
  shows "moves (progresses E) (tryE (loadNativeOperations E) h f) s"
proof (rule nt.moves_tryE)
  show "moves (progresses E) (loadNativeOperations E) s" by (intro moves_all nt.looking)
  show "moves (progresses E) (h e) t" for e t by (intro moves_all assms)
  fix d t
  assume "run_state (loadNativeOperations E) s = (Inr d, t)"
  from wp_runD[OF loadNative_wp this] show "moves (progresses E) (f d) t"
    by (intro assms(2)) (auto simp: still_native)
qed

lemma tick_native: "run_state (inow E) s = (x, t) \<Longrightarrow> nativeOf t = nativeOf s"
  by (auto simp: inow_def itick_def nativeOf_def)

lemma still_run: "state_io_rel still m \<Longrightarrow> run_state m s = (x, t) \<Longrightarrow> nativeOf t = nativeOf s"
  by (auto dest: state_io_relD still_native)

lemma native_nativeStatusLocked: "state_io_rel (progresses E) (nativeStatusLocked E req)"
proof (rule all_moves)
  fix s
  have save: "moves (progresses E) (saveNativeOperations E (a @ v\<lparr>no_updatedAt := now\<rparr> # b)) t3"
    if d: "nativeOf t = d" "checkNativeOps (b_hostID E) {} d = None"
      and sp: "splitNative (n_operationID req) d = Some (a, v1, b)" and nt: "\<not> nativeTerminal (no_state v1)"
      and r1: "run_state (observeNative E v1) t = (v0, t1)" and r2: "run_state (reverifyGuest E v0) t1 = (v, t2)"
      and r3: "run_state (inow E) t2 = (now, t3)" for t d a v1 b v0 t1 v t2 now t3
  proof (rule replaced_op[OF sp d(2)])
    have ev: "evolved v1 v"
      using evolved_trans[OF observeNative_evolved[OF r1] reverifyGuest_evolved[OF r2]] .
    have "soundOp v1" using splitNative_Some[OF sp] checkNativeOps_sound[OF d(2)] by auto
    with ev show "no_state (v\<lparr>no_updatedAt := now\<rparr>) \<in> set nativeStates"
      by (simp add: evolved_def soundOp_def)
    show "no_id (v\<lparr>no_updatedAt := now\<rparr>) = no_id v1" "targetOf (v\<lparr>no_updatedAt := now\<rparr>) = targetOf v1"
      using ev by (simp_all add: evolved_def sameOp_def targetOf_def)
    show "nativeOf t3 = d"
      using d(1) still_run[OF st.on_observeNative r1] still_run[OF st.on_reverifyGuest r2] tick_native[OF r3]
      by simp
  qed (rule nt)
  show "moves (progresses E) (nativeStatusLocked E req) s"
    unfolding nativeStatusLocked_def Let_def
    by (auto intro!: loadNative_then nt.moves_if nt.moves_return nt.moves_option nt.moves_prod nt.moves_bind
        nt.moves_checkE nt.steps save moves_all[OF nt.on_observeNative] moves_all[OF nt.on_reverifyGuest]
        moves_all[OF nt.on_calls(2)] split del: if_split)
qed

lemma native_resolveUncertainLocked: "state_io_rel (progresses E) (resolveUncertainLocked E req approval)"
proof (rule all_moves)
  fix s
  have save: "moves (progresses E) (saveNativeOperations E
      (a @ v\<lparr>no_state := ''closed_unverified'', no_updatedAt := now, no_diagnostic := dg\<rparr> # b)) t1"
    if d: "nativeOf t = d" "checkNativeOps (b_hostID E) {} d = None"
      and sp: "splitNative (n_operationID req) d = Some (a, v, b)" and un: "no_state v = ''outcome_uncertain''"
      and r: "run_state (inow E) t = (now, t1)" for t d a v b now t1 dg
    using un d(1) tick_native[OF r]
    by (intro replaced_op[OF sp d(2)]) (auto simp: nativeTerminal_def targetOf_def nativeStates_def)
  show "moves (progresses E) (resolveUncertainLocked E req approval) s"
    unfolding resolveUncertainLocked_def Let_def
    by (auto intro!: loadNative_then nt.moves_if nt.moves_return nt.moves_option nt.moves_prod nt.moves_bind
        nt.moves_checkE nt.moves_tryE nt.steps save moves_all[OF native_nativeStatusLocked]
        moves_all[OF nt.on_selectInstance] moves_all[OF nt.on_absenceScans]
        moves_all[OF nt.on_calls(2)] split del: if_split)
qed

lemma native_watch: "state_io_rel (progresses E) (watchNativeOperation E req n)"
  by (induction n) (auto intro!: nt.looking native_nativeStatusLocked)

section \<open>Submission\<close>

lemma expire_some:
  assumes "distinct (map no_id vs)" and "dom J \<inter> no_id ` set vs = {}"
    and "\<And>v. v \<in> set vs \<Longrightarrow> \<not> P v \<Longrightarrow>
      nativeTerminal (no_state v) \<and> no_updatedAt v < x_now E k - nativeOperationRetention"
  shows "nativeLife E (J ++ absNative vs, tr) (J ++ absNative (filter P vs), tr)"
  using assms
proof (induction vs arbitrary: J)
  case (Cons v vs)
  let ?b = "(targetOf v, no_state v, no_updatedAt v)"
  have fresh: "absNative vs (no_id v) = None" "J (no_id v) = None"
    using Cons.prems by (auto simp: absNative_None)
  have swap: "J ++ absNative (v # vs) = J(no_id v \<mapsto> ?b) ++ absNative vs"
    using fresh by (auto simp: absNative_simps map_add_def fun_eq_iff split: option.splits)
  show ?case
  proof (cases "P v")
    case True
    have "absNative (filter P vs) (no_id v) = None"
      using fresh(1) by (auto simp: absNative_None)
    then have "J ++ absNative (filter P (v # vs)) = J(no_id v \<mapsto> ?b) ++ absNative (filter P vs)"
      using True by (auto simp: absNative_simps map_add_def fun_eq_iff split: option.splits)
    moreover have "dom (J(no_id v \<mapsto> ?b)) \<inter> no_id ` set vs = {}"
      using Cons.prems(1,2) unfolding dom_fun_upd by simp
    with Cons.prems have "nativeLife E (J(no_id v \<mapsto> ?b) ++ absNative vs, tr) (J(no_id v \<mapsto> ?b) ++ absNative (filter P vs), tr)"
      using Cons.IH[of "J(no_id v \<mapsto> ?b)"] by (simp del: fun_upd_apply)
    ultimately show ?thesis unfolding swap by simp
  next
    case False
    have "nativeStep E (J ++ absNative (v # vs), tr) ((J ++ absNative (v # vs))(no_id v := None), tr)"
      using Cons.prems(3)[of v] False
      by (intro nativeStep.Expire[where tg = "targetOf v" and st = "no_state v" and t = "no_updatedAt v" and n = k])
        (auto simp: absNative_simps)
    moreover have "(J ++ absNative (v # vs))(no_id v := None) = J ++ absNative vs"
      unfolding swap using fresh by (auto simp: map_add_def fun_eq_iff split: option.splits)
    moreover have "nativeLife E (J ++ absNative vs, tr) (J ++ absNative (filter P vs), tr)"
      using Cons.prems by (intro Cons.IH) auto
    ultimately show ?thesis using False by (auto intro: converse_rtranclp_into_rtranclp)
  qed
qed simp

lemma prune_life:
  assumes "distinct (map no_id vs)"
  shows "nativeLife E (absNative vs, tr) (absNative (pruneNativeOperations (x_now E k) vs), tr)"
  using expire_some[OF assms, of Map.empty "\<lambda>v. \<not> (nativeTerminal (no_state v) \<and> no_updatedAt v < x_now E k - nativeOperationRetention)" E k tr]
  by (simp add: pruneNativeOperations_def)

definition requestTarget :: "incusRequest \<Rightarrow> target" where
  "requestTarget req = (n_project req, n_instance req, n_uuid req, n_operation req, n_snapshot req)"

text \<open>A submission that may go ahead: its id is new, its guest idle, its names valid.\<close>

definition admissible :: "incusRequest \<Rightarrow> nativeOperation list \<Rightarrow> bool" where
  "admissible req vs = (n_operationID req \<notin> no_id ` set vs \<and> (\<forall>v\<in>set vs. \<not> inFlightFor req v)
     \<and> (\<forall>v\<in>set vs. soundOp v) \<and> distinct (map no_id vs)
     \<and> validName (n_operationID req) \<and> validName (n_project req) \<and> validName (n_instance req)
     \<and> validName (n_snapshot req) \<and> uuidPattern (n_uuid req) \<and> n_operation req \<in> {''snapshot'', ''restore''})"

lemma admissible_prune: "admissible req vs \<Longrightarrow> admissible req (pruneNativeOperations t vs)"
  by (auto simp: admissible_def pruneNativeOperations_def distinct_map_filter)

lemma admissible_idle: "admissible req vs \<Longrightarrow> idle (absNative vs) (guestOf (requestTarget req))"
  unfolding idle_def
proof (intro allI impI)
  fix nid tg st t
  assume adm: "admissible req vs" and "absNative vs nid = Some (tg, st, t)" and g: "guestOf tg = guestOf (requestTarget req)"
  then obtain v where v: "v \<in> set vs" "nkey v = (nid, tg, st, t)" using absNative_Some by blast
  then show "nativeTerminal st"
    using adm g by (auto simp: admissible_def nkey_def targetOf_def requestTarget_def inFlightFor_def)
qed

definition newOp :: "incusEnv \<Rightarrow> incusRequest \<Rightarrow> summary \<Rightarrow> int \<Rightarrow> int \<Rightarrow> nativeOperation" where
  "newOp E req latest t1 t2 = \<lparr>no_hostID = b_hostID E, no_workID = s_workID latest, no_actorID = n_actorID req,
            no_id = n_operationID req, no_project = n_project req, no_instance = n_instance req,
            no_uuid = n_uuid req, no_action = n_operation req, no_snapshot = n_snapshot req,
            no_nativeID = [], no_state = ''submitted'', no_nativeTerminal = [], no_diagnostic = [],
            no_submittedAt = t1, no_updatedAt = t2\<rparr>"

text \<open>\<open>booked\<close>: the record of the submission is on disk, and nothing has been sent for it yet.\<close>

definition booked :: "incusEnv \<Rightarrow> incusRequest \<Rightarrow> nativeOperation list \<Rightarrow> int \<Rightarrow> iworld \<Rightarrow> iworld \<Rightarrow> bool" where
  "booked E req kept t2 s t = (i_trace t = i_trace s \<and> nativeLife E (absOps s) (absNative kept, i_trace s)
     \<and> admissible req kept
     \<and> absNative (nativeOf t) = (absNative kept)(n_operationID req \<mapsto> (requestTarget req, ''submitted'', t2)))"

lemma booked_free:
  "booked E req kept t2 s t \<Longrightarrow> absNative kept (n_operationID req) = None \<and> idle (absNative kept) (guestOf (requestTarget req))"
  using admissible_idle by (auto simp: booked_def admissible_def absNative_None)

lemma booked_progresses: "booked E req kept t2 s t \<Longrightarrow> progresses E s t"
  using booked_free[of E req kept t2 s t] nativeStep.Submit[of "absNative kept" "n_operationID req" "requestTarget req" E "i_trace s" t2]
  by (auto simp: booked_def progresses_def absOps_def intro: rtranclp.rtrancl_into_rtrancl)

lemma booked_send:
  "booked E req kept t2 s t \<Longrightarrow> progresses E s (t\<lparr>i_trace := ev # i_trace t\<rparr>)"
  using booked_free[of E req kept t2 s t] nativeStep.Send[of "absNative kept" "n_operationID req" "requestTarget req" E "i_trace s" t2 ev]
  by (auto simp: booked_def progresses_def absOps_def nativeOf_def intro: rtranclp.rtrancl_into_rtrancl)

lemma booked_ticks: "booked E req kept t2 s t \<Longrightarrow> booked E req kept t2 s (t\<lparr>i_tick := n\<rparr>)"
  by (simp add: booked_def nativeOf_def)

lemma new_op_saved:
  assumes "admissible req kept" and "nativeLife E (absOps s) (absNative kept, i_trace s)"
    and "run_state (saveNativeOperations E (kept @ [newOp E req latest t1 t2])) s = (r, t)"
  shows "if r = None then booked E req kept t2 s t else progresses E s t"
proof -
  let ?v = "newOp E req latest t1 t2"
  have key: "no_id ?v = n_operationID req" "targetOf ?v = requestTarget req" "no_state ?v = ''submitted''" "no_updatedAt ?v = t2"
    by (simp_all add: newOp_def targetOf_def requestTarget_def)
  have sound: "\<forall>v\<in>set (kept @ [?v]). soundOp v"
    using assms(1) by (auto simp: admissible_def soundOp_def newOp_def nativeStates_def)
  have new: "absNative (map decodedNativeOp (kept @ [?v])) =
      (absNative kept)(n_operationID req \<mapsto> (requestTarget req, ''submitted'', t2))"
    unfolding absNative_decoded[OF sound] using assms(1) absNative_snoc[of ?v kept] key
    by (simp add: admissible_def)
  have "booked E req kept t2 s t" if "nativeOf t = map decodedNativeOp (kept @ [?v])" "i_trace t = i_trace s"
    unfolding booked_def that using assms(1,2) new by simp
  moreover have "progresses E s t" if "i_native t = i_native s" "i_trace t = i_trace s"
    using that by (simp add: progresses_def absOps_def nativeOf_def)
  ultimately show ?thesis
    using wp_runD[OF saveNative_wp assms(3)] booked_progresses by fastforce
qed

lemma socketLoop_run: "\<exists>n. snd (run_state (socketLoop E ps) t) = t\<lparr>i_tick := n\<rparr>"
proof (induction ps arbitrary: t)
  case Nil
  show ?case by (rule exI[of _ "i_tick t"]) simp
next
  case (Cons p ps)
  show ?case
    using Cons[of "t\<lparr>i_tick := Suc (i_tick t)\<rparr>"] by (auto simp: itick_def split: option.splits)
qed

lemma nativeRequest_run:
  assumes "run_state (nativeRequest E m r body tag) t = (x, u)"
  shows "\<exists>n. u = t\<lparr>i_tick := n\<rparr> \<or> u = t\<lparr>i_trace := Api m r # i_trace t, i_tick := n\<rparr>"
proof -
  obtain p v where sock: "run_state (socketLoop E [''/var/lib/incus/unix.socket'', ''/run/incus/unix.socket'']) t = (p, v)"
    by fastforce
  then obtain n where "v = t\<lparr>i_tick := n\<rparr>"
    using socketLoop_run[of E "[''/var/lib/incus/unix.socket'', ''/run/incus/unix.socket'']" t] by auto
  with sock assms show ?thesis
    by (auto simp: nativeRequest_def checkE_def icall_def itick_def native_def Let_def
        simp del: socketLoop.simps
        split: prod.splits if_splits option.splits apiAnswer.splits)
qed

lemma booked_mutation:
  assumes "booked E req kept t2 s t" and "run_state (sendMutation E req payload etag) t = (x, u)"
  shows "progresses E s u \<and> nativeOf u = nativeOf t"
proof -
  obtain m r body tag where "sendMutation E req payload etag = nativeRequest E m r body tag"
    unfolding sendMutation_def by metis
  with assms(2) obtain n where "u = t\<lparr>i_tick := n\<rparr> \<or> u = t\<lparr>i_trace := Api m r # i_trace t, i_tick := n\<rparr>"
    using nativeRequest_run by metis
  then show ?thesis
    using booked_progresses[OF booked_ticks[OF assms(1), of n]]
      progresses_trans[OF booked_send[OF assms(1), of "Api m r"] nt.ticks[of E _ n]]
    by (auto simp: nativeOf_def)
qed

lemma sent_op_saved:
  assumes "booked E req kept t2 s t" and "nativeOf u = nativeOf t"
    and "evolved (newOp E req latest t1 t2) v"
  shows "moves (progresses E) (saveNativeOperations E (kept @ [v\<lparr>no_updatedAt := now\<rparr>])) u"
proof (rule saveNative_step)
  let ?v = "v\<lparr>no_updatedAt := now\<rparr>"
  have adm: "admissible req kept" using assms(1) by (simp add: booked_def)
  have v: "no_id ?v = n_operationID req" "targetOf ?v = requestTarget req" "no_state ?v \<in> set nativeStates"
    using assms(3) by (auto simp: evolved_defs newOp_def requestTarget_def)
  then show "\<forall>v\<in>set (kept @ [?v]). soundOp v"
    using adm by (auto simp: admissible_def soundOp_def targetOf_def requestTarget_def)
  let ?J = "absNative (nativeOf u)"
  have J: "?J = (absNative kept)(n_operationID req \<mapsto> (requestTarget req, ''submitted'', t2))"
    using assms(1,2) by (simp add: booked_def)
  have "absNative (kept @ [?v]) = ?J(n_operationID req \<mapsto> (requestTarget req, no_state ?v, no_updatedAt ?v))"
    using absNative_snoc[of ?v kept] v adm J by (simp add: admissible_def)
  moreover have "nativeStep E (?J, i_trace u) (?J(n_operationID req \<mapsto> (requestTarget req, no_state ?v, no_updatedAt ?v)), i_trace u)"
    using v(3) by (intro nativeStep.Observe[of _ _ _ "''submitted''" t2]) (simp_all add: J nativeTerminal_def)
  ultimately show "nativeLife E (absOps u) (absNative (kept @ [?v]), i_trace u)"
    by (auto simp: absOps_def)
qed

text \<open>Saving the record and sending the mutation, together, are steps of the machine.\<close>

definition settleBooked :: "incusEnv \<Rightarrow> nativeOperation list \<Rightarrow> nativeOperation \<Rightarrow> incusResult \<Rightarrow>
    nativeAPIResponse \<Rightarrow> err option \<Rightarrow> (incusResult \<times> err option) iprog" where
  "settleBooked E kept entry result answer err = do {
     now \<leftarrow> inow E;
     (let entry' = (settleSubmission E answer err entry)\<lparr>no_updatedAt := now\<rparr>
      in checkE (saveNativeOperations E (kept @ [entry']))
           (\<lambda>e. return (result\<lparr>rs_operation := Some entry'\<rparr>,
              Some (wrapErr ''native_operation_outcome_uncertain: native submission may have started but acknowledgement could not be durably recorded'' e)))
           (return (result\<lparr>rs_operation := Some entry', rs_status := no_state entry',
              rs_diagnostic := (if err \<noteq> None \<or> no_state entry' = ''outcome_uncertain''
                                then no_diagnostic entry' else [])\<rparr>, None))) }"

definition sendBooked :: "incusEnv \<Rightarrow> incusRequest \<Rightarrow> string \<Rightarrow> string \<Rightarrow> nativeOperation list \<Rightarrow> nativeOperation \<Rightarrow>
    incusResult \<Rightarrow> (incusResult \<times> err option) iprog" where
  "sendBooked E req payload etag kept entry result = do {
     (answer, err) \<leftarrow> sendMutation E req payload etag;
     settleBooked E kept entry result answer err }"

lemma persistAndSend_eq:
  "persistAndSend E req latest journal payload etag result = do {
     t1 \<leftarrow> inow E; t2 \<leftarrow> inow E; t3 \<leftarrow> inow E;
     checkE (saveNativeOperations E (pruneNativeOperations t3 journal @ [newOp E req latest t1 t2]))
       (\<lambda>e. return (result, Some e))
       (sendBooked E req payload etag (pruneNativeOperations t3 journal) (newOp E req latest t1 t2) result) }"
  unfolding persistAndSend_def newOp_def sendBooked_def settleBooked_def Let_def ..

lemma sendBooked_progresses:
  assumes "booked E req kept t2 s t"
  shows "progresses E s (snd (run_state (sendBooked E req payload etag kept (newOp E req latest t1 t2) result) t))"
proof -
  obtain answer err u where r: "run_state (sendMutation E req payload etag) t = ((answer, err), u)"
    by (metis surj_pair)
  note u = booked_mutation[OF assms r]
  have "moves (progresses E) (settleBooked E kept (newOp E req latest t1 t2) result answer err) u"
    unfolding settleBooked_def Let_def
    by (intro nt.moves_bind nt.moves_checkE nt.moves_return moves_all[OF nt.on_calls(2)]
        sent_op_saved[OF assms _ settleSubmission_evolved]) (simp add: tick_native u)
  then show ?thesis
    using u r by (auto simp: sendBooked_def moves_def intro: progresses_trans)
qed

lemma booked_after_save:
  assumes "admissible req journal" and "nativeOf s = journal" and "t3 = x_now E k"
    and "run_state (saveNativeOperations E (pruneNativeOperations t3 journal @ [newOp E req latest t1 t2])) s = (r, t)"
  shows "if r = None then booked E req (pruneNativeOperations t3 journal) t2 s t else progresses E s t"
proof -
  have "nativeLife E (absOps s) (absNative (pruneNativeOperations t3 journal), i_trace s)"
    using prune_life[of journal E "i_trace s" k] assms(1-3) by (simp add: absOps_def admissible_def)
  from new_op_saved[OF admissible_prune[OF assms(1)] this assms(4)] show ?thesis .
qed

lemma persistAndSend_moves:
  assumes adm: "admissible req journal" and jn: "nativeOf s = journal"
  shows "moves (progresses E) (persistAndSend E req latest journal payload etag result) s"
proof -
  have last: "moves (progresses E) (checkE (saveNativeOperations E (pruneNativeOperations t3 journal @ [newOp E req latest t1 t2]))
       (\<lambda>e. return (result, Some e))
       (sendBooked E req payload etag (pruneNativeOperations t3 journal) (newOp E req latest t1 t2) result)) u"
    if un: "nativeOf u = journal" and ex: "\<exists>k. t3 = x_now E k" for t1 t2 t3 u
  proof -
    obtain k where k: "t3 = x_now E k" using ex by blast
    obtain r v where r: "run_state (saveNativeOperations E (pruneNativeOperations t3 journal @ [newOp E req latest t1 t2])) u = (r, v)"
      by fastforce
    from booked_after_save[OF adm un k r] r show ?thesis
      by (auto simp: moves_def checkE_def sendBooked_progresses split: option.splits if_splits)
  qed
  show ?thesis
    unfolding persistAndSend_eq
    by (intro nt.moves_bind last moves_all[OF nt.on_calls(2)])
      (use jn in \<open>auto simp: nativeOf_def inow_def itick_def\<close>)
qed

lemma nativeConflict_None:
  assumes "run_state (nativeConflict E req) s = (None, t)"
  shows "\<forall>v\<in>set (nativeOf s). \<not> inFlightFor req v"
proof -
  have "wp (nativeConflict E req) (\<lambda>r t. r = None \<longrightarrow> (\<forall>v\<in>set (nativeOf s). \<not> inFlightFor req v)) s"
    unfolding nativeConflict_def wp_tryE
    by (rule wp_mono[OF loadNative_wp]) (auto simp: find_None_iff split: sum.splits option.splits)
  from wp_runD[OF this assms] show ?thesis by simp
qed

lemma selectInstance_names:
  assumes "run_state (selectInstance E req) s = (Inr x, t)"
  shows "validName (n_project req) \<and> validName (n_instance req) \<and> uuidPattern (n_uuid req)"
  using assms by (auto simp: selectInstance_def split: if_splits)

lemma submitNative_moves:
  assumes "n_operation req \<in> {''snapshot'', ''restore''}" and "validName (n_snapshot req)"
  shows "moves (progresses E) (submitNativeLocked E req x) s"
proof -
  have persist: "moves (progresses E) (persistAndSend E req latest d payload etag result) u"
    if "validName (n_operationID req)" and d: "nativeOf t = d" "checkNativeOps (b_hostID E) {} d = None"
      and fnd: "find (\<lambda>v. no_id v = n_operationID req) d = None"
      and cf: "run_state (nativeConflict E req) t1 = (None, t2)"
      and sel: "run_state (selectInstance E req) t2 = (Inr latest, t3)"
      and same: "nativeOf t1 = nativeOf t" "nativeOf u = nativeOf t3"
    for d t t1 t2 t3 u latest payload etag result
  proof (rule persistAndSend_moves)
    have "nativeOf t2 = nativeOf t1" using still_run[OF st.on_nativeConflict cf] .
    then show "nativeOf u = d" using d same still_run[OF st.on_selectInstance sel] by simp
    show "admissible req d"
      unfolding admissible_def
      using that(1) assms fnd checkNativeOps_sound[OF d(2)] nativeConflict_None[OF cf] d same(1)
        selectInstance_names[OF sel] by (auto simp: find_None_iff)
  qed
  show ?thesis
    unfolding submitNativeLocked_def Let_def
    by (auto intro!: loadNative_then nt.moves_if nt.moves_return nt.moves_option nt.moves_prod nt.moves_tryE
        nt.moves_checkE nt.steps moves_all[OF nt.on_snapshots] moves_all[OF nt.on_nativeConflict]
        moves_all[OF nt.on_selectInstance] moves_all[OF nt.on_prepareNativeRestore] persist
        dest: still_run[OF st.on_snapshots] still_run[OF st.on_prepareNativeRestore] split del: if_split)
qed

end
