(* ===== verification/IncusProps.thy ===== *)
theory IncusProps
  imports IncusNativeLife
begin

text \<open>What the managed Incus backend guarantees over any sequence of calls, with any failures.\<close>

section \<open>Whole calls\<close>

lemma on_guestOperation_native: "state_io_rel (progresses E) (guestOperation E req approval secret base)"
proof -
  have "moves (progresses E) (submitNativeLocked E req x) t"
    if "n_operation req = ''snapshot'' \<or> n_operation req = ''restore''" "\<not> \<not> validName (n_snapshot req)" for x t
    using that by (intro submitNative_moves) auto
  then show ?thesis
    unfolding guestOperation_def Let_def
    by (auto intro!: all_moves nt.moves_tryE nt.moves_checkE nt.moves_if nt.moves_bind nt.moves_sum
        nt.moves_return moves_all[OF nt.on_selectInstance] moves_all[OF nt.on_guestCommand] nt.commands
        moves_all[OF nt.on_snapshots] moves_all[OF nt.on_nativeConflict] split del: if_split)
qed

lemma on_runIncus_native: "state_io_rel (progresses E) (runIncus E req approval secret)"
  unfolding runIncus_def readyOperation_def Let_def
  by (intro nt.looking native_nativeStatusLocked native_resolveUncertainLocked nt.on_abandonCreate
      nt.on_createGuest on_guestOperation_native)

lemma on_incusSteps_native: "state_io_rel (progresses E) (incusSteps E cs)"
proof (induction cs)
  case (Cons c cs)
  have "state_io_rel (progresses E) (incusStep E c)"
    by (cases c) (auto intro!: nt.steps on_runIncus_native native_watch nt.on_recoverable)
  with Cons show ?case by (auto intro!: nt.steps)
qed (auto intro: nt.steps)

lemmas run_native = nt.run_frame[OF on_incusSteps_native, unfolded progresses_def]

abbreviation afterCalls :: "incusEnv \<Rightarrow> incusCall list \<Rightarrow> iworld \<Rightarrow> iworld" where
  "afterCalls E cs w \<equiv> snd (run_state (incusSteps E cs) w)"

lemma example_bindings:
  "absIntents (intentsOf exampleIncusWorld) =
   [''op-0'' \<mapsto> (''default'', ''web'', Abandoned), ''op-1'' \<mapsto> (''default'', ''web'', Confirmed exampleUUID)]"
  by (auto simp: absIntents_def intentsOf_def binding_def phaseOf_def example_incus_defs fun_eq_iff)

section \<open>Creation\<close>

text \<open>C13. The create journal and the native commands together behave as the lifecycle machine: every
  sequence of calls of the backend, whatever Incus answers and whichever system calls fail, is a
  sequence of steps of that machine, and without an approved call it takes no step that abandons or
  retires an entry.\<close>

theorem create_lifecycle_refined:
  "lifecycle (\<exists>c\<in>set cs. approvedCall c) (absCreate w) (absCreate (afterCalls E cs w))"
  by (rule run_lifecycle) blast


text \<open>An abandoned operation id stays abandoned for ever, and nothing is launched under it again.\<close>

theorem abandoned_never_relaunched:
  assumes "absIntents (intentsOf w) op = Some (p, n, Abandoned)"
  shows "absIntents (intentsOf (afterCalls E cs w)) op = Some (p, n, Abandoned) \<and>
    filter (\<lambda>ev. map_option fst (launchTarget ev) = Some op) (i_trace (afterCalls E cs w)) =
    filter (\<lambda>ev. map_option fst (launchTarget ev) = Some op) (i_trace w)"
  using lifecycle_abandoned[OF run_lifecycle[of cs True w E], of op p n] assms by (simp add: absCreate_def)

theorem abandoned_never_relaunched_witness:
  "absIntents (intentsOf exampleIncusWorld) ''op-0'' = Some (''default'', ''web'', Abandoned) \<and>
   absIntents (intentsOf (afterCalls exampleIncus [Run exampleGuestRequest True []] exampleIncusWorld)) ''op-0'' =
     Some (''default'', ''web'', Abandoned)"
  using abandoned_never_relaunched[of exampleIncusWorld "''op-0''" "''default''" "''web''" exampleIncus
      "[Run exampleGuestRequest True []]"] by (simp add: example_bindings)

text \<open>Without an approved call, the entry of a confirmed guest stays in the journal with the same
  project, name and UUID: a replacement guest never inherits it.\<close>

theorem confirmed_binding_kept:
  assumes "absIntents (intentsOf w) op = Some (p, n, Confirmed u)"
    and "\<forall>c\<in>set cs. \<not> approvedCall c"
  shows "absIntents (intentsOf (afterCalls E cs w)) op = Some (p, n, Confirmed u)"
  using lifecycle_confirmed[OF run_lifecycle[of cs False w E], of op p n u] assms by (simp add: absCreate_def)

theorem confirmed_binding_kept_witness:
  "absIntents (intentsOf exampleIncusWorld) ''op-1'' = Some (''default'', ''web'', Confirmed exampleUUID) \<and>
   absIntents (intentsOf (afterCalls exampleIncus [Run exampleGuestRequest False []] exampleIncusWorld)) ''op-1'' =
     Some (''default'', ''web'', Confirmed exampleUUID)"
  using confirmed_binding_kept[of exampleIncusWorld "''op-1''" "''default''" "''web''" exampleUUID
      "[Run exampleGuestRequest False []]" exampleIncus] by (simp add: example_bindings)

text \<open>At most one live operation reserves a project and name: if the journal starts so, every
  sequence of calls keeps it so.\<close>

theorem one_live_create_per_name:
  assumes "exclusive (absIntents (intentsOf w))"
  shows "exclusive (absIntents (intentsOf (afterCalls E cs w)))"
  using lifecycle_exclusive[OF run_lifecycle[of cs True w E]] assms by (simp add: absCreate_def)

theorem one_live_create_per_name_witness:
  "exclusive (absIntents (intentsOf exampleIncusWorld)) \<and>
   exclusive (absIntents (intentsOf (afterCalls exampleIncus [Run exampleGuestRequest True []] exampleIncusWorld)))"
proof -
  have "exclusive (absIntents (intentsOf exampleIncusWorld))"
    by (auto simp: example_bindings exclusive_def split: if_splits)
  then show ?thesis
    using one_live_create_per_name[of exampleIncusWorld exampleIncus "[Run exampleGuestRequest True []]"] by simp
qed

section \<open>Native operations\<close>

text \<open>C14. The journal of snapshot and restore operations and the requests on the native socket
  together behave as the submission machine: a request is sent only for a record that is already on
  disk and new, terminal records never change, and only terminal records past the retention disappear.\<close>

theorem native_operations_refined: "nativeLife E (absOps w) (absOps (afterCalls E cs w))"
  by (rule run_native)

text \<open>At most one unfinished native operation per guest: if the journal starts so, every sequence
  of calls keeps it so.\<close>

theorem one_native_operation_in_flight:
  assumes "singleFlight (absNative (nativeOf w))"
  shows "singleFlight (absNative (nativeOf (afterCalls E cs w)))"
  using nativeLife_singleFlight[OF run_native[of E w cs]] assms by (simp add: absOps_def)

lemma example_submissions:
  "absNative (nativeOf exampleIncusWorld) =
   [''snap-1'' \<mapsto> ((''default'', ''web'', exampleUUID, ''snapshot'', ''s1''), ''native_failed'', 1700000000000000000)]"
  by (auto simp: absNative_def nativeOf_def nkey_def targetOf_def example_incus_defs)

theorem one_native_operation_in_flight_witness:
  "singleFlight (absNative (nativeOf exampleIncusWorld)) \<and>
   singleFlight (absNative (nativeOf (afterCalls exampleIncus [Run exampleGuestRequest True []] exampleIncusWorld)))"
proof -
  have "singleFlight (absNative (nativeOf exampleIncusWorld))"
    by (auto simp: example_submissions singleFlight_def split: if_splits)
  then show ?thesis
    using one_native_operation_in_flight[of exampleIncusWorld exampleIncus "[Run exampleGuestRequest True []]"] by simp
qed

text \<open>A terminal outcome is final: while the clock stays within the retention of its record, no
  sequence of calls changes its target, its state or its time.\<close>

theorem native_terminal_final:
  assumes "absNative (nativeOf w) nid = Some (tg, st, t)" and "nativeTerminal st"
    and "\<And>k. x_now E k \<le> t + nativeOperationRetention"
  shows "absNative (nativeOf (afterCalls E cs w)) nid = Some (tg, st, t)"
  using nativeLife_terminal[OF run_native[of E w cs], of nid tg st t] assms by (simp add: absOps_def)

theorem native_terminal_final_witness:
  "absNative (nativeOf (afterCalls exampleIncus [Run exampleGuestRequest True []] exampleIncusWorld)) ''snap-1'' =
   Some ((''default'', ''web'', exampleUUID, ''snapshot'', ''s1''), ''native_failed'', 1700000000000000000)"
  by (rule native_terminal_final)
    (simp_all add: example_submissions nativeTerminal_def exampleIncus_def nativeOperationRetention_def)

section \<open>What a call may send\<close>

text \<open>\<open>sameOn P\<close>: no event of kind \<open>P\<close> that is not an observation has been added.\<close>

definition sameOn :: "(incusEvent \<Rightarrow> bool) \<Rightarrow> iworld \<Rightarrow> iworld \<Rightarrow> bool" where
  "sameOn P w w' = (filter (\<lambda>ev. P ev \<and> \<not> observation ev) (i_trace w') =
     filter (\<lambda>ev. P ev \<and> \<not> observation ev) (i_trace w))"

interpretation sm: incus_frame "sameOn P" for P
  by unfold_locales (auto simp: sameOn_def)

lemma still_sameOn: "still s t \<Longrightarrow> sameOn P s t"
proof -
  have "list_all observation seen \<Longrightarrow> filter (\<lambda>ev. P ev \<and> \<not> observation ev) seen = []" for seen
    by (induction seen) auto
  then show "still s t \<Longrightarrow> sameOn P s t" by (auto simp: still_def sameOn_def)
qed

lemma sameOn_saves:
  "state_io_rel (sameOn P) (saveNativeOperations E vs)" "state_io_rel (sameOn P) (saveIntents E xs)"
  unfolding saveNativeOperations_def saveIntents_def Let_def
  by (auto intro!: sm.basic sm.on_writeJournal simp: sameOn_def)

lemma sameOn_status: "state_io_rel (sameOn P) (nativeStatusLocked E req)"
  unfolding nativeStatusLocked_def Let_def by (intro sm.looking sameOn_saves)

lemma sameOn_resolve: "state_io_rel (sameOn P) (resolveUncertainLocked E req approval)"
  unfolding resolveUncertainLocked_def Let_def by (intro sm.looking sameOn_status sameOn_saves)

subsection \<open>Replays\<close>

interpretation ms: native_frame "sameOn nativeMutation"
  by unfold_locales (auto simp: sameOn_def)

lemma submit_replay:
  assumes "n_operationID req \<in> no_id ` set (nativeOf s)"
  shows "moves (sameOn P) (submitNativeLocked E req x) s"
proof -
  have found: "find (\<lambda>v. no_id v = n_operationID req) (nativeOf s) \<noteq> None"
    using assms by (auto simp: find_None_iff)
  have replay: "moves (sameOn P) (case find (\<lambda>v. no_id v = n_operationID req) d of None \<Rightarrow> m | Some prior \<Rightarrow> g prior) t"
    if "run_state (loadNativeOperations E) s = (Inr d, t)" "\<And>prior. moves (sameOn P) (g prior) t" for d t m g
    using wp_runD[OF loadNative_wp that(1)] found that(2) by (auto split: option.splits)
  show ?thesis
    unfolding submitNativeLocked_def Let_def
    by (intro sm.moves_if sm.moves_return sm.moves_tryE replay moves_all[OF sm.on_loadNativeOperations])
qed

lemma guestOperation_replay:
  assumes "n_operationID req \<in> no_id ` set (nativeOf s)"
  shows "moves (sameOn nativeMutation) (guestOperation E req approval secret base) s"
proof -
  have "moves (sameOn nativeMutation) (submitNativeLocked E req x) t"
    if "run_state (selectInstance E req) s = (Inr x, t)" for x t
    using assms still_run[OF st.on_selectInstance that] by (intro submit_replay) simp
  then show ?thesis
    unfolding guestOperation_def Let_def
    by (auto intro!: sm.moves_tryE sm.moves_checkE sm.moves_if sm.moves_bind sm.moves_sum
        sm.moves_return moves_all[OF sm.on_selectInstance] moves_all[OF ms.on_guestCommand] ms.commands
        moves_all[OF sm.on_snapshots] moves_all[OF sm.on_nativeConflict] split del: if_split)
qed

text \<open>Taking the lock only looks: what runs under it starts from the same journals.\<close>

lemma locked_run:
  assumes "run_state (locked E fn) s = (r, u)"
  shows "\<exists>n. u = s\<lparr>i_tick := n\<rparr> \<or> run_state fn (s\<lparr>i_tick := n\<rparr>) = (r, u)"
  using assms
  by (auto simp: locked_def Let_def checkE_def icall_def itick_def
      split: prod.splits option.splits if_splits)

lemma still_trans: "still s t \<Longrightarrow> still t u \<Longrightarrow> still s u"
  by (rule st.step_trans)

lemma sameOn_trans: "sameOn P s t \<Longrightarrow> sameOn P t u \<Longrightarrow> sameOn P s u"
  by (simp add: sameOn_def)

lemma locked_sameOn:
  assumes "still w s" and "\<And>t. still w t \<Longrightarrow> moves (sameOn P) fn t"
  shows "moves (sameOn P) (locked E fn) s"
proof -
  obtain r u where run: "run_state (locked E fn) s = (r, u)" by fastforce
  then obtain t where t: "still s t" "u = t \<or> run_state fn t = (r, u)" using locked_run st.ticks by metis
  have "sameOn P t u" using t(2) assms(2)[OF still_trans[OF assms(1) t(1)]] by (auto simp: moves_def sm.step_refl)
  then show ?thesis using run still_sameOn[OF t(1), of P] sameOn_trans by (auto simp: moves_def)
qed

text \<open>A call that passes the readiness check runs its operation from the same journals.\<close>

lemma run_moves:
  assumes "\<And>base. n_operation req = ''abandon_create'' \<Longrightarrow> state_io_rel (sameOn P) (abandonCreate E req approval base)"
    and "\<And>base. n_operation req = ''create'' \<Longrightarrow> state_io_rel (sameOn P) (createGuest E req base)"
    and "\<And>base t. still w t \<Longrightarrow> n_operation req \<in> set guestOps \<Longrightarrow>
      moves (sameOn P) (guestOperation E req approval secret base) t"
  shows "moves (sameOn P) (runIncus E req approval secret) w"
proof -
  have "moves (sameOn P) (readyOperation E req approval secret) s" if "run_state (ready E) w = (r, s)" for r s
  proof -
    have "still w s" using st.on_ready that by (auto dest: state_io_relD)
    then have "n_operation req \<in> set guestOps \<Longrightarrow> moves (sameOn P) (locked E (guestOperation E req approval secret base)) s" for base
      using assms(3) by (intro locked_sameOn)
    then show ?thesis
      unfolding readyOperation_def Let_def
      by (auto intro!: sm.moves_if sm.moves_bind sm.moves_sum sm.moves_return sm.moves_tryE sm.moves_option
          moves_all[OF sm.on_listGuests] moves_all[OF sm.on_inspect] moves_all[OF sm.on_locked[OF assms(1)]]
          moves_all[OF sm.on_locked[OF assms(2)]] split del: if_split)
  qed
  then show ?thesis
    unfolding runIncus_def
    by (auto intro!: sm.moves_if sm.moves_bind sm.moves_return moves_all[OF sm.on_ready]
        moves_all[OF sm.on_locked] sm.on_operationList sameOn_status sameOn_resolve sm.on_pendingCreates
        split del: if_split)
qed

text \<open>C16. Exact replay: a request whose operation id is already in the journal never sends a second
  native mutation, whatever operation it asks for and however the record ended.\<close>

theorem native_replay_never_mutates:
  assumes "n_operationID req \<in> no_id ` set (nativeOf w)"
  shows "filter nativeMutation (i_trace (snd (run_state (runIncus E req approval secret) w))) =
    filter nativeMutation (i_trace w)"
proof -
  have "moves (sameOn nativeMutation) (runIncus E req approval secret) w"
    using assms still_native
    by (auto intro!: run_moves ms.on_abandonCreate ms.on_createGuest guestOperation_replay)
  moreover have "(\<lambda>ev. nativeMutation ev \<and> \<not> observation ev) = nativeMutation"
  proof
    show "(nativeMutation ev \<and> \<not> observation ev) = nativeMutation ev" for ev by (cases ev) auto
  qed
  ultimately show ?thesis by (simp add: moves_def sameOn_def)
qed

theorem native_replay_never_mutates_witness:
  "n_operationID exampleGuestRequest \<in> no_id ` set (nativeOf exampleIncusWorld) \<and>
   filter nativeMutation (i_trace (snd (run_state (runIncus exampleIncus exampleGuestRequest True []) exampleIncusWorld))) = []"
proof -
  have "n_operationID exampleGuestRequest \<in> no_id ` set (nativeOf exampleIncusWorld)"
    by (simp add: nativeOf_def example_incus_defs)
  then show ?thesis
    using native_replay_never_mutates[of exampleGuestRequest exampleIncusWorld exampleIncus True "[]"]
    by (simp add: exampleIncusWorld_def)
qed

subsection \<open>Approval\<close>

text \<open>The native requests that destroy a guest or its state: a deletion, and the PUT of a restore.\<close>

fun destructive :: "incusEvent \<Rightarrow> bool" where
  "destructive (Cli args) = (take 1 args = [''delete''])"
| "destructive (Api method route) = (method = ''PUT'')"

interpretation ds: create_frame "sameOn destructive"
proof
  show "isLaunch ev \<Longrightarrow> sameOn destructive w (w\<lparr>i_trace := ev # i_trace w\<rparr>)" for ev w
    by (cases ev) (auto simp: sameOn_def)
qed (simp add: sameOn_def)

lemma snapshot_not_destructive:
  assumes "n_operation req = ''snapshot''"
  shows "state_io_rel (sameOn destructive) (submitNativeLocked E req x)"
proof -
  have "state_io_rel (sameOn destructive) (sendMutation E req payload etag)" for payload etag
    unfolding sendMutation_def using assms by (auto intro!: sm.on_nativeRequest simp: sameOn_def)
  then have "state_io_rel (sameOn destructive) (persistAndSend E req latest j payload etag r)" for latest j payload etag r
    unfolding persistAndSend_def Let_def by (intro sm.looking sameOn_saves)
  then show ?thesis
    unfolding submitNativeLocked_def Let_def by (intro sm.looking)
qed

lemma guestOperation_unapproved:
  assumes "n_operation req \<in> set guestOps"
  shows "moves (sameOn destructive) (guestOperation E req False secret base) s"
proof -
  have "moves (sameOn destructive) (guestCommand E req secret x base' args) t"
    if "guestArgs req x = Inr args" "n_operation req \<noteq> ''delete''" "n_operation req \<notin> {''snapshots'', ''snapshot'', ''restore''}"
    for x args base' t
    using that assms
    by (intro moves_all ds.on_guestCommand) (auto simp: guestArgs_def guestOps_def sameOn_def split: if_splits)
  then show ?thesis
    unfolding guestOperation_def Let_def
    by (auto intro!: sm.moves_tryE sm.moves_checkE sm.moves_if sm.moves_bind sm.moves_sum sm.moves_return
        moves_all[OF sm.on_selectInstance] moves_all[OF sm.on_snapshots] moves_all[OF sm.on_nativeConflict]
        moves_all[OF snapshot_not_destructive] split del: if_split)
qed

text \<open>C17. Without the owner's approval no call deletes a guest or restores a snapshot over it.\<close>

theorem destructive_needs_approval:
  "filter destructive (i_trace (snd (run_state (runIncus E req False secret) w))) = filter destructive (i_trace w)"
proof -
  have "moves (sameOn destructive) (runIncus E req False secret) w"
    by (intro run_moves ds.on_abandonCreate ds.on_createGuest guestOperation_unapproved)
  moreover have "(\<lambda>ev. destructive ev \<and> \<not> observation ev) = destructive"
  proof
    fix ev :: incusEvent
    show "(destructive ev \<and> \<not> observation ev) = destructive ev"
    proof (cases ev)
      case (Cli args)
      then show ?thesis by (cases args) (auto simp: numeral_2_eq_2)
    qed auto
  qed
  ultimately show ?thesis by (simp add: moves_def sameOn_def)
qed

subsection \<open>Identity\<close>







end
