(* ===== verification/IncusJournal.thy ===== *)
theory IncusJournal
  imports IncusProps
begin

text \<open>
  The create journal as a store: what is saved is what is loaded, and no call of the backend ever
  leaves a journal behind that the backend itself would refuse to load. The same is not true of
  the journal of native operations: a guest whose work tag is not a valid name gets a record that
  every later load rejects.
\<close>

section \<open>Saved entries are valid entries\<close>

lemma cleanText_not_Nil: "s \<noteq> [] \<Longrightarrow> cleanText s \<noteq> []"
proof -
  assume s: "s \<noteq> []"
  obtain r n where d: "decode_rune s = (r, n)" by fastforce
  then have "n > 0" using decode_rune_width[OF s] by simp
  then have "take n s \<noteq> []" using s by (cases s; cases n) auto
  then show ?thesis
    using s d by (simp add: cleanText_def runes.simps[of s])
qed

lemma imagePattern_ascii: "imagePattern s \<Longrightarrow> ascii s"
  unfolding imagePattern_def by (erule matchesName_ascii) (auto simp: alnum_ascii)

lemma decoded_valid: "validIntent x \<Longrightarrow> validIntent (decodedIntent x)"
  by (auto simp: validIntent_def decodedIntent_def clean_simps imagePattern_ascii cleanText_not_Nil)

lemma decoded_validIntents: "validIntents {} xs \<Longrightarrow> validIntents {} (map decodedIntent xs)"
proof -
  assume v: "validIntents {} xs"
  then have "ci_operationID (decodedIntent x) = ci_operationID x" if "x \<in> set xs" for x
    using that by (auto simp: validIntents_iff validIntent_def decodedIntent_def clean_simps)
  then have "map ci_operationID (map decodedIntent xs) = map ci_operationID xs" by simp
  then show ?thesis
    using v decoded_valid unfolding validIntents_iff by (metis (no_types, lifting) Int_empty_left imageE list.set_map)
qed

section \<open>Operations of the journal\<close>

text \<open>A relation that the four operations of the journal respect, and that does not look at what
  reached Incus or at the other journal, holds across every sequence of calls.\<close>

locale store_frame = incus_frame R for R +
  fixes E :: incusEnv
  assumes events: "R w (w\<lparr>i_trace := ev # i_trace w\<rparr>)"
    and other_journal: "R w (w\<lparr>i_native := f\<rparr>)"
    and reserve: "createInputError req = None \<Longrightarrow> state_io_rel R (reserveCreate E req)"
    and confirm: "state_io_rel R (confirmCreate E op u)"
    and abandon: "state_io_rel R (abandonIntent E req)"
    and retire: "state_io_rel R (retireDeleted E p n op u)"

sublocale store_frame \<subseteq> intents_frame R
  by unfold_locales (auto intro: events other_journal)

context store_frame
begin

lemma on_create: "state_io_rel R (createGuest E req base)"
proof -
  have "state_io_rel R (reconcileExisting E req base x)" "state_io_rel R (launchGuest E req base)"
    if "createInputError req = None" for x
    unfolding reconcileExisting_def launchGuest_def reconcileCreated_def Let_def
    by (intro looking reserve[OF that] confirm on_command events)+
  then show ?thesis
    unfolding createGuest_def Let_def
    by (auto split: option.split intro!: looking split del: if_split)
qed

lemma on_guest: "state_io_rel R (guestOperation E req approval secret base)"
  unfolding guestOperation_def guestCommand_def afterCommand_def Let_def
  by (intro looking on_cli events retire on_submitNativeLocked)

lemma on_run: "state_io_rel R (runIncus E req approval secret)"
  unfolding runIncus_def readyOperation_def abandonCreate_def Let_def
  by (intro looking on_nativeStatusLocked on_resolveUncertainLocked abandon on_create on_guest)

lemma on_calls_all: "state_io_rel R (incusSteps E cs)"
proof (induction cs)
  case (Cons c cs)
  have "state_io_rel R (incusStep E c)"
    by (cases c) (auto intro!: basic on_run on_watch on_recoverable)
  with Cons show ?case by (auto intro!: basic)
qed (auto intro: basic)

end

section \<open>The journal stays loadable\<close>

definition loadableIntents :: "incusEnv \<Rightarrow> iworld \<Rightarrow> bool" where
  "loadableIntents E w = (case i_intents w of None \<Rightarrow> True
     | Some f \<Rightarrow> \<not> jn_symlink f \<and> safeJournal E f \<and> jn_size f \<le> journalLimit
         \<and> (case jn_body f of None \<Rightarrow> False | Some (version, xs) \<Rightarrow> version = 1 \<and> validIntents {} xs))"

definition loads :: "incusEnv \<Rightarrow> iworld \<Rightarrow> iworld \<Rightarrow> bool" where
  "loads E w w' = (b_hostID E \<noteq> [] \<longrightarrow> loadableIntents E w \<longrightarrow> loadableIntents E w')"

lemma saveIntents_loads:
  "validIntents {} xs \<Longrightarrow> state_io_rel (loads E) (saveIntents E xs)"
  using decoded_validIntents[of xs]
  unfolding saveIntents_def writeJournal_def Let_def
  by (auto simp: state_io_rel_def icall_def itick_def checkE_def loads_def loadableIntents_def newJournal_def
      safeJournal_def split: prod.splits option.splits)

interpretation lf: incus_frame "loads E" for E
  by unfold_locales (auto simp: loads_def loadableIntents_def)

lemma validIntents_replace:
  "validIntents {} (a @ x # b) \<Longrightarrow> validIntent y \<Longrightarrow> ci_operationID y = ci_operationID x \<Longrightarrow> validIntents {} (a @ y # b)"
  by (auto simp: validIntents_iff)

lemma confirmed_valid:
  "validIntent x \<Longrightarrow> ci_state x = ''submitted'' \<Longrightarrow> uuidPattern u \<Longrightarrow>
   validIntent (x\<lparr>ci_state := ''confirmed'', ci_nativeUUID := u\<rparr>)"
  by (auto simp: validIntent_def)

lemma abandoned_valid:
  "validIntent x \<Longrightarrow> ci_state x = ''submitted'' \<Longrightarrow>
   validIntent (x\<lparr>ci_state := ''abandoned'', ci_abandonedAt := Some now\<rparr>)"
  by (auto simp: validIntent_def)

lemma loads_confirm: "state_io_rel (loads E) (confirmCreate E op u)"
proof -
  have save: "moves (loads E) (saveIntents E (a @ x\<lparr>ci_state := ''confirmed'', ci_nativeUUID := u\<rparr> # b)) t"
    if u: "uuidPattern u" and d: "validIntents {} d" and sp: "splitOp op d = Some (a, x, b)"
      and st: "ci_state x = ''submitted''" for d t a x b
  proof -
    have "d = a @ x # b" using splitOp_Some[OF sp] by simp
    then have "validIntent x" "validIntents {} (a @ x # b)" using d by (auto simp: validIntents_iff)
    then show ?thesis
      using u st by (intro moves_all saveIntents_loads, elim validIntents_replace) (simp_all add: confirmed_valid)
  qed
  show ?thesis
    unfolding confirmCreate_def
    by (auto intro!: all_moves save lf.load_then lf.steps lf.moving split del: if_split)
qed

lemma loads_abandon: "state_io_rel (loads E) (abandonIntent E req)"
proof -
  have save: "moves (loads E) (saveIntents E (a @ x\<lparr>ci_state := ''abandoned'', ci_abandonedAt := Some now\<rparr> # b)) t"
    if d: "validIntents {} d" and sp: "splitOp (n_operationID req) d = Some (a, x, b)"
      and st: "ci_state x = ''submitted''" for d t a x b now
  proof -
    have "d = a @ x # b" using splitOp_Some[OF sp] by simp
    then have "validIntent x" "validIntents {} (a @ x # b)" using d by (auto simp: validIntents_iff)
    then show ?thesis
      using st by (intro moves_all saveIntents_loads, elim validIntents_replace) (simp_all add: abandoned_valid)
  qed
  show ?thesis
    unfolding abandonIntent_def Let_def
    by (auto intro!: all_moves save lf.load_then lf.steps lf.tick_then lf.checked_save lf.moves_option lf.moves_prod
        lf.moves_if lf.moves_return split del: if_split)
qed

lemma loads_retire: "state_io_rel (loads E) (retireDeleted E p n op u)"
proof -
  have save: "moves (loads E) (saveIntents E kept) t"
    if d: "validIntents {} d" and sc: "retireScan p n op u d = Some (kept, removed)" for d t kept removed
  proof -
    have "validIntents {} kept"
      using retireScan_Some[OF sc] d by (auto simp: validIntents_iff distinct_map_filter)
    then show ?thesis by (intro moves_all saveIntents_loads)
  qed
  show ?thesis
    unfolding retireDeleted_def
    by (auto intro!: all_moves save lf.load_then lf.steps lf.moves_option lf.moves_prod lf.moves_if lf.moves_return
        split del: if_split)
qed

lemma loads_reserve:
  assumes "createInputError req = None"
  shows "state_io_rel (loads E) (reserveCreate E req)"
proof -
  have save: "moves (loads E) (saveIntents E (d @ [intentFor req (b_hostID E) now])) t"
    if d: "validIntents {} d" and sc: "reserveScan (b_hostID E) req d = Inr False" for d t now
  proof (cases "b_hostID E = []")
    case False
    have "n_operationID req \<notin> ci_operationID ` set d"
      using reserveScan_free[OF sc] by (auto simp: free_def absIntents_None)
    then have "validIntents {} (d @ [intentFor req (b_hostID E) now])"
      using d new_intent_valid[OF assms False] by (auto simp: validIntents_iff intentFor_def)
    then show ?thesis by (intro moves_all saveIntents_loads)
  qed (simp add: moves_def loads_def)
  show ?thesis
    unfolding reserveCreate_def
    by (auto intro!: all_moves save lf.load_then lf.steps lf.tick_then lf.checked_save lf.moves_sum lf.moves_bool
        lf.moves_return split del: if_split)
qed

interpretation ld: store_frame "loads E" E for E
  by unfold_locales (auto simp: loads_def loadableIntents_def
      intro!: loads_reserve loads_confirm loads_abandon loads_retire)

text \<open>C21. No call of the backend, whatever fails and whatever Incus answers, leaves a create journal
  that the backend would refuse to load: safe identity, bounded size, version 1, valid entries and no
  operation id twice.\<close>

theorem create_journal_loadable:
  assumes "b_hostID E \<noteq> []" and "loadableIntents E w"
  shows "loadableIntents E (afterCalls E cs w)"
  using lf.run_frame[OF ld.on_calls_all, of E w cs] assms by (simp add: loads_def)

lemma example_valid: "validIntents {} [exampleAbandoned, exampleIntent]"
  by code_simp

theorem create_journal_loadable_witness:
  "loadableIntents exampleIncus exampleIncusWorld \<and>
   loadableIntents exampleIncus (afterCalls exampleIncus [Run exampleGuestRequest True []] exampleIncusWorld)"
proof -
  have "loadableIntents exampleIncus exampleIncusWorld"
    using example_valid
    by (simp add: loadableIntents_def exampleIncusWorld_def newJournal_def safeJournal_def journalLimit_def)
  then show ?thesis
    using create_journal_loadable[of exampleIncus exampleIncusWorld "[Run exampleGuestRequest True []]"]
    by (simp add: exampleIncus_def)
qed

text \<open>Round trip: a journal of valid entries with clean host and type text that was saved without
  an error is loaded back entry for entry.\<close>

theorem create_journal_roundtrip:
  assumes "validIntents {} xs" and "\<forall>x\<in>set xs. ascii (ci_hostID x) \<and> ascii (ci_type x)"
    and "fst (run_state (saveIntents E xs) w) = None" and "\<And>t. x_fault E t = None"
  shows "fst (run_state (loadIntents E) (snd (run_state (saveIntents E xs) w))) = Inr xs"
proof -
  have "decodedIntent x = x" if "x \<in> set xs" for x
    using that assms(1,2)
    by (auto simp: validIntents_iff validIntent_def decodedIntent_def clean_simps imagePattern_ascii)
  then have same: "map decodedIntent xs = xs" by (simp add: map_idI)
  then show ?thesis
    using assms(1,3,4)
    by (auto simp: saveIntents_def writeJournal_def loadIntents_def readJournal_def Let_def icall_def itick_def
        checkE_def tryE_def newJournal_def safeJournal_def split: if_splits)
qed

lemma example_time: "rfc3339Nano 1700000000000000000 = ''2023-11-14T22:13:20Z''"
  by code_simp

lemma example_saved: "fst (run_state (saveIntents exampleIncus [exampleIntent]) exampleIncusWorld) = None"
proof -
  have "length (jsonJournal ''intents'' 1 (map intentJSON [exampleIntent])) \<le> 600"
    by (simp add: jsonJournal_def intentJSON_def exampleIntent_def exampleUUID_def example_time jsonField_def
        jsonOmitEmpty_def jsonString_plain plainChar_def itoa_def itoa_nat.simps digit_char_def)
  then show ?thesis
    by (simp add: saveIntents_def journalLimit_def writeJournal_def checkE_def icall_def itick_def exampleIncus_def Let_def)
qed

theorem create_journal_roundtrip_witness:
  "fst (run_state (loadIntents exampleIncus) (snd (run_state (saveIntents exampleIncus [exampleIntent]) exampleIncusWorld))) =
   Inr [exampleIntent]"
  by (rule create_journal_roundtrip)
    (use example_valid example_saved in \<open>simp_all add: exampleIncus_def exampleIntent_def ascii_def\<close>)

section \<open>A journal that can no longer be loaded\<close>

lemma bad_record_rejected:
  "v \<in> set vs \<Longrightarrow> \<not> validName (no_workID v) \<Longrightarrow> checkNativeOps host known vs \<noteq> None"
proof (induction vs arbitrary: known)
  case (Cons w vs)
  then show ?case
    by (cases "v = w") (auto simp: checkNativeOp_def split: option.splits)
qed simp

lemma settle_workID: "no_workID (settleSubmission E a e v) = no_workID v"
  by (simp add: settleSubmission_def split: option.splits sum.splits)

lemma persistAndSend_recorded:
  assumes "snd (fst (run_state (persistAndSend E req latest journal payload etag result) s)) = None"
  shows "\<exists>v\<in>set (nativeOf (snd (run_state (persistAndSend E req latest journal payload etag result) s))).
    no_workID v = cleanText (s_workID latest)"
proof -
  have "wp (persistAndSend E req latest journal payload etag result) (\<lambda>r t. snd r = None \<longrightarrow>
      (\<exists>v\<in>set (nativeOf t). no_workID v = cleanText (s_workID latest))) s"
  proof -
    have save: "wp (checkE (saveNativeOperations E (kept @ [v])) (\<lambda>e. return (y, Some (z e))) (return (x, None)))
        (\<lambda>r t. snd r = None \<longrightarrow> (\<exists>x\<in>set (nativeOf t). no_workID x = cleanText (no_workID v))) u"
      for kept v u x and y :: incusResult and z :: "err \<Rightarrow> err"
      unfolding wp_checkE by (rule wp_mono[OF saveNative_wp]) (auto simp: decodedNativeOp_def split: option.splits)
    have settle: "wp (settleBooked E kept (newOp E req latest t1 t2) result answer err) (\<lambda>r t. snd r = None \<longrightarrow>
        (\<exists>v\<in>set (nativeOf t). no_workID v = cleanText (s_workID latest))) u" for kept t1 t2 answer err u
      unfolding settleBooked_def Let_def wp_bind wp_run[of "inow E"]
      by (rule wp_mono[OF save]) (simp add: settle_workID newOp_def)
    show ?thesis
      unfolding persistAndSend_eq sendBooked_def wp_bind wp_checkE
      by (simp add: wp_run[of "inow E"] wp_run[of "saveNativeOperations _ _"] wp_run[of "sendMutation _ _ _ _"]
          settle split: option.splits prod.splits)
  qed
  with assms show ?thesis by (simp add: wp_run)
qed

lemma nativeOf_cong: "i_native s = i_native t \<Longrightarrow> nativeOf s = nativeOf t"
  by (simp add: nativeOf_def)

text \<open>A snapshot or restore that was accepted for a guest whose work tag is not a valid name leaves a
  journal that every later load rejects: from then on the conflict check fails for every guest of the
  host, so no guest can be started, stopped, entered, snapshotted, restored or deleted.\<close>

theorem invalid_work_tag_blocks_host:
  assumes "snd (fst (run_state (persistAndSend E req latest journal payload etag result) s)) = None"
    and "\<not> validName (cleanText (s_workID latest))"
    and "i_native t = i_native (snd (run_state (persistAndSend E req latest journal payload etag result) s))"
  shows "fst (run_state (nativeConflict E' req') t) \<noteq> None"
proof -
  obtain v where "v \<in> set (nativeOf t)" "\<not> validName (no_workID v)"
    using persistAndSend_recorded[OF assms(1)] assms(2) nativeOf_cong[OF assms(3)] by auto
  then have bad: "checkNativeOps (b_hostID E') {} (nativeOf t) \<noteq> None" by (rule bad_record_rejected)
  have "wp (nativeConflict E' req') (\<lambda>r _. r \<noteq> None) t"
    unfolding nativeConflict_def wp_tryE
    by (rule wp_mono[OF loadNative_wp]) (use bad in \<open>auto split: sum.splits\<close>)
  then show ?thesis by (simp add: wp_run)
qed

definition exampleGuest :: summary where
  "exampleGuest = \<lparr>s_hostID = ''host-1'', s_project = ''default'', s_name = ''web'', s_uuid = exampleUUID,
     s_generation = [], s_type = ''container'', s_status = ''Running'', s_workID = [], s_operationID = [],
     s_cpu = [], s_memory = [], s_diskLimit = [], s_storagePool = [], s_addresses = [], s_managed = True\<rparr>"

abbreviation exampleEntry :: nativeOperation where
  "exampleEntry \<equiv> newOp exampleIncus exampleGuestRequest exampleGuest 1700000000000000000 1700000000000000000"

abbreviation exampleLost :: nativeOperation where
  "exampleLost \<equiv> exampleEntry\<lparr>no_state := ''outcome_uncertain'', no_diagnostic := ''Native submission/acknowledgement unavailable; inspect operation_status and native Incus operations before any retry''\<rparr>"

lemma example_saves:
  "length (jsonJournal ''operations'' 1 [nativeOpJSON exampleEntry]) \<le> 1000"
  "length (jsonJournal ''operations'' 1 [nativeOpJSON exampleLost]) \<le> 1000"
  by (simp_all add: newOp_def jsonJournal_def nativeOpJSON_def example_time jsonField_def
        jsonOmitEmpty_def jsonString_plain plainChar_def itoa_def itoa_nat.simps digit_char_def
        exampleGuestRequest_def exampleGuest_def exampleIncus_def)

lemma wp_save_example:
  "length (jsonJournal ''operations'' 1 [nativeOpJSON v]) \<le> 1000 \<Longrightarrow> (\<And>t. Q None t) \<Longrightarrow>
   wp (saveNativeOperations exampleIncus [v]) Q s"
  by (simp add: saveNativeOperations_def maxNativeOperationRecords_def journalLimit_def Let_def writeJournal_def
      wp_def checkE_def icall_def itick_def exampleIncus_def)

lemma wp_now_example:
  "(\<And>t. Q 1700000000000000000 t) \<Longrightarrow> wp (inow exampleIncus) Q s"
  by (simp add: wp_def inow_def itick_def exampleIncus_def)

lemma wp_send_example:
  "(\<And>e t. Q (noResponse, Some e) t) \<Longrightarrow> wp (sendMutation exampleIncus exampleGuestRequest [] []) Q s"
  by (simp add: wp_def sendMutation_def exampleGuestRequest_def nativeRequest_def itick_def exampleIncus_def)

lemma example_lost: "settleSubmission E noResponse (Some e) exampleEntry = exampleLost"
  by (simp add: settleSubmission_def noResponse_def rejectedStatus_def)

lemma example_accepted:
  "snd (fst (run_state (persistAndSend exampleIncus exampleGuestRequest exampleGuest [] [] [] emptyResult) exampleIncusWorld)) = None"
proof -
  have upd: "exampleLost\<lparr>no_updatedAt := 1700000000000000000\<rparr> = exampleLost"
    by (simp add: newOp_def)
  have "wp (persistAndSend exampleIncus exampleGuestRequest exampleGuest [] [] [] emptyResult) (\<lambda>r _. snd r = None) exampleIncusWorld"
    unfolding persistAndSend_eq sendBooked_def settleBooked_def Let_def wp_bind wp_checkE pruneNativeOperations_def
      filter.simps append.simps
    by (intro wp_now_example wp_save_example example_saves) 
      (simp add: wp_send_example wp_now_example wp_save_example example_saves example_lost upd)
  then show ?thesis by (simp add: wp_run)
qed

theorem invalid_work_tag_blocks_host_witness:
  "fst (run_state (nativeConflict exampleIncus exampleGuestRequest)
     (snd (run_state (persistAndSend exampleIncus exampleGuestRequest exampleGuest [] [] [] emptyResult) exampleIncusWorld))) \<noteq> None"
  by (rule invalid_work_tag_blocks_host[OF example_accepted])
    (simp_all add: exampleGuest_def validName_def matchesName_def)

section \<open>Storage capacity\<close>

lemma requiredBytes_exact: "0 \<le> d \<Longrightarrow> d < 2 ^ 34 \<Longrightarrow> requiredBytes d = d * 2 ^ 30"
  by (simp add: requiredBytes_def)

lemma checkNativePool_result:
  "fst (run_state (checkNativePool E pool d) w) = None \<longleftrightarrow> validName pool \<and>
     (\<exists>raw tot used. fst (run_state (command E [''query'', ''/1.0/storage-pools/'' @ pathEscape pool @ ''/resources'']) w) = Inr raw
       \<and> d_space E raw = Some (tot, used) \<and> tot \<noteq> 0 \<and> used \<le> tot \<and> requiredBytes d \<le> tot - used)"
  by (auto simp: checkNativePool_def tryE_def split: prod.splits sum.splits option.splits)

text \<open>A create that passes the storage check fits: for fewer than 2^34 GiB, the chosen pool answered
  with at least the requested number of free bytes.\<close>

theorem pool_check_sound:
  assumes "fst (run_state (checkNativePool E pool d) w) = None" and "0 \<le> d" and "d < 2 ^ 34"
  shows "\<exists>raw tot used. d_space E raw = Some (tot, used) \<and> d * 2 ^ 30 \<le> tot - used"
  using assms checkNativePool_result[of E pool d w] requiredBytes_exact[of d] by auto

definition poolIncus :: incusEnv where
  "poolIncus = exampleIncus\<lparr>x_lstat := (\<lambda>_ _. Some \<lparr>ls_uid = 0, ls_regular = True, ls_socket = False, ls_perm = 73\<rparr>),
     d_space := (\<lambda>_. Some (3000000000, 0))\<rparr>"

lemma pool_command: "fst (run_state (command poolIncus args) w) = Inr []"
  by (simp add: command_def cli_def binary_def tryE_def itick_def native_def poolIncus_def exampleIncus_def
      trustedBinary_def Let_def maxOutput_def and_nat_def)

lemma pool_accepts: "requiredBytes d \<le> 3000000000 \<Longrightarrow> fst (run_state (checkNativePool poolIncus ''pool'' d) w) = None"
  unfolding checkNativePool_result pool_command
  by (simp add: poolIncus_def validName_def matchesName_def char_class_defs)

theorem pool_check_sound_witness:
  "fst (run_state (checkNativePool poolIncus ''pool'' 2) exampleIncusWorld) = None \<and>
   (\<exists>raw tot used. d_space poolIncus raw = Some (tot, used) \<and> 2 * 2 ^ 30 \<le> tot - used)"
  using pool_check_sound[of poolIncus "''pool''" 2 exampleIncusWorld] pool_accepts[of 2]
  by (simp add: requiredBytes_def)

text \<open>C23. Beyond that the product wraps: a request for 2^34 GiB (16 EiB) is accepted by every pool
  that answers at all.\<close>

theorem pool_check_wraps:
  assumes "validName pool"
    and "fst (run_state (command E [''query'', ''/1.0/storage-pools/'' @ pathEscape pool @ ''/resources'']) w) = Inr raw"
    and "d_space E raw = Some (tot, used)" and "tot \<noteq> 0" and "used \<le> tot"
  shows "fst (run_state (checkNativePool E pool (2 ^ 34)) w) = None"
  unfolding checkNativePool_result using assms by (auto simp: requiredBytes_def)

theorem pool_check_wraps_witness:
  "fst (run_state (checkNativePool poolIncus ''pool'' (2 ^ 34)) exampleIncusWorld) = None"
  by (rule pool_check_wraps[OF _ pool_command, where tot = 3000000000 and used = 0])
    (simp_all add: poolIncus_def validName_def matchesName_def char_class_defs)

end
