(* ===== verification/FileWorld.thy ===== *)
theory FileWorld
  imports AuditGate Paths "HOL-Library.AList"
begin

text \<open>
  The file system as the file tools see it (\<open>internal/executor/files.go\<close>): names in directories,
  inodes with their metadata and bytes, and the system calls the tools make. Every call is one tick.
  Before it, other processes may have changed names and inodes in any way: what they did is a
  parameter of the environment, like the failure of a call, the clock, the random bytes and the
  inode number the kernel picks. A failing call has no effect; a crash at tick \<open>n\<close> is an
  environment in which every call from \<open>n\<close> on fails. Directory descriptors are numbers: how the
  kernel resolves a directory is a parameter too.
\<close>

unbundle bit_operations_syntax

section \<open>State\<close>

text \<open>An inode: its device and its number.\<close>

datatype inodeId = Ino (id_dev: nat) (id_ino: nat)

text \<open>The durable state of a transfer (\<open>transferRecord\<close> of \<open>workspace_transfer.go\<close>).\<close>

record transferRecord =
  tr_id :: string
  tr_principalID :: string
  tr_principalClass :: string
  tr_workspace :: string
  tr_path :: string
  tr_expectedSize :: int
  tr_sha256 :: string
  tr_received :: int
  tr_fileVersion :: string
  tr_mustNotExist :: bool
  tr_status :: string
  tr_expiresUnix :: int
  tr_resultVersion :: string
  tr_preparedBytes :: int
  tr_preparedHash :: string
  tr_stagedVersion :: string
  tr_preparedDev :: nat
  tr_preparedIno :: nat
  tr_displacedDev :: nat
  tr_displacedIno :: nat
  tr_displacedSnapshot :: string
  tr_exchangeVerified :: bool
  tr_tempName :: string

text \<open>An inode's bytes, and the manifest they are the JSON text of, if they are one.\<close>

record inode =
  in_mode :: "32 word"
  in_uid :: nat
  in_gid :: nat
  in_mtim :: int
  in_ctim :: int
  in_data :: bytes
  in_doc :: "transferRecord option"

text \<open>\<open>unix.Stat_t\<close>; times in nanoseconds.\<close>

record stat =
  st_dev :: nat
  st_ino :: nat
  st_mode :: "32 word"
  st_uid :: nat
  st_gid :: nat
  st_size :: int
  st_mtim :: int
  st_ctim :: int

type_synonym dirEntry = "nat \<times> string"

record fs =
  fs_names :: "(dirEntry \<times> inodeId) list"
  fs_inodes :: "inodeId \<Rightarrow> inode"
  fs_held :: "inodeId list"

text \<open>What the tools did: the calls that change names or bytes, with the inodes they hit, and the
  records that reached the audit log.\<close>

datatype fileEvent =
    Created nat string inodeId
  | Exchanged nat string string inodeId inodeId
  | Installed nat string string inodeId
  | Replaced nat string string inodeId "inodeId option"
  | Unlinked nat string inodeId
  | Linked nat string inodeId
  | FileAuditStart string bool
  | FileAuditComplete string bool

record fworld =
  fw_tick :: nat
  fw_fs :: fs
  fw_degraded :: bool
  fw_busy :: nat
  fw_trace :: "fileEvent list"

type_synonym 'a fprog = "(fworld, 'a) state"

datatype resolveHow = NoSymlinks | BeneathOnly | NoMagicLinks

record fileEnv =
  fe_workspaceDir :: string
  fe_stateDir :: string
  fe_transferQuotaMiB :: int
  fe_transferTTL :: int
  fe_transferSessions :: int
  fe_guard :: Guard
  fe_euid :: nat
  fe_egid :: nat
  fe_workerUID :: nat
  fe_workerSlots :: nat
  fe_others :: "nat \<Rightarrow> fs \<Rightarrow> fs"
  fe_fault :: "nat \<Rightarrow> err option"
  fe_now :: "nat \<Rightarrow> int"
  fe_random :: "nat \<Rightarrow> bytes"
  fe_fresh :: "nat \<Rightarrow> fs \<Rightarrow> inodeId"
  fe_stagingRoot :: nat
  fe_sessionDir :: "string \<Rightarrow> nat"
  fe_stagingBusy :: "nat \<Rightarrow> bool"
  fe_freeBlocks :: "nat \<Rightarrow> int \<times> nat"
  fe_rounds :: nat
  fe_shaNew :: nat
  fe_shaWrite :: "nat \<Rightarrow> bytes \<Rightarrow> nat"
  fe_shaSum :: "nat \<Rightarrow> string"
  fe_shaSave :: "nat \<Rightarrow> string"
  fe_shaLoad :: "string \<Rightarrow> err + nat"
  fe_accepts :: "nat \<Rightarrow> nat"
  fe_touches :: "nat \<Rightarrow> bool"
  fe_openDir :: "nat \<Rightarrow> resolveHow \<Rightarrow> nat option \<Rightarrow> string \<Rightarrow> err + nat"
  fe_follow :: "nat \<Rightarrow> nat \<Rightarrow> string \<Rightarrow> err + inodeId"
  fe_dirPath :: "nat \<Rightarrow> nat \<Rightarrow> string"
  fe_filePath :: "nat \<Rightarrow> inodeId \<Rightarrow> string"
  fe_fsType :: "nat \<Rightarrow> nat"
  fe_sha256 :: "bytes \<Rightarrow> string"
  fe_helperFails :: "nat \<Rightarrow> bool"

section \<open>File types and versions\<close>

definition isRegular :: "32 word \<Rightarrow> bool" where
  "isRegular m = (m AND 0xF000 = 0x8000)"

definition isDirectory :: "32 word \<Rightarrow> bool" where
  "isDirectory m = (m AND 0xF000 = 0x4000)"

definition isSymlink :: "32 word \<Rightarrow> bool" where
  "isSymlink m = (m AND 0xF000 = 0xA000)"

definition statOf :: "inodeId \<Rightarrow> inode \<Rightarrow> stat" where
  "statOf i x = \<lparr>st_dev = id_dev i, st_ino = id_ino i, st_mode = in_mode x, st_uid = in_uid x,
     st_gid = in_gid x, st_size = int (length (in_data x)), st_mtim = in_mtim x, st_ctim = in_ctim x\<rparr>"

definition statId :: "stat \<Rightarrow> inodeId" where
  "statId st = Ino (st_dev st) (st_ino st)"

definition versionMaterial :: "stat \<Rightarrow> string" where
  "versionMaterial st = ''v1:'' @ itoa (int (st_dev st)) @ '':'' @ itoa (int (st_ino st)) @ '':'' @ itoa (st_size st)
     @ '':'' @ itoa (uint (st_mode st)) @ '':'' @ itoa (int (st_uid st)) @ '':'' @ itoa (int (st_gid st))
     @ '':'' @ itoa (st_mtim st div 1000000000) @ '':'' @ itoa (st_mtim st mod 1000000000)
     @ '':'' @ itoa (st_ctim st div 1000000000) @ '':'' @ itoa (st_ctim st mod 1000000000)"

definition fileVersion :: "fileEnv \<Rightarrow> stat \<Rightarrow> string" where
  "fileVersion E st = ''v1:'' @ fe_sha256 E (versionMaterial st)"

definition sameFileIdentity :: "stat \<Rightarrow> stat \<Rightarrow> bool" where
  "sameFileIdentity a b = (st_dev a = st_dev b \<and> st_ino a = st_ino b)"

definition sameFileSnapshot :: "fileEnv \<Rightarrow> stat \<Rightarrow> stat \<Rightarrow> bool" where
  "sameFileSnapshot E a b = (sameFileIdentity a b \<and> fileVersion E a = fileVersion E b)"

definition sameFileCommitState :: "stat \<Rightarrow> stat \<Rightarrow> bool" where
  "sameFileCommitState a b = (sameFileIdentity a b \<and> st_size a = st_size b \<and> st_mode a = st_mode b
     \<and> st_uid a = st_uid b \<and> st_gid a = st_gid b \<and> st_mtim a = st_mtim b)"

section \<open>System calls\<close>

text \<open>The state a call finds: one tick later, with what other processes did.\<close>

definition fadvance :: "fileEnv \<Rightarrow> fworld \<Rightarrow> fworld" where
  "fadvance E w = w\<lparr>fw_tick := fw_tick w + 1, fw_fs := fe_others E (fw_tick w) (fw_fs w)\<rparr>"

text \<open>A call with its tick: it fails without effect, or runs its body.\<close>

definition fcall :: "fileEnv \<Rightarrow> (nat \<Rightarrow> (err + 'a) fprog) \<Rightarrow> (err + 'a) fprog" where
  "fcall E body = State (\<lambda>w. case fe_fault E (fw_tick w) of
       Some e \<Rightarrow> (Inl e, fadvance E w)
     | None \<Rightarrow> run_state (body (fw_tick w)) (fadvance E w))"

definition lookupName :: "fworld \<Rightarrow> nat \<Rightarrow> string \<Rightarrow> inodeId option" where
  "lookupName w d n = map_of (fs_names (fw_fs w)) (d, n)"

definition inodeAt :: "fworld \<Rightarrow> inodeId \<Rightarrow> inode" where
  "inodeAt w i = fs_inodes (fw_fs w) i"

definition setName :: "nat \<Rightarrow> string \<Rightarrow> inodeId \<Rightarrow> fworld \<Rightarrow> fworld" where
  "setName d n i w = w\<lparr>fw_fs := (fw_fs w)\<lparr>fs_names := AList.update (d, n) i (fs_names (fw_fs w))\<rparr>\<rparr>"

definition dropName :: "nat \<Rightarrow> string \<Rightarrow> fworld \<Rightarrow> fworld" where
  "dropName d n w = w\<lparr>fw_fs := (fw_fs w)\<lparr>fs_names := AList.delete (d, n) (fs_names (fw_fs w))\<rparr>\<rparr>"

definition setInode :: "inodeId \<Rightarrow> inode \<Rightarrow> fworld \<Rightarrow> fworld" where
  "setInode i x w = w\<lparr>fw_fs := (fw_fs w)\<lparr>fs_inodes := (fs_inodes (fw_fs w))(i := x)\<rparr>\<rparr>"

definition logEvent :: "fileEvent \<Rightarrow> fworld \<Rightarrow> fworld" where
  "logEvent ev w = w\<lparr>fw_trace := ev # fw_trace w\<rparr>"

text \<open>\<open>Fstat\<close> of an open descriptor, \<open>Fstatat\<close> without following a link (None when the name is absent).\<close>

definition fstat :: "fileEnv \<Rightarrow> inodeId \<Rightarrow> (err + stat) fprog" where
  "fstat E i = fcall E (\<lambda>_. gets (\<lambda>w. Inr (statOf i (inodeAt w i))))"

definition fsyncFD :: "fileEnv \<Rightarrow> (err + unit) fprog" where
  "fsyncFD E = fcall E (\<lambda>_. ok ())"

definition pathState :: "fileEnv \<Rightarrow> nat \<Rightarrow> string \<Rightarrow> (err + stat option) fprog" where
  "pathState E d n = do {
     r \<leftarrow> fcall E (\<lambda>_. gets (\<lambda>w. Inr (map_option (\<lambda>i. statOf i (inodeAt w i)) (lookupName w d n))));
     return (case r of
       Inl e \<Rightarrow> if isNotExist e then Inr None else Inl e
     | Inr x \<Rightarrow> Inr x) }"

definition destinationState :: "fileEnv \<Rightarrow> nat \<Rightarrow> string \<Rightarrow> (err + stat option) fprog" where
  "destinationState E d n = tryE (pathState E d n) fail (\<lambda>st. return (case st of
       None \<Rightarrow> Inr None
     | Some s \<Rightarrow> if isRegular (st_mode s) then Inr (Some s)
                else Inl (newErr ''destination must be a regular file'')))"

definition openDir :: "fileEnv \<Rightarrow> resolveHow \<Rightarrow> nat option \<Rightarrow> string \<Rightarrow> (err + nat) fprog" where
  "openDir E how base p = fcall E (\<lambda>k. return (fe_openDir E k how base p))"

text \<open>The magic numbers of the kernel's control file systems.\<close>

definition pseudoFilesystems :: "nat list" where
  "pseudoFilesystems = [0x9fa0, 0x62656572, 0x64626720, 0x73636673, 0x74726163, 0xcafe4a11, 0x27e0eb, 0x63677270, 0x62656570]"

definition rejectPseudoFilesystem :: "fileEnv \<Rightarrow> (err + unit) fprog" where
  "rejectPseudoFilesystem E = fcall E (\<lambda>k. return
     (if fe_fsType E k \<in> set pseudoFilesystems
      then Inl (newErr ''file tools do not support kernel/control pseudo-filesystems'') else Inr ()))"

section \<open>Temporary files\<close>

definition tempPrefix :: string where
  "tempPrefix = ''.ai-server-agent-write-''"

definition hexByte :: "char \<Rightarrow> string" where
  "hexByte c = [''0123456789abcdef'' ! (byte c div 16), ''0123456789abcdef'' ! (byte c mod 16)]"

definition tempName :: "bytes \<Rightarrow> string" where
  "tempName r = tempPrefix @ concat (map hexByte r)"

text \<open>\<open>Openat\<close> with \<open>O_CREAT|O_EXCL\<close>: a name that is not there yet, an inode the kernel picks.\<close>

definition createExcl :: "fileEnv \<Rightarrow> nat \<Rightarrow> string \<Rightarrow> (err + inodeId) fprog" where
  "createExcl E d n = fcall E (\<lambda>k. do {
     w \<leftarrow> get;
     if lookupName w d n \<noteq> None then fail (Err Exist ''file exists'')
     else (let i = fe_fresh E k (fw_fs w) in do {
       modify (logEvent (Created d n i) \<circ> setName d n i \<circ> setInode i
         \<lparr>in_mode = 0x8180, in_uid = fe_euid E, in_gid = fe_egid E, in_mtim = fe_now E k, in_ctim = fe_now E k, in_data = [], in_doc = None\<rparr>);
       ok i }) })"

definition randomName :: "fileEnv \<Rightarrow> (err + string) fprog" where
  "randomName E = fcall E (\<lambda>k. ok (tempName (fe_random E k)))"

fun createTempLoop :: "fileEnv \<Rightarrow> nat \<Rightarrow> nat \<Rightarrow> (err + inodeId \<times> string) fprog" where
  "createTempLoop E d 0 = fail (newErr ''could not allocate atomic write temporary file'')"
| "createTempLoop E d (Suc attempts) =
     tryE (randomName E) fail (\<lambda>name.
       tryE (createExcl E d name)
         (\<lambda>e. if ekind e \<noteq> Exist then fail e else createTempLoop E d attempts)
         (\<lambda>i. ok (i, name)))"

definition createTempFileAt :: "fileEnv \<Rightarrow> nat \<Rightarrow> (err + inodeId \<times> string) fprog" where
  "createTempFileAt E d = createTempLoop E d 8"

text \<open>
  One \<open>write\<close>, at the descriptor's position, takes as many bytes as the kernel accepts; the loop goes on
  with the rest. (A write
  interrupted by a signal is repeated until it is not: one tick stands for all attempts.)
\<close>

definition overwrite :: "nat \<Rightarrow> bytes \<Rightarrow> bytes \<Rightarrow> bytes" where
  "overwrite pos b old = take pos (old @ replicate (pos - length old) (CHR 0x00)) @ b @ drop (pos + length b) old"

definition writeFD :: "fileEnv \<Rightarrow> inodeId \<Rightarrow> nat \<Rightarrow> bytes \<Rightarrow> (err + nat) fprog" where
  "writeFD E i pos b = fcall E (\<lambda>k. (let n = min (fe_accepts E k) (length b) in do {
     modify (\<lambda>w. (let x = inodeAt w i in
       setInode i (x\<lparr>in_data := overwrite pos (take n b) (in_data x), in_doc := None, in_mtim := fe_now E k, in_ctim := fe_now E k\<rparr>) w));
     ok n }))"

fun writeAllFD :: "fileEnv \<Rightarrow> inodeId \<Rightarrow> nat \<Rightarrow> bytes \<Rightarrow> (err + unit) fprog" where
  "writeAllFD E i pos [] = ok ()"
| "writeAllFD E i pos (c # b) =
     tryE (writeFD E i pos (c # b)) fail (\<lambda>n.
       if n = 0 then fail (newErr ''short write'') else writeAllFD E i (pos + n) (drop (n - 1) b))"

definition fchmod :: "fileEnv \<Rightarrow> inodeId \<Rightarrow> 32 word \<Rightarrow> (err + unit) fprog" where
  "fchmod E i mode = fcall E (\<lambda>k. do {
     modify (\<lambda>w. (let x = inodeAt w i in
       setInode i (x\<lparr>in_mode := (in_mode x AND 0xF000) OR (mode AND 0xFFF), in_ctim := fe_now E k\<rparr>) w));
     ok () })"

definition fchown :: "fileEnv \<Rightarrow> inodeId \<Rightarrow> nat \<Rightarrow> nat \<Rightarrow> (err + unit) fprog" where
  "fchown E i uid gid = fcall E (\<lambda>k. do {
     modify (\<lambda>w. (let x = inodeAt w i in
       setInode i (x\<lparr>in_uid := uid, in_gid := gid, in_ctim := fe_now E k\<rparr>) w));
     ok () })"

section \<open>Renaming and unlinking\<close>

text \<open>A rename may update the change time of the inodes it moves.\<close>

definition touch :: "fileEnv \<Rightarrow> nat \<Rightarrow> inodeId \<Rightarrow> fworld \<Rightarrow> fworld" where
  "touch E k i w = (if fe_touches E k then setInode i ((inodeAt w i)\<lparr>in_ctim := fe_now E k\<rparr>) w else w)"

definition missing :: err where
  "missing = Err NotExist ''no such file or directory''"

definition renameExchange :: "fileEnv \<Rightarrow> nat \<Rightarrow> string \<Rightarrow> string \<Rightarrow> (err + unit) fprog" where
  "renameExchange E d a b = fcall E (\<lambda>k. do {
     w \<leftarrow> get;
     case (lookupName w d a, lookupName w d b) of
       (Some x, Some y) \<Rightarrow> do {
         modify (logEvent (Exchanged d a b x y) \<circ> touch E k x \<circ> touch E k y \<circ> setName d a y \<circ> setName d b x);
         ok () }
     | _ \<Rightarrow> fail missing })"

definition renameNoReplace :: "fileEnv \<Rightarrow> nat \<Rightarrow> string \<Rightarrow> string \<Rightarrow> (err + unit) fprog" where
  "renameNoReplace E d a b = fcall E (\<lambda>k. do {
     w \<leftarrow> get;
     case lookupName w d a of
       None \<Rightarrow> fail missing
     | Some x \<Rightarrow>
       if lookupName w d b \<noteq> None then fail (Err Exist ''file exists'')
       else do { modify (logEvent (Installed d a b x) \<circ> touch E k x \<circ> setName d b x \<circ> dropName d a); ok () } })"

text \<open>Plain \<open>renameat\<close>: two names of one inode stay as they are, a directory is not replaced by a file.\<close>

definition renameOver :: "fileEnv \<Rightarrow> nat \<Rightarrow> string \<Rightarrow> string \<Rightarrow> (err + unit) fprog" where
  "renameOver E d a b = fcall E (\<lambda>k. do {
     w \<leftarrow> get;
     case lookupName w d a of
       None \<Rightarrow> fail missing
     | Some x \<Rightarrow>
       if lookupName w d b = Some x then ok ()
       else if (case lookupName w d b of None \<Rightarrow> False | Some y \<Rightarrow> isDirectory (in_mode (inodeAt w y)))
       then fail (newErr ''is a directory'')
       else do { modify (logEvent (Replaced d a b x (lookupName w d b)) \<circ> touch E k x \<circ> setName d b x \<circ> dropName d a); ok () } })"

definition unlinkAt :: "fileEnv \<Rightarrow> nat \<Rightarrow> string \<Rightarrow> (err + unit) fprog" where
  "unlinkAt E d n = fcall E (\<lambda>k. do {
     w \<leftarrow> get;
     case lookupName w d n of
       None \<Rightarrow> fail missing
     | Some x \<Rightarrow>
       if isDirectory (in_mode (inodeAt w x)) then fail (newErr ''is a directory'')
       else do { modify (logEvent (Unlinked d n x) \<circ> dropName d n); ok () } })"

definition preadFD :: "fileEnv \<Rightarrow> inodeId \<Rightarrow> int \<Rightarrow> int \<Rightarrow> (err + bytes) fprog" where
  "preadFD E i offset limit = fcall E (\<lambda>k. gets (\<lambda>w.
     Inr (take (min (nat limit) (fe_accepts E k)) (drop (nat offset) (in_data (inodeAt w i))))))"

end
