(* ===== verification/FileTools.thy ===== *)
theory FileTools
  imports FileWorld
begin

text \<open>
  The root file tools \<open>read_file\<close> and \<open>write_file\<close> of \<open>internal/executor/files.go\<close>, with the commit by
  \<open>RENAME_EXCHANGE\<close>, its rollback and the final confirmation, which the worker file tools share.
\<close>

section \<open>Answers\<close>

definition maxFileReadBytes :: int where "maxFileReadBytes = 1048576"
definition maxFileWriteBytes :: nat where "maxFileWriteBytes = 1048576"
definition maxFileEncodedBytes :: nat where "maxFileEncodedBytes = 2097152"

definition fileApprovalResponse :: "Decision \<Rightarrow> Response" where
  "fileApprovalResponse dec =
     (failure ''approval_required'' ''approval'' ''approval_required'')\<lparr>r_approval := Some dec\<rparr>"

definition unknownFileCompletion :: "fileEnv \<Rightarrow> string \<Rightarrow> stat option \<Rightarrow> Response" where
  "unknownFileCompletion E message st =
     (let resp = fileError ''unknown_completion'' ''state'' message in
      case st of None \<Rightarrow> resp
      | Some s \<Rightarrow> resp\<lparr>r_fileVersion := fileVersion E s, r_fileSize := Some (st_size s)\<rparr>)"

definition writeFailed :: "err \<Rightarrow> Response" where
  "writeFailed e = fileError ''file_write_failed'' ''io'' (emsg e)"

section \<open>The audit gate on the file world\<close>

definition fileAuditWrite :: "fileEnv \<Rightarrow> fileEvent \<Rightarrow> (err + unit) fprog" where
  "fileAuditWrite E ev = do {
     w \<leftarrow> get;
     if fw_degraded w then fail (newErr ''audit logger is degraded until executor restart after audit-path recovery'')
     else fcall E (\<lambda>_. do { modify (logEvent ev); ok () }) }"

definition fileAuditWriteCompletion :: "fileEnv \<Rightarrow> fileEvent \<Rightarrow> (err + unit) fprog" where
  "fileAuditWriteCompletion E ev = do {
     w \<leftarrow> get;
     if fw_degraded w then fail (newErr ''audit logger is degraded until executor restart after audit-path recovery'')
     else tryE (fcall E (\<lambda>_. do { modify (logEvent ev); ok () }))
       (\<lambda>e. do { modify (\<lambda>w. w\<lparr>fw_degraded := True\<rparr>); fail e })
       (\<lambda>_. ok ()) }"

definition beginFileAudit :: "fileEnv \<Rightarrow> Request \<Rightarrow> string \<Rightarrow> (Response + unit) fprog" where
  "beginFileAudit E req action =
     tryE (fileAuditWrite E (FileAuditStart (auditActionName req action) (q_approval req)))
       (\<lambda>e. fail ((auditUnavailableResponse e)\<lparr>r_requestID := q_requestID req, r_operationID := q_operationID req\<rparr>))
       (\<lambda>_. ok ())"

definition finishFileAudit :: "fileEnv \<Rightarrow> Request \<Rightarrow> string \<Rightarrow> Response \<Rightarrow> Response fprog" where
  "finishFileAudit E req action resp0 =
     (let resp = resp0\<lparr>r_requestID := q_requestID req, r_operationID := q_operationID req\<rparr> in
      tryE (fileAuditWriteCompletion E (FileAuditComplete (auditActionName req action) (r_ok resp)))
        (\<lambda>_. return (resp\<lparr>r_auditDegraded := True, r_auditError := ''audit completion could not be durably recorded; further action-capable operations are blocked until the audit path is repaired and the executor is restarted''\<rparr>))
        (\<lambda>_. return resp))"

section \<open>Opening\<close>

definition validateFilePath :: "string \<Rightarrow> err + string" where
  "validateFilePath p =
     (if p = [] then Inl (newErr ''path is required'')
      else if \<not> isAbs p then Inl (newErr ''file path must be absolute'')
      else let c = clean p in
        if c = [slash] \<or> baseOf c = ''.'' then Inl (newErr ''file path must name a file'') else Inr c)"

definition vanished :: "string \<Rightarrow> bool" where
  "vanished resolved = (hasSuffix resolved '' (deleted)'' \<or> \<not> isAbs resolved)"

definition openFileParent :: "fileEnv \<Rightarrow> string \<Rightarrow> (err + nat \<times> string \<times> string) fprog" where
  "openFileParent E p = (case validateFilePath p of
       Inl e \<Rightarrow> fail e
     | Inr c \<Rightarrow> tryE (openDir E NoMagicLinks None (dirOf c)) (\<lambda>e. fail (wrapErr ''open file parent'' e)) (\<lambda>d.
         tryE (fcall E (\<lambda>k. ok (fe_dirPath E k d))) (\<lambda>e. fail (wrapErr ''resolve file parent'' e)) (\<lambda>resolved.
           if vanished resolved then fail (newErr ''file parent changed during resolution'')
           else ok (d, baseOf c, clean resolved))))"

definition openTargetPath :: "fileEnv \<Rightarrow> nat \<Rightarrow> string \<Rightarrow> (err + inodeId \<times> stat \<times> string) fprog" where
  "openTargetPath E d base =
     tryE (fcall E (\<lambda>k. gets (\<lambda>w. case lookupName w d base of
         None \<Rightarrow> Inl missing
       | Some i \<Rightarrow> if isSymlink (in_mode (inodeAt w i)) then fe_follow E k d base else Inr i))) fail (\<lambda>i.
     tryE (fstat E i) fail (\<lambda>st.
       if \<not> isRegular (st_mode st) then fail (newErr ''file tools support regular files only'')
       else tryE (fcall E (\<lambda>k. ok (fe_filePath E k i))) fail (\<lambda>resolved.
         if vanished resolved then fail (newErr ''file changed during resolution'')
         else ok (i, st, clean resolved))))"

definition fileDecision :: "fileEnv \<Rightarrow> string \<Rightarrow> string \<Rightarrow> string \<Rightarrow> Decision" where
  "fileDecision E action requestedPath effectivePath =
     (let requested = evaluate (fe_guard E) (action @ '' '' @ requestedPath) True in
      if \<not> allowed requested \<or> requiresApproval requested then requested
      else if effectivePath \<noteq> [] \<and> effectivePath \<noteq> requestedPath then
        (let effective = evaluate (fe_guard E) (action @ '' '' @ effectivePath) True in
         if \<not> allowed effective \<or> requiresApproval effective then effective else requested)
      else requested)"

section \<open>read_file\<close>

text \<open>The range answered: where the next one starts, how much is left out, whether this was the end.\<close>

definition rangeResponse :: "string \<Rightarrow> stat \<Rightarrow> int \<Rightarrow> bytes \<Rightarrow> string \<Rightarrow> string \<Rightarrow> Response" where
  "rangeResponse version before offset raw otext encoding =
     (let next_off = offset + int (length raw); omitted = (if next_off < st_size before then st_size before - next_off else 0)
      in zeroResponse\<lparr>r_ok := True, r_output := otext, r_outputEncoding := encoding,
           r_bytesSeen := int (length raw), r_bytesReturned := int (length raw),
           r_truncated := next_off < st_size before, r_omittedBytes := omitted,
           r_requestedOffset := offset, r_nextOffset := Some next_off, r_fileSize := Some (st_size before),
           r_fileVersion := version, r_eof := Some (next_off \<ge> st_size before)\<rparr>)"

definition readRange :: "fileEnv \<Rightarrow> Request \<Rightarrow> inodeId \<Rightarrow> stat \<Rightarrow> int \<Rightarrow> Response fprog" where
  "readRange E req i before limit =
     (let version = fileVersion E before; unavailable = (\<lambda>e. return (fileError ''file_unavailable'' ''state'' (emsg e))) in
      tryE (fcall E (\<lambda>_. ok i)) (\<lambda>e. unavailable (wrapErr ''open resolved file'' e)) (\<lambda>fd.
      tryE (fstat E fd) unavailable (\<lambda>opened.
      if \<not> sameFileIdentity before opened
      then return (fileError ''file_changed'' ''conflict'' ''file changed while opening ranged read'')
      else tryE (preadFD E fd (q_offset req) limit) (\<lambda>e. return (fileError ''file_read_failed'' ''io'' (emsg e))) (\<lambda>raw.
      tryE (fstat E fd) unavailable (\<lambda>after.
      if fileVersion E after \<noteq> version
      then return (fileError ''file_changed'' ''conflict'' ''file changed during ranged read'')
      else (case encodeOutputBytes raw of (otext, encoding) \<Rightarrow>
        if length otext > maxFileEncodedBytes
        then return (fileError ''response_too_large'' ''resource'' ''encoded file response exceeds safety limit'')
        else do {
          fileAuditWrite E (FileAuditComplete ''read_file'' True);
          return ((rangeResponse version before (q_offset req) raw otext encoding)\<lparr>r_offset := Some (q_offset req)\<rparr>) }))))))"

definition readFileTool :: "fileEnv \<Rightarrow> Request \<Rightarrow> Response fprog" where
  "readFileTool E req = (case validateFilePath (q_path req) of
       Inl e \<Rightarrow> return (fileError ''invalid_path'' ''validation'' (emsg e))
     | Inr path \<Rightarrow>
       if q_offset req < 0 then return (fileError ''invalid_offset'' ''validation'' ''offset must be non-negative'')
       else let limit = (if q_limit req = 0 then maxFileReadBytes else q_limit req) in
       if limit < 0 \<or> limit > maxFileReadBytes
       then return (fileError ''invalid_limit'' ''validation'' (''limit must be 0 (default) or between 1 and '' @ itoa maxFileReadBytes @ '' bytes''))
       else tryE (openFileParent E path) (\<lambda>e. return (fileError ''file_unavailable'' ''state'' (emsg e))) (\<lambda>(d, base, _).
       tryE (openTargetPath E d base)
         (\<lambda>e. return (if isNotExist e then fileError ''file_not_found'' ''state'' (emsg e)
                     else fileError ''unsafe_file_type'' ''validation'' (emsg e))) (\<lambda>(i, before, effectivePath).
       tryE (rejectPseudoFilesystem E) (\<lambda>e. return (fileError ''unsupported_file_type'' ''validation'' (emsg e))) (\<lambda>_.
       let dec = fileDecision E ''read'' path effectivePath in
       if \<not> allowed dec then return (fileError ''policy_denied'' ''policy'' (reason dec))
       else if requiresApproval dec \<and> \<not> q_approval req then return (fileApprovalResponse dec)
       else if q_fileVersion req \<noteq> [] \<and> q_fileVersion req \<noteq> fileVersion E before
       then return (fileError ''file_changed'' ''conflict'' ''file version does not match requested consistency token'')
       else readRange E req i before limit))))"

section \<open>The commit\<close>

text \<open>
  A commit returns early with an answer and whether the temporary name is still the tool's own
  (\<open>Inl\<close>), or goes on to the confirmation (\<open>Inr\<close>).
\<close>

type_synonym commitEnd = "(Response \<times> bool) + unit"

definition holds :: "stat \<Rightarrow> stat option \<Rightarrow> bool" where
  "holds st found = (case found of None \<Rightarrow> False | Some s \<Rightarrow> sameFileCommitState st s)"

text \<open>After the second exchange both names must show the old state, before and after a sync.\<close>

definition confirmRollback :: "fileEnv \<Rightarrow> nat \<Rightarrow> string \<Rightarrow> string \<Rightarrow> stat \<Rightarrow> stat \<Rightarrow> (err + unit) fprog" where
  "confirmRollback E d base temp prepared displaced =
     tryE (pathState E d base) (\<lambda>e. fail (wrapErr ''inspect restored destination'' e)) (\<lambda>restoredBase.
     tryE (pathState E d temp) (\<lambda>e. fail (wrapErr ''inspect prepared file after rollback'' e)) (\<lambda>restoredTemp.
     if \<not> holds displaced restoredBase \<or> \<not> holds prepared restoredTemp
     then fail (newErr ''rollback completed but restored identities could not be proven'')
     else tryE (fsyncFD E) (\<lambda>e. fail (wrapErr ''sync restored destination directory'' e)) (\<lambda>_.
     tryE (pathState E d base) (\<lambda>_. fail (newErr ''restored destination changed after rollback sync'')) (\<lambda>baseNow.
     if \<not> holds displaced baseNow then fail (newErr ''restored destination changed after rollback sync'')
     else tryE (pathState E d temp) (\<lambda>_. fail (newErr ''prepared file changed after rollback sync'')) (\<lambda>tempNow.
     if \<not> holds prepared tempNow then fail (newErr ''prepared file changed after rollback sync'')
     else ok ())))))"

definition rollbackExistingExchange :: "fileEnv \<Rightarrow> nat \<Rightarrow> string \<Rightarrow> string \<Rightarrow> stat \<Rightarrow> stat \<Rightarrow> (err + unit) fprog" where
  "rollbackExistingExchange E d base temp prepared displaced =
     tryE (pathState E d base) (\<lambda>e. fail (wrapErr ''inspect replacement before rollback'' e)) (\<lambda>currentBase.
     if \<not> holds prepared currentBase then fail (newErr ''replacement changed before rollback'')
     else tryE (pathState E d temp) (\<lambda>e. fail (wrapErr ''inspect displaced destination before rollback'' e)) (\<lambda>currentTemp.
     if \<not> holds displaced currentTemp then fail (newErr ''displaced destination changed before rollback'')
     else tryE (renameExchange E d temp base) (\<lambda>e. fail (wrapErr ''rollback exchange'' e)) (\<lambda>_.
       confirmRollback E d base temp prepared displaced)))"

record commitTexts =
  ct_uninspected :: string
  ct_unproven :: string
  ct_raced :: string
  ct_cleanup :: string
  ct_appeared :: string
  ct_noFinal :: string
  ct_otherFinal :: string
  ct_sync :: "err \<Rightarrow> string"
  ct_unconfirmed :: string

definition commitExchange :: "fileEnv \<Rightarrow> commitTexts \<Rightarrow> nat \<Rightarrow> string \<Rightarrow> string \<Rightarrow> stat \<Rightarrow> stat \<Rightarrow> commitEnd fprog" where
  "commitExchange E T d base temp original prepared =
     tryE (renameExchange E d temp base) (\<lambda>e. fail (writeFailed e, True)) (\<lambda>_.
     tryE (pathState E d temp) (\<lambda>_. fail (unknownFileCompletion E (ct_uninspected T) None, False)) (\<lambda>found.
     case found of
       None \<Rightarrow> fail (unknownFileCompletion E (ct_uninspected T) None, False)
     | Some displaced \<Rightarrow>
       if \<not> sameFileCommitState original displaced then
         tryE (rollbackExistingExchange E d base temp prepared displaced)
           (\<lambda>_. fail (unknownFileCompletion E (ct_unproven T) None, False))
           (\<lambda>_. fail (fileError ''file_changed'' ''conflict'' (ct_raced T), True))
       else tryE (unlinkAt E d temp)
           (\<lambda>_. fail (unknownFileCompletion E (ct_cleanup T) (Some prepared), False))
           (\<lambda>_. ok ())))"

definition commitNew :: "fileEnv \<Rightarrow> commitTexts \<Rightarrow> nat \<Rightarrow> string \<Rightarrow> string \<Rightarrow> commitEnd fprog" where
  "commitNew E T d base temp =
     tryE (renameNoReplace E d temp base)
       (\<lambda>e. fail (if ekind e = Exist then fileError ''file_changed'' ''conflict'' (ct_appeared T) else writeFailed e, True))
       (\<lambda>_. ok ())"

definition commitOver :: "fileEnv \<Rightarrow> nat \<Rightarrow> string \<Rightarrow> string \<Rightarrow> commitEnd fprog" where
  "commitOver E d base temp = tryE (renameOver E d temp base) (\<lambda>e. fail (writeFailed e, True)) (\<lambda>_. ok ())"

text \<open>Whatever was committed must still be at the destination, before and after the directory is synced.\<close>

definition confirmCommit :: "fileEnv \<Rightarrow> commitTexts \<Rightarrow> nat \<Rightarrow> string \<Rightarrow> stat \<Rightarrow> Response fprog" where
  "confirmCommit E T d base prepared =
     (let lost = (\<lambda>msg. return (unknownFileCompletion E msg None)) in
      tryE (destinationState E d base) (\<lambda>_. lost (ct_noFinal T)) (\<lambda>found. case found of
        None \<Rightarrow> lost (ct_noFinal T)
      | Some final \<Rightarrow>
        if \<not> sameFileIdentity prepared final then lost (ct_otherFinal T)
        else tryE (fsyncFD E) (\<lambda>e. return (unknownFileCompletion E (ct_sync T e) (Some final))) (\<lambda>_.
        tryE (destinationState E d base) (\<lambda>_. lost (ct_unconfirmed T)) (\<lambda>found2. case found2 of
          None \<Rightarrow> lost (ct_unconfirmed T)
        | Some confirmed \<Rightarrow>
          if \<not> sameFileIdentity prepared confirmed then lost (ct_unconfirmed T)
          else return (zeroResponse\<lparr>r_ok := True, r_status := ''written'',
                 r_fileSize := Some (st_size confirmed), r_fileVersion := fileVersion E confirmed\<rparr>)))))"

text \<open>The deferred cleanup: a temporary name that is still the tool's own is unlinked, whatever comes of it.\<close>

definition cleanupTemp :: "fileEnv \<Rightarrow> nat \<Rightarrow> string \<Rightarrow> (Response \<times> bool) fprog \<Rightarrow> Response fprog" where
  "cleanupTemp E d temp body = do {
     (resp, owned) \<leftarrow> body;
     if owned then do { unlinkAt E d temp; return resp } else return resp }"

section \<open>write_file\<close>

definition rootTexts :: commitTexts where
  "rootTexts = \<lparr>ct_uninspected = ''replacement committed but displaced destination identity could not be inspected'',
     ct_unproven = ''replacement raced with a destination change and rollback could not be proven'',
     ct_raced = ''destination changed at atomic replacement boundary'',
     ct_cleanup = ''replacement committed but displaced destination cleanup failed'',
     ct_appeared = ''destination appeared before atomic replacement'',
     ct_noFinal = ''replacement committed but final destination could not be inspected'',
     ct_otherFinal = ''replacement committed but final destination no longer names the prepared replacement'',
     ct_sync = (\<lambda>e. ''replacement committed but parent directory sync failed: '' @ emsg e),
     ct_unconfirmed = ''replacement committed but final destination identity changed after directory sync''\<rparr>"

text \<open>The replacement: its bytes, owner, mode, synced; its metadata is what the commit is checked against.\<close>

definition prepareRoot :: "fileEnv \<Rightarrow> inodeId \<Rightarrow> bytes \<Rightarrow> nat \<Rightarrow> nat \<Rightarrow> 32 word \<Rightarrow> (err + stat) fprog" where
  "prepareRoot E fd content uid gid mode =
     tryE (writeAllFD E fd 0 content) fail (\<lambda>_.
     tryE (fsyncFD E) fail (\<lambda>_.
     tryE (if uid \<noteq> fe_euid E \<or> gid \<noteq> fe_egid E then fchown E fd uid gid else ok ()) fail (\<lambda>_.
     tryE (fchmod E fd mode) fail (\<lambda>_.
     tryE (fsyncFD E) fail (\<lambda>_.
     tryE (fstat E fd) (\<lambda>e. fail (wrapErr ''inspect prepared replacement'' e)) ok)))))"

text \<open>The destination must be what it was when the write began.\<close>

definition unchangedDest :: "fileEnv \<Rightarrow> stat option \<Rightarrow> stat option \<Rightarrow> string \<Rightarrow> string \<Rightarrow> Response option" where
  "unchangedDest E initial current changed appeared =
     (case (initial, current) of
        (Some a, Some b) \<Rightarrow> if sameFileSnapshot E a b then None else Some (fileError ''file_changed'' ''conflict'' changed)
      | (Some a, None) \<Rightarrow> Some (fileError ''file_changed'' ''conflict'' changed)
      | (None, Some b) \<Rightarrow> Some (fileError ''file_changed'' ''conflict'' appeared)
      | (None, None) \<Rightarrow> None)"

definition replaceRoot :: "fileEnv \<Rightarrow> Request \<Rightarrow> nat \<Rightarrow> string \<Rightarrow> stat option \<Rightarrow> inodeId \<Rightarrow> string \<Rightarrow> (Response \<times> bool) fprog" where
  "replaceRoot E req d base initial fd temp =
     (let mode = (if q_mode req \<noteq> 0 then q_mode req else case initial of None \<Rightarrow> 0x1A4 | Some st \<Rightarrow> st_mode st AND 0xFFF);
          uid = (case initial of None \<Rightarrow> fe_euid E | Some st \<Rightarrow> st_uid st);
          gid = (case initial of None \<Rightarrow> fe_egid E | Some st \<Rightarrow> st_gid st) in
      tryE (prepareRoot E fd (q_content req) uid gid mode) (\<lambda>e. return (writeFailed e, True)) (\<lambda>prepared.
      tryE (destinationState E d base) (\<lambda>e. return (fileError ''unsafe_file_type'' ''validation'' (emsg e), True)) (\<lambda>current.
      case unchangedDest E initial current ''destination changed before atomic replacement''
             ''destination appeared before atomic replacement'' of
        Some bad \<Rightarrow> return (bad, True)
      | None \<Rightarrow>
        tryE (case initial of
                Some original \<Rightarrow> if q_fileVersion req \<noteq> [] then commitExchange E rootTexts d base temp original prepared
                                else commitOver E d base temp
              | None \<Rightarrow> commitNew E rootTexts d base temp)
          return
          (\<lambda>_. do { resp \<leftarrow> confirmCommit E rootTexts d base prepared; return (resp, False) }))))"

definition writeRootAudited :: "fileEnv \<Rightarrow> Request \<Rightarrow> nat \<Rightarrow> string \<Rightarrow> stat option \<Rightarrow> Response fprog" where
  "writeRootAudited E req d base initial =
     tryE (createTempFileAt E d) (\<lambda>e. return (writeFailed e)) (\<lambda>(fd, temp).
       cleanupTemp E d temp (replaceRoot E req d base initial fd temp))"

definition writeFileTool :: "fileEnv \<Rightarrow> Request \<Rightarrow> Response fprog" where
  "writeFileTool E req = (case validateFilePath (q_path req) of
       Inl e \<Rightarrow> return (fileError ''invalid_path'' ''validation'' (emsg e))
     | Inr path \<Rightarrow>
       if length (q_content req) > maxFileWriteBytes
       then return (fileError ''input_too_large'' ''validation'' (''file content exceeds the '' @ itoa (int maxFileWriteBytes) @ ''-byte tool limit''))
       else if q_fileVersion req \<noteq> [] \<and> q_mustNotExist req
       then return (fileError ''invalid_precondition'' ''validation'' ''file_version and must_not_exist cannot be combined'')
       else if q_mode req AND NOT 0xFFF \<noteq> 0
       then return (fileError ''invalid_mode'' ''validation'' ''mode may contain Unix permission/special bits only'')
       else tryE (openFileParent E path) (\<lambda>e. return (fileError ''parent_unavailable'' ''state'' (emsg e))) (\<lambda>(d, base, resolvedParent).
       tryE (rejectPseudoFilesystem E) (\<lambda>e. return (fileError ''unsupported_file_type'' ''validation'' (emsg e))) (\<lambda>_.
       let dec = fileDecision E ''write'' path (joinPath [resolvedParent, base]) in
       if \<not> allowed dec then return (fileError ''policy_denied'' ''policy'' (reason dec))
       else if requiresApproval dec \<and> \<not> q_approval req then return (fileApprovalResponse dec)
       else tryE (destinationState E d base) (\<lambda>e. return (fileError ''unsafe_file_type'' ''validation'' (emsg e))) (\<lambda>initial.
       if q_mustNotExist req \<and> initial \<noteq> None
       then return (fileError ''file_exists'' ''conflict'' ''destination already exists'')
       else if q_fileVersion req \<noteq> [] \<and> (case initial of None \<Rightarrow> True | Some st \<Rightarrow> fileVersion E st \<noteq> q_fileVersion req)
       then return (fileError ''file_changed'' ''conflict'' ''destination version does not match write precondition'')
       else tryE (beginFileAudit E req ''write_file'') return (\<lambda>_. do {
         resp \<leftarrow> writeRootAudited E req d base initial;
         finishFileAudit E req ''write_file'' resp })))))"

end
