(* ===== verification/WorkspaceFiles.thy ===== *)
theory WorkspaceFiles
  imports FileTools Json
begin

text \<open>
  The worker file tools \<open>workspace_stat\<close>, \<open>workspace_read\<close> and \<open>workspace_write\<close> of
  \<open>internal/executor/workspace_files.go\<close>: the helper process that runs under the worker's identity,
  and the parts of its operations. The fields of an operation that only searches use are left out.
\<close>

section \<open>Operations\<close>

record workspaceFileOperation =
  w_action :: string
  w_root :: string
  w_workspace :: string
  w_path :: string
  w_offset :: int
  w_limit :: int
  w_content :: string
  w_fileVersion :: string
  w_mustNotExist :: bool
  w_edits :: "WorkspaceFileEdit list"
  w_principalID :: string
  w_principalClass :: string
  w_transferKey :: string
  w_transferOp :: string
  w_transferID :: string
  w_expectedSize :: int
  w_sha256 :: string
  w_chunkBase64 :: string
  w_chunkSHA256 :: string
  w_transferQuotaMiB :: int
  w_transferTTL :: int
  w_transferMaxSessions :: int

text \<open>Go's zero value.\<close>

definition zeroOperation :: workspaceFileOperation where
  "zeroOperation = \<lparr>w_action = [], w_root = [], w_workspace = [], w_path = [], w_offset = 0, w_limit = 0, w_content = [],
     w_fileVersion = [], w_mustNotExist = False, w_edits = [], w_principalID = [], w_principalClass = [], w_transferKey = [],
     w_transferOp = [], w_transferID = [], w_expectedSize = 0, w_sha256 = [], w_chunkBase64 = [], w_chunkSHA256 = [],
     w_transferQuotaMiB = 0, w_transferTTL = 0, w_transferMaxSessions = 0\<rparr>"

lemma zeroOperation_sel [simp]:
  "w_action zeroOperation = []" "w_root zeroOperation = []" "w_workspace zeroOperation = []" "w_path zeroOperation = []"
  "w_offset zeroOperation = 0" "w_limit zeroOperation = 0" "w_content zeroOperation = []" "w_fileVersion zeroOperation = []"
  "\<not> w_mustNotExist zeroOperation" "w_edits zeroOperation = []"
  by (simp_all add: zeroOperation_def)

definition invalidRequest :: Response where
  "invalidRequest = fileError ''invalid_request'' ''validation'' ''workspace_stat is metadata-only''"

section \<open>Opening below the workspace\<close>

definition openWorkerWorkspace :: "fileEnv \<Rightarrow> workspaceFileOperation \<Rightarrow> (err + nat) fprog" where
  "openWorkerWorkspace E op =
     (if \<not> isAbs (w_root op) \<or> w_workspace op = [] \<or> CHR 0x00 \<in> set (w_root op)
      then fail (newErr ''configured workspace root is invalid'')
      else let root = clean (w_root op);
               selected = (if isAbs (w_workspace op) then w_workspace op else joinPath [root, w_workspace op]) in
        case relElems root (clean selected) of
          None \<Rightarrow> fail (newErr ''selected workspace is outside configured workspace'')
        | Some relative \<Rightarrow>
          if \<not> withinPath root (clean selected) then fail (newErr ''selected workspace is outside configured workspace'')
          else tryE (openDir E NoSymlinks None root) (\<lambda>e. fail (wrapErr ''open configured workspace'' e)) (\<lambda>rootFD.
               tryE (openDir E BeneathOnly (Some rootFD) (mkPath False relative)) (\<lambda>e. fail (wrapErr ''open selected workspace'' e)) ok))"

definition openWorkerParent :: "fileEnv \<Rightarrow> nat \<Rightarrow> string \<Rightarrow> (err + nat \<times> string) fprog" where
  "openWorkerParent E workspaceFD relative = (case safeWorkspaceRelativeFile relative of
       Inl e \<Rightarrow> fail e
     | Inr c \<Rightarrow> tryE (openDir E BeneathOnly (Some workspaceFD) (dirOf c)) (\<lambda>e. fail (wrapErr ''open worker file parent'' e))
         (\<lambda>d. ok (d, baseOf c)))"

definition openWorkerFile :: "fileEnv \<Rightarrow> workspaceFileOperation \<Rightarrow> (Response + nat \<times> string) fprog" where
  "openWorkerFile E op =
     tryE (openWorkerWorkspace E op) (\<lambda>e. fail (fileError ''invalid_workspace'' ''validation'' (emsg e))) (\<lambda>ws.
     tryE (openWorkerParent E ws (w_path op)) (\<lambda>e. fail (fileError ''invalid_path'' ''validation'' (emsg e))) ok)"

section \<open>Reading\<close>

text \<open>\<open>O_PATH\<close> below the parent: no link is followed.\<close>

definition openPinned :: "fileEnv \<Rightarrow> nat \<Rightarrow> string \<Rightarrow> (err + inodeId) fprog" where
  "openPinned E d base = fcall E (\<lambda>_. gets (\<lambda>w. case lookupName w d base of
       None \<Rightarrow> Inl missing
     | Some i \<Rightarrow> if isSymlink (in_mode (inodeAt w i)) then Inl (newErr ''too many levels of symbolic links'') else Inr i))"

definition readPinned :: "fileEnv \<Rightarrow> workspaceFileOperation \<Rightarrow> inodeId \<Rightarrow> stat \<Rightarrow> stat \<Rightarrow> Response fprog" where
  "readPinned E op i before reopened =
     (let version = fileVersion E before in
      if w_fileVersion op \<noteq> [] \<and> w_fileVersion op \<noteq> version
      then return (fileError ''file_changed'' ''conflict'' ''file changed before read'')
      else if w_action op = ''workspace_stat'' then
        (if version \<noteq> fileVersion E reopened
         then return (fileError ''file_changed'' ''conflict'' ''file changed during metadata inspection'')
         else return (zeroResponse\<lparr>r_ok := True, r_status := ''metadata_only'', r_outputEncoding := ''none'',
                r_fileSize := Some (st_size before), r_fileVersion := version\<rparr>))
      else let limit = (if w_limit op = 0 then maxFileReadBytes else w_limit op) in
        tryE (preadFD E i (w_offset op) limit) (\<lambda>e. return (fileError ''file_read_failed'' ''io'' (emsg e))) (\<lambda>raw.
        tryE (fstat E i) (\<lambda>e. return (fileError ''file_unavailable'' ''io'' (emsg e))) (\<lambda>after.
        if version \<noteq> fileVersion E after
        then return (fileError ''file_changed'' ''conflict'' ''file changed during read'')
        else (case encodeOutputBytes raw of (otext, encoding) \<Rightarrow>
          if length otext > maxFileEncodedBytes
          then return (fileError ''response_too_large'' ''resource'' ''encoded workspace read exceeds response limit'')
          else return ((rangeResponse version before (w_offset op) raw otext encoding)\<lparr>r_status := ''read''\<rparr>)))))"

definition readWorkerWorkspaceFile :: "fileEnv \<Rightarrow> workspaceFileOperation \<Rightarrow> Response fprog" where
  "readWorkerWorkspaceFile E op =
     (let unavailable = (\<lambda>e. return (fileError ''file_unavailable'' ''io'' (emsg e))) in
      if w_action op \<noteq> [] \<and> w_action op \<noteq> ''workspace_read'' \<and> w_action op \<noteq> ''workspace_stat''
      then return (fileError ''invalid_action'' ''validation'' ''unsupported worker file inspection action'')
      else if w_action op = ''workspace_stat'' \<and> (w_offset op \<noteq> 0 \<or> w_limit op \<noteq> 0 \<or> w_content op \<noteq> [] \<or> w_mustNotExist op)
      then return invalidRequest
      else if w_action op \<noteq> ''workspace_stat'' \<and> (w_offset op < 0 \<or> w_limit op < 0 \<or> w_limit op > maxFileReadBytes)
      then return (fileError ''invalid_range'' ''validation'' ''invalid worker read range'')
      else tryE (openWorkerFile E op) return (\<lambda>(d, base).
        tryE (openPinned E d base) unavailable (\<lambda>i.
        tryE (fstat E i) unavailable (\<lambda>before.
        if \<not> isRegular (st_mode before)
        then return (fileError ''unsupported_file_type'' ''validation'' ''workspace reads require regular files'')
        else tryE (rejectPseudoFilesystem E) (\<lambda>e. return (fileError ''unsupported_file_type'' ''validation'' (emsg e))) (\<lambda>_.
        tryE (fcall E (\<lambda>_. ok i)) unavailable (\<lambda>fd.
        tryE (fstat E fd) (\<lambda>_. return (fileError ''file_changed'' ''conflict'' ''file changed during safe worker open'')) (\<lambda>reopened.
        if \<not> sameFileIdentity before reopened
        then return (fileError ''file_changed'' ''conflict'' ''file changed during safe worker open'')
        else readPinned E op fd before reopened)))))))"

section \<open>Writing\<close>

definition workerTexts :: commitTexts where
  "workerTexts = \<lparr>ct_uninspected = ''displaced file state cannot be verified'',
     ct_unproven = ''concurrent replacement raced with commit; rollback unproven'',
     ct_raced = ''destination changed during commit'',
     ct_cleanup = ''displaced file cleanup failed'',
     ct_appeared = ''destination appeared during commit'',
     ct_noFinal = ''committed workspace file identity cannot be proven'',
     ct_otherFinal = ''committed workspace file identity cannot be proven'',
     ct_sync = (\<lambda>_. ''committed worker file directory sync failed''),
     ct_unconfirmed = ''workspace file changed after directory sync''\<rparr>"

definition prepareWorker :: "fileEnv \<Rightarrow> inodeId \<Rightarrow> bytes \<Rightarrow> 32 word \<Rightarrow> (err + stat) fprog" where
  "prepareWorker E fd content mode =
     tryE (writeAllFD E fd 0 content) fail (\<lambda>_.
     tryE (fchmod E fd mode) fail (\<lambda>_.
     tryE (fsyncFD E) fail (\<lambda>_. fstat E fd)))"

definition replaceWorker :: "fileEnv \<Rightarrow> workspaceFileOperation \<Rightarrow> nat \<Rightarrow> string \<Rightarrow> stat option \<Rightarrow> inodeId \<Rightarrow> string \<Rightarrow> (Response \<times> bool) fprog" where
  "replaceWorker E op d base original fd temp =
     (let mode = (case original of None \<Rightarrow> 0x1A4 | Some st \<Rightarrow> st_mode st AND 0x1FF) in
      tryE (prepareWorker E fd (w_content op) mode) (\<lambda>e. return (writeFailed e, True)) (\<lambda>prepared.
      tryE (destinationState E d base) (\<lambda>e. return (fileError ''unsafe_file_type'' ''validation'' (emsg e), True)) (\<lambda>current.
      case unchangedDest E original current ''destination changed before commit'' ''destination appeared before commit'' of
        Some bad \<Rightarrow> return (bad, True)
      | None \<Rightarrow>
        tryE (case original of
                Some st \<Rightarrow> commitExchange E workerTexts d base temp st prepared
              | None \<Rightarrow> commitNew E workerTexts d base temp)
          return
          (\<lambda>_. do { resp \<leftarrow> confirmCommit E workerTexts d base prepared; return (resp, False) }))))"

definition writeWorkerAt :: "fileEnv \<Rightarrow> workspaceFileOperation \<Rightarrow> nat \<Rightarrow> string \<Rightarrow> Response fprog" where
  "writeWorkerAt E op d base =
     tryE (rejectPseudoFilesystem E) (\<lambda>e. return (fileError ''unsupported_file_type'' ''validation'' (emsg e))) (\<lambda>_.
     tryE (destinationState E d base) (\<lambda>e. return (fileError ''unsafe_file_type'' ''validation'' (emsg e))) (\<lambda>original.
     if w_mustNotExist op \<and> original \<noteq> None
     then return (fileError ''file_exists'' ''conflict'' ''destination already exists'')
     else if w_fileVersion op \<noteq> [] \<and> (case original of None \<Rightarrow> True | Some st \<Rightarrow> w_fileVersion op \<noteq> fileVersion E st)
     then return (fileError ''file_changed'' ''conflict'' ''destination has changed'')
     else tryE (createTempFileAt E d) (\<lambda>e. return (writeFailed e)) (\<lambda>(fd, temp).
       cleanupTemp E d temp (replaceWorker E op d base original fd temp))))"

definition writeWorkerWorkspaceFile :: "fileEnv \<Rightarrow> workspaceFileOperation \<Rightarrow> Response fprog" where
  "writeWorkerWorkspaceFile E op =
     (if \<not> utf8_valid (w_content op)
      then return (fileError ''invalid_content'' ''validation'' ''workspace write content must be valid UTF-8'')
      else if length (w_content op) > maxFileWriteBytes
      then return (fileError ''input_too_large'' ''validation'' ''workspace file content exceeds write limit'')
      else if w_mustNotExist op = (w_fileVersion op \<noteq> [])
      then return (fileError ''invalid_precondition'' ''validation'' ''require one write precondition'')
      else tryE (openWorkerFile E op) return (\<lambda>(d, base). writeWorkerAt E op d base))"

end
