(* ===== verification/WorkspaceEdits.thy ===== *)
theory WorkspaceEdits
  imports WorkspaceFiles
begin

text \<open>
  The batch edit \<open>workspace_apply_edits\<close> of \<open>internal/executor/workspace_edits.go\<close>: every target and
  version is checked and every new content computed before the first file is written; then the files are
  written one after the other, each with its own precondition, and the answer says exactly how far it got.
\<close>

section \<open>Exact replacement\<close>

text \<open>\<open>strings.Count\<close> of a non-empty pattern: occurrences that do not overlap, from the left. \<open>strings.Replace\<close>
  with a limit of one: the first occurrence.\<close>

fun countSub :: "string \<Rightarrow> string \<Rightarrow> nat" where
  "countSub [] p = (if p = [] then 1 else 0)"
| "countSub (c # s) p =
     (if p = [] then length (runes (c # s)) + 1
      else if hasPrefix (c # s) p then Suc (countSub (drop (length p - 1) s) p)
      else countSub s p)"

fun replaceOnce :: "string \<Rightarrow> string \<Rightarrow> string \<Rightarrow> string" where
  "replaceOnce [] old new = (if old = [] then new else [])"
| "replaceOnce (c # s) old new =
     (if hasPrefix (c # s) old then new @ drop (length old) (c # s) else c # replaceOnce s old new)"

section \<open>Outcomes\<close>

definition maxWorkspaceBatchFiles :: nat where "maxWorkspaceBatchFiles = 12"
definition maxWorkspaceBatchBytes :: nat where "maxWorkspaceBatchBytes = 3145728"
definition maxWorkspaceEditReplacements :: nat where "maxWorkspaceEditReplacements = 24"

record WorkspaceEditFileOutcome =
  fo_path :: string
  fo_status :: string
  fo_errorCode :: string
  fo_fileVersion :: string

record WorkspaceEditResult =
  er_complete :: bool
  er_partial :: bool
  er_applied :: nat
  er_files :: "WorkspaceEditFileOutcome list"

definition jsonBool :: "bool \<Rightarrow> string" where
  "jsonBool b = (if b then ''true'' else ''false'')"

definition outcomeJSON :: "WorkspaceEditFileOutcome \<Rightarrow> string" where
  "outcomeJSON f = ''{'' @ jsonString ''path'' @ '':'' @ jsonString (fo_path f)
     @ jsonField ''status'' (jsonString (fo_status f))
     @ jsonOmitEmpty ''error_code'' (fo_errorCode f)
     @ jsonOmitEmpty ''file_version'' (fo_fileVersion f) @ ''}''"

fun commaSep :: "string list \<Rightarrow> string" where
  "commaSep [] = []"
| "commaSep [x] = x"
| "commaSep (x # xs) = x @ '','' @ commaSep xs"

definition editResultJSON :: "WorkspaceEditResult \<Rightarrow> string" where
  "editResultJSON r = ''{'' @ jsonString ''complete'' @ '':'' @ jsonBool (er_complete r)
     @ jsonField ''partial'' (jsonBool (er_partial r))
     @ jsonField ''applied'' (itoa (int (er_applied r)))
     @ jsonField ''files'' (''['' @ commaSep (map outcomeJSON (er_files r)) @ '']'') @ ''}''"

definition workspaceEditResponse :: "WorkspaceEditResult \<Rightarrow> string \<Rightarrow> Response" where
  "workspaceEditResponse r failure_code =
     (let b = editResultJSON r;
          resp = zeroResponse\<lparr>r_ok := er_complete r, r_output := b, r_outputEncoding := ''utf-8'',
                   r_bytesSeen := int (length b), r_bytesReturned := int (length b)\<rparr> in
      if er_complete r then resp\<lparr>r_status := ''complete''\<rparr>
      else if er_partial r then resp\<lparr>r_status := ''partial'', r_reasonCode := ''partial_workspace_edit'',
        r_errorCode := ''partial_workspace_edit'', r_errorClass := ''state'',
        r_error := ''Some files were changed; inspect exact outcomes before retrying''\<rparr>
      else resp\<lparr>r_status := ''not_started'', r_reasonCode := failure_code, r_errorCode := failure_code,
        r_errorClass := ''conflict'', r_error := ''No workspace files were changed''\<rparr>)"

section \<open>Preflight\<close>

fun applyReplacements :: "WorkspaceReplace list \<Rightarrow> string \<Rightarrow> string + string" where
  "applyReplacements [] content = Inr content"
| "applyReplacements (r # rs) content =
     (if wr_old r = [] \<or> \<not> utf8_valid (wr_old r) \<or> \<not> utf8_valid (wr_new r) then Inl ''invalid_replacement''
      else if countSub content (wr_old r) \<noteq> 1 then Inl ''patch_context_mismatch''
      else let content' = replaceOnce content (wr_old r) (wr_new r) in
        if length content' > maxFileWriteBytes then Inl ''input_too_large'' else applyReplacements rs content')"

definition readOperation :: "workspaceFileOperation \<Rightarrow> string \<Rightarrow> string \<Rightarrow> workspaceFileOperation" where
  "readOperation op path version = zeroOperation\<lparr>w_action := ''workspace_read'', w_root := w_root op, w_workspace := w_workspace op,
     w_path := path, w_limit := maxFileReadBytes, w_fileVersion := version\<rparr>"

text \<open>The destination of a new file must be absent.\<close>

definition checkAbsent :: "fileEnv \<Rightarrow> workspaceFileOperation \<Rightarrow> string \<Rightarrow> (string + unit) fprog" where
  "checkAbsent E op path =
     tryE (openWorkerWorkspace E op) (\<lambda>_. fail ''invalid_workspace'') (\<lambda>ws.
     tryE (openWorkerParent E ws path) (\<lambda>_. fail ''invalid_path'') (\<lambda>(d, base).
     tryE (destinationState E d base) (\<lambda>_. fail ''unsafe_file_type'') (\<lambda>st.
       if st \<noteq> None then fail ''file_exists'' else ok ())))"

definition currentText :: "fileEnv \<Rightarrow> workspaceFileOperation \<Rightarrow> WorkspaceFileEdit \<Rightarrow> string \<Rightarrow> (string + string) fprog" where
  "currentText E op edit path = do {
     read \<leftarrow> readWorkerWorkspaceFile E (readOperation op path (we_fileVersion edit));
     if \<not> r_ok read then fail (r_errorCode read)
     else if r_eof read \<noteq> Some True \<or> r_outputEncoding read \<noteq> ''utf-8'' then fail ''unsupported_content''
     else (case we_content edit of
         Some content \<Rightarrow> ok content
       | None \<Rightarrow> return (applyReplacements (we_replacements edit) (r_output read))) }"

definition editContent :: "fileEnv \<Rightarrow> workspaceFileOperation \<Rightarrow> WorkspaceFileEdit \<Rightarrow> string \<Rightarrow> (string + string) fprog" where
  "editContent E op edit path =
     tryE (if we_mustNotExist edit then
             (case we_content edit of
                None \<Rightarrow> fail ''create_requires_content''
              | Some content \<Rightarrow> tryE (checkAbsent E op path) fail (\<lambda>_. ok content))
           else currentText E op edit path) fail (\<lambda>content.
       if \<not> utf8_valid content \<or> length content > maxFileWriteBytes then fail ''invalid_content'' else ok content)"

text \<open>A failure names the index of its edit and its code; a plan pairs each edit with its new content.\<close>

type_synonym plannedWorkspaceEdit = "WorkspaceFileEdit \<times> string"

fun preflight :: "fileEnv \<Rightarrow> workspaceFileOperation \<Rightarrow> nat \<Rightarrow> string list \<Rightarrow> nat \<Rightarrow> WorkspaceFileEdit list \<Rightarrow>
    (nat \<times> string + plannedWorkspaceEdit list) fprog" where
  "preflight E op i clean_seen total_bytes [] = ok []"
| "preflight E op i clean_seen total_bytes (edit # edits) =
     (case safeWorkspaceRelativeFile (we_path edit) of
        Inl _ \<Rightarrow> fail (i, ''invalid_path'')
      | Inr path \<Rightarrow>
        if path \<in> set clean_seen then fail (i, ''duplicate_path'')
        else if we_mustNotExist edit = (we_fileVersion edit \<noteq> []) then fail (i, ''invalid_precondition'')
        else if (we_content edit = None) = (we_replacements edit = []) then fail (i, ''invalid_edit'')
        else if length (we_replacements edit) > maxWorkspaceEditReplacements then fail (i, ''too_many_replacements'')
        else tryE (editContent E op edit path) (\<lambda>code. fail (i, code)) (\<lambda>content.
          if total_bytes + length content > maxWorkspaceBatchBytes then fail (i, ''batch_too_large'')
          else tryE (preflight E op (i + 1) (path # clean_seen) (total_bytes + length content) edits) fail
            (\<lambda>plans. ok ((edit, content) # plans))))"

section \<open>Commit\<close>

definition notAttempted :: "WorkspaceFileEdit \<Rightarrow> WorkspaceEditFileOutcome" where
  "notAttempted edit = \<lparr>fo_path = we_path edit, fo_status = ''not_attempted'', fo_errorCode = [], fo_fileVersion = []\<rparr>"

definition failAt :: "WorkspaceFileEdit list \<Rightarrow> nat \<Rightarrow> string \<Rightarrow> WorkspaceEditResult" where
  "failAt edits i code = \<lparr>er_complete = False, er_partial = False, er_applied = 0,
     er_files = (map notAttempted edits)
       [i := (notAttempted (edits ! i))\<lparr>fo_status := ''failed'', fo_errorCode := code\<rparr>]\<rparr>"

definition writeOperation :: "workspaceFileOperation \<Rightarrow> plannedWorkspaceEdit \<Rightarrow> workspaceFileOperation" where
  "writeOperation op plan = (case plan of (edit, content) \<Rightarrow>
     zeroOperation\<lparr>w_action := ''workspace_write'', w_root := w_root op, w_workspace := w_workspace op, w_path := we_path edit,
      w_content := content, w_fileVersion := we_fileVersion edit, w_mustNotExist := we_mustNotExist edit\<rparr>)"

fun commitEdits :: "fileEnv \<Rightarrow> workspaceFileOperation \<Rightarrow> WorkspaceEditFileOutcome list \<Rightarrow> plannedWorkspaceEdit list \<Rightarrow>
    WorkspaceEditResult fprog" where
  "commitEdits E op outcomes [] = return
     \<lparr>er_complete = True, er_partial = False, er_applied = length outcomes, er_files = outcomes\<rparr>"
| "commitEdits E op outcomes (plan # plans) = do {
     result \<leftarrow> writeWorkerWorkspaceFile E (writeOperation op plan);
     if \<not> r_ok result
     then return \<lparr>er_complete = False,
       er_partial = (outcomes \<noteq> [] \<or> r_errorCode result = ''unknown_completion''),
       er_applied = length outcomes,
       er_files = outcomes
         @ \<lparr>fo_path = we_path (fst plan),
            fo_status = (if r_errorCode result = ''unknown_completion'' then ''unknown_completion'' else ''failed''),
            fo_errorCode = r_errorCode result, fo_fileVersion = []\<rparr>
         # map (notAttempted \<circ> fst) plans\<rparr>
     else commitEdits E op
       (outcomes @ [\<lparr>fo_path = we_path (fst plan), fo_status = ''applied'', fo_errorCode = [],
                     fo_fileVersion = r_fileVersion result\<rparr>]) plans }"

definition applyWorkerWorkspaceEdits :: "fileEnv \<Rightarrow> workspaceFileOperation \<Rightarrow> Response fprog" where
  "applyWorkerWorkspaceEdits E op =
     (let entries = w_edits op in
      if entries = [] \<or> length entries > maxWorkspaceBatchFiles
      then return (fileError ''invalid_edit_count'' ''validation''
        (''edit batch must contain between 1 and '' @ itoa (int maxWorkspaceBatchFiles) @ '' files''))
      else tryE (preflight E op 0 [] 0 entries)
        (\<lambda>(i, code). return (workspaceEditResponse (failAt entries i code) ''workspace_preflight_failed''))
        (\<lambda>plans. do {
          r \<leftarrow> commitEdits E op [] plans;
          return (workspaceEditResponse r (if er_complete r then [] else ''workspace_apply_failed'')) }))"

end
