(* ===== verification/FileFrame.thy ===== *)
theory FileFrame
  imports WorkspaceEdits
begin

text \<open>
  What the file tools leave alone. Two interfaces for relations between the world before and the world
  after: \<open>file_frame\<close> tolerates what other processes do before a call and covers every program that only
  looks; \<open>inode_frame\<close> also tolerates changes of one inode, the one behind an open descriptor, and covers
  the preparation of a replacement file. \<open>kept\<close> and \<open>unseen\<close>, the relations of the theorems, are
  interpretations. The calls that change names get one rule each.
\<close>

locale file_frame = frame R for R :: "fworld \<Rightarrow> fworld \<Rightarrow> bool" +
  fixes E :: fileEnv
  assumes passes: "R w (fadvance E w)"
begin

lemma on_fcall:
  assumes "\<And>k. state_io_rel R (body k)"
  shows "state_io_rel R (fcall E body)"
proof (rule state_io_relI)
  fix w r t
  assume run: "run_state (fcall E body) w = (r, t)"
  show "R w t"
  proof (cases "fe_fault E (fw_tick w)")
    case None
    with run have "R (fadvance E w) t"
      using assms[of "fw_tick w"] by (auto simp: fcall_def dest: state_io_relD)
    with passes show ?thesis by (rule step_trans)
  next
    case (Some e)
    with run show ?thesis by (auto simp: fcall_def passes)
  qed
qed

lemmas looking = steps on_fcall

lemma on_looks:
  "state_io_rel R (fstat E i)" "state_io_rel R (fsyncFD E)" "state_io_rel R (openDir E how b p)"
  "state_io_rel R (rejectPseudoFilesystem E)" "state_io_rel R (preadFD E i off lim)"
  "state_io_rel R (openPinned E d n)" "state_io_rel R (randomName E)"
  unfolding fstat_def fsyncFD_def openDir_def rejectPseudoFilesystem_def preadFD_def openPinned_def randomName_def
  by (intro looking)+

lemma on_pathState: "state_io_rel R (pathState E d n)"
  unfolding pathState_def by (intro looking)

lemma on_destinationState: "state_io_rel R (destinationState E d n)"
  unfolding destinationState_def by (intro looking on_pathState)

lemma on_openWorkerWorkspace: "state_io_rel R (openWorkerWorkspace E op)"
  unfolding openWorkerWorkspace_def Let_def by (intro looking on_looks)

lemma on_openWorkerParent: "state_io_rel R (openWorkerParent E d p)"
  unfolding openWorkerParent_def by (intro looking on_looks)

lemma on_openWorkerFile: "state_io_rel R (openWorkerFile E op)"
  unfolding openWorkerFile_def by (intro looking on_openWorkerWorkspace on_openWorkerParent)

lemma on_readPinned: "state_io_rel R (readPinned E op i before reopened)"
  unfolding readPinned_def Let_def by (intro looking on_looks)

lemma on_readWorkerWorkspaceFile: "state_io_rel R (readWorkerWorkspaceFile E op)"
  unfolding readWorkerWorkspaceFile_def Let_def
  by (intro looking on_looks on_openWorkerFile on_readPinned)

lemma on_openFileParent: "state_io_rel R (openFileParent E p)"
  unfolding openFileParent_def by (intro looking on_looks)

lemma on_openTargetPath: "state_io_rel R (openTargetPath E d b)"
  unfolding openTargetPath_def by (intro looking on_looks)

lemma on_confirmCommit: "state_io_rel R (confirmCommit E T d b st)"
  unfolding confirmCommit_def Let_def by (intro looking on_looks on_destinationState)

lemma on_checkAbsent: "state_io_rel R (checkAbsent E op p)"
  unfolding checkAbsent_def
  by (intro looking on_openWorkerWorkspace on_openWorkerParent on_destinationState)

lemma on_editContent: "state_io_rel R (editContent E op edit p)"
  unfolding editContent_def currentText_def
  by (intro looking on_checkAbsent on_readWorkerWorkspaceFile)

lemma on_preflight: "state_io_rel R (preflight E op i clean_seen n edits)"
  by (induction edits arbitrary: i clean_seen n) (auto intro!: looking on_editContent)

end

locale inode_frame = file_frame +
  fixes fd :: inodeId
  assumes writes: "R w (setInode fd x w)"
begin

lemma on_writeFD: "state_io_rel R (writeFD E fd pos b)"
  unfolding writeFD_def Let_def by (intro looking on_modify writes)

lemma on_writeAllFD: "state_io_rel R (writeAllFD E fd pos b)"
proof (induction b arbitrary: pos rule: length_induct)
  case (1 b)
  then show ?case by (cases b) (auto intro!: looking on_writeFD)
qed

lemma on_owner: "state_io_rel R (fchmod E fd m)" "state_io_rel R (fchown E fd u g)"
  unfolding fchmod_def fchown_def Let_def by (intro looking on_modify writes)+

lemma on_prepareWorker: "state_io_rel R (prepareWorker E fd content m)"
  unfolding prepareWorker_def by (intro looking on_looks on_writeAllFD on_owner)

lemma on_prepareRoot: "state_io_rel R (prepareRoot E fd content u g m)"
  unfolding prepareRoot_def by (intro looking on_looks on_writeAllFD on_owner)

end

section \<open>Reserved names\<close>

text \<open>Other processes leave names with the tools' prefix alone.\<close>

definition isTemp :: "string \<Rightarrow> bool" where
  "isTemp n = hasPrefix n tempPrefix"

definition leavesTemps :: "fileEnv \<Rightarrow> bool" where
  "leavesTemps E = (\<forall>k f d n. isTemp n \<longrightarrow> map_of (fs_names (fe_others E k f)) (d, n) = map_of (fs_names f) (d, n))"

lemma isTemp_tempName [simp]: "isTemp (tempName r)"
  by (simp add: isTemp_def tempName_def)

text \<open>Nothing done by the tool, and its reserved names are where they were.\<close>

definition kept :: "fileEnv \<Rightarrow> fworld \<Rightarrow> fworld \<Rightarrow> bool" where
  "kept E s t = (fw_trace t = fw_trace s \<and> fw_degraded t = fw_degraded s \<and>
     (leavesTemps E \<longrightarrow> (\<forall>d n. isTemp n \<longrightarrow> lookupName t d n = lookupName s d n)))"

lemmas world_defs = lookupName_def inodeAt_def setName_def dropName_def setInode_def logEvent_def fadvance_def touch_def

interpretation kp: inode_frame "kept E" E fd for E fd
  by unfold_locales (auto simp: kept_def world_defs leavesTemps_def)

lemma wp_kept: "state_io_rel (kept E) m \<Longrightarrow> (\<And>r t. kept E s t \<Longrightarrow> Q r t) \<Longrightarrow> wp m Q s"
  by (auto simp: wp_def split: prod.splits dest: state_io_relD)

section \<open>The calls that change names\<close>

lemma lookup_set:
  "lookupName (setName d n i w) d' n' = (if (d', n') = (d, n) then Some i else lookupName w d' n')"
  "lookupName (dropName d n w) d' n' = (if (d', n') = (d, n) then None else lookupName w d' n')"
  "lookupName (setInode i x w) d' n' = lookupName w d' n'"
  "lookupName (logEvent ev w) d' n' = lookupName w d' n'"
  "lookupName (touch E k i w) d' n' = lookupName w d' n'"
  by (auto simp: world_defs update_conv' delete_conv')

lemma trace_set:
  "fw_trace (setName d n i w) = fw_trace w" "fw_trace (dropName d n w) = fw_trace w"
  "fw_trace (setInode i x w) = fw_trace w" "fw_trace (logEvent ev w) = ev # fw_trace w"
  "fw_trace (touch E k i w) = fw_trace w" "fw_trace (fadvance E w) = fw_trace w"
  by (auto simp: world_defs)

lemma lookup_temp: "leavesTemps E \<Longrightarrow> isTemp n \<Longrightarrow> lookupName (fadvance E w) d n = lookupName w d n"
  by (simp add: world_defs leavesTemps_def)

lemma wp_return_eta [simp]: "wp (return x) Q = Q x"
  by (rule ext) simp

lemma wp_fcall:
  "wp (fcall E body) Q s =
   (case fe_fault E (fw_tick s) of Some e \<Rightarrow> Q (Inl e) (fadvance E s) | None \<Rightarrow> wp (body (fw_tick s)) Q (fadvance E s))"
  by (simp add: wp_def fcall_def split: option.splits)

lemma kept_advance: "kept E s (fadvance E s)"
  by (rule kp.passes)

lemma wp_exchange:
  assumes "leavesTemps E" and "isTemp a"
    and "\<And>e t. kept E s t \<Longrightarrow> Q (Inl e) t"
    and "\<And>x y t. lookupName s d a = Some x \<Longrightarrow> fw_trace t = Exchanged d a b x y # fw_trace s \<Longrightarrow>
      lookupName t d a = Some y \<Longrightarrow> Q (Inr ()) t"
  shows "wp (renameExchange E d a b) Q s"
  unfolding renameExchange_def
  using assms(1,2) assms(3)[OF kept_advance]
  by (auto simp: wp_fcall lookup_temp lookup_set trace_set split: option.splits intro!: assms(4))

lemma wp_unlink:
  assumes "leavesTemps E" and "isTemp n"
    and "\<And>e t. kept E s t \<Longrightarrow> Q (Inl e) t"
    and "\<And>x t. lookupName s d n = Some x \<Longrightarrow> fw_trace t = Unlinked d n x # fw_trace s \<Longrightarrow> Q (Inr ()) t"
  shows "wp (unlinkAt E d n) Q s"
  unfolding unlinkAt_def
  using assms(1,2) assms(3)[OF kept_advance]
  by (auto simp: wp_fcall lookup_temp lookup_set trace_set split: option.splits intro!: assms(4))

lemma wp_noReplace:
  assumes "leavesTemps E" and "isTemp a"
    and "\<And>e t. kept E s t \<Longrightarrow> Q (Inl e) t"
    and "\<And>x t. lookupName s d a = Some x \<Longrightarrow> fw_trace t = Installed d a b x # fw_trace s \<Longrightarrow> Q (Inr ()) t"
  shows "wp (renameNoReplace E d a b) Q s"
  unfolding renameNoReplace_def
  using assms(1,2) assms(3)[OF kept_advance]
  by (auto simp: wp_fcall lookup_temp lookup_set trace_set split: option.splits intro!: assms(4))

lemma wp_over:
  assumes "leavesTemps E" and "isTemp a"
    and "\<And>e t. kept E s t \<Longrightarrow> Q (Inl e) t" and "\<And>t. kept E s t \<Longrightarrow> Q (Inr ()) t"
    and "\<And>x y t. lookupName s d a = Some x \<Longrightarrow> fw_trace t = Replaced d a b x y # fw_trace s \<Longrightarrow> Q (Inr ()) t"
  shows "wp (renameOver E d a b) Q s"
  unfolding renameOver_def
  using assms(1,2) assms(3)[OF kept_advance] assms(4)[OF kept_advance]
  by (auto simp: wp_fcall lookup_temp lookup_set trace_set split: option.splits intro!: assms(5))

lemma wp_createTemp:
  assumes "\<And>e t. kept E s t \<Longrightarrow> Q (Inl e) t"
    and "\<And>i n t. isTemp n \<Longrightarrow> fw_trace t = Created d n i # fw_trace s \<Longrightarrow> lookupName t d n = Some i \<Longrightarrow> Q (Inr (i, n)) t"
  shows "wp (createTempFileAt E d) Q s"
proof -
  have "wp (createTempLoop E d k) Q u" if "kept E s u" for k u
    using that
  proof (induction k arbitrary: u)
    case 0
    then show ?case by (auto intro: assms(1))
  next
    case (Suc k)
    have kept_on: "kept E s (fadvance E v)" if "kept E s v" for v
      using that kp.step_trans kept_advance by blast
    show ?case
      using Suc.prems Suc.IH kept_on[OF Suc.prems] kept_on[OF kept_on[OF Suc.prems]]
      by (auto simp: randomName_def createExcl_def wp_fcall Let_def lookup_set trace_set kept_def
            split: option.splits intro!: assms)
  qed
  then show ?thesis unfolding createTempFileAt_def by (simp add: kp.step_refl)
qed

end
