(* ===== verification/FileSafety.thy ===== *)
theory FileSafety
  imports FileFrame
begin

text \<open>
  The write protocol. \<open>writeRun\<close> is the abstract contract of an atomic, versioned write: which calls that
  change the directory a write may make, in which order, and what its answer may then say. Both write
  tools implement it whatever other processes do to the destination meanwhile, as long as they leave the
  tools' reserved names alone. From the contract: no inode is unlinked but the tool's own and the one the
  caller's version names, and a plain failure has put back what it displaced.
\<close>

section \<open>The contract\<close>

text \<open>Events are listed from the last to the first. \<open>good\<close> and \<open>code\<close> are the answer's success flag and error code.\<close>

inductive writeRun :: "fileEnv \<Rightarrow> string \<Rightarrow> bool \<Rightarrow> string \<Rightarrow> fileEvent list \<Rightarrow> bool" for E version where
  refused: "\<not> good \<Longrightarrow> code \<noteq> ''unknown_completion'' \<Longrightarrow> writeRun E version good code []"
| given_up: "\<not> good \<Longrightarrow> code \<noteq> ''unknown_completion'' \<Longrightarrow> cleanup \<in> {[], [Unlinked d n p]} \<Longrightarrow>
    writeRun E version good code (cleanup @ [Created d n p])"
| rolled_back: "\<not> good \<Longrightarrow> code \<noteq> ''unknown_completion'' \<Longrightarrow> cleanup \<in> {[], [Unlinked d n p]} \<Longrightarrow>
    writeRun E version good code (cleanup @ [Exchanged d n b y p, Exchanged d n b p y, Created d n p])"
| uncertain: "\<not> good \<Longrightarrow> code = ''unknown_completion'' \<Longrightarrow> again \<in> {[], [Exchanged d n b y z]} \<Longrightarrow>
    writeRun E version good code (again @ [Exchanged d n b p y, Created d n p])"
| replaced: "good \<or> code = ''unknown_completion'' \<Longrightarrow> version \<noteq> [] \<Longrightarrow> fileVersion E st = version \<Longrightarrow> statId st = y \<Longrightarrow>
    writeRun E version good code [Unlinked d n y, Exchanged d n b p y, Created d n p]"
| installed: "good \<or> code = ''unknown_completion'' \<Longrightarrow>
    writeRun E version good code [Installed d n b p, Created d n p]"
| overwritten: "good \<or> code = ''unknown_completion'' \<Longrightarrow> version = [] \<Longrightarrow> over \<in> {[], [Replaced d n b p y]} \<Longrightarrow>
    writeRun E version good code (over @ [Created d n p])"

text \<open>What a tool did to the directory between two states, without its audit records.\<close>

fun isAudit :: "fileEvent \<Rightarrow> bool" where
  "isAudit (FileAuditStart _ _) = True"
| "isAudit (FileAuditComplete _ _) = True"
| "isAudit _ = False"

definition eventsSince :: "fworld \<Rightarrow> fworld \<Rightarrow> fileEvent list" where
  "eventsSince s t = take (length (fw_trace t) - length (fw_trace s)) (fw_trace t)"

definition fileOps :: "fworld \<Rightarrow> fworld \<Rightarrow> fileEvent list" where
  "fileOps s t = filter (\<lambda>ev. \<not> isAudit ev) (eventsSince s t)"

lemma eventsSince_append [simp]: "fw_trace t = evs @ fw_trace s \<Longrightarrow> eventsSince s t = evs"
  by (simp add: eventsSince_def)

section \<open>Both commits keep to it\<close>

lemma not_unknown [simp]:
  "r_ok (writeFailed e) = False" "r_errorCode (writeFailed e) = ''file_write_failed''"
  "r_ok (unknownFileCompletion E m st) = False" "r_errorCode (unknownFileCompletion E m st) = ''unknown_completion''"
  by (auto simp: writeFailed_def unknownFileCompletion_def fileError_def Let_def split: option.splits)

lemma commitState_id: "sameFileCommitState a b \<Longrightarrow> statId a = statId b"
  by (simp add: sameFileCommitState_def sameFileIdentity_def statId_def)

lemma statId_statOf [simp]: "statId (statOf i x) = i"
  by (simp add: statId_def statOf_def)

lemma kept_lookup: "kept E u t \<Longrightarrow> leavesTemps E \<Longrightarrow> isTemp n \<Longrightarrow> lookupName t d n = lookupName u d n"
  by (simp add: kept_def)

lemma kept_trace: "kept E u t \<Longrightarrow> fw_trace t = fw_trace u"
  by (simp add: kept_def)

text \<open>Steps that only look, relative to a fixed earlier state \<open>u\<close>.\<close>

lemma look_try:
  assumes "state_io_rel (kept E) m" and "kept E u s"
    and "\<And>e t. kept E u t \<Longrightarrow> wp (h e) Q t" and "\<And>x t. kept E u t \<Longrightarrow> wp (f x) Q t"
  shows "wp (tryE m h f) Q s"
proof -
  have "wp m (\<lambda>_ t. kept E u t) s"
    by (rule wp_kept[OF assms(1)]) (use assms(2) kp.step_trans in blast)
  then show ?thesis
    unfolding wp_tryE by (rule wp_mono) (auto split: sum.split intro: assms(3,4))
qed

lemma temp_try:
  assumes "leavesTemps E" and "isTemp n" and "lookupName u d n = Some i" and "kept E u s"
    and "\<And>e t. kept E u t \<Longrightarrow> wp (h e) Q t"
    and "\<And>found t. kept E u t \<Longrightarrow> (\<And>st. found = Some st \<Longrightarrow> statId st = i) \<Longrightarrow> wp (f found) Q t"
  shows "wp (tryE (pathState E d n) h f) Q s"
proof -
  have "kept E u (fadvance E s)" and "lookupName (fadvance E s) d n = Some i"
    using kp.step_trans[OF assms(4) kept_advance] kept_lookup[OF assms(4,1,2)] assms(1-3) by (auto simp: lookup_temp)
  then show ?thesis
    by (auto simp: pathState_def wp_fcall split: option.splits intro!: assms(5,6))
qed

lemma if_wp: "(c \<Longrightarrow> wp m Q s) \<Longrightarrow> (\<not> c \<Longrightarrow> wp n Q s) \<Longrightarrow> wp (if c then m else n) Q s"
  by simp

lemma option_wp:
  "(x = None \<Longrightarrow> wp m Q s) \<Longrightarrow> (\<And>y. x = Some y \<Longrightarrow> wp (f y) Q s) \<Longrightarrow>
   wp (case x of None \<Rightarrow> m | Some y \<Rightarrow> f y) Q s"
  by (simp split: option.split)

lemma prod_wp: "(\<And>a b. p = (a, b) \<Longrightarrow> wp (f a b) Q s) \<Longrightarrow> wp (case p of (a, b) \<Rightarrow> f a b) Q s"
  by (simp split: prod.split)

lemma holds_id: "holds st found \<Longrightarrow> (\<And>x. found = Some x \<Longrightarrow> statId x = i) \<Longrightarrow> statId st = i"
  by (auto simp: holds_def commitState_id split: option.splits)

text \<open>A rollback that claims success has undone the exchange: the temporary name holds the prepared inode again.\<close>

lemma confirmRollback_sees:
  assumes "leavesTemps E" and "isTemp temp" and "lookupName u d temp = Some z"
  shows "wp (confirmRollback E d base temp prepared displaced)
    (\<lambda>r t. kept E u t \<and> (r = Inr () \<longrightarrow> statId prepared = z)) u"
  unfolding confirmRollback_def
  by (intro temp_try[OF assms] look_try[OF kp.on_pathState, where u = u] look_try[OF kp.on_looks(2), where u = u]
        if_wp kp.step_refl) (auto simp: kp.step_refl intro: holds_id)

lemma rollback_undoes:
  assumes "leavesTemps E" and "isTemp temp" and "lookupName u d temp = Some y"
  shows "wp (rollbackExistingExchange E d base temp prepared displaced) (\<lambda>r t.
      (r \<noteq> Inr () \<and> kept E u t) \<or>
      (\<exists>z. fw_trace t = Exchanged d temp base y z # fw_trace u \<and>
         (r = Inr () \<longrightarrow> z = statId prepared \<and> lookupName t d temp = Some z))) u"
    (is "wp _ ?Q _")
proof -
  have confirm: "wp (confirmRollback E d base temp prepared displaced) ?Q v"
    if "fw_trace v = Exchanged d temp base y z # fw_trace u" "lookupName v d temp = Some z" for v z
    by (rule wp_mono[OF confirmRollback_sees[OF assms(1,2) that(2)]])
      (use that kept_trace kept_lookup assms(1,2) in fastforce)
  have exchange: "wp (tryE (renameExchange E d temp base) (\<lambda>e. fail (wrapErr ''rollback exchange'' e))
      (\<lambda>_. confirmRollback E d base temp prepared displaced)) ?Q s" if "kept E u s" for s
    unfolding wp_tryE using that assms(3) kept_lookup[OF that assms(1,2), of d] kept_trace[OF that]
    by (intro wp_exchange[OF assms(1,2)]) (auto intro: kp.step_trans[of E u s] confirm)
  show ?thesis
    unfolding rollbackExistingExchange_def
    by (intro temp_try[OF assms] look_try[OF kp.on_pathState, where u = u] if_wp exchange kp.step_refl) auto
qed


text \<open>How the part of a write between the creation of the temporary file and its cleanup may end: with the
  temporary name still holding the prepared inode, or for good.\<close>

definition bodyEnd :: "fileEnv \<Rightarrow> string \<Rightarrow> fworld \<Rightarrow> nat \<Rightarrow> string \<Rightarrow> string \<Rightarrow> inodeId \<Rightarrow> Response \<times> bool \<Rightarrow> fworld \<Rightarrow> bool" where
  "bodyEnd E version u d n b p x t = (case x of (resp, owned) \<Rightarrow>
     if owned then lookupName t d n = Some p \<and> \<not> r_ok resp \<and> r_errorCode resp \<noteq> ''unknown_completion'' \<and>
       (fw_trace t = fw_trace u \<or> (\<exists>y. fw_trace t = Exchanged d n b y p # Exchanged d n b p y # fw_trace u))
     else \<exists>evs. fw_trace t = evs @ fw_trace u \<and> writeRun E version (r_ok resp) (r_errorCode resp) (evs @ [Created d n p]))"

lemma writeRun_uncertain:
  "writeRun E version False ''unknown_completion'' [Exchanged d n b p y, Created d n p]"
  "writeRun E version False ''unknown_completion'' [Exchanged d n b y z, Exchanged d n b p y, Created d n p]"
  using writeRun.uncertain[of False "''unknown_completion''" "[]" d n b y z E version p]
    writeRun.uncertain[of False "''unknown_completion''" "[Exchanged d n b y z]" d n b y z E version p] by auto

lemma bodyEnd_uncertain:
  "\<not> r_ok resp \<Longrightarrow> r_errorCode resp = ''unknown_completion'' \<Longrightarrow> again \<in> {[], [Exchanged d n b y z]} \<Longrightarrow>
   fw_trace t = again @ Exchanged d n b p y # fw_trace u \<Longrightarrow> bodyEnd E version u d n b p (resp, False) t"
  by (auto simp: bodyEnd_def writeRun_uncertain)

lemma bodyEnd_owned:
  "lookupName t d n = Some p \<Longrightarrow> \<not> r_ok resp \<Longrightarrow> r_errorCode resp \<noteq> ''unknown_completion'' \<Longrightarrow>
   fw_trace t = fw_trace u \<Longrightarrow> bodyEnd E version u d n b p (resp, True) t"
  by (simp add: bodyEnd_def)

lemma kept_owned:
  "leavesTemps E \<Longrightarrow> isTemp n \<Longrightarrow> lookupName u d n = Some p \<Longrightarrow> kept E u t \<Longrightarrow>
   \<not> r_ok resp \<Longrightarrow> r_errorCode resp \<noteq> ''unknown_completion'' \<Longrightarrow> bodyEnd E version u d n b p (resp, True) t"
  by (rule bodyEnd_owned) (auto simp: kept_def)

lemma commitExchange_ends:
  assumes "leavesTemps E" and "isTemp temp" and "lookupName u d temp = Some p" and "statId prepared = p" and "kept E u s"
  shows "wp (commitExchange E T d base temp original prepared) (\<lambda>r t. case r of
      Inl x \<Rightarrow> bodyEnd E version u d temp base p x t
    | Inr _ \<Rightarrow> fw_trace t = Unlinked d temp (statId original) # Exchanged d temp base p (statId original) # fw_trace u) s"
    (is "wp _ ?Q _")
proof -
  have again: "wp (tryE (rollbackExistingExchange E d base temp prepared displaced)
      (\<lambda>_. fail (unknownFileCompletion E (ct_unproven T) None, False))
      (\<lambda>_. fail (fileError ''file_changed'' ''conflict'' (ct_raced T), True))) ?Q v"
    if "fw_trace v = Exchanged d temp base p y # fw_trace u" "lookupName v d temp = Some y" for v y displaced
    unfolding wp_tryE
    by (rule wp_mono[OF rollback_undoes[OF assms(1,2) that(2)]])
      (use that(1) assms(4) in \<open>auto simp: bodyEnd_def kept_trace writeRun_uncertain split: sum.splits\<close>)
  have drop: "wp (tryE (unlinkAt E d temp) (\<lambda>_. fail (unknownFileCompletion E (ct_cleanup T) (Some prepared), False)) (\<lambda>_. ok ())) ?Q v"
    if "fw_trace v = Exchanged d temp base p (statId original) # fw_trace u" "lookupName v d temp = Some (statId original)" for v
    unfolding wp_tryE using that
    by (intro wp_unlink[OF assms(1,2)]) (auto intro!: bodyEnd_uncertain[where again = "[]"] simp: kept_trace)
  have inspect: "wp (tryE (pathState E d temp) (\<lambda>_. fail (unknownFileCompletion E (ct_uninspected T) None, False)) (\<lambda>found.
     case found of
       None \<Rightarrow> fail (unknownFileCompletion E (ct_uninspected T) None, False)
     | Some displaced \<Rightarrow>
       if \<not> sameFileCommitState original displaced then
         tryE (rollbackExistingExchange E d base temp prepared displaced)
           (\<lambda>_. fail (unknownFileCompletion E (ct_unproven T) None, False))
           (\<lambda>_. fail (fileError ''file_changed'' ''conflict'' (ct_raced T), True))
       else tryE (unlinkAt E d temp)
           (\<lambda>_. fail (unknownFileCompletion E (ct_cleanup T) (Some prepared), False))
           (\<lambda>_. ok ()))) ?Q v"
    if v: "fw_trace v = Exchanged d temp base p y # fw_trace u" "lookupName v d temp = Some y" for v y
  proof (rule temp_try[OF assms(1,2) v(2) kp.step_refl], goal_cases)
    case (1 e t)
    then show ?case
      using v(1) by (auto intro!: bodyEnd_uncertain[where again = "[]"] simp: kept_trace)
  next
    case (2 found t)
    then have t: "fw_trace t = Exchanged d temp base p y # fw_trace u" "lookupName t d temp = Some y"
      using v assms(1,2) by (auto simp: kept_def)
    have "sameFileCommitState original st \<Longrightarrow> found = Some st \<Longrightarrow> statId original = y" for st
      using 2(2) commitState_id by metis
    then show ?case
      using t again[OF t] drop by (cases found) (auto intro!: bodyEnd_uncertain[where again = "[]"] simp del: wp_tryE)
  qed
  have "lookupName s d temp = Some p" "fw_trace s = fw_trace u"
    using assms by (auto simp: kept_def)
  then show ?thesis
    unfolding commitExchange_def wp_tryE[of "renameExchange _ _ _ _"]
    using assms inspect kp.step_trans[OF assms(5)]
    by (intro wp_exchange[OF assms(1,2)]) (auto intro!: kept_owned simp del: wp_tryE)
qed

lemma confirmCommit_answers:
  "wp (confirmCommit E T d base prepared) (\<lambda>r t. kept E s t \<and> (r_ok r \<or> \<not> r_ok r \<and> r_errorCode r = ''unknown_completion'')) s"
  unfolding confirmCommit_def Let_def
  by (intro look_try[OF kp.on_destinationState, where u = s] look_try[OF kp.on_looks(2), where u = s]
        if_wp option_wp kp.step_refl) auto


text \<open>Committed: only the confirmation can still say more.\<close>

definition settled :: "fileEnv \<Rightarrow> string \<Rightarrow> fworld \<Rightarrow> nat \<Rightarrow> string \<Rightarrow> inodeId \<Rightarrow> fworld \<Rightarrow> bool" where
  "settled E version u d n p t = (\<exists>evs. fw_trace t = evs @ fw_trace u \<and>
     (\<forall>good code. good \<or> code = ''unknown_completion'' \<longrightarrow> writeRun E version good code (evs @ [Created d n p])))"

abbreviation commitEnds :: "fileEnv \<Rightarrow> string \<Rightarrow> fworld \<Rightarrow> nat \<Rightarrow> string \<Rightarrow> string \<Rightarrow> inodeId \<Rightarrow> commitEnd \<Rightarrow> fworld \<Rightarrow> bool" where
  "commitEnds E version u d n b p r t \<equiv>
     (case r of Inl x \<Rightarrow> bodyEnd E version u d n b p x t | Inr _ \<Rightarrow> settled E version u d n p t)"

lemma exchange_settles:
  assumes "leavesTemps E" and "isTemp temp" and "lookupName u d temp = Some p" and "statId prepared = p" and "kept E u s"
    and "fileVersion E original = version" and "version \<noteq> []"
  shows "wp (commitExchange E T d base temp original prepared) (commitEnds E version u d temp base p) s"
  by (rule wp_mono[OF commitExchange_ends[OF assms(1-5), of _ _ _ version]])
    (use assms(6,7) writeRun.replaced in \<open>auto simp: settled_def split: sum.splits\<close>)

lemma new_settles:
  assumes "leavesTemps E" and "isTemp temp" and "lookupName u d temp = Some p" and "kept E u s"
  shows "wp (commitNew E T d base temp) (commitEnds E version u d temp base p) s"
  unfolding commitNew_def wp_tryE using assms kept_lookup[OF assms(4,1,2), of d] kept_trace[OF assms(4)]
  by (intro wp_noReplace[OF assms(1,2)])
    (auto intro!: kept_owned writeRun.installed simp: settled_def dest: kp.step_trans[OF assms(4)])

lemma over_settles:
  assumes "leavesTemps E" and "isTemp temp" and "lookupName u d temp = Some p" and "kept E u s"
  shows "wp (commitOver E d base temp) (commitEnds E [] u d temp base p) s"
proof -
  have "writeRun E [] good code [Created d temp p]" "writeRun E [] good code [Replaced d temp base p y, Created d temp p]"
    if "good \<or> code = ''unknown_completion''" for good code y
    using writeRun.overwritten[OF that, of "[]" "[]"] writeRun.overwritten[OF that, of "[]" "[Replaced d temp base p y]"] by auto
  then show ?thesis
    unfolding commitOver_def wp_tryE using assms kept_lookup[OF assms(4,1,2), of d] kept_trace[OF assms(4)]
    by (intro wp_over[OF assms(1,2)])
      (auto intro!: kept_owned simp: settled_def kept_trace dest: kp.step_trans[OF assms(4)])
qed

lemma confirm_ends:
  assumes "wp commit (commitEnds E version u d n b p) s"
  shows "wp (tryE commit return (\<lambda>_. State_Monad.bind (confirmCommit E T d b prepared) (\<lambda>resp. return (resp, False))))
    (bodyEnd E version u d n b p) s"
proof -
  have "wp (State_Monad.bind (confirmCommit E T d b prepared) (\<lambda>resp. return (resp, False))) (bodyEnd E version u d n b p) t"
    if "settled E version u d n p t" for t
    unfolding wp_bind by (rule wp_mono[OF confirmCommit_answers]) (use that in \<open>fastforce simp: bodyEnd_def kept_trace settled_def\<close>)
  then show ?thesis
    unfolding wp_tryE by (intro wp_mono[OF assms]) (auto split: sum.splits simp del: wp_bind)
qed

lemma fstat_id:
  "kept E u s \<Longrightarrow> wp (fstat E fd) (\<lambda>r t. kept E u t \<and> (\<forall>st. r = Inr st \<longrightarrow> statId st = fd)) s"
  by (auto simp: fstat_def wp_fcall intro: kp.step_trans[OF _ kept_advance] split: option.splits)

lemma prepare_id:
  assumes "kept E u s"
  shows "wp (prepareWorker E fd content mode) (\<lambda>r t. kept E u t \<and> (\<forall>st. r = Inr st \<longrightarrow> statId st = fd)) s"
    and "wp (prepareRoot E fd content uid gid mode) (\<lambda>r t. kept E u t \<and> (\<forall>st. r = Inr st \<longrightarrow> statId st = fd)) s"
proof -
  note looks = kp.on_writeAllFD[where fd = fd] kp.on_owner[where fd = fd] kp.on_looks(2)
  have chown: "state_io_rel (kept E) (if c then fchown E fd uid gid else ok ())" for c
    by (auto intro: kp.on_owner kp.on_return)
  show "wp (prepareWorker E fd content mode) (\<lambda>r t. kept E u t \<and> (\<forall>st. r = Inr st \<longrightarrow> statId st = fd)) s"
    unfolding prepareWorker_def
    by (intro looks[THEN look_try[where u = u]] fstat_id assms) (auto intro: fstat_id assms)
  show "wp (prepareRoot E fd content uid gid mode) (\<lambda>r t. kept E u t \<and> (\<forall>st. r = Inr st \<longrightarrow> statId st = fd)) s"
    unfolding prepareRoot_def
    by (intro looks[THEN look_try[where u = u]] chown[THEN look_try[where u = u]] assms)
      (auto intro!: wp_mono[OF fstat_id[where u = u]] split: sum.splits)
qed

section \<open>Both tools keep to it\<close>

lemma compare_ends:
  assumes "leavesTemps E" and "isTemp n" and "lookupName u d n = Some p" and "kept E u s"
    and "\<And>t. kept E u t \<Longrightarrow> wp commit (commitEnds E version u d n b p) t"
  shows "wp (tryE (destinationState E d b) (\<lambda>e. return (fileError ''unsafe_file_type'' ''validation'' (emsg e), True)) (\<lambda>current.
      case unchangedDest E original current changed appeared of
        Some bad \<Rightarrow> return (bad, True)
      | None \<Rightarrow> tryE commit return
        (\<lambda>_. State_Monad.bind (confirmCommit E T d b prepared) (\<lambda>resp. return (resp, False)))))
      (bodyEnd E version u d n b p) s"
  by (intro look_try[OF kp.on_destinationState, where u = u] option_wp confirm_ends assms(4,5))
    (auto intro!: kept_owned[OF assms(1-3)] simp: unchangedDest_def split: option.splits if_splits)

lemma replaceWorker_ends:
  assumes "leavesTemps E" and "isTemp temp" and "lookupName u d temp = Some p"
    and "\<And>st. original = Some st \<Longrightarrow> fileVersion E st = version \<and> version \<noteq> []"
  shows "wp (replaceWorker E op d base original p temp) (bodyEnd E version u d temp base p) u"
  unfolding replaceWorker_def Let_def wp_tryE[of "prepareWorker _ _ _ _"]
  by (rule wp_mono[OF prepare_id(1)[OF kp.step_refl]])
    (auto split: sum.splits option.split simp del: wp_tryE dest: assms(4)
      intro!: compare_ends[OF assms(1-3)] kept_owned[OF assms(1-3)] new_settles[OF assms(1-3)] exchange_settles[OF assms(1-3)])

lemma replaceRoot_ends:
  assumes "leavesTemps E" and "isTemp temp" and "lookupName u d temp = Some p"
    and "\<And>st. original = Some st \<Longrightarrow> q_fileVersion req \<noteq> [] \<Longrightarrow> fileVersion E st = q_fileVersion req"
  shows "wp (replaceRoot E req d base original p temp) (bodyEnd E (q_fileVersion req) u d temp base p) u"
  unfolding replaceRoot_def Let_def wp_tryE[of "prepareRoot _ _ _ _ _ _"]
  by (rule wp_mono[OF prepare_id(2)[OF kp.step_refl]])
    (auto split: sum.splits option.split simp del: wp_tryE dest: assms(4)
      intro!: compare_ends[OF assms(1-3)] kept_owned[OF assms(1-3)] new_settles[OF assms(1-3)] exchange_settles[OF assms(1-3)]
      over_settles[OF assms(1-3)])

lemma cleanup_ends:
  assumes "leavesTemps E" and "isTemp n" and "fw_trace u = Created d n p # fw_trace s"
    and "wp body (bodyEnd E version u d n b p) u"
  shows "wp (cleanupTemp E d n body) (\<lambda>resp t. \<exists>evs. fw_trace t = evs @ fw_trace s \<and>
    writeRun E version (r_ok resp) (r_errorCode resp) evs) u"
proof -
  have "wp (unlinkAt E d n) (\<lambda>_ v. \<exists>evs. fw_trace v = evs @ fw_trace s \<and> writeRun E version (r_ok resp) (r_errorCode resp) evs) t"
    if ended: "bodyEnd E version u d n b p (resp, True) t" for resp t
  proof -
    have bad: "\<not> r_ok resp" "r_errorCode resp \<noteq> ''unknown_completion''" and at: "lookupName t d n = Some p"
      using ended by (auto simp: bodyEnd_def)
    obtain mid where mid: "fw_trace t = mid @ Created d n p # fw_trace s"
      and run: "\<And>cl. cl \<in> {[], [Unlinked d n p]} \<Longrightarrow> writeRun E version (r_ok resp) (r_errorCode resp) (cl @ mid @ [Created d n p])"
    proof -
      consider "fw_trace t = fw_trace u" | y where "fw_trace t = Exchanged d n b y p # Exchanged d n b p y # fw_trace u"
        using ended by (auto simp: bodyEnd_def)
      then show ?thesis
      proof cases
        case 1
        with that[of "[]"] show ?thesis using assms(3) writeRun.given_up[OF bad] by simp
      next
        case (2 y)
        with that[of "[Exchanged d n b y p, Exchanged d n b p y]"] show ?thesis
          using assms(3) writeRun.rolled_back[OF bad] by simp
      qed
    qed
    show ?thesis
      using at run[of "[]"] run[of "[Unlinked d n p]"] mid
      by (intro wp_unlink[OF assms(1,2)])
        (auto simp: kept_trace intro: exI[of _ "mid @ [Created d n p]"] exI[of _ "Unlinked d n p # mid @ [Created d n p]"])
  qed
  moreover have "\<exists>evs. fw_trace t = evs @ fw_trace s \<and> writeRun E version (r_ok resp) (r_errorCode resp) evs"
    if "bodyEnd E version u d n b p (resp, False) t" for resp t
    using that assms(3) by (auto simp: bodyEnd_def intro: exI[of _ "_ @ [Created d n p]"])
  ultimately show ?thesis
    unfolding cleanupTemp_def wp_bind by (intro wp_mono[OF assms(4)]) auto
qed


lemma writeWorker_runs:
  assumes "leavesTemps E"
  shows "wp (writeWorkerWorkspaceFile E op) (\<lambda>resp t. \<exists>evs. fw_trace t = evs @ fw_trace s \<and>
    writeRun E (w_fileVersion op) (r_ok resp) (r_errorCode resp) evs) s"
    (is "wp _ ?Q s")
proof -
  have opened: "wp (openWorkerFile E op) (\<lambda>r t. kept E s t \<and> (\<forall>resp. r = Inl resp \<longrightarrow> \<not> r_ok resp \<and> r_errorCode resp \<noteq> ''unknown_completion'')) s"
    unfolding openWorkerFile_def
    by (intro look_try[OF kp.on_openWorkerWorkspace, where u = s] look_try[OF kp.on_openWorkerParent, where u = s] kp.step_refl) auto
  have go: "wp (tryE (createTempFileAt E d) (\<lambda>e. return (writeFailed e)) (\<lambda>(fd, temp).
          cleanupTemp E d temp (replaceWorker E op d base original fd temp))) ?Q t"
    if "kept E s t" "\<And>st. original = Some st \<Longrightarrow> fileVersion E st = w_fileVersion op \<and> w_fileVersion op \<noteq> []" for t d base original
    unfolding wp_tryE using that(1) kept_trace[OF that(1)]
    by (intro wp_createTemp)
      (auto simp: kept_trace intro!: writeRun.refused cleanup_ends[OF assms] replaceWorker_ends[OF assms] that(2))
  have checked: "wp (writeWorkerAt E op d base) ?Q t"
    if "kept E s t" "w_mustNotExist op \<noteq> (w_fileVersion op \<noteq> [])" for t d base
    unfolding writeWorkerAt_def using that(2)
    by (intro look_try[OF kp.on_looks(4), where u = s] look_try[OF kp.on_destinationState, where u = s] if_wp go that(1))
      (auto simp: kept_trace intro!: writeRun.refused split: option.splits)
  show ?thesis
    unfolding writeWorkerWorkspaceFile_def using checked
    by (intro if_wp) (auto intro!: writeRun.refused wp_mono[OF opened] split: sum.splits simp: kept_trace)
qed


lemma writeRoot_runs:
  assumes "leavesTemps E"
    and "\<And>st. original = Some st \<Longrightarrow> q_fileVersion req \<noteq> [] \<Longrightarrow> fileVersion E st = q_fileVersion req"
  shows "wp (writeRootAudited E req d base original) (\<lambda>resp t. \<exists>evs. fw_trace t = evs @ fw_trace s \<and>
    writeRun E (q_fileVersion req) (r_ok resp) (r_errorCode resp) evs) s"
  unfolding writeRootAudited_def wp_tryE
  by (intro wp_createTemp)
    (auto simp: kept_trace intro!: writeRun.refused cleanup_ends[OF assms(1)] replaceRoot_ends[OF assms(1)] assms(2))

end
