(* ===== verification/FileContents.thy ===== *)
theory FileContents
  imports FileSafety
begin

text \<open>
  What a write that reports success has written. Here no other process interferes; every call may still
  fail. The file at the destination then holds the requested bytes, every other name still names the inode
  it named, and no other inode has changed its bytes, owner or mode.
\<close>

section \<open>Undisturbed environments\<close>

text \<open>Nobody else changes files, the kernel hands out unused inodes, and a directory resolves the same way
  every time; a call may fail, but not by calling a file missing that is there.\<close>

definition undisturbed :: "fileEnv \<Rightarrow> bool" where
  "undisturbed E = ((\<forall>k f. fe_others E k f = f) \<and> (\<forall>k f. fe_fresh E k f \<notin> snd ` set (fs_names f) \<union> set (fs_held f)) \<and>
     (\<forall>k. fe_openDir E k = fe_openDir E 0) \<and> (\<forall>k e. fe_fault E k = Some e \<longrightarrow> \<not> isNotExist e))"

definition sameFs :: "fileEnv \<Rightarrow> fworld \<Rightarrow> fworld \<Rightarrow> bool" where
  "sameFs E s t = (undisturbed E \<longrightarrow> fw_fs t = fw_fs s)"

interpretation sf: file_frame "sameFs E" E for E
  by unfold_locales (auto simp: sameFs_def undisturbed_def fadvance_def)

lemma wp_sameFs:
  "state_io_rel (sameFs E) m \<Longrightarrow> undisturbed E \<Longrightarrow> (\<And>r t. fw_fs t = fw_fs s \<Longrightarrow> Q r t) \<Longrightarrow> wp m Q s"
  by (auto simp: wp_def sameFs_def split: prod.splits dest!: state_io_relD)

lemma still_try:
  assumes "state_io_rel (sameFs E) m" and "undisturbed E"
    and "\<And>e t. fw_fs t = fw_fs s \<Longrightarrow> wp (h e) Q t" and "\<And>x t. fw_fs t = fw_fs s \<Longrightarrow> wp (f x) Q t"
  shows "wp (tryE m h f) Q s"
  unfolding wp_tryE by (rule wp_sameFs[OF assms(1,2)]) (auto split: sum.split intro: assms(3,4))

text \<open>Inodes as a reader of files sees them: all but the change time.\<close>

definition shown :: "fworld \<Rightarrow> inodeId \<Rightarrow> inode" where
  "shown w i = (inodeAt w i)\<lparr>in_ctim := 0\<rparr>"

lemma shown_same:
  "shown t i = shown s j \<Longrightarrow> in_data (inodeAt t i) = in_data (inodeAt s j) \<and> in_mode (inodeAt t i) = in_mode (inodeAt s j)"
proof -
  have "in_data (shown w k) = in_data (inodeAt w k)" "in_mode (shown w k) = in_mode (inodeAt w k)" for w k
    by (simp_all add: shown_def)
  then show "shown t i = shown s j \<Longrightarrow> in_data (inodeAt t i) = in_data (inodeAt s j) \<and> in_mode (inodeAt t i) = in_mode (inodeAt s j)"
    by metis
qed

lemma lookup_fs: "fw_fs t = fw_fs s \<Longrightarrow> lookupName t d n = lookupName s d n"
  by (simp add: lookupName_def)

lemma inode_fs: "fw_fs t = fw_fs s \<Longrightarrow> inodeAt t i = inodeAt s i"
  by (simp add: inodeAt_def)

lemma shown_fs: "fw_fs t = fw_fs s \<Longrightarrow> shown t i = shown s i"
  by (simp add: shown_def inodeAt_def)

lemma inode_set:
  "inodeAt (setName d n i w) j = inodeAt w j" "inodeAt (dropName d n w) j = inodeAt w j"
  "inodeAt (logEvent ev w) j = inodeAt w j"
  "inodeAt (setInode i x w) j = (if j = i then x else inodeAt w j)"
  by (auto simp: world_defs)

lemma shown_set:
  "shown (setName d n i w) j = shown w j" "shown (dropName d n w) j = shown w j"
  "shown (logEvent ev w) j = shown w j" "shown (touch E k i w) j = shown w j"
  by (auto simp: shown_def touch_def inode_set)

lemma undisturbed_advance: "undisturbed E \<Longrightarrow> fw_fs (fadvance E w) = fw_fs w"
  by (simp add: fadvance_def undisturbed_def)

section \<open>The prepared file\<close>

text \<open>\<open>preparing s p u\<close>: compared with \<open>s\<close> only the inode \<open>p\<close> has changed.\<close>

definition preparing :: "fworld \<Rightarrow> inodeId \<Rightarrow> fworld \<Rightarrow> bool" where
  "preparing s p u = ((\<forall>d n. lookupName u d n = lookupName s d n) \<and> (\<forall>i. i \<noteq> p \<longrightarrow> inodeAt u i = inodeAt s i))"

lemma preparing_trans: "preparing s p t \<Longrightarrow> preparing t p u \<Longrightarrow> preparing s p u"
  by (simp add: preparing_def)

lemma preparing_fs: "fw_fs t = fw_fs s \<Longrightarrow> preparing s p t"
  by (simp add: preparing_def lookupName_def inodeAt_def)

lemma overwrite_append: "length old = pos \<Longrightarrow> overwrite pos b old = old @ b"
  by (simp add: overwrite_def)

lemma writeFD_appends:
  assumes "undisturbed E" and "length (in_data (inodeAt s p)) = pos"
    and "\<And>e t. preparing s p t \<Longrightarrow> Q (Inl e) t"
    and "\<And>n t. preparing s p t \<Longrightarrow> n \<le> length b \<Longrightarrow> in_data (inodeAt t p) = in_data (inodeAt s p) @ take n b \<Longrightarrow>
      in_mode (inodeAt t p) = in_mode (inodeAt s p) \<Longrightarrow> Q (Inr n) t"
  shows "wp (writeFD E p pos b) Q s"
proof -
  have fs: "fw_fs (fadvance E s) = fw_fs s" by (rule undisturbed_advance[OF assms(1)])
  show ?thesis
    unfolding writeFD_def
    by (auto simp: wp_fcall Let_def inode_set inode_fs[OF fs] lookup_set lookup_fs[OF fs] preparing_def overwrite_append assms(2)
        split: option.split intro!: assms(3,4))
qed

lemma writeAllFD_appends:
  assumes "undisturbed E"
  shows "length (in_data (inodeAt s p)) = pos \<Longrightarrow> wp (writeAllFD E p pos b) (\<lambda>r t. preparing s p t \<and> (r = Inr () \<longrightarrow>
     in_data (inodeAt t p) = in_data (inodeAt s p) @ b \<and> in_mode (inodeAt t p) = in_mode (inodeAt s p))) s"
proof (induction b arbitrary: s pos rule: length_induct)
  case (1 b)
  show ?case
  proof (cases b)
    case Nil
    then show ?thesis by (simp add: preparing_def)
  next
    case (Cons c cs)
    show ?thesis
      unfolding Cons writeAllFD.simps wp_tryE
    proof (rule writeFD_appends[OF assms 1(2)], goal_cases)
      case (1 e t)
      then show ?case by simp
    next
      case (2 n t)
      have more: "wp (writeAllFD E p (pos + n) (drop (n - 1) cs)) (\<lambda>r u. preparing t p u \<and> (r = Inr () \<longrightarrow>
          in_data (inodeAt u p) = in_data (inodeAt t p) @ drop (n - 1) cs \<and> in_mode (inodeAt u p) = in_mode (inodeAt t p))) t"
        if "0 < n"
      proof -
        have "length (drop (n - 1) cs) < length b" using Cons that by simp
        moreover have "length (in_data (inodeAt t p)) = pos + n" using 2(2,3) 1(2) that by (cases n) auto
        ultimately show ?thesis using 1(1) by blast
      qed
      have "take n (c # cs) @ drop (n - 1) cs = c # cs" if "0 < n"
        using that by (cases n) auto
      then show ?case
        using 2 more by (auto elim!: wp_mono intro: preparing_trans)
    qed
  qed
qed

lemma calm_fchmod:
  assumes "undisturbed E" and "\<And>e t. preparing s p t \<Longrightarrow> Q (Inl e) t"
    and "\<And>t. preparing s p t \<Longrightarrow> in_data (inodeAt t p) = in_data (inodeAt s p) \<Longrightarrow>
      in_mode (inodeAt t p) = (in_mode (inodeAt s p) AND 0xF000) OR (mode AND 0xFFF) \<Longrightarrow> Q (Inr ()) t"
  shows "wp (fchmod E p mode) Q s"
proof -
  have fs: "fw_fs (fadvance E s) = fw_fs s" by (rule undisturbed_advance[OF assms(1)])
  show ?thesis
    unfolding fchmod_def
    by (auto simp: wp_fcall Let_def inode_set inode_fs[OF fs] lookup_set lookup_fs[OF fs] preparing_def
        split: option.split intro!: assms(2,3))
qed

lemma prepareWorker_prepares:
  assumes "undisturbed E" and "in_data (inodeAt s p) = []"
  shows "wp (prepareWorker E p content mode) (\<lambda>r t. preparing s p t \<and> (\<forall>st. r = Inr st \<longrightarrow>
     in_data (inodeAt t p) = content \<and> in_mode (inodeAt t p) = (in_mode (inodeAt s p) AND 0xF000) OR (mode AND 0xFFF))) s"
    (is "wp _ ?Q s")
proof -
  have same: "?Q r u" if "?Q (Inr st) t" "fw_fs u = fw_fs t" for t u st r
    using that(1) preparing_trans[OF _ preparing_fs[OF that(2), of p], of s] inode_fs[OF that(2), of p] by auto
  have look: "wp (fstat E p) ?Q t" if "?Q (Inr st) t" for t st
    by (rule wp_sameFs[OF sf.on_looks(1) assms(1)]) (rule same[OF that])
  have sync: "wp (tryE (fsyncFD E) fail (\<lambda>_. fstat E p)) ?Q t" if "?Q (Inr st) t" for t st
  proof (rule still_try[OF sf.on_looks(2) assms(1)], goal_cases)
    case (1 e u)
    then show ?case using same[OF that, of u "Inl e"] by simp
  next
    case (2 x u)
    then show ?case using look[OF same[OF that, of u "Inr st"]] by blast
  qed
  have chmod: "wp (tryE (fchmod E p mode) fail (\<lambda>_. tryE (fsyncFD E) fail (\<lambda>_. fstat E p))) ?Q t"
    if t: "preparing s p t" "in_data (inodeAt t p) = content" "in_mode (inodeAt t p) = in_mode (inodeAt s p)" for t
    unfolding wp_tryE[of "fchmod _ _ _"]
  proof (rule calm_fchmod[OF assms(1)], goal_cases)
    case (1 e u)
    then show ?case using preparing_trans[OF t(1)] by simp
  next
    case (2 u)
    then show ?case using sync[of u] preparing_trans[OF t(1)] t(2,3) by (simp del: wp_tryE)
  qed
  show ?thesis
    unfolding prepareWorker_def wp_tryE[of "writeAllFD _ _ _ _"]
  proof (rule wp_mono[OF writeAllFD_appends[OF assms(1), of s p 0 content]], goal_cases)
    case 1
    then show ?case using assms(2) by simp
  next
    case (2 r t)
    then show ?case using chmod[of t] assms(2) by (cases r) (simp_all del: wp_tryE)
  qed
qed

section \<open>The commit\<close>

text \<open>The directories after a step: \<open>m\<close> maps the names, everything else is as in \<open>s\<close> to a reader, but the inode \<open>p\<close>.\<close>

definition names :: "fworld \<Rightarrow> dirEntry \<Rightarrow> inodeId option" where
  "names w e = lookupName w (fst e) (snd e)"

lemma names_fs: "fw_fs t = fw_fs s \<Longrightarrow> names t = names s"
  by (simp add: names_def lookupName_def fun_eq_iff)

lemma names_set:
  "names (setName d n i w) = (names w)((d, n) \<mapsto> i)" "names (dropName d n w) = (names w)((d, n) := None)"
  "names (setInode i x w) = names w" "names (logEvent ev w) = names w" "names (touch E k i w) = names w"
  by (auto simp: names_def lookup_set fun_eq_iff)

lemma calm_exchange:
  assumes "undisturbed E" and "\<And>e t. Q (Inl e) t"
    and "\<And>x y t. names s (d, a) = Some x \<Longrightarrow> names s (d, b) = Some y \<Longrightarrow> names t = (names s)((d, b) \<mapsto> x, (d, a) \<mapsto> y) \<Longrightarrow>
      shown t = shown s \<Longrightarrow> Q (Inr ()) t"
  shows "wp (renameExchange E d a b) Q s"
proof -
  have fs: "fw_fs (fadvance E s) = fw_fs s" by (rule undisturbed_advance[OF assms(1)])
  show ?thesis
    unfolding renameExchange_def
    by (auto simp: wp_fcall lookup_fs[OF fs] names_set names_fs[OF fs] shown_set shown_fs[OF fs] fun_eq_iff names_def[of s]
        split: option.splits intro!: assms(2,3))
qed

lemma calm_noReplace:
  assumes "undisturbed E" and "\<And>e t. Q (Inl e) t"
    and "\<And>x t. names s (d, a) = Some x \<Longrightarrow> names s (d, b) = None \<Longrightarrow> names t = (names s)((d, a) := None, (d, b) \<mapsto> x) \<Longrightarrow>
      shown t = shown s \<Longrightarrow> Q (Inr ()) t"
  shows "wp (renameNoReplace E d a b) Q s"
proof -
  have fs: "fw_fs (fadvance E s) = fw_fs s" by (rule undisturbed_advance[OF assms(1)])
  show ?thesis
    unfolding renameNoReplace_def
    by (auto simp: wp_fcall lookup_fs[OF fs] names_set names_fs[OF fs] shown_set shown_fs[OF fs] fun_eq_iff names_def[of s]
        split: option.splits intro!: assms(2,3))
qed

lemma calm_unlink:
  assumes "undisturbed E" and "\<And>e t. Q (Inl e) t"
    and "\<And>x t. names s (d, n) = Some x \<Longrightarrow> names t = (names s)((d, n) := None) \<Longrightarrow> shown t = shown s \<Longrightarrow> Q (Inr ()) t"
  shows "wp (unlinkAt E d n) Q s"
proof -
  have fs: "fw_fs (fadvance E s) = fw_fs s" by (rule undisturbed_advance[OF assms(1)])
  show ?thesis
    unfolding unlinkAt_def
    by (auto simp: wp_fcall lookup_fs[OF fs] names_set names_fs[OF fs] shown_set shown_fs[OF fs] fun_eq_iff names_def[of s]
        split: option.splits intro!: assms(2,3))
qed

lemma wp_any: "(\<And>r t. Q r t) \<Longrightarrow> wp m Q s"
  by (simp add: wp_def split: prod.split)

text \<open>The inode \<open>p\<close> stands at the destination and nothing else has moved since \<open>s\<close>.\<close>

definition placed :: "fworld \<Rightarrow> fworld \<Rightarrow> nat \<Rightarrow> string \<Rightarrow> inodeId \<Rightarrow> fworld \<Rightarrow> bool" where
  "placed s u d b p t = (names t = (names s)((d, b) \<mapsto> p) \<and> shown t = shown u)"

lemma calm_commitExchange:
  assumes "undisturbed E" and "names u = (names s)((d, temp) \<mapsto> p)" and "names s (d, temp) = None"
    and "names s (d, b) = Some y"
  shows "wp (commitExchange E T d b temp original prepared) (\<lambda>r t. case r of
     Inl x \<Rightarrow> \<not> r_ok (fst x) | Inr _ \<Rightarrow> placed s u d b p t) u"
proof -
  have other: "temp \<noteq> b" using assms(3,4) by auto
  have drop: "wp (tryE (unlinkAt E d temp) (\<lambda>_. fail (unknownFileCompletion E m st, False)) (\<lambda>_. ok ()))
      (\<lambda>r t. case r of Inl x \<Rightarrow> \<not> r_ok (fst x) | Inr _ \<Rightarrow> placed s u d b p t) v"
    if "names v = (names u)((d, b) \<mapsto> p, (d, temp) \<mapsto> y)" "shown v = shown u" for v m st
    unfolding wp_tryE using that assms(2,3) other
    by (intro calm_unlink[OF assms(1)]) (auto simp: placed_def fun_eq_iff)
  show ?thesis
    unfolding commitExchange_def wp_tryE[of "renameExchange _ _ _ _"]
  proof (rule calm_exchange[OF assms(1)], goal_cases)
    case (1 e t)
    then show ?case by simp
  next
    case (2 x z t)
    then have "x = p" "z = y" and t: "names t = (names u)((d, b) \<mapsto> p, (d, temp) \<mapsto> y)" "shown t = shown u"
      using assms(2,4) other by auto
    have still: "names v = (names u)((d, b) \<mapsto> p, (d, temp) \<mapsto> y)" "shown v = shown u" if "fw_fs v = fw_fs t" for v
      using names_fs[OF that] shown_fs[OF that] t by (auto simp: fun_eq_iff)
    show ?case
      unfolding sum.case
      by (intro still_try[OF sf.on_pathState assms(1)] option_wp if_wp drop still) (auto intro!: wp_any split: sum.split)
  qed
qed

lemma calm_commitNew:
  assumes "undisturbed E" and "names u = (names s)((d, temp) \<mapsto> p)" and "names s (d, temp) = None"
  shows "wp (commitNew E T d b temp) (\<lambda>r t. case r of
     Inl x \<Rightarrow> \<not> r_ok (fst x) | Inr _ \<Rightarrow> placed s u d b p t) u"
  unfolding commitNew_def wp_tryE using assms(2,3)
  by (intro calm_noReplace[OF assms(1)]) (auto simp: placed_def fun_eq_iff split: if_splits)

lemma calm_confirm:
  "undisturbed E \<Longrightarrow> wp (confirmCommit E T d b prepared) (\<lambda>r t. fw_fs t = fw_fs s) s"
  by (rule wp_sameFs[OF sf.on_confirmCommit])

section \<open>A whole write\<close>

text \<open>\<open>wrote s d b content mode t\<close>: between \<open>s\<close> and \<open>t\<close> the name \<open>b\<close> of directory \<open>d\<close> has been given a new inode
  with these bytes and permissions; nothing else a reader can see has changed.\<close>

definition wrote :: "fworld \<Rightarrow> nat \<Rightarrow> string \<Rightarrow> bytes \<Rightarrow> 32 word \<Rightarrow> fworld \<Rightarrow> bool" where
  "wrote s d b content mode t = (\<exists>p. p \<notin> ran (names s) \<and> names t = (names s)((d, b) \<mapsto> p) \<and>
     in_data (inodeAt t p) = content \<and> in_mode (inodeAt t p) = 0x8000 OR (mode AND 0xFFF) \<and> (\<forall>i. i \<noteq> p \<longrightarrow> shown t i = shown s i))"

lemma ran_names: "ran (names w) \<subseteq> snd ` set (fs_names (fw_fs w))"
  by (force simp: ran_def names_def lookupName_def dest: map_of_SomeD)

lemma undisturbed_fresh:
  assumes "undisturbed E"
  shows "fe_fresh E k (fw_fs s) \<notin> ran (names s)" and "fe_fresh E k (fw_fs s) \<notin> set (fs_held (fw_fs s))"
proof -
  have "fe_fresh E k (fw_fs s) \<notin> snd ` set (fs_names (fw_fs s)) \<union> set (fs_held (fw_fs s))"
    using assms unfolding undisturbed_def by blast
  then show "fe_fresh E k (fw_fs s) \<notin> ran (names s)" "fe_fresh E k (fw_fs s) \<notin> set (fs_held (fw_fs s))"
    using ran_names[of s] by blast+
qed

lemma calm_createTemp:
  assumes "undisturbed E" and "\<And>e t. Q (Inl e) t"
    and "\<And>p n t. p \<notin> ran (names s) \<Longrightarrow> names s (d, n) = None \<Longrightarrow> names t = (names s)((d, n) \<mapsto> p) \<Longrightarrow>
      in_data (inodeAt t p) = [] \<Longrightarrow> in_mode (inodeAt t p) = 0x8180 \<Longrightarrow> (\<forall>i. i \<noteq> p \<longrightarrow> inodeAt t i = inodeAt s i) \<Longrightarrow>
      Q (Inr (p, n)) t"
  shows "wp (createTempFileAt E d) Q s"
proof -
  have "wp (createTempLoop E d k) Q u" if "fw_fs u = fw_fs s" for k u
    using that
  proof (induction k arbitrary: u)
    case 0
    then show ?case by (auto intro: assms(2))
  next
    case (Suc k)
    have fresh: "fe_fresh E k (fw_fs u) \<notin> ran (names s)" for k
      using undisturbed_fresh(1)[OF assms(1), of k s] Suc.prems by simp
    have fs: "fw_fs (fadvance E v) = fw_fs v" for v by (rule undisturbed_advance[OF assms(1)])
    have two: "fw_fs (fadvance E (fadvance E u)) = fw_fs s" using fs Suc.prems by simp
    show ?case
      using Suc.prems Suc.IH fresh
      by (auto simp: randomName_def createExcl_def wp_fcall Let_def fs names_set names_fs[OF two] inode_fs[OF two]
            names_def[of s] lookupName_def inode_set split: option.splits intro!: assms)
  qed
  then show ?thesis unfolding createTempFileAt_def by simp
qed

lemma calm_replaceWorker:
  assumes "undisturbed E" and "p \<notin> ran (names s)" and "names s (d, n) = None" and "names u = (names s)((d, n) \<mapsto> p)"
    and "in_data (inodeAt u p) = []" and "in_mode (inodeAt u p) = 0x8180" and "\<forall>i. i \<noteq> p \<longrightarrow> inodeAt u i = inodeAt s i"
    and "original = None \<longleftrightarrow> names s (d, b) = None"
  shows "wp (replaceWorker E op d b original p n) (\<lambda>x t. r_ok (fst x) \<longrightarrow> \<not> snd x \<and>
     wrote s d b (w_content op) (case original of None \<Rightarrow> 0x1A4 | Some st \<Rightarrow> st_mode st AND 0x1FF) t) u"
    (is "wp _ ?Q u")
proof -
  let ?mode = "case original of None \<Rightarrow> 0x1A4 | Some st \<Rightarrow> st_mode st AND 0x1FF"
  have written: "wrote s d b (w_content op) ?mode t"
    if "placed s v d b p t" "preparing u p v" "in_data (inodeAt v p) = w_content op" "in_mode (inodeAt v p) = 0x8000 OR (?mode AND 0xFFF)" for v t
  proof -
    have "in_data (inodeAt t p) = w_content op" "in_mode (inodeAt t p) = 0x8000 OR (?mode AND 0xFFF)"
      using that shown_same[of t p v p] by (auto simp: placed_def)
    moreover have "shown t i = shown s i" if "i \<noteq> p" for i
      using that \<open>placed s v d b p t\<close> \<open>preparing u p v\<close> assms(7) by (auto simp: placed_def preparing_def shown_def)
    ultimately show ?thesis
      using that(1) assms(2) by (auto simp: wrote_def placed_def)
  qed
  have commit: "wp (case original of Some st \<Rightarrow> commitExchange E workerTexts d b n st prepared | None \<Rightarrow> commitNew E workerTexts d b n)
      (\<lambda>r t. case r of Inl x \<Rightarrow> \<not> r_ok (fst x) | Inr _ \<Rightarrow> placed s v d b p t) v"
    if "names v = (names s)((d, n) \<mapsto> p)" for v prepared
    using assms(8) calm_commitNew[OF assms(1) that assms(3), of workerTexts b]
      calm_commitExchange[OF assms(1) that assms(3), of b] by (cases original) auto
  have finish: "wp (tryE (case original of Some st \<Rightarrow> commitExchange E workerTexts d b n st prepared | None \<Rightarrow> commitNew E workerTexts d b n)
      return (\<lambda>_. State_Monad.bind (confirmCommit E workerTexts d b prepared) (\<lambda>resp. return (resp, False)))) ?Q v"
    if v: "preparing u p v" "in_data (inodeAt v p) = w_content op" "in_mode (inodeAt v p) = 0x8000 OR (?mode AND 0xFFF)" for v prepared
  proof -
    have "names v = (names s)((d, n) \<mapsto> p)"
      using v(1) assms(4) by (simp add: preparing_def names_def fun_eq_iff)
    moreover have "wp (confirmCommit E workerTexts d b prepared) (\<lambda>resp t. r_ok resp \<longrightarrow> wrote s d b (w_content op) ?mode t) t"
      if "placed s v d b p t" for t
    proof (rule wp_mono[OF calm_confirm[OF assms(1)]])
      fix r :: Response and t' :: fworld
      assume fs: "fw_fs t' = fw_fs t"
      have "placed s v d b p t'"
        using that names_fs[OF fs] shown_fs[OF fs] by (simp add: placed_def fun_eq_iff)
      then show "r_ok r \<longrightarrow> wrote s d b (w_content op) ?mode t'" using written[OF _ v] by blast
    qed
    ultimately show ?thesis
      unfolding wp_tryE by (intro wp_mono[OF commit]) (auto split: sum.splits)
  qed
  have checked: "wp (tryE (destinationState E d b) (\<lambda>e. return (fileError ''unsafe_file_type'' ''validation'' (emsg e), True)) (\<lambda>current.
      case unchangedDest E original current changed appeared of
        Some bad \<Rightarrow> return (bad, True)
      | None \<Rightarrow> tryE (case original of Some st \<Rightarrow> commitExchange E workerTexts d b n st prepared | None \<Rightarrow> commitNew E workerTexts d b n)
      return (\<lambda>_. State_Monad.bind (confirmCommit E workerTexts d b prepared) (\<lambda>resp. return (resp, False))))) ?Q v"
    if v: "preparing u p v" "in_data (inodeAt v p) = w_content op" "in_mode (inodeAt v p) = 0x8000 OR (?mode AND 0xFFF)" for v prepared changed appeared
  proof -
    have same: "preparing u p v'" "in_data (inodeAt v' p) = w_content op" "in_mode (inodeAt v' p) = 0x8000 OR (?mode AND 0xFFF)"
      if "fw_fs v' = fw_fs v" for v' :: fworld
      using v preparing_trans[OF v(1) preparing_fs[OF that]] inode_fs[OF that] by auto
    show ?thesis
      by (intro still_try[OF sf.on_destinationState assms(1)] option_wp finish same)
        (auto simp: unchangedDest_def split: option.splits if_splits)
  qed
  show ?thesis
    unfolding replaceWorker_def Let_def wp_tryE[of "prepareWorker _ _ _ _"]
    by (rule wp_mono[OF prepareWorker_prepares[OF assms(1,5)]])
      (use assms(6) in \<open>auto split: sum.splits intro!: checked simp del: wp_tryE\<close>)
qed

lemma writeWorker_wrote:
  assumes "undisturbed E"
  shows "wp (writeWorkerAt E op d b) (\<lambda>resp t. r_ok resp \<longrightarrow>
     wrote s d b (w_content op) (case names s (d, b) of None \<Rightarrow> 0x1A4 | Some q \<Rightarrow> in_mode (inodeAt s q) AND 0x1FF) t) s"
    (is "wp _ (\<lambda>resp t. r_ok resp \<longrightarrow> wrote s d b (w_content op) ?mode t) s")
proof -
  have found: "wp (destinationState E d b) (\<lambda>r t. fw_fs t = fw_fs u \<and>
      (\<forall>st. r = Inr st \<longrightarrow> st = map_option (\<lambda>q. statOf q (inodeAt u q)) (names u (d, b)))) u" for u
  proof -
    have fs: "fw_fs (fadvance E u) = fw_fs u" by (rule undisturbed_advance[OF assms])
    show ?thesis
      using assms by (auto simp: destinationState_def pathState_def wp_fcall fs lookup_fs[OF fs] inode_fs[OF fs]
          names_def undisturbed_def split: option.splits)
  qed
  have go: "wp (tryE (createTempFileAt E d) (\<lambda>e. return (writeFailed e)) (\<lambda>(fd, temp).
       cleanupTemp E d temp (replaceWorker E op d b original fd temp))) (\<lambda>resp t. r_ok resp \<longrightarrow> wrote s d b (w_content op) ?mode t) u"
    if u: "fw_fs u = fw_fs s" and original: "original = map_option (\<lambda>q. statOf q (inodeAt s q)) (names s (d, b))" for u original
  proof -
    have mode: "(case original of None \<Rightarrow> 0x1A4 | Some st \<Rightarrow> st_mode st AND 0x1FF) = ?mode"
      using original by (auto simp: statOf_def split: option.splits)
    have end_ok: "wp (cleanupTemp E d n (replaceWorker E op d b original p n)) (\<lambda>resp t. r_ok resp \<longrightarrow> wrote s d b (w_content op) ?mode t) v"
      if "p \<notin> ran (names u)" "names u (d, n) = None" "names v = (names u)((d, n) \<mapsto> p)" "in_data (inodeAt v p) = []"
        "in_mode (inodeAt v p) = 0x8180" "\<forall>i. i \<noteq> p \<longrightarrow> inodeAt v i = inodeAt u i" for p n v
    proof -
      have "wp (replaceWorker E op d b original p n) (\<lambda>x t. r_ok (fst x) \<longrightarrow> \<not> snd x \<and> wrote s d b (w_content op) ?mode t) v"
        unfolding mode[symmetric]
        by (rule calm_replaceWorker[OF assms]) (use that original names_fs[OF u] inode_fs[OF u] in auto)
      then show ?thesis
        unfolding cleanupTemp_def wp_bind by (rule wp_mono) (auto intro!: wp_any)
    qed
    show ?thesis
      unfolding wp_tryE by (rule calm_createTemp[OF assms]) (auto intro!: end_ok)
  qed
  have compare: "wp (tryE (destinationState E d b) (\<lambda>e. return (fileError ''unsafe_file_type'' ''validation'' (emsg e))) (\<lambda>original.
     if w_mustNotExist op \<and> original \<noteq> None
     then return (fileError ''file_exists'' ''conflict'' ''destination already exists'')
     else if w_fileVersion op \<noteq> [] \<and> (case original of None \<Rightarrow> True | Some st \<Rightarrow> w_fileVersion op \<noteq> fileVersion E st)
     then return (fileError ''file_changed'' ''conflict'' ''destination has changed'')
     else tryE (createTempFileAt E d) (\<lambda>e. return (writeFailed e)) (\<lambda>(fd, temp).
       cleanupTemp E d temp (replaceWorker E op d b original fd temp)))) (\<lambda>resp t. r_ok resp \<longrightarrow> wrote s d b (w_content op) ?mode t) u"
    if u: "fw_fs u = fw_fs s" for u
    unfolding wp_tryE[of "destinationState _ _ _"]
  proof (rule wp_mono[OF found[of u]])
    fix r :: "err + stat option" and t :: fworld
    assume "fw_fs t = fw_fs u \<and> (\<forall>st. r = Inr st \<longrightarrow> st = map_option (\<lambda>q. statOf q (inodeAt u q)) (names u (d, b)))"
    then have "wp (tryE (createTempFileAt E d) (\<lambda>e. return (writeFailed e)) (\<lambda>(fd, temp).
       cleanupTemp E d temp (replaceWorker E op d b original fd temp))) (\<lambda>resp t. r_ok resp \<longrightarrow> wrote s d b (w_content op) ?mode t) t"
      if "r = Inr original" for original
      using u that names_fs[OF u] inode_fs[OF u] by (intro go) auto
    then show "(case r of Inl e \<Rightarrow> wp (return (fileError ''unsafe_file_type'' ''validation'' (emsg e)))
             (\<lambda>resp t. r_ok resp \<longrightarrow> wrote s d b (w_content op) ?mode t)
         | Inr original \<Rightarrow> wp (if w_mustNotExist op \<and> original \<noteq> None
     then return (fileError ''file_exists'' ''conflict'' ''destination already exists'')
     else if w_fileVersion op \<noteq> [] \<and> (case original of None \<Rightarrow> True | Some st \<Rightarrow> w_fileVersion op \<noteq> fileVersion E st)
     then return (fileError ''file_changed'' ''conflict'' ''destination has changed'')
     else tryE (createTempFileAt E d) (\<lambda>e. return (writeFailed e)) (\<lambda>(fd, temp).
       cleanupTemp E d temp (replaceWorker E op d b original fd temp))) (\<lambda>resp t. r_ok resp \<longrightarrow> wrote s d b (w_content op) ?mode t)) t"
      by (cases r) (auto simp del: wp_tryE)
  qed
  show ?thesis
    unfolding writeWorkerAt_def by (intro still_try[OF sf.on_looks(4) assms] compare) auto
qed

end
