(* ===== verification/FileReads.thy ===== *)
theory FileReads
  imports FileContents
begin

text \<open>
  Where the worker tools find a file, what an undisturbed read returns, and what a batch of edits leaves
  behind: the reading half of the round trip and the functional meaning of \<open>workspace_apply_edits\<close>.
\<close>

section \<open>Resolution\<close>

text \<open>The directory and name a path stands for, when directories resolve the same way every time.\<close>

definition workspaceAt :: "fileEnv \<Rightarrow> workspaceFileOperation \<Rightarrow> nat option" where
  "workspaceAt E op =
     (let root = clean (w_root op);
          selected = (if isAbs (w_workspace op) then w_workspace op else joinPath [root, w_workspace op]) in
      case (relElems root (clean selected), fe_openDir E 0 NoSymlinks None root) of
        (Some relative, Inr rootFD) \<Rightarrow>
          (case fe_openDir E 0 BeneathOnly (Some rootFD) (mkPath False relative) of Inl _ \<Rightarrow> None | Inr ws \<Rightarrow> Some ws)
      | _ \<Rightarrow> None)"

definition workerDir :: "fileEnv \<Rightarrow> workspaceFileOperation \<Rightarrow> string \<Rightarrow> dirEntry option" where
  "workerDir E op path = (case (workspaceAt E op, safeWorkspaceRelativeFile path) of
       (Some ws, Inr c) \<Rightarrow> (case fe_openDir E 0 BeneathOnly (Some ws) (dirOf c) of Inl _ \<Rightarrow> None | Inr d \<Rightarrow> Some (d, baseOf c))
     | _ \<Rightarrow> None)"

lemma openDir_steady: "undisturbed E \<Longrightarrow> fe_openDir E k = fe_openDir E 0"
  unfolding undisturbed_def by blast

lemma calm_openWorkerFile:
  assumes "undisturbed E"
  shows "wp (openWorkerFile E op) (\<lambda>r t. fw_fs t = fw_fs s \<and> (\<forall>resp. r = Inl resp \<longrightarrow> \<not> r_ok resp) \<and>
    (\<forall>x. r = Inr x \<longrightarrow> workerDir E op (w_path op) = Some x)) s"
proof -
  have fs: "fw_fs (fadvance E w) = fw_fs w" for w by (rule undisturbed_advance[OF assms])
  have steady: "fe_openDir E k how b p = fe_openDir E 0 how b p" for k how b p
    by (simp only: openDir_steady[OF assms, of k])
  have top: "wp (openWorkerWorkspace E op) (\<lambda>r t. fw_fs t = fw_fs s \<and> (\<forall>ws. r = Inr ws \<longrightarrow> workspaceAt E op = Some ws)) s"
    unfolding openWorkerWorkspace_def openDir_def workspaceAt_def Let_def
    by (auto simp: wp_fcall fs steady[of "fw_tick _"] split: option.splits sum.splits)
  have parent: "wp (openWorkerParent E ws (w_path op)) (\<lambda>r t. fw_fs t = fw_fs u \<and>
      (\<forall>x. r = Inr x \<longrightarrow> workerDir E op (w_path op) = Some x)) u" if "workspaceAt E op = Some ws" for ws u
    unfolding openWorkerParent_def openDir_def workerDir_def
    using that by (auto simp: wp_fcall fs steady[of "fw_tick _"] split: option.splits sum.splits)
  show ?thesis
    unfolding openWorkerFile_def wp_tryE
    by (rule wp_mono[OF top]) (auto intro!: wp_mono[OF parent] split: sum.splits)
qed

text \<open>The cleaned path stands for the same file.\<close>

lemma safe_clean: "safeWorkspaceRelativeFile p = Inr c \<Longrightarrow> safeWorkspaceRelativeFile c = Inr c' \<Longrightarrow> c' = c"
  by (auto simp: safeWorkspaceRelativeFile_def Let_def split: if_splits)

lemma workerDir_clean:
  "safeWorkspaceRelativeFile p = Inr c \<Longrightarrow> workerDir E op c = Some e \<Longrightarrow> workerDir E op p = Some e"
  using safe_clean[of p c] by (auto simp: workerDir_def split: option.splits sum.splits)

section \<open>Reading\<close>

text \<open>An answer that carries a range of the bytes \<open>b\<close> from \<open>off\<close>, and says truly where it ends.\<close>

definition carries :: "bytes \<Rightarrow> int \<Rightarrow> Response \<Rightarrow> bool" where
  "carries b off resp = (\<exists>raw. (\<exists>n. raw = take n (drop (nat off) b)) \<and>
     decodeOutput (r_output resp) (r_outputEncoding resp) = raw \<and>
     (r_outputEncoding resp = ''utf-8'' \<longrightarrow> r_output resp = raw) \<and>
     r_nextOffset resp = Some (off + int (length raw)) \<and>
     r_eof resp = Some (off + int (length raw) \<ge> int (length b)) \<and>
     r_omittedBytes resp = max 0 (int (length b) - (off + int (length raw))))"

lemma calm_fstat:
  "undisturbed E \<Longrightarrow> (\<And>e t. fw_fs t = fw_fs s \<Longrightarrow> Q (Inl e) t) \<Longrightarrow>
   (\<And>t. fw_fs t = fw_fs s \<Longrightarrow> Q (Inr (statOf i (inodeAt s i))) t) \<Longrightarrow> wp (fstat E i) Q s"
  using undisturbed_advance[of E s] by (auto simp: fstat_def wp_fcall inodeAt_def split: option.splits)

lemma calm_openPinned:
  "undisturbed E \<Longrightarrow> (\<And>e t. fw_fs t = fw_fs s \<Longrightarrow> Q (Inl e) t) \<Longrightarrow>
   (\<And>i t. fw_fs t = fw_fs s \<Longrightarrow> names s (d, n) = Some i \<Longrightarrow> Q (Inr i) t) \<Longrightarrow> wp (openPinned E d n) Q s"
  using undisturbed_advance[of E s]
  by (auto simp: openPinned_def wp_fcall names_def lookupName_def split: option.splits sum.splits if_splits)

lemma calm_pread:
  "undisturbed E \<Longrightarrow> (\<And>e t. fw_fs t = fw_fs s \<Longrightarrow> Q (Inl e) t) \<Longrightarrow>
   (\<And>n t. fw_fs t = fw_fs s \<Longrightarrow> Q (Inr (take n (drop (nat off) (in_data (inodeAt s i))))) t) \<Longrightarrow> wp (preadFD E i off lim) Q s"
  using undisturbed_advance[of E s] by (auto simp: preadFD_def wp_fcall inodeAt_def split: option.splits)

lemma rangeResponse_carries:
  assumes "encodeOutputBytes (take n (drop (nat off) b)) = (otext, enc)" and "st_size st = int (length b)"
  shows "carries b off ((rangeResponse v st off (take n (drop (nat off) b)) otext enc)\<lparr>r_status := x\<rparr>)"
proof -
  have "enc = ''utf-8'' \<Longrightarrow> otext = take n (drop (nat off) b)"
    using assms(1) by (auto simp: encodeOutputBytes_def split: if_splits)
  then show ?thesis
    unfolding carries_def using decode_encodeOutputBytes[OF assms(1)] assms(2)
    by (intro exI[of _ "take n (drop (nat off) b)"])
      (auto simp: rangeResponse_def Let_def zeroResponse_def intro: exI[of _ "length b"])
qed

lemma rangeResponse_simps [simp]:
  "r_ok (rangeResponse v st off raw otext enc)" "r_fileVersion (rangeResponse v st off raw otext enc) = v"
  by (auto simp: rangeResponse_def Let_def)

lemma statOf_size [simp]: "st_size (statOf i x) = int (length (in_data x))"
  by (simp add: statOf_def)

lemma calm_readPinned:
  assumes "undisturbed E" and "w_action op \<noteq> ''workspace_stat''"
  shows "wp (readPinned E op q (statOf q (inodeAt s q)) st) (\<lambda>r t. r_ok r \<longrightarrow>
     carries (in_data (inodeAt s q)) (w_offset op) r \<and> r_fileVersion r = fileVersion E (statOf q (inodeAt s q))) s"
  unfolding readPinned_def Let_def using assms(2) undisturbed_advance[OF assms(1)]
  by (auto intro!: calm_pread[OF assms(1)] calm_fstat[OF assms(1)] rangeResponse_carries
      split: prod.splits)

text \<open>Where a reading operation ends up: the file system as it was, and for a success the bytes of the file.\<close>

definition readsFile :: "fileEnv \<Rightarrow> workspaceFileOperation \<Rightarrow> fworld \<Rightarrow> Response \<Rightarrow> bool" where
  "readsFile E op s r = (\<exists>e q. workerDir E op (w_path op) = Some e \<and> names s e = Some q \<and>
     carries (in_data (inodeAt s q)) (w_offset op) r \<and> r_fileVersion r = fileVersion E (statOf q (inodeAt s q)))"

lemma calm_readWorker:
  assumes "undisturbed E" and "w_action op \<noteq> ''workspace_stat''"
  shows "wp (readWorkerWorkspaceFile E op) (\<lambda>r t. fw_fs t = fw_fs s \<and> (r_ok r \<longrightarrow> readsFile E op s r)) s"
proof (rule wp_conj)
  show "wp (readWorkerWorkspaceFile E op) (\<lambda>r t. fw_fs t = fw_fs s) s"
    by (rule wp_sameFs[OF sf.on_readWorkerWorkspaceFile assms(1)])
  let ?Q = "\<lambda>r t. r_ok r \<longrightarrow> readsFile E op s r"
  have last: "wp (readPinned E op q (statOf q (inodeAt s q)) st) ?Q u"
    if "fw_fs u = fw_fs s" "workerDir E op (w_path op) = Some e" "names s e = Some q" for u e q st
  proof -
    have "inodeAt u q = inodeAt s q" by (rule inode_fs[OF that(1)])
    then show ?thesis
      using wp_mono[OF calm_readPinned[OF assms, of q u st]] that(2,3) by (auto simp: readsFile_def)
  qed
  have reopen: "wp (tryE (fcall E (\<lambda>_. ok q)) h (\<lambda>fd. tryE (fstat E fd) g (\<lambda>reopened.
      if \<not> sameFileIdentity (statOf q (inodeAt s q)) reopened then return bad
      else readPinned E op fd (statOf q (inodeAt s q)) reopened))) ?Q u"
    if "fw_fs u = fw_fs s" "workerDir E op (w_path op) = Some e" "names s e = Some q" "\<not> r_ok bad"
      "\<And>e t. wp (h e) ?Q t" "\<And>e t. wp (g e) ?Q t" for u e q h g bad
    using that(1) undisturbed_advance[OF assms(1)] last[OF _ that(2,3)] that(4-6)
    by (auto simp: wp_fcall split: option.splits intro!: calm_fstat[OF assms(1)] if_wp)
  have inspect: "wp (tryE (openPinned E d b) (\<lambda>e. return (fileError ''file_unavailable'' ''io'' (emsg e))) (\<lambda>i.
        tryE (fstat E i) (\<lambda>e. return (fileError ''file_unavailable'' ''io'' (emsg e))) (\<lambda>before.
        if \<not> isRegular (st_mode before)
        then return (fileError ''unsupported_file_type'' ''validation'' ''workspace reads require regular files'')
        else tryE (rejectPseudoFilesystem E) (\<lambda>e. return (fileError ''unsupported_file_type'' ''validation'' (emsg e))) (\<lambda>_.
        tryE (fcall E (\<lambda>_. ok i)) (\<lambda>e. return (fileError ''file_unavailable'' ''io'' (emsg e))) (\<lambda>fd.
        tryE (fstat E fd) (\<lambda>_. return (fileError ''file_changed'' ''conflict'' ''file changed during safe worker open'')) (\<lambda>reopened.
        if \<not> sameFileIdentity before reopened
        then return (fileError ''file_changed'' ''conflict'' ''file changed during safe worker open'')
        else readPinned E op fd before reopened)))))) ?Q u"
    if u: "fw_fs u = fw_fs s" and at: "workerDir E op (w_path op) = Some (d, b)" for u d b
    unfolding wp_tryE[of "openPinned _ _ _"]
  proof (rule calm_openPinned[OF assms(1)], goal_cases)
    case (1 e t)
    then show ?case by simp
  next
    case (2 i t)
    then have i: "names s (d, b) = Some i" and t: "fw_fs t = fw_fs s" using u names_fs[OF u] by auto
    have "inodeAt t i = inodeAt s i" by (rule inode_fs[OF t])
    then show ?case
      unfolding sum.case wp_tryE[of "fstat E i" for i] using t
      by (intro calm_fstat[OF assms(1)])
        (auto intro!: still_try[OF sf.on_looks(4) assms(1)] reopen[OF _ at i] if_wp simp del: wp_tryE)
  qed
  show "wp (readWorkerWorkspaceFile E op) ?Q s"
    unfolding readWorkerWorkspaceFile_def Let_def
    by (intro if_wp) (auto intro!: wp_mono[OF calm_openWorkerFile[OF assms(1)]] inspect split: sum.splits
        simp: invalidRequest_def wp_tryE[of "openWorkerFile _ _"] simp del: wp_tryE)
qed

end
