(* ===== verification/FileLive.thy ===== *)
theory FileLive
  imports FileReads
begin

text \<open>
  A valid write goes through: when nobody interferes and no call fails, \<open>workspace_write\<close> with a version
  that is current, or for a name that is free, ends in success.
\<close>

definition smooth :: "fileEnv \<Rightarrow> bool" where
  "smooth E = (undisturbed E \<and> (\<forall>k. fe_fault E k = None) \<and> (\<forall>k. 0 < fe_accepts E k) \<and>
     (\<forall>k. fe_fsType E k \<notin> set pseudoFilesystems))"

text \<open>The workspace and the parent directory of the path open.\<close>

definition opens :: "fileEnv \<Rightarrow> workspaceFileOperation \<Rightarrow> dirEntry \<Rightarrow> bool" where
  "opens E op e = (\<forall>s. fst (run_state (openWorkerFile E op) s) = Inr e)"

text \<open>The request is valid, its precondition holds, and the random names are free.\<close>

definition acceptable :: "fileEnv \<Rightarrow> workspaceFileOperation \<Rightarrow> fworld \<Rightarrow> dirEntry \<Rightarrow> bool" where
  "acceptable E op s e = (utf8_valid (w_content op) \<and> length (w_content op) \<le> maxFileWriteBytes \<and>
     (\<forall>k. names s (fst e, tempName (fe_random E k)) = None \<and> snd e \<noteq> tempName (fe_random E k)) \<and>
     (case names s e of
        None \<Rightarrow> w_mustNotExist op \<and> w_fileVersion op = []
      | Some q \<Rightarrow> \<not> w_mustNotExist op \<and> isRegular (in_mode (inodeAt s q)) \<and>
          w_fileVersion op = fileVersion E (statOf q (inodeAt s q))))"

lemma statOf_mode [simp]: "st_mode (statOf i x) = in_mode x"
  by (simp add: statOf_def)

lemma version_not_Nil [simp]: "fileVersion E st \<noteq> []"
  by (simp add: fileVersion_def)

lemma smooth_und: "smooth E \<Longrightarrow> undisturbed E"
  by (simp add: smooth_def)

lemma smooth_fs: "smooth E \<Longrightarrow> fw_fs (fadvance E s) = fw_fs s"
  by (rule undisturbed_advance[OF smooth_und])

lemma smooth_fcall: "smooth E \<Longrightarrow> wp (fcall E body) Q s = wp (body (fw_tick s)) Q (fadvance E s)"
  by (simp add: wp_fcall smooth_def)

lemma smooth_fsync: "smooth E \<Longrightarrow> (\<And>t. fw_fs t = fw_fs s \<Longrightarrow> Q (Inr ()) t) \<Longrightarrow> wp (fsyncFD E) Q s"
  by (simp add: fsyncFD_def smooth_fcall smooth_fs)

lemma smooth_fstat: "smooth E \<Longrightarrow> (\<And>t. fw_fs t = fw_fs s \<Longrightarrow> Q (Inr (statOf i (inodeAt s i))) t) \<Longrightarrow> wp (fstat E i) Q s"
  using inode_fs[OF smooth_fs, of E s i] by (simp add: fstat_def smooth_fcall smooth_fs)

lemma smooth_pseudo: "smooth E \<Longrightarrow> (\<And>t. fw_fs t = fw_fs s \<Longrightarrow> Q (Inr ()) t) \<Longrightarrow> wp (rejectPseudoFilesystem E) Q s"
  using smooth_fs[of E s] by (simp add: rejectPseudoFilesystem_def wp_fcall) (simp add: smooth_def)

lemma smooth_pathState:
  "smooth E \<Longrightarrow> (\<And>t. fw_fs t = fw_fs s \<Longrightarrow> Q (Inr (map_option (\<lambda>q. statOf q (inodeAt s q)) (names s (d, n)))) t) \<Longrightarrow>
   wp (pathState E d n) Q s"
  using inode_fs[OF smooth_fs, of E s] lookup_fs[OF smooth_fs, of E s d n]
  by (simp add: pathState_def smooth_fcall smooth_fs names_def)

lemma smooth_dest:
  assumes "smooth E" and "\<And>q. names s (d, n) = Some q \<Longrightarrow> isRegular (in_mode (inodeAt s q))"
    and "\<And>t. fw_fs t = fw_fs s \<Longrightarrow> Q (Inr (map_option (\<lambda>q. statOf q (inodeAt s q)) (names s (d, n)))) t"
  shows "wp (destinationState E d n) Q s"
  unfolding destinationState_def wp_tryE
  by (rule smooth_pathState[OF assms(1)]) (use assms(2,3) in \<open>auto simp: statOf_def split: option.splits\<close>)

lemma smooth_writeAll:
  assumes "smooth E"
  shows "wp (writeAllFD E p pos b) (\<lambda>r t. r = Inr ()) s"
proof (induction b arbitrary: s pos rule: length_induct)
  case (1 b)
  show ?case
  proof (cases b)
    case (Cons c cs)
    have "min (fe_accepts E k) (Suc (length cs)) \<noteq> 0" for k
      using assms by (simp add: smooth_def)
    then show ?thesis
      unfolding Cons writeAllFD.simps wp_tryE writeFD_def
      using 1 Cons by (simp add: smooth_fcall[OF assms] Let_def)
  qed simp
qed

lemma smooth_prepare:
  assumes "smooth E" and "in_data (inodeAt s p) = []"
  shows "wp (prepareWorker E p content mode) (\<lambda>r t. r = Inr (statOf p (inodeAt t p)) \<and> preparing s p t \<and>
     in_data (inodeAt t p) = content \<and> in_mode (inodeAt t p) = (in_mode (inodeAt s p) AND 0xF000) OR (mode AND 0xFFF)) s"
proof -
  have "wp (prepareWorker E p content mode) (\<lambda>r t. r = Inr (statOf p (inodeAt t p))) s"
    unfolding prepareWorker_def wp_tryE fchmod_def
    by (rule wp_mono[OF smooth_writeAll[OF assms(1)]])
      (simp add: smooth_fcall[OF assms(1)], intro smooth_fsync[OF assms(1)], simp, intro smooth_fstat[OF assms(1)], simp add: inodeAt_def)
  from wp_conj[OF this prepareWorker_prepares[OF smooth_und[OF assms(1)] assms(2)]]
  show ?thesis by (rule wp_mono) auto
qed


section \<open>The commit\<close>

lemma smooth_lookup: "smooth E \<Longrightarrow> lookupName (fadvance E s) d n = names s (d, n)"
  using lookup_fs[OF smooth_fs, of E s d n] by (simp add: names_def)

lemma smooth_createTemp:
  assumes "smooth E" and "\<And>k. names s (d, tempName (fe_random E k)) = None"
  shows "wp (createTempFileAt E d) (\<lambda>r t. \<exists>p k. r = Inr (p, tempName (fe_random E k)) \<and> p \<notin> ran (names s) \<and>
      names t = (names s)((d, tempName (fe_random E k)) \<mapsto> p) \<and> in_data (inodeAt t p) = [] \<and>
      in_mode (inodeAt t p) = 0x8180 \<and> (\<forall>i. i \<noteq> p \<longrightarrow> inodeAt t i = inodeAt s i)) s"
proof -
  have first: "names (fadvance E s) e = names s e" for e
    using smooth_lookup[OF assms(1)] by (simp add: names_def)
  have eight: "createTempFileAt E d = createTempLoop E d (Suc 7)" by (simp add: createTempFileAt_def)
  have "wp (createTempFileAt E d) (\<lambda>r t. \<exists>p k. r = Inr (p, tempName (fe_random E k))) s"
    unfolding eight createTempLoop.simps randomName_def createExcl_def
    by (simp add: smooth_fcall[OF assms(1)] smooth_lookup[OF assms(1)] first assms(2) Let_def) blast
  moreover have "wp (createTempFileAt E d) (\<lambda>r t. \<forall>p n. r = Inr (p, n) \<longrightarrow> p \<notin> ran (names s) \<and> names t = (names s)((d, n) \<mapsto> p) \<and>
      in_data (inodeAt t p) = [] \<and> in_mode (inodeAt t p) = 0x8180 \<and> (\<forall>i. i \<noteq> p \<longrightarrow> inodeAt t i = inodeAt s i)) s"
    by (rule calm_createTemp[OF smooth_und[OF assms(1)]]) auto
  ultimately show ?thesis by (rule wp_mono[OF wp_conj]) blast
qed

lemma smooth_exchange:
  assumes "smooth E" and "names s (d, a) = Some x" and "names s (d, b) = Some y"
  shows "wp (renameExchange E d a b) (\<lambda>r t. r = Inr () \<and> names t = (names s)((d, b) \<mapsto> x, (d, a) \<mapsto> y) \<and> shown t = shown s) s"
proof -
  have "wp (renameExchange E d a b) (\<lambda>r t. r = Inr ()) s"
    by (simp add: renameExchange_def smooth_fcall[OF assms(1)] smooth_lookup[OF assms(1)] assms(2,3))
  moreover have "wp (renameExchange E d a b) (\<lambda>r t. r = Inr () \<longrightarrow>
      names t = (names s)((d, b) \<mapsto> x, (d, a) \<mapsto> y) \<and> shown t = shown s) s"
    by (rule calm_exchange[OF smooth_und[OF assms(1)]]) (use assms(2,3) in auto)
  ultimately show ?thesis by (rule wp_mono[OF wp_conj]) blast
qed

lemma smooth_noReplace:
  assumes "smooth E" and "names s (d, a) = Some x" and "names s (d, b) = None"
  shows "wp (renameNoReplace E d a b) (\<lambda>r t. r = Inr () \<and> names t = (names s)((d, a) := None, (d, b) \<mapsto> x) \<and> shown t = shown s) s"
proof -
  have "wp (renameNoReplace E d a b) (\<lambda>r t. r = Inr ()) s"
    by (simp add: renameNoReplace_def smooth_fcall[OF assms(1)] smooth_lookup[OF assms(1)] assms(2,3))
  moreover have "wp (renameNoReplace E d a b) (\<lambda>r t. r = Inr () \<longrightarrow>
      names t = (names s)((d, a) := None, (d, b) \<mapsto> x) \<and> shown t = shown s) s"
    by (rule calm_noReplace[OF smooth_und[OF assms(1)]]) (use assms(2,3) in auto)
  ultimately show ?thesis by (rule wp_mono[OF wp_conj]) blast
qed

lemma smooth_unlink:
  assumes "smooth E" and "names s (d, n) = Some x" and "\<not> isDirectory (in_mode (inodeAt s x))"
  shows "wp (unlinkAt E d n) (\<lambda>r t. r = Inr () \<and> names t = (names s)((d, n) := None) \<and> shown t = shown s) s"
proof -
  have "inodeAt (fadvance E s) x = inodeAt s x" by (rule inode_fs[OF smooth_fs[OF assms(1)]])
  then have "wp (unlinkAt E d n) (\<lambda>r t. r = Inr ()) s"
    by (simp add: unlinkAt_def smooth_fcall[OF assms(1)] smooth_lookup[OF assms(1)] assms(2,3))
  moreover have "wp (unlinkAt E d n) (\<lambda>r t. r = Inr () \<longrightarrow> names t = (names s)((d, n) := None) \<and> shown t = shown s) s"
    by (rule calm_unlink[OF smooth_und[OF assms(1)]]) auto
  ultimately show ?thesis by (rule wp_mono[OF wp_conj]) blast
qed

text \<open>The commit ends with \<open>p\<close> at the destination.\<close>

lemma smooth_commitExchange:
  assumes "smooth E" and "names u (d, n) = Some p" and "names u (d, b) = Some q" and "n \<noteq> b"
    and "\<not> isDirectory (in_mode (inodeAt u q))" and "original = statOf q (inodeAt u q)"
  shows "wp (commitExchange E T d b n original prepared) (\<lambda>r t. r = Inr () \<and> names t (d, b) = Some p \<and> shown t = shown u) u"
    (is "wp _ ?Q u")
proof -
  have drop: "wp (tryE (unlinkAt E d n) h (\<lambda>_. ok ())) ?Q v"
    if v: "names v (d, n) = Some q" "names v (d, b) = Some p" "shown v = shown u" for v h
  proof -
    have "\<not> isDirectory (in_mode (inodeAt v q))" using assms(5) shown_same[of v q u q] v(3) by simp
    then show ?thesis
      unfolding wp_tryE using v assms(4) by (intro wp_mono[OF smooth_unlink[OF assms(1) v(1)]]) auto
  qed
  have inspect: "wp (tryE (pathState E d n) h (\<lambda>found. case found of None \<Rightarrow> m | Some displaced \<Rightarrow>
       if \<not> sameFileCommitState original displaced then k displaced else tryE (unlinkAt E d n) g (\<lambda>_. ok ()))) ?Q v"
    if v: "names v (d, n) = Some q" "names v (d, b) = Some p" "shown v = shown u" for v h m k g
    unfolding wp_tryE[of "pathState _ _ _"]
  proof (rule smooth_pathState[OF assms(1)], goal_cases)
    case (1 t)
    have "shown v q = shown u q" using v(3) by simp
    then have "sameFileCommitState original (statOf q (inodeAt v q))"
      unfolding assms(6) by (cases "inodeAt v q"; cases "inodeAt u q")
        (simp add: sameFileCommitState_def sameFileIdentity_def statOf_def shown_def)
    moreover have "wp (tryE (unlinkAt E d n) g (\<lambda>_. ok ())) ?Q t"
      using v names_fs[OF 1] shown_fs[OF 1] by (intro drop) (auto simp: fun_eq_iff)
    ultimately show ?case
      using v(1) by (simp del: wp_tryE)
  qed
  show ?thesis
    unfolding commitExchange_def wp_tryE[of "renameExchange _ _ _ _"]
    by (rule wp_mono[OF smooth_exchange[OF assms(1-3)]]) (use assms(4) in \<open>auto intro!: inspect simp del: wp_tryE\<close>)
qed

lemma prepared_regular: "isRegular (((0x8180 AND 0xF000) OR (m AND 0xFFF)) :: 32 word)"
proof -
  have "(m AND 0xFFF) AND 0xF000 = (0 :: 32 word)"
    by (simp add: and.assoc)
  then show ?thesis by (simp add: isRegular_def bit.conj_disj_distrib2)
qed

lemma regular_not_directory: "isRegular m \<Longrightarrow> \<not> isDirectory m"
  by (simp add: isRegular_def isDirectory_def)

lemma smooth_confirm:
  assumes "smooth E" and "names s (d, b) = Some p" and "isRegular (in_mode (inodeAt s p))" and "statId prepared = p"
  shows "wp (confirmCommit E T d b prepared) (\<lambda>r t. r_ok r) s"
proof -
  have same: "sameFileIdentity prepared (statOf p x)" for x
    using assms(4) by (auto simp: sameFileIdentity_def statId_def statOf_def)
  have second: "wp (tryE (destinationState E d b) h (\<lambda>found2. case found2 of None \<Rightarrow> m
        | Some confirmed \<Rightarrow> if \<not> sameFileIdentity prepared confirmed then k else return (good confirmed))) (\<lambda>r t. r_ok r) t"
    if "fw_fs t = fw_fs s" "\<And>st. r_ok (good st)" for t h m k good
    unfolding wp_tryE using that names_fs[OF that(1)] inode_fs[OF that(1)] assms(2,3) same
    by (intro smooth_dest[OF assms(1)]) auto
  show ?thesis
    unfolding confirmCommit_def Let_def wp_tryE[of "destinationState _ _ _"]
  proof (rule smooth_dest[OF assms(1)], goal_cases)
    case (1 q)
    then show ?case using assms(2,3) by simp
  next
    case (2 t)
    have step: "wp (tryE (fsyncFD E) f (\<lambda>_. tryE (destinationState E d b) h (\<lambda>found2. case found2 of None \<Rightarrow> m
        | Some confirmed \<Rightarrow> if \<not> sameFileIdentity prepared confirmed then k else return (good confirmed)))) (\<lambda>r t. r_ok r) t"
      if "\<And>st. r_ok (good st)" for f h m k good
      unfolding wp_tryE[of "fsyncFD E"] using 2 that
      by (intro smooth_fsync[OF assms(1)]) (auto intro!: second simp del: wp_tryE)
    show ?case using assms(2) same by (simp del: wp_tryE) (rule step, simp)
  qed
qed

lemma smooth_replaceWorker:
  assumes "smooth E" and "p \<notin> ran (names s)" and "names s (d, n) = None" and "n \<noteq> b" and "names u = (names s)((d, n) \<mapsto> p)"
    and "in_data (inodeAt u p) = []" and "in_mode (inodeAt u p) = 0x8180" and "\<forall>i. i \<noteq> p \<longrightarrow> inodeAt u i = inodeAt s i"
    and "original = map_option (\<lambda>q. statOf q (inodeAt s q)) (names s (d, b))"
    and "\<And>q. names s (d, b) = Some q \<Longrightarrow> isRegular (in_mode (inodeAt s q))"
  shows "wp (replaceWorker E op d b original p n) (\<lambda>x t. r_ok (fst x) \<and> \<not> snd x) u"
    (is "wp _ ?Q u")
proof -
  have other: "q \<noteq> p" if "names s e = Some q" for e q
    using assms(2) that ranI[of "names s" e q] by auto
  have commit: "wp (tryE (case original of Some st \<Rightarrow> commitExchange E workerTexts d b n st prepared | None \<Rightarrow> commitNew E workerTexts d b n)
      return (\<lambda>_. State_Monad.bind (confirmCommit E workerTexts d b prepared) (\<lambda>resp. return (resp, False)))) ?Q v"
    if v: "preparing u p v" "isRegular (in_mode (inodeAt v p))" "statId prepared = p" for v prepared
  proof -
    have names_v: "names v = (names s)((d, n) \<mapsto> p)"
      using v(1) assms(5) by (simp add: preparing_def names_def fun_eq_iff)
    have inodes_v: "inodeAt v i = inodeAt s i" if "i \<noteq> p" for i
      using v(1) assms(8) that by (simp add: preparing_def)
    have finish: "wp (State_Monad.bind (confirmCommit E workerTexts d b prepared) (\<lambda>resp. return (resp, False))) ?Q t"
      if "names t (d, b) = Some p" "shown t = shown v" for t
      unfolding wp_bind using smooth_confirm[OF assms(1) that(1) _ v(3)] shown_same[of t p v p] that(2) v(2) by simp
    show ?thesis
    proof (cases "names s (d, b)")
      case None
      then have free: "names v (d, n) = Some p" "names v (d, b) = None" using names_v assms(4) by auto
      show ?thesis
        using None assms(9) unfolding commitNew_def wp_tryE
        by (auto intro!: wp_mono[OF smooth_noReplace[OF assms(1) free]] finish simp del: wp_bind)
    next
      case (Some q)
      then have q: "names v (d, n) = Some p" "names v (d, b) = Some q" "inodeAt v q = inodeAt s q"
        using names_v assms(4) inodes_v[OF other[OF Some]] by auto
      have "wp (commitExchange E workerTexts d b n (statOf q (inodeAt s q)) prepared)
          (\<lambda>r t. r = Inr () \<and> names t (d, b) = Some p \<and> shown t = shown v) v"
        by (rule smooth_commitExchange[OF assms(1) q(1,2) assms(4)])
          (use q(3) assms(10)[OF Some] regular_not_directory in auto)
      then show ?thesis
        using Some assms(9) unfolding wp_tryE by (auto intro!: finish elim!: wp_mono simp del: wp_bind)
    qed
  qed
  have compare: "wp (tryE (destinationState E d b) h (\<lambda>current. case unchangedDest E original current c a of
        Some bad \<Rightarrow> return (bad, True)
      | None \<Rightarrow> tryE (case original of Some st \<Rightarrow> commitExchange E workerTexts d b n st prepared | None \<Rightarrow> commitNew E workerTexts d b n)
      return (\<lambda>_. State_Monad.bind (confirmCommit E workerTexts d b prepared) (\<lambda>resp. return (resp, False))))) ?Q v"
    if v: "preparing u p v" "isRegular (in_mode (inodeAt v p))" "statId prepared = p" for v prepared h c a
  proof -
    have at: "names v (d, b) = names s (d, b)"
    proof -
      have "names v (d, b) = names u (d, b)" using v(1) by (simp add: preparing_def names_def)
      then show ?thesis using assms(4,5) by simp
    qed
    have old: "inodeAt v q = inodeAt s q" if "names s (d, b) = Some q" for q
      using v(1) assms(8) other[OF that] by (simp add: preparing_def)
    show ?thesis
      unfolding wp_tryE[of "destinationState _ _ _"]
    proof (rule smooth_dest[OF assms(1)], goal_cases)
      case (1 q)
      then show ?case using at old assms(10) by simp
    next
      case (2 t)
      have "map_option (\<lambda>q. statOf q (inodeAt v q)) (names v (d, b)) = original"
        using assms(9) at old by (cases "names s (d, b)") auto
      moreover have "unchangedDest E original original c a = None"
        by (auto simp: unchangedDest_def sameFileSnapshot_def sameFileIdentity_def split: option.splits)
      moreover have "preparing u p t" "isRegular (in_mode (inodeAt t p))"
        using v preparing_trans[OF v(1) preparing_fs[OF 2]] inode_fs[OF 2] by auto
      ultimately show ?case
        using commit[of t prepared] v(3) by (simp del: wp_tryE)
    qed
  qed
  show ?thesis
    unfolding replaceWorker_def Let_def wp_tryE[of "prepareWorker _ _ _ _"]
    by (rule wp_mono[OF smooth_prepare[OF assms(1,6)]])
      (use assms(7) prepared_regular in \<open>auto intro!: compare simp del: wp_tryE\<close>)
qed

section \<open>The whole write\<close>

lemma smooth_writeAt:
  assumes "smooth E" and "acceptable E op s (d, b)" and "fw_fs u = fw_fs s"
  shows "wp (writeWorkerAt E op d b) (\<lambda>resp t. r_ok resp) u"
proof -
  let ?original = "map_option (\<lambda>q. statOf q (inodeAt s q)) (names s (d, b))"
  have same: "acceptable E op u (d, b)" if "fw_fs u = fw_fs s" for u
    using assms(2) names_fs[OF that] inode_fs[OF that] by (simp add: acceptable_def cong: option.case_cong)
  have regular: "isRegular (in_mode (inodeAt u q))" if "names u (d, b) = Some q" "fw_fs u = fw_fs s" for u q
    using same[OF that(2)] that(1) by (simp add: acceptable_def)
  have create: "wp (tryE (createTempFileAt E d) h (\<lambda>(fd, temp). cleanupTemp E d temp (replaceWorker E op d b ?original fd temp)))
      (\<lambda>resp t. r_ok resp) v" if v: "fw_fs v = fw_fs s" for v h
    unfolding wp_tryE
  proof (rule wp_mono[OF smooth_createTemp[OF assms(1)]], goal_cases)
    case (1 k)
    then show ?case using same[OF v] by (simp add: acceptable_def)
  next
    case (2 r t)
    then obtain p k where r: "r = Inr (p, tempName (fe_random E k))" "p \<notin> ran (names v)"
      "names t = (names v)((d, tempName (fe_random E k)) \<mapsto> p)" "in_data (inodeAt t p) = []"
      "in_mode (inodeAt t p) = 0x8180" "\<forall>i. i \<noteq> p \<longrightarrow> inodeAt t i = inodeAt v i" by blast
    have "wp (replaceWorker E op d b ?original p (tempName (fe_random E k))) (\<lambda>x t. r_ok (fst x) \<and> \<not> snd x) t"
      using r same[OF v] regular[OF _ v] names_fs[OF v] inode_fs[OF v]
      by (intro smooth_replaceWorker[OF assms(1), of p v]) (auto simp: acceptable_def)
    then show ?case
      unfolding r(1) cleanupTemp_def by (auto elim!: wp_mono)
  qed
  have compare: "wp (tryE (destinationState E d b) h (\<lambda>original.
     if w_mustNotExist op \<and> original \<noteq> None then m1
     else if w_fileVersion op \<noteq> [] \<and> (case original of None \<Rightarrow> True | Some st \<Rightarrow> w_fileVersion op \<noteq> fileVersion E st) then m2
     else tryE (createTempFileAt E d) g (\<lambda>(fd, temp).
       cleanupTemp E d temp (replaceWorker E op d b original fd temp)))) (\<lambda>resp t. r_ok resp) v"
    if v: "fw_fs v = fw_fs s" for v h m1 m2 g
    unfolding wp_tryE[of "destinationState _ _ _"]
  proof (rule smooth_dest[OF assms(1)], goal_cases)
    case (1 q)
    then show ?case using regular v by blast
  next
    case (2 t)
    have "map_option (\<lambda>q. statOf q (inodeAt v q)) (names v (d, b)) = ?original"
      using names_fs[OF v] inode_fs[OF v] by simp
    moreover have "fw_fs t = fw_fs s" using 2 v by simp
    ultimately show ?case
      using create[of t] assms(2) by (auto simp: acceptable_def split: option.splits simp del: wp_tryE)
  qed
  show ?thesis
    unfolding writeWorkerAt_def wp_tryE[of "rejectPseudoFilesystem E"]
    by (rule smooth_pseudo[OF assms(1)]) (use assms(3) compare in \<open>simp del: wp_tryE\<close>)
qed

lemma smooth_write:
  assumes "smooth E" and "opens E op e" and "acceptable E op s e"
  shows "wp (writeWorkerWorkspaceFile E op) (\<lambda>resp t. r_ok resp) s"
proof -
  have "wp (openWorkerFile E op) (\<lambda>r t. r = Inr e) s"
    using assms(2) by (simp add: opens_def wp_run)
  moreover have "wp (openWorkerFile E op) (\<lambda>r t. fw_fs t = fw_fs s) s"
    by (rule wp_sameFs[OF sf.on_openWorkerFile smooth_und[OF assms(1)]])
  ultimately have opened: "wp (openWorkerFile E op) (\<lambda>r t. r = Inr e \<and> fw_fs t = fw_fs s) s"
    by (rule wp_conj)
  have "wp (tryE (openWorkerFile E op) return (\<lambda>(d, base). writeWorkerAt E op d base)) (\<lambda>resp t. r_ok resp) s"
    unfolding wp_tryE
    by (rule wp_mono[OF opened]) (use smooth_writeAt[OF assms(1)] assms(3) in \<open>auto split: prod.splits\<close>)
  moreover have "utf8_valid (w_content op)" "length (w_content op) \<le> maxFileWriteBytes" "w_mustNotExist op = (w_fileVersion op = [])"
    using assms(3) by (auto simp: acceptable_def split: option.splits)
  ultimately show ?thesis
    unfolding writeWorkerWorkspaceFile_def by (simp del: wp_tryE)
qed

section \<open>A whole read\<close>

lemma smooth_pinned:
  "smooth E \<Longrightarrow> names s (d, n) = Some i \<Longrightarrow> \<not> isSymlink (in_mode (inodeAt s i)) \<Longrightarrow>
   (\<And>t. fw_fs t = fw_fs s \<Longrightarrow> Q (Inr i) t) \<Longrightarrow> wp (openPinned E d n) Q s"
  using inode_fs[OF smooth_fs, of E s i]
  by (simp add: openPinned_def smooth_fcall smooth_fs smooth_lookup)

lemma smooth_pread:
  assumes "smooth E" and "int (length (in_data (inodeAt s i))) \<le> lim" and "\<And>k. length (in_data (inodeAt s i)) \<le> fe_accepts E k"
    and "\<And>t. fw_fs t = fw_fs s \<Longrightarrow> Q (Inr (in_data (inodeAt s i))) t"
  shows "wp (preadFD E i 0 lim) Q s"
proof -
  have "take (min (nat lim) (fe_accepts E k)) (in_data (inodeAt s i)) = in_data (inodeAt s i)" for k
    using assms(2) assms(3)[of k] by simp
  then show ?thesis
    using inode_fs[OF smooth_fs[OF assms(1)], of s i] smooth_fs[OF assms(1), of s] assms(4)
    by (simp add: preadFD_def smooth_fcall[OF assms(1)])
qed

text \<open>A whole text file that fits into one answer is read to its end.\<close>

lemma smooth_read:
  assumes "smooth E" and "opens E op (d, b)" and "w_action op = ''workspace_read''" and "w_offset op = 0" and "w_limit op = 0"
    and "w_fileVersion op = []" and "names s (d, b) = Some q" and "isRegular (in_mode (inodeAt s q))"
    and "utf8_valid (in_data (inodeAt s q))" and "int (length (in_data (inodeAt s q))) \<le> maxFileReadBytes"
    and "\<And>k. length (in_data (inodeAt s q)) \<le> fe_accepts E k"
  shows "wp (readWorkerWorkspaceFile E op) (\<lambda>r t. r_ok r \<and> r_eof r = Some True) s"
    (is "wp _ ?Q s")
proof -
  let ?x = "inodeAt s q"
  have link: "\<not> isSymlink (in_mode ?x)" using assms(8) by (simp add: isRegular_def isSymlink_def)
  have last: "wp (tryE (fstat E q) h (\<lambda>after. if fileVersion E (statOf q ?x) \<noteq> fileVersion E after then m
      else (case encodeOutputBytes (in_data ?x) of (otext, encoding) \<Rightarrow>
        if length otext > maxFileEncodedBytes then k
        else return ((rangeResponse v (statOf q ?x) 0 (in_data ?x) otext encoding)\<lparr>r_status := ''read''\<rparr>)))) ?Q u"
    if "fw_fs u = fw_fs s" for u h m k v
    unfolding wp_tryE using that inode_fs[OF that, of q] assms(9,10)
    by (intro smooth_fstat[OF assms(1)])
      (auto simp: encodeOutputBytes_def rangeResponse_def Let_def maxFileReadBytes_def maxFileEncodedBytes_def)
  have pinned: "wp (readPinned E op q (statOf q ?x) st) ?Q u" if fs: "fw_fs u = fw_fs s" for u st
  proof -
    have "wp (tryE (preadFD E q 0 maxFileReadBytes) h (\<lambda>raw. tryE (fstat E q) h' (\<lambda>after.
      if fileVersion E (statOf q ?x) \<noteq> fileVersion E after then m
      else (case encodeOutputBytes raw of (otext, encoding) \<Rightarrow>
        if length otext > maxFileEncodedBytes then k
        else return ((rangeResponse v (statOf q ?x) 0 raw otext encoding)\<lparr>r_status := ''read''\<rparr>))))) ?Q u" for h h' m k v
      unfolding wp_tryE[of "preadFD _ _ _ _"]
      by (rule smooth_pread[OF assms(1)])
        (use inode_fs[OF fs, of q] assms(10,11) fs last in \<open>simp_all del: wp_tryE\<close>)
    then show ?thesis
      unfolding readPinned_def Let_def assms(3-6) by (simp del: wp_tryE)
  qed
  have opened: "wp (openWorkerFile E op) (\<lambda>r t. r = Inr (d, b) \<and> fw_fs t = fw_fs s) s"
  proof (rule wp_conj)
    show "wp (openWorkerFile E op) (\<lambda>r t. r = Inr (d, b)) s" using assms(2) by (simp add: opens_def wp_run)
    show "wp (openWorkerFile E op) (\<lambda>r t. fw_fs t = fw_fs s) s"
      by (rule wp_sameFs[OF sf.on_openWorkerFile smooth_und[OF assms(1)]])
  qed
  have reopened: "wp (tryE (fcall E (\<lambda>_. ok q)) h (\<lambda>fd. tryE (fstat E fd) g (\<lambda>reopened.
      if \<not> sameFileIdentity (statOf q ?x) reopened then m else readPinned E op fd (statOf q ?x) reopened))) ?Q u"
    if fs: "fw_fs u = fw_fs s" for u h g m
  proof -
    have "wp (tryE (fstat E q) g (\<lambda>reopened. if \<not> sameFileIdentity (statOf q ?x) reopened then m
        else readPinned E op q (statOf q ?x) reopened)) ?Q v" if v: "fw_fs v = fw_fs s" for v
      unfolding wp_tryE using inode_fs[OF v, of q] v
      by (intro smooth_fstat[OF assms(1)]) (auto simp: sameFileIdentity_def intro: pinned)
    then show ?thesis
      unfolding wp_tryE[of "fcall _ _"] using smooth_fs[OF assms(1), of u] fs
      by (simp add: smooth_fcall[OF assms(1)] del: wp_tryE)
  qed
  have found: "wp (tryE (fstat E q) h (\<lambda>before. if \<not> isRegular (st_mode before) then m
      else tryE (rejectPseudoFilesystem E) g (\<lambda>_. tryE (fcall E (\<lambda>_. ok q)) f (\<lambda>fd. tryE (fstat E fd) e (\<lambda>reopened.
      if \<not> sameFileIdentity before reopened then k else readPinned E op fd before reopened))))) ?Q u"
    if fs: "fw_fs u = fw_fs s" for u h m g f e k
  proof -
    have "wp (tryE (rejectPseudoFilesystem E) g (\<lambda>_. tryE (fcall E (\<lambda>_. ok q)) f (\<lambda>fd. tryE (fstat E fd) e (\<lambda>reopened.
      if \<not> sameFileIdentity (statOf q ?x) reopened then k else readPinned E op fd (statOf q ?x) reopened)))) ?Q v"
      if v: "fw_fs v = fw_fs s" for v
      unfolding wp_tryE[of "rejectPseudoFilesystem E"]
      by (rule smooth_pseudo[OF assms(1)]) (use v reopened in \<open>simp del: wp_tryE\<close>)
    then show ?thesis
      unfolding wp_tryE[of "fstat E q" for h] using inode_fs[OF fs, of q] fs assms(8)
      by (intro smooth_fstat[OF assms(1)]) (simp del: wp_tryE)
  qed
  have "wp (tryE (openPinned E d b) h (\<lambda>i. tryE (fstat E i) h' (\<lambda>before. if \<not> isRegular (st_mode before) then m
      else tryE (rejectPseudoFilesystem E) g (\<lambda>_. tryE (fcall E (\<lambda>_. ok i)) f (\<lambda>fd. tryE (fstat E fd) e (\<lambda>reopened.
      if \<not> sameFileIdentity before reopened then k else readPinned E op fd before reopened)))))) ?Q u"
    if fs: "fw_fs u = fw_fs s" for u h h' m g f e k
    unfolding wp_tryE[of "openPinned _ _ _"]
    by (rule smooth_pinned[OF assms(1), of _ _ _ q])
      (use assms(7) link names_fs[OF fs] inode_fs[OF fs] fs found in \<open>simp_all del: wp_tryE\<close>)
  then show ?thesis
    unfolding readWorkerWorkspaceFile_def Let_def using assms(3-6)
    by (auto intro!: wp_mono[OF opened] simp: maxFileReadBytes_def wp_tryE[of "openWorkerFile _ _"] simp del: wp_tryE)
qed

end
