(* ===== verification/EditBatch.thy ===== *)
theory EditBatch
  imports FileReads
begin

text \<open>
  Lemmas on \<open>workspace_apply_edits\<close>: the preflight changes nothing and computes every new content from the
  files as they are; the commit loop writes the files one by one; and what the events of a failed write
  amount to.
\<close>

section \<open>What a run of the write protocol amounts to\<close>

fun relocates :: "fileEvent \<Rightarrow> bool" where
  "relocates (Exchanged _ _ _ _ _) = True"
| "relocates (Installed _ _ _ _) = True"
| "relocates (Replaced _ _ _ _ _) = True"
| "relocates _ = False"

text \<open>No file was moved, or one exchange was followed by the exchange that takes it back.\<close>

definition undone :: "fileEvent list \<Rightarrow> bool" where
  "undone evs = (filter relocates evs = [] \<or>
     (\<exists>d n b p y. filter relocates evs = [Exchanged d n b y p, Exchanged d n b p y]))"

lemma undone_Nil: "undone []"
  by (simp add: undone_def)

lemma writeRun_failure:
  "writeRun E v good code evs \<Longrightarrow> \<not> good \<Longrightarrow> code \<noteq> ''unknown_completion'' \<Longrightarrow> undone evs"
  by (induction rule: writeRun.induct) (auto simp: undone_def)

lemma writeRun_unlinks:
  "writeRun E v good code evs \<Longrightarrow> Unlinked d n i \<in> set evs \<Longrightarrow>
   Created d n i \<in> set evs \<or> (v \<noteq> [] \<and> (\<exists>st. statId st = i \<and> fileVersion E st = v))"
  by (induction rule: writeRun.induct) auto

lemma writeRun_noaudit: "writeRun E v good code evs \<Longrightarrow> list_all (\<lambda>ev. \<not> isAudit ev) evs"
  by (induction rule: writeRun.induct) auto

section \<open>Preflight\<close>

definition planned :: "fileEnv \<Rightarrow> workspaceFileOperation \<Rightarrow> fworld \<Rightarrow> WorkspaceFileEdit \<Rightarrow> bytes \<Rightarrow> bool" where
  "planned E op s edit content = (case we_content edit of
       Some c \<Rightarrow> content = c
     | None \<Rightarrow> \<exists>e q. workerDir E op (we_path edit) = Some e \<and> names s e = Some q \<and>
         applyReplacements (we_replacements edit) (in_data (inodeAt s q)) = Inr content)"

definition plannedAll :: "fileEnv \<Rightarrow> workspaceFileOperation \<Rightarrow> fworld \<Rightarrow> plannedWorkspaceEdit list \<Rightarrow> bool" where
  "plannedAll E op s plans = list_all (\<lambda>(edit, content). planned E op s edit content) plans"

lemma plannedAll_simps [simp]:
  "plannedAll E op s []"
  "plannedAll E op s ((edit, content) # plans) \<longleftrightarrow> planned E op s edit content \<and> plannedAll E op s plans"
  by (simp_all add: plannedAll_def)

lemma workerDir_cong:
  "w_root op' = w_root op \<Longrightarrow> w_workspace op' = w_workspace op \<Longrightarrow> workerDir E op' p = workerDir E op p"
  by (simp add: workerDir_def workspaceAt_def Let_def cong: if_cong)

lemma carries_all:
  "carries b 0 r \<Longrightarrow> r_eof r = Some True \<Longrightarrow> r_outputEncoding r = ''utf-8'' \<Longrightarrow> r_output r = b"
  by (auto simp: carries_def)

lemma calm_currentText:
  assumes "undisturbed E" and "safeWorkspaceRelativeFile (we_path edit) = Inr c"
  shows "wp (currentText E op edit c) (\<lambda>r t. fw_fs t = fw_fs s \<and> (\<forall>x. r = Inr x \<longrightarrow> planned E op s edit x)) s"
proof -
  let ?op = "readOperation op c (we_fileVersion edit)"
  have path: "workerDir E op (we_path edit) = Some e" if "workerDir E ?op c = Some e" for e
  proof -
    have "workerDir E ?op c = workerDir E op c" by (rule workerDir_cong) (simp_all add: readOperation_def)
    then show ?thesis using that workerDir_clean[OF assms(2)] by metis
  qed
  have "planned E op s edit x"
    if "readsFile E ?op s r" "r_eof r = Some True" "r_outputEncoding r = ''utf-8''"
      "applyReplacements (we_replacements edit) (r_output r) = Inr x" "we_content edit = None" for r x
    using that path carries_all[of _ r] by (fastforce simp: readsFile_def planned_def readOperation_def)
  then show ?thesis
    unfolding currentText_def wp_bind
    by (intro wp_mono[OF calm_readWorker[OF assms(1), of ?op]])
      (auto simp: readOperation_def planned_def split: option.splits)
qed

lemma calm_editContent:
  assumes "undisturbed E" and "safeWorkspaceRelativeFile (we_path edit) = Inr c"
  shows "wp (editContent E op edit c) (\<lambda>r t. fw_fs t = fw_fs s \<and> (\<forall>x. r = Inr x \<longrightarrow> planned E op s edit x)) s"
proof -
  have source: "wp (if we_mustNotExist edit then
             (case we_content edit of
                None \<Rightarrow> fail ''create_requires_content''
              | Some content \<Rightarrow> tryE (checkAbsent E op c) fail (\<lambda>_. ok content))
           else currentText E op edit c) (\<lambda>r t. fw_fs t = fw_fs s \<and> (\<forall>x. r = Inr x \<longrightarrow> planned E op s edit x)) s"
    by (intro if_wp option_wp calm_currentText[OF assms] still_try[OF sf.on_checkAbsent assms(1)]) (auto simp: planned_def)
  show ?thesis
    unfolding editContent_def wp_tryE by (rule wp_mono[OF source]) (auto split: sum.splits)
qed

lemma calm_preflight:
  assumes "undisturbed E"
  shows "wp (preflight E op i clean_seen n edits) (\<lambda>r t. fw_fs t = fw_fs s \<and> (\<forall>plans. r = Inr plans \<longrightarrow>
     map fst plans = edits \<and> plannedAll E op s plans)) s"
proof (induction edits arbitrary: i clean_seen n s)
  case Nil
  then show ?case by simp
next
  case (Cons edit edits)
  have same: "planned E op u edit x = planned E op s edit x" if "fw_fs u = fw_fs s" for u edit x
    using names_fs[OF that] inode_fs[OF that] by (simp add: planned_def cong: option.case_cong)
  have sameAll: "plannedAll E op u plans = plannedAll E op s plans" if "fw_fs u = fw_fs s" for u plans
    using same[OF that] by (simp add: plannedAll_def)
  have rest: "wp (preflight E op i cs k edits) (\<lambda>r t. fw_fs t = fw_fs s \<and> (\<forall>plans. r = Inr plans \<longrightarrow>
     map fst plans = edits \<and> plannedAll E op s plans)) u"
    if "fw_fs u = fw_fs s" for u i cs k
    using Cons.IH[of i cs k u] that sameAll[OF that] by simp
  have tail: "wp (tryE (preflight E op j cs k edits) fail (\<lambda>plans. ok ((edit, x) # plans)))
      (\<lambda>r t. fw_fs t = fw_fs s \<and> (\<forall>plans. r = Inr plans \<longrightarrow>
       map fst plans = edit # edits \<and> plannedAll E op s plans)) u"
    if "fw_fs u = fw_fs s" "planned E op s edit x" for u cs x j k
    unfolding wp_tryE using that by (auto intro!: wp_mono[OF rest] split: sum.splits)
  show ?case
  proof (cases "safeWorkspaceRelativeFile (we_path edit)")
    case (Inl e)
    then show ?thesis by simp
  next
    case (Inr c)
    have "wp (tryE (editContent E op edit c) (\<lambda>code. fail (i, code)) (\<lambda>x.
        if n + length x > maxWorkspaceBatchBytes then fail (i, ''batch_too_large'')
        else tryE (preflight E op (i + 1) (c # clean_seen) (n + length x) edits) fail (\<lambda>plans. ok ((edit, x) # plans))))
      (\<lambda>r t. fw_fs t = fw_fs s \<and> (\<forall>plans. r = Inr plans \<longrightarrow>
       map fst plans = edit # edits \<and> plannedAll E op s plans)) s"
      unfolding wp_tryE[of "editContent _ _ _ _"]
      by (rule wp_mono[OF calm_editContent[OF assms Inr]]) (auto split: sum.splits intro!: tail simp del: wp_if wp_tryE)
    moreover have "wp (fail (i, code)) (\<lambda>r t. fw_fs t = fw_fs s \<and> (\<forall>plans. r = Inr plans \<longrightarrow>
       map fst plans = edit # edits \<and> plannedAll E op s plans)) s" for code
      by simp
    ultimately show ?thesis
      unfolding preflight.simps Inr sum.case by (intro if_wp)
  qed
qed

section \<open>Commit\<close>

text \<open>After the loop: every target holds its planned bytes, every other name names what it named, with the same bytes.\<close>

definition targets :: "fileEnv \<Rightarrow> workspaceFileOperation \<Rightarrow> WorkspaceFileEdit list \<Rightarrow> dirEntry option list" where
  "targets E op edits = map (workerDir E op \<circ> we_path) edits"

definition editedTo :: "fileEnv \<Rightarrow> workspaceFileOperation \<Rightarrow> plannedWorkspaceEdit list \<Rightarrow> fworld \<Rightarrow> fworld \<Rightarrow> bool" where
  "editedTo E op plans s t =
     ((\<forall>e. Some e \<notin> set (targets E op (map fst plans)) \<longrightarrow> names t e = names s e \<and>
         (\<forall>i. names s e = Some i \<longrightarrow> shown t i = shown s i)) \<and>
      (\<forall>(edit, content)\<in>set plans. \<exists>e p. workerDir E op (we_path edit) = Some e \<and> names t e = Some p \<and>
         in_data (inodeAt t p) = content))"

lemma calm_write:
  assumes "undisturbed E"
  shows "wp (writeWorkerWorkspaceFile E op) (\<lambda>resp t. r_ok resp \<longrightarrow> (\<exists>d b. workerDir E op (w_path op) = Some (d, b) \<and>
     wrote s d b (w_content op) (case names s (d, b) of None \<Rightarrow> 0x1A4 | Some q \<Rightarrow> in_mode (inodeAt s q) AND 0x1FF) t)) s"
proof -
  have at: "wp (writeWorkerAt E op d b) (\<lambda>resp t. r_ok resp \<longrightarrow>
      wrote s d b (w_content op) (case names s (d, b) of None \<Rightarrow> 0x1A4 | Some q \<Rightarrow> in_mode (inodeAt s q) AND 0x1FF) t) u"
    if "fw_fs u = fw_fs s" for u d b
    using writeWorker_wrote[OF assms, of op d b u] names_fs[OF that] inode_fs[OF that] shown_fs[OF that]
    by (simp add: wrote_def cong: option.case_cong)
  show ?thesis
    unfolding writeWorkerWorkspaceFile_def wp_tryE
    by (intro if_wp) (auto intro!: wp_mono[OF calm_openWorkerFile[OF assms]] wp_mono[OF at] split: sum.splits)
qed

lemma editedTo_step:
  assumes "workerDir E op (we_path edit) = Some (d, b)" and "wrote s d b content mode u"
    and "editedTo E op plans u t" and "Some (d, b) \<notin> set (targets E op (map fst plans))"
  shows "editedTo E op ((edit, content) # plans) s t"
proof -
  obtain p where p: "p \<notin> ran (names s)" "names u = (names s)((d, b) \<mapsto> p)" "in_data (inodeAt u p) = content"
    "\<And>i. i \<noteq> p \<Longrightarrow> shown u i = shown s i"
    using assms(2) by (auto simp: wrote_def)
  have kept: "names t e = names u e \<and> (\<forall>i. names u e = Some i \<longrightarrow> shown t i = shown u i)"
    if "Some e \<notin> set (targets E op (map fst plans))" for e
    using assms(3) that unfolding editedTo_def by blast
  have "names t (d, b) = Some p" "in_data (inodeAt t p) = content"
    using kept[OF assms(4)] p(2,3) shown_same[of t p u p] by auto
  moreover have "names t e = names s e \<and> (\<forall>i. names s e = Some i \<longrightarrow> shown t i = shown s i)"
    if "Some e \<notin> set (targets E op (map fst plans))" "e \<noteq> (d, b)" for e
    using kept[OF that(1)] that(2) p(1,2,4) ranI[of "names s" e] by fastforce
  ultimately show ?thesis
    using assms(1,3) unfolding editedTo_def targets_def by auto
qed

lemma calm_commitEdits:
  assumes "undisturbed E"
  shows "distinct (targets E op (map fst plans)) \<Longrightarrow>
    wp (commitEdits E op outs plans) (\<lambda>r t. er_complete r \<longrightarrow> editedTo E op plans s t) s"
proof (induction plans arbitrary: outs s)
  case Nil
  then show ?case by (simp add: editedTo_def)
next
  case (Cons plan plans)
  obtain edit content where plan: "plan = (edit, content)" by fastforce
  have path: "workerDir E (writeOperation op plan) (w_path (writeOperation op plan)) = workerDir E op (we_path edit)"
    using workerDir_cong[of "writeOperation op plan" op E] by (simp add: writeOperation_def plan)
  have bytes_are: "w_content (writeOperation op plan) = content"
    by (simp add: writeOperation_def plan)
  have more: "wp (commitEdits E op outs' plans) (\<lambda>r t. er_complete r \<longrightarrow> editedTo E op (plan # plans) s t) u"
    if "workerDir E op (we_path edit) = Some (d, b)" "wrote s d b content mode u" for d b mode u outs'
    by (rule wp_mono[OF Cons.IH]) (use Cons.prems that plan editedTo_step[OF that] in \<open>auto simp: targets_def\<close>)
  show ?case
    unfolding commitEdits.simps wp_bind
    by (rule wp_mono[OF calm_write[OF assms]]) (auto simp: path bytes_are intro!: more)
qed

lemma failAt_not_ok [simp]: "\<not> r_ok (workspaceEditResponse (failAt edits i code) c)"
  by (simp add: workspaceEditResponse_def failAt_def Let_def)

lemma calm_applyEdits:
  assumes "undisturbed E" and "distinct (targets E op (w_edits op))"
  shows "wp (applyWorkerWorkspaceEdits E op) (\<lambda>resp t. r_ok resp \<longrightarrow> (\<exists>plans. map fst plans = w_edits op \<and>
     plannedAll E op s plans \<and> editedTo E op plans s t)) s"
proof -
  have commit: "wp (State_Monad.bind (commitEdits E op [] plans)
        (\<lambda>r. return (workspaceEditResponse r (if er_complete r then [] else ''workspace_apply_failed''))))
      (\<lambda>resp t. r_ok resp \<longrightarrow> (\<exists>plans. map fst plans = w_edits op \<and>
         plannedAll E op s plans \<and> editedTo E op plans s t)) u"
    if "fw_fs u = fw_fs s" "map fst plans = w_edits op" "plannedAll E op s plans" for plans u
  proof -
    have "editedTo E op plans u t \<Longrightarrow> editedTo E op plans s t" for t
      using names_fs[OF that(1)] shown_fs[OF that(1)] by (simp add: editedTo_def)
    then show ?thesis
      unfolding wp_bind using that(2,3) assms(2)
      by (intro wp_mono[OF calm_commitEdits[OF assms(1)]])
        (auto simp: workspaceEditResponse_def Let_def split: if_splits)
  qed
  show ?thesis
    unfolding applyWorkerWorkspaceEdits_def Let_def wp_tryE
    by (intro if_wp) (auto intro!: wp_mono[OF calm_preflight[OF assms(1)]] commit
        split: sum.splits simp del: wp_bind)
qed

section \<open>Any environment\<close>

text \<open>Whatever others do: the preflight leaves no trace, and a batch that reports \<open>not_started\<close> has at most one
  write behind it, a failed one.\<close>

lemma applyEdits_not_started:
  assumes "leavesTemps E"
  shows "wp (applyWorkerWorkspaceEdits E op) (\<lambda>resp t. r_status resp = ''not_started'' \<longrightarrow>
     (\<exists>evs. fw_trace t = evs @ fw_trace s \<and> undone evs)) s"
proof -
  have later: "wp (commitEdits E op outs plans) (\<lambda>r t. er_complete r \<or> er_partial r) u" if "outs \<noteq> []" for outs plans u
    using that
  proof (induction plans arbitrary: outs u)
    case (Cons plan plans)
    show ?case unfolding commitEdits.simps wp_bind by (rule wp_any) (use Cons in auto)
  qed simp
  have first: "wp (commitEdits E op [] plans) (\<lambda>r t. er_complete r \<or> er_partial r \<or>
      (\<exists>evs. fw_trace t = evs @ fw_trace u \<and> undone evs)) u" for plans u
  proof (cases plans)
    case Nil
    then show ?thesis by simp
  next
    case (Cons plan rest)
    then show ?thesis
      by (auto intro!: wp_mono[OF writeWorker_runs[OF assms]] wp_mono[OF later] dest: writeRun_failure)
  qed
  have commit: "wp (State_Monad.bind (commitEdits E op [] plans)
        (\<lambda>r. return (workspaceEditResponse r (if er_complete r then [] else ''workspace_apply_failed''))))
      (\<lambda>resp t. r_status resp = ''not_started'' \<longrightarrow> (\<exists>evs. fw_trace t = evs @ fw_trace s \<and> undone evs)) u"
    if "kept E s u" for plans u
    unfolding wp_bind using that
    by (intro wp_mono[OF first]) (auto simp: workspaceEditResponse_def Let_def kept_trace split: if_splits)
  show ?thesis
    unfolding applyWorkerWorkspaceEdits_def Let_def wp_tryE
    by (intro if_wp) (auto intro!: wp_kept[OF kp.on_preflight] commit exI[of _ "[]"]
        simp: kept_trace undone_Nil split: sum.splits simp del: wp_bind)
qed

end
