(* ===== verification/FileExamples.thy ===== *)
theory FileExamples
  imports FileLive EditBatch "HOL-Library.Countable"
begin

text \<open>
  A small workspace for the witnesses of the file tools' properties: one directory with one file, and an
  environment in which every call succeeds and nobody interferes.
\<close>

definition exampleFileEnv :: fileEnv where
  "exampleFileEnv = \<lparr>fe_workspaceDir = ''/w'', fe_stateDir = ''/s'', fe_transferQuotaMiB = 1, fe_transferTTL = 1,
     fe_transferSessions = 1, fe_guard = \<lparr>protected = [], critical = [], dangerous = []\<rparr>, fe_euid = 0, fe_egid = 0,
     fe_workerUID = 0, fe_workerSlots = 1, fe_others = (\<lambda>_ f. f), fe_fault = (\<lambda>_. None), fe_now = int,
     fe_random = (\<lambda>_. []), fe_fresh = (\<lambda>_ f. Ino 0 (Suc (sum_list (map (id_ino \<circ> snd) (fs_names f)) + sum_list (map id_ino (fs_held f))))),
     fe_stagingRoot = 1, fe_sessionDir = (\<lambda>_. 2), fe_stagingBusy = (\<lambda>_. False), fe_freeBlocks = (\<lambda>_. (4096, 1000000)),
     fe_rounds = 2, fe_shaNew = to_nat ([] :: bytes), fe_shaWrite = (\<lambda>h b. to_nat (from_nat h @ b :: bytes)), fe_shaSum = from_nat,
     fe_shaSave = from_nat, fe_shaLoad = (\<lambda>m. Inr (to_nat m)),
     fe_accepts = (\<lambda>_. 8), fe_touches = (\<lambda>_. True), fe_openDir = (\<lambda>_ _ _ _. Inr 3),
     fe_follow = (\<lambda>_ _ _. Inl missing), fe_dirPath = (\<lambda>_ _. ''/w''), fe_filePath = (\<lambda>_ _. ''/w/a.txt''),
     fe_fsType = (\<lambda>_. 0), fe_sha256 = (\<lambda>m. m), fe_helperFails = (\<lambda>_. False)\<rparr>"

definition exampleFile :: inode where
  "exampleFile = \<lparr>in_mode = 0x81A4, in_uid = 0, in_gid = 0, in_mtim = 5, in_ctim = 5, in_data = ''one two'', in_doc = None\<rparr>"

definition exampleFiles :: fworld where
  "exampleFiles = \<lparr>fw_tick = 0, fw_fs = \<lparr>fs_names = [((3, ''a.txt''), Ino 0 7)], fs_inodes = (\<lambda>_. exampleFile), fs_held = []\<rparr>,
     fw_degraded = False, fw_busy = 0, fw_trace = []\<rparr>"

definition exampleOp :: workspaceFileOperation where
  "exampleOp = zeroOperation\<lparr>w_action := ''workspace_write'', w_root := ''/w'', w_workspace := ''/w'', w_path := ''a.txt'', w_content := ''three''\<rparr>"

definition exampleWrite :: workspaceFileOperation where
  "exampleWrite = exampleOp\<lparr>w_fileVersion := fileVersion exampleFileEnv (statOf (Ino 0 7) exampleFile)\<rparr>"

definition exampleRead :: workspaceFileOperation where
  "exampleRead = exampleOp\<lparr>w_action := ''workspace_read''\<rparr>"

definition exampleEdit :: WorkspaceFileEdit where
  "exampleEdit = \<lparr>we_path = ''b.txt'', we_fileVersion = [], we_mustNotExist = True, we_content = Some ''new'', we_replacements = []\<rparr>"

definition exampleBatch :: workspaceFileOperation where
  "exampleBatch = exampleOp\<lparr>w_edits := [exampleEdit]\<rparr>"

lemma env_sel [simp]: "fe_others exampleFileEnv = (\<lambda>_ f. f)" "fe_fault exampleFileEnv = (\<lambda>_. None)"
  "fe_random exampleFileEnv = (\<lambda>_. [])" "fe_accepts exampleFileEnv = (\<lambda>_. 8)"
  "fe_fresh exampleFileEnv = (\<lambda>_ f. Ino 0 (Suc (sum_list (map (id_ino \<circ> snd) (fs_names f)) + sum_list (map id_ino (fs_held f)))))"
  "fe_openDir exampleFileEnv = (\<lambda>_ _ _ _. Inr 3)" "fe_fsType exampleFileEnv = (\<lambda>_. 0)"
  by (simp_all add: exampleFileEnv_def)

lemma op_sel [simp]: "w_root exampleOp = ''/w''" "w_workspace exampleOp = ''/w''" "w_path exampleOp = ''a.txt''"
  "w_content exampleOp = ''three''" "w_fileVersion exampleOp = []" "w_mustNotExist exampleOp = False"
  "w_offset exampleOp = 0" "w_limit exampleOp = 0"
  by (simp_all add: exampleOp_def)

lemma edit_sel [simp]: "we_path exampleEdit = ''b.txt''" "we_fileVersion exampleEdit = []" "we_mustNotExist exampleEdit"
  "we_content exampleEdit = Some ''new''" "we_replacements exampleEdit = []"
  by (simp_all add: exampleEdit_def)

lemma example_paths [simp]: "safeWorkspaceRelativeFile ''a.txt'' = Inr ''a.txt''" "dirOf ''a.txt'' = ''.''" "baseOf ''a.txt'' = ''a.txt''"
  "safeWorkspaceRelativeFile ''b.txt'' = Inr ''b.txt''" "dirOf ''b.txt'' = ''.''" "baseOf ''b.txt'' = ''b.txt''"
  "withinPath ''/w'' ''/w''" "relElems ''/w'' ''/w'' = Some []" "clean ''/w'' = ''/w''" "isAbs ''/w''"
  by (simp_all add: safeWorkspaceRelativeFile_def clean_def elems_def pushElem_def slash_def isAbs_def mkPath_def dirOf_def baseOf_def
    withinPath_def relElems_def hasPrefix_def)

lemma fresh_above: "i \<in> snd ` set xs \<Longrightarrow> id_ino i \<le> sum_list (map (id_ino \<circ> snd) xs)"
  by (induction xs) (auto intro: trans_le_add2)

lemma example_undisturbed: "undisturbed exampleFileEnv"
  unfolding undisturbed_def
proof (intro conjI allI)
  have held: "i \<in> set xs \<Longrightarrow> id_ino i \<le> sum_list (map id_ino xs)" for i xs
    by (rule member_le_sum_list) auto
  show "fe_fresh exampleFileEnv k f \<notin> snd ` set (fs_names f) \<union> set (fs_held f)" for k f
    using fresh_above[of "fe_fresh exampleFileEnv k f" "fs_names f"] held[of "fe_fresh exampleFileEnv k f" "fs_held f"] by auto
qed simp_all

lemma example_smooth: "smooth exampleFileEnv"
  by (simp add: smooth_def example_undisturbed pseudoFilesystems_def)

lemma example_temps: "leavesTemps exampleFileEnv"
  by (simp add: leavesTemps_def)

lemma example_opens:
  assumes "w_root op = ''/w''" and "w_workspace op = ''/w''" and "w_path op \<in> {''a.txt'', ''b.txt''}"
  shows "opens exampleFileEnv op (3, w_path op)"
proof -
  have "wp (openWorkerFile exampleFileEnv op) (\<lambda>r _. r = Inr (3, w_path op)) s" for s
    using assms by (auto simp: openWorkerFile_def openWorkerWorkspace_def openWorkerParent_def openDir_def wp_fcall Let_def)
  then show ?thesis by (simp add: opens_def wp_run)
qed

lemma example_names: "fw_fs s = fw_fs exampleFiles \<Longrightarrow> names s (3, n) = (if n = ''a.txt'' then Some (Ino 0 7) else None)"
  "fw_fs s = fw_fs exampleFiles \<Longrightarrow> inodeAt s i = exampleFile"
  by (simp_all add: names_def lookupName_def inodeAt_def exampleFiles_def)

lemma example_file [simp]: "isRegular (in_mode exampleFile)" "in_data exampleFile = ''one two''"
  by (simp_all add: exampleFile_def isRegular_def)

lemma example_acceptable: "acceptable exampleFileEnv exampleWrite exampleFiles (3, ''a.txt'')"
  by (simp add: acceptable_def exampleWrite_def utf8_valid_ascii ascii_def maxFileWriteBytes_def example_names tempName_def tempPrefix_def)

lemma example_write_ok: "r_ok (fst (run_state (writeWorkerWorkspaceFile exampleFileEnv exampleWrite) exampleFiles))"
proof -
  have "opens exampleFileEnv exampleWrite (3, ''a.txt'')"
    using example_opens[of exampleWrite] by (simp add: exampleWrite_def)
  then show ?thesis
    using smooth_write[OF example_smooth _ example_acceptable] by (simp add: wp_run)
qed


text \<open>A stale version is refused.\<close>

lemma example_stale:
  "wp (writeWorkerWorkspaceFile exampleFileEnv (exampleOp\<lparr>w_fileVersion := ''old''\<rparr>))
     (\<lambda>resp _. \<not> r_ok resp \<and> r_errorCode resp = ''file_changed'') exampleFiles"
proof -
  let ?op = "exampleOp\<lparr>w_fileVersion := ''old''\<rparr>"
  have opened: "wp (openWorkerFile exampleFileEnv ?op) (\<lambda>r t. r = Inr (3, ''a.txt'') \<and> fw_fs t = fw_fs exampleFiles) exampleFiles"
  proof (rule wp_conj)
    show "wp (openWorkerFile exampleFileEnv ?op) (\<lambda>r t. r = Inr (3, ''a.txt'')) exampleFiles"
      using example_opens[of ?op] by (simp add: opens_def wp_run)
    show "wp (openWorkerFile exampleFileEnv ?op) (\<lambda>r t. fw_fs t = fw_fs exampleFiles) exampleFiles"
      by (rule wp_sameFs[OF sf.on_openWorkerFile example_undisturbed])
  qed
  have old: "''old'' \<noteq> fileVersion E st" for E st by (simp add: fileVersion_def)
  have compare: "wp (tryE (destinationState exampleFileEnv 3 ''a.txt'') h (\<lambda>original.
     if w_mustNotExist ?op \<and> original \<noteq> None then m
     else if w_fileVersion ?op \<noteq> [] \<and> (case original of None \<Rightarrow> True | Some st \<Rightarrow> w_fileVersion ?op \<noteq> fileVersion exampleFileEnv st)
     then return (fileError ''file_changed'' ''conflict'' ''destination has changed'') else k original))
     (\<lambda>resp _. \<not> r_ok resp \<and> r_errorCode resp = ''file_changed'') t" if "fw_fs t = fw_fs exampleFiles" for t h m k
    unfolding wp_tryE
    by (rule smooth_dest[OF example_smooth]) (use old in \<open>auto simp: example_names[OF that] fileError_def\<close>)
  have "wp (writeWorkerAt exampleFileEnv ?op 3 ''a.txt'')
     (\<lambda>resp _. \<not> r_ok resp \<and> r_errorCode resp = ''file_changed'') t" if "fw_fs t = fw_fs exampleFiles" for t
    unfolding writeWorkerAt_def wp_tryE[of "rejectPseudoFilesystem _"]
    by (rule smooth_pseudo[OF example_smooth]) (use that compare in \<open>simp del: wp_tryE\<close>)
  then have "wp (tryE (openWorkerFile exampleFileEnv ?op) return (\<lambda>(d, base). writeWorkerAt exampleFileEnv ?op d base))
     (\<lambda>resp _. \<not> r_ok resp \<and> r_errorCode resp = ''file_changed'') exampleFiles"
    unfolding wp_tryE by (intro wp_mono[OF opened]) auto
  then show ?thesis
    by (simp add: writeWorkerWorkspaceFile_def utf8_valid_ascii ascii_def maxFileWriteBytes_def del: wp_tryE)
qed

text \<open>After the write a read succeeds.\<close>

lemma example_reread:
  assumes "run_state (writeWorkerWorkspaceFile exampleFileEnv exampleWrite) exampleFiles = (resp, t)"
  shows "wp (readWorkerWorkspaceFile exampleFileEnv exampleRead) (\<lambda>r _. r_ok r \<and> r_eof r = Some True) t"
proof -
  have "r_ok resp" using example_write_ok assms by simp
  then obtain d b where "workerDir exampleFileEnv exampleWrite ''a.txt'' = Some (d, b)" and
    wrote: "wrote exampleFiles d b ''three'' (case names exampleFiles (d, b) of None \<Rightarrow> 0x1A4 | Some q \<Rightarrow> in_mode (inodeAt exampleFiles q) AND 0x1FF) t"
    using wp_runD[OF calm_write[OF example_undisturbed, of exampleWrite exampleFiles] assms] by (auto simp: exampleWrite_def)
  then have "(d, b) = (3, ''a.txt'')" by (simp add: workerDir_def workspaceAt_def exampleWrite_def mkPath_def)
  with wrote have "wrote exampleFiles 3 ''a.txt'' ''three'' (case names exampleFiles (3, ''a.txt'') of None \<Rightarrow> 0x1A4
      | Some q \<Rightarrow> in_mode (inodeAt exampleFiles q) AND 0x1FF) t" by simp
  then obtain p where p: "names t (3, ''a.txt'') = Some p" "in_data (inodeAt t p) = ''three''" "isRegular (in_mode (inodeAt t p))"
    by (auto simp: wrote_def example_names isRegular_def exampleFile_def)
  show ?thesis
  proof (rule smooth_read[OF example_smooth _ _ _ _ _ p(1,3)])
    show "opens exampleFileEnv exampleRead (3, ''a.txt'')"
      using example_opens[of exampleRead] by (simp add: exampleRead_def)
  qed (simp_all add: p(2) exampleRead_def utf8_valid_ascii ascii_def maxFileReadBytes_def)
qed

lemma example_absent:
  assumes "fw_fs s = fw_fs exampleFiles"
  shows "wp (editContent exampleFileEnv (exampleOp\<lparr>w_edits := es\<rparr>) exampleEdit ''b.txt'')
     (\<lambda>r t. r = Inr ''new'' \<and> fw_fs t = fw_fs exampleFiles) s"
proof -
  have free: "lookupName t 3 ''b.txt'' = None" if "fw_fs t = fw_fs exampleFiles" for t
    using that by (simp add: lookupName_def exampleFiles_def)
  have advance: "fw_fs (fadvance exampleFileEnv t) = fw_fs t" for t
    by (simp add: fadvance_def)
  show ?thesis
    using assms by (simp add: editContent_def checkAbsent_def openWorkerWorkspace_def openWorkerParent_def openDir_def
      destinationState_def pathState_def wp_fcall Let_def free advance utf8_valid_ascii ascii_def maxFileWriteBytes_def)
qed

text \<open>Two edits of one file are refused; one new file goes through.\<close>

lemma example_duplicate:
  "wp (applyWorkerWorkspaceEdits exampleFileEnv (exampleOp\<lparr>w_edits := [exampleEdit, exampleEdit]\<rparr>))
     (\<lambda>r _. r_status r = ''not_started'') exampleFiles"
proof -
  let ?op = "exampleOp\<lparr>w_edits := [exampleEdit, exampleEdit]\<rparr>"
  have pre: "wp (preflight exampleFileEnv ?op 0 [] 0 [exampleEdit, exampleEdit]) (\<lambda>r _. r = Inl (1, ''duplicate_path'')) exampleFiles"
    using example_absent[of exampleFiles "[exampleEdit, exampleEdit]"]
    by (auto simp: maxWorkspaceEditReplacements_def maxWorkspaceBatchBytes_def elim!: wp_mono)
  have "wp (tryE (preflight exampleFileEnv ?op 0 [] 0 [exampleEdit, exampleEdit])
      (\<lambda>(i, code). return (workspaceEditResponse (failAt es i code) ''workspace_preflight_failed'')) k)
      (\<lambda>r _. r_status r = ''not_started'') exampleFiles" for es k
    unfolding wp_tryE by (rule wp_mono[OF pre]) (auto simp: workspaceEditResponse_def failAt_def Let_def)
  moreover have "w_edits ?op = [exampleEdit, exampleEdit]" by simp
  ultimately show ?thesis
    unfolding applyWorkerWorkspaceEdits_def Let_def by (simp add: maxWorkspaceBatchFiles_def del: wp_tryE)
qed

lemma example_batch_ok: "wp (applyWorkerWorkspaceEdits exampleFileEnv exampleBatch) (\<lambda>r _. r_ok r) exampleFiles"
proof -
  let ?op = "writeOperation exampleBatch (exampleEdit, ''new'')"
  have planned: "wp (preflight exampleFileEnv exampleBatch 0 [] 0 [exampleEdit])
      (\<lambda>r t. r = Inr [(exampleEdit, ''new'')] \<and> fw_fs t = fw_fs exampleFiles) exampleFiles"
    using example_absent[of exampleFiles "[exampleEdit]"] unfolding exampleBatch_def
    by (auto simp: maxWorkspaceEditReplacements_def maxWorkspaceBatchBytes_def elim!: wp_mono)
  have fine: "wp (writeWorkerWorkspaceFile exampleFileEnv ?op) (\<lambda>resp _. r_ok resp) t" if t: "fw_fs t = fw_fs exampleFiles" for t
  proof (rule smooth_write[OF example_smooth])
    show "opens exampleFileEnv ?op (3, ''b.txt'')"
      using example_opens[of ?op] by (simp add: writeOperation_def exampleBatch_def)
    show "acceptable exampleFileEnv ?op t (3, ''b.txt'')"
      by (simp add: acceptable_def writeOperation_def utf8_valid_ascii ascii_def maxFileWriteBytes_def example_names[OF t] tempName_def tempPrefix_def)
  qed
  have commit: "wp (commitEdits exampleFileEnv exampleBatch [] [(exampleEdit, ''new'')]) (\<lambda>r _. er_complete r) t"
    if "fw_fs t = fw_fs exampleFiles" for t
    unfolding commitEdits.simps wp_bind by (rule wp_mono[OF fine[OF that]]) simp
  have "wp (State_Monad.bind (commitEdits exampleFileEnv exampleBatch [] [(exampleEdit, ''new'')])
      (\<lambda>r. return (workspaceEditResponse r (if er_complete r then [] else ''workspace_apply_failed'')))) (\<lambda>r _. r_ok r) t"
    if "fw_fs t = fw_fs exampleFiles" for t
    unfolding wp_bind by (rule wp_mono[OF commit[OF that]]) (simp add: workspaceEditResponse_def Let_def)
  then have "wp (tryE (preflight exampleFileEnv exampleBatch 0 [] 0 [exampleEdit]) (\<lambda>(i, code). h i code) (\<lambda>plans.
      State_Monad.bind (commitEdits exampleFileEnv exampleBatch [] plans)
      (\<lambda>r. return (workspaceEditResponse r (if er_complete r then [] else ''workspace_apply_failed''))))) (\<lambda>r _. r_ok r) exampleFiles" for h
    unfolding wp_tryE by (intro wp_mono[OF planned]) auto
  moreover have "w_edits exampleBatch = [exampleEdit]" by (simp add: exampleBatch_def)
  ultimately show ?thesis
    unfolding applyWorkerWorkspaceEdits_def Let_def by (simp add: maxWorkspaceBatchFiles_def del: wp_tryE wp_bind)
qed

end
