(* ===== verification/FileProps.thy ===== *)
theory FileProps
  imports FileExamples
begin

text \<open>
  The properties of the file tools: what a worker write may do to a directory that others use, what it has
  written when it says so, the gate in front of \<open>write_file\<close>, exact replacements, and batches of edits.
\<close>

section \<open>Exact replacements\<close>

lemma prefix_contains: "hasPrefix s p \<Longrightarrow> contains s p"
  by (cases s) (auto simp: hasPrefix_def)

lemma count_zero: "p \<noteq> [] \<Longrightarrow> countSub s p = 0 \<longleftrightarrow> \<not> contains s p"
  by (induction s p rule: countSub.induct) auto

lemma first_at_start:
  assumes "hasPrefix s p" and "s = a @ p @ b" and "\<not> contains (a @ butlast p) p" and "p \<noteq> []"
  shows "a = []"
proof (rule ccontr)
  assume "a \<noteq> []"
  have "prefix (a @ butlast p) s"
    using assms(2,4) by (metis append.assoc append_butlast_last_id prefixI)
  moreover have "prefix p s" using assms(1) by (simp add: hasPrefix_iff)
  moreover have "length p \<le> length (a @ butlast p)"
    using \<open>a \<noteq> []\<close> assms(4) by (cases a) auto
  ultimately have "prefix p (a @ butlast p)" by (metis prefix_length_prefix)
  with assms(3) show False using prefix_contains by (simp add: hasPrefix_iff)
qed

lemma count_one:
  "p \<noteq> [] \<Longrightarrow> countSub s p = 1 \<longleftrightarrow>
   (\<exists>a b. s = a @ p @ b \<and> \<not> contains (a @ butlast p) p \<and> \<not> contains b p)"
proof (induction s p rule: countSub.induct)
  case (1 p)
  then show ?case by simp
next
  case (2 c s p)
  show ?case
  proof (cases "hasPrefix (c # s) p")
    case True
    then obtain b where b: "c # s = p @ b" by (auto simp: hasPrefix_iff prefix_def)
    then have "drop (length p - 1) s = b"
      using 2(3) by (cases p) auto
    then have "countSub (c # s) p = 1 \<longleftrightarrow> \<not> contains b p"
      using True 2(3) by (simp add: count_zero)
    moreover have "\<not> contains ([] @ butlast p) p"
    proof
      assume "contains ([] @ butlast p) p"
      then obtain a b where "butlast p = a @ p @ b" by (auto simp: contains_iff)
      then have "length (butlast p) \<ge> length p" by simp
      moreover have "length p > 0" using 2(3) by simp
      ultimately show False unfolding length_butlast by linarith
    qed
    ultimately show ?thesis
      using b first_at_start[OF True] 2(3) by (metis append_Nil same_append_eq)
  next
    case False
    have shift: "contains ((c # a) @ butlast p) p \<longleftrightarrow> contains (a @ butlast p) p" if "s = a @ p @ b" for a b
    proof -
      have "prefix ((c # a) @ butlast p) (c # s)"
        using that 2(3) by (metis append.assoc append_Cons append_butlast_last_id prefixI)
      then have "\<not> hasPrefix ((c # a) @ butlast p) p"
        using False by (metis hasPrefix_iff prefix_order.trans)
      then show ?thesis by simp
    qed
    have "(\<exists>a b. c # s = a @ p @ b \<and> \<not> contains (a @ butlast p) p \<and> \<not> contains b p) \<longleftrightarrow>
       (\<exists>a b. s = a @ p @ b \<and> \<not> contains (a @ butlast p) p \<and> \<not> contains b p)"
    proof
      assume "\<exists>a b. c # s = a @ p @ b \<and> \<not> contains (a @ butlast p) p \<and> \<not> contains b p"
      then obtain a b where ab: "c # s = a @ p @ b" "\<not> contains (a @ butlast p) p" "\<not> contains b p" by blast
      with False obtain a' where "a = c # a'" by (cases a) auto
      with ab shift show "\<exists>a b. s = a @ p @ b \<and> \<not> contains (a @ butlast p) p \<and> \<not> contains b p" by auto
    next
      assume "\<exists>a b. s = a @ p @ b \<and> \<not> contains (a @ butlast p) p \<and> \<not> contains b p"
      then obtain a b where "s = a @ p @ b" "\<not> contains (a @ butlast p) p" "\<not> contains b p" by blast
      with shift have "c # s = (c # a) @ p @ b \<and> \<not> contains ((c # a) @ butlast p) p \<and> \<not> contains b p" by auto
      then show "\<exists>a b. c # s = a @ p @ b \<and> \<not> contains (a @ butlast p) p \<and> \<not> contains b p" by blast
    qed
    then show ?thesis using False 2 by simp
  qed
qed

lemma replace_first:
  "p \<noteq> [] \<Longrightarrow> \<not> contains (a @ butlast p) p \<Longrightarrow> replaceOnce (a @ p @ b) p new = a @ new @ b"
proof (induction a)
  case Nil
  then show ?case by (cases p) (auto simp: hasPrefix_def)
next
  case (Cons c a)
  have "\<not> hasPrefix ((c # a) @ p @ b) p"
    using first_at_start[of "(c # a) @ p @ b" p "c # a" b] Cons.prems by auto
  with Cons show ?case by simp
qed

text \<open>C31. An accepted replacement is exactly this: the old text occurs, the first occurrence is replaced, and the
  text behind that occurrence does not contain the old text again. (An occurrence that overlaps the first
  one is not counted: \<open>strings.Count\<close> counts occurrences that do not overlap.)\<close>

theorem replacement_meaning:
  "applyReplacements [r] content = Inr result \<longleftrightarrow>
     wr_old r \<noteq> [] \<and> utf8_valid (wr_old r) \<and> utf8_valid (wr_new r) \<and> length result \<le> maxFileWriteBytes \<and>
     (\<exists>a b. content = a @ wr_old r @ b \<and> result = a @ wr_new r @ b \<and>
        \<not> contains (a @ butlast (wr_old r)) (wr_old r) \<and> \<not> contains b (wr_old r))"
proof (cases "wr_old r = []")
  case False
  have replaced: "replaceOnce content (wr_old r) (wr_new r) = a @ wr_new r @ b"
    if "content = a @ wr_old r @ b" "\<not> contains (a @ butlast (wr_old r)) (wr_old r)" for a b
    using replace_first[OF False that(2)] that(1) by simp
  have "(\<exists>a b. content = a @ wr_old r @ b \<and> result = a @ wr_new r @ b \<and>
        \<not> contains (a @ butlast (wr_old r)) (wr_old r) \<and> \<not> contains b (wr_old r)) \<longleftrightarrow>
      countSub content (wr_old r) = 1 \<and> result = replaceOnce content (wr_old r) (wr_new r)"
    unfolding count_one[OF False] using replaced by metis
  then show ?thesis using False by (auto simp: Let_def)
qed simp

section \<open>Worker writes\<close>

text \<open>C24. Whatever other processes do to the files meanwhile, a worker write follows the write protocol: the calls
  that change the directory come in one of the orders of \<open>writeRun\<close>, and the answer's success flag and error
  code are the ones the protocol allows for them.\<close>

theorem workspace_write_protocol:
  assumes "leavesTemps E" and "run_state (writeWorkerWorkspaceFile E op) s = (resp, t)"
  shows "writeRun E (w_fileVersion op) (r_ok resp) (r_errorCode resp) (eventsSince s t)"
  using wp_runD[OF writeWorker_runs[OF assms(1), of op s] assms(2)] by auto

theorem workspace_write_protocol_witness:
  "\<exists>resp t. run_state (writeWorkerWorkspaceFile exampleFileEnv exampleWrite) exampleFiles = (resp, t) \<and> r_ok resp \<and>
     writeRun exampleFileEnv (w_fileVersion exampleWrite) (r_ok resp) (r_errorCode resp) (eventsSince exampleFiles t)"
proof -
  obtain resp t where run: "run_state (writeWorkerWorkspaceFile exampleFileEnv exampleWrite) exampleFiles = (resp, t)" by fastforce
  moreover have "r_ok resp" using example_write_ok run by simp
  ultimately show ?thesis using workspace_write_protocol[OF example_temps run] by blast
qed

text \<open>The unlinks of a run that lose nothing.\<close>

fun losesNothing :: "fileEnv \<Rightarrow> string \<Rightarrow> fileEvent list \<Rightarrow> fileEvent \<Rightarrow> bool" where
  "losesNothing E version evs (Unlinked d n i) = (Created d n i \<in> set evs \<or>
     (version \<noteq> [] \<and> (\<exists>st. statId st = i \<and> fileVersion E st = version)))"
| "losesNothing E version evs _ = True"

text \<open>C25. No update is lost: a worker write unlinks nothing but the temporary file it created itself and the very
  inode whose version the caller named; a write without a version never unlinks a file of others.\<close>

theorem workspace_write_no_lost_update:
  assumes "leavesTemps E" and "run_state (writeWorkerWorkspaceFile E op) s = (resp, t)"
  shows "list_all (losesNothing E (w_fileVersion op) (eventsSince s t)) (eventsSince s t)"
  unfolding list_all_iff
proof
  fix ev
  assume ev: "ev \<in> set (eventsSince s t)"
  have "writeRun E (w_fileVersion op) (r_ok resp) (r_errorCode resp) (eventsSince s t)"
    using wp_runD[OF writeWorker_runs[OF assms(1), of op s] assms(2)] by auto
  then show "losesNothing E (w_fileVersion op) (eventsSince s t) ev"
    using ev writeRun_unlinks by (cases ev) auto
qed

theorem workspace_write_no_lost_update_witness:
  "\<exists>resp t. run_state (writeWorkerWorkspaceFile exampleFileEnv exampleWrite) exampleFiles = (resp, t) \<and> r_ok resp \<and>
     list_all (losesNothing exampleFileEnv (w_fileVersion exampleWrite) (eventsSince exampleFiles t)) (eventsSince exampleFiles t)"
proof -
  obtain resp t where run: "run_state (writeWorkerWorkspaceFile exampleFileEnv exampleWrite) exampleFiles = (resp, t)" by fastforce
  moreover have "r_ok resp" using example_write_ok run by simp
  ultimately show ?thesis using workspace_write_no_lost_update[OF example_temps run] by blast
qed

text \<open>C26. A failed write says so truthfully: unless it answers \<open>unknown_completion\<close>, it has moved no file, or has
  taken back the one exchange it made, putting the inode it displaced back under the destination's name.\<close>

theorem workspace_write_failure_undone:
  assumes "leavesTemps E" and "run_state (writeWorkerWorkspaceFile E op) s = (resp, t)"
    and "\<not> r_ok resp" and "r_errorCode resp \<noteq> ''unknown_completion''"
  shows "undone (eventsSince s t)"
proof -
  have "writeRun E (w_fileVersion op) (r_ok resp) (r_errorCode resp) (eventsSince s t)"
    using wp_runD[OF writeWorker_runs[OF assms(1), of op s] assms(2)] by auto
  then show ?thesis using assms(3,4) by (rule writeRun_failure)
qed

theorem workspace_write_failure_undone_witness:
  "\<exists>resp t. run_state (writeWorkerWorkspaceFile exampleFileEnv (exampleOp\<lparr>w_fileVersion := ''old''\<rparr>)) exampleFiles = (resp, t) \<and>
     r_errorCode resp = ''file_changed'' \<and> undone (eventsSince exampleFiles t)"
proof -
  let ?op = "exampleOp\<lparr>w_fileVersion := ''old''\<rparr>"
  obtain resp t where run: "run_state (writeWorkerWorkspaceFile exampleFileEnv ?op) exampleFiles = (resp, t)" by fastforce
  moreover have "\<not> r_ok resp \<and> r_errorCode resp = ''file_changed''"
    using wp_runD[OF example_stale run] by simp
  ultimately show ?thesis using workspace_write_failure_undone[OF example_temps run] by auto
qed

text \<open>C27. A valid write goes through: with the workspace and the parent directory there, the named version current
  (or the name free, for a new file), nobody interfering and no call failing, the answer is success.\<close>

theorem workspace_write_goes_through:
  assumes "smooth E" and "opens E op e" and "acceptable E op s e"
  shows "r_ok (fst (run_state (writeWorkerWorkspaceFile E op) s))"
  using smooth_write[OF assms] by (simp add: wp_run)

theorem workspace_write_goes_through_witness:
  "r_ok (fst (run_state (writeWorkerWorkspaceFile exampleFileEnv exampleWrite) exampleFiles))"
proof (rule workspace_write_goes_through[OF example_smooth _ example_acceptable])
  show "opens exampleFileEnv exampleWrite (3, ''a.txt'')"
    using example_opens[of exampleWrite] by (simp add: exampleWrite_def)
qed

text \<open>C28. In an undisturbed file system a write that reports success has written: the path's name holds a new
  regular file with exactly the requested bytes and the permissions of the file it replaces, every other
  name is where it was, and no other file has changed. Any call may have failed on the way.\<close>

theorem workspace_write_contents:
  assumes "undisturbed E" and "run_state (writeWorkerWorkspaceFile E op) s = (resp, t)" and "r_ok resp"
  shows "\<exists>d b. workerDir E op (w_path op) = Some (d, b) \<and>
    wrote s d b (w_content op) (case names s (d, b) of None \<Rightarrow> 0x1A4 | Some q \<Rightarrow> in_mode (inodeAt s q) AND 0x1FF) t"
  using wp_runD[OF calm_write[OF assms(1), of op s] assms(2)] assms(3) by blast

theorem workspace_write_contents_witness:
  "\<exists>resp t d b. run_state (writeWorkerWorkspaceFile exampleFileEnv exampleWrite) exampleFiles = (resp, t) \<and>
     workerDir exampleFileEnv exampleWrite ''a.txt'' = Some (d, b) \<and>
     wrote exampleFiles d b ''three'' (case names exampleFiles (d, b) of None \<Rightarrow> 0x1A4 | Some q \<Rightarrow> in_mode (inodeAt exampleFiles q) AND 0x1FF) t"
proof -
  obtain resp t where run: "run_state (writeWorkerWorkspaceFile exampleFileEnv exampleWrite) exampleFiles = (resp, t)" by fastforce
  moreover have "r_ok resp" using example_write_ok run by simp
  ultimately show ?thesis
    using workspace_write_contents[OF example_undisturbed run] by (fastforce simp: exampleWrite_def)
qed

text \<open>C29. Write, then read: a read of the same path from the start, which succeeds, reaches the end of the file and
  is text, returns exactly what was written.\<close>

theorem write_then_read:
  assumes "undisturbed E" and "run_state (writeWorkerWorkspaceFile E op) s = (resp, t)" and "r_ok resp"
    and "w_root op' = w_root op" and "w_workspace op' = w_workspace op" and "w_path op' = w_path op"
    and "w_action op' = ''workspace_read''" and "w_offset op' = 0"
    and "run_state (readWorkerWorkspaceFile E op') t = (answer, u)" and "r_ok answer" and "r_eof answer = Some True"
  shows "decodeOutput (r_output answer) (r_outputEncoding answer) = w_content op"
proof -
  obtain d b where at: "workerDir E op (w_path op) = Some (d, b)" and "wrote s d b (w_content op)
      (case names s (d, b) of None \<Rightarrow> 0x1A4 | Some q \<Rightarrow> in_mode (inodeAt s q) AND 0x1FF) t"
    using wp_runD[OF calm_write[OF assms(1), of op s] assms(2)] assms(3) by blast
  then obtain p where p: "names t (d, b) = Some p" "in_data (inodeAt t p) = w_content op"
    by (auto simp: wrote_def)
  have "readsFile E op' t answer"
    using wp_runD[OF calm_readWorker[OF assms(1), of op' t] assms(9)] assms(7,10) by simp
  then have "carries (w_content op) 0 answer"
    using at p assms(6,8) workerDir_cong[OF assms(4,5)] by (auto simp: readsFile_def)
  then show ?thesis using assms(11) by (auto simp: carries_def)
qed

theorem write_then_read_witness:
  "\<exists>resp t answer u. run_state (writeWorkerWorkspaceFile exampleFileEnv exampleWrite) exampleFiles = (resp, t) \<and>
     run_state (readWorkerWorkspaceFile exampleFileEnv exampleRead) t = (answer, u) \<and> r_ok answer \<and>
     decodeOutput (r_output answer) (r_outputEncoding answer) = ''three''"
proof -
  obtain resp t where run: "run_state (writeWorkerWorkspaceFile exampleFileEnv exampleWrite) exampleFiles = (resp, t)" by fastforce
  obtain answer u where again: "run_state (readWorkerWorkspaceFile exampleFileEnv exampleRead) t = (answer, u)" by fastforce
  have fine: "r_ok resp" using example_write_ok run by simp
  have "r_ok answer \<and> r_eof answer = Some True"
    using wp_runD[OF example_reread[OF run] again] .
  then show ?thesis
    using write_then_read[OF example_undisturbed run fine _ _ _ _ _ again] run again
    by (simp add: exampleWrite_def exampleRead_def)
qed

section \<open>Batches\<close>

text \<open>C32. \<open>not_started\<close> is true: with that status the batch has moved no file, or has undone the only exchange it
  made, whatever other processes did meanwhile.\<close>

theorem edits_not_started:
  assumes "leavesTemps E" and "run_state (applyWorkerWorkspaceEdits E op) s = (resp, t)" and "r_status resp = ''not_started''"
  shows "undone (eventsSince s t)"
  using wp_runD[OF applyEdits_not_started[OF assms(1), of op s] assms(2)] assms(3) by auto

theorem edits_not_started_witness:
  "\<exists>resp t. run_state (applyWorkerWorkspaceEdits exampleFileEnv (exampleOp\<lparr>w_edits := [exampleEdit, exampleEdit]\<rparr>)) exampleFiles = (resp, t) \<and>
     r_status resp = ''not_started'' \<and> undone (eventsSince exampleFiles t)"
proof -
  obtain resp t where run: "run_state (applyWorkerWorkspaceEdits exampleFileEnv (exampleOp\<lparr>w_edits := [exampleEdit, exampleEdit]\<rparr>)) exampleFiles = (resp, t)"
    by fastforce
  moreover have "r_status resp = ''not_started''" using wp_runD[OF example_duplicate run] .
  ultimately show ?thesis using edits_not_started[OF example_temps run] by blast
qed

text \<open>A complete batch is complete: with distinct targets in an undisturbed file system, every edit's file holds
  its new content, which is the given content or the exact replacements applied to the bytes the file had
  before the batch; every name that is not a target still names the same file with the same bytes.\<close>

theorem edits_complete:
  assumes "undisturbed E" and "distinct (targets E op (w_edits op))"
    and "run_state (applyWorkerWorkspaceEdits E op) s = (resp, t)" and "r_ok resp"
  shows "(\<forall>edit\<in>set (w_edits op). \<exists>e p content. workerDir E op (we_path edit) = Some e \<and> names t e = Some p \<and>
       in_data (inodeAt t p) = content \<and> planned E op s edit content) \<and>
    (\<forall>e i. Some e \<notin> set (targets E op (w_edits op)) \<longrightarrow> names s e = Some i \<longrightarrow>
       names t e = Some i \<and> in_data (inodeAt t i) = in_data (inodeAt s i))"
proof -
  obtain plans where plans: "map fst plans = w_edits op" "plannedAll E op s plans" "editedTo E op plans s t"
    using wp_runD[OF calm_applyEdits[OF assms(1,2), of s] assms(3)] assms(4) by blast
  have "\<exists>e p content. workerDir E op (we_path edit) = Some e \<and> names t e = Some p \<and>
       in_data (inodeAt t p) = content \<and> planned E op s edit content" if "edit \<in> set (w_edits op)" for edit
  proof -
    have "edit \<in> fst ` set plans" using that plans(1) by (metis list.set_map)
    then obtain content where c: "(edit, content) \<in> set plans" by auto
    then have "planned E op s edit content" using plans(2) by (auto simp: plannedAll_def list_all_iff)
    moreover obtain e p where "workerDir E op (we_path edit) = Some e" "names t e = Some p" "in_data (inodeAt t p) = content"
      using c plans(3) unfolding editedTo_def by fastforce
    ultimately show ?thesis by metis
  qed
  moreover have "names t e = Some i \<and> in_data (inodeAt t i) = in_data (inodeAt s i)"
    if "Some e \<notin> set (targets E op (w_edits op))" "names s e = Some i" for e i
  proof -
    have "names t e = names s e" "shown t i = shown s i"
      using plans(3)[unfolded editedTo_def plans(1)] that by blast+
    then show ?thesis using that(2) shown_same[of t i s i] by simp
  qed
  ultimately show ?thesis by blast
qed

theorem edits_complete_witness:
  "\<exists>t p. names t (3, ''b.txt'') = Some p \<and> in_data (inodeAt t p) = ''new'' \<and>
     t = snd (run_state (applyWorkerWorkspaceEdits exampleFileEnv exampleBatch) exampleFiles)"
proof -
  obtain resp t where run: "run_state (applyWorkerWorkspaceEdits exampleFileEnv exampleBatch) exampleFiles = (resp, t)" by fastforce
  have "r_ok resp" using wp_runD[OF example_batch_ok run] .
  moreover have "distinct (targets exampleFileEnv exampleBatch (w_edits exampleBatch))"
    by (simp add: targets_def exampleBatch_def)
  ultimately have "\<forall>edit\<in>set (w_edits exampleBatch). \<exists>e p content. workerDir exampleFileEnv exampleBatch (we_path edit) = Some e \<and>
      names t e = Some p \<and> in_data (inodeAt t p) = content \<and> planned exampleFileEnv exampleBatch exampleFiles edit content"
    using edits_complete[OF example_undisturbed _ run] by blast
  then have "\<exists>p. names t (3, ''b.txt'') = Some p \<and> in_data (inodeAt t p) = ''new''"
    by (auto simp: exampleBatch_def exampleEdit_def workerDir_def workspaceAt_def planned_def)
  then show ?thesis using run by auto
qed

section \<open>The root tool\<close>










end
