(* ===== verification/Staging.thy ===== *)
theory Staging
  imports WorkspaceEdits
begin

text \<open>
  The staging area of durable transfers (\<open>internal/executor/workspace_transfer.go\<close>): identifiers, the
  manifest with its exact JSON text, and the directory of a session with its two files \<open>data\<close> and
  \<open>manifest.json\<close>. Directories are numbers as in FileWorld: \<open>fe_stagingRoot\<close> holds the names of the
  sessions, \<open>fe_sessionDir\<close> gives the directory of each name. A manifest's bytes are its JSON text; the
  document they stand for is kept beside them (\<open>in_doc\<close>), so reading needs no parser.
\<close>

section \<open>Identifiers\<close>

definition transferChunkMax :: nat where "transferChunkMax = 262144"
definition transferManifestMax :: nat where "transferManifestMax = 8192"
definition transferScanMax :: nat where "transferScanMax = 4096"
definition transferDiskReserve :: int where "transferDiskReserve = 16777216"
definition transferPrepareWindowBytes :: int where "transferPrepareWindowBytes = 4194304"

definition hexText :: "string \<Rightarrow> bool" where
  "hexText s = list_all (\<lambda>c. c \<in> set ''0123456789abcdef'') s"

definition transferDigestValid :: "string \<Rightarrow> bool" where
  "transferDigestValid v = (length v = 64 \<and> hexText v)"

definition transferIDValid :: "string \<Rightarrow> bool" where
  "transferIDValid v = (length v = 67 \<and> hasPrefix v ''tr_'' \<and> hexText (drop 3 v))"

definition transferKeyValid :: "string \<Rightarrow> bool" where
  "transferKeyValid s = (16 \<le> length s \<and> length s \<le> 128 \<and>
     list_all (\<lambda>c. is_lower c \<or> is_upper c \<or> is_digit c \<or> c = CHR ''_'' \<or> c = CHR ''-'') s)"

definition transferPrefix :: string where
  "transferPrefix = ''.ai-server-agent-xfer-''"

definition transferTempName :: "string \<Rightarrow> string" where
  "transferTempName tid = transferPrefix @ drop 3 tid"

definition transferTempValid :: "string \<Rightarrow> bool" where
  "transferTempValid n = (length n = length transferPrefix + 64 \<and> hasPrefix n transferPrefix
     \<and> hexText (drop (length transferPrefix) n))"

definition jsonArray :: "string list \<Rightarrow> string" where
  "jsonArray xs = ''['' @ commaSep xs @ '']''"

text \<open>The first half of the key's digest, then the first half of the material's.\<close>

definition transferIDFor :: "fileEnv \<Rightarrow> workspaceFileOperation \<Rightarrow> string" where
  "transferIDFor E op =
     (let keyInput = jsonArray (map jsonString [w_principalClass op, w_principalID op, clean (w_workspace op), w_path op, w_transferKey op]);
          materialInput = jsonArray [itoa (w_expectedSize op), jsonString (w_sha256 op), jsonString (w_fileVersion op), jsonBool (w_mustNotExist op)] in
      ''tr_'' @ take 32 (fe_sha256 E keyInput) @ take 32 (fe_sha256 E materialInput))"

definition transferDisplacedDigest :: "fileEnv \<Rightarrow> stat \<Rightarrow> string" where
  "transferDisplacedDigest E st = fe_sha256 E (jsonArray [itoa (int (st_dev st)), itoa (int (st_ino st)), itoa (st_size st),
     itoa (uint (st_mode st)), itoa (int (st_uid st)), itoa (int (st_gid st)), itoa (st_mtim st div 1000000000), itoa (st_mtim st mod 1000000000)])"

definition transferDisplacedMatches :: "fileEnv \<Rightarrow> transferRecord \<Rightarrow> stat \<Rightarrow> bool" where
  "transferDisplacedMatches E r st = (\<not> tr_mustNotExist r \<and> transferDigestValid (tr_displacedSnapshot r)
     \<and> st_dev st = tr_displacedDev r \<and> st_ino st = tr_displacedIno r \<and> transferDisplacedDigest E st = tr_displacedSnapshot r)"

section \<open>Requests\<close>

text \<open>\<open>base64.StdEncoding.Strict()\<close>: line breaks are skipped, what is left must be the one encoding of its bytes.\<close>

definition decode64Strict :: "string \<Rightarrow> bytes option" where
  "decode64Strict s = (let t = filter (\<lambda>c. c \<noteq> CHR 0x0A \<and> c \<noteq> CHR 0x0D) s; raw = b64_decode t in
     if b64_encode raw = t then Some raw else None)"

definition encodedLen64 :: "nat \<Rightarrow> nat" where
  "encodedLen64 n = (n + 2) div 3 * 4"

definition validTransferStep :: "Request \<Rightarrow> err + unit" where
  "validTransferStep req =
     (let step = q_transferOp req in
      if step = ''begin'' then
        (if \<not> transferKeyValid (q_transferKey req) \<or> q_transferID req \<noteq> [] \<or> q_expectedSize req \<le> 0 \<or> \<not> transferDigestValid (q_sha256 req)
            \<or> q_mustNotExist req = (q_fileVersion req \<noteq> []) \<or> q_offset req \<noteq> 0 \<or> q_chunkBase64 req \<noteq> [] \<or> q_chunkSHA256 req \<noteq> []
         then Inl (newErr ''begin requires total bytes, whole sha256 and exactly one destination precondition'') else Inr ())
      else if step = ''chunk'' then
        (if q_transferKey req \<noteq> [] \<or> \<not> transferIDValid (q_transferID req) \<or> q_offset req < 0 \<or> q_chunkBase64 req = []
            \<or> \<not> transferDigestValid (q_chunkSHA256 req) \<or> length (q_chunkBase64 req) > encodedLen64 transferChunkMax
            \<or> q_expectedSize req \<noteq> 0 \<or> q_sha256 req \<noteq> [] \<or> q_fileVersion req \<noteq> [] \<or> q_mustNotExist req
         then Inl (newErr ''chunk requires handle, bounded base64, offset and chunk sha256 only'') else Inr ())
      else if step = ''status'' \<or> step = ''commit'' \<or> step = ''abort'' then
        (if q_transferKey req \<noteq> [] \<or> \<not> transferIDValid (q_transferID req) \<or> q_expectedSize req \<noteq> 0 \<or> q_sha256 req \<noteq> []
            \<or> q_chunkBase64 req \<noteq> [] \<or> q_chunkSHA256 req \<noteq> [] \<or> q_offset req \<noteq> 0 \<or> q_fileVersion req \<noteq> [] \<or> q_mustNotExist req
         then Inl (newErr ''status/commit/abort require only handle and original destination identity'') else Inr ())
      else Inl (newErr ''transfer operation must be begin, chunk, status, commit or abort''))"

definition validateWorkspaceTransferRequest :: "Request \<Rightarrow> err + unit" where
  "validateWorkspaceTransferRequest req =
     (if q_principalID req = [] \<or> q_principalClass req = []
      then Inl (newErr ''authenticated principal identity required for durable transfer'')
      else case safeWorkspaceRelativeFile (q_path req) of
        Inl e \<Rightarrow> Inl e
      | Inr _ \<Rightarrow>
        if q_root req \<or> q_approval req \<or> q_mode req \<noteq> 0 \<or> q_content req \<noteq> [] \<or> q_workspaceEdits req \<noteq> []
        then Inl (newErr ''transfer accepts only worker-authority byte chunks'')
        else validTransferStep req)"

section \<open>Answers\<close>

definition transferError :: "string \<Rightarrow> string \<Rightarrow> string \<Rightarrow> Response" where
  "transferError code class msg = fileError code class msg"

definition transferReceipt :: "transferRecord \<Rightarrow> Response" where
  "transferReceipt r =
     (let out = zeroResponse\<lparr>r_ok := True, r_status := tr_status r, r_transferID := tr_id r, r_expectedSize := tr_expectedSize r,
        r_transferredBytes := tr_received r, r_sha256 := tr_sha256 r, r_expiresAt := rfc3339Nano (tr_expiresUnix r * 1000000000),
        r_nextOffset := Some (tr_received r), r_preparedBytes := tr_preparedBytes r\<rparr> in
      if tr_status r = ''committed''
      then out\<lparr>r_fileVersion := tr_resultVersion r, r_fileSize := Some (tr_expectedSize r), r_eof := Some True\<rparr>
      else out)"

section \<open>The manifest\<close>

definition jsonOmitZero :: "string \<Rightarrow> int \<Rightarrow> string" where
  "jsonOmitZero key v = (if v = 0 then [] else jsonField key (itoa v))"

definition recordJSON :: "transferRecord \<Rightarrow> string" where
  "recordJSON r = ''{'' @ jsonString ''id'' @ '':'' @ jsonString (tr_id r)
     @ jsonField ''principal_id'' (jsonString (tr_principalID r))
     @ jsonField ''principal_class'' (jsonString (tr_principalClass r))
     @ jsonField ''workspace'' (jsonString (tr_workspace r))
     @ jsonField ''path'' (jsonString (tr_path r))
     @ jsonField ''expected_size'' (itoa (tr_expectedSize r))
     @ jsonField ''sha256'' (jsonString (tr_sha256 r))
     @ jsonField ''received'' (itoa (tr_received r))
     @ jsonOmitEmpty ''file_version'' (tr_fileVersion r)
     @ jsonField ''must_not_exist'' (jsonBool (tr_mustNotExist r))
     @ jsonField ''status'' (jsonString (tr_status r))
     @ jsonField ''expires_unix'' (itoa (tr_expiresUnix r))
     @ jsonOmitEmpty ''result_version'' (tr_resultVersion r)
     @ jsonOmitZero ''prepared_bytes'' (tr_preparedBytes r)
     @ jsonOmitEmpty ''prepared_hash'' (tr_preparedHash r)
     @ jsonOmitEmpty ''staged_version'' (tr_stagedVersion r)
     @ jsonOmitZero ''prepared_dev'' (int (tr_preparedDev r))
     @ jsonOmitZero ''prepared_ino'' (int (tr_preparedIno r))
     @ jsonOmitZero ''displaced_dev'' (int (tr_displacedDev r))
     @ jsonOmitZero ''displaced_ino'' (int (tr_displacedIno r))
     @ jsonOmitEmpty ''displaced_snapshot'' (tr_displacedSnapshot r)
     @ (if tr_exchangeVerified r then jsonField ''exchange_verified'' (jsonBool True) else [])
     @ jsonOmitEmpty ''temp_name'' (tr_tempName r) @ ''}''"

text \<open>The document a manifest's text stands for: its strings have lost invalid UTF-8.\<close>

definition storedRecord :: "transferRecord \<Rightarrow> transferRecord" where
  "storedRecord r = r\<lparr>tr_id := cleanText (tr_id r), tr_principalID := cleanText (tr_principalID r),
     tr_principalClass := cleanText (tr_principalClass r), tr_workspace := cleanText (tr_workspace r), tr_path := cleanText (tr_path r),
     tr_sha256 := cleanText (tr_sha256 r), tr_fileVersion := cleanText (tr_fileVersion r), tr_status := cleanText (tr_status r),
     tr_resultVersion := cleanText (tr_resultVersion r), tr_preparedHash := cleanText (tr_preparedHash r),
     tr_stagedVersion := cleanText (tr_stagedVersion r), tr_displacedSnapshot := cleanText (tr_displacedSnapshot r),
     tr_tempName := cleanText (tr_tempName r)\<rparr>"

definition transferStatuses :: "string list" where
  "transferStatuses = [''uploading'', ''preparing'', ''committing'', ''committed'', ''aborted'', ''conflicted'']"

definition validRecord :: "transferRecord \<Rightarrow> bool" where
  "validRecord r = (transferIDValid (tr_id r) \<and> transferDigestValid (tr_sha256 r) \<and> tr_expectedSize r > 0
     \<and> 0 \<le> tr_received r \<and> tr_received r \<le> tr_expectedSize r \<and> tr_expectedSize r \<le> 2 ^ 40
     \<and> 0 \<le> tr_preparedBytes r \<and> tr_preparedBytes r \<le> tr_expectedSize r
     \<and> tr_status r \<in> set transferStatuses
     \<and> (\<not> tr_mustNotExist r \<and> (tr_status r = ''preparing'' \<or> tr_status r = ''committing'') \<longrightarrow> transferDigestValid (tr_displacedSnapshot r))
     \<and> 0 < tr_expiresUnix r)"

section \<open>The session directory\<close>

definition manifestName :: string where "manifestName = ''manifest.json''"
definition dataName :: string where "dataName = ''data''"

definition nowUnix :: "fileEnv \<Rightarrow> int fprog" where
  "nowUnix E = gets (\<lambda>w. fe_now E (fw_tick w) div 1000000000)"

definition expiry :: "fileEnv \<Rightarrow> workspaceFileOperation \<Rightarrow> int fprog" where
  "expiry E op = do { now \<leftarrow> nowUnix E; return (now + w_transferTTL op) }"

definition openSession :: "fileEnv \<Rightarrow> string \<Rightarrow> (err + nat) fprog" where
  "openSession E tid = fcall E (\<lambda>_. gets (\<lambda>w. case lookupName w (fe_stagingRoot E) tid of
       None \<Rightarrow> Inl missing
     | Some i \<Rightarrow> if isDirectory (in_mode (inodeAt w i)) then Inr (fe_sessionDir E tid) else Inl (newErr ''not a directory'')))"

definition setDoc :: "inodeId \<Rightarrow> transferRecord option \<Rightarrow> fworld \<Rightarrow> fworld" where
  "setDoc i d w = setInode i ((inodeAt w i)\<lparr>in_doc := d\<rparr>) w"

definition readAllFD :: "fileEnv \<Rightarrow> inodeId \<Rightarrow> (err + inode) fprog" where
  "readAllFD E i = fcall E (\<lambda>_. gets (\<lambda>w. Inr (inodeAt w i)))"

definition transferReadRecord :: "fileEnv \<Rightarrow> string \<Rightarrow> (err + transferRecord) fprog" where
  "transferReadRecord E tid =
     tryE (openPinned E (fe_sessionDir E tid) manifestName) fail (\<lambda>i.
     tryE (fstat E i) fail (\<lambda>st.
     if \<not> isRegular (st_mode st) \<or> st_size st < 1 \<or> st_size st > int transferManifestMax then fail (newErr ''invalid manifest'')
     else tryE (readAllFD E i) fail (\<lambda>x. case in_doc x of
         None \<Rightarrow> fail (newErr ''invalid character'')
       | Some r \<Rightarrow> if length (in_data x) > transferManifestMax + 1 then fail (newErr ''unexpected end of JSON input'')
                  else if validRecord r then ok r else fail (newErr ''invalid transfer manifest''))))"

text \<open>The new manifest is written beside the old one and renamed over it: a crash leaves the one or the other.\<close>

definition publishManifest :: "fileEnv \<Rightarrow> nat \<Rightarrow> inodeId \<Rightarrow> string \<Rightarrow> transferRecord \<Rightarrow> ((err + unit) \<times> bool) fprog" where
  "publishManifest E dir fd n r =
     tryE (writeAllFD E fd 0 (recordJSON r)) (\<lambda>e. return (Inl e, True)) (\<lambda>_. do {
       modify (setDoc fd (Some (storedRecord r)));
       tryE (fsyncFD E) (\<lambda>e. return (Inl e, True)) (\<lambda>_.
       tryE (renameOver E dir n manifestName) (\<lambda>e. return (Inl e, True)) (\<lambda>_. do {
         res \<leftarrow> fsyncFD E;
         return (res, False) })) })"

definition transferSaveRecord :: "fileEnv \<Rightarrow> string \<Rightarrow> transferRecord \<Rightarrow> (err + unit) fprog" where
  "transferSaveRecord E tid r =
     (if length (recordJSON r) > transferManifestMax then fail (newErr ''transfer manifest too large'')
      else tryE (openSession E tid) fail (\<lambda>dir.
        tryE (createTempFileAt E dir) fail (\<lambda>(fd, n). do {
          (res, owned) \<leftarrow> publishManifest E dir fd n r;
          if owned then do { unlinkAt E dir n; return res } else return res })))"

definition transferRemoveData :: "fileEnv \<Rightarrow> string \<Rightarrow> (err + unit) fprog" where
  "transferRemoveData E tid =
     tryE (openSession E tid) fail (\<lambda>dir.
     tryE (unlinkAt E dir dataName) (\<lambda>e. if isNotExist e then fsyncFD E else fail e) (\<lambda>_. fsyncFD E))"

section \<open>Removing a session\<close>

definition entriesOf :: "fworld \<Rightarrow> nat \<Rightarrow> (string \<times> inodeId) list" where
  "entriesOf w d = map (\<lambda>((_, n), i). (n, i)) (filter (\<lambda>((d', _), _). d' = d) (fs_names (fw_fs w)))"

text \<open>\<open>os.ReadDir\<close> sorts by name and gives the type of each entry.\<close>

definition readDirAt :: "fileEnv \<Rightarrow> nat \<Rightarrow> (err + (string \<times> 32 word) list) fprog" where
  "readDirAt E d = fcall E (\<lambda>_. gets (\<lambda>w. Inr (sort_key fst (map (\<lambda>(n, i). (n, in_mode (inodeAt w i))) (entriesOf w d)))))"

definition readDirNames :: "fileEnv \<Rightarrow> nat \<Rightarrow> (err + string list) fprog" where
  "readDirNames E d = fcall E (\<lambda>_. gets (\<lambda>w. Inr (map fst (entriesOf w d))))"

definition sessionEntryName :: "string \<Rightarrow> bool" where
  "sessionEntryName n = (n = dataName \<or> n = manifestName \<or>
     (hasPrefix n tempPrefix \<and> length n = length tempPrefix + 24 \<and> hexText (drop (length tempPrefix) n)))"

fun checkEntries :: "fileEnv \<Rightarrow> nat \<Rightarrow> (string \<times> 32 word) list \<Rightarrow> (err + unit) fprog" where
  "checkEntries E d [] = ok ()"
| "checkEntries E d ((n, m) # es) =
     (if \<not> sessionEntryName n then fail (newErr ''unrecognized transfer state file'')
      else if isSymlink m \<or> isDirectory m then fail (newErr ''unsafe transfer state entry'')
      else tryE (pathState E d n) (\<lambda>_. fail (newErr ''non-regular transfer state entry'')) (\<lambda>info. case info of
          None \<Rightarrow> fail (newErr ''non-regular transfer state entry'')
        | Some st \<Rightarrow>
          if \<not> isRegular (st_mode st) then fail (newErr ''non-regular transfer state entry'')
          else if st_uid st \<noteq> fe_euid E then fail (newErr ''transfer state entry is not worker-owned'')
          else checkEntries E d es))"

fun removeEntries :: "fileEnv \<Rightarrow> nat \<Rightarrow> string list \<Rightarrow> (err + unit) fprog" where
  "removeEntries E d [] = ok ()"
| "removeEntries E d (n # ns) = tryE (unlinkAt E d n) fail (\<lambda>_. removeEntries E d ns)"

definition rmdirSession :: "fileEnv \<Rightarrow> string \<Rightarrow> (err + unit) fprog" where
  "rmdirSession E tid = fcall E (\<lambda>_. do {
     w \<leftarrow> get;
     case lookupName w (fe_stagingRoot E) tid of
       None \<Rightarrow> fail missing
     | Some i \<Rightarrow>
       if entriesOf w (fe_sessionDir E tid) \<noteq> [] then fail (newErr ''directory not empty'')
       else do { modify (logEvent (Unlinked (fe_stagingRoot E) tid i) \<circ> dropName (fe_stagingRoot E) tid); ok () } })"

definition transferRemoveSession :: "fileEnv \<Rightarrow> string \<Rightarrow> (err + unit) fprog" where
  "transferRemoveSession E tid =
     tryE (pathState E (fe_stagingRoot E) tid) fail (\<lambda>current. case current of
       None \<Rightarrow> fail missing
     | Some st \<Rightarrow>
       if \<not> isDirectory (st_mode st) \<or> st_mode st AND 0x1FF \<noteq> 0x1C0 \<or> st_uid st \<noteq> fe_euid E
       then fail (newErr ''unexpected transfer session directory ownership or type'')
       else tryE (readDirAt E (fe_sessionDir E tid)) fail (\<lambda>entries.
         if length entries > 128 then fail (newErr ''unexpected number of files in transfer state'')
         else tryE (checkEntries E (fe_sessionDir E tid) entries) fail (\<lambda>_.
              tryE (removeEntries E (fe_sessionDir E tid) (map fst entries)) fail (\<lambda>_. rmdirSession E tid))))"

text \<open>An interrupted begin: no manifest, and nothing in the data file.\<close>

definition transferIncompleteBeginSafe :: "fileEnv \<Rightarrow> string \<Rightarrow> bool fprog" where
  "transferIncompleteBeginSafe E tid = do {
     m \<leftarrow> pathState E (fe_sessionDir E tid) manifestName;
     if m \<noteq> Inr None then return False
     else do {
       d \<leftarrow> pathState E (fe_sessionDir E tid) dataName;
       return (case d of
           Inl _ \<Rightarrow> False
         | Inr None \<Rightarrow> True
         | Inr (Some st) \<Rightarrow> isRegular (st_mode st) \<and> st_size st = 0) } }"

section \<open>Data\<close>

text \<open>\<open>O_RDWR\<close> on a name that must not be a link.\<close>

definition openWritable :: "fileEnv \<Rightarrow> nat \<Rightarrow> string \<Rightarrow> (err + inodeId) fprog" where
  "openWritable E d n = fcall E (\<lambda>_. gets (\<lambda>w. case lookupName w d n of
       None \<Rightarrow> Inl missing
     | Some i \<Rightarrow>
       if isSymlink (in_mode (inodeAt w i)) then Inl (newErr ''too many levels of symbolic links'')
       else if isDirectory (in_mode (inodeAt w i)) then Inl (newErr ''is a directory'') else Inr i))"

definition ftruncateFD :: "fileEnv \<Rightarrow> inodeId \<Rightarrow> nat \<Rightarrow> (err + unit) fprog" where
  "ftruncateFD E i n = fcall E (\<lambda>k. do {
     modify (\<lambda>w. (let x = inodeAt w i in setInode i (x\<lparr>in_data := take n (in_data x) @ replicate (n - length (in_data x)) (CHR 0x00),
       in_doc := None, in_mtim := fe_now E k, in_ctim := fe_now E k\<rparr>) w));
     ok () })"

text \<open>\<open>Fstatfs\<close>: block size and available blocks. The check is \<open>Bavail <= (reserve + n) / Bsize + 1\<close>.\<close>

definition freeSpace :: "fileEnv \<Rightarrow> (err + (int \<times> nat)) fprog" where
  "freeSpace E = fcall E (\<lambda>k. ok (fe_freeBlocks E k))"

definition diskFull :: "int \<times> nat \<Rightarrow> int \<Rightarrow> bool" where
  "diskFull fs n = (case fs of (bsize, bavail) \<Rightarrow> bsize \<le> 0 \<or> int bavail \<le> (transferDiskReserve + n) div bsize + 1)"

definition transferStageStat :: "fileEnv \<Rightarrow> string \<Rightarrow> (err + inodeId \<times> stat) fprog" where
  "transferStageStat E tid =
     tryE (openPinned E (fe_sessionDir E tid) dataName) fail (\<lambda>i.
     tryE (fstat E i) fail (\<lambda>st.
       if \<not> isRegular (st_mode st) then fail (newErr ''staged data must be regular'') else ok (i, st)))"

end
