(* ===== verification/Transfers.thy ===== *)
theory Transfers
  imports Staging
begin

text \<open>
  Durable chunked uploads: \<open>workspace_transfer.go\<close>, \<open>workspace_transfer_prepare.go\<close> and
  \<open>workspace_transfer_gc.go\<close>. A transfer goes from \<open>uploading\<close> (chunks are appended to the staged file and
  checkpointed) over \<open>preparing\<close> (windows of the staged file are copied into a new inode of the destination's
  file system, with a running SHA-256) and \<open>committing\<close> (that inode is exchanged with or installed at the
  destination) to \<open>committed\<close>, or to \<open>aborted\<close> or \<open>conflicted\<close>. Every step is checkpointed in the manifest, so
  that a request after a crash goes on from there. The fault points of the tests do nothing in production.
\<close>

section \<open>The destination\<close>

definition openWorkerParentForTransfer :: "fileEnv \<Rightarrow> workspaceFileOperation \<Rightarrow> (err + nat) fprog" where
  "openWorkerParentForTransfer E op =
     tryE (openWorkerWorkspace E op) fail (\<lambda>ws.
     tryE (openWorkerParent E ws (w_path op)) fail (\<lambda>(d, _).
     tryE (rejectPseudoFilesystem E) fail (\<lambda>_. ok d)))"

definition isPrepared :: "transferRecord \<Rightarrow> stat \<Rightarrow> bool" where
  "isPrepared r st = (st_dev st = tr_preparedDev r \<and> st_ino st = tr_preparedIno r)"

definition isDisplaced :: "transferRecord \<Rightarrow> stat \<Rightarrow> bool" where
  "isDisplaced r st = (st_dev st = tr_displacedDev r \<and> st_ino st = tr_displacedIno r)"

definition tempIdentity :: "transferRecord \<Rightarrow> bool" where
  "tempIdentity r = (transferTempValid (tr_tempName r) \<and> tr_tempName r = transferTempName (tr_id r))"

definition transferCleanupUnpublishedTemp :: "fileEnv \<Rightarrow> workspaceFileOperation \<Rightarrow> transferRecord \<Rightarrow> (err + unit) fprog" where
  "transferCleanupUnpublishedTemp E op r =
     (if \<not> tempIdentity r then fail (newErr ''unsafe transfer temp name'')
      else tryE (openWorkerParentForTransfer E op) fail (\<lambda>d.
        tryE (pathState E d (tr_tempName r)) fail (\<lambda>found. case found of
          None \<Rightarrow> ok ()
        | Some st \<Rightarrow>
          if \<not> isRegular (st_mode st) \<or> st_uid st \<noteq> fe_euid E
          then fail (newErr ''unexpected temp file type, mode or owner; manual inspection required'')
          else if tr_preparedDev r = 0 \<or> tr_preparedIno r = 0 \<or> \<not> isPrepared r st
          then fail (newErr ''unproven prepared-temp inode; refuse deletion of worker-owned unrelated file'')
          else tryE (unlinkAt E d (tr_tempName r)) fail (\<lambda>_. fsyncFD E))))"

text \<open>The destination as the transfer's precondition wants it.\<close>

definition transferStateAtCommit :: "fileEnv \<Rightarrow> nat \<Rightarrow> string \<Rightarrow> transferRecord \<Rightarrow> (err + stat option) fprog" where
  "transferStateAtCommit E d base r =
     tryE (destinationState E d base) fail (\<lambda>current.
       if tr_mustNotExist r
       then (if current \<noteq> None then fail (newErr ''destination appeared before staged commit'') else ok None)
       else (case current of
           None \<Rightarrow> fail (newErr ''destination changed before staged commit'')
         | Some st \<Rightarrow> if fileVersion E st \<noteq> tr_fileVersion r \<or> \<not> isDisplaced r st
             then fail (newErr ''destination changed before staged commit'') else ok (Some st)))"

definition transferDiscardPrepared :: "fileEnv \<Rightarrow> workspaceFileOperation \<Rightarrow> transferRecord \<Rightarrow> (err + unit) fprog" where
  "transferDiscardPrepared E op r =
     tryE (openWorkerParentForTransfer E op) fail (\<lambda>d.
     tryE (destinationState E d (baseOf (w_path op))) fail (\<lambda>current.
     if tr_mustNotExist r \<and> current \<noteq> None then fail (newErr ''destination unexpectedly exists'')
     else if \<not> tr_mustNotExist r \<and> (case current of None \<Rightarrow> True | Some st \<Rightarrow> fileVersion E st \<noteq> tr_fileVersion r \<or> \<not> isDisplaced r st)
     then fail (newErr ''destination precondition no longer holds'')
     else tryE (pathState E d (tr_tempName r)) fail (\<lambda>found. case found of
         None \<Rightarrow> ok ()
       | Some prepared \<Rightarrow>
         if \<not> isPrepared r prepared then fail (newErr ''prepared inode no longer matches durable intent'')
         else transferCleanupUnpublishedTemp E op r)))"

section \<open>Terminal receipts\<close>

definition terminalStatus :: "string \<Rightarrow> bool" where
  "terminalStatus st = (st = ''aborted'' \<or> st = ''committed'' \<or> st = ''conflicted'')"

definition transferTerminalReceipt :: "fileEnv \<Rightarrow> workspaceFileOperation \<Rightarrow> string \<Rightarrow> transferRecord \<Rightarrow> Response fprog" where
  "transferTerminalReceipt E op tid r =
     (if \<not> terminalStatus (tr_status r) then return (transferError ''transfer_invalid_state'' ''state'' ''not a terminal record'')
      else tryE (if tr_status r = ''conflicted'' then transferCleanupUnpublishedTemp E op r else ok ())
        (\<lambda>e. return (fileError ''transfer_temp_cleanup_failed'' ''state'' (emsg e))) (\<lambda>_.
        tryE (transferRemoveData E tid) (\<lambda>e. return (fileError ''transfer_cleanup_failed'' ''io'' (emsg e)))
          (\<lambda>_. return (transferReceipt r))))"

definition transferMarkConflict :: "fileEnv \<Rightarrow> workspaceFileOperation \<Rightarrow> string \<Rightarrow> transferRecord \<Rightarrow> Response fprog" where
  "transferMarkConflict E op tid r = do {
     expires \<leftarrow> expiry E op;
     let r = r\<lparr>tr_status := ''conflicted'', tr_exchangeVerified := False, tr_expiresUnix := expires\<rparr>;
     tryE (transferSaveRecord E tid r) (\<lambda>e. return (fileError ''transfer_commit_unresolved'' ''state'' (emsg e))) (\<lambda>_. do {
       result \<leftarrow> transferTerminalReceipt E op tid r;
       return (if \<not> r_ok result then result
         else transferError ''file_changed'' ''conflict'' ''destination precondition changed; candidate not committed and concurrent destination preserved'') }) }"

section \<open>Publication\<close>

definition unresolved :: "string \<Rightarrow> Response" where
  "unresolved msg = transferError ''transfer_commit_unresolved'' ''state'' msg"

definition transferConfirmPublished :: "fileEnv \<Rightarrow> string \<Rightarrow> transferRecord \<Rightarrow> nat \<Rightarrow> string \<Rightarrow> Response fprog" where
  "transferConfirmPublished E tid r d base =
     (let unverified = return (unresolved ''published file identity could not be verified; query status'');
          changed = return (unresolved ''destination changed after commit; inspect before retry'') in
      tryE (destinationState E d base) (\<lambda>_. unverified) (\<lambda>found. case found of
        None \<Rightarrow> unverified
      | Some final \<Rightarrow>
        if \<not> isPrepared r final \<or> st_size final \<noteq> tr_expectedSize r then unverified
        else tryE (fsyncFD E) (\<lambda>_. return (unresolved ''published directory sync failed; query status'')) (\<lambda>_.
        tryE (destinationState E d base) (\<lambda>_. changed) (\<lambda>found2. case found2 of
          None \<Rightarrow> changed
        | Some final2 \<Rightarrow>
          if \<not> isPrepared r final2 then changed
          else let r = r\<lparr>tr_status := ''committed'', tr_resultVersion := fileVersion E final2\<rparr> in
            tryE (transferSaveRecord E tid r) (\<lambda>_. return (unresolved ''file may be published but durable receipt failed; query status'')) (\<lambda>_.
            tryE (transferRemoveData E tid) (\<lambda>_. return (transferError ''transfer_cleanup_failed'' ''io'' ''file committed but staged bytes could not be released''))
              (\<lambda>_. return (transferReceipt r)))))))"

text \<open>The checkpoint that the displaced file is the authorized one, then its removal.\<close>

definition verifyExchange :: "fileEnv \<Rightarrow> workspaceFileOperation \<Rightarrow> string \<Rightarrow> transferRecord \<Rightarrow> (Response + transferRecord) fprog" where
  "verifyExchange E op tid r =
     tryE (fsyncFD E) (\<lambda>e. fail (fileError ''transfer_commit_unresolved'' ''io'' (emsg e))) (\<lambda>_. do {
       expires \<leftarrow> expiry E op;
       let r = r\<lparr>tr_exchangeVerified := True, tr_expiresUnix := expires\<rparr>;
       tryE (transferSaveRecord E tid r) (\<lambda>e. fail (fileError ''transfer_commit_unresolved'' ''state'' (emsg e))) (\<lambda>_. ok r) })"

definition publishOver :: "fileEnv \<Rightarrow> workspaceFileOperation \<Rightarrow> string \<Rightarrow> transferRecord \<Rightarrow> nat \<Rightarrow> string \<Rightarrow> stat \<Rightarrow> stat \<Rightarrow> Response fprog" where
  "publishOver E op tid r d base prepared old =
     (let temp = tr_tempName r in
      tryE (renameExchange E d temp base) (\<lambda>e. return (fileError ''transfer_commit_io'' ''io'' (emsg e))) (\<lambda>_.
      tryE (pathState E d temp) (\<lambda>_. return (unresolved ''displaced destination identity could not be verified; query status'')) (\<lambda>found. case found of
        None \<Rightarrow> return (unresolved ''displaced destination identity could not be verified; query status'')
      | Some displaced \<Rightarrow>
        if \<not> transferDisplacedMatches E r displaced \<or> \<not> sameFileCommitState old displaced then
          tryE (rollbackExistingExchange E d base temp prepared displaced)
            (\<lambda>_. return (unresolved ''concurrent exchange conflict; rollback unproven''))
            (\<lambda>_. transferMarkConflict E op tid r)
        else tryE (verifyExchange E op tid r) return (\<lambda>r.
             tryE (unlinkAt E d temp) (\<lambda>_. return (unresolved ''displaced file cleanup failed; inspect durable commit status''))
               (\<lambda>_. transferConfirmPublished E tid r d base)))))"

definition publishNew :: "fileEnv \<Rightarrow> string \<Rightarrow> transferRecord \<Rightarrow> nat \<Rightarrow> string \<Rightarrow> Response fprog" where
  "publishNew E tid r d base =
     tryE (renameNoReplace E d (tr_tempName r) base)
       (\<lambda>e. return (if ekind e = Exist then transferError ''file_exists'' ''conflict'' ''new destination appeared during atomic publish''
          else fileError ''transfer_commit_io'' ''io'' (emsg e)))
       (\<lambda>_. transferConfirmPublished E tid r d base)"

definition transferFinishPrepared :: "fileEnv \<Rightarrow> workspaceFileOperation \<Rightarrow> string \<Rightarrow> transferRecord \<Rightarrow> Response fprog" where
  "transferFinishPrepared E op tid r =
     tryE (openWorkerParentForTransfer E op) (\<lambda>e. return (fileError ''invalid_path'' ''validation'' (emsg e))) (\<lambda>d.
     let base = baseOf (w_path op); lost = return (unresolved ''prepared transfer inode is unavailable; inspect destination and status'') in
     if \<not> tempIdentity r then return (unresolved ''durable commit temp identity is missing'')
     else tryE (pathState E d (tr_tempName r)) (\<lambda>_. lost) (\<lambda>found. case found of
         None \<Rightarrow> lost
       | Some prepared \<Rightarrow>
         if \<not> isPrepared r prepared then lost
         else tryE (transferStateAtCommit E d base r) (\<lambda>_. transferMarkConflict E op tid r) (\<lambda>current. case current of
             Some old \<Rightarrow> publishOver E op tid r d base prepared old
           | None \<Rightarrow> publishNew E tid r d base)))"

text \<open>The prepared inode is at the destination: what is left of the exchange. \<open>True\<close> says that the record is
  now a conflict.\<close>

definition reconcilePublished :: "fileEnv \<Rightarrow> workspaceFileOperation \<Rightarrow> string \<Rightarrow> transferRecord \<Rightarrow> nat \<Rightarrow> string \<Rightarrow> stat \<Rightarrow> (Response \<times> bool) fprog" where
  "reconcilePublished E op tid r d base final =
     (let temp = tr_tempName r; stop = (\<lambda>msg. return (unresolved msg, False));
          confirm = (\<lambda>r. do { resp \<leftarrow> transferConfirmPublished E tid r d base; return (resp, False) });
          cleanupFailed = (\<lambda>e. return (fileError ''transfer_cleanup_failed'' ''io'' (emsg e), False)) in
      tryE (pathState E d temp) (\<lambda>_. stop ''displaced pathname could not be inspected'') (\<lambda>found.
      if tr_mustNotExist r then
        (if found \<noteq> None then stop ''unexpected temp pathname after create-only publication'' else confirm r)
      else (case found of
          None \<Rightarrow> if \<not> tr_exchangeVerified r then stop ''displaced original absent without durable exchange verification'' else confirm r
        | Some displaced \<Rightarrow>
          if \<not> transferDisplacedMatches E r displaced then
            (if tr_exchangeVerified r then stop ''previously verified displaced path changed; refuse unsafe deletion''
             else tryE (rollbackExistingExchange E d base temp final displaced)
               (\<lambda>_. stop ''failed to verify/restored raced destination after interrupted exchange'')
               (\<lambda>_. do { resp \<leftarrow> transferMarkConflict E op tid r; return (resp, True) }))
          else tryE (if tr_exchangeVerified r then ok r else verifyExchange E op tid r) (\<lambda>resp. return (resp, False)) (\<lambda>r.
               tryE (unlinkAt E d temp) cleanupFailed (\<lambda>_.
               tryE (fsyncFD E) cleanupFailed (\<lambda>_. confirm r))))))"

text \<open>It is not: the prepared inode is still under its own name, or nothing is proven.\<close>

definition reconcileUnpublished :: "fileEnv \<Rightarrow> workspaceFileOperation \<Rightarrow> string \<Rightarrow> transferRecord \<Rightarrow> nat \<Rightarrow> string \<Rightarrow> (Response \<times> bool) fprog" where
  "reconcileUnpublished E op tid r d base =
     (let continue = (if w_transferOp op = ''commit''
            then do { resp \<leftarrow> transferFinishPrepared E op tid r; return (resp, False) }
            else return (transferError ''transfer_commit_pending'' ''state'' ''not proven published; use commit with original handle'', False)) in
      if tr_exchangeVerified r
      then return (unresolved ''previously verified published inode is no longer at destination; refuse duplicate publication'', False)
      else tryE (pathState E d (tr_tempName r)) (\<lambda>_. return (unresolved ''prepared inode recovery inspection failed'', False)) (\<lambda>found.
        if (case found of None \<Rightarrow> False | Some prepared \<Rightarrow> isPrepared r prepared)
        then tryE (transferStateAtCommit E d base r)
               (\<lambda>_. do { resp \<leftarrow> transferMarkConflict E op tid r; return (resp, True) }) (\<lambda>_. continue)
        else continue))"

definition transferReconcileCommit :: "fileEnv \<Rightarrow> workspaceFileOperation \<Rightarrow> string \<Rightarrow> transferRecord \<Rightarrow> (Response \<times> bool) fprog" where
  "transferReconcileCommit E op tid r =
     tryE (openWorkerParentForTransfer E op) (\<lambda>e. return (fileError ''invalid_path'' ''validation'' (emsg e), False)) (\<lambda>d.
     let base = baseOf (w_path op) in
     tryE (destinationState E d base) (\<lambda>e. return (fileError ''unsafe_file_type'' ''validation'' (emsg e), False)) (\<lambda>found.
     case found of
       None \<Rightarrow> reconcileUnpublished E op tid r d base
     | Some final \<Rightarrow>
       if isPrepared r final \<and> st_size final = tr_expectedSize r then reconcilePublished E op tid r d base final
       else reconcileUnpublished E op tid r d base))"

section \<open>Preparation\<close>

text \<open>An inode without a name (\<open>O_TMPFILE\<close>) is held until it is linked or its descriptor is closed.\<close>

definition openUnnamed :: "fileEnv \<Rightarrow> (err + inodeId) fprog" where
  "openUnnamed E = fcall E (\<lambda>k. do {
     w \<leftarrow> get;
     let i = fe_fresh E k (fw_fs w);
     modify (\<lambda>w. setInode i \<lparr>in_mode = 0x8180, in_uid = fe_euid E, in_gid = fe_egid E, in_mtim = fe_now E k, in_ctim = fe_now E k,
       in_data = [], in_doc = None\<rparr> (w\<lparr>fw_fs := (fw_fs w)\<lparr>fs_held := i # fs_held (fw_fs w)\<rparr>\<rparr>));
     ok i })"

definition closeUnnamed :: "inodeId \<Rightarrow> unit fprog" where
  "closeUnnamed i = modify (\<lambda>w. w\<lparr>fw_fs := (fw_fs w)\<lparr>fs_held := filter (\<lambda>j. j \<noteq> i) (fs_held (fw_fs w))\<rparr>\<rparr>)"

text \<open>\<open>Linkat\<close>, directly or through \<open>/proc/self/fd\<close>.\<close>

definition linkOnce :: "fileEnv \<Rightarrow> inodeId \<Rightarrow> nat \<Rightarrow> string \<Rightarrow> (err + unit) fprog" where
  "linkOnce E i d n = fcall E (\<lambda>k. do {
     w \<leftarrow> get;
     if lookupName w d n \<noteq> None then fail (Err Exist ''file exists'')
     else do { modify (logEvent (Linked d n i) \<circ> touch E k i \<circ> setName d n i); ok () } })"

definition linkUnnamed :: "fileEnv \<Rightarrow> inodeId \<Rightarrow> nat \<Rightarrow> string \<Rightarrow> (err + unit) fprog" where
  "linkUnnamed E i d n = tryE (linkOnce E i d n)
     (\<lambda>e. if ekind e = NotExist \<or> ekind e = Permission then linkOnce E i d n else fail e) ok"

definition startedRecord :: "fileEnv \<Rightarrow> transferRecord \<Rightarrow> stat \<Rightarrow> stat \<Rightarrow> stat option \<Rightarrow> int \<Rightarrow> transferRecord" where
  "startedRecord E r staged prepared original expires =
     (let r = r\<lparr>tr_stagedVersion := fileVersion E staged, tr_preparedDev := st_dev prepared, tr_preparedIno := st_ino prepared,
            tr_preparedBytes := 0, tr_preparedHash := fe_shaSave E (fe_shaNew E), tr_status := ''preparing'', tr_expiresUnix := expires\<rparr> in
      case original of None \<Rightarrow> r
      | Some st \<Rightarrow> r\<lparr>tr_displacedDev := st_dev st, tr_displacedIno := st_ino st, tr_displacedSnapshot := transferDisplacedDigest E st\<rparr>)"

definition prepareUnnamed :: "fileEnv \<Rightarrow> (transferRecord \<Rightarrow> Response fprog) \<Rightarrow> workspaceFileOperation \<Rightarrow> string \<Rightarrow> transferRecord \<Rightarrow>
    nat \<Rightarrow> stat \<Rightarrow> stat option \<Rightarrow> inodeId \<Rightarrow> Response fprog" where
  "prepareUnnamed E step op tid r d staged original p =
     (let failed = (\<lambda>e. return (fileError ''transfer_prepare_failed'' ''io'' (emsg e)));
          mode = (case original of None \<Rightarrow> 0x1A4 | Some st \<Rightarrow> st_mode st AND 0x1FF) in
      tryE (fchmod E p mode) failed (\<lambda>_.
      tryE (fsyncFD E) failed (\<lambda>_.
      tryE (fstat E p) failed (\<lambda>prepared. do {
        expires \<leftarrow> expiry E op;
        let r = startedRecord E r staged prepared original expires;
        tryE (transferSaveRecord E tid r)
          (\<lambda>_. return (transferError ''transfer_checkpoint_unknown'' ''state'' ''preparation journal may have persisted; retry status'')) (\<lambda>_.
        tryE (linkUnnamed E p d (tr_tempName r))
          (\<lambda>e. return (fileError ''transfer_prepare_link_failed'' ''io'' (''failed to link durably journaled prepared inode: '' @ emsg e))) (\<lambda>_.
        tryE (fsyncFD E) (\<lambda>e. return (fileError ''transfer_prepare_link_failed'' ''io'' (emsg e))) (\<lambda>_. step r))) }))))"

definition startPreparation :: "fileEnv \<Rightarrow> (transferRecord \<Rightarrow> Response fprog) \<Rightarrow> workspaceFileOperation \<Rightarrow> string \<Rightarrow> transferRecord \<Rightarrow> Response fprog" where
  "startPreparation E step op tid r =
     tryE (transferStageStat E tid) (\<lambda>e. return (fileError ''transfer_storage_unavailable'' ''io'' (emsg e))) (\<lambda>(source, st).
     if st_size st \<noteq> tr_expectedSize r
     then return (transferError ''transfer_storage_corrupt'' ''state'' ''staged byte count changed before preparation'')
     else tryE (openWorkerParentForTransfer E op) (\<lambda>e. return (fileError ''invalid_path'' ''validation'' (emsg e))) (\<lambda>d.
     tryE (destinationState E d (baseOf (w_path op))) (\<lambda>e. return (fileError ''unsafe_file_type'' ''validation'' (emsg e))) (\<lambda>original.
     if tr_mustNotExist r \<and> original \<noteq> None
     then return (transferError ''file_exists'' ''conflict'' ''destination already exists'')
     else if \<not> tr_mustNotExist r \<and> (case original of None \<Rightarrow> True | Some o_st \<Rightarrow> fileVersion E o_st \<noteq> tr_fileVersion r)
     then return (transferError ''file_changed'' ''conflict'' ''destination changed before preparation'')
     else tryE (transferCleanupUnpublishedTemp E op r) (\<lambda>e. return (fileError ''transfer_temp_recovery_failed'' ''state'' (emsg e))) (\<lambda>_.
     tryE (openUnnamed E)
       (\<lambda>e. return (fileError ''transfer_prepare_unavailable'' ''resource'' (''destination filesystem must support unnamed temporary files: '' @ emsg e)))
       (\<lambda>p. do {
         resp \<leftarrow> prepareUnnamed E step op tid r d st original p;
         closeUnnamed p;
         return resp })))))"

text \<open>One window: pieces of at most 64 KiB are read from the staged file, written and hashed. The result is
  what was copied and the hash state, or None after an error.\<close>

fun copyWindow :: "fileEnv \<Rightarrow> inodeId \<Rightarrow> inodeId \<Rightarrow> nat \<Rightarrow> nat \<Rightarrow> nat \<Rightarrow> nat \<Rightarrow> (nat \<times> nat) option fprog" where
  "copyWindow E src dst pos copied h 0 = return (Some (copied, h))"
| "copyWindow E src dst pos copied h (Suc rest) =
     tryE (preadFD E src (int pos) (int (min 65536 (Suc rest)))) (\<lambda>_. return None) (\<lambda>b.
     if b = [] then return (Some (copied, h))
     else tryE (writeAllFD E dst pos b) (\<lambda>_. return None) (\<lambda>_.
       copyWindow E src dst (pos + length b) (copied + length b) (fe_shaWrite E h b) (rest - (length b - 1))))"

text \<open>All bytes are prepared: their digest must be the declared one before the intent to publish is recorded.\<close>

definition finishPreparation :: "fileEnv \<Rightarrow> workspaceFileOperation \<Rightarrow> string \<Rightarrow> transferRecord \<Rightarrow> nat \<Rightarrow> nat \<Rightarrow> Response fprog" where
  "finishPreparation E op tid r d h =
     (if tr_preparedBytes r < tr_expectedSize r then return (transferReceipt r)
      else if fe_shaSum E h \<noteq> tr_sha256 r
      then return (transferError ''transfer_hash_mismatch'' ''conflict'' ''whole-object SHA256 differs; no destination published'')
      else tryE (fsyncFD E) (\<lambda>e. return (fileError ''transfer_prepare_io'' ''io'' (emsg e))) (\<lambda>_.
      tryE (transferStateAtCommit E d (baseOf (w_path op)) r)
        (\<lambda>_. return (transferError ''file_changed'' ''conflict'' ''destination changed before durable publication checkpoint'')) (\<lambda>_. do {
        expires \<leftarrow> expiry E op;
        let r = r\<lparr>tr_status := ''committing'', tr_expiresUnix := expires\<rparr>;
        tryE (transferSaveRecord E tid r)
          (\<lambda>_. return (transferError ''transfer_checkpoint_unknown'' ''state'' ''commit intent may have persisted; query status before retry''))
          (\<lambda>_. transferFinishPrepared E op tid r) })))"

definition prepareWindow :: "fileEnv \<Rightarrow> workspaceFileOperation \<Rightarrow> string \<Rightarrow> transferRecord \<Rightarrow> nat \<Rightarrow> inodeId \<Rightarrow> inodeId \<Rightarrow> nat \<Rightarrow> Response fprog" where
  "prepareWindow E op tid r d source fd h =
     (let n = min (tr_expectedSize r - tr_preparedBytes r) transferPrepareWindowBytes in
      if n \<le> 0 then finishPreparation E op tid r d h
      else tryE (freeSpace E) (\<lambda>e. return (fileError ''transfer_disk_check_failed'' ''io'' (emsg e))) (\<lambda>fs.
      if diskFull fs n
      then return (transferError ''transfer_disk_full'' ''resource'' ''insufficient destination disk for bounded preparation window'')
      else tryE (fcall E (\<lambda>_. ok ())) (\<lambda>e. return (fileError ''transfer_prepare_io'' ''io'' (emsg e))) (\<lambda>_. do {
        copied \<leftarrow> copyWindow E source fd (nat (tr_preparedBytes r)) 0 h (nat n);
        case copied of
          None \<Rightarrow> return (transferError ''transfer_prepare_io'' ''io'' ''preparation window incomplete; retry from last durable prepared_bytes'')
        | Some (m, h) \<Rightarrow>
          if int m \<noteq> n
          then return (transferError ''transfer_prepare_io'' ''io'' ''preparation window incomplete; retry from last durable prepared_bytes'')
          else tryE (fsyncFD E) (\<lambda>e. return (fileError ''transfer_prepare_io'' ''io'' (emsg e))) (\<lambda>_. do {
            expires \<leftarrow> expiry E op;
            let r = r\<lparr>tr_preparedBytes := tr_preparedBytes r + n, tr_preparedHash := fe_shaSave E h, tr_expiresUnix := expires\<rparr>;
            tryE (transferSaveRecord E tid r)
              (\<lambda>_. return (transferError ''transfer_checkpoint_unknown'' ''state'' ''prepared bytes may be newer than durable checkpoint; inspect status''))
              (\<lambda>_. finishPreparation E op tid r d h) }) })))"

text \<open>What a crash left behind the last checkpoint is cut off.\<close>

definition truncatePrepared :: "fileEnv \<Rightarrow> inodeId \<Rightarrow> stat \<Rightarrow> transferRecord \<Rightarrow> (err + unit) fprog" where
  "truncatePrepared E fd pinned r =
     (if st_size pinned > tr_preparedBytes r
      then tryE (ftruncateFD E fd (nat (tr_preparedBytes r))) fail (\<lambda>_. fsyncFD E) else ok ())"

definition resumePrepared :: "fileEnv \<Rightarrow> workspaceFileOperation \<Rightarrow> string \<Rightarrow> transferRecord \<Rightarrow> nat \<Rightarrow> inodeId \<Rightarrow> inodeId \<Rightarrow> Response fprog" where
  "resumePrepared E op tid r d source fd =
     tryE (fstat E fd) (\<lambda>e. return (fileError ''transfer_prepare_unavailable'' ''io'' (emsg e))) (\<lambda>pinned.
     if \<not> isRegular (st_mode pinned) \<or> \<not> isPrepared r pinned
     then return (transferError ''transfer_prepare_unresolved'' ''state'' ''prepared file identity changed; inspect before retry'')
     else if st_size pinned < tr_preparedBytes r
     then return (transferError ''transfer_prepare_unresolved'' ''state'' ''prepared bytes missing after restart'')
     else tryE (truncatePrepared E fd pinned r) (\<lambda>e. return (fileError ''transfer_prepare_recovery_failed'' ''io'' (emsg e))) (\<lambda>_.
     case fe_shaLoad E (tr_preparedHash r) of
       Inl e \<Rightarrow> return (fileError ''transfer_storage_corrupt'' ''state'' (emsg e))
     | Inr h \<Rightarrow> prepareWindow E op tid r d source fd h))"

definition restartedRecord :: "transferRecord \<Rightarrow> int \<Rightarrow> transferRecord" where
  "restartedRecord r expires = r\<lparr>tr_status := ''uploading'', tr_preparedDev := 0, tr_preparedIno := 0, tr_displacedDev := 0,
     tr_displacedIno := 0, tr_preparedHash := [], tr_stagedVersion := [], tr_expiresUnix := expires\<rparr>"

definition prepareStep :: "fileEnv \<Rightarrow> (transferRecord \<Rightarrow> Response fprog) \<Rightarrow> workspaceFileOperation \<Rightarrow> string \<Rightarrow> transferRecord \<Rightarrow> Response fprog" where
  "prepareStep E restart op tid r =
     (if tr_status r \<noteq> ''preparing'' then return (transferError ''transfer_invalid_state'' ''state'' ''preparation checkpoint not active'')
      else if tr_preparedBytes r < 0 \<or> tr_preparedBytes r > tr_expectedSize r \<or> tr_stagedVersion r = []
      then return (transferError ''transfer_storage_corrupt'' ''state'' ''invalid preparation checkpoint'')
      else tryE (transferStageStat E tid) (\<lambda>e. return (fileError ''transfer_storage_unavailable'' ''io'' (emsg e))) (\<lambda>(source, st).
      if st_size st \<noteq> tr_expectedSize r \<or> fileVersion E st \<noteq> tr_stagedVersion r
      then return (transferError ''transfer_storage_corrupt'' ''state'' ''staged object changed during finalization'')
      else tryE (openWorkerParentForTransfer E op) (\<lambda>e. return (fileError ''invalid_path'' ''validation'' (emsg e))) (\<lambda>d.
      tryE (transferStateAtCommit E d (baseOf (w_path op)) r)
        (\<lambda>_. return (transferError ''file_changed'' ''conflict'' ''destination precondition changed before continuation'')) (\<lambda>_.
      if \<not> tempIdentity r then return (transferError ''transfer_storage_corrupt'' ''state'' ''invalid pinned preparation name'')
      else tryE (openWritable E d (tr_tempName r))
        (\<lambda>e. if isNotExist e \<and> tr_preparedBytes r = 0
          then do {
            expires \<leftarrow> expiry E op;
            let r = restartedRecord r expires;
            tryE (transferSaveRecord E tid r) (\<lambda>e. return (fileError ''transfer_prepare_recovery_failed'' ''io'' (emsg e))) (\<lambda>_. restart r) }
          else return (fileError ''transfer_prepare_unavailable'' ''state'' (emsg e)))
        (\<lambda>fd. resumePrepared E op tid r d source fd)))))"

text \<open>
  A preparation and a restart call each other as long as someone keeps removing the freshly linked name.
  \<open>fe_rounds\<close> bounds how often that happens before the handler is cut off without an answer.
\<close>

fun prepareRounds :: "fileEnv \<Rightarrow> workspaceFileOperation \<Rightarrow> string \<Rightarrow> nat \<Rightarrow> transferRecord \<Rightarrow> Response fprog" where
  "prepareRounds E op tid 0 r = return zeroResponse"
| "prepareRounds E op tid (Suc n) r = prepareStep E (startPreparation E (prepareRounds E op tid n) op tid) op tid r"

definition transferPrepareStep :: "fileEnv \<Rightarrow> workspaceFileOperation \<Rightarrow> string \<Rightarrow> transferRecord \<Rightarrow> Response fprog" where
  "transferPrepareStep E op tid r = prepareRounds E op tid (fe_rounds E) r"

definition transferStartPreparation :: "fileEnv \<Rightarrow> workspaceFileOperation \<Rightarrow> string \<Rightarrow> transferRecord \<Rightarrow> Response fprog" where
  "transferStartPreparation E op tid r = startPreparation E (prepareRounds E op tid (fe_rounds E)) op tid r"

end
