(* ===== verification/TransferRequests.thy ===== *)
theory TransferRequests
  imports Transfers
begin

text \<open>
  The requests of a transfer: \<open>begin\<close> (with the inventory that frees what has expired and counts what is
  reserved), \<open>chunk\<close>, \<open>status\<close>, \<open>commit\<close>, \<open>abort\<close>, and the sweep.
\<close>

section \<open>Chunks\<close>

text \<open>A chunk at an offset that was already received must repeat the received bytes.\<close>

definition replayChunk :: "fileEnv \<Rightarrow> workspaceFileOperation \<Rightarrow> transferRecord \<Rightarrow> inodeId \<Rightarrow> bytes \<Rightarrow> Response fprog" where
  "replayChunk E op r fd raw =
     (if int (length raw) > tr_received r - w_offset op
      then return (transferError ''transfer_offset_conflict'' ''conflict'' ''replay must exactly match a completed range'')
      else tryE (readAllFD E fd) (\<lambda>e. return (fileError ''transfer_replay_failed'' ''io'' (emsg e))) (\<lambda>x.
        let old = take (length raw) (drop (nat (w_offset op)) (in_data x)) in
        if length old < length raw then return (fileError ''transfer_replay_failed'' ''io'' ''EOF'')
        else if fe_sha256 E old \<noteq> fe_sha256 E raw
        then return (transferError ''transfer_replay_conflict'' ''conflict'' ''repeated offset has different bytes'')
        else return (transferReceipt r)))"

definition appendChunk :: "fileEnv \<Rightarrow> workspaceFileOperation \<Rightarrow> string \<Rightarrow> transferRecord \<Rightarrow> inodeId \<Rightarrow> bytes \<Rightarrow> Response fprog" where
  "appendChunk E op tid r fd raw =
     tryE (freeSpace E) (\<lambda>e. return (fileError ''transfer_disk_check_failed'' ''io'' (emsg e))) (\<lambda>fs.
     if diskFull fs (int (length raw))
     then return (transferError ''transfer_disk_full'' ''resource'' ''insufficient free disk for chunk plus safety reserve'')
     else tryE (writeAllFD E fd (nat (tr_received r)) raw)
       (\<lambda>_. return (transferError ''transfer_chunk_io'' ''io'' ''chunk write incomplete; query status before retry'')) (\<lambda>_.
     tryE (fsyncFD E) (\<lambda>e. return (fileError ''transfer_chunk_io'' ''io'' (emsg e))) (\<lambda>_. do {
       expires \<leftarrow> expiry E op;
       let r = r\<lparr>tr_received := tr_received r + int (length raw), tr_expiresUnix := expires\<rparr>;
       tryE (transferSaveRecord E tid r)
         (\<lambda>_. return (transferError ''transfer_checkpoint_unknown'' ''state'' ''staged bytes may exist but durable progress is unknown; query status''))
         (\<lambda>_. return (transferReceipt r)) })))"

definition truncateStaged :: "fileEnv \<Rightarrow> inodeId \<Rightarrow> stat \<Rightarrow> transferRecord \<Rightarrow> (err + unit) fprog" where
  "truncateStaged E fd st r =
     (if st_size st > tr_received r then tryE (ftruncateFD E fd (nat (tr_received r))) fail (\<lambda>_. fsyncFD E) else ok ())"

definition acceptChunk :: "fileEnv \<Rightarrow> workspaceFileOperation \<Rightarrow> string \<Rightarrow> transferRecord \<Rightarrow> bytes \<Rightarrow> Response fprog" where
  "acceptChunk E op tid r raw =
     (let corrupt = return (transferError ''transfer_storage_corrupt'' ''state'' ''staged data does not match durable progress'') in
      tryE (openWritable E (fe_sessionDir E tid) dataName) (\<lambda>e. return (fileError ''transfer_storage_unavailable'' ''io'' (emsg e))) (\<lambda>fd.
      tryE (fstat E fd) (\<lambda>_. corrupt) (\<lambda>st.
      if \<not> isRegular (st_mode st) \<or> st_size st < tr_received r then corrupt
      else tryE (truncateStaged E fd st r) (\<lambda>e. return (fileError ''transfer_recovery_failed'' ''io'' (emsg e))) (\<lambda>_.
        if w_offset op < tr_received r then replayChunk E op r fd raw else appendChunk E op tid r fd raw))))"

definition transferChunk :: "fileEnv \<Rightarrow> workspaceFileOperation \<Rightarrow> string \<Rightarrow> transferRecord \<Rightarrow> Response fprog" where
  "transferChunk E op tid r =
     (let invalid = return (transferError ''invalid_chunk'' ''validation'' ''chunk is not valid, nonempty and bounded base64'') in
      case decode64Strict (w_chunkBase64 op) of
        None \<Rightarrow> invalid
      | Some raw \<Rightarrow>
        if raw = [] \<or> length raw > transferChunkMax then invalid
        else if fe_sha256 E raw \<noteq> w_chunkSHA256 op
        then return (transferError ''chunk_hash_mismatch'' ''conflict'' ''decoded chunk SHA256 does not match'')
        else if w_offset op > tr_received r \<or> int (length raw) > tr_expectedSize r - w_offset op
        then return (transferError ''transfer_offset_conflict'' ''conflict'' ''chunk must append at next_offset or replay an earlier complete chunk'')
        else acceptChunk E op tid r raw)"

section \<open>Inventory\<close>

text \<open>What happens to an expired session before its directory is removed.\<close>

definition settleExpired :: "fileEnv \<Rightarrow> workspaceFileOperation \<Rightarrow> string \<Rightarrow> transferRecord \<Rightarrow> (err + unit) fprog" where
  "settleExpired E op tid r =
     (let cleanupOp = zeroOperation\<lparr>w_root := w_root op, w_workspace := tr_workspace r, w_path := tr_path r, w_transferOp := ''status''\<rparr> in
      if tr_status r = ''committing'' then do {
        (result, conflicted) \<leftarrow> transferReconcileCommit E cleanupOp tid r;
        if \<not> r_ok result \<and> r_errorCode result \<noteq> ''transfer_commit_pending'' \<and> \<not> (r_errorCode result = ''file_changed'' \<and> conflicted)
        then fail (newErr ''uncertain transfer publication requires operator reconciliation'')
        else if r_errorCode result = ''transfer_commit_pending''
        then tryE (transferDiscardPrepared E cleanupOp r) (\<lambda>e. fail (wrapErr ''uncertain transfer cannot be discarded safely'' e)) ok
        else ok () }
      else if tr_status r \<in> {''uploading'', ''preparing'', ''aborted'', ''conflicted''}
      then tryE (transferCleanupUnpublishedTemp E cleanupOp r) (\<lambda>e. fail (wrapErr ''cleanup expired staged destination'' e)) ok
      else ok ())"

definition expireSession :: "fileEnv \<Rightarrow> workspaceFileOperation \<Rightarrow> string \<Rightarrow> transferRecord \<Rightarrow> (err + unit) fprog" where
  "expireSession E op tid r =
     tryE (settleExpired E op tid r) fail (\<lambda>_.
     tryE (transferRemoveData E tid) (\<lambda>e. fail (wrapErr ''cleanup terminal/expired staging bytes'' e)) (\<lambda>_.
     tryE (transferRemoveSession E tid) (\<lambda>e. fail (wrapErr ''expire transfer safely'' e)) ok))"

text \<open>A terminal receipt reserves what its data file still holds.\<close>

definition terminalBytes :: "fileEnv \<Rightarrow> string \<Rightarrow> (err + int) fprog" where
  "terminalBytes E tid = tryE (pathState E (fe_sessionDir E tid) dataName) fail (\<lambda>found. return (case found of
       None \<Rightarrow> Inr 0
     | Some st \<Rightarrow>
       if \<not> isRegular (st_mode st) then Inl (newErr ''terminal staging has unsafe file type'')
       else if st_size st < 0 \<or> st_size st > 2 ^ 40 then Inl (newErr ''terminal staging exceeds supported maximum size'')
       else Inr (st_size st)))"

record usage =
  u_count :: nat
  u_reserved :: int
  u_retained :: nat

text \<open>A begin that was interrupted reserves its key until its time is up; anything else without a valid manifest stops the inventory.\<close>

definition unfinishedEntry :: "fileEnv \<Rightarrow> workspaceFileOperation \<Rightarrow> int \<Rightarrow> string \<Rightarrow> stat \<Rightarrow> usage \<Rightarrow> (err + usage) fprog" where
  "unfinishedEntry E op now tid st u = do {
     safe \<leftarrow> transferIncompleteBeginSafe E tid;
     if \<not> safe then fail (newErr ''unsafe or corrupt durable transfer requires investigation'')
     else if st_mtim st div 1000000000 + w_transferTTL op > now then ok (u\<lparr>u_retained := u_retained u + 1\<rparr>)
     else tryE (transferRemoveSession E tid) (\<lambda>e. fail (wrapErr ''cleanup expired interrupted transfer begin'' e)) (\<lambda>_. ok u) }"

definition recordEntry :: "fileEnv \<Rightarrow> workspaceFileOperation \<Rightarrow> int \<Rightarrow> string \<Rightarrow> transferRecord \<Rightarrow> usage \<Rightarrow> (err + usage) fprog" where
  "recordEntry E op now tid r u =
     (if tr_expiresUnix r \<le> now then tryE (expireSession E op tid r) fail (\<lambda>_. ok u)
      else if tr_status r = ''uploading'' \<or> tr_status r = ''preparing'' \<or> tr_status r = ''committing''
      then ok (u\<lparr>u_retained := u_retained u + 1, u_count := u_count u + 1, u_reserved := u_reserved u + tr_expectedSize r\<rparr>)
      else tryE (terminalBytes E tid) fail (\<lambda>n. ok (u\<lparr>u_retained := u_retained u + 1, u_reserved := u_reserved u + n\<rparr>)))"

definition inventoryEntry :: "fileEnv \<Rightarrow> workspaceFileOperation \<Rightarrow> int \<Rightarrow> string \<Rightarrow> usage \<Rightarrow> (err + usage) fprog" where
  "inventoryEntry E op now tid u =
     (if \<not> transferIDValid tid then fail (newErr ''unexpected entry in managed transfer storage'')
      else tryE (pathState E (fe_stagingRoot E) tid) (\<lambda>_. fail (newErr ''unsafe staging directory'')) (\<lambda>info. case info of
        None \<Rightarrow> fail (newErr ''unsafe staging directory'')
      | Some st \<Rightarrow>
        if \<not> isDirectory (st_mode st) then fail (newErr ''unsafe staging directory'')
        else tryE (transferReadRecord E tid) (\<lambda>_. unfinishedEntry E op now tid st u) (\<lambda>r.
          if tr_id r \<noteq> tid then unfinishedEntry E op now tid st u else recordEntry E op now tid r u)))"

fun inventoryLoop :: "fileEnv \<Rightarrow> workspaceFileOperation \<Rightarrow> int \<Rightarrow> string list \<Rightarrow> usage \<Rightarrow> (err + usage) fprog" where
  "inventoryLoop E op now [] u = ok u"
| "inventoryLoop E op now (tid # tids) u = tryE (inventoryEntry E op now tid u) fail (inventoryLoop E op now tids)"

definition transferInventory :: "fileEnv \<Rightarrow> workspaceFileOperation \<Rightarrow> int \<Rightarrow> (err + usage) fprog" where
  "transferInventory E op now =
     tryE (readDirNames E (fe_stagingRoot E)) fail (\<lambda>tids.
       if length tids > transferScanMax then fail (newErr ''too many staging entries; operator cleanup required'')
       else inventoryLoop E op now tids \<lparr>u_count = 0, u_reserved = 0, u_retained = 0\<rparr>)"

section \<open>Begin\<close>

definition sameMaterial :: "workspaceFileOperation \<Rightarrow> string \<Rightarrow> transferRecord \<Rightarrow> bool" where
  "sameMaterial op tid r = (tr_id r = tid \<and> tr_principalID r = w_principalID op \<and> tr_principalClass r = w_principalClass op
     \<and> tr_workspace r = clean (w_workspace op) \<and> tr_path r = w_path op \<and> tr_expectedSize r = w_expectedSize op
     \<and> tr_sha256 r = w_sha256 op \<and> tr_fileVersion r = w_fileVersion op \<and> tr_mustNotExist r = w_mustNotExist op)"

text \<open>The answer to a begin of a transfer that is there already; None when there is none (any more).\<close>

definition replayBegin :: "fileEnv \<Rightarrow> workspaceFileOperation \<Rightarrow> string \<Rightarrow> transferRecord \<Rightarrow> Response option fprog" where
  "replayBegin E op tid prior =
     (if \<not> sameMaterial op tid prior
      then return (Some (transferError ''transfer_begin_conflict'' ''conflict'' ''idempotency key and durable material do not match''))
      else do {
        now \<leftarrow> nowUnix E;
        if tr_expiresUnix prior \<le> now
        then return (Some (transferError ''transfer_expired'' ''state'' ''idempotent transfer has expired; use a new key after retention cleanup''))
        else if terminalStatus (tr_status prior) then do { resp \<leftarrow> transferTerminalReceipt E op tid prior; return (Some resp) }
        else return (Some (transferReceipt prior)) })"

definition reclaimBegin :: "fileEnv \<Rightarrow> string \<Rightarrow> Response option fprog" where
  "reclaimBegin E tid = do {
     safe \<leftarrow> transferIncompleteBeginSafe E tid;
     if \<not> safe
     then return (Some (transferError ''transfer_begin_unknown'' ''state'' ''existing durable transfer may contain user bytes; refuse unsafe reclamation''))
     else (let failed = (\<lambda>e. return (Some (fileError ''transfer_begin_recovery_failed'' ''io'' (emsg e)))) in
       tryE (transferRemoveSession E tid) failed (\<lambda>_.
       tryE (fcall E (\<lambda>_. ok ())) failed (\<lambda>_.
       tryE (fsyncFD E) failed (\<lambda>_. return None)))) }"

definition transferResolveBegin :: "fileEnv \<Rightarrow> workspaceFileOperation \<Rightarrow> Response option fprog" where
  "transferResolveBegin E op =
     (let tid = transferIDFor E op; root = fe_stagingRoot E;
          invalid = (\<lambda>e. return (Some (fileError ''transfer_storage_invalid'' ''state'' (emsg e)))) in
      tryE (readDirNames E root) invalid (\<lambda>tids.
      if length tids > transferScanMax
      then return (Some (transferError ''transfer_receipt_capacity'' ''resource'' ''bounded transfer namespace full; automatic expiry sweep runs independently''))
      else if list_ex (\<lambda>n. hasPrefix n (take 35 tid) \<and> n \<noteq> tid) tids
      then return (Some (transferError ''transfer_begin_conflict'' ''conflict'' ''same transfer key already reserved for a different material request''))
      else tryE (pathState E root tid) invalid (\<lambda>info. case info of
        None \<Rightarrow> return None
      | Some st \<Rightarrow>
        if \<not> isDirectory (st_mode st)
        then return (Some (transferError ''transfer_storage_invalid'' ''state'' ''unsafe existing transfer session''))
        else do {
          again \<leftarrow> pathState E root tid;
          if (case again of Inr (Some st2) \<Rightarrow> st_uid st2 \<noteq> fe_euid E \<or> st_mode st2 AND 0x1FF \<noteq> 0x1C0 | _ \<Rightarrow> True)
          then return (Some (transferError ''transfer_storage_invalid'' ''state'' ''transfer state owner or mode invalid''))
          else tryE (transferReadRecord E tid) (\<lambda>_. reclaimBegin E tid) (replayBegin E op tid) })))"

definition mkdirSession :: "fileEnv \<Rightarrow> string \<Rightarrow> (err + unit) fprog" where
  "mkdirSession E tid = fcall E (\<lambda>k. do {
     w \<leftarrow> get;
     if lookupName w (fe_stagingRoot E) tid \<noteq> None then fail (Err Exist ''file exists'')
     else (let i = fe_fresh E k (fw_fs w) in do {
       modify (logEvent (Created (fe_stagingRoot E) tid i) \<circ> setName (fe_stagingRoot E) tid i \<circ> setInode i
         \<lparr>in_mode = 0x41C0, in_uid = fe_euid E, in_gid = fe_egid E, in_mtim = fe_now E k, in_ctim = fe_now E k, in_data = [], in_doc = None\<rparr>);
       ok () }) })"

text \<open>The deferred removal: unless the begin is complete, what it made goes again.\<close>

definition newRecord :: "workspaceFileOperation \<Rightarrow> string \<Rightarrow> int \<Rightarrow> transferRecord" where
  "newRecord op tid expires = \<lparr>tr_id = tid, tr_principalID = w_principalID op, tr_principalClass = w_principalClass op,
     tr_workspace = clean (w_workspace op), tr_path = w_path op, tr_expectedSize = w_expectedSize op, tr_sha256 = w_sha256 op,
     tr_received = 0, tr_fileVersion = w_fileVersion op, tr_mustNotExist = w_mustNotExist op, tr_status = ''uploading'',
     tr_expiresUnix = expires, tr_resultVersion = [], tr_preparedBytes = 0, tr_preparedHash = [], tr_stagedVersion = [],
     tr_preparedDev = 0, tr_preparedIno = 0, tr_displacedDev = 0, tr_displacedIno = 0, tr_displacedSnapshot = [],
     tr_exchangeVerified = False, tr_tempName = transferTempName tid\<rparr>"

definition createSession :: "fileEnv \<Rightarrow> workspaceFileOperation \<Rightarrow> string \<Rightarrow> (err + transferRecord) fprog" where
  "createSession E op tid =
     tryE (createExcl E (fe_sessionDir E tid) dataName) fail (\<lambda>_.
     tryE (fsyncFD E) fail (\<lambda>_. do {
       expires \<leftarrow> expiry E op;
       let r = newRecord op tid expires;
       tryE (transferSaveRecord E tid r) fail (\<lambda>_.
       tryE (fcall E (\<lambda>_. ok ())) fail (\<lambda>_.
       tryE (fsyncFD E) fail (\<lambda>_. ok r))) }))"

definition transferBegin :: "fileEnv \<Rightarrow> workspaceFileOperation \<Rightarrow> Response fprog" where
  "transferBegin E op =
     (let tid = transferIDFor E op; failed = (\<lambda>e. return (fileError ''transfer_begin_failed'' ''io'' (emsg e))) in
      tryE (openWorkerParentForTransfer E op) (\<lambda>e. return (fileError ''invalid_path'' ''validation'' (emsg e))) (\<lambda>_.
      tryE (mkdirSession E tid) failed (\<lambda>_.
      tryE (createSession E op tid)
        (\<lambda>e. do { transferRemoveSession E tid; failed e })
        (\<lambda>r. return (transferReceipt r)))))"

definition beginTransfer :: "fileEnv \<Rightarrow> workspaceFileOperation \<Rightarrow> int \<Rightarrow> Response fprog" where
  "beginTransfer E op now =
     tryE (transferInventory E op now) (\<lambda>e. return (fileError ''transfer_storage_invalid'' ''state'' (emsg e))) (\<lambda>u. do {
       found \<leftarrow> transferResolveBegin E op;
       case found of
         Some result \<Rightarrow> return result
       | None \<Rightarrow>
         (let capBytes = i64 (w_transferQuotaMiB op * 2 ^ 20) in
          if u_retained u \<ge> transferScanMax
          then return (transferError ''transfer_receipt_capacity'' ''resource'' ''staging receipt namespace is full; bounded automatic expiry cleanup will free entries'')
          else if int (u_count u) \<ge> w_transferMaxSessions op \<or> w_expectedSize op > capBytes \<or> u_reserved u > capBytes - w_expectedSize op
          then return (transferError ''transfer_quota_exceeded'' ''resource'' ''configured staging quota or session capacity exhausted; reduce active transfers or change operator settings'')
          else transferBegin E op) })"

section \<open>The other requests\<close>

definition statusTransfer :: "fileEnv \<Rightarrow> workspaceFileOperation \<Rightarrow> string \<Rightarrow> transferRecord \<Rightarrow> Response fprog" where
  "statusTransfer E op tid r =
     (if terminalStatus (tr_status r) then transferTerminalReceipt E op tid r
      else if tr_status r = ''committing'' then do { (resp, _) \<leftarrow> transferReconcileCommit E op tid r; return resp }
      else return (transferReceipt r))"

definition commitTransfer :: "fileEnv \<Rightarrow> workspaceFileOperation \<Rightarrow> string \<Rightarrow> transferRecord \<Rightarrow> Response fprog" where
  "commitTransfer E op tid r =
     (if tr_status r = ''committing'' then do { (resp, _) \<leftarrow> transferReconcileCommit E op tid r; return resp }
      else if tr_status r = ''committed'' then transferTerminalReceipt E op tid r
      else if tr_status r = ''conflicted'' then do {
        result \<leftarrow> transferTerminalReceipt E op tid r;
        return (if \<not> r_ok result then result
          else transferError ''file_changed'' ''conflict'' ''transfer conflict restored the concurrent destination; use a new begin/version'') }
      else if tr_status r = ''preparing'' then transferPrepareStep E op tid r
      else if tr_status r \<noteq> ''uploading'' then return (transferError ''transfer_not_uploading'' ''state'' ''transfer aborted'')
      else if tr_received r \<noteq> tr_expectedSize r
      then return (transferError ''transfer_incomplete'' ''validation'' ''all declared bytes must arrive before commit'')
      else transferStartPreparation E op tid r)"

definition abortTransfer :: "fileEnv \<Rightarrow> workspaceFileOperation \<Rightarrow> string \<Rightarrow> transferRecord \<Rightarrow> Response fprog" where
  "abortTransfer E op tid r =
     (let publishing = transferError ''transfer_already_publishing'' ''state'' ''cannot abort a committed or uncertain atomic publish; check status'' in
      if tr_status r = ''committed'' then do {
        cleaned \<leftarrow> transferTerminalReceipt E op tid r;
        return (if \<not> r_ok cleaned then cleaned else publishing) }
      else if tr_status r = ''committing'' then return publishing
      else if tr_status r = ''uploading'' \<or> tr_status r = ''preparing'' then
        tryE (transferCleanupUnpublishedTemp E op r) (\<lambda>e. return (fileError ''transfer_temp_cleanup_failed'' ''io'' (emsg e))) (\<lambda>_.
        let r = r\<lparr>tr_status := ''aborted''\<rparr> in
        tryE (transferSaveRecord E tid r) (\<lambda>e. return (fileError ''transfer_state_write_failed'' ''io'' (emsg e)))
          (\<lambda>_. transferTerminalReceipt E op tid r))
      else transferTerminalReceipt E op tid r)"

definition sameTransfer :: "workspaceFileOperation \<Rightarrow> transferRecord \<Rightarrow> bool" where
  "sameTransfer op r = (tr_id r = w_transferID op \<and> tr_principalID r = w_principalID op \<and> tr_principalClass r = w_principalClass op
     \<and> tr_workspace r = clean (w_workspace op) \<and> tr_path r = w_path op)"

definition continueTransfer :: "fileEnv \<Rightarrow> workspaceFileOperation \<Rightarrow> int \<Rightarrow> Response fprog" where
  "continueTransfer E op now =
     (let tid = w_transferID op in
      tryE (transferReadRecord E tid)
        (\<lambda>_. return (transferError ''transfer_not_found'' ''state'' ''transfer unavailable, expired or incomplete'')) (\<lambda>r.
      if \<not> sameTransfer op r
      then return (transferError ''transfer_scope_mismatch'' ''policy'' ''transfer identity does not match authenticated principal, workspace and destination'')
      else if tr_expiresUnix r \<le> now \<and> tr_status r \<noteq> ''committing'' \<and> \<not> terminalStatus (tr_status r)
      then return (transferError ''transfer_expired'' ''state'' ''transfer expired; begin a new upload'')
      else if w_transferOp op = ''status'' then statusTransfer E op tid r
      else if w_transferOp op = ''chunk'' then
        (if tr_status r \<noteq> ''uploading''
         then return (transferError ''transfer_not_uploading'' ''state'' ''transfer is not accepting bytes; inspect status'')
         else transferChunk E op tid r)
      else if w_transferOp op = ''commit'' then commitTransfer E op tid r
      else if w_transferOp op = ''abort'' then abortTransfer E op tid r
      else return (transferError ''invalid_transfer'' ''validation'' ''unsupported transfer operation'')))"

section \<open>The lock\<close>

definition lockStaging :: "fileEnv \<Rightarrow> (err + unit) fprog" where
  "lockStaging E = fcall E (\<lambda>k. return (if fe_stagingBusy E k then Inl (Err WouldBlock ''resource temporarily unavailable'') else Inr ()))"

text \<open>The staging root is opened and locked; \<open>LOCK_NB\<close> makes a second request give up.\<close>

definition withStaging :: "fileEnv \<Rightarrow> string \<Rightarrow> Response fprog \<Rightarrow> Response fprog" where
  "withStaging E busy body =
     tryE (fcall E (\<lambda>_. ok ())) (\<lambda>e. return (fileError ''transfer_storage_unavailable'' ''state'' (emsg e))) (\<lambda>_.
     tryE (lockStaging E) (\<lambda>e. return (if ekind e = WouldBlock then transferError ''transfer_busy'' ''capacity'' busy
         else fileError ''transfer_lock_failed'' ''io'' (emsg e))) (\<lambda>_. body))"

definition transferRequest :: "workspaceFileOperation \<Rightarrow> Request" where
  "transferRequest op = zeroRequest\<lparr>q_action := ''workspace_transfer'', q_workspace := w_workspace op, q_path := w_path op,
     q_principalID := w_principalID op, q_principalClass := w_principalClass op, q_transferKey := w_transferKey op,
     q_transferOp := w_transferOp op, q_transferID := w_transferID op, q_expectedSize := w_expectedSize op, q_sha256 := w_sha256 op,
     q_chunkBase64 := w_chunkBase64 op, q_chunkSHA256 := w_chunkSHA256 op, q_offset := w_offset op,
     q_fileVersion := w_fileVersion op, q_mustNotExist := w_mustNotExist op\<rparr>"

definition workerWorkspaceTransfer :: "fileEnv \<Rightarrow> workspaceFileOperation \<Rightarrow> Response fprog" where
  "workerWorkspaceTransfer E op = (case validateWorkspaceTransferRequest (transferRequest op) of
       Inl e \<Rightarrow> return (fileError ''invalid_transfer'' ''validation'' (emsg e))
     | Inr _ \<Rightarrow>
       if w_transferQuotaMiB op \<le> 0 \<or> w_transferTTL op \<le> 0 \<or> w_transferMaxSessions op \<le> 0 \<or> w_transferMaxSessions op > 64
       then return (transferError ''invalid_transfer_config'' ''state'' ''valid operator transfer settings are required'')
       else tryE (openWorkerWorkspace E op) (\<lambda>e. return (fileError ''invalid_workspace'' ''validation'' (emsg e))) (\<lambda>_.
         withStaging E ''another transfer is in progress; retry the exact call'' (do {
           now \<leftarrow> nowUnix E;
           if w_transferOp op = ''begin'' then beginTransfer E op now else continueTransfer E op now })))"

text \<open>The sweep. \<open>configured\<close> says that the staging root is set.\<close>

definition workerWorkspaceTransferGC :: "fileEnv \<Rightarrow> workspaceFileOperation \<Rightarrow> bool \<Rightarrow> Response fprog" where
  "workerWorkspaceTransferGC E op configured =
     (if w_root op = [] \<or> w_workspace op \<noteq> w_root op \<or> \<not> configured
      then return (transferError ''invalid_transfer_config'' ''state'' ''internal sweep requires configured worker paths'')
      else withStaging E ''active transfer owns staging lock'' (do {
        now \<leftarrow> nowUnix E;
        tryE (transferInventory E op now) (\<lambda>e. return (fileError ''transfer_cleanup_failed'' ''state'' (emsg e)))
          (\<lambda>_. return (zeroResponse\<lparr>r_ok := True, r_status := ''swept''\<rparr>)) }))"

end
