(* ===== verification/TransferCalm.thy ===== *)
theory TransferCalm
  imports TransferRequests EditBatch
begin

text \<open>
  The staging area when nobody interferes (any call may still fail): what the calls of a transfer do to
  names and inodes, what reading a manifest returns, and that saving one replaces the manifest or leaves
  it, and touches nothing else.
\<close>

section \<open>The calls\<close>

text \<open>The file system to a reader: names, inodes but for their change time, held inodes.\<close>

definition view :: "fworld \<Rightarrow> (dirEntry \<Rightarrow> inodeId option) \<times> (inodeId \<Rightarrow> inode) \<times> inodeId list" where
  "view w = (names w, shown w, fs_held (fw_fs w))"

lemma view_fs: "fw_fs t = fw_fs s \<Longrightarrow> view t = view s"
  by (simp add: view_def names_fs[of t s] shown_fs[of t s] fun_eq_iff)

lemma view_iff: "view t = view s \<longleftrightarrow> names t = names s \<and> shown t = shown s \<and> fs_held (fw_fs t) = fs_held (fw_fs s)"
  by (simp add: view_def)

lemma held_set:
  "fs_held (fw_fs (setName d n i w)) = fs_held (fw_fs w)" "fs_held (fw_fs (dropName d n w)) = fs_held (fw_fs w)"
  "fs_held (fw_fs (setInode i x w)) = fs_held (fw_fs w)" "fs_held (fw_fs (logEvent ev w)) = fs_held (fw_fs w)"
  "fs_held (fw_fs (touch E k i w)) = fs_held (fw_fs w)"
  by (simp_all add: setName_def dropName_def setInode_def logEvent_def touch_def)

lemma quiet_fcall:
  assumes "undisturbed E" and "\<And>e t. fw_fs t = fw_fs s \<Longrightarrow> Q (Inl e) t"
    and "\<And>k t. fw_fs t = fw_fs s \<Longrightarrow> wp (body k) Q t"
  shows "wp (fcall E body) Q s"
  using undisturbed_advance[OF assms(1), of s] by (auto simp: wp_fcall split: option.split intro: assms(2,3))

text \<open>A call that fails leaves the file system as it is.\<close>

lemma look_fs: "fw_fs t = fw_fs s \<Longrightarrow> lookupName t d n = names s (d, n)"
  by (simp add: names_def lookupName_def)

lemma quiet_unlink:
  assumes "undisturbed E" and "\<And>e t. fw_fs t = fw_fs s \<Longrightarrow> Q (Inl e) t"
    and "\<And>x t. names s (d, n) = Some x \<Longrightarrow> names t = (names s)((d, n) := None) \<Longrightarrow> shown t = shown s \<Longrightarrow> fs_held (fw_fs t) = fs_held (fw_fs s) \<Longrightarrow> Q (Inr ()) t"
  shows "wp (unlinkAt E d n) Q s"
  unfolding unlinkAt_def
proof (rule quiet_fcall[OF assms(1)], goal_cases)
  case (1 e t)
  then show ?case by (rule assms(2))
next
  case (2 k t)
  then show ?case
    using look_fs[OF 2] names_fs[OF 2] shown_fs[OF 2] inode_fs[OF 2]
    by (auto simp: names_set shown_set held_set fun_eq_iff split: option.splits intro!: assms(2,3))
qed

lemma quiet_over:
  assumes "undisturbed E" and "\<And>e t. fw_fs t = fw_fs s \<Longrightarrow> Q (Inl e) t"
    and "\<And>x t. names s (d, a) = Some x \<Longrightarrow> names t = (if names s (d, b) = Some x then names s else (names s)((d, a) := None, (d, b) \<mapsto> x)) \<Longrightarrow> shown t = shown s \<Longrightarrow> fs_held (fw_fs t) = fs_held (fw_fs s) \<Longrightarrow> Q (Inr ()) t"
  shows "wp (renameOver E d a b) Q s"
  unfolding renameOver_def
proof (rule quiet_fcall[OF assms(1)], goal_cases)
  case (1 e t)
  then show ?case by (rule assms(2))
next
  case (2 k t)
  then show ?case
    using look_fs[OF 2] names_fs[OF 2] shown_fs[OF 2] inode_fs[OF 2]
    by (auto simp: names_set shown_set held_set fun_eq_iff split: option.splits intro!: assms(2,3))
qed

lemma quiet_exchange:
  assumes "undisturbed E" and "\<And>e t. fw_fs t = fw_fs s \<Longrightarrow> Q (Inl e) t"
    and "\<And>x y t. names s (d, a) = Some x \<Longrightarrow> names s (d, b) = Some y \<Longrightarrow> names t = (names s)((d, b) \<mapsto> x, (d, a) \<mapsto> y) \<Longrightarrow> shown t = shown s \<Longrightarrow> fs_held (fw_fs t) = fs_held (fw_fs s) \<Longrightarrow> Q (Inr ()) t"
  shows "wp (renameExchange E d a b) Q s"
  unfolding renameExchange_def
proof (rule quiet_fcall[OF assms(1)], goal_cases)
  case (1 e t)
  then show ?case by (rule assms(2))
next
  case (2 k t)
  then show ?case
    using look_fs[OF 2] names_fs[OF 2] shown_fs[OF 2] inode_fs[OF 2]
    by (auto simp: names_set shown_set held_set fun_eq_iff split: option.splits intro!: assms(2,3))
qed

lemma quiet_noReplace:
  assumes "undisturbed E" and "\<And>e t. fw_fs t = fw_fs s \<Longrightarrow> Q (Inl e) t"
    and "\<And>x t. names s (d, a) = Some x \<Longrightarrow> names s (d, b) = None \<Longrightarrow> names t = (names s)((d, a) := None, (d, b) \<mapsto> x) \<Longrightarrow> shown t = shown s \<Longrightarrow> fs_held (fw_fs t) = fs_held (fw_fs s) \<Longrightarrow> Q (Inr ()) t"
  shows "wp (renameNoReplace E d a b) Q s"
  unfolding renameNoReplace_def
proof (rule quiet_fcall[OF assms(1)], goal_cases)
  case (1 e t)
  then show ?case by (rule assms(2))
next
  case (2 k t)
  then show ?case
    using look_fs[OF 2] names_fs[OF 2] shown_fs[OF 2] inode_fs[OF 2]
    by (auto simp: names_set shown_set held_set fun_eq_iff split: option.splits intro!: assms(2,3))
qed

text \<open>\<open>grown s d n p t\<close>: a new inode \<open>p\<close> under a free name, nothing else.\<close>

definition grown :: "fworld \<Rightarrow> nat \<Rightarrow> string \<Rightarrow> inodeId \<Rightarrow> fworld \<Rightarrow> bool" where
  "grown s d n p t = (p \<notin> ran (names s) \<and> p \<notin> set (fs_held (fw_fs s)) \<and> names s (d, n) = None \<and>
     names t = (names s)((d, n) \<mapsto> p) \<and> (\<forall>i. i \<noteq> p \<longrightarrow> inodeAt t i = inodeAt s i) \<and> fs_held (fw_fs t) = fs_held (fw_fs s))"

lemma quiet_createExcl:
  assumes "undisturbed E" and "\<And>e t. fw_fs t = fw_fs s \<Longrightarrow> Q (Inl e) t"
    and "\<And>p t. grown s d n p t \<Longrightarrow> in_data (inodeAt t p) = [] \<Longrightarrow> in_mode (inodeAt t p) = 0x8180 \<Longrightarrow> Q (Inr p) t"
  shows "wp (createExcl E d n) Q s"
  unfolding createExcl_def
proof (rule quiet_fcall[OF assms(1)], goal_cases)
  case (1 e t)
  then show ?case by (rule assms(2))
next
  case (2 k t)
  have "fe_fresh E k (fw_fs t) \<notin> ran (names s)" "fe_fresh E k (fw_fs t) \<notin> set (fs_held (fw_fs s))"
    using undisturbed_fresh[OF assms(1), of k s] 2 by simp_all
  then show ?case
    using look_fs[OF 2] names_fs[OF 2] inode_fs[OF 2] 2
    by (auto simp: Let_def grown_def names_set inode_set held_set intro!: assms(2,3))
qed

lemma quiet_createTemp:
  assumes "undisturbed E" and "\<And>e t. fw_fs t = fw_fs s \<Longrightarrow> Q (Inl e) t"
    and "\<And>p n t. grown s d n p t \<Longrightarrow> isTemp n \<Longrightarrow> in_data (inodeAt t p) = [] \<Longrightarrow> in_mode (inodeAt t p) = 0x8180 \<Longrightarrow> Q (Inr (p, n)) t"
  shows "wp (createTempFileAt E d) Q s"
proof -
  have "wp (createTempLoop E d k) Q u" if "fw_fs u = fw_fs s" for k u
    using that
  proof (induction k arbitrary: u)
    case 0
    then show ?case by (auto intro: assms(2))
  next
    case (Suc k)
    have same: "grown s d n p t" if "grown v d n p t" "fw_fs v = fw_fs s" for n p t v
      using that(1) names_fs[OF that(2)] inode_fs[OF that(2)] that(2) by (simp add: grown_def)
    have create: "wp (tryE (createExcl E d (tempName r)) (\<lambda>e. if ekind e \<noteq> Exist then fail e else createTempLoop E d k)
        (\<lambda>i. ok (i, tempName r))) Q v" if v: "fw_fs v = fw_fs s" for r v
      unfolding wp_tryE
      by (rule quiet_createExcl[OF assms(1)]) (use v Suc.IH assms(2) in \<open>auto intro!: assms(3) same[OF _ v]\<close>)
    show ?case
      unfolding createTempLoop.simps randomName_def wp_tryE[of "fcall _ _"]
      by (rule quiet_fcall[OF assms(1)]) (use Suc.prems assms(2) create in \<open>auto simp del: wp_tryE\<close>)
  qed
  then show ?thesis unfolding createTempFileAt_def by simp
qed

section \<open>Writing over a prefix\<close>

lemma take_overwrite: "m \<le> pos \<Longrightarrow> m \<le> length old \<Longrightarrow> take m (overwrite pos b old) = take m old"
  by (simp add: overwrite_def)

lemma writeFD_prefix:
  assumes "undisturbed E" and "m \<le> pos" and "m \<le> length (in_data (inodeAt s p))"
  shows "wp (writeFD E p pos b) (\<lambda>r t. preparing s p t \<and> take m (in_data (inodeAt t p)) = take m (in_data (inodeAt s p)) \<and>
     m \<le> length (in_data (inodeAt t p)) \<and> in_mode (inodeAt t p) = in_mode (inodeAt s p) \<and> fs_held (fw_fs t) = fs_held (fw_fs s)) s"
  unfolding writeFD_def
proof (rule quiet_fcall[OF assms(1)], goal_cases)
  case (1 e t)
  then show ?case using inode_fs[OF 1] assms(3) by (simp add: preparing_fs)
next
  case (2 k t)
  have "m \<le> length (overwrite pos c (in_data (inodeAt s p)))" for c
    using assms(2,3) by (simp add: overwrite_def)
  then show ?case
    using inode_fs[OF 2] lookup_fs[OF 2] 2 take_overwrite[OF assms(2,3)]
    by (simp add: Let_def preparing_def inode_set lookup_set held_set)
qed

lemma writeAllFD_prefix:
  assumes "undisturbed E"
  shows "m \<le> pos \<Longrightarrow> m \<le> length (in_data (inodeAt s p)) \<Longrightarrow>
     wp (writeAllFD E p pos b) (\<lambda>r t. preparing s p t \<and> take m (in_data (inodeAt t p)) = take m (in_data (inodeAt s p)) \<and>
       m \<le> length (in_data (inodeAt t p)) \<and> in_mode (inodeAt t p) = in_mode (inodeAt s p) \<and> fs_held (fw_fs t) = fs_held (fw_fs s)) s"
proof (induction b arbitrary: s pos rule: length_induct)
  case (1 b)
  show ?case
  proof (cases b)
    case Nil
    then show ?thesis using 1(3) by (simp add: preparing_def)
  next
    case (Cons c cs)
    show ?thesis
      unfolding Cons writeAllFD.simps wp_tryE
    proof (rule wp_mono[OF writeFD_prefix[OF assms 1(2,3)]], goal_cases)
      case (1 r t)
      then have t: "preparing s p t" "take m (in_data (inodeAt t p)) = take m (in_data (inodeAt s p))" "m \<le> length (in_data (inodeAt t p))"
        "in_mode (inodeAt t p) = in_mode (inodeAt s p)" "fs_held (fw_fs t) = fs_held (fw_fs s)" by blast+
      have more: "wp (writeAllFD E p (pos + n) (drop (n - 1) cs)) (\<lambda>r u. preparing t p u \<and> take m (in_data (inodeAt u p)) = take m (in_data (inodeAt t p)) \<and>
         m \<le> length (in_data (inodeAt u p)) \<and> in_mode (inodeAt u p) = in_mode (inodeAt t p) \<and> fs_held (fw_fs u) = fs_held (fw_fs t)) t" for n
        using "1.IH" Cons t(3) \<open>m \<le> pos\<close> by simp
      then show ?case
        using t preparing_trans[OF t(1)] by (cases r) (auto intro!: wp_mono[OF more[unfolded One_nat_def]])
    qed
  qed
qed

section \<open>Reading a manifest\<close>

definition recordAt :: "fileEnv \<Rightarrow> fworld \<Rightarrow> string \<Rightarrow> transferRecord option" where
  "recordAt E w tid = (case names w (fe_sessionDir E tid, manifestName) of None \<Rightarrow> None | Some i \<Rightarrow> in_doc (inodeAt w i))"

lemma recordAt_fs: "fw_fs t = fw_fs s \<Longrightarrow> recordAt E t tid = recordAt E s tid"
  using names_fs[of t s] inode_fs[of t s] by (simp add: recordAt_def cong: option.case_cong)

lemma quiet_readRecord:
  assumes "undisturbed E"
  shows "wp (transferReadRecord E tid) (\<lambda>r t. fw_fs t = fw_fs s \<and> fw_trace t = fw_trace s \<and>
     (\<forall>rec. r = Inr rec \<longrightarrow> recordAt E s tid = Some rec \<and> validRecord rec)) s"
proof -
  have fs: "fw_fs (fadvance E w) = fw_fs w" for w by (rule undisturbed_advance[OF assms])
  show ?thesis
    unfolding transferReadRecord_def openPinned_def fstat_def readAllFD_def
    by (auto simp: wp_fcall fs trace_set look_fs[OF fs] inode_fs[OF fs] recordAt_def statOf_def split: option.split)
qed

section \<open>Saving a manifest\<close>

text \<open>The names a save may change, and what \<open>besides\<close> them stays as it is.\<close>

definition journal :: "fileEnv \<Rightarrow> string \<Rightarrow> dirEntry \<Rightarrow> bool" where
  "journal E tid e = (fst e = fe_sessionDir E tid \<and> (snd e = manifestName \<or> isTemp (snd e)))"

definition besides :: "(dirEntry \<Rightarrow> bool) \<Rightarrow> fworld \<Rightarrow> fworld \<Rightarrow> bool" where
  "besides J s t = (fs_held (fw_fs t) = fs_held (fw_fs s) \<and> (\<forall>i\<in>set (fs_held (fw_fs s)). shown t i = shown s i) \<and>
     (\<forall>e. \<not> J e \<longrightarrow> names t e = names s e \<and> (\<forall>i. names s e = Some i \<longrightarrow> shown t i = shown s i)))"

interpretation be: frame "besides J" for J
  by unfold_locales (auto simp: besides_def)

lemma besides_fs: "fw_fs t = fw_fs s \<Longrightarrow> besides J s t"
  using names_fs[of t s] shown_fs[of t s] by (simp add: besides_def)

lemma besides_then_fs: "besides J s t \<Longrightarrow> fw_fs u = fw_fs t \<Longrightarrow> besides J s u"
  using be.step_trans besides_fs by blast

lemma manifest_not_temp [simp]: "\<not> isTemp manifestName" "\<not> isTemp dataName" "dataName \<noteq> manifestName"
  by (simp_all add: isTemp_def tempPrefix_def manifestName_def dataName_def hasPrefix_def)

lemma journal_data [simp]: "\<not> journal E tid (d, dataName)"
  by (simp add: journal_def)

text \<open>\<open>drafted s d n p u\<close>: compared with \<open>s\<close> only the fresh inode \<open>p\<close> under its temporary name is new.\<close>

definition drafted :: "fworld \<Rightarrow> nat \<Rightarrow> string \<Rightarrow> inodeId \<Rightarrow> fworld \<Rightarrow> bool" where
  "drafted s d n p u = (p \<notin> ran (names s) \<and> p \<notin> set (fs_held (fw_fs s)) \<and> names s (d, n) = None \<and>
     names u = (names s)((d, n) \<mapsto> p) \<and> (\<forall>i. i \<noteq> p \<longrightarrow> shown u i = shown s i) \<and> fs_held (fw_fs u) = fs_held (fw_fs s))"

lemma grown_drafted: "grown s d n p u \<Longrightarrow> drafted s d n p u"
  by (simp add: grown_def drafted_def shown_def)

lemma drafted_fs: "drafted s d n p u \<Longrightarrow> fw_fs v = fw_fs u \<Longrightarrow> drafted s d n p v"
  using names_fs[of v u] shown_fs[of v u] by (simp add: drafted_def)

lemma drafted_preparing: "drafted s d n p u \<Longrightarrow> preparing u p v \<Longrightarrow> fs_held (fw_fs v) = fs_held (fw_fs u) \<Longrightarrow> drafted s d n p v"
  by (auto simp: drafted_def preparing_def names_def fun_eq_iff shown_def)

lemma not_ran: "p \<notin> ran m \<Longrightarrow> m e \<noteq> Some p"
  by (auto simp: ran_def)

lemma drafted_keeps:
  assumes "drafted s d n p u"
  shows "names s e = Some i \<Longrightarrow> shown u i = shown s i" and "i \<in> set (fs_held (fw_fs s)) \<Longrightarrow> shown u i = shown s i"
    and "e \<noteq> (d, n) \<Longrightarrow> names u e = names s e" and "fs_held (fw_fs u) = fs_held (fw_fs s)"
proof -
  have i: "i \<noteq> p \<Longrightarrow> shown u i = shown s i" and p: "p \<notin> ran (names s)" "p \<notin> set (fs_held (fw_fs s))" for i
    using assms by (auto simp: drafted_def)
  show "names s e = Some i \<Longrightarrow> shown u i = shown s i"
    by (rule i) (use not_ran[OF p(1), of e] in auto)
  show "i \<in> set (fs_held (fw_fs s)) \<Longrightarrow> shown u i = shown s i"
    by (rule i) (use p(2) in auto)
  show "e \<noteq> (d, n) \<Longrightarrow> names u e = names s e" "fs_held (fw_fs u) = fs_held (fw_fs s)"
    using assms by (auto simp: drafted_def)
qed

lemma recordAt_names:
  "names t (fe_sessionDir E tid, manifestName) = names s (fe_sessionDir E tid, manifestName) \<Longrightarrow>
   (\<And>i. names s (fe_sessionDir E tid, manifestName) = Some i \<Longrightarrow> shown t i = shown s i) \<Longrightarrow> recordAt E t tid = recordAt E s tid"
proof -
  have "in_doc (inodeAt w i) = in_doc (shown w i)" for w i by (simp add: shown_def)
  then show "names t (fe_sessionDir E tid, manifestName) = names s (fe_sessionDir E tid, manifestName) \<Longrightarrow>
   (\<And>i. names s (fe_sessionDir E tid, manifestName) = Some i \<Longrightarrow> shown t i = shown s i) \<Longrightarrow> recordAt E t tid = recordAt E s tid"
    by (auto simp: recordAt_def split: option.split)
qed

text \<open>Nothing that was there has got another name.\<close>

definition fresher :: "fworld \<Rightarrow> fworld \<Rightarrow> bool" where
  "fresher s t = (\<forall>e i. names t e = Some i \<longrightarrow> i \<in> ran (names s) \<union> set (fs_held (fw_fs s)) \<longrightarrow> names s e = Some i)"

lemma fresher_names: "names t = names s \<Longrightarrow> fresher s t"
  by (simp add: fresher_def)

lemma fresher_new: "names t = (names s)(e \<mapsto> p) \<Longrightarrow> p \<notin> ran (names s) \<Longrightarrow> p \<notin> set (fs_held (fw_fs s)) \<Longrightarrow> fresher s t"
  by (auto simp: fresher_def split: if_splits)

lemma drafted_besides:
  assumes "drafted s (fe_sessionDir E tid) n p u" and "isTemp n"
  shows "besides (journal E tid) s u" and "recordAt E u tid = recordAt E s tid" and "fresher s u"
proof -
  note keeps = drafted_keeps[OF assms(1)]
  have "\<not> journal E tid e \<Longrightarrow> names u e = names s e" for e
    by (rule keeps(3)) (use assms(2) in \<open>auto simp: journal_def\<close>)
  then show "besides (journal E tid) s u"
    using keeps(1,2,4) by (simp add: besides_def)
  show "recordAt E u tid = recordAt E s tid"
    by (rule recordAt_names, rule keeps(3)) (use keeps(1) assms(2) in auto)
  show "fresher s u"
    using assms(1) by (intro fresher_new) (auto simp: drafted_def)
qed

lemma quiet_publish:
  assumes "undisturbed E" and "drafted s (fe_sessionDir E tid) n p u" and "isTemp n"
  shows "wp (publishManifest E (fe_sessionDir E tid) p n r) (\<lambda>x t. case x of (res, owned) \<Rightarrow>
     if owned then drafted s (fe_sessionDir E tid) n p t \<and> res \<noteq> Inr ()
     else besides (journal E tid) s t \<and> fresher s t \<and> recordAt E t tid = Some (storedRecord r)) u"
    (is "wp _ ?Q u")
proof -
  let ?d = "fe_sessionDir E tid"
  have renamed: "wp (tryE (renameOver E ?d n manifestName) (\<lambda>e. return (Inl e, True)) (\<lambda>_. State_Monad.bind (fsyncFD E) (\<lambda>res. return (res, False)))) ?Q v"
    if v: "drafted s ?d n p v" "in_doc (inodeAt v p) = Some (storedRecord r)" for v
    unfolding wp_tryE
  proof (rule quiet_over[OF assms(1)], goal_cases)
    case (1 e t)
    then show ?case using drafted_fs[OF v(1)] by simp
  next
    case (2 x t)
    then have t: "names t = (names s)((?d, manifestName) \<mapsto> p)" "shown t = shown v" "fs_held (fw_fs t) = fs_held (fw_fs s)"
      using v(1) assms(3) not_ran[of p "names s" "(?d, manifestName)"] by (auto simp: drafted_def fun_eq_iff)
    have "in_doc (inodeAt t p) = in_doc (inodeAt v p)"
      using fun_cong[OF t(2), of p] by (auto simp: shown_def dest: arg_cong[where f = in_doc])
    then have "recordAt E t tid = Some (storedRecord r)" using t(1) v(2) by (simp add: recordAt_def)
    moreover have "besides (journal E tid) s t"
      using t drafted_keeps(1,2)[OF v(1)] by (auto simp: besides_def journal_def)
    moreover have "p \<notin> ran (names s)" "p \<notin> set (fs_held (fw_fs s))" using v(1) by (simp_all add: drafted_def)
    ultimately have "besides (journal E tid) s v \<and> fresher s v \<and> recordAt E v tid = Some (storedRecord r)" if "fw_fs v = fw_fs t" for v
      using besides_then_fs[OF _ that] recordAt_fs[OF that] fresher_new[of v s] t(1) names_fs[OF that] by simp
    then show ?case by (auto intro!: wp_sameFs[OF sf.on_looks(2) assms(1)])
  qed
  have synced: "wp (tryE (fsyncFD E) (\<lambda>e. return (Inl e, True)) (\<lambda>_. tryE (renameOver E ?d n manifestName) (\<lambda>e. return (Inl e, True))
      (\<lambda>_. State_Monad.bind (fsyncFD E) (\<lambda>res. return (res, False))))) ?Q v"
    if v: "drafted s ?d n p v" "in_doc (inodeAt v p) = Some (storedRecord r)" for v
  proof (rule still_try[OF sf.on_looks(2) assms(1)], goal_cases)
    case (1 e t)
    then show ?case using drafted_fs[OF v(1)] by simp
  next
    case (2 x t)
    show ?case by (rule renamed) (use drafted_fs[OF v(1) 2] v(2) inode_fs[OF 2, of p] in simp_all)
  qed
  show ?thesis
    unfolding publishManifest_def wp_tryE[of "writeAllFD _ _ _ _"]
  proof (rule wp_mono[OF writeAllFD_prefix[OF assms(1), of 0 0]], goal_cases)
    case (3 x t)
    then have t: "drafted s ?d n p t" using drafted_preparing[OF assms(2)] by blast
    then have "drafted s ?d n p (setDoc p (Some (storedRecord r)) t)"
      by (auto simp: drafted_def setDoc_def names_set held_set shown_def inode_set)
    then show ?case
      using t synced[of "setDoc p (Some (storedRecord r)) t"] by (cases x) (auto simp: setDoc_def inode_set simp del: wp_tryE)
  qed simp_all
qed

lemma quiet_openSession:
  assumes "undisturbed E"
  shows "wp (openSession E tid) (\<lambda>r t. fw_fs t = fw_fs s \<and> (\<forall>d. r = Inr d \<longrightarrow> d = fe_sessionDir E tid)) s"
  unfolding openSession_def
  by (rule quiet_fcall[OF assms]) (auto split: option.splits)

lemma quiet_save:
  assumes "undisturbed E"
  shows "wp (transferSaveRecord E tid r) (\<lambda>res t. besides (journal E tid) s t \<and> fresher s t \<and>
     (recordAt E t tid = recordAt E s tid \<and> res \<noteq> Inr () \<or> recordAt E t tid = Some (storedRecord r))) s"
    (is "wp _ ?Q s")
proof -
  let ?d = "fe_sessionDir E tid"
  have still: "besides (journal E tid) s t \<and> fresher s t \<and> recordAt E t tid = recordAt E s tid" if "fw_fs t = fw_fs s" for t
    using besides_fs[OF that] recordAt_fs[OF that] fresher_names names_fs[OF that] by simp
  have filled: "wp (State_Monad.bind (publishManifest E ?d p n r) (\<lambda>(res, owned).
      if owned then State_Monad.bind (unlinkAt E ?d n) (\<lambda>_. return res) else return res)) ?Q u"
    if u: "drafted s ?d n p u" "isTemp n" for p n u
    unfolding wp_bind
  proof (rule wp_mono[OF quiet_publish[OF assms u]], goal_cases)
    case (1 x t)
    have cleanup: "wp (unlinkAt E ?d n) (\<lambda>_ v. ?Q (Inl e) v) t" if t: "drafted s ?d n p t" for e
    proof (rule quiet_unlink[OF assms], goal_cases)
      case (1 e v)
      then show ?case using drafted_besides[OF drafted_fs[OF t] u(2)] by simp
    next
      case (2 y v)
      then have "names v = names s" using t by (auto simp: drafted_def fun_eq_iff)
      then show ?case
        using 2 drafted_keeps(1,2,4)[OF t] by (auto simp: besides_def intro!: recordAt_names fresher_names)
    qed
    show ?case
      using 1 cleanup by (cases x; cases "fst x") auto
  qed
  have temp: "wp (tryE (createTempFileAt E ?d) fail (\<lambda>(fd, n). State_Monad.bind (publishManifest E ?d fd n r) (\<lambda>(res, owned).
      if owned then State_Monad.bind (unlinkAt E ?d n) (\<lambda>_. return res) else return res))) ?Q v" if v: "fw_fs v = fw_fs s" for v
    unfolding wp_tryE
  proof (rule quiet_createTemp[OF assms], goal_cases)
    case (1 e t)
    then show ?case using still[of t] v by simp
  next
    case (2 p n t)
    have "drafted s ?d n p t"
      using grown_drafted[OF 2(1)] v names_fs[OF v] shown_fs[OF v] by (simp add: drafted_def)
    then show ?case using filled[OF _ 2(2)] by simp
  qed
  have opened: "wp (tryE (openSession E tid) fail (\<lambda>dir. tryE (createTempFileAt E dir) fail (\<lambda>(fd, n).
      State_Monad.bind (publishManifest E dir fd n r) (\<lambda>(res, owned).
      if owned then State_Monad.bind (unlinkAt E dir n) (\<lambda>_. return res) else return res)))) ?Q s"
    unfolding wp_tryE[of "openSession _ _"]
  proof (rule wp_mono[OF quiet_openSession[OF assms, of tid s]], goal_cases)
    case (1 x t)
    then show ?case using still[of t] temp[of t] by (cases x) (auto simp del: wp_tryE wp_bind)
  qed
  show ?thesis
    unfolding transferSaveRecord_def using still[of s] opened by (simp del: wp_tryE wp_bind)
qed

end
