(* ===== verification/TransferChunks.thy ===== *)
theory TransferChunks
  imports TransferCalm
begin

text \<open>
  What a chunk does to a staged transfer: the durable progress never runs ahead of the staged bytes, what
  was received stays as it was, and a successful answer stands for bytes with the digest of the request.
\<close>

section \<open>Strict base64\<close>

lemma b64_alphabet_text: "c \<in> set b64_alphabet \<Longrightarrow> c \<noteq> CHR 0x0A \<and> c \<noteq> CHR 0x0D"
  by (auto simp: b64_alphabet_def)

lemma b64_char_text: "n < 64 \<Longrightarrow> b64_char n \<noteq> CHR 0x0A \<and> b64_char n \<noteq> CHR 0x0D"
  unfolding b64_char_def by (rule b64_alphabet_text[OF nth_mem]) (simp add: b64_alphabet_def)

lemma byte_div: "byte c * 65536 < 16777216" "byte a * 65536 + byte b * 256 < 16777216" "byte a * 65536 + byte b * 256 + byte c < 16777216"
proof -
  have "byte x < 256" for x by (rule byte_less)
  from this[of a] this[of b] this[of c]
  show "byte c * 65536 < 16777216" "byte a * 65536 + byte b * 256 < 16777216" "byte a * 65536 + byte b * 256 + byte c < 16777216"
    by linarith+
qed

lemma b64_encode_text: "list_all (\<lambda>c. c \<noteq> CHR 0x0A \<and> c \<noteq> CHR 0x0D) (b64_encode b)"
proof (induction b rule: b64_encode.induct)
  case 1
  then show ?case by simp
next
  case (2 a)
  have "byte a * 65536 div 262144 < 64" using byte_div(1)[of a] by (simp add: less_mult_imp_div_less)
  then show ?case by (simp add: Let_def b64_char_text)
next
  case (3 a b)
  have "(byte a * 65536 + byte b * 256) div 262144 < 64" using byte_div(2)[of a b] by (intro less_mult_imp_div_less) simp
  then show ?case by (simp add: Let_def b64_char_text)
next
  case (4 a b c r)
  have "(byte a * 65536 + byte b * 256 + byte c) div 262144 < 64" using byte_div(3)[of a b c] by (intro less_mult_imp_div_less) simp
  then show ?case using 4 by (simp add: Let_def b64_char_text)
qed

lemma decode64_iff: "decode64Strict s = Some b \<longleftrightarrow> filter (\<lambda>c. c \<noteq> CHR 0x0A \<and> c \<noteq> CHR 0x0D) s = b64_encode b"
  using b64_roundtrip[of b] by (auto simp: decode64Strict_def Let_def)

lemma decode64_encode: "decode64Strict (b64_encode b) = Some b"
  using b64_encode_text[of b] by (simp add: decode64_iff list_all_iff filter_id_conv)

section \<open>A staged transfer\<close>

definition inSession :: "fileEnv \<Rightarrow> string \<Rightarrow> dirEntry \<Rightarrow> bool" where
  "inSession E tid e = (fst e = fe_sessionDir E tid)"

text \<open>The manifest says \<open>r\<close>, the data file is the inode \<open>i\<close>, and it holds at least the received bytes.\<close>

definition stagedAt :: "fileEnv \<Rightarrow> fworld \<Rightarrow> string \<Rightarrow> transferRecord \<Rightarrow> inodeId \<Rightarrow> bool" where
  "stagedAt E s tid r i = (recordAt E s tid = Some r \<and> storedRecord r = r \<and>
     (\<forall>e. names s e = Some i \<longleftrightarrow> e = (fe_sessionDir E tid, dataName)) \<and> i \<notin> set (fs_held (fw_fs s)) \<and>
     nat (tr_received r) \<le> length (in_data (inodeAt s i)))"

text \<open>Still the same transfer, with the received bytes as they were; nothing outside its directory has changed.\<close>

definition stillStaged :: "fileEnv \<Rightarrow> string \<Rightarrow> transferRecord \<Rightarrow> inodeId \<Rightarrow> fworld \<Rightarrow> fworld \<Rightarrow> bool" where
  "stillStaged E tid r i s t = (stagedAt E t tid r i \<and> besides (inSession E tid) s t \<and>
     take (nat (tr_received r)) (in_data (inodeAt t i)) = take (nat (tr_received r)) (in_data (inodeAt s i)))"

lemma besides_mono: "besides J s t \<Longrightarrow> (\<And>e. J e \<Longrightarrow> J' e) \<Longrightarrow> besides J' s t"
  unfolding besides_def by blast

lemma besidesD:
  assumes "besides J s t" and "\<not> J e"
  shows "names t e = names s e" and "names s e = Some i \<Longrightarrow> shown t i = shown s i"
  using assms unfolding besides_def by blast+

lemma stagedAt_fs: "stagedAt E s tid r i \<Longrightarrow> fw_fs t = fw_fs s \<Longrightarrow> stagedAt E t tid r i"
  using recordAt_fs[of t s] names_fs[of t s] inode_fs[of t s i] by (simp add: stagedAt_def)

lemma stillStaged_refl: "stagedAt E s tid r i \<Longrightarrow> stillStaged E tid r i s s"
  by (simp add: stillStaged_def be.step_refl)

lemma stillStaged_fs: "stillStaged E tid r i s t \<Longrightarrow> fw_fs u = fw_fs t \<Longrightarrow> stillStaged E tid r i s u"
  using stagedAt_fs[of E t tid r i u] besides_then_fs[of _ s t u] inode_fs[of u t i] by (simp add: stillStaged_def)

lemma preparing_names: "preparing s p t \<Longrightarrow> names t = names s"
  by (simp add: preparing_def names_def fun_eq_iff)

lemma staged_write:
  assumes "stillStaged E tid r i s t" and "preparing t i u" and "fs_held (fw_fs u) = fs_held (fw_fs t)"
    and "take (nat (tr_received r)) (in_data (inodeAt u i)) = take (nat (tr_received r)) (in_data (inodeAt t i))"
    and "nat (tr_received r) \<le> length (in_data (inodeAt u i))"
  shows "stillStaged E tid r i s u"
proof -
  have t: "stagedAt E t tid r i" "besides (inSession E tid) s t" using assms(1) by (auto simp: stillStaged_def)
  have names: "names u = names t" by (rule preparing_names[OF assms(2)])
  have shown: "j \<noteq> i \<Longrightarrow> shown u j = shown t j" for j using assms(2) by (simp add: preparing_def shown_def)
  have only: "names t e = Some j \<Longrightarrow> e \<noteq> (fe_sessionDir E tid, dataName) \<Longrightarrow> j \<noteq> i" for e j
    using t(1) unfolding stagedAt_def by blast
  have "names t (fe_sessionDir E tid, manifestName) = Some j \<Longrightarrow> j \<noteq> i" for j
    by (rule only) (auto simp: manifestName_def dataName_def)
  then have "recordAt E u tid = recordAt E t tid"
    by (intro recordAt_names) (use names shown in auto)
  then have "stagedAt E u tid r i" using t(1) names assms(3,5) by (simp add: stagedAt_def)
  moreover have "besides (inSession E tid) t u"
  proof -
    have "j \<in> set (fs_held (fw_fs t)) \<Longrightarrow> j \<noteq> i" for j using t(1) by (auto simp: stagedAt_def)
    moreover have "\<not> inSession E tid e \<Longrightarrow> names t e = Some j \<Longrightarrow> j \<noteq> i" for e j
      by (rule only) (auto simp: inSession_def)
    ultimately show ?thesis
      unfolding besides_def using names assms(3) shown by metis
  qed
  ultimately show ?thesis
    using assms(1,4) be.step_trans[OF t(2)] by (simp add: stillStaged_def)
qed

text \<open>Saving the next record: either the old one or the new one is there.\<close>

definition advanced :: "fileEnv \<Rightarrow> string \<Rightarrow> transferRecord \<Rightarrow> inodeId \<Rightarrow> fworld \<Rightarrow> transferRecord \<Rightarrow> fworld \<Rightarrow> bool" where
  "advanced E tid r i s r' t = (stagedAt E t tid r' i \<and> besides (inSession E tid) s t \<and>
     r' = r\<lparr>tr_received := tr_received r', tr_expiresUnix := tr_expiresUnix r'\<rparr> \<and> tr_received r \<le> tr_received r' \<and>
     take (nat (tr_received r)) (in_data (inodeAt t i)) = take (nat (tr_received r)) (in_data (inodeAt s i)))"

lemma still_advanced: "stillStaged E tid r i s t \<Longrightarrow> advanced E tid r i s r t"
  by (simp add: stillStaged_def advanced_def)

lemma stored_update:
  "storedRecord r = r \<Longrightarrow> storedRecord (r\<lparr>tr_received := n, tr_expiresUnix := x\<rparr>) = r\<lparr>tr_received := n, tr_expiresUnix := x\<rparr>"
  by (cases r) (simp add: storedRecord_def)

lemma staged_save:
  assumes "undisturbed E" and "stillStaged E tid r i s t"
    and "r' = r\<lparr>tr_received := tr_received r', tr_expiresUnix := tr_expiresUnix r'\<rparr>"
    and "tr_received r \<le> tr_received r'" and "nat (tr_received r') \<le> length (in_data (inodeAt t i))"
  shows "wp (transferSaveRecord E tid r') (\<lambda>res u. in_data (inodeAt u i) = in_data (inodeAt t i) \<and>
     (res \<noteq> Inr () \<and> advanced E tid r i s r u \<or> advanced E tid r i s r' u)) t"
proof (rule wp_mono[OF quiet_save[OF assms(1)]], goal_cases)
  case (1 res u)
  then have b: "besides (journal E tid) t u" and f: "fresher t u"
    and rec: "recordAt E u tid = recordAt E t tid \<and> res \<noteq> Inr () \<or> recordAt E u tid = Some (storedRecord r')" by auto
  have t: "stagedAt E t tid r i" "besides (inSession E tid) s t"
    "take (nat (tr_received r)) (in_data (inodeAt t i)) = take (nat (tr_received r)) (in_data (inodeAt s i))"
    using assms(2) by (auto simp: stillStaged_def)
  have at: "names t (fe_sessionDir E tid, dataName) = Some i" using t(1) by (simp add: stagedAt_def)
  then have shown: "shown u i = shown t i" and at': "names u (fe_sessionDir E tid, dataName) = Some i"
    using besidesD[OF b, of "(fe_sessionDir E tid, dataName)"] by simp_all
  have held: "i \<notin> set (fs_held (fw_fs u))" using b t(1) by (auto simp: besides_def stagedAt_def)
  have only: "names u e = Some i \<longleftrightarrow> e = (fe_sessionDir E tid, dataName)" for e
    using f t(1) at' ranI[of "names t", OF at] unfolding fresher_def stagedAt_def by (metis UnI1)
  have bytes: "in_data (inodeAt u i) = in_data (inodeAt t i)" using shown_same[OF shown] by simp
  have "storedRecord r = r" using t(1) by (simp add: stagedAt_def)
  then have stored: "storedRecord r' = r'" using stored_update assms(3) by metis
  have "besides (inSession E tid) s u"
    by (rule be.step_trans[OF t(2)]) (rule besides_mono[OF b], simp add: journal_def inSession_def)
  moreover have "stagedAt E u tid r i" if "recordAt E u tid = recordAt E t tid"
    using that t(1) only held bytes by (simp add: stagedAt_def)
  moreover have "stagedAt E u tid r' i" if "recordAt E u tid = Some (storedRecord r')"
    using that stored t(1) only held bytes assms(5) by (simp add: stagedAt_def)
  ultimately show ?case
    using rec t(3) bytes assms(3,4) by (auto simp: advanced_def)
qed

section \<open>Chunks\<close>

text \<open>What a chunk answer means.\<close>

definition chunkSaid :: "fileEnv \<Rightarrow> string \<Rightarrow> transferRecord \<Rightarrow> inodeId \<Rightarrow> bytes \<Rightarrow> int \<Rightarrow> fworld \<Rightarrow> Response \<Rightarrow> fworld \<Rightarrow> bool" where
  "chunkSaid E tid r i raw off s resp t = (\<exists>r'. advanced E tid r i s r' t \<and>
     tr_received r' \<le> max (tr_received r) (off + int (length raw)) \<and> (r_ok resp \<longrightarrow>
     r_nextOffset resp = Some (tr_received r') \<and> off + int (length raw) \<le> tr_received r' \<and>
     fe_sha256 E (take (length raw) (drop (nat off) (in_data (inodeAt t i)))) = fe_sha256 E raw))"

lemma chunk_refused: "stillStaged E tid r i s t \<Longrightarrow> \<not> r_ok resp \<Longrightarrow> chunkSaid E tid r i raw off s resp t"
  using still_advanced unfolding chunkSaid_def by (intro exI[of _ r]) auto

lemma errors_not_ok [simp]: "\<not> r_ok (fileError c k m)" "\<not> r_ok (transferError c k m)"
  by (simp_all add: transferError_def fileError_def)

lemma receipt_ok [simp]: "r_ok (transferReceipt r)" "r_nextOffset (transferReceipt r) = Some (tr_received r)"
  by (simp_all add: transferReceipt_def Let_def)

lemma calm_truncate:
  assumes "undisturbed E" and "stillStaged E tid r i s t" and "0 \<le> tr_received r"
  shows "wp (truncateStaged E i (statOf i (inodeAt t i)) r) (\<lambda>res u. stillStaged E tid r i s u \<and>
     (res = Inr () \<longrightarrow> length (in_data (inodeAt u i)) = nat (tr_received r))) t"
proof -
  let ?n = "nat (tr_received r)"
  have len: "?n \<le> length (in_data (inodeAt t i))" using assms(2) by (simp add: stillStaged_def stagedAt_def)
  have cut: "wp (ftruncateFD E i ?n) (\<lambda>res u. stillStaged E tid r i s u \<and> (res = Inr () \<longrightarrow> length (in_data (inodeAt u i)) = ?n)) t"
    unfolding ftruncateFD_def
  proof (rule quiet_fcall[OF assms(1)], goal_cases)
    case (1 e u)
    then show ?case using stillStaged_fs[OF assms(2)] by simp
  next
    case (2 k u)
    let ?v = "setInode i ((inodeAt u i)\<lparr>in_data := take ?n (in_data (inodeAt u i)) @ replicate (?n - length (in_data (inodeAt u i))) (CHR 0x00),
       in_doc := None, in_mtim := fe_now E k, in_ctim := fe_now E k\<rparr>) u"
    have u: "stillStaged E tid r i s u" by (rule stillStaged_fs[OF assms(2) 2])
    have "stillStaged E tid r i s ?v"
      by (rule staged_write[OF u]) (use len inode_fs[OF 2] in \<open>auto simp: preparing_def inode_set lookup_set held_set\<close>)
    then show ?case using len inode_fs[OF 2] by (simp add: Let_def inode_set)
  qed
  have "wp (tryE (ftruncateFD E i ?n) fail (\<lambda>_. fsyncFD E)) (\<lambda>res u. stillStaged E tid r i s u \<and>
     (res = Inr () \<longrightarrow> length (in_data (inodeAt u i)) = ?n)) t"
    unfolding wp_tryE
  proof (rule wp_mono[OF cut], goal_cases)
    case (1 x u)
    then show ?case
      by (cases x) (auto intro!: wp_sameFs[OF sf.on_looks(2) assms(1)] dest: stillStaged_fs inode_fs[of _ u i])
  qed
  then show ?thesis
    unfolding truncateStaged_def using assms(2,3) len by (auto simp del: wp_tryE)
qed


text \<open>Saving the next record and answering with it.\<close>

lemma chunk_saved:
  assumes "undisturbed E" and "stillStaged E tid r i s t" and "0 \<le> tr_received r"
    and "in_data (inodeAt t i) = old @ raw" and "length old = nat (tr_received r)" and "\<not> r_ok bad"
    and "r' = r\<lparr>tr_received := tr_received r + int (length raw), tr_expiresUnix := x\<rparr>"
  shows "wp (tryE (transferSaveRecord E tid r') (\<lambda>_. return bad) (\<lambda>_. return (transferReceipt r')))
     (chunkSaid E tid r i raw (tr_received r) s) t"
  unfolding wp_tryE
proof (rule wp_mono[OF staged_save[OF assms(1,2), of r']], goal_cases)
  case (4 res u)
  then have u: "in_data (inodeAt u i) = old @ raw"
    using assms(4) by simp
  have r': "tr_received r' = tr_received r + int (length raw)" using assms(7) by simp
  show ?case
  proof (cases res)
    case (Inl e)
    then have "advanced E tid r i s r u \<or> advanced E tid r i s r' u" using 4 by auto
    then show ?thesis
      unfolding Inl sum.case wp_return chunkSaid_def using r' assms(6) by (metis max.cobounded1 max.cobounded2 order.refl)
  next
    case (Inr x)
    then have "advanced E tid r i s r' u" using 4 by simp
    then show ?thesis
      unfolding Inr sum.case wp_return chunkSaid_def using u r' assms(3,5) by (intro exI[of _ r']) auto
  qed
qed (use assms(3-5,7) in auto)

lemma calm_append:
  assumes "undisturbed E" and "stillStaged E tid r i s t" and "0 \<le> tr_received r"
    and "length (in_data (inodeAt t i)) = nat (tr_received r)" and "w_offset op = tr_received r"
  shows "wp (appendChunk E op tid r i raw) (chunkSaid E tid r i raw (w_offset op) s) t"
proof -
  let ?n = "nat (tr_received r)"
  have refused: "chunkSaid E tid r i raw (w_offset op) s (transferError c k m) u"
    "chunkSaid E tid r i raw (w_offset op) s (fileError c k m) u" if "stillStaged E tid r i s u" for u c k m
    using chunk_refused[OF that] by simp_all
  have written: "wp (writeAllFD E i ?n raw) (\<lambda>res u. stillStaged E tid r i s u \<and>
      (res = Inr () \<longrightarrow> in_data (inodeAt u i) = in_data (inodeAt t i) @ raw)) v" if v: "fw_fs v = fw_fs t" for v
  proof -
    have bytes: "in_data (inodeAt v i) = in_data (inodeAt t i)" using inode_fs[OF v] by simp
    have "wp (writeAllFD E i ?n raw) (\<lambda>res u. (preparing v i u \<and> (res = Inr () \<longrightarrow> in_data (inodeAt u i) = in_data (inodeAt v i) @ raw \<and>
        in_mode (inodeAt u i) = in_mode (inodeAt v i))) \<and> (preparing v i u \<and> take ?n (in_data (inodeAt u i)) = take ?n (in_data (inodeAt v i)) \<and>
       ?n \<le> length (in_data (inodeAt u i)) \<and> in_mode (inodeAt u i) = in_mode (inodeAt v i) \<and> fs_held (fw_fs u) = fs_held (fw_fs v))) v"
      by (rule wp_conj, rule writeAllFD_appends[OF assms(1)], simp add: bytes assms(4),
          rule writeAllFD_prefix[OF assms(1)], simp_all add: bytes assms(4))
    then show ?thesis
      using staged_write[OF stillStaged_fs[OF assms(2) v]] bytes by (auto elim!: wp_mono)
  qed
  have save: "wp (State_Monad.bind (expiry E op) (\<lambda>x. let r' = r\<lparr>tr_received := tr_received r + int (length raw), tr_expiresUnix := x\<rparr> in
      tryE (transferSaveRecord E tid r') (\<lambda>_. return (transferError c k m)) (\<lambda>_. return (transferReceipt r'))))
      (chunkSaid E tid r i raw (w_offset op) s) u"
    if "stillStaged E tid r i s u" "in_data (inodeAt u i) = in_data (inodeAt t i) @ raw" for u c k m
    using chunk_saved[OF assms(1) that(1) assms(3) that(2) assms(4)] assms(5)
    by (simp add: expiry_def nowUnix_def Let_def del: wp_tryE)
  have sync: "wp (tryE (fsyncFD E) (\<lambda>e. return (fileError c k (emsg e))) (\<lambda>_. State_Monad.bind (expiry E op) (\<lambda>x.
      let r' = r\<lparr>tr_received := tr_received r + int (length raw), tr_expiresUnix := x\<rparr> in
      tryE (transferSaveRecord E tid r') (\<lambda>_. return (transferError c' k' m)) (\<lambda>_. return (transferReceipt r')))))
      (chunkSaid E tid r i raw (w_offset op) s) u"
    if "stillStaged E tid r i s u" "in_data (inodeAt u i) = in_data (inodeAt t i) @ raw" for u c k m c' k'
  proof (rule still_try[OF sf.on_looks(2) assms(1)], goal_cases)
    case (1 e v)
    then show ?case using refused(2)[OF stillStaged_fs[OF that(1)]] by simp
  next
    case (2 x v)
    then show ?case using save[OF stillStaged_fs[OF that(1) 2]] inode_fs[OF 2] that(2) by simp
  qed
  have attempt: "wp (tryE (writeAllFD E i ?n raw) (\<lambda>_. return (transferError c k m)) (\<lambda>_.
      tryE (fsyncFD E) (\<lambda>e. return (fileError c' k' (emsg e))) (\<lambda>_. State_Monad.bind (expiry E op) (\<lambda>x.
      let r' = r\<lparr>tr_received := tr_received r + int (length raw), tr_expiresUnix := x\<rparr> in
      tryE (transferSaveRecord E tid r') (\<lambda>_. return (transferError c2 k2 m2)) (\<lambda>_. return (transferReceipt r'))))))
      (chunkSaid E tid r i raw (w_offset op) s) v" if "fw_fs v = fw_fs t" for v c k m c' k' c2 k2 m2
    unfolding wp_tryE[of "writeAllFD _ _ _ _"]
  proof (rule wp_mono[OF written[OF that]], goal_cases)
    case (1 res u)
    then show ?case using sync[of u] refused(1)[of u] by (cases res) (simp_all del: wp_tryE)
  qed
  show ?thesis
    unfolding appendChunk_def freeSpace_def wp_tryE[of "fcall _ _"]
  proof (rule quiet_fcall[OF assms(1)], goal_cases)
    case (1 e u)
    then show ?case using refused(2)[OF stillStaged_fs[OF assms(2)]] by simp
  next
    case (2 k u)
    then show ?case using attempt[OF 2] refused(1)[OF stillStaged_fs[OF assms(2) 2]] by (simp del: wp_tryE wp_bind)
  qed
qed

lemma calm_replay:
  assumes "undisturbed E" and "stillStaged E tid r i s t" and "0 \<le> w_offset op"
  shows "wp (replayChunk E op r i raw) (chunkSaid E tid r i raw (w_offset op) s) t"
proof -
  have "chunkSaid E tid r i raw (w_offset op) s (transferReceipt r) u"
    if "fw_fs u = fw_fs t" "fe_sha256 E (take (length raw) (drop (nat (w_offset op)) (in_data (inodeAt u i)))) = fe_sha256 E raw"
      "\<not> int (length raw) > tr_received r - w_offset op" for u
    unfolding chunkSaid_def using still_advanced[OF stillStaged_fs[OF assms(2) that(1)]] that(2,3) by auto
  then have compared: "wp (let old = take (length raw) (drop (nat (w_offset op)) (in_data (inodeAt u i))) in
      if length old < length raw then return (fileError c k m)
      else if fe_sha256 E old \<noteq> fe_sha256 E raw then return (transferError c' k' m') else return (transferReceipt r))
      (chunkSaid E tid r i raw (w_offset op) s) u"
    if "fw_fs u = fw_fs t" "\<not> int (length raw) > tr_received r - w_offset op" for u c k m c' k' m'
    unfolding Let_def using that by (intro if_wp) (auto intro!: chunk_refused stillStaged_fs[OF assms(2)])
  have again: "wp (tryE (readAllFD E i) (\<lambda>e. return (fileError c k (emsg e))) (\<lambda>x.
      let old = take (length raw) (drop (nat (w_offset op)) (in_data x)) in
      if length old < length raw then return (fileError c2 k2 m)
      else if fe_sha256 E old \<noteq> fe_sha256 E raw then return (transferError c' k' m') else return (transferReceipt r)))
      (chunkSaid E tid r i raw (w_offset op) s) t"
    if "\<not> int (length raw) > tr_received r - w_offset op" for c k m c' k' m' c2 k2
    unfolding readAllFD_def wp_tryE
  proof (rule quiet_fcall[OF assms(1)], goal_cases)
    case (1 e u)
    then show ?case using chunk_refused[OF stillStaged_fs[OF assms(2)]] by simp
  next
    case (2 k u)
    show ?case unfolding wp_gets sum.case by (rule compared[OF 2 that])
  qed
  show ?thesis
    unfolding replayChunk_def
  proof (rule if_wp, goal_cases)
    case 1
    then show ?case using chunk_refused[OF assms(2)] by simp
  next
    case 2
    then show ?case by (rule again)
  qed
qed

lemma quiet_openWritable:
  assumes "undisturbed E" and "\<And>e t. fw_fs t = fw_fs s \<Longrightarrow> Q (Inl e) t"
    and "\<And>i t. fw_fs t = fw_fs s \<Longrightarrow> names s (d, n) = Some i \<Longrightarrow> Q (Inr i) t"
  shows "wp (openWritable E d n) Q s"
  unfolding openWritable_def
proof (rule quiet_fcall[OF assms(1)], goal_cases)
  case (1 e t)
  then show ?case by (rule assms(2))
next
  case (2 k t)
  then show ?case
    using look_fs[OF 2] assms(2,3) by (auto split: option.split)
qed

lemma calm_accept:
  assumes "undisturbed E" and "stagedAt E s tid r i" and "0 \<le> tr_received r" and "0 \<le> w_offset op"
    and "w_offset op \<le> tr_received r"
  shows "wp (acceptChunk E op tid r raw) (chunkSaid E tid r i raw (w_offset op) s) s"
proof -
  let ?Q = "chunkSaid E tid r i raw (w_offset op) s"
  have refused: "?Q (transferError c k m) u" "?Q (fileError c k m) u" if "stillStaged E tid r i s u" for u c k m
    using chunk_refused[OF that] by simp_all
  have same: "stillStaged E tid r i s u" if "fw_fs u = fw_fs s" for u
    by (rule stillStaged_fs[OF stillStaged_refl[OF assms(2)] that])
  have cut: "wp (tryE (truncateStaged E i (statOf i (inodeAt u i)) r) (\<lambda>e. return (fileError c k (emsg e))) (\<lambda>_.
      if w_offset op < tr_received r then replayChunk E op r i raw else appendChunk E op tid r i raw)) ?Q u"
    if "fw_fs u = fw_fs s" for u c k
    unfolding wp_tryE
  proof (rule wp_mono[OF calm_truncate[OF assms(1) same[OF that] assms(3)]], goal_cases)
    case (1 res v)
    then show ?case
      using refused(2)[of v] calm_replay[OF assms(1) _ assms(4)] calm_append[OF assms(1) _ assms(3)] assms(5)
      by (cases res) auto
  qed
  have inspect: "wp (tryE (fstat E i) (\<lambda>_. return (transferError c k m)) (\<lambda>st.
      if \<not> isRegular (st_mode st) \<or> st_size st < tr_received r then return (transferError c2 k2 m2)
      else tryE (truncateStaged E i st r) (\<lambda>e. return (fileError c' k' (emsg e))) (\<lambda>_.
      if w_offset op < tr_received r then replayChunk E op r i raw else appendChunk E op tid r i raw))) ?Q u"
    if u: "fw_fs u = fw_fs s" for u c k m c' k' c2 k2 m2
    unfolding wp_tryE[of "fstat _ _"]
  proof (rule calm_fstat[OF assms(1)], goal_cases)
    case (1 e v)
    then show ?case using refused(1)[OF same] u by simp
  next
    case (2 v)
    have v: "fw_fs v = fw_fs s" using 2 u by simp
    have "statOf i (inodeAt u i) = statOf i (inodeAt v i)" using inode_fs[OF 2, of i] by simp
    then show ?case
      using refused(1)[OF same[OF v]] cut[OF v] by (simp del: wp_tryE)
  qed
  show ?thesis
    unfolding acceptChunk_def Let_def wp_tryE[of "openWritable _ _ _"]
  proof (rule quiet_openWritable[OF assms(1)], goal_cases)
    case (1 e u)
    then show ?case using refused(2)[OF same] by simp
  next
    case (2 j u)
    then have "j = i" using assms(2) unfolding stagedAt_def by (metis option.inject)
    then show ?case using inspect[OF 2(1)] by (simp del: wp_tryE)
  qed
qed

text \<open>A chunk request.\<close>

definition chunkAnswered :: "fileEnv \<Rightarrow> workspaceFileOperation \<Rightarrow> transferRecord \<Rightarrow> inodeId \<Rightarrow> fworld \<Rightarrow> Response \<Rightarrow> fworld \<Rightarrow> bool" where
  "chunkAnswered E op r i s resp t = (\<exists>r'. advanced E (w_transferID op) r i s r' t \<and> (r_ok resp \<longrightarrow>
     r_nextOffset resp = Some (tr_received r') \<and> (\<exists>raw. decode64Strict (w_chunkBase64 op) = Some raw \<and> raw \<noteq> [] \<and>
       w_offset op + int (length raw) \<le> tr_received r' \<and> tr_received r' \<le> tr_expectedSize r \<and>
       fe_sha256 E raw = w_chunkSHA256 op \<and>
       fe_sha256 E (take (length raw) (drop (nat (w_offset op)) (in_data (inodeAt t i)))) = w_chunkSHA256 op)))"

lemma chunk_unanswered:
  assumes "stagedAt E s (w_transferID op) r i" and "fw_fs t = fw_fs s" and "\<not> r_ok resp"
  shows "chunkAnswered E op r i s resp t"
  unfolding chunkAnswered_def
  using still_advanced[OF stillStaged_fs[OF stillStaged_refl[OF assms(1)] assms(2)]] assms(3) by blast

lemma calm_chunk:
  assumes "undisturbed E" and "stagedAt E s (w_transferID op) r i" and "validRecord r" and "0 \<le> w_offset op"
  shows "wp (transferChunk E op (w_transferID op) r) (chunkAnswered E op r i s) s"
proof -
  note refused = chunk_unanswered[OF assms(2) refl]
  have bounds: "0 \<le> tr_received r" "tr_received r \<le> tr_expectedSize r" using assms(3) by (auto simp: validRecord_def)
  have accept: "wp (acceptChunk E op (w_transferID op) r raw) (chunkAnswered E op r i s) s"
    if "decode64Strict (w_chunkBase64 op) = Some raw" "raw \<noteq> []" "fe_sha256 E raw = w_chunkSHA256 op"
      "w_offset op \<le> tr_received r" "int (length raw) \<le> tr_expectedSize r - w_offset op" for raw
  proof (rule wp_mono[OF calm_accept[OF assms(1,2) bounds(1) assms(4) that(4)]])
    fix resp t
    assume "chunkSaid E (w_transferID op) r i raw (w_offset op) s resp t"
    then obtain r' where "advanced E (w_transferID op) r i s r' t" "tr_received r' \<le> max (tr_received r) (w_offset op + int (length raw))"
      and "r_ok resp \<longrightarrow> r_nextOffset resp = Some (tr_received r') \<and> w_offset op + int (length raw) \<le> tr_received r' \<and>
        fe_sha256 E (take (length raw) (drop (nat (w_offset op)) (in_data (inodeAt t i)))) = fe_sha256 E raw"
      unfolding chunkSaid_def by blast
    moreover from this(2) have "tr_received r' \<le> tr_expectedSize r" using bounds(2) that(5) by auto
    ultimately show "chunkAnswered E op r i s resp t"
      unfolding chunkAnswered_def using that(1-3) by (intro exI[of _ r']) simp
  qed
  show ?thesis
    unfolding transferChunk_def Let_def wp_option using refused
    by (auto intro!: accept split: option.split)
qed

lemma calm_continueChunk:
  assumes "undisturbed E" and "stagedAt E s (w_transferID op) r i" and "0 \<le> w_offset op" and "w_transferOp op = ''chunk''"
  shows "wp (continueTransfer E op now) (chunkAnswered E op r i s) s"
proof -
  have same: "chunkAnswered E op r i s resp t" if "fw_fs t = fw_fs s" "\<not> r_ok resp" for resp t
    by (rule chunk_unanswered[OF assms(2) that])
  have later: "chunkAnswered E op r i s resp t" if "chunkAnswered E op r i u resp t" "fw_fs u = fw_fs s" for u resp t
    using that names_fs[OF that(2)] shown_fs[OF that(2)] inode_fs[OF that(2)]
    by (simp add: chunkAnswered_def advanced_def besides_def)
  have chunk: "wp (transferChunk E op (w_transferID op) r) (chunkAnswered E op r i s) u" if "fw_fs u = fw_fs s" "validRecord r" for u
    by (rule wp_mono[OF calm_chunk[OF assms(1) stagedAt_fs[OF assms(2) that(1)] that(2) assms(3)]]) (rule later[OF _ that(1)])
  show ?thesis
    unfolding continueTransfer_def Let_def wp_tryE[of "transferReadRecord _ _"]
  proof (rule wp_mono[OF quiet_readRecord[OF assms(1)]], goal_cases)
    case (1 x u)
    then have u: "fw_fs u = fw_fs s" by blast
    have at: "recordAt E s (w_transferID op) = Some r" using assms(2) by (simp add: stagedAt_def)
    show ?case
    proof (cases x)
      case (Inl e)
      then show ?thesis using same[OF u] by simp
    next
      case (Inr q)
      then have "q = r" "validRecord r" using 1 at by auto
      then show ?thesis
        unfolding Inr sum.case using same[OF u] chunk[OF u] assms(4) by (intro if_wp) auto
    qed
  qed
qed

section \<open>Requests\<close>

text \<open>A request either fails before it touches anything, or is valid and goes to its handler.\<close>

lemma quiet_worker:
  assumes "undisturbed E" and "\<And>resp t. fw_fs t = fw_fs s \<Longrightarrow> \<not> r_ok resp \<Longrightarrow> Q resp t"
    and "\<And>now t. fw_fs t = fw_fs s \<Longrightarrow> validateWorkspaceTransferRequest (transferRequest op) = Inr () \<Longrightarrow>
      wp (if w_transferOp op = ''begin'' then beginTransfer E op now else continueTransfer E op now) Q t"
  shows "wp (workerWorkspaceTransfer E op) Q s"
proof (cases "validateWorkspaceTransferRequest (transferRequest op)")
  case (Inl e)
  then show ?thesis unfolding workerWorkspaceTransfer_def by (simp add: assms(2))
next
  case (Inr x)
  then have valid: "validateWorkspaceTransferRequest (transferRequest op) = Inr ()" by simp
  have run: "wp (State_Monad.bind (nowUnix E) (\<lambda>now. if w_transferOp op = ''begin'' then beginTransfer E op now else continueTransfer E op now)) Q t"
    if "fw_fs t = fw_fs s" for t
    using assms(3)[OF that valid] by (simp add: nowUnix_def)
  have locked: "wp (withStaging E busy (State_Monad.bind (nowUnix E) (\<lambda>now. if w_transferOp op = ''begin'' then beginTransfer E op now
      else continueTransfer E op now))) Q t" if t: "fw_fs t = fw_fs s" for t busy
    unfolding withStaging_def lockStaging_def wp_tryE[of "fcall _ _"]
  proof (rule quiet_fcall[OF assms(1)], goal_cases)
    case (1 e u)
    then show ?case using t by (simp add: assms(2))
  next
    case (2 k u)
    have u: "fw_fs u = fw_fs s" using 2 t by simp
    show ?case
      unfolding wp_return sum.case
    proof (rule quiet_fcall[OF assms(1)], goal_cases)
      case (1 e v)
      then show ?case using u by (simp add: assms(2))
    next
      case (2 j v)
      then show ?case using u run[of v] by (simp add: assms(2) del: wp_bind)
    qed
  qed
  show ?thesis
    unfolding workerWorkspaceTransfer_def valid sum.case
  proof (rule if_wp, goal_cases)
    case 1
    then show ?case by (simp add: assms(2))
  next
    case 2
    show ?case
      by (rule still_try[OF sf.on_openWorkerWorkspace assms(1)]) (use locked assms(2) in simp_all)
  qed
qed

lemma valid_chunk:
  "validateWorkspaceTransferRequest (transferRequest op) = Inr () \<Longrightarrow> w_transferOp op = ''chunk'' \<Longrightarrow> 0 \<le> w_offset op"
  by (auto simp: validateWorkspaceTransferRequest_def validTransferStep_def transferRequest_def Let_def split: sum.splits if_splits)

lemma calm_chunkRequest:
  assumes "undisturbed E" and "stagedAt E s (w_transferID op) r i" and "w_transferOp op = ''chunk''"
  shows "wp (workerWorkspaceTransfer E op) (chunkAnswered E op r i s) s"
proof (rule quiet_worker[OF assms(1)], goal_cases)
  case (1 resp t)
  then show ?case by (rule chunk_unanswered[OF assms(2)])
next
  case (2 now t)
  have "chunkAnswered E op r i s resp u" if "chunkAnswered E op r i t resp u" for resp u
    using that names_fs[OF 2(1)] shown_fs[OF 2(1)] inode_fs[OF 2(1)] 2(1) by (simp add: chunkAnswered_def advanced_def besides_def)
  then show ?case
    using wp_mono[OF calm_continueChunk[OF assms(1) stagedAt_fs[OF assms(2) 2(1)] valid_chunk[OF 2(2) assms(3)] assms(3)]] assms(3)
    by simp
qed

text \<open>A handle opens no other transfer.\<close>

lemma calm_scope:
  assumes "undisturbed E" and "w_transferOp op \<noteq> ''begin''" and "recordAt E s (w_transferID op) = Some r" and "\<not> sameTransfer op r"
  shows "wp (workerWorkspaceTransfer E op) (\<lambda>resp t. \<not> r_ok resp \<and> fw_fs t = fw_fs s) s"
proof (rule quiet_worker[OF assms(1)], goal_cases)
  case (1 resp t)
  then show ?case by simp
next
  case (2 now t)
  have "wp (continueTransfer E op now) (\<lambda>resp t. \<not> r_ok resp \<and> fw_fs t = fw_fs s) t"
    unfolding continueTransfer_def Let_def wp_tryE[of "transferReadRecord _ _"]
  proof (rule wp_mono[OF quiet_readRecord[OF assms(1)]], goal_cases)
    case (1 x u)
    then have "x = Inr q \<Longrightarrow> q = r" for q using assms(3) recordAt_fs[OF 2(1)] by auto
    then show ?case using 1 2(1) assms(4) by (cases x) auto
  qed
  then show ?case using assms(2) by simp
qed

end
