(* ===== verification/TransferVerified.thy ===== *)
theory TransferVerified
  imports TransferChunks
begin

text \<open>
  Why a transfer publishes nothing but bytes with the declared digest. The hash state in the manifest
  always is the state after the prepared bytes that were checkpointed, whatever call fails, so that a
  commit that is spread over many requests ends with a digest of the whole prepared file.
\<close>

section \<open>Hash states\<close>

text \<open>What is relied on of SHA-256: hashing goes on from a saved state as if it had not been interrupted.\<close>

definition hashLaws :: "fileEnv \<Rightarrow> bool" where
  "hashLaws E = ((\<forall>h a b. fe_shaWrite E (fe_shaWrite E h a) b = fe_shaWrite E h (a @ b)) \<and> (\<forall>h. fe_shaWrite E h [] = h) \<and>
     (\<forall>b. fe_shaSum E (fe_shaWrite E (fe_shaNew E) b) = fe_sha256 E b) \<and>
     (\<forall>h. fe_shaLoad E (fe_shaSave E h) = Inr h) \<and> (\<forall>h. ascii (fe_shaSave E h)))"

definition hashed :: "fileEnv \<Rightarrow> bytes \<Rightarrow> nat" where
  "hashed E b = fe_shaWrite E (fe_shaNew E) b"

lemma hashed_laws:
  assumes "hashLaws E"
  shows "fe_shaNew E = hashed E []" "fe_shaWrite E (hashed E a) b = hashed E (a @ b)" "fe_shaSum E (hashed E b) = fe_sha256 E b"
    "fe_shaLoad E (fe_shaSave E h) = Inr h" "ascii (fe_shaSave E h)"
  using assms by (auto simp: hashLaws_def hashed_def)

section \<open>Sound manifests\<close>

definition preparedInode :: "transferRecord \<Rightarrow> inodeId" where
  "preparedInode r = Ino (tr_preparedDev r) (tr_preparedIno r)"

lemma isPrepared_statOf: "isPrepared r (statOf q x) \<longleftrightarrow> q = preparedInode r"
  by (cases q) (auto simp: isPrepared_def statOf_def preparedInode_def)

text \<open>The inode is at the destination's name \<open>b\<close> or at the prepared name \<open>tmp\<close> beside it.\<close>

definition atDest :: "nat \<Rightarrow> string \<Rightarrow> string \<Rightarrow> fworld \<Rightarrow> inodeId \<Rightarrow> bool" where
  "atDest d tmp b s q = (names s (d, tmp) = Some q \<or> names s (d, b) = Some q)"

text \<open>The checkpoint is about the bytes that are there; once the intent to publish is recorded, their digest is the declared one.\<close>

definition sound :: "fileEnv \<Rightarrow> nat \<Rightarrow> string \<Rightarrow> string \<Rightarrow> transferRecord \<Rightarrow> fworld \<Rightarrow> bool" where
  "sound E d tmp b r s = (tr_tempName r = tmp \<and> ascii tmp \<and> ascii (tr_sha256 r) \<and> ascii (tr_preparedHash r) \<and> ascii (tr_status r) \<and>
     (tr_status r = ''preparing'' \<longrightarrow> atDest d tmp b s (preparedInode r) \<longrightarrow>
        nat (tr_preparedBytes r) \<le> length (in_data (inodeAt s (preparedInode r))) \<longrightarrow>
        fe_shaLoad E (tr_preparedHash r) = Inr (hashed E (take (nat (tr_preparedBytes r)) (in_data (inodeAt s (preparedInode r)))))) \<and>
     (tr_status r = ''committing'' \<longrightarrow> atDest d tmp b s (preparedInode r) \<longrightarrow>
        fe_sha256 E (in_data (inodeAt s (preparedInode r))) = tr_sha256 r))"

text \<open>Between requests: the manifest is sound, and its file is not linked to the destination.\<close>

definition settled :: "fileEnv \<Rightarrow> string \<Rightarrow> nat \<Rightarrow> string \<Rightarrow> string \<Rightarrow> fworld \<Rightarrow> bool" where
  "settled E tid d tmp b s = ((\<forall>q. atDest d tmp b s q \<longrightarrow> names s (fe_sessionDir E tid, manifestName) \<noteq> Some q) \<and>
     (\<exists>r. recordAt E s tid = Some r \<and> sound E d tmp b r s))"

text \<open>A step that puts no other bytes at the destination, and no unsound manifest in the session.\<close>

definition settles :: "fileEnv \<Rightarrow> string \<Rightarrow> nat \<Rightarrow> string \<Rightarrow> string \<Rightarrow> fworld \<Rightarrow> fworld \<Rightarrow> bool" where
  "settles E tid d tmp b s t = ((\<forall>q. atDest d tmp b t q \<longrightarrow> atDest d tmp b s q \<and> in_data (inodeAt t q) = in_data (inodeAt s q) \<and>
        (names t (fe_sessionDir E tid, manifestName) = Some q \<longrightarrow> names s (fe_sessionDir E tid, manifestName) = Some q)) \<and>
     (recordAt E t tid = recordAt E s tid \<or> (\<exists>r. recordAt E t tid = Some r \<and> sound E d tmp b r t)))"

lemma sound_settles: "sound E d tmp b r s \<Longrightarrow> settles E tid d tmp b s t \<Longrightarrow> sound E d tmp b r t"
  unfolding sound_def settles_def by metis

lemma settled_settles: "settled E tid d tmp b s \<Longrightarrow> settles E tid d tmp b s t \<Longrightarrow> settled E tid d tmp b t"
  using sound_settles[of E d tmp b _ s tid t] unfolding settled_def settles_def by metis

interpretation st: frame "settles E tid d tmp b" for E tid d tmp b
proof
  show "settles E tid d tmp b s s" for s
    by (simp add: settles_def)
  show "settles E tid d tmp b s u" if "settles E tid d tmp b s t" "settles E tid d tmp b t u" for s t u
  proof -
    have "sound E d tmp b r u" if "sound E d tmp b r t" for r
      by (rule sound_settles[OF that \<open>settles E tid d tmp b t u\<close>])
    then show ?thesis using that unfolding settles_def by metis
  qed
qed

lemma settles_fs:
  assumes "fw_fs t = fw_fs s"
  shows "settles E tid d tmp b s t"
  using recordAt_fs[OF assms] names_fs[OF assms] inode_fs[OF assms] by (simp add: settles_def atDest_def)

text \<open>Everything in the directory as it was.\<close>

definition sameDir :: "nat \<Rightarrow> fworld \<Rightarrow> fworld \<Rightarrow> bool" where
  "sameDir d s t = (\<forall>n. names t (d, n) = names s (d, n) \<and> (\<forall>q. names s (d, n) = Some q \<longrightarrow> shown t q = shown s q))"

lemma sameDir_besides:
  assumes "besides (inSession E tid) s t" and "d \<noteq> fe_sessionDir E tid"
  shows "sameDir d s t"
proof -
  have "\<not> inSession E tid (d, n)" for n using assms(2) by (simp add: inSession_def)
  then show ?thesis unfolding sameDir_def using besidesD[OF assms(1)] by blast
qed

lemma sameDir_fs: "fw_fs t = fw_fs s \<Longrightarrow> sameDir d s t"
  using names_fs[of t s] shown_fs[of t s] by (simp add: sameDir_def)

lemma sameDir_trans: "sameDir d s t \<Longrightarrow> sameDir d t u \<Longrightarrow> sameDir d s u"
  by (simp add: sameDir_def)

lemma sameDir_at:
  assumes "sameDir d s t" and "atDest d tmp b t q"
  shows "atDest d tmp b s q" and "in_data (inodeAt t q) = in_data (inodeAt s q)" and "q \<in> ran (names s)"
proof -
  have same: "names t (d, n) = names s (d, n)" "names s (d, n) = Some q \<Longrightarrow> shown t q = shown s q" for n
    using assms(1) by (simp_all add: sameDir_def)
  then show at: "atDest d tmp b s q" using assms(2) by (simp add: atDest_def)
  then have "shown t q = shown s q" using same(2) by (auto simp: atDest_def)
  then show "in_data (inodeAt t q) = in_data (inodeAt s q)" using shown_same by blast
  show "q \<in> ran (names s)" using at by (auto simp: atDest_def intro: ranI)
qed

lemma sound_sameDir: "sound E d tmp b r s \<Longrightarrow> sameDir d s t \<Longrightarrow> sound E d tmp b r t"
  using sameDir_at[of d s t tmp b "preparedInode r"] by (simp add: sound_def)

text \<open>The ways a step settles: the destination's directory stays as it is, or names in it are moved or removed.\<close>

lemma settles_sameDir:
  assumes "sameDir d s t" and "fresher s t" and "recordAt E t tid = recordAt E s tid \<or> (\<exists>r. recordAt E t tid = Some r \<and> sound E d tmp b r t)"
  shows "settles E tid d tmp b s t"
  using assms(3) sameDir_at[OF assms(1), of tmp b] assms(2) unfolding settles_def fresher_def by blast

lemma settles_names:
  assumes "\<And>q. atDest d tmp b t q \<Longrightarrow> atDest d tmp b s q" and "shown t = shown s"
    and "\<And>n. names t (fe_sessionDir E tid, n) = names s (fe_sessionDir E tid, n)"
  shows "settles E tid d tmp b s t"
proof -
  have "recordAt E t tid = recordAt E s tid"
    by (rule recordAt_names) (simp_all add: assms(2,3))
  moreover have "in_data (inodeAt t q) = in_data (inodeAt s q)" for q
    using shown_same[of t q s q] assms(2) by simp
  ultimately show ?thesis using assms(1,3) by (simp add: settles_def)
qed

section \<open>Steps\<close>

lemma sound_stored: "sound E d tmp b r s \<Longrightarrow> sound E d tmp b (storedRecord r) s"
proof -
  assume s: "sound E d tmp b r s"
  then have c: "cleanText (tr_tempName r) = tr_tempName r" "cleanText (tr_sha256 r) = tr_sha256 r"
    "cleanText (tr_preparedHash r) = tr_preparedHash r" "cleanText (tr_status r) = tr_status r"
    by (auto simp: sound_def intro: cleanText_ascii)
  have "tr_tempName (storedRecord r) = tr_tempName r" "tr_sha256 (storedRecord r) = tr_sha256 r" "tr_preparedHash (storedRecord r) = tr_preparedHash r"
    "tr_status (storedRecord r) = tr_status r" "preparedInode (storedRecord r) = preparedInode r" "tr_preparedBytes (storedRecord r) = tr_preparedBytes r"
    using c by (simp_all add: storedRecord_def preparedInode_def)
  then show ?thesis using s by (simp add: sound_def)
qed

lemma settle_save:
  assumes "undisturbed E" and "d \<noteq> fe_sessionDir E tid" and "sound E d tmp b r s"
  shows "wp (transferSaveRecord E tid r) (\<lambda>res t. settles E tid d tmp b s t \<and> sameDir d s t \<and> fresher s t \<and>
     fs_held (fw_fs t) = fs_held (fw_fs s) \<and> (\<forall>i\<in>set (fs_held (fw_fs s)). shown t i = shown s i) \<and>
     (res = Inr () \<longrightarrow> recordAt E t tid = Some (storedRecord r))) s"
proof (rule wp_mono[OF quiet_save[OF assms(1)]], goal_cases)
  case (1 res t)
  then have b: "besides (journal E tid) s t" "fresher s t" by auto
  have same: "sameDir d s t"
    by (rule sameDir_besides[OF besides_mono[OF b(1)] assms(2)]) (simp add: journal_def inSession_def)
  have "sound E d tmp b (storedRecord r) t"
    by (rule sound_stored[OF sound_sameDir[OF assms(3) same]])
  then show ?case using 1 same b settles_sameDir[OF same b(2), of E tid tmp b] by (auto simp: besides_def)
qed

lemma quiet_path:
  assumes "undisturbed E" and "\<And>e t. fw_fs t = fw_fs s \<Longrightarrow> Q (Inl e) t"
    and "\<And>t. fw_fs t = fw_fs s \<Longrightarrow> Q (Inr (map_option (\<lambda>i. statOf i (inodeAt s i)) (names s (d, n)))) t"
  shows "wp (pathState E d n) Q s"
proof -
  have sure: "fe_fault E k = Some e \<Longrightarrow> \<not> isNotExist e" for k e using assms(1) by (auto simp: undisturbed_def)
  have fs: "fw_fs (fadvance E s) = fw_fs s" by (rule undisturbed_advance[OF assms(1)])
  show ?thesis
    unfolding pathState_def using sure assms(2)[OF fs] assms(3)[OF fs]
    by (auto simp: wp_fcall look_fs[OF fs] inode_fs[OF fs] split: option.split)
qed

lemma quiet_destination:
  assumes "undisturbed E" and "\<And>e t. fw_fs t = fw_fs s \<Longrightarrow> Q (Inl e) t"
    and "\<And>t. fw_fs t = fw_fs s \<Longrightarrow> names s (d, n) = None \<Longrightarrow> Q (Inr None) t"
    and "\<And>i t. fw_fs t = fw_fs s \<Longrightarrow> names s (d, n) = Some i \<Longrightarrow> Q (Inr (Some (statOf i (inodeAt s i)))) t"
  shows "wp (destinationState E d n) Q s"
  unfolding destinationState_def wp_tryE
  by (rule quiet_path[OF assms(1)]) (use assms(2-4) in \<open>auto split: option.split\<close>)

lemma calm_parent:
  assumes "undisturbed E" and "workerDir E op (w_path op) = Some (d, c)"
  shows "wp (openWorkerParentForTransfer E op) (\<lambda>r t. fw_fs t = fw_fs s \<and> (\<forall>d'. r = Inr d' \<longrightarrow> d' = d)) s"
proof -
  have fs: "fw_fs (fadvance E w) = fw_fs w" for w by (rule undisturbed_advance[OF assms(1)])
  have steady: "fe_openDir E k how b p = fe_openDir E 0 how b p" for k how b p
    by (simp only: openDir_steady[OF assms(1), of k])
  have top: "wp (openWorkerWorkspace E op) (\<lambda>r t. fw_fs t = fw_fs s \<and> (\<forall>ws. r = Inr ws \<longrightarrow> workspaceAt E op = Some ws)) s"
    unfolding openWorkerWorkspace_def openDir_def workspaceAt_def Let_def
    by (auto simp: wp_fcall fs steady[of "fw_tick _"] split: option.splits sum.splits)
  have parent: "wp (openWorkerParent E ws (w_path op)) (\<lambda>r t. fw_fs t = fw_fs u \<and>
      (\<forall>x. r = Inr x \<longrightarrow> fst x = d)) u" if "workspaceAt E op = Some ws" for ws u
    using that assms(2) unfolding openWorkerParent_def openDir_def workerDir_def
    by (auto simp: wp_fcall fs steady[of "fw_tick _"] split: option.splits sum.splits)
  have rest: "wp (tryE (openWorkerParent E ws (w_path op)) fail (\<lambda>(d, _). tryE (rejectPseudoFilesystem E) fail (\<lambda>_. ok d)))
      (\<lambda>r t. fw_fs t = fw_fs s \<and> (\<forall>d'. r = Inr d' \<longrightarrow> d' = d)) u" if "workspaceAt E op = Some ws" "fw_fs u = fw_fs s" for ws u
    unfolding wp_tryE[of "openWorkerParent _ _ _"]
    by (rule wp_mono[OF parent[OF that(1)]])
      (auto split: sum.split simp: that(2) simp del: wp_tryE intro!: still_try[OF sf.on_looks(4) assms(1)])
  show ?thesis
    unfolding openWorkerParentForTransfer_def wp_tryE[of "openWorkerWorkspace _ _"]
    by (rule wp_mono[OF top]) (auto split: sum.split simp del: wp_tryE intro!: rest)
qed

text \<open>One step of a program, seen from a state \<open>s0\<close> before it.\<close>

lemma settle_try:
  assumes "settles E tid d tmp b s0 s" and "wp m (\<lambda>_ t. settles E tid d tmp b s t) s"
    and "\<And>e t. settles E tid d tmp b s0 t \<Longrightarrow> wp (h e) Q t" and "\<And>x t. settles E tid d tmp b s0 t \<Longrightarrow> wp (f x) Q t"
  shows "wp (tryE m h f) Q s"
  unfolding wp_tryE
  by (rule wp_mono[OF assms(2)]) (auto split: sum.split dest: st.step_trans[OF assms(1)] intro: assms(3,4))

lemma settle_look:
  assumes "settles E tid d tmp b s0 s" and "state_io_rel (sameFs E) m" and "undisturbed E"
    and "\<And>e t. settles E tid d tmp b s0 t \<Longrightarrow> wp (h e) Q t" and "\<And>x t. settles E tid d tmp b s0 t \<Longrightarrow> wp (f x) Q t"
  shows "wp (tryE m h f) Q s"
  by (rule settle_try[OF assms(1) wp_sameFs[OF assms(2,3) settles_fs] assms(4,5)])

lemma settle_parent:
  assumes "settles E tid d tmp b s0 s" and "undisturbed E" and "workerDir E op (w_path op) = Some (d, c)"
    and "\<And>e t. settles E tid d tmp b s0 t \<Longrightarrow> wp (h e) Q t" and "\<And>t. settles E tid d tmp b s0 t \<Longrightarrow> wp (f d) Q t"
  shows "wp (tryE (openWorkerParentForTransfer E op) h f) Q s"
  unfolding wp_tryE
proof (rule wp_mono[OF calm_parent[OF assms(2,3)]], goal_cases)
  case (1 x t)
  then have t: "settles E tid d tmp b s0 t" using st.step_trans[OF assms(1) settles_fs] by blast
  show ?case using 1 assms(4)[OF t] assms(5)[OF t] by (cases x) auto
qed

lemma settle_moves:
  assumes "undisturbed E" and "d \<noteq> fe_sessionDir E tid"
  shows "wp (renameExchange E d tmp b) (\<lambda>_ t. settles E tid d tmp b s t) s"
    and "wp (renameNoReplace E d tmp b) (\<lambda>_ t. settles E tid d tmp b s t) s"
    and "wp (unlinkAt E d n) (\<lambda>_ t. settles E tid d tmp b s t) s"
proof -
  have dir: "fe_sessionDir E tid = d \<longleftrightarrow> False" using assms(2) by auto
  show "wp (renameExchange E d tmp b) (\<lambda>_ t. settles E tid d tmp b s t) s"
    by (rule quiet_exchange[OF assms(1)], erule settles_fs, rule settles_names) (auto simp: atDest_def dir split: if_splits)
  show "wp (renameNoReplace E d tmp b) (\<lambda>_ t. settles E tid d tmp b s t) s"
    by (rule quiet_noReplace[OF assms(1)], erule settles_fs, rule settles_names) (auto simp: atDest_def dir split: if_splits)
  show "wp (unlinkAt E d n) (\<lambda>_ t. settles E tid d tmp b s t) s"
    by (rule quiet_unlink[OF assms(1)], erule settles_fs, rule settles_names) (auto simp: atDest_def dir split: if_splits)
qed

lemma settle_removeData:
  assumes "undisturbed E" and "d \<noteq> fe_sessionDir E tid"
  shows "wp (transferRemoveData E tid) (\<lambda>_ t. settles E tid d tmp b s t \<and> sameDir d s t) s"
proof -
  have fs: "settles E tid d tmp b s t \<and> sameDir d s t" if "settles E tid d tmp b s u \<and> sameDir d s u" "fw_fs t = fw_fs u" for t u
    using that st.step_trans[OF _ settles_fs[OF that(2)]] sameDir_trans[OF _ sameDir_fs[OF that(2)]] by blast
  have sync: "wp (fsyncFD E) (\<lambda>_ t. settles E tid d tmp b s t \<and> sameDir d s t) v" if "settles E tid d tmp b s v \<and> sameDir d s v" for v
    by (rule wp_sameFs[OF sf.on_looks(2) assms(1)]) (rule fs[OF that])
  have unlink: "wp (unlinkAt E (fe_sessionDir E tid) dataName) (\<lambda>_ t. settles E tid d tmp b s t \<and> sameDir d s t) u"
    if u: "fw_fs u = fw_fs s" for u
  proof (rule quiet_unlink[OF assms(1)], goal_cases)
    case (1 e t)
    then show ?case using settles_fs sameDir_fs u by simp
  next
    case (2 x t)
    then have t: "names t = (names s)((fe_sessionDir E tid, dataName) := None)" "shown t = shown s"
      using names_fs[OF u] shown_fs[OF u] by (auto simp: fun_eq_iff)
    then have same: "sameDir d s t" using assms(2) by (simp add: sameDir_def)
    have "recordAt E t tid = recordAt E s tid"
      by (rule recordAt_names) (simp_all add: t manifestName_def dataName_def)
    moreover have "fresher s t" using t(1) by (auto simp: fresher_def split: if_splits)
    ultimately show ?case using same settles_sameDir[OF same] by blast
  qed
  have removed: "wp (tryE (unlinkAt E (fe_sessionDir E tid) dataName) (\<lambda>e. if isNotExist e then fsyncFD E else fail e) (\<lambda>_. fsyncFD E))
      (\<lambda>_ t. settles E tid d tmp b s t \<and> sameDir d s t) u" if "fw_fs u = fw_fs s" for u
    unfolding wp_tryE
    by (rule wp_mono[OF unlink[OF that]]) (use sync in \<open>auto split: sum.split\<close>)
  show ?thesis
    unfolding transferRemoveData_def wp_tryE[of "openSession _ _"]
  proof (rule wp_mono[OF quiet_openSession[OF assms(1)]], goal_cases)
    case (1 x t)
    then show ?case
      using removed[of t] settles_fs[of t s] sameDir_fs[of t s] by (cases x) (simp_all del: wp_tryE)
  qed
qed

section \<open>Publication\<close>

text \<open>What a commit may answer: a committed transfer's destination holds bytes with the declared size and digest.\<close>

definition holdsDeclared :: "fileEnv \<Rightarrow> nat \<Rightarrow> string \<Rightarrow> transferRecord \<Rightarrow> fworld \<Rightarrow> bool" where
  "holdsDeclared E d b r t = (\<exists>q. names t (d, b) = Some q \<and> fe_sha256 E (in_data (inodeAt t q)) = tr_sha256 r \<and>
     int (length (in_data (inodeAt t q))) = tr_expectedSize r)"

definition saysCommitted :: "Response \<Rightarrow> bool" where
  "saysCommitted resp = (r_ok resp \<and> r_status resp = ''committed'')"

definition outcome :: "fileEnv \<Rightarrow> string \<Rightarrow> nat \<Rightarrow> string \<Rightarrow> string \<Rightarrow> transferRecord \<Rightarrow> fworld \<Rightarrow> Response \<Rightarrow> fworld \<Rightarrow> bool" where
  "outcome E tid d tmp b r s resp t = (settles E tid d tmp b s t \<and> (saysCommitted resp \<longrightarrow> holdsDeclared E d b r t))"

lemma says_not [simp]: "\<not> saysCommitted (fileError c k m)" "\<not> saysCommitted (transferError c k m)" "\<not> saysCommitted (unresolved m)"
  by (simp_all add: saysCommitted_def unresolved_def)

lemma not_ok_says [simp]: "\<not> r_ok resp \<Longrightarrow> \<not> saysCommitted resp"
  by (simp add: saysCommitted_def)

lemma outcome_not: "settles E tid d tmp b s t \<Longrightarrow> \<not> saysCommitted resp \<Longrightarrow> outcome E tid d tmp b r s resp t"
  by (simp add: outcome_def)

lemma outcome_same:
  "tr_sha256 r' = tr_sha256 r \<Longrightarrow> tr_expectedSize r' = tr_expectedSize r \<Longrightarrow> outcome E tid d tmp b r' = outcome E tid d tmp b r"
  by (simp add: outcome_def holdsDeclared_def fun_eq_iff)

text \<open>A record in another state is sound whatever is there.\<close>

lemma sound_other:
  assumes "sound E d tmp b r s" and "tr_tempName r' = tr_tempName r" and "tr_sha256 r' = tr_sha256 r" and "ascii (tr_preparedHash r')"
    and "ascii (tr_status r')" and "tr_status r' \<noteq> ''preparing''" and "tr_status r' \<noteq> ''committing''"
  shows "sound E d tmp b r' t"
  using assms by (simp add: sound_def)

lemma ascii_statuses [simp]:
  "ascii ''conflicted''" "ascii ''committed''" "ascii ''committing''" "ascii ''preparing''" "ascii ''uploading''" "ascii []"
  by (simp_all add: ascii_def)

lemma sound_hash: "sound E d tmp b r s \<Longrightarrow> ascii (tr_preparedHash r)"
  by (simp add: sound_def)

lemma settle_cleanup:
  assumes "undisturbed E" and "d \<noteq> fe_sessionDir E tid" and "workerDir E op (w_path op) = Some (d, c)" and "settles E tid d tmp b s0 s"
  shows "wp (transferCleanupUnpublishedTemp E op r) (\<lambda>_ t. settles E tid d tmp b s0 t) s"
proof -
  have unlink: "wp (tryE (unlinkAt E d n) fail (\<lambda>_. fsyncFD E)) (\<lambda>_ t. settles E tid d tmp b s0 t) u" if "settles E tid d tmp b s0 u" for u n
    by (rule settle_try[OF that settle_moves(3)[OF assms(1,2)]])
      (auto intro!: wp_sameFs[OF sf.on_looks(2) assms(1)] dest: st.step_trans[OF _ settles_fs])
  have inspect: "wp (tryE (pathState E d n) fail (\<lambda>found. case found of
          None \<Rightarrow> ok ()
        | Some st \<Rightarrow>
          if \<not> isRegular (st_mode st) \<or> st_uid st \<noteq> fe_euid E then fail e1
          else if tr_preparedDev r = 0 \<or> tr_preparedIno r = 0 \<or> \<not> isPrepared r st then fail e2
          else tryE (unlinkAt E d n) fail (\<lambda>_. fsyncFD E))) (\<lambda>_ t. settles E tid d tmp b s0 t) u" if "settles E tid d tmp b s0 u" for u n e1 e2
    by (rule settle_look[OF that sf.on_pathState assms(1)]) (auto split: option.split simp del: wp_tryE intro!: unlink)
  show ?thesis
    unfolding transferCleanupUnpublishedTemp_def
    by (rule if_wp, simp add: assms(4), rule settle_parent[OF assms(4,1,3)], simp, rule inspect)
qed

lemma settle_terminal:
  assumes "undisturbed E" and "d \<noteq> fe_sessionDir E tid" and "workerDir E op (w_path op) = Some (d, c)" and "settles E tid d tmp b s0 s"
  shows "wp (transferTerminalReceipt E op tid r) (\<lambda>resp t. settles E tid d tmp b s0 t \<and> (r_ok resp \<longrightarrow> r_status resp = tr_status r)) s"
proof -
  have remove: "wp (tryE (transferRemoveData E tid) (\<lambda>e. return (fileError k1 k2 (emsg e))) (\<lambda>_. return (transferReceipt r)))
     (\<lambda>resp t. settles E tid d tmp b s0 t \<and> (r_ok resp \<longrightarrow> r_status resp = tr_status r)) u" if "settles E tid d tmp b s0 u" for u k1 k2
    by (rule settle_try[OF that wp_mono[OF settle_removeData[OF assms(1,2)]]]) (auto simp: transferReceipt_def Let_def)
  have first: "wp (if c1 then transferCleanupUnpublishedTemp E op r else ok ()) (\<lambda>_ t. settles E tid d tmp b s t) s" for c1
    by (rule if_wp) (auto intro!: settle_cleanup[OF assms(1-3)] st.step_refl)
  show ?thesis
    unfolding transferTerminalReceipt_def
    by (rule if_wp, simp add: assms(4), rule settle_try[OF assms(4) first]) (use remove in \<open>simp_all del: wp_tryE\<close>)
qed

lemma settle_markConflict:
  assumes "undisturbed E" and "d \<noteq> fe_sessionDir E tid" and "workerDir E op (w_path op) = Some (d, c)" and "settles E tid d tmp b s0 s"
    and "sound E d tmp b r s"
  shows "wp (transferMarkConflict E op tid r) (\<lambda>resp t. settles E tid d tmp b s0 t \<and> \<not> r_ok resp) s"
proof -
  let ?r = "\<lambda>x. r\<lparr>tr_status := ''conflicted'', tr_exchangeVerified := False, tr_expiresUnix := x\<rparr>"
  have sound: "sound E d tmp b (?r x) s" for x
    by (rule sound_other[OF assms(5)]) (use sound_hash[OF assms(5)] in simp_all)
  have "wp (tryE (transferSaveRecord E tid (?r x)) (\<lambda>e. return (fileError k1 k2 (emsg e))) (\<lambda>_.
      State_Monad.bind (transferTerminalReceipt E op tid (?r x)) (\<lambda>result. return (if \<not> r_ok result then result else transferError k3 k4 k5))))
     (\<lambda>resp t. settles E tid d tmp b s0 t \<and> \<not> r_ok resp) s" for x k1 k2 k3 k4 k5
    by (rule settle_try[OF assms(4) wp_mono[OF settle_save[OF assms(1,2) sound]]])
      (auto intro!: wp_mono[OF settle_terminal[OF assms(1-3)]] split: if_splits)
  then show ?thesis
    unfolding transferMarkConflict_def expiry_def nowUnix_def by (simp add: Let_def del: wp_tryE)
qed

lemma outcome_settles: "settles E tid d tmp b s u \<Longrightarrow> outcome E tid d tmp b r u resp t \<Longrightarrow> outcome E tid d tmp b r s resp t"
  unfolding outcome_def using st.step_trans by blast

lemma confirm_outcome:
  assumes "undisturbed E" and "d \<noteq> fe_sessionDir E tid" and "sound E d tmp b r s" and "tr_status r = ''committing''"
    and "settles E tid d tmp b s0 s"
  shows "wp (transferConfirmPublished E tid r d b) (outcome E tid d tmp b r s0) s"
proof -
  have refused: "outcome E tid d tmp b r s0 resp u" if "fw_fs u = fw_fs s" "\<not> saysCommitted resp" for u resp
    using st.step_trans[OF assms(5) settles_fs[OF that(1)]] that(2) by (rule outcome_not)
  let ?r = "\<lambda>v. r\<lparr>tr_status := ''committed'', tr_resultVersion := v\<rparr>"
  have sound: "sound E d tmp b (?r v) u" for v u
    by (rule sound_other[OF assms(3)]) (use sound_hash[OF assms(3)] in simp_all)
  have saved: "wp (tryE (transferSaveRecord E tid (?r v)) (\<lambda>_. return (unresolved m1)) (\<lambda>_.
      tryE (transferRemoveData E tid) (\<lambda>_. return (transferError m2 m3 m4)) (\<lambda>_. return (transferReceipt (?r v)))))
      (outcome E tid d tmp b r s0) u"
    if u: "fw_fs u = fw_fs s" and q: "names s (d, b) = Some (preparedInode r)" "int (length (in_data (inodeAt s (preparedInode r)))) = tr_expectedSize r"
    for u v m1 m2 m3 m4
    unfolding wp_tryE[of "transferSaveRecord _ _ _"]
  proof (rule wp_mono[OF settle_save[OF assms(1,2) sound]], goal_cases)
    case (1 x t)
    have same: "sameDir d s t" using sameDir_trans[OF sameDir_fs[OF u]] 1 by blast
    have t: "settles E tid d tmp b s0 t" using st.step_trans[OF st.step_trans[OF assms(5) settles_fs[OF u]]] 1 by blast
    have "wp (tryE (transferRemoveData E tid) (\<lambda>_. return (transferError m2 m3 m4)) (\<lambda>_. return (transferReceipt (?r v)))) (outcome E tid d tmp b r s0) t"
      unfolding wp_tryE
    proof (rule wp_mono[OF settle_removeData[OF assms(1,2), of tmp b]], goal_cases)
      case (1 y w)
      then have w: "settles E tid d tmp b s0 w" "sameDir d s w" using st.step_trans[OF t] sameDir_trans[OF same] by blast+
      have at: "names w (d, b) = Some (preparedInode r)" using w(2) q(1) by (simp add: sameDir_def)
      then have "in_data (inodeAt w (preparedInode r)) = in_data (inodeAt s (preparedInode r))"
        using sameDir_at(2)[OF w(2), of tmp b] by (simp add: atDest_def)
      moreover have "fe_sha256 E (in_data (inodeAt s (preparedInode r))) = tr_sha256 r"
        using assms(3,4) q(1) by (simp add: sound_def atDest_def)
      ultimately have "holdsDeclared E d b r w" using at q(2) by (auto simp: holdsDeclared_def)
      then show ?case using w(1) by (cases y) (simp_all add: outcome_def)
    qed
    then show ?case using outcome_not[OF t] by (cases x) (simp_all del: wp_tryE)
  qed
  have again: "wp (tryE (destinationState E d b) (\<lambda>_. return (unresolved m5)) (\<lambda>found2. case found2 of
          None \<Rightarrow> return (unresolved m5)
        | Some final2 \<Rightarrow>
          if \<not> isPrepared r final2 then return (unresolved m5)
          else let r' = ?r (fileVersion E final2) in
            tryE (transferSaveRecord E tid r') (\<lambda>_. return (unresolved m1)) (\<lambda>_.
            tryE (transferRemoveData E tid) (\<lambda>_. return (transferError m2 m3 m4)) (\<lambda>_. return (transferReceipt r')))))
      (outcome E tid d tmp b r s0) u"
    if u: "fw_fs u = fw_fs s" and q: "names s (d, b) = Some (preparedInode r)" "int (length (in_data (inodeAt s (preparedInode r)))) = tr_expectedSize r"
    for u m1 m2 m3 m4 m5
    unfolding wp_tryE[of "destinationState _ _ _"]
    by (rule quiet_destination[OF assms(1)]) (use u q refused saved in \<open>auto simp: Let_def simp del: wp_tryE\<close>)
  have sync: "wp (tryE (fsyncFD E) (\<lambda>_. return (unresolved m6)) (\<lambda>_. tryE (destinationState E d b) (\<lambda>_. return (unresolved m5)) (\<lambda>found2. case found2 of
          None \<Rightarrow> return (unresolved m5)
        | Some final2 \<Rightarrow>
          if \<not> isPrepared r final2 then return (unresolved m5)
          else let r' = ?r (fileVersion E final2) in
            tryE (transferSaveRecord E tid r') (\<lambda>_. return (unresolved m1)) (\<lambda>_.
            tryE (transferRemoveData E tid) (\<lambda>_. return (transferError m2 m3 m4)) (\<lambda>_. return (transferReceipt r'))))))
      (outcome E tid d tmp b r s0) u"
    if u: "fw_fs u = fw_fs s" and q: "names s (d, b) = Some (preparedInode r)" "int (length (in_data (inodeAt s (preparedInode r)))) = tr_expectedSize r"
    for u m1 m2 m3 m4 m5 m6
    by (rule still_try[OF sf.on_looks(2) assms(1)]) (use again[OF _ q] u refused in \<open>simp_all del: wp_tryE wp_option\<close>)
  show ?thesis
    unfolding transferConfirmPublished_def Let_def wp_tryE[of "destinationState _ _ _"]
    by (rule quiet_destination[OF assms(1)])
      (use refused sync[unfolded Let_def] in \<open>auto simp: isPrepared_statOf simp del: wp_tryE intro!: if_wp\<close>)
qed

lemma settle_verifyExchange:
  assumes "undisturbed E" and "d \<noteq> fe_sessionDir E tid" and "sound E d tmp b r s" and "tr_status r = ''committing''"
    and "settles E tid d tmp b s0 s"
  shows "wp (verifyExchange E op tid r) (\<lambda>x t. settles E tid d tmp b s0 t \<and> (\<forall>resp. x = Inl resp \<longrightarrow> \<not> saysCommitted resp) \<and>
     (\<forall>r'. x = Inr r' \<longrightarrow> (\<exists>e. r' = r\<lparr>tr_exchangeVerified := True, tr_expiresUnix := e\<rparr>))) s"
proof -
  let ?r = "\<lambda>x. r\<lparr>tr_exchangeVerified := True, tr_expiresUnix := x\<rparr>"
  have sound: "sound E d tmp b (?r x) u" if "settles E tid d tmp b s u" for x u
    using sound_settles[OF assms(3) that] by (simp add: sound_def preparedInode_def)
  have saved: "wp (tryE (transferSaveRecord E tid (?r x)) (\<lambda>e. fail (fileError m1 m2 (emsg e))) (\<lambda>_. ok (?r x)))
    (\<lambda>x t. settles E tid d tmp b s0 t \<and> (\<forall>resp. x = Inl resp \<longrightarrow> \<not> saysCommitted resp) \<and>
     (\<forall>r'. x = Inr r' \<longrightarrow> (\<exists>e. r' = ?r e))) u" if "fw_fs u = fw_fs s" for u x m1 m2
    by (rule settle_try[OF st.step_trans[OF assms(5) settles_fs[OF that]] wp_mono[OF settle_save[OF assms(1,2) sound[OF settles_fs[OF that]]]]])
      auto
  show ?thesis
    unfolding verifyExchange_def
    by (rule still_try[OF sf.on_looks(2) assms(1)])
      (use saved st.step_trans[OF assms(5) settles_fs] in \<open>simp_all add: expiry_def nowUnix_def Let_def del: wp_tryE\<close>)
qed

lemma settle_rollback:
  assumes "undisturbed E" and "d \<noteq> fe_sessionDir E tid" and "settles E tid d tmp b s0 s"
  shows "wp (rollbackExistingExchange E d b tmp prepared displaced) (\<lambda>_ t. settles E tid d tmp b s0 t) s"
proof -
  have confirm: "state_io_rel (sameFs E) (confirmRollback E d b tmp prepared displaced)"
    unfolding confirmRollback_def by (intro sf.looking sf.on_looks sf.on_pathState)
  have moved: "wp (tryE (renameExchange E d tmp b) (\<lambda>e. fail (wrapErr m e)) (\<lambda>_. confirmRollback E d b tmp prepared displaced))
      (\<lambda>_ t. settles E tid d tmp b s0 t) u" if "settles E tid d tmp b s0 u" for u m
    by (rule settle_try[OF that settle_moves(1)[OF assms(1,2)]])
      (auto intro!: wp_sameFs[OF confirm assms(1)] dest: st.step_trans[OF _ settles_fs])
  show ?thesis
    unfolding rollbackExistingExchange_def
    by (rule settle_look[OF assms(3) sf.on_pathState assms(1)], simp, rule if_wp, simp,
        rule settle_look[OF _ sf.on_pathState assms(1)], assumption, simp, rule if_wp, simp, rule moved)
qed

lemma publishNew_outcome:
  assumes "undisturbed E" and "d \<noteq> fe_sessionDir E tid" and "sound E d tmp b r s" and "tr_status r = ''committing''"
    and "settles E tid d tmp b s0 s"
  shows "wp (publishNew E tid r d b) (outcome E tid d tmp b r s0) s"
proof -
  have tmp: "tr_tempName r = tmp" using assms(3) by (simp add: sound_def)
  have confirm: "wp (transferConfirmPublished E tid r d b) (outcome E tid d tmp b r s0) t" if "settles E tid d tmp b s t" for t
    by (rule confirm_outcome[OF assms(1,2) sound_settles[OF assms(3) that] assms(4) st.step_trans[OF assms(5) that]])
  show ?thesis
    unfolding publishNew_def tmp
    by (rule settle_try[OF st.step_refl settle_moves(2)[OF assms(1,2)]])
      (use confirm st.step_trans[OF assms(5)] in \<open>auto intro!: outcome_not\<close>)
qed

lemma publishOver_outcome:
  assumes "undisturbed E" and "d \<noteq> fe_sessionDir E tid" and "workerDir E op (w_path op) = Some (d, c)" and "sound E d tmp b r s"
    and "tr_status r = ''committing''" and "settles E tid d tmp b s0 s"
  shows "wp (publishOver E op tid r d b prepared old) (outcome E tid d tmp b r s0) s"
proof -
  have tmp: "tr_tempName r = tmp" using assms(4) by (simp add: sound_def)
  have later: "settles E tid d tmp b s0 t" if "settles E tid d tmp b s t" for t by (rule st.step_trans[OF assms(6) that])
  note refused = outcome_not[OF later]
  have unpublish: "wp (tryE (rollbackExistingExchange E d b tmp prepared displaced) (\<lambda>_. return (unresolved m))
      (\<lambda>_. transferMarkConflict E op tid r)) (outcome E tid d tmp b r s0) t" if "settles E tid d tmp b s t" for t displaced m
    by (rule settle_try[OF that settle_rollback[OF assms(1,2) st.step_refl]])
      (use refused in \<open>auto intro!: wp_mono[OF settle_markConflict[OF assms(1-3)]] dest: sound_settles[OF assms(4)]\<close>)
  have confirm: "wp (transferConfirmPublished E tid (r\<lparr>tr_exchangeVerified := True, tr_expiresUnix := e\<rparr>) d b) (outcome E tid d tmp b r s0) t"
    if "settles E tid d tmp b s t" for t e
  proof -
    let ?r = "r\<lparr>tr_exchangeVerified := True, tr_expiresUnix := e\<rparr>"
    have "sound E d tmp b ?r t" using sound_settles[OF assms(4) that] by (simp add: sound_def preparedInode_def)
    from confirm_outcome[OF assms(1,2) this _ later[OF that]] show ?thesis
      using assms(5) outcome_same[of ?r r E tid d tmp b] by simp
  qed
  have cleaned: "wp (tryE (unlinkAt E d tmp) (\<lambda>_. return (unresolved m)) (\<lambda>_.
      transferConfirmPublished E tid (r\<lparr>tr_exchangeVerified := True, tr_expiresUnix := e\<rparr>) d b)) (outcome E tid d tmp b r s0) t"
    if "settles E tid d tmp b s t" for t e m
    by (rule settle_try[OF that settle_moves(3)[OF assms(1,2)]]) (use refused confirm in auto)
  have verified: "wp (tryE (verifyExchange E op tid r) return (\<lambda>r. tryE (unlinkAt E d tmp) (\<lambda>_. return (unresolved m)) (\<lambda>_.
      transferConfirmPublished E tid r d b))) (outcome E tid d tmp b r s0) t"
    if "settles E tid d tmp b s t" for t m
    unfolding wp_tryE[of "verifyExchange _ _ _ _"]
    by (rule wp_mono[OF settle_verifyExchange[OF assms(1,2) sound_settles[OF assms(4) that] assms(5) that]])
      (use refused cleaned in \<open>auto split: sum.split simp del: wp_tryE\<close>)
  show ?thesis
    unfolding publishOver_def tmp Let_def
    by (rule settle_try[OF st.step_refl settle_moves(1)[OF assms(1,2)]], simp add: refused,
        rule settle_look[OF _ sf.on_pathState assms(1)], assumption, simp add: refused,
        rule option_wp, simp add: refused, rule if_wp, erule unpublish, erule verified)
qed

lemma state_looks: "state_io_rel (sameFs E) (transferStateAtCommit E d b r)"
  unfolding transferStateAtCommit_def by (intro sf.looking sf.on_destinationState)

lemma finish_outcome:
  assumes "undisturbed E" and "d \<noteq> fe_sessionDir E tid" and "workerDir E op (w_path op) = Some (d, c)" and "sound E d tmp (baseOf (w_path op)) r s"
    and "tr_status r = ''committing''" and "settles E tid d tmp (baseOf (w_path op)) s0 s"
  shows "wp (transferFinishPrepared E op tid r) (outcome E tid d tmp (baseOf (w_path op)) r s0) s"
proof -
  let ?b = "baseOf (w_path op)"
  have later: "settles E tid d tmp ?b s0 t" if "settles E tid d tmp ?b s t" for t by (rule st.step_trans[OF assms(6) that])
  note refused = outcome_not[OF later]
  have conflict: "wp (transferMarkConflict E op tid r) (outcome E tid d tmp ?b r s0) t" if "settles E tid d tmp ?b s t" for t
    by (rule wp_mono[OF settle_markConflict[OF assms(1-3) later[OF that] sound_settles[OF assms(4) that]]]) (simp add: outcome_def)
  have publish: "wp (case current of Some old \<Rightarrow> publishOver E op tid r d ?b prepared old | None \<Rightarrow> publishNew E tid r d ?b)
      (outcome E tid d tmp ?b r s0) t" if "settles E tid d tmp ?b s t" for t prepared current
    using publishOver_outcome[OF assms(1-3) sound_settles[OF assms(4) that] assms(5) later[OF that]]
      publishNew_outcome[OF assms(1,2) sound_settles[OF assms(4) that] assms(5) later[OF that]]
    by (simp split: option.split)
  show ?thesis
    unfolding transferFinishPrepared_def Let_def
    by (rule settle_parent[OF st.step_refl[of E tid d tmp ?b s] assms(1,3)], simp add: refused, rule if_wp, simp add: refused,
        rule settle_look[OF _ sf.on_pathState assms(1)], assumption, simp add: refused,
        rule option_wp, simp add: refused, rule if_wp, simp add: refused,
        rule settle_look[OF _ state_looks assms(1)], assumption, erule conflict, erule publish)
qed

text \<open>Reconciliation of a commit whose outcome is not recorded.\<close>

lemma reconcilePublished_outcome:
  assumes "undisturbed E" and "d \<noteq> fe_sessionDir E tid" and "workerDir E op (w_path op) = Some (d, c)" and "sound E d tmp b r s"
    and "tr_status r = ''committing''" and "settles E tid d tmp b s0 s"
  shows "wp (reconcilePublished E op tid r d b final) (\<lambda>x. outcome E tid d tmp b r s0 (fst x)) s"
proof -
  have tmp: "tr_tempName r = tmp" using assms(4) by (simp add: sound_def)
  have later: "settles E tid d tmp b s0 t" if "settles E tid d tmp b s t" for t by (rule st.step_trans[OF assms(6) that])
  note refused = outcome_not[OF later]
  have confirm: "wp (transferConfirmPublished E tid r' d b) (outcome E tid d tmp b r s0) t"
    if "settles E tid d tmp b s t" "r' = r \<or> (\<exists>e. r' = r\<lparr>tr_exchangeVerified := True, tr_expiresUnix := e\<rparr>)" for t r'
  proof -
    have "sound E d tmp b r' t" "tr_status r' = ''committing''" "outcome E tid d tmp b r' = outcome E tid d tmp b r"
      using that(2) sound_settles[OF assms(4) that(1)] assms(5) outcome_same[of r' r]
      by (auto simp: sound_def preparedInode_def)
    then show ?thesis using confirm_outcome[OF assms(1,2) _ _ later[OF that(1)], of r'] by simp
  qed
  have unpublish: "wp (tryE (rollbackExistingExchange E d b tmp prepared displaced) (\<lambda>_. return (unresolved m, False))
      (\<lambda>_. State_Monad.bind (transferMarkConflict E op tid r) (\<lambda>resp. return (resp, True)))) (\<lambda>x. outcome E tid d tmp b r s0 (fst x)) t"
    if "settles E tid d tmp b s t" for t displaced prepared m
    by (rule settle_try[OF that settle_rollback[OF assms(1,2) st.step_refl]])
      (use refused in \<open>auto simp: outcome_def intro!: wp_mono[OF settle_markConflict[OF assms(1-3)]] dest: sound_settles[OF assms(4)] later\<close>)
  have cleaned: "wp (tryE (unlinkAt E d tmp) (\<lambda>e. return (fileError m1 m2 (emsg e), False)) (\<lambda>_.
      tryE (fsyncFD E) (\<lambda>e. return (fileError m1 m2 (emsg e), False)) (\<lambda>_.
      State_Monad.bind (transferConfirmPublished E tid r' d b) (\<lambda>resp. return (resp, False))))) (\<lambda>x. outcome E tid d tmp b r s0 (fst x)) t"
    if "settles E tid d tmp b s t" "r' = r \<or> (\<exists>e. r' = r\<lparr>tr_exchangeVerified := True, tr_expiresUnix := e\<rparr>)" for t r' m1 m2
    by (rule settle_try[OF that(1) settle_moves(3)[OF assms(1,2)]], simp add: refused,
        rule settle_look[OF _ sf.on_looks(2) assms(1)], assumption, simp add: refused, simp add: confirm that(2))
  have verify: "wp (if tr_exchangeVerified r then ok r else verifyExchange E op tid r) (\<lambda>x u. settles E tid d tmp b s u \<and>
      (\<forall>resp. x = Inl resp \<longrightarrow> \<not> saysCommitted resp) \<and>
      (\<forall>r'. x = Inr r' \<longrightarrow> r' = r \<or> (\<exists>e. r' = r\<lparr>tr_exchangeVerified := True, tr_expiresUnix := e\<rparr>))) t"
    if "settles E tid d tmp b s t" for t
    using wp_mono[OF settle_verifyExchange[OF assms(1,2) sound_settles[OF assms(4) that] assms(5) that]] that by auto
  have verified: "wp (tryE (if tr_exchangeVerified r then ok r else verifyExchange E op tid r) (\<lambda>resp. return (resp, False)) (\<lambda>r'.
      tryE (unlinkAt E d tmp) (\<lambda>e. return (fileError m1 m2 (emsg e), False)) (\<lambda>_.
      tryE (fsyncFD E) (\<lambda>e. return (fileError m1 m2 (emsg e), False)) (\<lambda>_.
      State_Monad.bind (transferConfirmPublished E tid r' d b) (\<lambda>resp. return (resp, False))))))
      (\<lambda>x. outcome E tid d tmp b r s0 (fst x)) t"
    if "settles E tid d tmp b s t" for t m1 m2
    unfolding wp_tryE[of "if _ then _ else _"]
    by (rule wp_mono[OF verify[OF that]]) (use refused cleaned in \<open>auto split: sum.split simp del: wp_tryE\<close>)
  show ?thesis
    unfolding reconcilePublished_def tmp Let_def
    by (rule settle_look[OF st.step_refl[of E tid d tmp b s] sf.on_pathState assms(1)], simp add: refused, rule if_wp,
        simp add: refused confirm, rule option_wp, simp add: refused confirm, rule if_wp, rule if_wp, simp add: refused,
        erule unpublish, erule verified)
qed

lemma reconcile_outcome:
  assumes "undisturbed E" and "d \<noteq> fe_sessionDir E tid" and "workerDir E op (w_path op) = Some (d, c)" and "sound E d tmp (baseOf (w_path op)) r s"
    and "tr_status r = ''committing''" and "settles E tid d tmp (baseOf (w_path op)) s0 s"
  shows "wp (transferReconcileCommit E op tid r) (\<lambda>x. outcome E tid d tmp (baseOf (w_path op)) r s0 (fst x)) s"
proof -
  let ?b = "baseOf (w_path op)"
  have later: "settles E tid d tmp ?b s0 t" if "settles E tid d tmp ?b s t" for t by (rule st.step_trans[OF assms(6) that])
  note refused = outcome_not[OF later]
  have conflict: "wp (State_Monad.bind (transferMarkConflict E op tid r) (\<lambda>resp. return (resp, True))) (\<lambda>x. outcome E tid d tmp ?b r s0 (fst x)) t"
    if "settles E tid d tmp ?b s t" for t
    unfolding wp_bind
    by (rule wp_mono[OF settle_markConflict[OF assms(1-3) later[OF that] sound_settles[OF assms(4) that]]]) (simp add: outcome_def)
  have go: "wp (if w_transferOp op = ''commit'' then State_Monad.bind (transferFinishPrepared E op tid r) (\<lambda>resp. return (resp, False))
      else return (transferError m1 m2 m3, False)) (\<lambda>x. outcome E tid d tmp ?b r s0 (fst x)) t" if "settles E tid d tmp ?b s t" for t m1 m2 m3
    using finish_outcome[OF assms(1-3) sound_settles[OF assms(4) that] assms(5) later[OF that]] refused[OF that] by simp
  have unpublished: "wp (reconcileUnpublished E op tid r d ?b) (\<lambda>x. outcome E tid d tmp ?b r s0 (fst x)) t" if "settles E tid d tmp ?b s t" for t
    unfolding reconcileUnpublished_def Let_def
    by (rule if_wp, simp add: refused that, rule settle_look[OF that sf.on_pathState assms(1)], simp add: refused, rule if_wp,
        rule settle_look[OF _ state_looks assms(1)], assumption, erule conflict, erule go, erule go)
  have published: "wp (reconcilePublished E op tid r d ?b final) (\<lambda>x. outcome E tid d tmp ?b r s0 (fst x)) t" if "settles E tid d tmp ?b s t" for t final
    by (rule reconcilePublished_outcome[OF assms(1-3) sound_settles[OF assms(4) that] assms(5) later[OF that]])
  show ?thesis
    unfolding transferReconcileCommit_def Let_def
    by (rule settle_parent[OF st.step_refl[of E tid d tmp ?b s] assms(1,3)], simp add: refused,
        rule settle_look[OF _ sf.on_destinationState assms(1)], assumption, simp add: refused,
        rule option_wp, erule unpublished, rule if_wp, erule published, erule unpublished)
qed

end
