(* ===== verification/TransferPrepared.thy ===== *)
theory TransferPrepared
  imports TransferVerified
begin

text \<open>
  The preparation of a transfer's file, window by window: the manifest stays sound whatever call fails, and
  the intent to publish is recorded only for bytes with the declared digest.
\<close>

section \<open>A preparation in progress\<close>

definition alike :: "transferRecord \<Rightarrow> transferRecord \<Rightarrow> bool" where
  "alike r' r = (tr_status r' = tr_status r \<and> preparedInode r' = preparedInode r \<and> tr_preparedBytes r' = tr_preparedBytes r \<and>
     tr_preparedHash r' = tr_preparedHash r \<and> tr_sha256 r' = tr_sha256 r \<and> tr_tempName r' = tr_tempName r)"

lemma alike_sound: "alike r' r \<Longrightarrow> sound E d tmp b r' s = sound E d tmp b r s"
  by (simp add: alike_def sound_def)

lemma alike_stored: "sound E d tmp b r s \<Longrightarrow> alike (storedRecord r) r"
  by (auto simp: alike_def sound_def storedRecord_def preparedInode_def cleanText_ascii)

text \<open>The manifest says \<open>r\<close>, as far as a preparation is concerned.\<close>

definition manifestIs :: "fileEnv \<Rightarrow> string \<Rightarrow> nat \<Rightarrow> string \<Rightarrow> string \<Rightarrow> transferRecord \<Rightarrow> fworld \<Rightarrow> bool" where
  "manifestIs E tid d tmp b r s = (settled E tid d tmp b s \<and> (\<exists>r'. recordAt E s tid = Some r' \<and> alike r' r))"

lemma manifest_sound: "manifestIs E tid d tmp b r s \<Longrightarrow> sound E d tmp b r s"
  using alike_sound by (auto simp: manifestIs_def settled_def)

lemma manifest_settled: "manifestIs E tid d tmp b r s \<Longrightarrow> settled E tid d tmp b s"
  by (simp add: manifestIs_def)

lemma manifest_fs: "manifestIs E tid d tmp b r s \<Longrightarrow> fw_fs t = fw_fs s \<Longrightarrow> manifestIs E tid d tmp b r t"
  using settled_settles[OF _ settles_fs[of t s E tid d tmp b]] recordAt_fs[of t s] by (auto simp: manifestIs_def)

text \<open>Writing to the prepared file behind the checkpoint.\<close>

lemma manifest_write:
  assumes "manifestIs E tid d tmp b r s" and "names s (d, tmp) = Some (preparedInode r)"
    and "nat (tr_preparedBytes r) \<le> length (in_data (inodeAt s (preparedInode r)))" and "tr_status r = ''preparing''"
    and "preparing s (preparedInode r) t"
    and "take (nat (tr_preparedBytes r)) (in_data (inodeAt t (preparedInode r))) = take (nat (tr_preparedBytes r)) (in_data (inodeAt s (preparedInode r)))"
  shows "manifestIs E tid d tmp b r t"
proof -
  let ?p = "preparedInode r"
  have names: "names t = names s" by (rule preparing_names[OF assms(5)])
  have at: "atDest d tmp b s ?p" using assms(2) by (simp add: atDest_def)
  then have apart: "names s (fe_sessionDir E tid, manifestName) \<noteq> Some ?p"
    using assms(1) by (auto simp: manifestIs_def settled_def)
  have "names s (fe_sessionDir E tid, manifestName) = Some i \<Longrightarrow> shown t i = shown s i" for i
    using assms(5) apart by (cases "i = ?p") (auto simp: preparing_def shown_def)
  then have rec: "recordAt E t tid = recordAt E s tid" by (intro recordAt_names) (simp_all add: names)
  have "sound E d tmp b r s" by (rule manifest_sound[OF assms(1)])
  then have "sound E d tmp b r t"
    using assms(3,4,6) at by (simp add: sound_def)
  then show ?thesis
    using assms(1) rec names alike_sound by (auto simp: manifestIs_def settled_def atDest_def)
qed

text \<open>What a commit leaves behind and may answer.\<close>

definition commitFine :: "fileEnv \<Rightarrow> string \<Rightarrow> nat \<Rightarrow> string \<Rightarrow> string \<Rightarrow> transferRecord \<Rightarrow> Response \<Rightarrow> fworld \<Rightarrow> bool" where
  "commitFine E tid d tmp b r resp t = (settled E tid d tmp b t \<and> (saysCommitted resp \<longrightarrow> holdsDeclared E d b r t))"

lemma outcome_fine: "settled E tid d tmp b s \<Longrightarrow> outcome E tid d tmp b r s resp t \<Longrightarrow> commitFine E tid d tmp b r resp t"
  using settled_settles by (auto simp: outcome_def commitFine_def)

lemma fine_not: "settled E tid d tmp b t \<Longrightarrow> \<not> saysCommitted resp \<Longrightarrow> commitFine E tid d tmp b r resp t"
  by (simp add: commitFine_def)

lemma fine_same:
  "tr_sha256 r' = tr_sha256 r \<Longrightarrow> tr_expectedSize r' = tr_expectedSize r \<Longrightarrow> commitFine E tid d tmp b r' = commitFine E tid d tmp b r"
  by (simp add: commitFine_def holdsDeclared_def fun_eq_iff)

section \<open>All bytes are prepared\<close>

lemma receipt_status [simp]: "saysCommitted (transferReceipt r) \<longleftrightarrow> tr_status r = ''committed''"
  by (simp add: saysCommitted_def transferReceipt_def Let_def)

lemma settled_fs: "settled E tid d tmp b s \<Longrightarrow> fw_fs t = fw_fs s \<Longrightarrow> settled E tid d tmp b t"
  by (rule settled_settles[OF _ settles_fs])

lemma finish_fine:
  assumes "undisturbed E" and "hashLaws E" and "d \<noteq> fe_sessionDir E tid" and "workerDir E op (w_path op) = Some (d, c)"
    and "settled E tid d tmp (baseOf (w_path op)) s" and "sound E d tmp (baseOf (w_path op)) r s" and "tr_status r = ''preparing''"
    and "h = hashed E (in_data (inodeAt s (preparedInode r)))"
  shows "wp (finishPreparation E op tid r d h) (commitFine E tid d tmp (baseOf (w_path op)) r) s"
proof -
  let ?b = "baseOf (w_path op)" and ?r = "\<lambda>x. r\<lparr>tr_status := ''committing'', tr_expiresUnix := x\<rparr>"
  have refused: "commitFine E tid d tmp ?b r resp t" if "fw_fs t = fw_fs s" "\<not> saysCommitted resp" for resp t
    by (rule fine_not[OF settled_fs[OF assms(5) that(1)] that(2)])
  have publish: "wp (tryE (transferSaveRecord E tid (?r x)) (\<lambda>_. return (transferError m1 m2 m3)) (\<lambda>_. transferFinishPrepared E op tid (?r x)))
      (commitFine E tid d tmp ?b r) t" if t: "fw_fs t = fw_fs s" and digest: "fe_shaSum E h = tr_sha256 r" for t x m1 m2 m3
  proof -
    have "fe_sha256 E (in_data (inodeAt t (preparedInode r))) = tr_sha256 r"
      using digest assms(8) hashed_laws(3)[OF assms(2)] inode_fs[OF t] by simp
    then have sound: "sound E d tmp ?b (?r x) t" using assms(6) by (simp add: sound_def preparedInode_def)
    show ?thesis
      unfolding wp_tryE
    proof (rule wp_mono[OF settle_save[OF assms(1,3) sound]], goal_cases)
      case (1 res u)
      then have u: "settled E tid d tmp ?b u" "sound E d tmp ?b (?r x) u"
        using settled_settles[OF settled_fs[OF assms(5) t]] sound_settles[OF sound] by blast+
      have "commitFine E tid d tmp ?b (?r x) = commitFine E tid d tmp ?b r" by (rule fine_same) simp_all
      moreover have "wp (transferFinishPrepared E op tid (?r x)) (commitFine E tid d tmp ?b (?r x)) u"
        by (rule wp_mono[OF finish_outcome[OF assms(1,3,4) u(2) _ st.step_refl]], simp) (rule outcome_fine[OF u(1)])
      ultimately have "wp (transferFinishPrepared E op tid (?r x)) (commitFine E tid d tmp ?b r) u" by simp
      then show ?case using fine_not[OF u(1)] by (cases res) simp_all
    qed
  qed
  have check: "wp (tryE (transferStateAtCommit E d ?b r) (\<lambda>_. return (transferError m4 m5 m6)) (\<lambda>_. State_Monad.bind (expiry E op) (\<lambda>x.
      let r = ?r x in tryE (transferSaveRecord E tid r) (\<lambda>_. return (transferError m1 m2 m3)) (\<lambda>_. transferFinishPrepared E op tid r))))
      (commitFine E tid d tmp ?b r) t" if "fw_fs t = fw_fs s" "fe_shaSum E h = tr_sha256 r" for t m1 m2 m3 m4 m5 m6
    by (rule still_try[OF state_looks assms(1)])
      (use refused publish that in \<open>simp_all add: expiry_def nowUnix_def Let_def del: wp_tryE\<close>)
  have sync: "wp (tryE (fsyncFD E) (\<lambda>e. return (fileError m7 m8 (emsg e))) (\<lambda>_. tryE (transferStateAtCommit E d ?b r)
      (\<lambda>_. return (transferError m4 m5 m6)) (\<lambda>_. State_Monad.bind (expiry E op) (\<lambda>x.
      let r = ?r x in tryE (transferSaveRecord E tid r) (\<lambda>_. return (transferError m1 m2 m3)) (\<lambda>_. transferFinishPrepared E op tid r)))))
      (commitFine E tid d tmp ?b r) s" if "fe_shaSum E h = tr_sha256 r" for m1 m2 m3 m4 m5 m6 m7 m8
    by (rule still_try[OF sf.on_looks(2) assms(1)]) (use refused check that in \<open>simp_all del: wp_tryE wp_bind\<close>)
  show ?thesis
    unfolding finishPreparation_def
    by (rule if_wp, simp add: refused assms(7), rule if_wp, simp add: refused, rule sync, simp)
qed

section \<open>Windows\<close>

lemma preparing_refl: "preparing s p s"
  by (simp add: preparing_def)

lemma copyWindow_appends:
  assumes "undisturbed E" and "hashLaws E"
  shows "length (in_data (inodeAt s p)) = pos \<Longrightarrow> wp (copyWindow E src p pos copied h rest) (\<lambda>res t. preparing s p t \<and>
     take pos (in_data (inodeAt t p)) = in_data (inodeAt s p) \<and>
     (\<forall>m h'. res = Some (m, h') \<longrightarrow> (\<exists>bs. in_data (inodeAt t p) = in_data (inodeAt s p) @ bs \<and> m = copied + length bs \<and>
        h' = fe_shaWrite E h bs))) s"
proof (induction rest arbitrary: s pos copied h rule: less_induct)
  case (less rest)
  let ?Q = "\<lambda>res t. preparing s p t \<and> take pos (in_data (inodeAt t p)) = in_data (inodeAt s p) \<and>
     (\<forall>m h'. res = Some (m, h') \<longrightarrow> (\<exists>bs. in_data (inodeAt t p) = in_data (inodeAt s p) @ bs \<and> m = copied + length bs \<and>
        h' = fe_shaWrite E h bs))"
  have empty: "fe_shaWrite E h [] = h" and twice: "fe_shaWrite E (fe_shaWrite E h x) y = fe_shaWrite E h (x @ y)" for h x y
    using assms(2) by (auto simp: hashLaws_def)
  have same: "?Q res t" if "fw_fs t = fw_fs s" "res = None \<or> res = Some (copied, h)" for res t
    using that preparing_fs[OF that(1), of p] inode_fs[OF that(1), of p] less.prems empty by auto
  show ?case
  proof (cases rest)
    case 0
    then show ?thesis using same[of s "Some (copied, h)"] empty by simp
  next
    case (Suc n)
    have more: "wp (copyWindow E src p (pos + length x) (copied + length x) (fe_shaWrite E h x) (n - (length x - 1))) ?Q t"
      if "x \<noteq> []" "preparing s p t" "in_data (inodeAt t p) = in_data (inodeAt s p) @ x" for x t
    proof -
      have "n - (length x - 1) < rest" using Suc by simp
      moreover have "length (in_data (inodeAt t p)) = pos + length x" using that(3) less.prems by simp
      ultimately show ?thesis
      proof (rule wp_mono[OF less.IH], goal_cases)
        case (1 res u)
        then have u: "preparing s p u" "take (pos + length x) (in_data (inodeAt u p)) = in_data (inodeAt s p) @ x"
          using preparing_trans[OF that(2)] that(3) by auto
        have "take pos (in_data (inodeAt u p)) = take pos (take (pos + length x) (in_data (inodeAt u p)))" by (simp add: min_def)
        then have "take pos (in_data (inodeAt u p)) = in_data (inodeAt s p)" using u(2) less.prems by simp
        moreover have "\<exists>bs. in_data (inodeAt u p) = in_data (inodeAt s p) @ bs \<and> m = copied + length bs \<and> h' = fe_shaWrite E h bs"
          if res: "res = Some (m, h')" for m h'
        proof -
          obtain bs where "in_data (inodeAt u p) = (in_data (inodeAt s p) @ x) @ bs" "m = copied + length x + length bs"
            "h' = fe_shaWrite E (fe_shaWrite E h x) bs"
            using 1 res \<open>in_data (inodeAt t p) = in_data (inodeAt s p) @ x\<close> by auto
          then show ?thesis using twice by (intro exI[of _ "x @ bs"]) simp
        qed
        ultimately show ?case using u(1) by blast
      qed
    qed
    have copy: "wp (tryE (writeAllFD E p pos x) (\<lambda>_. return None) (\<lambda>_.
       copyWindow E src p (pos + length x) (copied + length x) (fe_shaWrite E h x) (n - (length x - 1)))) ?Q t"
      if "x \<noteq> []" "fw_fs t = fw_fs s" for x t
      unfolding wp_tryE
    proof (rule wp_mono[OF wp_conj[OF writeAllFD_appends[OF assms(1)] writeAllFD_prefix[OF assms(1), of pos]]], goal_cases)
      case (4 r u)
      then have u: "preparing s p u" "take pos (in_data (inodeAt u p)) = in_data (inodeAt s p)"
        using preparing_trans[OF preparing_fs[OF that(2)]] inode_fs[OF that(2), of p] less.prems by auto
      then show ?case
        using 4 more[OF that(1) u(1)] inode_fs[OF that(2), of p] by (cases r) auto
    qed (use inode_fs[OF that(2), of p] less.prems in auto)
    have piece: "wp (if x = [] then return (Some (copied, h)) else tryE (writeAllFD E p pos x) (\<lambda>_. return None) (\<lambda>_.
       copyWindow E src p (pos + length x) (copied + length x) (fe_shaWrite E h x) (n - (length x - 1)))) ?Q t" if "fw_fs t = fw_fs s" for x t
    proof (rule if_wp)
      show "wp (return (Some (copied, h))) ?Q t"
        unfolding wp_return by (rule same[OF that]) simp
    qed (rule copy[OF _ that])
    show ?thesis
      unfolding Suc copyWindow.simps wp_tryE[of "preadFD _ _ _ _"]
    proof (rule calm_pread[OF assms(1)], goal_cases)
      case (1 e t)
      then show ?case unfolding sum.case wp_return by (intro same) simp_all
    next
      case (2 k t)
      then show ?case unfolding sum.case by (rule piece)
    qed
  qed
qed

text \<open>The prepared file while its bytes are written: open, and complete up to the checkpoint.\<close>

definition resumed :: "fileEnv \<Rightarrow> string \<Rightarrow> nat \<Rightarrow> string \<Rightarrow> string \<Rightarrow> transferRecord \<Rightarrow> fworld \<Rightarrow> bool" where
  "resumed E tid d tmp b r s = (manifestIs E tid d tmp b r s \<and> tr_status r = ''preparing'' \<and> 0 \<le> tr_preparedBytes r \<and>
     names s (d, tmp) = Some (preparedInode r) \<and> length (in_data (inodeAt s (preparedInode r))) = nat (tr_preparedBytes r))"

lemma resumed_fs: "resumed E tid d tmp b r s \<Longrightarrow> fw_fs t = fw_fs s \<Longrightarrow> resumed E tid d tmp b r t"
  using manifest_fs[of E tid d tmp b r s t] names_fs[of t s] inode_fs[of t s] by (simp add: resumed_def)

lemma resumed_settled: "resumed E tid d tmp b r s \<Longrightarrow> settled E tid d tmp b s"
  by (simp add: resumed_def manifestIs_def)

lemma window_fine:
  assumes "undisturbed E" and "hashLaws E" and "d \<noteq> fe_sessionDir E tid" and "workerDir E op (w_path op) = Some (d, c)"
    and "resumed E tid d tmp (baseOf (w_path op)) r s" and "h = hashed E (in_data (inodeAt s (preparedInode r)))"
  shows "wp (prepareWindow E op tid r d source (preparedInode r) h) (commitFine E tid d tmp (baseOf (w_path op)) r) s"
proof -
  let ?b = "baseOf (w_path op)" and ?p = "preparedInode r" and ?n = "min (tr_expectedSize r - tr_preparedBytes r) transferPrepareWindowBytes"
  let ?r = "\<lambda>h' x. r\<lparr>tr_preparedBytes := tr_preparedBytes r + ?n, tr_preparedHash := fe_shaSave E h', tr_expiresUnix := x\<rparr>"
  note laws = hashed_laws[OF assms(2)]
  have now: "manifestIs E tid d tmp ?b r s" "tr_status r = ''preparing''" "0 \<le> tr_preparedBytes r" "names s (d, tmp) = Some ?p"
    "length (in_data (inodeAt s ?p)) = nat (tr_preparedBytes r)"
    using assms(5) by (auto simp: resumed_def)
  have refused: "commitFine E tid d tmp ?b r resp t" if "manifestIs E tid d tmp ?b r t" "\<not> saysCommitted resp" for resp t
    by (rule fine_not[OF manifest_settled[OF that(1)] that(2)])
  have saved: "wp (tryE (transferSaveRecord E tid (?r h' x)) (\<lambda>_. return (transferError m1 m2 m3)) (\<lambda>_. finishPreparation E op tid (?r h' x) d h'))
      (commitFine E tid d tmp ?b r) t"
    if t: "manifestIs E tid d tmp ?b r t" "names t (d, tmp) = Some ?p" "h' = hashed E (in_data (inodeAt t ?p))"
      "int (length (in_data (inodeAt t ?p))) = tr_preparedBytes r + ?n" for t h' x m1 m2 m3
  proof -
    have "sound E d tmp ?b r t" by (rule manifest_sound[OF t(1)])
    then have sound: "sound E d tmp ?b (?r h' x) t"
      using t(3,4) laws(4,5) by (simp add: sound_def preparedInode_def)
    show ?thesis
      unfolding wp_tryE
    proof (rule wp_mono[OF settle_save[OF assms(1,3) sound]], goal_cases)
      case (1 res u)
      then have u: "settled E tid d tmp ?b u" "sound E d tmp ?b (?r h' x) u" "sameDir d t u"
        using settled_settles[OF manifest_settled[OF t(1)]] sound_settles[OF sound] by blast+
      have "names u (d, tmp) = Some ?p" using u(3) t(2) by (simp add: sameDir_def)
      then have "in_data (inodeAt u ?p) = in_data (inodeAt t ?p)"
        using sameDir_at(2)[OF u(3), of tmp ?b] by (simp add: atDest_def)
      then have hash: "h' = hashed E (in_data (inodeAt u (preparedInode (?r h' x))))"
        using t(3) by (simp add: preparedInode_def)
      have "wp (finishPreparation E op tid (?r h' x) d h') (commitFine E tid d tmp ?b (?r h' x)) u"
        by (rule finish_fine[OF assms(1-4) u(1,2) _ hash]) (simp add: now(2))
      moreover have "commitFine E tid d tmp ?b (?r h' x) = commitFine E tid d tmp ?b r" by (rule fine_same) simp_all
      ultimately show ?case using fine_not[OF u(1)] by (cases res) simp_all
    qed
  qed
  have sync: "wp (tryE (fsyncFD E) (\<lambda>e. return (fileError m4 m5 (emsg e))) (\<lambda>_. State_Monad.bind (expiry E op) (\<lambda>x. let r = ?r h' x in
      tryE (transferSaveRecord E tid r) (\<lambda>_. return (transferError m1 m2 m3)) (\<lambda>_. finishPreparation E op tid r d h'))))
      (commitFine E tid d tmp ?b r) t"
    if t: "manifestIs E tid d tmp ?b r t" "names t (d, tmp) = Some ?p" "h' = hashed E (in_data (inodeAt t ?p))"
      "int (length (in_data (inodeAt t ?p))) = tr_preparedBytes r + ?n" for t h' m1 m2 m3 m4 m5
  proof (rule still_try[OF sf.on_looks(2) assms(1)], goal_cases)
    case (1 e u)
    then show ?case using refused[OF manifest_fs[OF t(1)]] by simp
  next
    case (2 x u)
    then show ?case
      using saved[OF manifest_fs[OF t(1) 2]] t(2-4) names_fs[OF 2] inode_fs[OF 2]
      by (simp add: expiry_def nowUnix_def Let_def del: wp_tryE)
  qed
  have copied: "wp (State_Monad.bind (copyWindow E source ?p (nat (tr_preparedBytes r)) 0 h (nat ?n)) (\<lambda>copied. case copied of
        None \<Rightarrow> return (transferError m6 m7 m8)
      | Some (m, h') \<Rightarrow> if int m \<noteq> ?n then return (transferError m6 m7 m8)
        else tryE (fsyncFD E) (\<lambda>e. return (fileError m4 m5 (emsg e))) (\<lambda>_. State_Monad.bind (expiry E op) (\<lambda>x. let r = ?r h' x in
          tryE (transferSaveRecord E tid r) (\<lambda>_. return (transferError m1 m2 m3)) (\<lambda>_. finishPreparation E op tid r d h')))))
      (commitFine E tid d tmp ?b r) t" if t: "fw_fs t = fw_fs s" for t m1 m2 m3 m4 m5 m6 m7 m8
    unfolding wp_bind
  proof (rule wp_mono[OF copyWindow_appends[OF assms(1,2)]], goal_cases)
    case 1
    then show ?case using now(5) inode_fs[OF t] by simp
  next
    case (2 res u)
    then have u: "preparing s ?p u" "take (nat (tr_preparedBytes r)) (in_data (inodeAt u ?p)) = in_data (inodeAt s ?p)"
      using preparing_trans[OF preparing_fs[OF t]] inode_fs[OF t, of ?p] by auto
    have still: "manifestIs E tid d tmp ?b r u"
      by (rule manifest_write[OF now(1,4) _ now(2) u(1)]) (use u(2) now(5) in simp_all)
    have at: "names u (d, tmp) = Some ?p" using preparing_names[OF u(1)] now(4) by simp
    show ?case
    proof (cases res)
      case None
      then show ?thesis using refused[OF still] by simp
    next
      case (Some x)
      then obtain m h' where x: "res = Some (m, h')" by (cases x) simp
      then obtain bs where bs: "in_data (inodeAt u ?p) = in_data (inodeAt s ?p) @ bs" "m = length bs" "h' = fe_shaWrite E h bs"
        using 2 inode_fs[OF t, of ?p] by auto
      then have h': "h' = hashed E (in_data (inodeAt u ?p))" using assms(6) laws(2) by simp
      have len: "int (length (in_data (inodeAt u ?p))) = tr_preparedBytes r + ?n" if "int m = ?n"
        using bs(1,2) that now(3,5) by simp
      show ?thesis
        unfolding x option.case prod.case
        by (rule if_wp, simp add: refused still, rule sync[OF still at h']) (use len in simp)
    qed
  qed
  have seek: "wp (tryE (fcall E (\<lambda>_. ok ())) (\<lambda>e. return (fileError m9 m10 (emsg e))) (\<lambda>_.
      State_Monad.bind (copyWindow E source ?p (nat (tr_preparedBytes r)) 0 h (nat ?n)) (\<lambda>copied. case copied of
        None \<Rightarrow> return (transferError m6 m7 m8)
      | Some (m, h') \<Rightarrow> if int m \<noteq> ?n then return (transferError m6 m7 m8)
        else tryE (fsyncFD E) (\<lambda>e. return (fileError m4 m5 (emsg e))) (\<lambda>_. State_Monad.bind (expiry E op) (\<lambda>x. let r = ?r h' x in
          tryE (transferSaveRecord E tid r) (\<lambda>_. return (transferError m1 m2 m3)) (\<lambda>_. finishPreparation E op tid r d h'))))))
      (commitFine E tid d tmp ?b r) t" if t: "fw_fs t = fw_fs s" for t m1 m2 m3 m4 m5 m6 m7 m8 m9 m10
    unfolding wp_tryE[of "fcall _ _"]
  proof (rule quiet_fcall[OF assms(1)], goal_cases)
    case (1 e u)
    then show ?case using refused[OF manifest_fs[OF now(1)]] t by simp
  next
    case (2 k u)
    then show ?case unfolding wp_return sum.case by (intro copied) (simp add: t)
  qed
  have finish: "wp (finishPreparation E op tid r d h) (commitFine E tid d tmp ?b r) s"
    by (rule finish_fine[OF assms(1-4) manifest_settled[OF now(1)] manifest_sound[OF now(1)] now(2) assms(6)])
  have room: "wp (tryE (freeSpace E) (\<lambda>e. return (fileError m1 m2 (emsg e))) (\<lambda>fs. if diskFull fs ?n then return (transferError m3 m4 m5) else k))
      (commitFine E tid d tmp ?b r) s" if "\<And>t. fw_fs t = fw_fs s \<Longrightarrow> wp k (commitFine E tid d tmp ?b r) t" for k m1 m2 m3 m4 m5
    unfolding freeSpace_def wp_tryE
    by (rule quiet_fcall[OF assms(1)]) (use that refused[OF manifest_fs[OF now(1)]] in auto)
  show ?thesis
    unfolding prepareWindow_def Let_def[of ?n]
    by (rule if_wp[OF finish], rule room, rule seek)
qed

end
