(* ===== verification/TransferCommit.thy ===== *)
theory TransferCommit
  imports TransferPrepared
begin

text \<open>
  Commit requests: from the first preparation to the answer, over any number of requests with failing
  calls in between. The manifest stays sound, and an answer that says committed is true.
\<close>

section \<open>Going on with a preparation\<close>

lemma truncate_resumes:
  assumes "undisturbed E" and "manifestIs E tid d tmp b r s" and "tr_status r = ''preparing''" and "0 \<le> tr_preparedBytes r"
    and "names s (d, tmp) = Some (preparedInode r)" and "nat (tr_preparedBytes r) \<le> length (in_data (inodeAt s (preparedInode r)))"
    and "st_size pinned = int (length (in_data (inodeAt s (preparedInode r))))"
  shows "wp (truncatePrepared E (preparedInode r) pinned r) (\<lambda>res t. manifestIs E tid d tmp b r t \<and>
     (res = Inr () \<longrightarrow> resumed E tid d tmp b r t)) s"
proof -
  let ?p = "preparedInode r" and ?n = "nat (tr_preparedBytes r)"
  have cut: "wp (ftruncateFD E ?p ?n) (\<lambda>res t. manifestIs E tid d tmp b r t \<and> (res = Inr () \<longrightarrow> resumed E tid d tmp b r t)) s"
    unfolding ftruncateFD_def
  proof (rule quiet_fcall[OF assms(1)], goal_cases)
    case (1 e u)
    then show ?case using manifest_fs[OF assms(2)] by simp
  next
    case (2 k u)
    let ?v = "setInode ?p ((inodeAt u ?p)\<lparr>in_data := take ?n (in_data (inodeAt u ?p)) @ replicate (?n - length (in_data (inodeAt u ?p))) (CHR 0x00),
       in_doc := None, in_mtim := fe_now E k, in_ctim := fe_now E k\<rparr>) u"
    have v: "preparing s ?p ?v" "in_data (inodeAt ?v ?p) = take ?n (in_data (inodeAt s ?p))"
      using inode_fs[OF 2] lookup_fs[OF 2] assms(6) by (auto simp: preparing_def inode_set lookup_set)
    have "manifestIs E tid d tmp b r ?v"
      by (rule manifest_write[OF assms(2,5,6,3) v(1)]) (simp add: v(2))
    moreover from this have "resumed E tid d tmp b r ?v"
      unfolding resumed_def v(2) using assms(3-6) preparing_names[OF v(1)] by simp
    ultimately show ?case by (simp add: Let_def)
  qed
  have sync: "wp (fsyncFD E) (\<lambda>res t. manifestIs E tid d tmp b r t \<and> (res = Inr () \<longrightarrow> resumed E tid d tmp b r t)) t"
    if "manifestIs E tid d tmp b r t" "resumed E tid d tmp b r t" for t
    by (rule wp_sameFs[OF sf.on_looks(2) assms(1)]) (use manifest_fs[OF that(1)] resumed_fs[OF that(2)] in auto)
  have "wp (tryE (ftruncateFD E ?p ?n) fail (\<lambda>_. fsyncFD E)) (\<lambda>res t. manifestIs E tid d tmp b r t \<and>
      (res = Inr () \<longrightarrow> resumed E tid d tmp b r t)) s"
    unfolding wp_tryE by (rule wp_mono[OF cut]) (use sync in \<open>auto split: sum.split\<close>)
  then show ?thesis
    unfolding truncatePrepared_def using assms(2-7) by (auto simp: resumed_def simp del: wp_tryE)
qed

lemma resume_fine:
  assumes "undisturbed E" and "hashLaws E" and "d \<noteq> fe_sessionDir E tid" and "workerDir E op (w_path op) = Some (d, c)"
    and "manifestIs E tid d tmp (baseOf (w_path op)) r s" and "tr_status r = ''preparing''" and "0 \<le> tr_preparedBytes r"
    and "names s (d, tmp) = Some fd"
  shows "wp (resumePrepared E op tid r d source fd) (commitFine E tid d tmp (baseOf (w_path op)) r) s"
proof -
  let ?b = "baseOf (w_path op)" and ?p = "preparedInode r"
  have refused: "commitFine E tid d tmp ?b r resp t" if "manifestIs E tid d tmp ?b r t" "\<not> saysCommitted resp" for resp t
    by (rule fine_not[OF manifest_settled[OF that(1)] that(2)])
  have load: "wp (case fe_shaLoad E (tr_preparedHash r) of Inl e \<Rightarrow> return (fileError m1 m2 (emsg e))
      | Inr h \<Rightarrow> prepareWindow E op tid r d source ?p h) (commitFine E tid d tmp ?b r) t" if "resumed E tid d tmp ?b r t" for t m1 m2
  proof -
    have "sound E d tmp ?b r t" using that manifest_sound by (auto simp: resumed_def)
    then have "fe_shaLoad E (tr_preparedHash r) = Inr (hashed E (in_data (inodeAt t ?p)))"
      using that by (simp add: sound_def resumed_def atDest_def)
    then show ?thesis using window_fine[OF assms(1-4) that] by simp
  qed
  have cut: "wp (tryE (truncatePrepared E ?p (statOf ?p (inodeAt s ?p)) r) (\<lambda>e. return (fileError m3 m4 (emsg e))) (\<lambda>_.
      case fe_shaLoad E (tr_preparedHash r) of Inl e \<Rightarrow> return (fileError m1 m2 (emsg e))
      | Inr h \<Rightarrow> prepareWindow E op tid r d source ?p h)) (commitFine E tid d tmp ?b r) t"
    if t: "fw_fs t = fw_fs s" and p: "fd = ?p" and size: "\<not> int (length (in_data (inodeAt s ?p))) < tr_preparedBytes r" for t m1 m2 m3 m4
    unfolding wp_tryE
  proof (rule wp_mono[OF truncate_resumes[OF assms(1) manifest_fs[OF assms(5) t] assms(6,7)]], goal_cases)
    case (4 res u)
    then show ?case using refused load by (cases res) (simp_all del: wp_sum)
  qed (use assms(8) p size names_fs[OF t] inode_fs[OF t] in simp_all)
  show ?thesis
    unfolding resumePrepared_def wp_tryE[of "fstat _ _"]
  proof (rule calm_fstat[OF assms(1)], goal_cases)
    case (1 e t)
    then show ?case using refused[OF manifest_fs[OF assms(5)]] by simp
  next
    case (2 t)
    have still: "manifestIs E tid d tmp ?b r t" by (rule manifest_fs[OF assms(5) 2])
    show ?case
      unfolding sum.case
    proof (rule if_wp, goal_cases)
      case 1
      show ?case by (simp add: refused still)
    next
      case bad: 2
      then have p: "fd = ?p" by (simp add: isPrepared_statOf)
      show ?case
      proof (rule if_wp, goal_cases)
        case 1
        show ?case by (simp add: refused still)
      next
        case size: 2
        show ?case unfolding p by (rule cut[OF 2 p]) (use size p in simp)
      qed
    qed
  qed
qed

text \<open>A record a preparation may start from: its identity is in order, and it is not being published.\<close>

definition startable :: "string \<Rightarrow> transferRecord \<Rightarrow> transferRecord \<Rightarrow> bool" where
  "startable tmp r0 r = (tr_tempName r = tmp \<and> ascii tmp \<and> ascii (tr_sha256 r) \<and> tr_sha256 r = tr_sha256 r0 \<and> tr_expectedSize r = tr_expectedSize r0)"

lemma step_fine:
  assumes "undisturbed E" and "hashLaws E" and "d \<noteq> fe_sessionDir E tid" and "workerDir E op (w_path op) = Some (d, c)"
    and "tr_status r = ''preparing'' \<Longrightarrow> manifestIs E tid d tmp (baseOf (w_path op)) r s" and "settled E tid d tmp (baseOf (w_path op)) s"
    and "\<And>r' t. startable tmp r r' \<Longrightarrow> settled E tid d tmp (baseOf (w_path op)) t \<Longrightarrow> wp (restart r') (commitFine E tid d tmp (baseOf (w_path op)) r) t"
  shows "wp (prepareStep E restart op tid r) (commitFine E tid d tmp (baseOf (w_path op)) r) s"
proof (cases "tr_status r = ''preparing''")
  case False
  then show ?thesis unfolding prepareStep_def by (simp add: fine_not assms(6))
next
  case True
  let ?b = "baseOf (w_path op)" and ?r = "restartedRecord r"
  note now = assms(5)[OF True]
  have refused: "commitFine E tid d tmp ?b r resp t" if "fw_fs t = fw_fs s" "\<not> saysCommitted resp" for resp t
    by (rule fine_not[OF settled_fs[OF assms(6) that(1)] that(2)])
  have tmp: "tr_tempName r = tmp" and plain: "ascii tmp" "ascii (tr_sha256 r)" using manifest_sound[OF now] by (auto simp: sound_def)
  have again: "wp (tryE (transferSaveRecord E tid (?r x)) (\<lambda>e. return (fileError m1 m2 (emsg e))) (\<lambda>_. restart (?r x))) (commitFine E tid d tmp ?b r) t"
    if t: "fw_fs t = fw_fs s" for t x m1 m2
  proof -
    have sound: "sound E d tmp ?b (?r x) t" using tmp plain by (simp add: sound_def restartedRecord_def)
    have ready: "startable tmp r (?r x)" using tmp plain by (simp add: startable_def restartedRecord_def)
    show ?thesis
      unfolding wp_tryE
    proof (rule wp_mono[OF settle_save[OF assms(1,3) sound]], goal_cases)
      case (1 res u)
      then have u: "settled E tid d tmp ?b u" using settled_settles[OF settled_fs[OF assms(6) t]] by blast
      show ?case using fine_not[OF u] assms(7)[OF ready u] by (cases res) simp_all
    qed
  qed
  have opened: "wp (tryE (openWritable E d tmp) (\<lambda>e. if isNotExist e \<and> tr_preparedBytes r = 0
        then State_Monad.bind (expiry E op) (\<lambda>x. let r = ?r x in tryE (transferSaveRecord E tid r) (\<lambda>e. return (fileError m1 m2 (emsg e))) (\<lambda>_. restart r))
        else return (fileError m3 m4 (emsg e))) (resumePrepared E op tid r d source)) (commitFine E tid d tmp ?b r) t"
    if t: "fw_fs t = fw_fs s" and pos: "0 \<le> tr_preparedBytes r" for t m1 m2 m3 m4 source
    unfolding wp_tryE[of "openWritable _ _ _"]
  proof (rule quiet_openWritable[OF assms(1)], goal_cases)
    case (1 e u)
    then have "fw_fs u = fw_fs s" using t by simp
    then show ?case using refused again by (simp add: expiry_def nowUnix_def Let_def del: wp_tryE)
  next
    case (2 i u)
    have "manifestIs E tid d tmp ?b r u" using manifest_fs[OF now] 2(1) t by simp
    then show ?case
      unfolding sum.case using 2 t names_fs[OF t] names_fs[OF 2(1)]
      by (intro resume_fine[OF assms(1-4) _ True pos]) simp_all
  qed
  have current: "wp (tryE (transferStateAtCommit E d ?b r) (\<lambda>_. return (transferError m5 m6 m7)) (\<lambda>_.
      if \<not> tempIdentity r then return (transferError m8 m9 m10)
      else tryE (openWritable E d tmp) (\<lambda>e. if isNotExist e \<and> tr_preparedBytes r = 0
        then State_Monad.bind (expiry E op) (\<lambda>x. let r = ?r x in tryE (transferSaveRecord E tid r) (\<lambda>e. return (fileError m1 m2 (emsg e))) (\<lambda>_. restart r))
        else return (fileError m3 m4 (emsg e))) (resumePrepared E op tid r d source))) (commitFine E tid d tmp ?b r) t"
    if "fw_fs t = fw_fs s" and "0 \<le> tr_preparedBytes r" for t m1 m2 m3 m4 m5 m6 m7 m8 m9 m10 source
    by (rule still_try[OF state_looks assms(1)], simp add: refused that, rule if_wp, simp add: refused that, rule opened)
      (use that in simp_all)
  have parent: "wp (tryE (openWorkerParentForTransfer E op) (\<lambda>e. return (fileError m11 m12 (emsg e))) (\<lambda>d.
      tryE (transferStateAtCommit E d ?b r) (\<lambda>_. return (transferError m5 m6 m7)) (\<lambda>_.
      if \<not> tempIdentity r then return (transferError m8 m9 m10)
      else tryE (openWritable E d tmp) (\<lambda>e. if isNotExist e \<and> tr_preparedBytes r = 0
        then State_Monad.bind (expiry E op) (\<lambda>x. let r = ?r x in tryE (transferSaveRecord E tid r) (\<lambda>e. return (fileError m1 m2 (emsg e))) (\<lambda>_. restart r))
        else return (fileError m3 m4 (emsg e))) (resumePrepared E op tid r d source)))) (commitFine E tid d tmp ?b r) t"
    if "fw_fs t = fw_fs s" and "0 \<le> tr_preparedBytes r" for t m1 m2 m3 m4 m5 m6 m7 m8 m9 m10 m11 m12 source
    unfolding wp_tryE[of "openWorkerParentForTransfer _ _"]
  proof (rule wp_mono[OF calm_parent[OF assms(1,4)]], goal_cases)
    case (1 x u)
    then have "fw_fs u = fw_fs s" using that(1) by simp
    then show ?case using 1 refused current[OF _ that(2)] by (cases x) (simp_all del: wp_tryE)
  qed
  have stage: "state_io_rel (sameFs E) (transferStageStat E tid)"
    unfolding transferStageStat_def by (intro sf.looking sf.on_looks)
  show ?thesis
    unfolding prepareStep_def tmp
    by (rule if_wp, simp add: refused True, rule if_wp, simp add: refused, rule still_try[OF stage assms(1)], simp add: refused)
      (use refused parent in \<open>auto intro!: if_wp simp del: wp_tryE\<close>)
qed

section \<open>Starting a preparation\<close>

text \<open>\<open>unnamed s p t\<close>: compared with \<open>s\<close> only the inode \<open>p\<close> may have changed, which has no name.\<close>

definition unnamed :: "fworld \<Rightarrow> inodeId \<Rightarrow> fworld \<Rightarrow> bool" where
  "unnamed s p t = (p \<notin> ran (names s) \<and> names t = names s \<and> (\<forall>i. i \<noteq> p \<longrightarrow> inodeAt t i = inodeAt s i) \<and> p \<in> set (fs_held (fw_fs t)))"

lemma unnamed_settles:
  assumes "unnamed s p t"
  shows "settles E tid d tmp b s t"
proof -
  have other: "names s e = Some i \<Longrightarrow> inodeAt t i = inodeAt s i" for e i
    using assms not_ran[of p "names s" e] by (auto simp: unnamed_def)
  have names: "names t = names s" using assms by (simp add: unnamed_def)
  have "recordAt E t tid = recordAt E s tid"
    by (rule recordAt_names) (use names other in \<open>simp_all add: shown_def\<close>)
  then show ?thesis using names other by (auto simp: settles_def atDest_def)
qed

lemma unnamed_fs: "unnamed s p t \<Longrightarrow> fw_fs u = fw_fs t \<Longrightarrow> unnamed s p u"
  using names_fs[of u t] inode_fs[of u t] by (simp add: unnamed_def)

lemma quiet_openUnnamed:
  assumes "undisturbed E" and "\<And>e t. fw_fs t = fw_fs s \<Longrightarrow> Q (Inl e) t" and "\<And>p t. unnamed s p t \<Longrightarrow> Q (Inr p) t"
  shows "wp (openUnnamed E) Q s"
  unfolding openUnnamed_def
proof (rule quiet_fcall[OF assms(1)], goal_cases)
  case (1 e t)
  then show ?case by (rule assms(2))
next
  case (2 k t)
  let ?w = "t\<lparr>fw_fs := (fw_fs t)\<lparr>fs_held := fe_fresh E k (fw_fs t) # fs_held (fw_fs t)\<rparr>\<rparr>"
  have "fe_fresh E k (fw_fs t) \<notin> ran (names s)" using undisturbed_fresh[OF assms(1), of k s] 2 by simp
  moreover have "names ?w = names t" by (simp add: names_def lookupName_def fun_eq_iff)
  moreover have "inodeAt ?w i = inodeAt t i" for i by (simp add: inodeAt_def)
  ultimately show ?case
    using names_fs[OF 2] inode_fs[OF 2] by (auto simp: Let_def unnamed_def names_set inode_set held_set names_set intro!: assms(3))
qed

lemma quiet_link:
  assumes "undisturbed E" and "\<And>e t. fw_fs t = fw_fs s \<Longrightarrow> Q (Inl e) t"
    and "\<And>t. names t = (names s)((d, n) \<mapsto> p) \<Longrightarrow> shown t = shown s \<Longrightarrow> Q (Inr ()) t"
  shows "wp (linkUnnamed E p d n) Q s"
proof -
  have once: "wp (linkOnce E p d n) (\<lambda>r t. (case r of Inl e \<Rightarrow> fw_fs t = fw_fs s | Inr _ \<Rightarrow>
      names t = (names s)((d, n) \<mapsto> p) \<and> shown t = shown s)) u" if "fw_fs u = fw_fs s" for u
    unfolding linkOnce_def
  proof (rule quiet_fcall[OF assms(1)], goal_cases)
    case (1 e t)
    then show ?case using that by simp
  next
    case (2 k t)
    then have t: "fw_fs t = fw_fs s" using that by simp
    show ?case using t names_fs[OF t] shown_fs[OF t] by (auto simp: names_set shown_set fun_eq_iff)
  qed
  show ?thesis
    unfolding linkUnnamed_def wp_tryE
  proof (rule wp_mono[OF once[OF refl]], goal_cases)
    case (1 r t)
    show ?case
    proof (cases r)
      case (Inl e)
      then have t: "fw_fs t = fw_fs s" using 1 by simp
      have "wp (linkOnce E p d n) Q t"
        by (rule wp_mono[OF once[OF t]]) (use assms(2,3) in \<open>auto split: sum.splits\<close>)
      then show ?thesis using Inl assms(2)[OF t] by simp
    next
      case (Inr x)
      then show ?thesis using 1 assms(3) by simp
    qed
  qed
qed

lemma unnamed_set: "unnamed s p t \<Longrightarrow> unnamed s p (setInode p x t)"
  by (auto simp: unnamed_def names_set inode_set held_set)

lemma unnamed_chmod:
  assumes "undisturbed E" and "unnamed s p t"
  shows "wp (fchmod E p m) (\<lambda>_ u. unnamed s p u) t"
  unfolding fchmod_def
  by (rule quiet_fcall[OF assms(1)]) (simp_all add: Let_def unnamed_fs[OF assms(2)] unnamed_set)

lemma started_sound:
  assumes "hashLaws E" and "startable tmp r0 r"
  shows "sound E d tmp b (startedRecord E r staged prepared original x) t" and "startable tmp r0 (startedRecord E r staged prepared original x)"
    and "tr_tempName (startedRecord E r staged prepared original x) = tmp"
  using assms(2) hashed_laws(1,4,5)[OF assms(1)]
  by (auto simp: startedRecord_def Let_def sound_def startable_def split: option.split)

lemma linked_manifest:
  assumes "settled E tid d tmp b u" and "d \<noteq> fe_sessionDir E tid" and "p \<notin> ran (names u)" and "\<And>t. sound E d tmp b r t"
    and "recordAt E u tid = Some (storedRecord r)" and "names t = (names u)((d, tmp) \<mapsto> p)" and "shown t = shown u"
  shows "manifestIs E tid d tmp b r t"
proof -
  have man: "names t (fe_sessionDir E tid, n) = names u (fe_sessionDir E tid, n)" for n using assms(2,6) by simp
  have "recordAt E t tid = recordAt E u tid"
    by (rule recordAt_names) (simp_all add: man assms(7))
  then have rec: "recordAt E t tid = Some (storedRecord r)" using assms(5) by simp
  have "names u (fe_sessionDir E tid, manifestName) \<noteq> Some p" by (rule not_ran[OF assms(3)])
  then have "names t (fe_sessionDir E tid, manifestName) \<noteq> Some q" if "atDest d tmp b t q" for q
    using that assms(1,6) man unfolding settled_def atDest_def by (metis fun_upd_apply option.inject)
  then show ?thesis
    using rec sound_stored[OF assms(4)] alike_stored[OF assms(4)] unfolding manifestIs_def settled_def by blast
qed

lemma unnamed_fine:
  assumes "undisturbed E" and "hashLaws E" and "d \<noteq> fe_sessionDir E tid" and "settled E tid d tmp b s" and "unnamed s p t"
    and "startable tmp r0 r"
    and "\<And>r' t. manifestIs E tid d tmp b r' t \<Longrightarrow> startable tmp r0 r' \<Longrightarrow> wp (step r') (commitFine E tid d tmp b r0) t"
  shows "wp (prepareUnnamed E step op tid r d staged original p) (commitFine E tid d tmp b r0) t"
proof -
  have settled: "settled E tid d tmp b u" if "unnamed s p u" for u
    by (rule settled_settles[OF assms(4) unnamed_settles[OF that]])
  note refused = fine_not[OF settled]
  let ?r = "startedRecord E r staged"
  have linked: "wp (tryE (linkUnnamed E p d (tr_tempName r')) (\<lambda>e. return (fileError m1 m2 (m3 @ emsg e))) (\<lambda>_.
      tryE (fsyncFD E) (\<lambda>e. return (fileError m4 m5 (emsg e))) (\<lambda>_. step r'))) (commitFine E tid d tmp b r0) u"
    if u: "settled E tid d tmp b u" "p \<notin> ran (names u)" "recordAt E u tid = Some (storedRecord r')" and r': "r' = ?r prepared original x"
    for u r' prepared original x m1 m2 m3 m4 m5
  proof -
    have r: "sound E d tmp b r' v" "startable tmp r0 r'" "tr_tempName r' = tmp" for v
      using started_sound[OF assms(2,6)] r' by simp_all
    have go: "wp (tryE (fsyncFD E) (\<lambda>e. return (fileError m4 m5 (emsg e))) (\<lambda>_. step r')) (commitFine E tid d tmp b r0) v"
      if "manifestIs E tid d tmp b r' v" for v
      by (rule still_try[OF sf.on_looks(2) assms(1)])
        (use fine_not[OF manifest_settled[OF manifest_fs[OF that]]] assms(7)[OF manifest_fs[OF that] r(2)] in simp_all)
    show ?thesis
      unfolding wp_tryE[of "linkUnnamed _ _ _ _"] r(3)
    proof (rule quiet_link[OF assms(1)], goal_cases)
      case (1 e v)
      then show ?case using fine_not[OF settled_fs[OF u(1)]] by simp
    next
      case (2 v)
      then have "manifestIs E tid d tmp b r' v" by (intro linked_manifest[OF u(1) assms(3) u(2) r(1) u(3)])
      then show ?case unfolding sum.case by (rule go)
    qed
  qed
  have saved: "wp (tryE (transferSaveRecord E tid r') (\<lambda>_. return (transferError m6 m7 m8)) (\<lambda>_.
      tryE (linkUnnamed E p d (tr_tempName r')) (\<lambda>e. return (fileError m1 m2 (m3 @ emsg e))) (\<lambda>_.
      tryE (fsyncFD E) (\<lambda>e. return (fileError m4 m5 (emsg e))) (\<lambda>_. step r')))) (commitFine E tid d tmp b r0) u"
    if u: "unnamed s p u" and r': "r' = ?r prepared original x" for u r' prepared original x m1 m2 m3 m4 m5 m6 m7 m8
  proof -
    have r: "sound E d tmp b r' u" using started_sound(1)[OF assms(2,6)] r' by simp
    show ?thesis
      unfolding wp_tryE[of "transferSaveRecord _ _ _"]
    proof (rule wp_mono[OF settle_save[OF assms(1,3) r]], goal_cases)
      case (1 res v)
      then have v: "settled E tid d tmp b v" using settled_settles[OF settled[OF u]] by blast
      have "names v e \<noteq> Some p" for e
      proof -
        have "fresher u v" "p \<in> set (fs_held (fw_fs u))" "names u e \<noteq> Some p"
          using 1 u not_ran[of p "names s" e] by (auto simp: unnamed_def)
        then show ?thesis unfolding fresher_def by blast
      qed
      then have "p \<notin> ran (names v)" by (auto simp: ran_def)
      then show ?case
        using 1 v fine_not[OF v] linked[OF v _ _ r'] by (cases res) (simp_all del: wp_tryE)
    qed
  qed
  have stat: "wp (tryE (fstat E p) (\<lambda>e. return (fileError m9 m10 (emsg e))) (\<lambda>prepared. State_Monad.bind (expiry E op) (\<lambda>x.
      let r = ?r prepared original x in
      tryE (transferSaveRecord E tid r) (\<lambda>_. return (transferError m6 m7 m8)) (\<lambda>_.
      tryE (linkUnnamed E p d (tr_tempName r)) (\<lambda>e. return (fileError m1 m2 (m3 @ emsg e))) (\<lambda>_.
      tryE (fsyncFD E) (\<lambda>e. return (fileError m4 m5 (emsg e))) (\<lambda>_. step r)))))) (commitFine E tid d tmp b r0) u"
    if "unnamed s p u" for u m1 m2 m3 m4 m5 m6 m7 m8 m9 m10
  proof (rule still_try[OF sf.on_looks(1) assms(1)], goal_cases)
    case (1 e v)
    then show ?case using refused[OF unnamed_fs[OF that]] by simp
  next
    case (2 x v)
    then show ?case using saved[OF unnamed_fs[OF that 2] refl] by (simp add: expiry_def nowUnix_def Let_def del: wp_tryE)
  qed
  have sync: "wp (tryE (fsyncFD E) (\<lambda>e. return (fileError m9 m10 (emsg e))) (\<lambda>_.
      tryE (fstat E p) (\<lambda>e. return (fileError m9 m10 (emsg e))) (\<lambda>prepared. State_Monad.bind (expiry E op) (\<lambda>x.
      let r = ?r prepared original x in
      tryE (transferSaveRecord E tid r) (\<lambda>_. return (transferError m6 m7 m8)) (\<lambda>_.
      tryE (linkUnnamed E p d (tr_tempName r)) (\<lambda>e. return (fileError m1 m2 (m3 @ emsg e))) (\<lambda>_.
      tryE (fsyncFD E) (\<lambda>e. return (fileError m4 m5 (emsg e))) (\<lambda>_. step r))))))) (commitFine E tid d tmp b r0) u"
    if "unnamed s p u" for u m1 m2 m3 m4 m5 m6 m7 m8 m9 m10
    by (rule still_try[OF sf.on_looks(2) assms(1)]) (use refused stat unnamed_fs[OF that] in \<open>simp_all del: wp_tryE wp_bind\<close>)
  have chmod: "wp (tryE (fchmod E p m) (\<lambda>e. return (fileError m9 m10 (emsg e))) (\<lambda>_.
      tryE (fsyncFD E) (\<lambda>e. return (fileError m9 m10 (emsg e))) (\<lambda>_.
      tryE (fstat E p) (\<lambda>e. return (fileError m9 m10 (emsg e))) (\<lambda>prepared. State_Monad.bind (expiry E op) (\<lambda>x.
      let r = ?r prepared original x in
      tryE (transferSaveRecord E tid r) (\<lambda>_. return (transferError m6 m7 m8)) (\<lambda>_.
      tryE (linkUnnamed E p d (tr_tempName r)) (\<lambda>e. return (fileError m1 m2 (m3 @ emsg e))) (\<lambda>_.
      tryE (fsyncFD E) (\<lambda>e. return (fileError m4 m5 (emsg e))) (\<lambda>_. step r)))))))) (commitFine E tid d tmp b r0) t"
    for m m1 m2 m3 m4 m5 m6 m7 m8 m9 m10
    unfolding wp_tryE[of "fchmod _ _ _"]
    by (rule wp_mono[OF unnamed_chmod[OF assms(1,5)]]) (use refused sync in \<open>auto split: sum.split simp del: wp_tryE wp_bind\<close>)
  show ?thesis
    unfolding prepareUnnamed_def Let_def by (rule chmod[unfolded Let_def])
qed

lemma fine_close: "commitFine E tid d tmp b r resp t \<Longrightarrow> wp (State_Monad.bind (closeUnnamed p) (\<lambda>_. return resp)) (commitFine E tid d tmp b r) t"
proof -
  let ?u = "t\<lparr>fw_fs := (fw_fs t)\<lparr>fs_held := filter (\<lambda>j. j \<noteq> p) (fs_held (fw_fs t))\<rparr>\<rparr>"
  have same: "names ?u = names t" "inodeAt ?u = inodeAt t"
    by (simp_all add: names_def lookupName_def inodeAt_def fun_eq_iff)
  have "recordAt E ?u tid = recordAt E t tid" unfolding recordAt_def same ..
  then show "commitFine E tid d tmp b r resp t \<Longrightarrow> wp (State_Monad.bind (closeUnnamed p) (\<lambda>_. return resp)) (commitFine E tid d tmp b r) t"
    using same by (simp add: closeUnnamed_def commitFine_def settled_def sound_def atDest_def holdsDeclared_def)
qed

lemma start_fine:
  assumes "undisturbed E" and "hashLaws E" and "d \<noteq> fe_sessionDir E tid" and "workerDir E op (w_path op) = Some (d, c)"
    and "settled E tid d tmp (baseOf (w_path op)) s" and "startable tmp r0 r"
    and "\<And>r' t. manifestIs E tid d tmp (baseOf (w_path op)) r' t \<Longrightarrow> startable tmp r0 r' \<Longrightarrow> wp (step r') (commitFine E tid d tmp (baseOf (w_path op)) r0) t"
  shows "wp (startPreparation E step op tid r) (commitFine E tid d tmp (baseOf (w_path op)) r0) s"
proof -
  let ?b = "baseOf (w_path op)"
  have settled: "settled E tid d tmp ?b t" if "settles E tid d tmp ?b s t" for t by (rule settled_settles[OF assms(5) that])
  note refused = fine_not[OF settled]
  have opened: "wp (tryE (openUnnamed E) (\<lambda>e. return (fileError m1 m2 (m3 @ emsg e))) (\<lambda>p.
      State_Monad.bind (prepareUnnamed E step op tid r d st original p) (\<lambda>resp. State_Monad.bind (closeUnnamed p) (\<lambda>_. return resp))))
      (commitFine E tid d tmp ?b r0) t" if "settles E tid d tmp ?b s t" for t st original m1 m2 m3
    unfolding wp_tryE
  proof (rule quiet_openUnnamed[OF assms(1)], goal_cases)
    case (1 e u)
    then show ?case using refused[OF st.step_trans[OF that settles_fs]] by simp
  next
    case (2 p u)
    show ?case
      unfolding sum.case wp_bind[of "prepareUnnamed _ _ _ _ _ _ _ _ _"]
      by (rule wp_mono[OF unnamed_fine[OF assms(1-3) settled[OF that] 2 assms(6,7)]], assumption, assumption, rule fine_close)
  qed
  have cleaned: "wp (tryE (transferCleanupUnpublishedTemp E op r) (\<lambda>e. return (fileError m4 m5 (emsg e))) (\<lambda>_.
      tryE (openUnnamed E) (\<lambda>e. return (fileError m1 m2 (m3 @ emsg e))) (\<lambda>p.
      State_Monad.bind (prepareUnnamed E step op tid r d st original p) (\<lambda>resp. State_Monad.bind (closeUnnamed p) (\<lambda>_. return resp)))))
      (commitFine E tid d tmp ?b r0) t" if "settles E tid d tmp ?b s t" for t st original m1 m2 m3 m4 m5
    by (rule settle_try[OF that settle_cleanup[OF assms(1,3,4) st.step_refl]]) (use refused opened in \<open>simp_all del: wp_tryE wp_bind\<close>)
  have stage: "state_io_rel (sameFs E) (transferStageStat E tid)"
    unfolding transferStageStat_def by (intro sf.looking sf.on_looks)
  have parent: "wp (tryE (openWorkerParentForTransfer E op) (\<lambda>e. return (fileError m6 m7 (emsg e))) (\<lambda>d.
      tryE (destinationState E d ?b) (\<lambda>e. return (fileError m8 m9 (emsg e))) (\<lambda>original.
      if bad1 original then return (transferError m10 m11 m12)
      else if bad2 original then return (transferError m13 m14 m15)
      else tryE (transferCleanupUnpublishedTemp E op r) (\<lambda>e. return (fileError m4 m5 (emsg e))) (\<lambda>_.
      tryE (openUnnamed E) (\<lambda>e. return (fileError m1 m2 (m3 @ emsg e))) (\<lambda>p.
      State_Monad.bind (prepareUnnamed E step op tid r d st original p) (\<lambda>resp. State_Monad.bind (closeUnnamed p) (\<lambda>_. return resp)))))))
      (commitFine E tid d tmp ?b r0) t" if "settles E tid d tmp ?b s t"
    for t st bad1 bad2 m1 m2 m3 m4 m5 m6 m7 m8 m9 m10 m11 m12 m13 m14 m15
    by (rule settle_parent[OF that assms(1,4)], simp add: refused, rule settle_look[OF _ sf.on_destinationState assms(1)], assumption,
        simp add: refused, rule if_wp, simp add: refused, rule if_wp, simp add: refused, erule cleaned)
  show ?thesis
    unfolding startPreparation_def Let_def
    by (rule settle_look[OF st.step_refl[of E tid d tmp ?b s] stage assms(1)], simp add: refused)
      (use refused parent in \<open>auto intro!: if_wp simp del: wp_tryE wp_bind\<close>)
qed

section \<open>Commit requests\<close>

lemma rounds_fine:
  assumes "undisturbed E" and "hashLaws E" and "d \<noteq> fe_sessionDir E tid" and "workerDir E op (w_path op) = Some (d, c)"
  shows "manifestIs E tid d tmp (baseOf (w_path op)) r s \<Longrightarrow> startable tmp r0 r \<Longrightarrow>
     wp (prepareRounds E op tid n r) (commitFine E tid d tmp (baseOf (w_path op)) r0) s"
proof (induction n arbitrary: r s)
  case 0
  then show ?case by (simp add: commitFine_def manifest_settled saysCommitted_def zeroResponse_def)
next
  case (Suc n)
  have same: "commitFine E tid d tmp (baseOf (w_path op)) r = commitFine E tid d tmp (baseOf (w_path op)) r0"
    using Suc.prems(2) by (intro fine_same) (simp_all add: startable_def)
  have "wp (startPreparation E (prepareRounds E op tid n) op tid r') (commitFine E tid d tmp (baseOf (w_path op)) r) t"
    if "startable tmp r r'" "settled E tid d tmp (baseOf (w_path op)) t" for r' t
    unfolding same
  proof (rule start_fine[OF assms that(2)])
    show "startable tmp r0 r'" using that(1) Suc.prems(2) unfolding startable_def by metis
  qed (rule Suc.IH)
  then show ?case
    unfolding prepareRounds.simps same[symmetric] by (intro step_fine[OF assms Suc.prems(1) manifest_settled[OF Suc.prems(1)]])
qed

lemma commit_fine:
  assumes "undisturbed E" and "hashLaws E" and "d \<noteq> fe_sessionDir E tid" and "workerDir E op (w_path op) = Some (d, c)"
    and "recordAt E s tid = Some r" and "settled E tid d (tr_tempName r) (baseOf (w_path op)) s" and "tr_status r \<noteq> ''committed''"
  shows "wp (commitTransfer E op tid r) (commitFine E tid d (tr_tempName r) (baseOf (w_path op)) r) s"
proof -
  let ?b = "baseOf (w_path op)" and ?tmp = "tr_tempName r"
  note refused = fine_not[OF assms(6)]
  have now: "manifestIs E tid d ?tmp ?b r s" using assms(5,6) by (simp add: manifestIs_def alike_def)
  then have sound: "sound E d ?tmp ?b r s" by (rule manifest_sound)
  then have ready: "startable ?tmp r r" by (simp add: startable_def sound_def)
  have reconcile: "wp (State_Monad.bind (transferReconcileCommit E op tid r) (\<lambda>(resp, _). return resp)) (commitFine E tid d ?tmp ?b r) s"
    if "tr_status r = ''committing''"
    unfolding wp_bind
    by (rule wp_mono[OF reconcile_outcome[OF assms(1,3,4) sound that st.step_refl]]) (auto intro: outcome_fine[OF assms(6)])
  have conflicted: "wp (State_Monad.bind (transferTerminalReceipt E op tid r) (\<lambda>result. return (if \<not> r_ok result then result
      else transferError m1 m2 m3))) (commitFine E tid d ?tmp ?b r) s" for m1 m2 m3
    unfolding wp_bind
    by (rule wp_mono[OF settle_terminal[OF assms(1,3,4) st.step_refl]]) (auto intro!: fine_not settled_settles[OF assms(6)])
  have step: "wp (transferPrepareStep E op tid r) (commitFine E tid d ?tmp ?b r) s"
    unfolding transferPrepareStep_def by (rule rounds_fine[OF assms(1-4) now ready])
  have start: "wp (transferStartPreparation E op tid r) (commitFine E tid d ?tmp ?b r) s"
    unfolding transferStartPreparation_def by (rule start_fine[OF assms(1-4,6) ready]) (rule rounds_fine[OF assms(1-4)])
  show ?thesis
    unfolding commitTransfer_def
    using assms(7) reconcile conflicted step start by (intro if_wp) (simp_all add: refused del: wp_bind)
qed

lemma calm_commit:
  assumes "undisturbed E" and "hashLaws E" and "w_transferOp op = ''commit''" and "workerDir E op (w_path op) = Some (d, c)"
    and "d \<noteq> fe_sessionDir E (w_transferID op)" and "recordAt E s (w_transferID op) = Some r"
    and "settled E (w_transferID op) d (tr_tempName r) (baseOf (w_path op)) s" and "tr_status r \<noteq> ''committed''"
  shows "wp (workerWorkspaceTransfer E op) (commitFine E (w_transferID op) d (tr_tempName r) (baseOf (w_path op)) r) s"
proof (rule quiet_worker[OF assms(1)], goal_cases)
  case (1 resp t)
  then show ?case by (simp add: fine_not settled_fs[OF assms(7)])
next
  case (2 now t)
  let ?fine = "commitFine E (w_transferID op) d (tr_tempName r) (baseOf (w_path op)) r"
  have refused: "?fine resp u" if "fw_fs u = fw_fs s" "\<not> saysCommitted resp" for resp u
    by (rule fine_not[OF settled_fs[OF assms(7) that(1)] that(2)])
  have "wp (continueTransfer E op now) ?fine t"
    unfolding continueTransfer_def Let_def wp_tryE[of "transferReadRecord _ _"]
  proof (rule wp_mono[OF quiet_readRecord[OF assms(1)]], goal_cases)
    case (1 x u)
    then have u: "fw_fs u = fw_fs s" and x: "x = Inr q \<Longrightarrow> q = r" for q
      using 2(1) assms(6) recordAt_fs[OF 2(1)] by auto
    have "wp (commitTransfer E op (w_transferID op) r) ?fine u"
      by (rule commit_fine[OF assms(1,2,5,4) _ settled_fs[OF assms(7) u] assms(8)]) (use recordAt_fs[OF u] assms(6) in simp)
    then show ?case
      using x u refused[OF u] assms(3) by (cases x) auto
  qed
  then show ?case using assms(3) by simp
qed

end
