(* ===== verification/TransferLive.thy ===== *)
theory TransferLive
  imports TransferCommit FileLive
begin

text \<open>
  Recovery: a transfer whose file is at its destination, but whose manifest still says \<open>committing\<close> (the
  executor was cut off in between), is completed by the next status or commit request, when no call fails.
\<close>

section \<open>Smooth calls\<close>

text \<open>The session's directory is there, and the random names in it are free.\<close>

definition sessionReady :: "fileEnv \<Rightarrow> string \<Rightarrow> fworld \<Rightarrow> bool" where
  "sessionReady E tid s = (fe_stagingRoot E \<noteq> fe_sessionDir E tid \<and>
     (\<exists>x. names s (fe_stagingRoot E, tid) = Some x \<and> isDirectory (in_mode (inodeAt s x))) \<and>
     (\<forall>k. names s (fe_sessionDir E tid, tempName (fe_random E k)) = None) \<and>
     (\<forall>n i. n \<in> {manifestName, dataName} \<longrightarrow> names s (fe_sessionDir E tid, n) = Some i \<longrightarrow> \<not> isDirectory (in_mode (inodeAt s i))))"

lemma ready_fs: "sessionReady E tid s \<Longrightarrow> fw_fs t = fw_fs s \<Longrightarrow> sessionReady E tid t"
  using names_fs[of t s] inode_fs[of t s] by (simp add: sessionReady_def)

lemma smooth_openSession:
  "smooth E \<Longrightarrow> sessionReady E tid s \<Longrightarrow> (\<And>t. fw_fs t = fw_fs s \<Longrightarrow> Q (Inr (fe_sessionDir E tid)) t) \<Longrightarrow> wp (openSession E tid) Q s"
  using inode_fs[OF smooth_fs, of E s] smooth_fs[of E s]
  by (auto simp: openSession_def smooth_fcall smooth_lookup sessionReady_def)

lemma smooth_over:
  assumes "smooth E" and "names s (d, a) = Some x" and "\<And>y. names s (d, b) = Some y \<Longrightarrow> \<not> isDirectory (in_mode (inodeAt s y))"
  shows "wp (renameOver E d a b) (\<lambda>r _. r = Inr ()) s"
  using assms(2,3) inode_fs[OF smooth_fs[OF assms(1)], of s]
  by (auto simp: renameOver_def smooth_fcall[OF assms(1)] smooth_lookup[OF assms(1)] split: option.split)

lemma temp_not_manifest [simp]: "tempName r \<noteq> manifestName" "manifestName \<noteq> tempName r"
  by (metis isTemp_tempName manifest_not_temp(1))+

lemma smooth_publish:
  assumes "smooth E" and "names u (fe_sessionDir E tid, n) = Some p" and "isTemp n" and "in_mode (inodeAt u p) = 0x8180"
    and "\<And>y. names u (fe_sessionDir E tid, manifestName) = Some y \<Longrightarrow> \<not> isDirectory (in_mode (inodeAt u y))"
  shows "wp (publishManifest E (fe_sessionDir E tid) p n r) (\<lambda>x _. x = (Inr (), False)) u"
proof -
  have plain: "\<not> isDirectory (0x8180 :: 32 word)" by (simp add: isDirectory_def)
  have renamed: "wp (tryE (renameOver E (fe_sessionDir E tid) n manifestName) (\<lambda>e. return (Inl e, True)) (\<lambda>_.
      State_Monad.bind (fsyncFD E) (\<lambda>res. return (res, False)))) (\<lambda>x _. x = (Inr (), False)) v"
    if "preparing u p v" "in_mode (inodeAt v p) = 0x8180" for v
  proof -
    have dir: "\<not> isDirectory (in_mode (inodeAt v y))" if "names v (fe_sessionDir E tid, manifestName) = Some y" for y
      using assms(5) that \<open>in_mode (inodeAt v p) = 0x8180\<close> plain \<open>preparing u p v\<close> preparing_names[OF \<open>preparing u p v\<close>]
      by (cases "y = p") (auto simp: preparing_def)
    show ?thesis
      unfolding wp_tryE
      by (rule wp_mono[OF smooth_over[OF assms(1) _ dir]])
        (use preparing_names[OF that(1)] assms(2) in \<open>auto intro!: smooth_fsync[OF assms(1)]\<close>)
  qed
  have synced: "wp (tryE (fsyncFD E) (\<lambda>e. return (Inl e, True)) (\<lambda>_. tryE (renameOver E (fe_sessionDir E tid) n manifestName) (\<lambda>e. return (Inl e, True))
      (\<lambda>_. State_Monad.bind (fsyncFD E) (\<lambda>res. return (res, False))))) (\<lambda>x _. x = (Inr (), False)) v"
    if v: "preparing u p v" "in_mode (inodeAt v p) = 0x8180" for v
    unfolding wp_tryE[of "fsyncFD _"]
  proof (rule smooth_fsync[OF assms(1)], goal_cases)
    case (1 t)
    have "preparing u p t" "in_mode (inodeAt t p) = 0x8180"
      using preparing_trans[OF v(1) preparing_fs[OF 1]] inode_fs[OF 1, of p] v(2) by simp_all
    then show ?case unfolding sum.case by (rule renamed)
  qed
  show ?thesis
    unfolding publishManifest_def wp_tryE[of "writeAllFD _ _ _ _"]
  proof (rule wp_mono[OF wp_conj[OF smooth_writeAll[OF assms(1)] writeAllFD_prefix[OF smooth_und[OF assms(1)], of 0 0]]], goal_cases)
    case (3 x v)
    then have "preparing u p (setDoc p (Some (storedRecord r)) v)" "in_mode (inodeAt (setDoc p (Some (storedRecord r)) v) p) = 0x8180"
      using assms(4) by (auto simp: preparing_def setDoc_def lookup_set inode_set)
    then show ?case using 3 synced by (simp del: wp_tryE)
  qed simp_all
qed

lemma smooth_save:
  assumes "smooth E" and "sessionReady E tid s" and "length (recordJSON r) \<le> transferManifestMax"
  shows "wp (transferSaveRecord E tid r) (\<lambda>res t. res = Inr () \<and> besides (journal E tid) s t) s"
proof -
  have done_ok: "wp (State_Monad.bind (publishManifest E (fe_sessionDir E tid) p n r) (\<lambda>(res, owned).
      if owned then State_Monad.bind (unlinkAt E (fe_sessionDir E tid) n) (\<lambda>_. return res) else return res)) (\<lambda>res _. res = Inr ()) u"
    if t: "fw_fs t = fw_fs s" and u: "names u = (names t)((fe_sessionDir E tid, n) \<mapsto> p)" "p \<notin> ran (names t)" "in_mode (inodeAt u p) = 0x8180"
      "\<forall>i. i \<noteq> p \<longrightarrow> inodeAt u i = inodeAt t i" "n = tempName (fe_random E k)" for t u p n k
    unfolding wp_bind
  proof (rule wp_mono[OF smooth_publish[OF assms(1)]])
    have "\<not> isDirectory (in_mode (inodeAt t y)) \<and> y \<noteq> p" if "names t (fe_sessionDir E tid, manifestName) = Some y" for y
      using ready_fs[OF assms(2) t] that not_ran[OF u(2), of "(fe_sessionDir E tid, manifestName)"] by (auto simp: sessionReady_def)
    then show "\<not> isDirectory (in_mode (inodeAt u y))" if "names u (fe_sessionDir E tid, manifestName) = Some y" for y
      using that u(1,4,5) by simp
  qed (use u in auto)
  have "wp (tryE (createTempFileAt E (fe_sessionDir E tid)) fail (\<lambda>(fd, n). State_Monad.bind (publishManifest E (fe_sessionDir E tid) fd n r) (\<lambda>(res, owned).
      if owned then State_Monad.bind (unlinkAt E (fe_sessionDir E tid) n) (\<lambda>_. return res) else return res))) (\<lambda>res _. res = Inr ()) t"
    if t: "fw_fs t = fw_fs s" for t
    unfolding wp_tryE
    by (rule wp_mono[OF smooth_createTemp[OF assms(1)]])
      (use ready_fs[OF assms(2) t] done_ok[OF t] in \<open>auto simp: sessionReady_def simp del: wp_bind\<close>)
  then have "wp (transferSaveRecord E tid r) (\<lambda>res _. res = Inr ()) s"
    unfolding transferSaveRecord_def using assms(3)
    by (auto simp: wp_tryE[of "openSession _ _"] simp del: wp_tryE wp_bind intro!: smooth_openSession[OF assms(1,2)])
  then show ?thesis
    by (rule wp_mono[OF wp_conj[OF _ quiet_save[OF smooth_und[OF assms(1)]]]]) blast
qed

lemma ready_besides:
  assumes "sessionReady E tid s" and "besides (journal E tid) s t"
  shows "\<exists>x. names t (fe_stagingRoot E, tid) = Some x \<and> isDirectory (in_mode (inodeAt t x))"
    and "names t (fe_sessionDir E tid, dataName) = Some i \<Longrightarrow> \<not> isDirectory (in_mode (inodeAt t i))"
proof -
  obtain x where x: "names s (fe_stagingRoot E, tid) = Some x" "isDirectory (in_mode (inodeAt s x))" "fe_stagingRoot E \<noteq> fe_sessionDir E tid"
    using assms(1) by (auto simp: sessionReady_def)
  then have "\<not> journal E tid (fe_stagingRoot E, tid)" by (simp add: journal_def)
  from besidesD[OF assms(2) this] x(1) have "names t (fe_stagingRoot E, tid) = Some x" "shown t x = shown s x" by simp_all
  then show "\<exists>x. names t (fe_stagingRoot E, tid) = Some x \<and> isDirectory (in_mode (inodeAt t x))"
    using x(2) shown_same[of t x s x] by simp
  assume i: "names t (fe_sessionDir E tid, dataName) = Some i"
  then have "names s (fe_sessionDir E tid, dataName) = Some i" "shown t i = shown s i"
    using besidesD[OF assms(2), of "(fe_sessionDir E tid, dataName)"] by simp_all
  then show "\<not> isDirectory (in_mode (inodeAt t i))"
    using assms(1) shown_same[of t i s i] by (simp add: sessionReady_def)
qed

lemma smooth_removeData:
  assumes "smooth E" and "sessionReady E tid s" and "besides (journal E tid) s t"
  shows "wp (transferRemoveData E tid) (\<lambda>res _. res = Inr ()) t"
proof -
  have sync: "wp (fsyncFD E) (\<lambda>res _. res = Inr ()) u" for u by (rule smooth_fsync[OF assms(1)]) simp
  have kind: "inodeAt (fadvance E u) i = inodeAt t i" "names u e = names t e" if "fw_fs u = fw_fs t" for u i e
    using inode_fs[OF smooth_fs[OF assms(1)], of u i] inode_fs[OF that, of i] names_fs[OF that] by simp_all
  have "wp (tryE (unlinkAt E (fe_sessionDir E tid) dataName) (\<lambda>e. if isNotExist e then fsyncFD E else fail e) (\<lambda>_. fsyncFD E))
      (\<lambda>res _. res = Inr ()) u" if u: "fw_fs u = fw_fs t" for u
    using ready_besides(2)[OF assms(2,3)] sync kind[OF u]
    by (auto simp: unlinkAt_def smooth_fcall[OF assms(1)] smooth_lookup[OF assms(1)] missing_def isNotExist_def split: option.split)
  then show ?thesis
    unfolding transferRemoveData_def openSession_def
    using ready_besides(1)[OF assms(2,3)] smooth_fs[OF assms(1), of t] kind(1)[OF refl]
    by (auto simp: smooth_fcall[OF assms(1)] smooth_lookup[OF assms(1)] wp_tryE[of "fcall _ _"] simp del: wp_tryE)
qed

section \<open>The rest of a commit\<close>

text \<open>The prepared file is at the destination, complete.\<close>

definition publishedAt :: "nat \<Rightarrow> string \<Rightarrow> transferRecord \<Rightarrow> fworld \<Rightarrow> bool" where
  "publishedAt d b r s = (names s (d, b) = Some (preparedInode r) \<and> isRegular (in_mode (inodeAt s (preparedInode r))) \<and>
     int (length (in_data (inodeAt s (preparedInode r)))) = tr_expectedSize r \<and> names s (d, tr_tempName r) = None)"

text \<open>The receipt of the commit.\<close>

definition committedRecord :: "fileEnv \<Rightarrow> transferRecord \<Rightarrow> fworld \<Rightarrow> transferRecord" where
  "committedRecord E r s = r\<lparr>tr_status := ''committed'', tr_resultVersion := fileVersion E (statOf (preparedInode r) (inodeAt s (preparedInode r)))\<rparr>"

lemma published_fs: "publishedAt d b r s \<Longrightarrow> fw_fs t = fw_fs s \<Longrightarrow> publishedAt d b r t \<and> committedRecord E r t = committedRecord E r s"
  using names_fs[of t s] inode_fs[of t s] by (simp add: publishedAt_def committedRecord_def)

lemma smooth_confirmed:
  assumes "smooth E" and "sessionReady E tid s" and "publishedAt d b r s" and "length (recordJSON (committedRecord E r s)) \<le> transferManifestMax"
  shows "wp (transferConfirmPublished E tid r d b) (\<lambda>resp _. resp = transferReceipt (committedRecord E r s)) s"
proof -
  let ?p = "preparedInode r"
  have at: "names s (d, b) = Some ?p" "isRegular (in_mode (inodeAt s ?p))" "int (length (in_data (inodeAt s ?p))) = tr_expectedSize r"
    using assms(3) by (auto simp: publishedAt_def)
  have look: "wp (destinationState E d b) Q t" if "fw_fs t = fw_fs s" "\<And>u. fw_fs u = fw_fs s \<Longrightarrow> Q (Inr (Some (statOf ?p (inodeAt s ?p)))) u" for Q t
    by (rule smooth_dest[OF assms(1)]) (use that at names_fs[OF that(1)] inode_fs[OF that(1)] in auto)
  have saved: "wp (tryE (transferSaveRecord E tid (committedRecord E r s)) h1 (\<lambda>_. tryE (transferRemoveData E tid) h2
      (\<lambda>_. return (transferReceipt (committedRecord E r s))))) (\<lambda>resp _. resp = transferReceipt (committedRecord E r s)) t"
    if t: "fw_fs t = fw_fs s" for t h1 h2
    unfolding wp_tryE
    by (rule wp_mono[OF smooth_save[OF assms(1) ready_fs[OF assms(2) t] assms(4)]])
      (auto intro!: wp_mono[OF smooth_removeData[OF assms(1) ready_fs[OF assms(2) t]]])
  have again: "wp (tryE (destinationState E d b) h3 (\<lambda>found2. case found2 of None \<Rightarrow> h4 | Some final2 \<Rightarrow> if \<not> isPrepared r final2 then h5
      else tryE (transferSaveRecord E tid (r\<lparr>tr_status := ''committed'', tr_resultVersion := fileVersion E final2\<rparr>)) h1 (\<lambda>_.
        tryE (transferRemoveData E tid) h2 (\<lambda>_. return (transferReceipt (r\<lparr>tr_status := ''committed'', tr_resultVersion := fileVersion E final2\<rparr>))))))
      (\<lambda>resp _. resp = transferReceipt (committedRecord E r s)) t" if "fw_fs t = fw_fs s" for t h1 h2 h3 h4 h5
    unfolding wp_tryE[of "destinationState _ _ _"]
    by (rule look[OF that]) (use saved in \<open>simp add: isPrepared_statOf committedRecord_def del: wp_tryE\<close>)
  have synced: "wp (tryE (fsyncFD E) h6 (\<lambda>_. tryE (destinationState E d b) h3 (\<lambda>found2. case found2 of None \<Rightarrow> h4 | Some final2 \<Rightarrow> if \<not> isPrepared r final2 then h5
      else tryE (transferSaveRecord E tid (r\<lparr>tr_status := ''committed'', tr_resultVersion := fileVersion E final2\<rparr>)) h1 (\<lambda>_.
        tryE (transferRemoveData E tid) h2 (\<lambda>_. return (transferReceipt (r\<lparr>tr_status := ''committed'', tr_resultVersion := fileVersion E final2\<rparr>)))))))
      (\<lambda>resp _. resp = transferReceipt (committedRecord E r s)) t" if t: "fw_fs t = fw_fs s" for t h1 h2 h3 h4 h5 h6
    unfolding wp_tryE[of "fsyncFD _"]
    by (rule smooth_fsync[OF assms(1)]) (use again t in \<open>simp del: wp_tryE wp_option\<close>)
  show ?thesis
    unfolding transferConfirmPublished_def Let_def wp_tryE[of "destinationState _ _ _"]
    by (rule look[OF refl]) (use synced at(3) in \<open>simp add: isPrepared_statOf del: wp_tryE\<close>)
qed

lemma smooth_reconcile:
  assumes "smooth E" and "sessionReady E tid s" and "publishedAt d (baseOf (w_path op)) r s"
    and "length (recordJSON (committedRecord E r s)) \<le> transferManifestMax" and "tr_mustNotExist r \<or> tr_exchangeVerified r"
    and "\<And>u. fst (run_state (openWorkerParentForTransfer E op) u) = Inr d"
  shows "wp (transferReconcileCommit E op tid r) (\<lambda>x _. fst x = transferReceipt (committedRecord E r s)) s"
proof -
  let ?b = "baseOf (w_path op)" and ?p = "preparedInode r"
  have parent: "state_io_rel (sameFs E) (openWorkerParentForTransfer E op)"
    unfolding openWorkerParentForTransfer_def by (intro sf.looking sf.on_looks sf.on_openWorkerWorkspace sf.on_openWorkerParent)
  have opened: "wp (openWorkerParentForTransfer E op) (\<lambda>x t. x = Inr d \<and> fw_fs t = fw_fs s) s"
    by (rule wp_conj) (use assms(6) in \<open>auto simp: wp_run intro!: wp_sameFs[OF parent smooth_und[OF assms(1)], unfolded wp_run]\<close>)
  have confirm: "wp (State_Monad.bind (transferConfirmPublished E tid r d ?b) (\<lambda>resp. return (resp, False)))
      (\<lambda>x _. fst x = transferReceipt (committedRecord E r s)) t" if t: "fw_fs t = fw_fs s" for t
    unfolding wp_bind
    by (rule wp_mono[OF smooth_confirmed[OF assms(1) ready_fs[OF assms(2) t]]]) (use published_fs[OF assms(3) t] assms(4) in auto)
  have published: "wp (reconcilePublished E op tid r d ?b final) (\<lambda>x _. fst x = transferReceipt (committedRecord E r s)) t"
    if t: "fw_fs t = fw_fs s" for t final
    unfolding reconcilePublished_def Let_def wp_tryE[of "pathState _ _ _"]
    by (rule smooth_pathState[OF assms(1)])
      (use confirm t published_fs[OF assms(3) t] assms(5) in \<open>auto simp: publishedAt_def simp del: wp_bind wp_tryE\<close>)
  have inspect: "wp (tryE (destinationState E d ?b) h (\<lambda>found. case found of None \<Rightarrow> k | Some final \<Rightarrow>
      if isPrepared r final \<and> st_size final = tr_expectedSize r then reconcilePublished E op tid r d ?b final else k2))
      (\<lambda>x _. fst x = transferReceipt (committedRecord E r s)) t" if t: "fw_fs t = fw_fs s" for t h k k2
    unfolding wp_tryE
    by (rule smooth_dest[OF assms(1)])
      (use published t published_fs[OF assms(3) t] in \<open>auto simp: publishedAt_def isPrepared_statOf\<close>)
  show ?thesis
    unfolding transferReconcileCommit_def Let_def wp_tryE[of "openWorkerParentForTransfer _ _"]
    by (rule wp_mono[OF opened]) (use inspect in \<open>auto simp del: wp_tryE\<close>)
qed

section \<open>Requests\<close>

text \<open>The manifest can be read.\<close>

definition readable :: "fileEnv \<Rightarrow> string \<Rightarrow> transferRecord \<Rightarrow> fworld \<Rightarrow> bool" where
  "readable E tid r s = (validRecord r \<and> (\<exists>m. names s (fe_sessionDir E tid, manifestName) = Some m \<and> isRegular (in_mode (inodeAt s m)) \<and>
     1 \<le> length (in_data (inodeAt s m)) \<and> length (in_data (inodeAt s m)) \<le> transferManifestMax \<and> in_doc (inodeAt s m) = Some r))"

text \<open>The request is well-formed, the settings are usable, the staging area is free and the workspace opens.\<close>

definition admitted :: "fileEnv \<Rightarrow> workspaceFileOperation \<Rightarrow> bool" where
  "admitted E op = (validateWorkspaceTransferRequest (transferRequest op) = Inr () \<and> 0 < w_transferQuotaMiB op \<and> 0 < w_transferTTL op \<and>
     0 < w_transferMaxSessions op \<and> w_transferMaxSessions op \<le> 64 \<and> (\<forall>k. \<not> fe_stagingBusy E k) \<and>
     (\<forall>u. \<exists>ws. fst (run_state (openWorkerWorkspace E op) u) = Inr ws))"

lemma regular_not_symlink: "isRegular m \<Longrightarrow> \<not> isSymlink m"
  by (simp add: isRegular_def isSymlink_def)

lemma smooth_readRecord:
  assumes "smooth E" and "readable E tid r s" and "\<And>t. fw_fs t = fw_fs s \<Longrightarrow> Q (Inr r) t"
  shows "wp (transferReadRecord E tid) Q s"
proof -
  obtain m where m: "names s (fe_sessionDir E tid, manifestName) = Some m" "isRegular (in_mode (inodeAt s m))" "1 \<le> length (in_data (inodeAt s m))"
    "length (in_data (inodeAt s m)) \<le> transferManifestMax" "in_doc (inodeAt s m) = Some r" and valid: "validRecord r"
    using assms(2) by (auto simp: readable_def)
  have look: "inodeAt t m = inodeAt s m" if "fw_fs t = fw_fs s" for t by (rule inode_fs[OF that])
  have all: "wp (tryE (readAllFD E m) h1 (\<lambda>x. case in_doc x of None \<Rightarrow> h2 | Some r \<Rightarrow>
      if length (in_data x) > transferManifestMax + 1 then h3 else if validRecord r then ok r else h4)) Q t" if t: "fw_fs t = fw_fs s" for t h1 h2 h3 h4
    using assms(3) t smooth_fs[OF assms(1), of t] look[OF t] look[of "fadvance E t"] m(4,5) valid
    by (simp add: readAllFD_def smooth_fcall[OF assms(1)])
  have stat: "wp (tryE (fstat E m) h5 (\<lambda>st. if \<not> isRegular (st_mode st) \<or> st_size st < 1 \<or> st_size st > int transferManifestMax then h6
      else tryE (readAllFD E m) h1 (\<lambda>x. case in_doc x of None \<Rightarrow> h2 | Some r \<Rightarrow>
      if length (in_data x) > transferManifestMax + 1 then h3 else if validRecord r then ok r else h4))) Q t" if t: "fw_fs t = fw_fs s" for t h1 h2 h3 h4 h5 h6
    unfolding wp_tryE[of "fstat _ _"]
    by (rule smooth_fstat[OF assms(1)]) (use all t look[OF t] m(2,3,4) in \<open>auto simp del: wp_tryE\<close>)
  show ?thesis
    unfolding transferReadRecord_def wp_tryE[of "openPinned _ _ _"]
    by (rule smooth_pinned[OF assms(1) m(1) regular_not_symlink[OF m(2)]]) (use stat in \<open>simp del: wp_tryE\<close>)
qed

text \<open>An admitted request reaches its handler.\<close>

lemma smooth_worker:
  assumes "smooth E" and "admitted E op" and "w_transferOp op \<noteq> ''begin''"
    and "\<And>k t. fw_fs t = fw_fs s \<Longrightarrow> wp (continueTransfer E op (fe_now E k div 1000000000)) Q t"
  shows "wp (workerWorkspaceTransfer E op) Q s"
proof -
  have fs: "fw_fs (fadvance E t) = fw_fs s" if "fw_fs t = fw_fs s" for t using smooth_fs[OF assms(1)] that by simp
  have locked: "wp (withStaging E busy (State_Monad.bind (nowUnix E) (\<lambda>now. if w_transferOp op = ''begin'' then beginTransfer E op now
      else continueTransfer E op now))) Q t" if "fw_fs t = fw_fs s" for t busy
    using assms(2,3,4) fs[OF fs[OF that]]
    by (simp add: withStaging_def lockStaging_def smooth_fcall[OF assms(1)] nowUnix_def admitted_def)
  have opened: "wp (openWorkerWorkspace E op) (\<lambda>x t. (\<exists>ws. x = Inr ws) \<and> fw_fs t = fw_fs s) s"
    by (rule wp_conj) (use assms(2) in \<open>auto simp: admitted_def wp_run intro!: wp_sameFs[OF sf.on_openWorkerWorkspace smooth_und[OF assms(1)], unfolded wp_run]\<close>)
  have "wp (tryE (openWorkerWorkspace E op) h (\<lambda>_. withStaging E busy (State_Monad.bind (nowUnix E) (\<lambda>now. if w_transferOp op = ''begin''
      then beginTransfer E op now else continueTransfer E op now)))) Q s" for h busy
    unfolding wp_tryE by (rule wp_mono[OF opened]) (use locked in auto)
  then show ?thesis
    using assms(2) unfolding workerWorkspaceTransfer_def by (simp add: admitted_def del: wp_tryE)
qed

text \<open>A commit that was cut off after its file had reached the destination.\<close>

definition recoverable :: "fileEnv \<Rightarrow> workspaceFileOperation \<Rightarrow> nat \<Rightarrow> transferRecord \<Rightarrow> fworld \<Rightarrow> bool" where
  "recoverable E op d r s = (readable E (w_transferID op) r s \<and> sameTransfer op r \<and> tr_status r = ''committing'' \<and>
     (tr_mustNotExist r \<or> tr_exchangeVerified r) \<and> sessionReady E (w_transferID op) s \<and> publishedAt d (baseOf (w_path op)) r s \<and>
     length (recordJSON (committedRecord E r s)) \<le> transferManifestMax)"

lemma smooth_recover:
  assumes "smooth E" and "admitted E op" and "w_transferOp op = ''status'' \<or> w_transferOp op = ''commit''"
    and "\<And>u. fst (run_state (openWorkerParentForTransfer E op) u) = Inr d" and "recoverable E op d r s"
  shows "wp (workerWorkspaceTransfer E op) (\<lambda>resp _. resp = transferReceipt (committedRecord E r s)) s"
proof (rule smooth_worker[OF assms(1,2)])
  show "w_transferOp op \<noteq> ''begin''" using assms(3) by auto
  fix k :: nat and t :: fworld
  assume t: "fw_fs t = fw_fs s"
  have r: "readable E (w_transferID op) r t" "sameTransfer op r" "tr_status r = ''committing''"
    using assms(5) names_fs[OF t] inode_fs[OF t] by (auto simp: recoverable_def readable_def)
  have finish: "wp (State_Monad.bind (transferReconcileCommit E op (w_transferID op) r) (\<lambda>(resp, _). return resp))
      (\<lambda>resp _. resp = transferReceipt (committedRecord E r s)) u" if "fw_fs u = fw_fs t" for u
  proof -
    have u: "fw_fs u = fw_fs s" using that t by simp
    show ?thesis
      unfolding wp_bind
      by (rule wp_mono[OF smooth_reconcile[OF assms(1) ready_fs[OF _ u] _ _ _ assms(4)]])
        (use assms(5) published_fs[OF _ u] in \<open>auto simp: recoverable_def\<close>)
  qed
  show "wp (continueTransfer E op (fe_now E k div 1000000000)) (\<lambda>resp _. resp = transferReceipt (committedRecord E r s)) t"
    unfolding continueTransfer_def Let_def wp_tryE[of "transferReadRecord _ _"]
    by (rule smooth_readRecord[OF assms(1) r(1)])
      (use finish r(2,3) assms(3) in \<open>auto simp: statusTransfer_def commitTransfer_def terminalStatus_def simp del: wp_bind\<close>)
qed

end
