(* ===== verification/TransferExamples.thy ===== *)
theory TransferExamples
  imports TransferLive FileExamples
begin

text \<open>
  A staging area for the witnesses: one transfer of eight bytes to a new file, as it is while five bytes have
  arrived, and as it is after its file was installed but not recorded as committed.
\<close>

definition exampleDigest :: "nat \<Rightarrow> string" where
  "exampleDigest n = replicate 63 (CHR ''0'') @ [''0123456789abcdef'' ! (n mod 16)]"

definition exampleTransferEnv :: fileEnv where
  "exampleTransferEnv = exampleFileEnv\<lparr>fe_shaNew := 0, fe_shaWrite := (\<lambda>h b. h + length b), fe_shaSum := exampleDigest,
     fe_shaSave := (\<lambda>h. replicate h (CHR ''x'')), fe_shaLoad := (\<lambda>m. Inr (length m)), fe_sha256 := (\<lambda>b. exampleDigest (length b)), fe_now := (\<lambda>_. 0)\<rparr>"

definition exampleTransfer :: string where
  "exampleTransfer = ''tr_'' @ replicate 64 (CHR ''a'')"

definition exampleTransferOp :: workspaceFileOperation where
  "exampleTransferOp = zeroOperation\<lparr>w_root := ''/w'', w_workspace := ''/w'', w_path := ''b.txt'', w_transferID := exampleTransfer,
     w_principalID := ''u'', w_principalClass := ''c'', w_transferQuotaMiB := 1, w_transferTTL := 1000, w_transferMaxSessions := 1\<rparr>"

definition exampleChunk :: workspaceFileOperation where
  "exampleChunk = exampleTransferOp\<lparr>w_transferOp := ''chunk'', w_chunkBase64 := b64_encode ''hello'', w_chunkSHA256 := exampleDigest 5\<rparr>"

definition exampleCommit :: workspaceFileOperation where
  "exampleCommit = exampleTransferOp\<lparr>w_transferOp := ''commit''\<rparr>"

definition exampleRecord :: transferRecord where
  "exampleRecord = (newRecord (exampleTransferOp\<lparr>w_expectedSize := 8, w_sha256 := exampleDigest 8, w_mustNotExist := True\<rparr>) exampleTransfer 1000)
     \<lparr>tr_received := 5\<rparr>"

definition exampleCommitting :: transferRecord where
  "exampleCommitting = exampleRecord\<lparr>tr_received := 8, tr_status := ''committing'', tr_preparedBytes := 8, tr_preparedHash := ''xxxxxxxx'',
     tr_stagedVersion := ''v'', tr_preparedIno := 23\<rparr>"

text \<open>The staging root is 1, the session's directory 2, the destination's directory 3.\<close>

definition exampleStage :: "transferRecord \<Rightarrow> ((nat \<times> string) \<times> inodeId) list \<Rightarrow> fworld" where
  "exampleStage r entries = \<lparr>fw_tick = 0, fw_fs = \<lparr>fs_names = [((1, exampleTransfer), Ino 0 20), ((2, manifestName), Ino 0 21), ((2, dataName), Ino 0 22)] @ entries,
     fs_inodes = (\<lambda>i. \<lparr>in_mode = (if i = Ino 0 20 then 0x41C0 else 0x8180), in_uid = 0, in_gid = 0, in_mtim = 0, in_ctim = 0,
       in_data = (if i = Ino 0 21 then recordJSON r else if i = Ino 0 22 then ''hello'' else ''hello...''),
       in_doc = (if i = Ino 0 21 then Some r else None)\<rparr>), fs_held = []\<rparr>,
     fw_degraded = False, fw_busy = 0, fw_trace = []\<rparr>"

definition exampleStaged :: fworld where
  "exampleStaged = exampleStage exampleRecord []"

definition exampleInstalled :: fworld where
  "exampleInstalled = exampleStage exampleCommitting [((3, ''b.txt''), Ino 0 23)]"

lemma transferEnv_sel [simp]:
  "fe_others exampleTransferEnv = (\<lambda>_ f. f)" "fe_fault exampleTransferEnv = (\<lambda>_. None)" "fe_accepts exampleTransferEnv = (\<lambda>_. 8)"
  "fe_openDir exampleTransferEnv = (\<lambda>_ _ _ _. Inr 3)" "fe_fsType exampleTransferEnv = (\<lambda>_. 0)" "fe_random exampleTransferEnv = (\<lambda>_. [])"
  "fe_sessionDir exampleTransferEnv = (\<lambda>_. 2)" "fe_stagingRoot exampleTransferEnv = 1" "fe_stagingBusy exampleTransferEnv = (\<lambda>_. False)"
  "fe_sha256 exampleTransferEnv = (\<lambda>b. exampleDigest (length b))" "fe_fresh exampleTransferEnv = fe_fresh exampleFileEnv"
  "fe_now exampleTransferEnv = (\<lambda>_. 0)"
  by (simp_all add: exampleTransferEnv_def exampleFileEnv_def)

lemma transfer_undisturbed: "undisturbed exampleTransferEnv"
  using example_undisturbed by (simp add: undisturbed_def)

lemma transfer_smooth: "smooth exampleTransferEnv"
  by (simp add: smooth_def transfer_undisturbed pseudoFilesystems_def)

lemma transfer_hash: "hashLaws exampleTransferEnv"
  by (simp add: hashLaws_def exampleTransferEnv_def ascii_def list_all_iff)

lemma digest_valid [simp]: "transferDigestValid (exampleDigest n)"
proof -
  have "''0123456789abcdef'' ! (n mod 16) \<in> set ''0123456789abcdef''" by (rule nth_mem) simp
  then show ?thesis by (simp add: transferDigestValid_def hexText_def exampleDigest_def list_all_iff)
qed

lemma transfer_id_valid [simp]: "transferIDValid exampleTransfer"
  by (simp add: transferIDValid_def exampleTransfer_def hexText_def list_all_iff hasPrefix_def)

lemma example_decoded [simp]: "decode64Strict (b64_encode ''hello'') = Some ''hello''"
  by (rule decode64_encode)

lemma transferOp_sel [simp]:
  "w_root exampleTransferOp = ''/w''" "w_workspace exampleTransferOp = ''/w''" "w_path exampleTransferOp = ''b.txt''"
  "w_transferID exampleTransferOp = exampleTransfer" "w_principalID exampleTransferOp = ''u''" "w_principalClass exampleTransferOp = ''c''"
  "w_offset exampleTransferOp = 0" "w_expectedSize exampleTransferOp = 0" "w_sha256 exampleTransferOp = []" "w_transferKey exampleTransferOp = []"
  "w_fileVersion exampleTransferOp = []" "\<not> w_mustNotExist exampleTransferOp" "w_chunkBase64 exampleTransferOp = []" "w_chunkSHA256 exampleTransferOp = []"
  "w_transferQuotaMiB exampleTransferOp = 1" "w_transferTTL exampleTransferOp = 1000" "w_transferMaxSessions exampleTransferOp = 1"
  by (simp_all add: exampleTransferOp_def zeroOperation_def)

lemma example_workspace:
  assumes "w_root op = ''/w''" and "w_workspace op = ''/w''"
  shows "fst (run_state (openWorkerWorkspace exampleTransferEnv op) u) = Inr 3"
proof -
  have "wp (openWorkerWorkspace exampleTransferEnv op) (\<lambda>x _. x = Inr 3) u"
    using assms by (simp add: openWorkerWorkspace_def openDir_def wp_fcall Let_def)
  then show ?thesis by (simp add: wp_run)
qed

lemma example_parent:
  assumes "w_root op = ''/w''" and "w_workspace op = ''/w''" and "w_path op = ''b.txt''"
  shows "fst (run_state (openWorkerParentForTransfer exampleTransferEnv op) u) = Inr 3"
proof -
  have "wp (openWorkerParentForTransfer exampleTransferEnv op) (\<lambda>x _. x = Inr 3) u"
    using assms by (simp add: openWorkerParentForTransfer_def openWorkerWorkspace_def openWorkerParent_def rejectPseudoFilesystem_def
      openDir_def wp_fcall Let_def pseudoFilesystems_def)
  then show ?thesis by (simp add: wp_run)
qed

lemma example_admitted: "admitted exampleTransferEnv exampleChunk" "admitted exampleTransferEnv exampleCommit"
  by (auto simp: admitted_def validateWorkspaceTransferRequest_def validTransferStep_def transferRequest_def zeroRequest_def
    exampleChunk_def exampleCommit_def encodedLen64_def transferChunkMax_def Let_def example_workspace)

lemma digest_plain [simp]: "list_all plainChar (exampleDigest n)" "length (exampleDigest n) = 64" "exampleDigest n \<noteq> []"
proof -
  have "''0123456789abcdef'' ! (n mod 16) \<in> set ''0123456789abcdef''" by (rule nth_mem) simp
  then show "list_all plainChar (exampleDigest n)" by (auto simp: exampleDigest_def list_all_iff plainChar_def)
qed (simp_all add: exampleDigest_def)

lemma transfer_plain [simp]: "list_all plainChar exampleTransfer" "length exampleTransfer = 67" "exampleTransfer \<noteq> []"
  by (simp_all add: exampleTransfer_def list_all_iff plainChar_def)

lemma plain_ascii: "list_all plainChar s \<Longrightarrow> ascii s"
  by (auto simp: ascii_def plainChar_def list_all_iff)

lemma temp_plain [simp]: "list_all plainChar (transferTempName exampleTransfer)" "length (transferTempName exampleTransfer) = 86"
    "transferTempName exampleTransfer \<noteq> []"
  by (simp_all add: transferTempName_def transferPrefix_def exampleTransfer_def list_all_iff plainChar_def)

lemma committing_json:
  assumes "list_all plainChar v" and "length v \<le> 100"
  shows "length (recordJSON (exampleCommitting\<lparr>tr_status := ''committed'', tr_resultVersion := v\<rparr>)) \<le> transferManifestMax"
  using assms
  by (simp add: recordJSON_def jsonField_def jsonOmitEmpty_def jsonOmitZero_def jsonString_plain plainChar_def transferManifestMax_def
    exampleCommitting_def exampleRecord_def newRecord_def itoa_def itoa_nat.simps digit_char_def jsonBool_def)

lemma stage_names:
  "names (exampleStage r entries) e = (if e = (1, exampleTransfer) then Some (Ino 0 20) else if e = (2, manifestName) then Some (Ino 0 21)
     else if e = (2, dataName) then Some (Ino 0 22) else map_of entries e)"
  by (cases e) (auto simp: names_def lookupName_def exampleStage_def)

lemma stage_inode:
  "in_mode (inodeAt (exampleStage r entries) i) = (if i = Ino 0 20 then 0x41C0 else 0x8180)"
  "in_data (inodeAt (exampleStage r entries) i) = (if i = Ino 0 21 then recordJSON r else if i = Ino 0 22 then ''hello'' else ''hello...'')"
  "in_doc (inodeAt (exampleStage r entries) i) = (if i = Ino 0 21 then Some r else None)"
  by (simp_all add: inodeAt_def exampleStage_def)

lemma stage_modes [simp]: "isDirectory (0x41C0 :: 32 word)" "isRegular (0x8180 :: 32 word)" "\<not> isDirectory (0x8180 :: 32 word)"
  by (simp_all add: isDirectory_def isRegular_def)

lemma stage_record: "recordAt exampleTransferEnv (exampleStage r entries) tid = Some r"
  by (simp add: recordAt_def stage_names stage_inode)

lemma example_stored: "storedRecord exampleRecord = exampleRecord"
proof -
  have "cleanText (exampleDigest n) = exampleDigest n" "cleanText exampleTransfer = exampleTransfer"
    "cleanText (transferTempName exampleTransfer) = transferTempName exampleTransfer" for n
    by (rule cleanText_ascii, rule plain_ascii, simp)+
  moreover have "ascii ''u''" "ascii ''c''" "ascii ''/w''" "ascii ''b.txt''" by (simp_all add: ascii_def)
  ultimately show ?thesis
    by (simp add: storedRecord_def exampleRecord_def newRecord_def cleanText_ascii)
qed

lemma stage_held [simp]: "fs_held (fw_fs (exampleStage r entries)) = []"
  by (simp add: exampleStage_def)

lemma example_staged: "stagedAt exampleTransferEnv exampleStaged exampleTransfer exampleRecord (Ino 0 22)"
proof -
  have "tr_received exampleRecord = 5" by (simp add: exampleRecord_def)
  moreover have "names exampleStaged e = Some (Ino 0 22) \<longleftrightarrow> e = (2, dataName)" for e
    by (simp add: exampleStaged_def stage_names manifestName_def dataName_def)
  ultimately show ?thesis
    by (simp add: stagedAt_def example_stored) (simp add: exampleStaged_def stage_record stage_inode)
qed

lemma example_wellformed: "validRecord exampleRecord" "validRecord exampleCommitting"
  by (simp_all add: validRecord_def exampleCommitting_def exampleRecord_def newRecord_def transferStatuses_def)

lemma record_json: "length (recordJSON exampleRecord) \<le> transferManifestMax \<and> 1 \<le> length (recordJSON exampleRecord)"
    "length (recordJSON exampleCommitting) \<le> transferManifestMax \<and> 1 \<le> length (recordJSON exampleCommitting)"
  by (simp_all add: recordJSON_def jsonField_def jsonOmitEmpty_def jsonOmitZero_def jsonString_plain plainChar_def transferManifestMax_def
    exampleCommitting_def exampleRecord_def newRecord_def itoa_def itoa_nat.simps digit_char_def jsonBool_def)

lemma example_same: "sameTransfer exampleChunk exampleRecord" "sameTransfer exampleCommit exampleCommitting"
  by (simp_all add: sameTransfer_def exampleChunk_def exampleCommit_def exampleCommitting_def exampleRecord_def newRecord_def)

lemma example_recoverable: "recoverable exampleTransferEnv exampleCommit 3 exampleCommitting exampleInstalled"
proof -
  have p: "preparedInode exampleCommitting = Ino 0 23"
    by (simp add: preparedInode_def exampleCommitting_def exampleRecord_def newRecord_def)
  have version: "list_all plainChar (fileVersion exampleTransferEnv st)" "length (fileVersion exampleTransferEnv st) \<le> 100" for st
    by (simp_all add: fileVersion_def plainChar_def)
  have fields: "tr_status exampleCommitting = ''committing''" "tr_mustNotExist exampleCommitting" "tr_expectedSize exampleCommitting = 8"
    "tr_tempName exampleCommitting = transferTempName exampleTransfer"
    by (simp_all add: exampleCommitting_def exampleRecord_def newRecord_def)
  have temp: "transferTempName exampleTransfer \<noteq> ''b.txt''" by (simp add: transferTempName_def transferPrefix_def)
  show ?thesis
    using committing_json[OF version] record_json(2) example_wellformed(2) example_same(2) temp
    by (auto simp: recoverable_def readable_def sessionReady_def publishedAt_def committedRecord_def fields p exampleInstalled_def stage_names stage_inode
      exampleCommit_def tempName_def tempPrefix_def manifestName_def dataName_def)
qed

lemma example_settled: "settled exampleTransferEnv exampleTransfer 3 (tr_tempName exampleCommitting) ''b.txt'' exampleInstalled"
proof -
  have fields: "tr_status exampleCommitting = ''committing''" "tr_sha256 exampleCommitting = exampleDigest 8"
    "tr_tempName exampleCommitting = transferTempName exampleTransfer" "tr_preparedHash exampleCommitting = ''xxxxxxxx''"
    "preparedInode exampleCommitting = Ino 0 23"
    by (simp_all add: preparedInode_def exampleCommitting_def exampleRecord_def newRecord_def)
  have "ascii (transferTempName exampleTransfer)" "ascii (exampleDigest 8)" by (simp_all add: plain_ascii)
  then have "sound exampleTransferEnv 3 (tr_tempName exampleCommitting) ''b.txt'' exampleCommitting exampleInstalled"
    by (simp add: sound_def fields exampleInstalled_def stage_inode) (simp add: ascii_def eval_nat_numeral)
  moreover have "transferTempName exampleTransfer \<noteq> ''b.txt''" by (simp add: transferTempName_def transferPrefix_def)
  ultimately show ?thesis
    by (auto simp: settled_def exampleInstalled_def stage_record atDest_def stage_names)
qed

text \<open>Sending the first five bytes again is answered with the progress.\<close>

lemma example_chunk_ok: "wp (workerWorkspaceTransfer exampleTransferEnv exampleChunk) (\<lambda>resp _. r_ok resp) exampleStaged"
proof (rule smooth_worker[OF transfer_smooth example_admitted(1)])
  show "w_transferOp exampleChunk \<noteq> ''begin''" by (simp add: exampleChunk_def)
  fix k :: nat and t :: fworld
  assume t: "fw_fs t = fw_fs exampleStaged"
  have op: "w_transferOp exampleChunk = ''chunk''" "w_transferID exampleChunk = exampleTransfer"
    "w_chunkSHA256 exampleChunk = exampleDigest 5" "w_offset exampleChunk = 0"
    by (simp_all add: exampleChunk_def)
  have five: "Suc (Suc (Suc (Suc (Suc 0)))) = 5" by simp
  have "w_chunkBase64 (o1\<lparr>w_transferOp := a, w_chunkBase64 := x, w_chunkSHA256 := y\<rparr>) = x" for o1 a x y by simp
  then have "w_chunkBase64 exampleChunk = b64_encode ''hello''" unfolding exampleChunk_def by blast
  then have decoded: "decode64Strict (w_chunkBase64 exampleChunk) = Some ''hello''" by (simp only: example_decoded)
  have r: "tr_status exampleRecord = ''uploading''" "tr_expiresUnix exampleRecord = 1000" "tr_received exampleRecord = 5" "tr_expectedSize exampleRecord = 8"
    by (simp_all add: exampleRecord_def newRecord_def)
  have readable: "readable exampleTransferEnv exampleTransfer exampleRecord t"
    using example_wellformed(1) record_json(1) names_fs[OF t] inode_fs[OF t]
    by (auto simp: readable_def exampleStaged_def stage_names stage_inode)
  have data: "lookupName u 2 dataName = Some (Ino 0 22) \<and> inodeAt u (Ino 0 22) = inodeAt exampleStaged (Ino 0 22)"
    if "fw_fs u = fw_fs exampleStaged" for u
    using look_fs[OF that, of 2 dataName] inode_fs[OF that] by (simp add: exampleStaged_def stage_names manifestName_def dataName_def)
  have fs: "fw_fs (fadvance exampleTransferEnv u) = fw_fs u" for u by (rule smooth_fs[OF transfer_smooth])
  have bytes: "in_data (inodeAt exampleStaged (Ino 0 22)) = ''hello''" "in_mode (inodeAt exampleStaged (Ino 0 22)) = 0x8180"
    by (simp_all add: exampleStaged_def stage_inode)
  have accept: "wp (acceptChunk exampleTransferEnv exampleChunk exampleTransfer exampleRecord ''hello'') (\<lambda>resp _. r_ok resp) u"
    if u: "fw_fs u = fw_fs exampleStaged" for u
  proof -
    let ?a = "fadvance exampleTransferEnv"
    have "fw_fs (?a u) = fw_fs exampleStaged" "fw_fs (?a (?a u)) = fw_fs exampleStaged" "fw_fs (?a (?a (?a u))) = fw_fs exampleStaged"
      using fs u by simp_all
    from data[OF this(1)] data[OF this(2)] data[OF this(3)] show ?thesis
      unfolding acceptChunk_def Let_def openWritable_def fstat_def
      by (simp add: smooth_fcall[OF transfer_smooth] op r truncateStaged_def replayChunk_def readAllFD_def isSymlink_def bytes)
  qed
  show "wp (continueTransfer exampleTransferEnv exampleChunk (fe_now exampleTransferEnv k div 1000000000)) (\<lambda>resp _. r_ok resp) t"
    unfolding continueTransfer_def Let_def wp_tryE[of "transferReadRecord _ _"] op
    by (rule smooth_readRecord[OF transfer_smooth readable])
      (use accept t in \<open>simp add: example_same op r decoded transferChunk_def transferChunkMax_def five\<close>)
qed

end
