(* ===== verification/TransferEnds.thy ===== *)
theory TransferEnds
  imports TransferRequests FileContents
begin

text \<open>
  Every transfer request is answered, whatever other processes do and whatever calls fail: a preparation
  starts over only when the name of the prepared file, which it had just linked, has been taken away again.
\<close>

section \<open>Links made\<close>

definition isLinked :: "fileEvent \<Rightarrow> bool" where
  "isLinked ev = (case ev of Linked _ _ _ \<Rightarrow> True | _ \<Rightarrow> False)"

definition linksMade :: "fworld \<Rightarrow> nat" where
  "linksMade w = length (filter isLinked (fw_trace w))"

definition linksGrow :: "fworld \<Rightarrow> fworld \<Rightarrow> bool" where
  "linksGrow s t = (linksMade s \<le> linksMade t)"

lemma links_set [simp]:
  "linksMade (setName d n i w) = linksMade w" "linksMade (dropName d n w) = linksMade w" "linksMade (setInode i x w) = linksMade w"
  "linksMade (touch E k i w) = linksMade w" "linksMade (setDoc i r w) = linksMade w" "linksMade (fadvance E w) = linksMade w"
  "linksMade (logEvent ev w) = linksMade w + (if isLinked ev then 1 else 0)"
  by (auto simp: linksMade_def world_defs setDoc_def)

lemma links_held [simp]: "linksMade (w\<lparr>fw_fs := f\<rparr>) = linksMade w"
  by (simp add: linksMade_def)

interpretation li: inode_frame linksGrow E fd for E fd
  by unfold_locales (auto simp: linksGrow_def)

lemma li_calls:
  "state_io_rel linksGrow (unlinkAt E d n)" "state_io_rel linksGrow (renameOver E d a b)" "state_io_rel linksGrow (createExcl E d n)"
  "state_io_rel linksGrow (openUnnamed E)" "state_io_rel linksGrow (linkOnce E p d n)" "state_io_rel linksGrow (openSession E tid)"
  "state_io_rel linksGrow (transferStageStat E tid)" "state_io_rel linksGrow (expiry E op)" "state_io_rel linksGrow (openWritable E d n)"
  unfolding unlinkAt_def renameOver_def createExcl_def openUnnamed_def linkOnce_def openSession_def transferStageStat_def
    expiry_def nowUnix_def openWritable_def Let_def
  by (intro li.looking li.on_looks li.on_modify; simp add: linksGrow_def)+

lemma li_createTemp: "state_io_rel linksGrow (createTempFileAt E d)"
proof -
  have "state_io_rel linksGrow (createTempLoop E d k)" for k
    by (induction k) (auto intro!: li.looking li.on_looks li_calls)
  then show ?thesis by (simp add: createTempFileAt_def)
qed

lemma li_save: "state_io_rel linksGrow (transferSaveRecord E tid r)"
  unfolding transferSaveRecord_def publishManifest_def
  by (intro li.looking li.on_looks li.on_modify li_calls li_createTemp li.on_writeAllFD) (simp add: linksGrow_def)

lemma li_parent: "state_io_rel linksGrow (openWorkerParentForTransfer E op)"
  unfolding openWorkerParentForTransfer_def by (intro li.looking li.on_looks li.on_openWorkerWorkspace li.on_openWorkerParent)

lemma li_state: "state_io_rel linksGrow (transferStateAtCommit E d b r)"
  unfolding transferStateAtCommit_def by (intro li.looking li.on_destinationState)

lemma li_cleanup: "state_io_rel linksGrow (transferCleanupUnpublishedTemp E op r)"
  unfolding transferCleanupUnpublishedTemp_def by (intro li.looking li.on_looks li.on_pathState li_calls li_parent)

lemma li_readRecord: "state_io_rel linksGrow (transferReadRecord E tid)"
  unfolding transferReadRecord_def readAllFD_def by (intro li.looking li.on_looks)

section \<open>Answers\<close>

definition answered :: "Response \<Rightarrow> bool" where
  "answered resp = (r_ok resp \<or> r_errorCode resp \<noteq> [])"

lemma answered_intro [simp]:
  "answered (transferReceipt r)" "c \<noteq> [] \<Longrightarrow> answered (fileError c k m)" "c \<noteq> [] \<Longrightarrow> answered (transferError c k m)" "answered (unresolved m)"
  "r_ok resp \<Longrightarrow> answered resp"
  by (simp_all add: answered_def transferReceipt_def Let_def fileError_def transferError_def unresolved_def)

lemma any_try: "(\<And>e t. wp (h e) Q t) \<Longrightarrow> (\<And>x t. wp (f x) Q t) \<Longrightarrow> wp (tryE m h f) Q s"
  unfolding wp_tryE by (rule wp_any) (auto split: sum.split)

lemma any_bind: "(\<And>x t. wp (f x) Q t) \<Longrightarrow> wp (State_Monad.bind m f) Q s"
  unfolding wp_bind by (rule wp_any)

lemma bind_wp: "wp m P s \<Longrightarrow> (\<And>x t. P x t \<Longrightarrow> wp (f x) Q t) \<Longrightarrow> wp (State_Monad.bind m f) Q s"
  unfolding wp_bind by (rule wp_mono)

lemma sum_wp: "(\<And>e. x = Inl e \<Longrightarrow> wp (g e) Q s) \<Longrightarrow> (\<And>y. x = Inr y \<Longrightarrow> wp (f y) Q s) \<Longrightarrow> wp (case x of Inl e \<Rightarrow> g e | Inr y \<Rightarrow> f y) Q s"
  by (cases x) auto

lemma return_wp: "Q x s \<Longrightarrow> wp (return x) Q s"
  by simp

lemmas any_steps = any_try if_wp option_wp sum_wp prod_wp return_wp

lemma terminal_answered: "wp (transferTerminalReceipt E op tid r) (\<lambda>resp _. answered resp) s"
  unfolding transferTerminalReceipt_def by (intro any_steps) simp_all

lemma markConflict_answered: "wp (transferMarkConflict E op tid r) (\<lambda>resp _. answered resp) s"
  unfolding transferMarkConflict_def Let_def
  by (rule any_bind, rule any_try, simp, rule bind_wp[OF terminal_answered], simp)

lemma confirm_answered: "wp (transferConfirmPublished E tid r d b) (\<lambda>resp _. answered resp) s"
  unfolding transferConfirmPublished_def Let_def by (intro any_steps) simp_all

lemma verify_answered: "wp (verifyExchange E op tid r) (\<lambda>x _. \<forall>resp. x = Inl resp \<longrightarrow> answered resp) s"
  unfolding verifyExchange_def Let_def by (intro any_try any_bind) simp_all

lemma publish_answered: "wp (publishOver E op tid r d b prepared old) (\<lambda>resp _. answered resp) s" "wp (publishNew E tid r d b) (\<lambda>resp _. answered resp) s"
proof -
  have verified: "wp (tryE (verifyExchange E op tid r) return (\<lambda>r. tryE (unlinkAt E d n) (\<lambda>_. return (unresolved m))
      (\<lambda>_. transferConfirmPublished E tid r d b))) (\<lambda>resp _. answered resp) s" for n m s
    unfolding wp_tryE[of "verifyExchange _ _ _ _"]
    by (rule wp_mono[OF verify_answered]) (auto split: sum.split simp del: wp_tryE intro!: any_try confirm_answered)
  show "wp (publishOver E op tid r d b prepared old) (\<lambda>resp _. answered resp) s"
    unfolding publishOver_def Let_def by (intro any_steps markConflict_answered verified) simp_all
  show "wp (publishNew E tid r d b) (\<lambda>resp _. answered resp) s"
    unfolding publishNew_def by (intro any_steps confirm_answered) simp_all
qed

lemma finish_answered: "wp (transferFinishPrepared E op tid r) (\<lambda>resp _. answered resp) s"
  unfolding transferFinishPrepared_def Let_def by (intro any_steps publish_answered markConflict_answered) simp_all

lemma reconcile_answered: "wp (transferReconcileCommit E op tid r) (\<lambda>x _. answered (fst x)) s"
proof -
  let ?Q = "\<lambda>x _. answered (fst x)"
  have confirm: "wp (State_Monad.bind (transferConfirmPublished E tid r d b) (\<lambda>resp. return (resp, False))) ?Q s" for r d b s
    by (rule bind_wp[OF confirm_answered]) simp
  have conflict: "wp (State_Monad.bind (transferMarkConflict E op tid r) (\<lambda>resp. return (resp, True))) ?Q s" for s
    by (rule bind_wp[OF markConflict_answered]) simp
  have finish: "wp (State_Monad.bind (transferFinishPrepared E op tid r) (\<lambda>resp. return (resp, False))) ?Q s" for s
    by (rule bind_wp[OF finish_answered]) simp
  have cleaned: "wp (tryE (unlinkAt E d n) (\<lambda>e. return (fileError ''transfer_cleanup_failed'' ''io'' (emsg e), False)) (\<lambda>_.
      tryE (fsyncFD E) (\<lambda>e. return (fileError ''transfer_cleanup_failed'' ''io'' (emsg e), False)) (\<lambda>_.
      State_Monad.bind (transferConfirmPublished E tid r d b) (\<lambda>resp. return (resp, False))))) ?Q s" for r d b n s
    by (intro any_try confirm) simp_all
  have checked: "wp (if c then ok r else verifyExchange E op tid r) (\<lambda>x _. \<forall>resp. x = Inl resp \<longrightarrow> answered resp) s" for c s
    using verify_answered by simp
  have verified: "wp (tryE (if c then ok r else verifyExchange E op tid r) (\<lambda>resp. return (resp, False)) (\<lambda>r.
      tryE (unlinkAt E d n) (\<lambda>e. return (fileError ''transfer_cleanup_failed'' ''io'' (emsg e), False)) (\<lambda>_.
      tryE (fsyncFD E) (\<lambda>e. return (fileError ''transfer_cleanup_failed'' ''io'' (emsg e), False)) (\<lambda>_.
      State_Monad.bind (transferConfirmPublished E tid r d b) (\<lambda>resp. return (resp, False)))))) ?Q s" for c d b n s
    unfolding wp_tryE[of "if _ then _ else _"]
    by (rule wp_mono[OF checked]) (auto split: sum.split simp del: wp_tryE wp_bind intro!: cleaned)
  have published: "wp (reconcilePublished E op tid r d b final) ?Q s" for d b final s
    unfolding reconcilePublished_def Let_def by (intro any_try if_wp option_wp return_wp verified confirm conflict) simp_all
  have unpublished: "wp (reconcileUnpublished E op tid r d b) ?Q s" for d b s
    unfolding reconcileUnpublished_def Let_def by (intro any_try if_wp option_wp return_wp finish conflict) simp_all
  show ?thesis
    unfolding transferReconcileCommit_def Let_def
    by (intro any_try if_wp option_wp return_wp published unpublished) simp_all
qed

section \<open>Preparations\<close>

text \<open>An answer, or at least \<open>n\<close> more links.\<close>

definition answersOr :: "nat \<Rightarrow> fworld \<Rightarrow> Response \<Rightarrow> fworld \<Rightarrow> bool" where
  "answersOr n s resp t = (answered resp \<or> linksMade s + n \<le> linksMade t)"

lemma answers [simp]: "answered resp \<Longrightarrow> answersOr n s resp t"
  by (simp add: answersOr_def)

lemma answers_mono: "answersOr n u resp t \<Longrightarrow> linksMade s + m \<le> linksMade u + n \<Longrightarrow> answersOr m s resp t"
  by (auto simp: answersOr_def)

text \<open>A step that does not take links back.\<close>

lemma grow_try:
  assumes "state_io_rel linksGrow m" and "n \<le> linksMade s" and "\<And>e t. n \<le> linksMade t \<Longrightarrow> wp (h e) Q t"
    and "\<And>x t. n \<le> linksMade t \<Longrightarrow> wp (f x) Q t"
  shows "wp (tryE m h f) Q s"
  unfolding wp_tryE
  by (rule wp_mono[OF li.wp_frame[OF assms(1)]]) (use assms(2-4) in \<open>auto simp: linksGrow_def split: sum.split\<close>)

lemma grow_bind:
  assumes "state_io_rel linksGrow m" and "n \<le> linksMade s" and "\<And>x t. n \<le> linksMade t \<Longrightarrow> wp (f x) Q t"
  shows "wp (State_Monad.bind m f) Q s"
  unfolding wp_bind
  by (rule wp_mono[OF li.wp_frame[OF assms(1)]]) (use assms(2,3) in \<open>auto simp: linksGrow_def\<close>)

lemma finishPreparation_answered:
  assumes "tr_status r = ''preparing''"
  shows "wp (finishPreparation E op tid r d h) (\<lambda>resp _. answered resp) s"
  unfolding finishPreparation_def Let_def
  by (intro if_wp any_try return_wp any_bind finish_answered) simp_all

lemma resume_answered:
  assumes "tr_status r = ''preparing''"
  shows "wp (resumePrepared E op tid r d source fd) (\<lambda>resp _. answered resp) s"
  unfolding resumePrepared_def prepareWindow_def Let_def
  by (intro if_wp any_try return_wp any_bind sum_wp option_wp prod_wp finishPreparation_answered) (simp_all add: assms)

lemma step_ends:
  assumes "\<And>r' t. linksMade s \<le> linksMade t \<Longrightarrow> wp (restart r') Q t" and "\<And>resp t. answered resp \<Longrightarrow> Q resp t"
  shows "wp (prepareStep E restart op tid r) Q s"
proof (cases "tr_status r = ''preparing''")
  case True
  have resume: "wp (resumePrepared E op tid r d source fd) Q t" for d source fd t
    by (rule wp_mono[OF resume_answered[OF True]]) (rule assms(2))
  show ?thesis
    unfolding prepareStep_def Let_def
    by (intro if_wp return_wp prod_wp grow_try[where n = "linksMade s"] grow_bind[where n = "linksMade s"]
        li_calls li_parent li_state li_save resume assms)
      simp_all
qed (simp add: prepareStep_def assms(2))

lemma link_links: "wp (linkOnce E p d n) (\<lambda>r t. linksMade s \<le> linksMade t \<and> (r = Inr () \<longrightarrow> linksMade s + 1 \<le> linksMade t)) s"
proof -
  show ?thesis
    unfolding linkOnce_def by (auto simp: wp_fcall isLinked_def split: option.split)
qed

lemma linkUnnamed_links: "wp (linkUnnamed E p d n) (\<lambda>r t. r = Inr () \<longrightarrow> linksMade s + 1 \<le> linksMade t) s"
  unfolding linkUnnamed_def wp_tryE
proof (rule wp_mono[OF link_links], goal_cases)
  case (1 r t)
  have "wp (linkOnce E p d n) (\<lambda>r t. r = Inr () \<longrightarrow> linksMade s + 1 \<le> linksMade t) t"
    by (rule wp_mono[OF link_links]) (use 1 in auto)
  then show ?case using 1 by (cases r) simp_all
qed

lemma start_answers:
  assumes "\<And>r' t. linksMade s + 1 \<le> linksMade t \<Longrightarrow> wp (step r') (answersOr n s) t"
  shows "wp (startPreparation E step op tid r) (answersOr n s) s"
proof -
  have linked: "wp (tryE (linkUnnamed E p d m) (\<lambda>e. return (fileError ''transfer_prepare_link_failed'' ''io'' (m1 e))) (\<lambda>_.
      tryE (fsyncFD E) (\<lambda>e. return (fileError ''transfer_prepare_link_failed'' ''io'' (emsg e))) (\<lambda>_. step r'))) (answersOr n s) t"
    if t: "linksMade s \<le> linksMade t" for p d m m1 r' t
    unfolding wp_tryE[of "linkUnnamed _ _ _ _"]
  proof (rule wp_mono[OF linkUnnamed_links], goal_cases)
    case (1 x u)
    have "wp (tryE (fsyncFD E) (\<lambda>e. return (fileError ''transfer_prepare_link_failed'' ''io'' (emsg e))) (\<lambda>_. step r')) (answersOr n s) u"
      if "linksMade s + 1 \<le> linksMade u"
      by (rule grow_try[OF li.on_looks(2) that]) (simp_all add: assms)
    then show ?case using 1 t by (cases x) (simp_all del: wp_tryE)
  qed
  have unnamed: "wp (prepareUnnamed E step op tid r d st original p) (answersOr n s) t" if "linksMade s \<le> linksMade t" for d st original p t
    unfolding prepareUnnamed_def Let_def
    by (intro grow_try[where n = "linksMade s"] grow_bind[where n = "linksMade s"] li.on_looks li.on_owner li_calls li_save linked return_wp that)
      simp_all
  have closed: "wp (State_Monad.bind (closeUnnamed p) (\<lambda>_. return resp)) (answersOr n s) t" if "answersOr n s resp t" for resp t p
    using that by (simp add: closeUnnamed_def answersOr_def)
  have opened: "wp (State_Monad.bind (prepareUnnamed E step op tid r d st original p) (\<lambda>resp. State_Monad.bind (closeUnnamed p) (\<lambda>_. return resp)))
      (answersOr n s) t" if "linksMade s \<le> linksMade t" for d st original p t
    by (rule bind_wp[OF unnamed[OF that]]) (rule closed)
  show ?thesis
    unfolding startPreparation_def Let_def
    by (intro if_wp return_wp prod_wp grow_try[where n = "linksMade s"] li_calls li_parent li.on_destinationState li_cleanup opened) simp_all
qed

lemma rounds_answers: "wp (prepareRounds E op tid n r) (answersOr n s) s"
proof (induction n arbitrary: r s)
  case 0
  show ?case by (simp add: answersOr_def)
next
  case (Suc n)
  have again: "wp (startPreparation E (prepareRounds E op tid n) op tid r') (answersOr (Suc n) t) t" for r' t
    by (rule start_answers, rule wp_mono[OF Suc.IH]) (auto elim: answers_mono)
  show ?case
    unfolding prepareRounds.simps
    by (rule step_ends, rule wp_mono[OF again]) (auto elim: answers_mono)
qed

section \<open>Requests\<close>

text \<open>What holds of every answer, and of how the commits end, holds of how the requests end.\<close>

lemma commit_ends:
  assumes "\<And>resp t. answered resp \<Longrightarrow> Q resp t"
    and "wp (transferStartPreparation E op tid r) Q s" and "wp (transferPrepareStep E op tid r) Q s"
  shows "wp (commitTransfer E op tid r) Q s"
proof -
  have reconcile: "wp (State_Monad.bind (transferReconcileCommit E op tid r) (\<lambda>(resp, _). return resp)) Q s"
    by (rule bind_wp[OF reconcile_answered]) (auto intro: assms(1) split: prod.split)
  have terminal: "wp (transferTerminalReceipt E op tid r) Q s"
    by (rule wp_mono[OF terminal_answered]) (rule assms(1))
  have conflicted: "wp (State_Monad.bind (transferTerminalReceipt E op tid r) (\<lambda>result. return (if \<not> r_ok result then result
      else transferError ''file_changed'' m1 m2))) Q s" for m1 m2
    by (rule bind_wp[OF terminal_answered]) (simp add: assms(1))
  show ?thesis
    unfolding commitTransfer_def by (intro if_wp assms(2,3) reconcile terminal conflicted return_wp) (simp_all add: assms(1))
qed

lemma continue_ends:
  assumes "\<And>resp t. answered resp \<Longrightarrow> Q resp t" and "\<And>tid r t. linksMade s \<le> linksMade t \<Longrightarrow> wp (commitTransfer E op tid r) Q t"
  shows "wp (continueTransfer E op now) Q s"
proof -
  have ends: "wp m (\<lambda>resp _. answered resp) t \<Longrightarrow> wp m Q t" for m t by (erule wp_mono) (rule assms(1))
  have terminal: "wp (transferTerminalReceipt E op tid r) Q t" for tid r t
    by (rule ends[OF terminal_answered])
  have reconcile: "wp (State_Monad.bind (transferReconcileCommit E op tid r) (\<lambda>(resp, _). return resp)) Q t" for tid r t
    by (rule bind_wp[OF reconcile_answered]) (auto intro: assms(1) split: prod.split)
  have status: "wp (statusTransfer E op tid r) Q t" for tid r t
    unfolding statusTransfer_def by (intro if_wp terminal reconcile return_wp) (simp_all add: assms(1))
  have chunk: "wp (transferChunk E op tid r) Q t" for tid r t
    unfolding transferChunk_def acceptChunk_def replayChunk_def appendChunk_def Let_def
    by (rule ends, intro any_steps any_bind) simp_all
  have cleaned: "wp (State_Monad.bind (transferTerminalReceipt E op tid r) (\<lambda>cleaned. return (if \<not> r_ok cleaned then cleaned
      else transferError ''transfer_already_publishing'' m1 m2))) Q t" for tid r t m1 m2
    by (rule bind_wp[OF terminal_answered]) (simp add: assms(1))
  have abort: "wp (abortTransfer E op tid r) Q t" for tid r t
    unfolding abortTransfer_def Let_def by (intro if_wp any_try terminal cleaned return_wp) (simp_all add: assms(1))
  show ?thesis
    unfolding continueTransfer_def Let_def
    by (intro if_wp return_wp grow_try[where n = "linksMade s"] li_readRecord assms(2) status chunk abort) (simp_all add: assms(1))
qed

lemma begin_answered: "wp (beginTransfer E op now) (\<lambda>resp _. answered resp) s"
proof -
  have replayed: "wp (replayBegin E op tid prior) (\<lambda>x _. \<forall>resp. x = Some resp \<longrightarrow> answered resp) t" for tid prior t
  proof -
    have "wp (State_Monad.bind (transferTerminalReceipt E op tid prior) (\<lambda>resp. return (Some resp))) (\<lambda>x _. \<forall>resp. x = Some resp \<longrightarrow> answered resp) t" for t
      by (rule bind_wp[OF terminal_answered]) simp
    then show ?thesis unfolding replayBegin_def nowUnix_def by (simp del: wp_bind) (simp add: wp_bind[of "gets _"] del: wp_bind)
  qed
  have found: "wp (transferResolveBegin E op) (\<lambda>x _. \<forall>resp. x = Some resp \<longrightarrow> answered resp) t" for t
    unfolding transferResolveBegin_def reclaimBegin_def Let_def
    by (intro any_try if_wp option_wp return_wp any_bind replayed) simp_all
  have created: "wp (transferBegin E op) (\<lambda>resp _. answered resp) t" for t
    unfolding transferBegin_def Let_def by (intro any_steps any_bind) simp_all
  show ?thesis
    unfolding beginTransfer_def Let_def
    by (rule any_try, simp, rule bind_wp[OF found]) (auto split: option.split intro!: created)
qed

lemma worker_ends:
  assumes "\<And>resp t. answered resp \<Longrightarrow> Q resp t" and "\<And>tid r t. linksMade s \<le> linksMade t \<Longrightarrow> wp (commitTransfer E op tid r) Q t"
  shows "wp (workerWorkspaceTransfer E op) Q s"
proof -
  have run: "wp (if w_transferOp op = ''begin'' then beginTransfer E op now else continueTransfer E op now) Q t"
    if "linksMade s \<le> linksMade t" for now t
  proof (rule if_wp)
    show "wp (beginTransfer E op now) Q t"
      by (rule wp_mono[OF begin_answered]) (rule assms(1))
    show "wp (continueTransfer E op now) Q t"
      by (rule continue_ends[OF assms(1)]) (use that in \<open>simp_all add: assms(2)\<close>)
  qed
  have now: "wp (State_Monad.bind (nowUnix E) (\<lambda>now. if w_transferOp op = ''begin'' then beginTransfer E op now else continueTransfer E op now)) Q t"
    if "linksMade s \<le> linksMade t" for t
    using run[OF that] by (simp add: nowUnix_def)
  have calls: "state_io_rel linksGrow (fcall E (\<lambda>_. ok ()))" "state_io_rel linksGrow (lockStaging E)"
    unfolding lockStaging_def by (intro li.looking)+
  show ?thesis
    unfolding workerWorkspaceTransfer_def withStaging_def
    by (intro sum_wp if_wp return_wp grow_try[where n = "linksMade s"] li.on_openWorkerWorkspace calls now) (simp_all add: assms(1))
qed

lemma worker_answers: "wp (workerWorkspaceTransfer E op) (answersOr (fe_rounds E) s) s"
proof (rule worker_ends)
  fix tid r t
  assume t: "linksMade s \<le> linksMade t"
  have "wp (transferStartPreparation E op tid r) (answersOr (fe_rounds E) s) t"
    unfolding transferStartPreparation_def
    by (rule wp_mono[OF start_answers[where n = "fe_rounds E"]], rule wp_mono[OF rounds_answers]) (use t in \<open>auto elim: answers_mono\<close>)
  moreover have "wp (transferPrepareStep E op tid r) (answersOr (fe_rounds E) s) t"
    unfolding transferPrepareStep_def by (rule wp_mono[OF rounds_answers]) (use t in \<open>auto elim: answers_mono\<close>)
  ultimately show "wp (commitTransfer E op tid r) (answersOr (fe_rounds E) s) t"
    by (rule commit_ends[rotated]) simp
qed simp

end
