(* ===== verification/TransferProps.thy ===== *)
theory TransferProps
  imports TransferExamples TransferEnds
begin

text \<open>
  The properties of durable transfers: what a commit that answers \<open>committed\<close> has installed, that an interrupted
  commit is finished by the next request, that accepted chunks are what the checkpoint counts, that a transfer
  belongs to who began it, and that every request is answered.
\<close>

section \<open>Two rounds are enough\<close>

text \<open>With nobody interfering the name of the prepared file stays linked, so that a preparation starts over at most once.\<close>

lemma calm_parent_dir:
  assumes "undisturbed E"
  shows "wp (openWorkerParentForTransfer E op) (\<lambda>r t. fw_fs t = fw_fs s \<and> (\<forall>d. r = Inr d \<longrightarrow> (\<exists>c. workerDir E op (w_path op) = Some (d, c)))) s"
proof -
  have step: "wp (tryE (openWorkerWorkspace E op) fail (\<lambda>ws. tryE (openWorkerParent E ws (w_path op)) fail ok))
      (\<lambda>r t. fw_fs t = fw_fs s \<and> (\<forall>x. r = Inr x \<longrightarrow> workerDir E op (w_path op) = Some x)) s"
  proof -
    have shape: "openWorkerFile E op = tryE (openWorkerWorkspace E op) (\<lambda>e. fail (fileError ''invalid_workspace'' ''validation'' (emsg e)))
        (\<lambda>ws. tryE (openWorkerParent E ws (w_path op)) (\<lambda>e. fail (fileError ''invalid_path'' ''validation'' (emsg e))) ok)"
      by (simp add: openWorkerFile_def)
    show ?thesis
      using calm_openWorkerFile[OF assms, of op s] unfolding shape wp_tryE
      by (auto elim!: wp_mono split: sum.splits)
  qed
  have last: "wp (tryE (rejectPseudoFilesystem E) fail (\<lambda>_. ok d)) (\<lambda>r t. fw_fs t = fw_fs s \<and> (\<forall>d'. r = Inr d' \<longrightarrow> d' = d)) t"
    if "fw_fs t = fw_fs s" for t d
    by (rule still_try[OF sf.on_looks(4) assms]) (use that in simp_all)
  show ?thesis
    using step unfolding openWorkerParentForTransfer_def wp_tryE[of "openWorkerWorkspace _ _"] wp_tryE[of "openWorkerParent _ _ _"]
    by (auto elim!: wp_mono split: sum.splits intro!: wp_mono[OF last] simp del: wp_tryE)
qed

lemma present_writable:
  assumes "undisturbed E" and "names s (d, n) \<noteq> None"
  shows "wp (openWritable E d n) (\<lambda>r _. \<forall>e. r = Inl e \<longrightarrow> \<not> isNotExist e) s"
proof -
  have fault: "fe_fault E k = Some e \<Longrightarrow> \<not> isNotExist e" for k e using assms(1) by (auto simp: undisturbed_def)
  have "lookupName (fadvance E s) d n = names s (d, n)" by (rule look_fs[OF undisturbed_advance[OF assms(1)]])
  then show ?thesis
    using assms(2) fault by (auto simp: openWritable_def wp_fcall newErr_def isNotExist_def split: option.split)
qed

lemma calm_step_answered:
  assumes "undisturbed E" and "workerDir E op (w_path op) = Some (d, c)" and "names s (d, tr_tempName r) \<noteq> None"
  shows "wp (prepareStep E restart op tid r) (\<lambda>resp _. answered resp) s"
proof (cases "tr_status r = ''preparing''")
  case True
  have opened: "wp (tryE (openWritable E d (tr_tempName r)) (\<lambda>e. if isNotExist e \<and> tr_preparedBytes r = 0 then k e
      else return (fileError ''transfer_prepare_unavailable'' ''state'' (emsg e))) (resumePrepared E op tid r d source)) (\<lambda>resp _. answered resp) t"
    if "fw_fs t = fw_fs s" for t k source
    unfolding wp_tryE
    by (rule wp_mono[OF present_writable[OF assms(1)]])
      (use assms(3) names_fs[OF that] resume_answered[OF True] in \<open>auto split: sum.split\<close>)
  have parent: "wp (tryE (openWorkerParentForTransfer E op) (\<lambda>e. return (fileError ''invalid_path'' ''validation'' (emsg e))) (\<lambda>d.
      tryE (transferStateAtCommit E d b r) (\<lambda>_. return (transferError ''file_changed'' m1 m2)) (\<lambda>_.
      if \<not> tempIdentity r then return (transferError ''transfer_storage_corrupt'' m3 m4)
      else tryE (openWritable E d (tr_tempName r)) (\<lambda>e. if isNotExist e \<and> tr_preparedBytes r = 0 then k e
      else return (fileError ''transfer_prepare_unavailable'' ''state'' (emsg e))) (resumePrepared E op tid r d source)))) (\<lambda>resp _. answered resp) t"
    if t: "fw_fs t = fw_fs s" for t k source b m1 m2 m3 m4
    unfolding wp_tryE[of "openWorkerParentForTransfer _ _"]
    by (rule wp_mono[OF calm_parent[OF assms(1,2)]])
      (use t opened in \<open>auto split: sum.split simp del: wp_tryE intro!: if_wp still_try[OF state_looks assms(1)]\<close>)
  have stage: "state_io_rel (sameFs E) (transferStageStat E tid)"
    unfolding transferStageStat_def by (intro sf.looking sf.on_looks)
  show ?thesis
    unfolding prepareStep_def
    by (intro if_wp still_try[OF stage assms(1)] prod_wp return_wp parent) simp_all
qed (simp add: prepareStep_def)

lemma calm_start_answered:
  assumes "undisturbed E" and "\<And>d c r' t. workerDir E op (w_path op) = Some (d, c) \<Longrightarrow> names t (d, tr_tempName r') \<noteq> None \<Longrightarrow>
    wp (step r') (\<lambda>resp _. answered resp) t"
  shows "wp (startPreparation E step op tid r) (\<lambda>resp _. answered resp) s"
proof -
  have linked: "wp (tryE (linkUnnamed E p d (tr_tempName r')) (\<lambda>e. return (fileError ''transfer_prepare_link_failed'' ''io'' (m1 e))) (\<lambda>_.
      tryE (fsyncFD E) (\<lambda>e. return (fileError ''transfer_prepare_link_failed'' ''io'' (emsg e))) (\<lambda>_. step r'))) (\<lambda>resp _. answered resp) t"
    if d: "workerDir E op (w_path op) = Some (d, c)" for p d c m1 r' t
    unfolding wp_tryE[of "linkUnnamed _ _ _ _"]
  proof (rule quiet_link[OF assms(1)], goal_cases)
    case (1 e u)
    then show ?case by simp
  next
    case (2 u)
    have there: "names v (d, tr_tempName r') \<noteq> None" if "fw_fs v = fw_fs u" for v
      using names_fs[OF that] 2(1) by simp
    show ?case
      unfolding sum.case
      by (rule still_try[OF sf.on_looks(2) assms(1)], simp, rule assms(2)[OF d], rule there)
  qed
  have unnamed: "wp (prepareUnnamed E step op tid r d st original p) (\<lambda>resp _. answered resp) t"
    if "workerDir E op (w_path op) = Some (d, c)" for d c st original p t
    unfolding prepareUnnamed_def Let_def
    by (intro any_try any_bind linked[OF that] return_wp) simp_all
  have opened: "wp (State_Monad.bind (prepareUnnamed E step op tid r d st original p) (\<lambda>resp. State_Monad.bind (closeUnnamed p) (\<lambda>_. return resp)))
      (\<lambda>resp _. answered resp) t" if "workerDir E op (w_path op) = Some (d, c)" for d c st original p t
    by (rule bind_wp[OF unnamed[OF that]]) (simp add: closeUnnamed_def)
  have parent: "wp (tryE (openWorkerParentForTransfer E op) h f) (\<lambda>resp _. answered resp) t"
    if "\<And>e t. wp (h e) (\<lambda>resp _. answered resp) t"
      "\<And>d c t. workerDir E op (w_path op) = Some (d, c) \<Longrightarrow> wp (f d) (\<lambda>resp _. answered resp) t" for h f t
    unfolding wp_tryE by (rule wp_mono[OF calm_parent_dir[OF assms(1)]]) (use that in \<open>auto split: sum.split\<close>)
  show ?thesis
    unfolding startPreparation_def Let_def
    by (rule any_try, simp, rule prod_wp, rule if_wp, simp, rule parent, simp)
      (intro any_try if_wp return_wp; (erule opened | simp))
qed

lemma calm_rounds_answered:
  assumes "undisturbed E" and "2 \<le> n"
  shows "wp (prepareRounds E op tid n r) (\<lambda>resp _. answered resp) s"
    and "wp (startPreparation E (prepareRounds E op tid n) op tid r) (\<lambda>resp _. answered resp) s"
proof -
  obtain k where n: "n = Suc (Suc k)" using assms(2) by (metis add_2_eq_Suc le_Suc_ex)
  have once: "wp (prepareRounds E op tid (Suc j) r') (\<lambda>resp _. answered resp) t"
    if "workerDir E op (w_path op) = Some (d, c)" "names t (d, tr_tempName r') \<noteq> None" for d c r' t j
    unfolding prepareRounds.simps by (rule calm_step_answered[OF assms(1) that])
  have start: "wp (startPreparation E (prepareRounds E op tid (Suc j)) op tid r') (\<lambda>resp _. answered resp) t" for r' t j
    by (rule calm_start_answered[OF assms(1)]) (rule once)
  show "wp (startPreparation E (prepareRounds E op tid n) op tid r) (\<lambda>resp _. answered resp) s"
    unfolding n by (rule start)
  show "wp (prepareRounds E op tid n r) (\<lambda>resp _. answered resp) s"
    unfolding n prepareRounds.simps(2)[of _ _ _ "Suc k"] by (rule step_ends, rule start) simp_all
qed

lemma calm_worker_answered:
  assumes "undisturbed E" and "2 \<le> fe_rounds E"
  shows "wp (workerWorkspaceTransfer E op) (\<lambda>resp _. answered resp) s"
proof (rule worker_ends)
  show "wp (commitTransfer E op tid r) (\<lambda>resp _. answered resp) t" for tid r t
    by (rule commit_ends) (simp_all add: transferStartPreparation_def transferPrepareStep_def calm_rounds_answered[OF assms])
qed

section \<open>The properties\<close>

text \<open>C10. A commit installs what was declared. In an undisturbed file system whose session is sound, whatever
  calls fail during a commit: if it answers \<open>committed\<close>, the destination holds a file of the declared size whose
  SHA-256 digest is the declared one; and however it answers, the session is sound again, so that this holds
  for every later attempt at the same commit too.\<close>

theorem transfer_commit_verified:
  assumes "undisturbed E" and "hashLaws E" and "w_transferOp op = ''commit''" and "workerDir E op (w_path op) = Some (d, c)"
    and "d \<noteq> fe_sessionDir E (w_transferID op)" and "recordAt E s (w_transferID op) = Some r"
    and "settled E (w_transferID op) d (tr_tempName r) (baseOf (w_path op)) s" and "tr_status r \<noteq> ''committed''"
    and "run_state (workerWorkspaceTransfer E op) s = (resp, t)"
  shows "settled E (w_transferID op) d (tr_tempName r) (baseOf (w_path op)) t \<and>
    (saysCommitted resp \<longrightarrow> holdsDeclared E d (baseOf (w_path op)) r t)"
  using wp_runD[OF calm_commit[OF assms(1-8)] assms(9)] by (simp add: commitFine_def)

lemma commit_sel [simp]:
  "w_transferOp exampleCommit = ''commit''" "w_transferID exampleCommit = exampleTransfer" "w_path exampleCommit = ''b.txt''"
  "w_root exampleCommit = ''/w''" "w_workspace exampleCommit = ''/w''" "baseOf ''b.txt'' = ''b.txt''"
  by (simp_all add: exampleCommit_def)

lemma example_commit_runs:
  "wp (workerWorkspaceTransfer exampleTransferEnv exampleCommit)
     (\<lambda>resp _. resp = transferReceipt (committedRecord exampleTransferEnv exampleCommitting exampleInstalled)) exampleInstalled"
  by (rule smooth_recover[OF transfer_smooth example_admitted(2) _ example_parent example_recoverable]) simp_all

lemma receipt_committed [simp]: "tr_status r = ''committed'' \<Longrightarrow> saysCommitted (transferReceipt r)"
  by (simp add: saysCommitted_def transferReceipt_def Let_def)

theorem transfer_commit_verified_witness:
  "\<exists>resp t. run_state (workerWorkspaceTransfer exampleTransferEnv exampleCommit) exampleInstalled = (resp, t) \<and> saysCommitted resp \<and>
     holdsDeclared exampleTransferEnv 3 ''b.txt'' exampleCommitting t"
proof -
  obtain resp t where run: "run_state (workerWorkspaceTransfer exampleTransferEnv exampleCommit) exampleInstalled = (resp, t)" by fastforce
  have "resp = transferReceipt (committedRecord exampleTransferEnv exampleCommitting exampleInstalled)"
    using wp_runD[OF example_commit_runs run] .
  then have "saysCommitted resp" by (simp add: committedRecord_def)
  moreover have "workerDir exampleTransferEnv exampleCommit ''b.txt'' = Some (3, ''b.txt'')"
    by (simp add: workerDir_def workspaceAt_def mkPath_def)
  moreover have "recordAt exampleTransferEnv exampleInstalled exampleTransfer = Some exampleCommitting"
    by (simp add: exampleInstalled_def stage_record)
  moreover have "tr_status exampleCommitting \<noteq> ''committed''" by (simp add: exampleCommitting_def)
  ultimately show ?thesis
    using transfer_commit_verified[OF transfer_undisturbed transfer_hash _ _ _ _ _ _ run, of 3 "''b.txt''" exampleCommitting]
      example_settled run by simp
qed



text \<open>C19. The checkpoint counts only bytes that are there. However a chunk request ends in an undisturbed file system,
  whatever calls fail, the manifest is the old one with a progress that is no smaller, the data file holds at
  least that many bytes and the bytes counted before are unchanged, and nothing outside the session's directory has
  changed. If the request reports success, its next offset is that progress and covers the chunk, and the stored bytes at the
  chunk's offset have the digest the request gave.\<close>

theorem transfer_chunk_checkpoint:
  assumes "undisturbed E" and "stagedAt E s (w_transferID op) r i" and "w_transferOp op = ''chunk''"
    and "run_state (workerWorkspaceTransfer E op) s = (resp, t)"
  shows "\<exists>r'. advanced E (w_transferID op) r i s r' t \<and> (r_ok resp \<longrightarrow>
     r_nextOffset resp = Some (tr_received r') \<and> (\<exists>raw. decode64Strict (w_chunkBase64 op) = Some raw \<and> raw \<noteq> [] \<and>
       w_offset op + int (length raw) \<le> tr_received r' \<and> tr_received r' \<le> tr_expectedSize r \<and>
       fe_sha256 E raw = w_chunkSHA256 op \<and>
       fe_sha256 E (take (length raw) (drop (nat (w_offset op)) (in_data (inodeAt t i)))) = w_chunkSHA256 op))"
  using wp_runD[OF calm_chunkRequest[OF assms(1-3)] assms(4)] by (simp add: chunkAnswered_def)

theorem transfer_chunk_checkpoint_witness:
  "\<exists>resp t r'. run_state (workerWorkspaceTransfer exampleTransferEnv exampleChunk) exampleStaged = (resp, t) \<and> r_ok resp \<and>
     advanced exampleTransferEnv exampleTransfer exampleRecord (Ino 0 22) exampleStaged r' t \<and> r_nextOffset resp = Some (tr_received r')"
proof -
  obtain resp t where run: "run_state (workerWorkspaceTransfer exampleTransferEnv exampleChunk) exampleStaged = (resp, t)" by fastforce
  have "r_ok resp" using wp_runD[OF example_chunk_ok run] .
  moreover have op: "w_transferOp exampleChunk = ''chunk''" "w_transferID exampleChunk = exampleTransfer" by (simp_all add: exampleChunk_def)
  ultimately show ?thesis
    using transfer_chunk_checkpoint[OF transfer_undisturbed _ op(1) run, of exampleRecord "Ino 0 22"] example_staged run by auto
qed

text \<open>C20. Every transfer request is answered: with success, or with an error code. A preparation starts over when the name of the
  prepared file is missing, which it had linked itself; so the handler runs as many rounds as \<open>fe_rounds\<close> allows only if it linked that
  name each time and something outside took it away again, and in an undisturbed file system, whatever
  calls fail, two rounds are enough.\<close>

theorem transfer_always_answered:
  assumes "run_state (workerWorkspaceTransfer E op) s = (resp, t)" and "2 \<le> fe_rounds E"
  shows "r_ok resp \<or> r_errorCode resp \<noteq> [] \<or> (\<not> undisturbed E \<and> linksMade s + fe_rounds E \<le> linksMade t)"
  using wp_runD[OF worker_answers assms(1)] wp_runD[OF calm_worker_answered[OF _ assms(2)] assms(1)]
  by (auto simp: answersOr_def answered_def)

theorem transfer_always_answered_witness:
  "answered (fst (run_state (workerWorkspaceTransfer exampleTransferEnv exampleCommit) exampleStaged))"
proof -
  have "2 \<le> fe_rounds exampleTransferEnv" by (simp add: exampleTransferEnv_def exampleFileEnv_def)
  then show ?thesis
    using transfer_always_answered[of exampleTransferEnv exampleCommit exampleStaged, OF prod.collapse[symmetric]] transfer_undisturbed
    by (auto simp: answered_def)
qed

text \<open>C22. A transfer belongs to who began it: a request that names a recorded transfer, but whose principal, class,
  workspace or path is not the recorded one, does not succeed and changes nothing, whichever operation it asks for.\<close>

theorem transfer_scope:
  assumes "undisturbed E" and "w_transferOp op \<noteq> ''begin''" and "recordAt E s (w_transferID op) = Some r" and "\<not> sameTransfer op r"
    and "run_state (workerWorkspaceTransfer E op) s = (resp, t)"
  shows "\<not> r_ok resp \<and> fw_fs t = fw_fs s"
  using wp_runD[OF calm_scope[OF assms(1-4)] assms(5)] .

theorem transfer_scope_witness:
  "\<not> r_ok (fst (run_state (workerWorkspaceTransfer exampleTransferEnv (exampleCommit\<lparr>w_principalID := ''other''\<rparr>)) exampleInstalled))"
proof -
  have "\<not> sameTransfer (exampleCommit\<lparr>w_principalID := ''other''\<rparr>) exampleCommitting"
    by (simp add: sameTransfer_def exampleCommitting_def exampleRecord_def newRecord_def)
  moreover have "recordAt exampleTransferEnv exampleInstalled exampleTransfer = Some exampleCommitting"
    by (simp add: exampleInstalled_def stage_record)
  ultimately show ?thesis
    using transfer_scope[OF transfer_undisturbed, of "exampleCommit\<lparr>w_principalID := ''other''\<rparr>" exampleInstalled exampleCommitting,
      OF _ _ _ prod.collapse[symmetric]] by simp
qed

end
