(* ===== verification/ServiceStore.thy ===== *)
theory ServiceStore
  imports IncusRun AuditGate
begin

text \<open>
  The protected store of target-service credentials, \<open>internal/serviceaccess/store.go\<close>: one JSON document in a
  private directory, replaced as a whole under a file lock. The world is that directory; each system call is
  one tick, at which the environment may fail it; between ticks other processes may change the directory, but not while
  the lock is held, which every writer takes. \<open>net/url.Parse\<close> and Unicode lower case are parameters.
\<close>

section \<open>Data\<close>

record svcRecord =
  sr_id :: string
  sr_hostID :: string
  sr_project :: string
  sr_guest :: string
  sr_guestUUID :: string
  sr_service :: string
  sr_purpose :: string
  sr_endpoint :: string
  sr_username :: string
  sr_kind :: string
  sr_secret :: string
  sr_createdAt :: int
  sr_updatedAt :: int
  sr_lastUsedAt :: "int option"
  sr_expiresAt :: "int option"
  sr_revokedAt :: "int option"

record metadata =
  md_id :: string
  md_hostID :: string
  md_project :: string
  md_guest :: string
  md_guestUUID :: string
  md_service :: string
  md_purpose :: string
  md_endpoint :: string
  md_username :: string
  md_kind :: string
  md_createdAt :: int
  md_updatedAt :: int
  md_lastUsedAt :: "int option"
  md_expiresAt :: "int option"
  md_revokedAt :: "int option"
  md_status :: string

record registration =
  rg_hostID :: string
  rg_project :: string
  rg_guest :: string
  rg_guestUUID :: string
  rg_service :: string
  rg_purpose :: string
  rg_endpoint :: string
  rg_username :: string

record serviceInput =
  si_operation :: string
  si_ref :: string
  si_registration :: registration
  si_kind :: string
  si_username :: string
  si_ttlDays :: int
  si_neverExpires :: bool

text \<open>A directory and a file as \<open>Lstat\<close> and \<open>Fstat\<close> see them. A file carries its bytes and, if they are JSON, the
  version (preset to 1 before decoding) and the records in it, as they were when they were encoded.\<close>

record svcDir =
  dd_isDir :: bool
  dd_perm :: nat
  dd_uid :: nat

record svcFile =
  sf_symlink :: bool
  sf_regular :: bool
  sf_perm :: nat
  sf_nlink :: nat
  sf_uid :: nat
  sf_text :: string
  sf_doc :: "(int \<times> svcRecord list) option"

record svcDisk =
  sd_dir :: "svcDir option"
  sd_lock :: "svcFile option"
  sd_store :: "svcFile option"
  sd_temps :: "(string \<times> svcFile) list"

text \<open>What reached the audit log: the operation and whether it was approved, or whether it succeeded.\<close>

datatype svcEvent = ServiceStart string bool | ServiceComplete string bool

record svcWorld =
  sw_tick :: nat
  sw_disk :: svcDisk
  sw_held :: bool
  sw_degraded :: bool
  sw_trace :: "svcEvent list"
  sw_incus :: iworld

type_synonym 'a vprog = "(svcWorld, 'a) state"

text \<open>A parsed URL: what the fields and methods of \<open>*url.URL\<close> return.\<close>

record urlParts =
  u_scheme :: string
  u_host :: string
  u_hostname :: string
  u_port :: string
  u_user :: bool
  u_opaque :: string
  u_rawQuery :: string
  u_forceQuery :: bool
  u_fragment :: string

record svcEnv =
  v_instanceID :: string
  v_euid :: nat
  v_now :: "nat \<Rightarrow> int"
  v_fault :: "nat \<Rightarrow> err option"
  v_random :: "nat \<Rightarrow> nat \<Rightarrow> bytes"
  v_written :: "nat \<Rightarrow> nat"
  v_others :: "nat \<Rightarrow> svcDisk \<Rightarrow> svcDisk"
  v_url :: "string \<Rightarrow> urlParts option"
  v_toLower :: "string \<Rightarrow> string"
  v_incus :: incusEnv
  v_resultJSON :: "incusResult \<Rightarrow> string option"

section \<open>Validation\<close>

definition maxStoreBytes :: nat where "maxStoreBytes = 16 * 2 ^ 20"

definition validServiceTarget :: "svcEnv \<Rightarrow> string \<Rightarrow> err option" where
  "validServiceTarget E raw =
     (if raw = [] \<or> length raw > 2048 \<or> list_ex (\<lambda>c. c \<in> {CHR 0x0D, CHR 0x0A, CHR 0x00}) raw
      then Some (newErr ''service target must be a bounded network URI without control characters'')
      else let bad = Some (newErr ''service target must be an absolute network URI without userinfo, query or fragment'') in
        case v_url E raw of
          None \<Rightarrow> bad
        | Some u \<Rightarrow>
          if u_scheme u = [] \<or> u_host u = [] \<or> u_hostname u = [] \<or> u_user u \<or> u_opaque u \<noteq> [] \<or> u_rawQuery u \<noteq> []
            \<or> u_forceQuery u \<or> u_fragment u \<noteq> [] then bad
          else if v_toLower E (u_scheme u) \<in> {''file'', ''data'', ''javascript'', ''about'', ''blob''}
          then Some (newErr ''service target must use a network-service URI scheme'')
          else None)"

definition validEndpoint :: "svcEnv \<Rightarrow> string \<Rightarrow> err option" where
  "validEndpoint E raw =
     (let bad = Some (newErr ''endpoint must be an HTTP(S) URL without userinfo, query or fragment'') in
      if validServiceTarget E raw \<noteq> None then bad
      else case v_url E raw of
        None \<Rightarrow> bad
      | Some u \<Rightarrow> if u_scheme u \<noteq> ''https'' \<and> u_scheme u \<noteq> ''http'' then bad else None)"

definition origin :: "svcEnv \<Rightarrow> string \<Rightarrow> string" where
  "origin E raw = (case v_url E raw of
       None \<Rightarrow> []
     | Some u \<Rightarrow>
       (let scheme = v_toLower E (u_scheme u); host = v_toLower E (u_host u); port = u_port u;
            host' = (if (scheme = ''http'' \<or> scheme = ''https'') \<and> port \<noteq> [] then
              (case atoi port of
                 None \<Rightarrow> host
               | Some number \<Rightarrow>
                 if 0 \<le> number \<and> number \<le> 65535 then
                   (let bare = trimSuffix host ('':'' @ port) in
                    if (scheme = ''http'' \<and> number \<noteq> 80) \<or> (scheme = ''https'' \<and> number \<noteq> 443)
                    then bare @ '':'' @ itoa number else bare)
                 else host)
              else host)
        in scheme @ ''://'' @ host'))"

text \<open>\<open>strings.IndexFunc(x, isControl) >= 0\<close>, rune by rune.\<close>

definition hasControl :: "string \<Rightarrow> bool" where
  "hasControl s = list_ex (\<lambda>(r, _). r < 32 \<or> r = 127) (runes s)"

definition validateRegistration :: "svcEnv \<Rightarrow> registration \<Rightarrow> err option" where
  "validateRegistration E r =
     (if trimSpace (rg_hostID r) = [] \<or> trimSpace (rg_service r) = [] \<or> length (rg_hostID r) > 160
        \<or> length (rg_service r) > 120 \<or> length (rg_purpose r) > 500 \<or> length (rg_username r) > 256
      then Some (newErr ''host_id, service and bounded metadata are required'')
      else if (rg_guest r = []) \<noteq> (rg_guestUUID r = []) \<or> (rg_guest r \<noteq> [] \<and> rg_project r = [])
        \<or> (rg_guest r = [] \<and> rg_project r \<noteq> []) \<or> length (rg_guest r) > 120 \<or> length (rg_project r) > 120
        \<or> length (rg_guestUUID r) > 120
      then Some (newErr ''guest requires project and verified native UUID'')
      else case (if rg_endpoint r = [] then None else validServiceTarget E (rg_endpoint r)) of
        Some e \<Rightarrow> Some e
      | None \<Rightarrow>
        if list_ex hasControl [rg_hostID r, rg_service r, rg_purpose r, rg_username r, rg_guest r, rg_guestUUID r, rg_project r]
        then Some (newErr ''invalid control character in metadata'') else None)"

definition recordStatus :: "int \<Rightarrow> svcRecord \<Rightarrow> string" where
  "recordStatus now r =
     (if sr_revokedAt r \<noteq> None then ''revoked''
      else if (case sr_expiresAt r of None \<Rightarrow> False | Some t \<Rightarrow> t \<le> now) then ''expired''
      else if sr_secret r = [] then ''unenrolled''
      else ''ready'')"

definition metaOf :: "svcRecord \<Rightarrow> int \<Rightarrow> metadata" where
  "metaOf r now = \<lparr>md_id = sr_id r, md_hostID = sr_hostID r, md_project = sr_project r, md_guest = sr_guest r,
     md_guestUUID = sr_guestUUID r, md_service = sr_service r, md_purpose = sr_purpose r, md_endpoint = sr_endpoint r,
     md_username = sr_username r, md_kind = sr_kind r, md_createdAt = sr_createdAt r, md_updatedAt = sr_updatedAt r,
     md_lastUsedAt = sr_lastUsedAt r, md_expiresAt = sr_expiresAt r, md_revokedAt = sr_revokedAt r,
     md_status = recordStatus now r\<rparr>"

definition validID :: "string \<Rightarrow> bool" where
  "validID i = (hasPrefix i ''svc_'' \<and> length i = 36 \<and> list_all (\<lambda>c. c \<in> set ''0123456789abcdef'') (drop 4 i))"

definition hexEncode :: "bytes \<Rightarrow> string" where
  "hexEncode b = concat (map (\<lambda>c. [hexDigit (byte c div 16), hexDigit (byte c mod 16)]) b)"

definition registrationOf :: "svcRecord \<Rightarrow> registration" where
  "registrationOf r = \<lparr>rg_hostID = sr_hostID r, rg_project = sr_project r, rg_guest = sr_guest r, rg_guestUUID = sr_guestUUID r,
     rg_service = sr_service r, rg_purpose = sr_purpose r, rg_endpoint = sr_endpoint r, rg_username = sr_username r\<rparr>"

fun validRecords :: "svcEnv \<Rightarrow> string set \<Rightarrow> svcRecord list \<Rightarrow> bool" where
  "validRecords E known [] = True"
| "validRecords E known (r # rs) = (validID (sr_id r) \<and> sr_id r \<notin> known \<and> validateRegistration E (registrationOf r) = None
     \<and> validRecords E (insert (sr_id r) known) rs)"

definition validKind :: "string \<Rightarrow> bool" where
  "validKind k = (k \<noteq> [] \<and> length k \<le> 64 \<and> is_lower (hd k)
     \<and> list_all (\<lambda>c. is_lower c \<or> is_digit c \<or> c \<in> set ''_-.'') (tl k))"

definition validateSecret :: "string \<Rightarrow> string \<Rightarrow> err option" where
  "validateSecret kind secret =
     (if \<not> validKind kind then Some (newErr ''credential kind must be a short lowercase label'')
      else if secret = [] \<or> length secret > 4096 \<or> CHR 0x00 \<in> set secret \<or> \<not> utf8_valid secret
      then Some (newErr ''credential must be nonempty UTF-8 text of at most 4096 bytes'') else None)"

text \<open>\<open>time.Duration(ttlDays) * 24 * time.Hour\<close> in 64 bits, added to the time.\<close>

definition expiration :: "int \<Rightarrow> int \<Rightarrow> bool \<Rightarrow> err + int option" where
  "expiration now ttl never =
     (if ttl < 0 \<or> (ttl > 0 \<and> never) then Inl (newErr ''specify positive ttl_days or never, not both'')
      else if never then Inr None
      else let days = (if ttl = 0 then 30 else ttl) in
        if days > 36500 then Inl (newErr ''ttl exceeds 100 years'')
        else Inr (Some (now + i64 (i64 (days * 24) * 3600000000000))))"

section \<open>The document\<close>

text \<open>A time whose year JSON can write.\<close>

definition jsonYear :: "int \<Rightarrow> bool" where
  "jsonYear t = (- 62167219200000000000 \<le> t \<and> t < 253402300800000000000)"

definition jsonTime :: "string \<Rightarrow> int \<Rightarrow> string" where
  "jsonTime key t = jsonField key (jsonString (rfc3339Nano t))"

definition jsonOptTime :: "string \<Rightarrow> int option \<Rightarrow> string" where
  "jsonOptTime key t = (case t of None \<Rightarrow> [] | Some t \<Rightarrow> jsonTime key t)"

definition svcRecordJSON :: "svcRecord \<Rightarrow> string" where
  "svcRecordJSON r = ''{'' @ jsonString ''id'' @ '':'' @ jsonString (sr_id r) @ jsonField ''host_id'' (jsonString (sr_hostID r))
     @ jsonOmitEmpty ''project'' (sr_project r) @ jsonOmitEmpty ''guest'' (sr_guest r) @ jsonOmitEmpty ''guest_uuid'' (sr_guestUUID r)
     @ jsonField ''service'' (jsonString (sr_service r)) @ jsonOmitEmpty ''purpose'' (sr_purpose r)
     @ jsonField ''endpoint'' (jsonString (sr_endpoint r)) @ jsonOmitEmpty ''username'' (sr_username r)
     @ jsonOmitEmpty ''kind'' (sr_kind r) @ jsonOmitEmpty ''secret'' (sr_secret r) @ jsonTime ''created_at'' (sr_createdAt r)
     @ jsonTime ''updated_at'' (sr_updatedAt r) @ jsonOptTime ''last_used_at'' (sr_lastUsedAt r)
     @ jsonOptTime ''expires_at'' (sr_expiresAt r) @ jsonOptTime ''revoked_at'' (sr_revokedAt r) @ ''}''"

definition recordTimes :: "svcRecord \<Rightarrow> bool" where
  "recordTimes r = (jsonYear (sr_createdAt r) \<and> jsonYear (sr_updatedAt r) \<and> pred_option jsonYear (sr_lastUsedAt r)
     \<and> pred_option jsonYear (sr_expiresAt r) \<and> pred_option jsonYear (sr_revokedAt r))"

definition storeJSON :: "svcRecord list \<Rightarrow> string option" where
  "storeJSON rs = (if list_all recordTimes rs
     then Some (''{'' @ jsonString ''version'' @ '':'' @ itoa 1
       @ jsonField ''records'' (''['' @ commaJoin (map svcRecordJSON rs) @ '']'') @ ''}'')
     else None)"

text \<open>A record as it is read back.\<close>

definition decodedRecord :: "svcRecord \<Rightarrow> svcRecord" where
  "decodedRecord r = r\<lparr>sr_id := cleanText (sr_id r), sr_hostID := cleanText (sr_hostID r), sr_project := cleanText (sr_project r),
     sr_guest := cleanText (sr_guest r), sr_guestUUID := cleanText (sr_guestUUID r), sr_service := cleanText (sr_service r),
     sr_purpose := cleanText (sr_purpose r), sr_endpoint := cleanText (sr_endpoint r), sr_username := cleanText (sr_username r),
     sr_kind := cleanText (sr_kind r), sr_secret := cleanText (sr_secret r)\<rparr>"

end
