(* ===== verification/ServiceAccess.thy ===== *)
theory ServiceAccess
  imports ServiceStore
begin

text \<open>
  The operations of the credential store (\<open>internal/serviceaccess/store.go\<close>) and the executor's handler for
  them (\<open>executor/service_managed.go\<close>).
\<close>

section \<open>System calls\<close>

definition vadvance :: "svcEnv \<Rightarrow> svcWorld \<Rightarrow> svcWorld" where
  "vadvance E w = w\<lparr>sw_tick := sw_tick w + 1,
     sw_disk := (if sw_held w then sw_disk w else v_others E (sw_tick w) (sw_disk w))\<rparr>"

text \<open>A file that is there is never reported as missing.\<close>

definition vcall :: "svcEnv \<Rightarrow> (nat \<Rightarrow> (err + 'a) vprog) \<Rightarrow> (err + 'a) vprog" where
  "vcall E f = do {
     w \<leftarrow> get;
     modify (vadvance E);
     case v_fault E (sw_tick w) of Some e \<Rightarrow> fail (openErr e) | None \<Rightarrow> f (sw_tick w) }"

definition vnow :: "svcEnv \<Rightarrow> int vprog" where
  "vnow E = do { w \<leftarrow> get; modify (vadvance E); return (v_now E (sw_tick w)) }"

definition onDisk :: "(svcDisk \<Rightarrow> svcDisk) \<Rightarrow> unit vprog" where
  "onDisk f = modify (\<lambda>w. w\<lparr>sw_disk := f (sw_disk w)\<rparr>)"

definition vrandom :: "svcEnv \<Rightarrow> nat \<Rightarrow> (err + bytes) vprog" where
  "vrandom E n = vcall E (\<lambda>k. ok (v_random E k n))"

section \<open>Files\<close>

definition lstatDir :: "svcEnv \<Rightarrow> (err + svcDir) vprog" where
  "lstatDir E = vcall E (\<lambda>_. do {
     w \<leftarrow> get;
     case sd_dir (sw_disk w) of None \<Rightarrow> fail (Err NotExist ''no such file or directory'') | Some d \<Rightarrow> ok d })"

definition mkdirStore :: "svcEnv \<Rightarrow> (err + unit) vprog" where
  "mkdirStore E = vcall E (\<lambda>_. do {
     w \<leftarrow> get;
     if sd_dir (sw_disk w) \<noteq> None then fail (Err Exist ''file exists'')
     else do { onDisk (\<lambda>_. \<lparr>sd_dir = Some \<lparr>dd_isDir = True, dd_perm = 448, dd_uid = v_euid E\<rparr>,
         sd_lock = None, sd_store = None, sd_temps = []\<rparr>); ok () } })"

definition checkDir :: "svcEnv \<Rightarrow> svcDir \<Rightarrow> (err + unit) vprog" where
  "checkDir E d =
     (if \<not> dd_isDir d \<or> dd_perm d \<noteq> 448 then fail (newErr ''service access directory must be a private non-symlink directory (0700)'')
      else if dd_uid d \<noteq> v_euid E then fail (newErr ''service access directory is not owned by the executor identity'')
      else ok ())"

definition ensureDir :: "svcEnv \<Rightarrow> bool \<Rightarrow> (err + unit) vprog" where
  "ensureDir E create =
     tryE (lstatDir E)
       (\<lambda>e. if isNotExist e \<and> create then
              tryE (mkdirStore E)
                (\<lambda>e. if ekind e \<noteq> Exist then fail e else tryE (lstatDir E) fail (checkDir E))
                (\<lambda>_. tryE (lstatDir E) fail (checkDir E))
            else fail e)
       (checkDir E)"

definition safeFile :: "svcEnv \<Rightarrow> svcFile \<Rightarrow> bool" where
  "safeFile E f = (sf_regular f \<and> sf_perm f = 384 \<and> sf_nlink f = 1 \<and> sf_uid f = v_euid E)"

definition readProtected :: "svcEnv \<Rightarrow> (err + svcFile) vprog" where
  "readProtected E =
     tryE (vcall E (\<lambda>_. do {
         w \<leftarrow> get;
         case (if sd_dir (sw_disk w) = None then None else sd_store (sw_disk w)) of
           None \<Rightarrow> fail (Err NotExist ''no such file or directory'')
         | Some f \<Rightarrow> if sf_symlink f then fail (newErr ''too many levels of symbolic links'') else ok f })) fail (\<lambda>f.
     tryE (vcall E (\<lambda>_. ok ())) fail (\<lambda>_.
     if \<not> safeFile E f then fail (newErr ''credential store file has unsafe identity or permissions'')
     else tryE (vcall E (\<lambda>_. ok ())) fail (\<lambda>_. ok f)))"

definition loadStore :: "svcEnv \<Rightarrow> (err + svcRecord list) vprog" where
  "loadStore E =
     tryE (ensureDir E False) (\<lambda>e. if isNotExist e then ok [] else fail e) (\<lambda>_.
     tryE (readProtected E) (\<lambda>e. if isNotExist e then ok [] else fail e) (\<lambda>f.
     if length (sf_text f) > maxStoreBytes then fail (newErr ''credential store too large'')
     else case sf_doc f of
       None \<Rightarrow> fail (newErr ''credential store has invalid JSON'')
     | Some (version, rs) \<Rightarrow>
       if version \<noteq> 1 then fail (newErr ''unsupported credential store version'')
       else if \<not> validRecords E {} (map decodedRecord rs) then fail (newErr ''invalid or duplicate stored service identity'')
       else ok (map decodedRecord rs)))"

definition newFile :: "svcEnv \<Rightarrow> string \<Rightarrow> (int \<times> svcRecord list) option \<Rightarrow> svcFile" where
  "newFile E body doc = \<lparr>sf_symlink = False, sf_regular = True, sf_perm = 384, sf_nlink = 1, sf_uid = v_euid E,
     sf_text = body, sf_doc = doc\<rparr>"

definition putTemp :: "string \<Rightarrow> svcFile \<Rightarrow> svcDisk \<Rightarrow> svcDisk" where
  "putTemp n f d = d\<lparr>sd_temps := (n, f) # filter (\<lambda>x. fst x \<noteq> n) (sd_temps d)\<rparr>"

definition dropTemp :: "string \<Rightarrow> svcDisk \<Rightarrow> svcDisk" where
  "dropTemp n d = d\<lparr>sd_temps := filter (\<lambda>x. fst x \<noteq> n) (sd_temps d)\<rparr>"

definition tempNameFor :: "svcEnv \<Rightarrow> string vprog" where
  "tempNameFor E = tryE (vrandom E 8) (\<lambda>_. do { t \<leftarrow> vnow E; return (''.tmp-'' @ itoa t) }) (\<lambda>b. return (''.tmp-'' @ hexEncode b))"

definition createStoreTemp :: "svcEnv \<Rightarrow> string \<Rightarrow> (err + unit) vprog" where
  "createStoreTemp E n = vcall E (\<lambda>_. do {
     w \<leftarrow> get;
     if sd_dir (sw_disk w) = None then fail (Err NotExist ''no such file or directory'')
     else if n \<in> fst ` set (sd_temps (sw_disk w)) then fail (Err Exist ''file exists'')
     else do { onDisk (putTemp n (newFile E [] None)); ok () } })"

text \<open>A failing write may have written any part of the text.\<close>

definition writeTemp :: "svcEnv \<Rightarrow> string \<Rightarrow> string \<Rightarrow> svcRecord list \<Rightarrow> (err + unit) vprog" where
  "writeTemp E n body rs = do {
     w \<leftarrow> get;
     modify (vadvance E);
     case v_fault E (sw_tick w) of
       Some e \<Rightarrow> do { onDisk (putTemp n (newFile E (take (v_written E (sw_tick w)) body) None)); fail (openErr e) }
     | None \<Rightarrow> do { onDisk (putTemp n (newFile E body (Some (1, rs)))); ok () } }"

definition renameTemp :: "svcEnv \<Rightarrow> string \<Rightarrow> (err + unit) vprog" where
  "renameTemp E n = vcall E (\<lambda>_. do {
     w \<leftarrow> get;
     case map_of (sd_temps (sw_disk w)) n of
       None \<Rightarrow> fail (Err NotExist ''no such file or directory'')
     | Some f \<Rightarrow> do { onDisk (\<lambda>d. (dropTemp n d)\<lparr>sd_store := Some f\<rparr>); ok () } })"

abbreviation syncCall :: "svcEnv \<Rightarrow> (err + unit) vprog" where
  "syncCall E \<equiv> vcall E (\<lambda>_. ok ())"

definition closeFailed :: "svcEnv \<Rightarrow> err \<Rightarrow> (err + 'a) vprog" where
  "closeFailed E e = do { _ \<leftarrow> syncCall E; fail e }"

definition publishStore :: "svcEnv \<Rightarrow> string \<Rightarrow> string \<Rightarrow> svcRecord list \<Rightarrow> (err + unit) vprog" where
  "publishStore E n body rs =
     tryE (writeTemp E n body rs) (closeFailed E) (\<lambda>_.
     tryE (syncCall E) (closeFailed E) (\<lambda>_.
     tryE (syncCall E) fail (\<lambda>_.
     tryE (renameTemp E n) fail (\<lambda>_.
     tryE (syncCall E) fail (\<lambda>_.
     syncCall E)))))"

definition saveStore :: "svcEnv \<Rightarrow> svcRecord list \<Rightarrow> (err + unit) vprog" where
  "saveStore E rs = (case storeJSON rs of
       None \<Rightarrow> fail (newErr ''json: error calling MarshalJSON for type time.Time'')
     | Some body \<Rightarrow>
       if length body > maxStoreBytes then fail (newErr ''credential store size limit reached'')
       else do {
         n \<leftarrow> tempNameFor E;
         tryE (createStoreTemp E n) fail (\<lambda>_. do {
           r \<leftarrow> publishStore E n body rs;
           _ \<leftarrow> vcall E (\<lambda>_. do { onDisk (dropTemp n); ok () });
           return r }) })"

section \<open>The lock\<close>

definition openLock :: "svcEnv \<Rightarrow> (err + svcFile) vprog" where
  "openLock E = vcall E (\<lambda>_. do {
     w \<leftarrow> get;
     if sd_dir (sw_disk w) = None then fail (Err NotExist ''no such file or directory'')
     else case sd_lock (sw_disk w) of
       Some f \<Rightarrow> if sf_symlink f then fail (newErr ''too many levels of symbolic links'') else ok f
     | None \<Rightarrow> (let f = newFile E [] None in do { onDisk (\<lambda>d. d\<lparr>sd_lock := Some f\<rparr>); ok f }) })"

definition lockedUpdate :: "svcEnv \<Rightarrow> (svcRecord list \<Rightarrow> (err + 'a \<times> svcRecord list option) vprog) \<Rightarrow> (err + 'a) vprog" where
  "lockedUpdate E fn =
     tryE (loadStore E) fail (\<lambda>rs.
     tryE (fn rs) fail (\<lambda>(x, new). case new of
       None \<Rightarrow> ok x
     | Some rs' \<Rightarrow> tryE (saveStore E rs') fail (\<lambda>_. ok x)))"

definition withStoreLock :: "svcEnv \<Rightarrow> (svcRecord list \<Rightarrow> (err + 'a \<times> svcRecord list option) vprog) \<Rightarrow> (err + 'a) vprog" where
  "withStoreLock E fn =
     tryE (ensureDir E True) fail (\<lambda>_.
     tryE (openLock E) fail (\<lambda>f.
     tryE (syncCall E) fail (\<lambda>_.
     if \<not> safeFile E f then fail (newErr ''unsafe credential store lock identity'')
     else tryE (vcall E (\<lambda>_. do { modify (\<lambda>w. w\<lparr>sw_held := True\<rparr>); ok () })) fail (\<lambda>_. do {
       r \<leftarrow> lockedUpdate E fn;
       modify (\<lambda>w. w\<lparr>sw_held := False\<rparr>);
       return r }))))"

section \<open>Operations\<close>

definition listServices :: "svcEnv \<Rightarrow> (err + metadata list) vprog" where
  "listServices E = tryE (loadStore E) fail (\<lambda>rs. do { now \<leftarrow> vnow E; ok (map (\<lambda>r. metaOf r now) rs) })"

definition sameDestination :: "registration \<Rightarrow> svcRecord \<Rightarrow> bool" where
  "sameDestination g r = (sr_hostID r = rg_hostID g \<and> sr_project r = rg_project g \<and> sr_guest r = rg_guest g
     \<and> sr_guestUUID r = rg_guestUUID g \<and> sr_service r = rg_service g \<and> sr_endpoint r = rg_endpoint g
     \<and> sr_username r = rg_username g \<and> sr_purpose r = rg_purpose g \<and> sr_revokedAt r = None)"

definition newServiceRecord :: "registration \<Rightarrow> string \<Rightarrow> string \<Rightarrow> string \<Rightarrow> int option \<Rightarrow> int \<Rightarrow> svcRecord" where
  "newServiceRecord g i kind secret expires now = \<lparr>sr_id = i, sr_hostID = rg_hostID g, sr_project = rg_project g,
     sr_guest = rg_guest g, sr_guestUUID = rg_guestUUID g, sr_service = rg_service g, sr_purpose = rg_purpose g,
     sr_endpoint = rg_endpoint g, sr_username = rg_username g, sr_kind = kind, sr_secret = secret, sr_createdAt = now,
     sr_updatedAt = now, sr_lastUsedAt = None, sr_expiresAt = expires, sr_revokedAt = None\<rparr>"

definition addRecord :: "registration \<Rightarrow> svcRecord \<Rightarrow> svcRecord list \<Rightarrow> err + unit \<times> svcRecord list option" where
  "addRecord g r rs =
     (if list_ex (sameDestination g) rs
      then Inl (newErr ''service_already_registered: inspect existing references before creating duplicates'')
      else Inr ((), Some (rs @ [r])))"

definition secretExpiry :: "svcEnv \<Rightarrow> string \<Rightarrow> int \<Rightarrow> bool \<Rightarrow> (err + int option) vprog" where
  "secretExpiry E secret ttl never = (if secret = [] then ok None else do { now \<leftarrow> vnow E; return (expiration now ttl never) })"

definition registerService :: "svcEnv \<Rightarrow> registration \<Rightarrow> string \<Rightarrow> string \<Rightarrow> int \<Rightarrow> bool \<Rightarrow> (err + metadata) vprog" where
  "registerService E g kind secret ttl never = (case validateRegistration E g of
       Some e \<Rightarrow> fail e
     | None \<Rightarrow>
       tryE (secretExpiry E secret ttl never) fail (\<lambda>expires.
       tryE (vrandom E 16) fail (\<lambda>b. do {
         now \<leftarrow> vnow E;
         let r = newServiceRecord g (''svc_'' @ hexEncode b) kind secret expires now;
         tryE (withStoreLock E (\<lambda>rs. return (addRecord g r rs))) fail (\<lambda>_. ok (metaOf r now)) })))"

definition registerWithSecret :: "svcEnv \<Rightarrow> registration \<Rightarrow> string \<Rightarrow> string \<Rightarrow> int \<Rightarrow> bool \<Rightarrow> (err + metadata) vprog" where
  "registerWithSecret E g kind secret ttl never = (case validateSecret kind secret of
       Some e \<Rightarrow> fail e | None \<Rightarrow> registerService E g kind secret ttl never)"

text \<open>The first record of an id: the records before it, the record, the records after it.\<close>

fun splitID :: "string \<Rightarrow> svcRecord list \<Rightarrow> (svcRecord list \<times> svcRecord \<times> svcRecord list) option" where
  "splitID i [] = None"
| "splitID i (r # rs) =
     (if sr_id r = i then Some ([], r, rs)
      else (case splitID i rs of None \<Rightarrow> None | Some (a, x, b) \<Rightarrow> Some (r # a, x, b)))"

definition updateService :: "svcEnv \<Rightarrow> string \<Rightarrow> (svcRecord \<Rightarrow> (err + svcRecord) vprog) \<Rightarrow> (err + metadata) vprog" where
  "updateService E i fn =
     (if \<not> validID i then fail (newErr ''invalid service reference'')
      else withStoreLock E (\<lambda>rs. case splitID i rs of
        None \<Rightarrow> fail (newErr ''service_reference_not_found'')
      | Some (a, r, b) \<Rightarrow> tryE (fn r) fail (\<lambda>r. do {
          updated \<leftarrow> vnow E;
          now \<leftarrow> vnow E;
          let r = r\<lparr>sr_updatedAt := updated\<rparr>;
          ok (metaOf r now, Some (a @ r # b)) })))"

definition enrollRecord :: "string \<Rightarrow> string \<Rightarrow> string \<Rightarrow> int option \<Rightarrow> svcRecord \<Rightarrow> err + svcRecord" where
  "enrollRecord kind username secret expires r =
     (if sr_revokedAt r \<noteq> None then Inl (newErr ''service_revoked: create a new registration'')
      else Inr (r\<lparr>sr_kind := kind, sr_username := (if username = [] then sr_username r else username), sr_secret := secret,
        sr_expiresAt := expires, sr_lastUsedAt := None\<rparr>))"

definition enrollService :: "svcEnv \<Rightarrow> string \<Rightarrow> string \<Rightarrow> string \<Rightarrow> string \<Rightarrow> int \<Rightarrow> bool \<Rightarrow> (err + metadata) vprog" where
  "enrollService E i kind username secret ttl never = (case validateSecret kind secret of
       Some e \<Rightarrow> fail e
     | None \<Rightarrow>
       if length username > 256 \<or> hasControl username then fail (newErr ''invalid username metadata'')
       else do {
         now \<leftarrow> vnow E;
         case expiration now ttl never of
           Inl e \<Rightarrow> fail e
         | Inr expires \<Rightarrow> updateService E i (\<lambda>r. return (enrollRecord kind username secret expires r)) })"

definition generateService :: "svcEnv \<Rightarrow> string \<Rightarrow> string \<Rightarrow> string \<Rightarrow> int \<Rightarrow> bool \<Rightarrow> (err + metadata) vprog" where
  "generateService E i kind username ttl never =
     (if kind \<noteq> ''password'' \<and> kind \<noteq> ''token''
      then fail (newErr ''generate supports password or token only; import externally issued credential material'')
      else tryE (vrandom E 32) fail (\<lambda>b. enrollService E i kind username (hexEncode b) ttl never))"

definition renewRecord :: "int option \<Rightarrow> svcRecord \<Rightarrow> err + svcRecord" where
  "renewRecord expires r =
     (if sr_revokedAt r \<noteq> None then Inl (newErr ''service_revoked'')
      else if sr_secret r = [] then Inl (newErr ''service_not_enrolled'')
      else Inr (r\<lparr>sr_expiresAt := expires\<rparr>))"

definition renewService :: "svcEnv \<Rightarrow> string \<Rightarrow> int \<Rightarrow> bool \<Rightarrow> (err + metadata) vprog" where
  "renewService E i ttl never = do {
     now \<leftarrow> vnow E;
     case expiration now ttl never of
       Inl e \<Rightarrow> fail e
     | Inr expires \<Rightarrow> updateService E i (\<lambda>r. return (renewRecord expires r)) }"

definition revokeRecord :: "svcEnv \<Rightarrow> svcRecord \<Rightarrow> (err + svcRecord) vprog" where
  "revokeRecord E r =
     (if sr_revokedAt r \<noteq> None then fail (newErr ''service_already_revoked'')
      else do { now \<leftarrow> vnow E; ok (r\<lparr>sr_revokedAt := Some now, sr_secret := []\<rparr>) })"

definition revokeService :: "svcEnv \<Rightarrow> string \<Rightarrow> (err + metadata) vprog" where
  "revokeService E i = updateService E i (revokeRecord E)"

definition deleteService :: "svcEnv \<Rightarrow> string \<Rightarrow> (err + unit) vprog" where
  "deleteService E i =
     (if \<not> validID i then fail (newErr ''invalid service reference'')
      else withStoreLock E (\<lambda>rs. return (case splitID i rs of
        None \<Rightarrow> Inl (newErr ''service_reference_not_found'')
      | Some (a, r, b) \<Rightarrow> Inr ((), Some (a @ b)))))"

definition resolveService :: "svcEnv \<Rightarrow> string \<Rightarrow> string \<Rightarrow> (err + svcRecord) vprog" where
  "resolveService E i host =
     (if \<not> validID i then fail (newErr ''invalid service reference'')
      else tryE (loadStore E) fail (\<lambda>rs. case splitID i rs of
        None \<Rightarrow> fail (newErr ''service_reference_not_found'')
      | Some (a, r, b) \<Rightarrow>
        if sr_hostID r \<noteq> host then fail (newErr ''service_host_mismatch'')
        else do {
          now \<leftarrow> vnow E;
          let status = recordStatus now r;
          if status = ''ready'' then ok r
          else if status = ''expired'' then fail (newErr ''service_credential_expired'')
          else if status = ''revoked'' then fail (newErr ''service_credential_revoked'')
          else fail (newErr ''service_credential_unavailable'') }))"

definition markUsed :: "svcEnv \<Rightarrow> string \<Rightarrow> (err + metadata) vprog" where
  "markUsed E i = updateService E i (\<lambda>r. do { now \<leftarrow> vnow E; ok (r\<lparr>sr_lastUsedAt := Some now\<rparr>) })"

fun cleanupLoop :: "svcEnv \<Rightarrow> svcRecord list \<Rightarrow> (svcRecord list \<times> int) vprog" where
  "cleanupLoop E [] = return ([], 0)"
| "cleanupLoop E (r # rs) =
     (case sr_expiresAt r of
        None \<Rightarrow> do { (rs, n) \<leftarrow> cleanupLoop E rs; return (r # rs, n) }
      | Some t \<Rightarrow>
        if sr_secret r = [] then do { (rs, n) \<leftarrow> cleanupLoop E rs; return (r # rs, n) }
        else do {
          now \<leftarrow> vnow E;
          if now < t then do { (rs, n) \<leftarrow> cleanupLoop E rs; return (r # rs, n) }
          else do {
            updated \<leftarrow> vnow E;
            (rs, n) \<leftarrow> cleanupLoop E rs;
            return (r\<lparr>sr_secret := [], sr_updatedAt := updated\<rparr> # rs, n + 1) } })"

definition cleanupExpired :: "svcEnv \<Rightarrow> (err + int) vprog" where
  "cleanupExpired E = withStoreLock E (\<lambda>rs. do {
     (rs', n) \<leftarrow> cleanupLoop E rs;
     ok (n, if n > 0 then Some rs' else None) })"

definition orElse :: "string \<Rightarrow> string \<Rightarrow> string" where
  "orElse a b = (if a = [] then b else a)"

text \<open>The record after a modification, or why it is refused.\<close>

definition modifiedRecord :: "svcEnv \<Rightarrow> registration \<Rightarrow> bool \<Rightarrow> svcRecord \<Rightarrow> err + svcRecord" where
  "modifiedRecord E change allowOriginChange r =
     (if sr_revokedAt r \<noteq> None then Inl (newErr ''service_credential_revoked'')
      else if rg_hostID change \<noteq> [] \<and> rg_hostID change \<noteq> sr_hostID r then Inl (newErr ''service_host_mismatch'')
      else if list_ex (\<lambda>(a, b). a \<noteq> [] \<and> a \<noteq> b)
        [(rg_project change, sr_project r), (rg_guest change, sr_guest r), (rg_guestUUID change, sr_guestUUID r)]
      then Inl (newErr ''guest_binding_immutable: register a new reference for a different native guest'')
      else case (if rg_endpoint change = [] then None else validServiceTarget E (rg_endpoint change)) of
        Some e \<Rightarrow> Inl e
      | None \<Rightarrow>
        if rg_endpoint change \<noteq> [] \<and> origin E (rg_endpoint change) \<noteq> origin E (sr_endpoint r) \<and> \<not> allowOriginChange
        then Inl (newErr ''approval_required: changing credential destination origin requires explicit Owner authorization'')
        else Inr (r\<lparr>sr_endpoint := orElse (rg_endpoint change) (sr_endpoint r), sr_service := orElse (rg_service change) (sr_service r),
          sr_username := orElse (rg_username change) (sr_username r), sr_purpose := orElse (rg_purpose change) (sr_purpose r)\<rparr>))"

definition modifyService :: "svcEnv \<Rightarrow> string \<Rightarrow> registration \<Rightarrow> bool \<Rightarrow> (err + metadata) vprog" where
  "modifyService E i change allowOriginChange =
     (if \<not> validID i then fail (newErr ''invalid service reference'')
      else withStoreLock E (\<lambda>rs. case splitID i rs of
        None \<Rightarrow> fail (newErr ''service_reference_not_found'')
      | Some (a, r, b) \<Rightarrow> (case modifiedRecord E change allowOriginChange r of
          Inl e \<Rightarrow> fail e
        | Inr next \<Rightarrow> (case validateRegistration E (registrationOf next) of
            Some e \<Rightarrow> fail e
          | None \<Rightarrow>
            if list_ex (sameDestination (registrationOf next)) (a @ b)
            then fail (newErr ''service_already_registered: duplicate service destination'')
            else if registrationOf next = registrationOf r then do { now \<leftarrow> vnow E; ok (metaOf r now, None) }
            else do {
              updated \<leftarrow> vnow E;
              now \<leftarrow> vnow E;
              let next = next\<lparr>sr_updatedAt := updated\<rparr>;
              ok (metaOf next now, Some (a @ next # b)) }))))"

section \<open>The executor's handler\<close>

definition metadataJSON :: "metadata \<Rightarrow> string" where
  "metadataJSON m = ''{'' @ jsonString ''id'' @ '':'' @ jsonString (md_id m) @ jsonField ''host_id'' (jsonString (md_hostID m))
     @ jsonOmitEmpty ''project'' (md_project m) @ jsonOmitEmpty ''guest'' (md_guest m) @ jsonOmitEmpty ''guest_uuid'' (md_guestUUID m)
     @ jsonField ''service'' (jsonString (md_service m)) @ jsonOmitEmpty ''purpose'' (md_purpose m)
     @ jsonField ''endpoint'' (jsonString (md_endpoint m)) @ jsonOmitEmpty ''username'' (md_username m)
     @ jsonOmitEmpty ''kind'' (md_kind m) @ jsonTime ''created_at'' (md_createdAt m) @ jsonTime ''updated_at'' (md_updatedAt m)
     @ jsonOptTime ''last_used_at'' (md_lastUsedAt m) @ jsonOptTime ''expires_at'' (md_expiresAt m)
     @ jsonOptTime ''revoked_at'' (md_revokedAt m) @ jsonField ''status'' (jsonString (md_status m)) @ ''}''"

definition metadataTimes :: "metadata \<Rightarrow> bool" where
  "metadataTimes m = (jsonYear (md_createdAt m) \<and> jsonYear (md_updatedAt m) \<and> pred_option jsonYear (md_lastUsedAt m)
     \<and> pred_option jsonYear (md_expiresAt m) \<and> pred_option jsonYear (md_revokedAt m))"

definition managedText :: "string option \<Rightarrow> Response" where
  "managedText text = (case text of
       None \<Rightarrow> fileError ''managed_encode_failed'' ''state'' ''json: error calling MarshalJSON for type time.Time''
     | Some b \<Rightarrow> zeroResponse\<lparr>r_ok := True, r_status := ''observed'', r_output := b, r_outputEncoding := ''json'',
         r_bytesSeen := int (length b), r_bytesReturned := int (length b)\<rparr>)"

definition managedMeta :: "metadata \<Rightarrow> Response" where
  "managedMeta m = managedText (if metadataTimes m then Some (metadataJSON m) else None)"

definition managedMetas :: "metadata list \<Rightarrow> Response" where
  "managedMetas ms = managedText (if list_all metadataTimes ms then Some (''['' @ commaJoin (map metadataJSON ms) @ '']'') else None)"

definition managedCode :: "string \<Rightarrow> string" where
  "managedCode msg =
     (if list_ex (contains msg) [''_missing'', ''not_found''] then ''resource_missing''
      else if list_ex (contains msg) [''_mismatch'', ''_collision'', ''_conflict''] then ''identity_conflict''
      else if contains msg ''_expired'' then ''credential_expired''
      else if contains msg ''_revoked'' then ''credential_revoked''
      else if contains msg ''approval_required'' then ''approval_required''
      else if list_ex (contains msg) [''_unavailable'', ''_unready''] then ''dependency_unavailable''
      else if list_ex (contains msg) [''_uncertain'', ''_unverified''] then ''outcome_uncertain''
      else ''managed_operation_failed'')"

definition managedErr :: "err \<Rightarrow> Response" where
  "managedErr e = fileError (managedCode (emsg e)) ''managed'' (emsg e)"

definition managedResult :: "('a \<Rightarrow> Response) \<Rightarrow> (err + 'a) vprog \<Rightarrow> Response vprog" where
  "managedResult show m = tryE m (\<lambda>e. return (managedErr e)) (\<lambda>x. return (show x))"

text \<open>The audit gate on this world.\<close>

definition svcAudit :: "svcEnv \<Rightarrow> svcEvent \<Rightarrow> (err + unit) vprog" where
  "svcAudit E ev = vcall E (\<lambda>_. do { modify (\<lambda>w. w\<lparr>sw_trace := ev # sw_trace w\<rparr>); ok () })"

definition beginServiceAudit :: "svcEnv \<Rightarrow> Request \<Rightarrow> string \<Rightarrow> (Response + unit) vprog" where
  "beginServiceAudit E req operation = do {
     w \<leftarrow> get;
     tryE (if sw_degraded w then fail (newErr ''audit logger is degraded until executor restart after audit-path recovery'')
           else svcAudit E (ServiceStart operation (q_approval req)))
       (\<lambda>e. fail ((auditUnavailableResponse e)\<lparr>r_requestID := q_requestID req, r_operationID := q_operationID req\<rparr>))
       (\<lambda>_. ok ()) }"

definition finishServiceAudit :: "svcEnv \<Rightarrow> Request \<Rightarrow> string \<Rightarrow> Response \<Rightarrow> Response vprog" where
  "finishServiceAudit E req operation resp0 =
     (let resp = resp0\<lparr>r_requestID := q_requestID req, r_operationID := q_operationID req\<rparr> in do {
        w \<leftarrow> get;
        tryE (if sw_degraded w then fail (newErr ''audit logger is degraded until executor restart after audit-path recovery'')
              else tryE (svcAudit E (ServiceComplete operation (r_ok resp)))
                (\<lambda>e. do { modify (\<lambda>w. w\<lparr>sw_degraded := True\<rparr>); fail e }) ok)
          (\<lambda>_. return (resp\<lparr>r_auditDegraded := True, r_auditError := ''audit completion could not be durably recorded; further action-capable operations are blocked until the audit path is repaired and the executor is restarted''\<rparr>))
          (\<lambda>_. return resp) })"

text \<open>A program of the Incus backend, run on its own part of the world.\<close>

definition onIncus :: "'a iprog \<Rightarrow> 'a vprog" where
  "onIncus m = State (\<lambda>w. case run_state m (sw_incus w) of (x, i) \<Rightarrow> (x, w\<lparr>sw_incus := i\<rparr>))"

definition inspectRequest :: "registration \<Rightarrow> incusRequest" where
  "inspectRequest g = \<lparr>n_operation = ''inspect'', n_project = rg_project g, n_instance = rg_guest g, n_uuid = [], n_image = [],
     n_type = [], n_workID = [], n_operationID = [], n_actorID = [], n_cpu = 0, n_memoryMiB = 0, n_diskGiB = 0,
     n_storagePool = [], n_command = [], n_snapshot = []\<rparr>"

text \<open>A registration for a guest names a managed guest that Incus reports with that UUID.\<close>

definition verifyGuest :: "svcEnv \<Rightarrow> registration \<Rightarrow> (err + unit) vprog" where
  "verifyGuest E g =
     (if rg_guest g = [] then ok ()
      else if rg_project g = [] \<or> rg_guestUUID g = [] then fail (newErr ''native_guest_identity_required'')
      else do {
        st \<leftarrow> onIncus (ready (v_incus E));
        if \<not> rs_available st then fail (newErr (''native_guest_identity_unavailable: '' @ rs_diagnostic st))
        else do {
          (x, e) \<leftarrow> onIncus (runIncus (v_incus E) (inspectRequest g) False []);
          if e = None \<and> (case rs_instance x of None \<Rightarrow> False | Some i \<Rightarrow> s_managed i \<and> s_uuid i = rg_guestUUID g)
          then ok ()
          else fail (newErr ''native_guest_identity_mismatch: inspect current local Incus project/instance/UUID'') } })"

definition inspectService :: "string \<Rightarrow> metadata list \<Rightarrow> Response" where
  "inspectService i ms = (case find (\<lambda>m. md_id m = i) ms of
       None \<Rightarrow> managedErr (newErr ''service_reference_not_found'')
     | Some m \<Rightarrow> if r_ok (managedMeta m) then managedMeta m else managedErr (newErr ''service_reference_not_found''))"

definition serviceOperation :: "svcEnv \<Rightarrow> Request \<Rightarrow> serviceInput \<Rightarrow> Response vprog" where
  "serviceOperation E req i =
     (if si_operation i = ''list'' then managedResult managedMetas (listServices E)
      else if si_operation i = ''inspect'' then managedResult (inspectService (si_ref i)) (listServices E)
      else if si_operation i = ''register'' then
        (let g = (si_registration i)\<lparr>rg_hostID := v_instanceID E\<rparr> in
         tryE (verifyGuest E g) (\<lambda>e. return (managedErr e)) (\<lambda>_. managedResult managedMeta (registerService E g [] [] 0 False)))
      else if si_operation i = ''update'' then
        managedResult managedMeta (modifyService E (si_ref i) ((si_registration i)\<lparr>rg_hostID := v_instanceID E\<rparr>) (q_approval req))
      else if si_operation i = ''generate'' then
        managedResult managedMeta (generateService E (si_ref i) (si_kind i) (si_username i) (si_ttlDays i) (si_neverExpires i))
      else if si_operation i = ''renew'' then managedResult managedMeta (renewService E (si_ref i) (si_ttlDays i) (si_neverExpires i))
      else if si_operation i = ''revoke'' then managedResult managedMeta (revokeService E (si_ref i))
      else if si_operation i = ''delete'' then
        (if \<not> q_approval req
         then return (managedErr (newErr ''approval_required: explicitly authorize permanent deletion of this service reference''))
         else managedResult (\<lambda>_. managedText (Some (''{'' @ jsonString ''deleted'' @ '':true'' @ jsonField ''ref'' (jsonString (si_ref i)) @ ''}'')))
           (deleteService E (si_ref i)))
      else if si_operation i = ''cleanup'' then
        managedResult (\<lambda>n. managedText (Some (''{'' @ jsonString ''expired_secrets_erased'' @ '':'' @ itoa n @ ''}''))) (cleanupExpired E)
      else return (managedErr (newErr ''unsupported service access operation'')))"

definition serviceAccessAction :: "svcEnv \<Rightarrow> Request \<Rightarrow> serviceInput \<Rightarrow> Response vprog" where
  "serviceAccessAction E req i =
     (let operation = ''service_access '' @ si_operation i in
      if q_root req \<or> q_principalID req = [] \<or> q_principalClass req = []
      then return (fileError ''authentication_required'' ''authorization'' ''authenticated MCP principal required'')
      else if v_instanceID E = []
      then return (fileError ''host_identity_unavailable'' ''state'' ''Agent instance_id must be configured to bind target-service references'')
      else tryE (beginServiceAudit E req operation) return (\<lambda>_. do {
        swept \<leftarrow> (if si_operation i \<in> {''list'', ''inspect''} then ok 0 else cleanupExpired E);
        resp \<leftarrow> (case swept of Inl e \<Rightarrow> return (managedErr e) | Inr _ \<Rightarrow> serviceOperation E req i);
        finishServiceAudit E req operation resp }))"

section \<open>Credentials for guest commands\<close>

text \<open>The secret of a reference, if it is bound to the guest of the request.\<close>

definition guestSecret :: "svcEnv \<Rightarrow> string \<Rightarrow> incusRequest \<Rightarrow> (err + string) vprog" where
  "guestSecret E ref req =
     (if ref = [] then ok []
      else if n_operation req \<noteq> ''exec'' then fail (newErr ''credential reference is only supported for guest exec stdin'')
      else tryE (resolveService E ref (v_instanceID E)) fail (\<lambda>r.
        if sr_guest r = [] \<or> sr_guest r \<noteq> n_instance req \<or> sr_project r \<noteq> n_project req \<or> sr_guestUUID r \<noteq> n_uuid req
        then fail (newErr ''credential_guest_identity_mismatch'') else ok (sr_secret r)))"

definition managedReply :: "svcEnv \<Rightarrow> incusRequest \<Rightarrow> incusReply \<Rightarrow> Response" where
  "managedReply E req reply = (case reply of
       (_, Some e) \<Rightarrow> managedErr e
     | (result, None) \<Rightarrow>
       if \<not> rs_available result \<and> n_operation req \<noteq> ''status'' \<and> n_operation req \<noteq> ''pending_creates''
       then fileError ''incus_unavailable'' ''dependency'' (rs_diagnostic result)
       else managedText (v_resultJSON E result))"

definition managedEnvironmentAction :: "svcEnv \<Rightarrow> Request \<Rightarrow> incusRequest \<Rightarrow> string \<Rightarrow> Response vprog" where
  "managedEnvironmentAction E req i ref =
     (let i = i\<lparr>n_actorID := q_principalID req\<rparr>; operation = ''incus '' @ n_operation i in
      if q_root req \<or> q_principalID req = [] \<or> q_principalClass req = []
      then return (fileError ''authentication_required'' ''authorization'' ''authenticated MCP principal required'')
      else if v_instanceID E = [] then return (fileError ''host_identity_unavailable'' ''state'' ''Agent instance_id must be configured'')
      else tryE (beginServiceAudit E req operation) return (\<lambda>_.
        tryE (guestSecret E ref i) (\<lambda>e. finishServiceAudit E req operation (managedErr e)) (\<lambda>secret. do {
          reply \<leftarrow> onIncus (runIncus (v_incus E) i (q_approval req) secret);
          let resp = managedReply E i reply;
          (if r_ok resp \<and> ref \<noteq> [] \<and> rs_status (fst reply) = ''guest_command_completed''
           then do { _ \<leftarrow> markUsed E ref; return () } else return ());
          finishServiceAudit E req operation resp })))"

end
