(* ===== verification/ServiceText.thy ===== *)
theory ServiceText
  imports ServiceAccess
begin

text \<open>
  Text that has been through a JSON document: it is valid UTF-8, and encoding and decoding it again does
  not change it.
\<close>

lemma decode_tails:
  "decode2 a r = (c, n) \<Longrightarrow> (n = 1 \<and> c = rune_error) \<or> (n = 2 \<and> 1 \<le> length r \<and> decode2 a (take 1 r @ x) = (c, n))"
  "decode3 a r = (c, n) \<Longrightarrow> (n = 1 \<and> c = rune_error) \<or> (n = 3 \<and> 2 \<le> length r \<and> decode3 a (take 2 r @ x) = (c, n))"
  "decode4 a r = (c, n) \<Longrightarrow> (n = 1 \<and> c = rune_error) \<or> (n = 4 \<and> 3 \<le> length r \<and> decode4 a (take 3 r @ x) = (c, n))"
  subgoal by (cases "(a, r)" rule: decode2.cases) (auto split: if_splits)
  subgoal by (cases "(a, r)" rule: decode3.cases) (auto split: if_splits)
  subgoal by (cases "(a, r)" rule: decode4.cases) (auto split: if_splits)
  done

text \<open>A rune that decodes decodes again whatever follows.\<close>

lemma decode_again:
  assumes "decode_bytes bs = (c, n)" and "bs \<noteq> []" and "\<not> (c = rune_error \<and> n = 1)"
  shows "decode_bytes (take n bs @ x) = (c, n)"
proof -
  obtain a r where bs: "bs = a # r" using assms(2) by (cases bs) auto
  show ?thesis
    using assms(1,3) decode_tails(1)[of a r c n x] decode_tails(2)[of a r c n x] decode_tails(3)[of a r c n x]
    unfolding bs by (auto split: if_splits simp: take_Cons')
qed

lemma decode_rune_again:
  assumes "decode_rune s = (c, n)" and "s \<noteq> []" and "\<not> (c = rune_error \<and> n = 1)"
  shows "decode_rune (take n s @ t) = (c, n)"
proof -
  have n: "n \<le> length (take 4 s)" "0 < n"
    using decode_bytes_width[of "map byte (take 4 s)"] assms(1,2) by (auto simp: decode_rune_def)
  then have "take 4 (take n s @ t) = take n (take 4 s) @ take (4 - n) t"
    by (cases "n = length s") (auto simp: min_def split: if_splits)
  then have "map byte (take 4 (take n s @ t)) = take n (map byte (take 4 s)) @ map byte (take (4 - n) t)"
    by (simp add: take_map)
  moreover have "decode_bytes (take n (map byte (take 4 s)) @ map byte (take (4 - n) t)) = (c, n)"
    by (rule decode_again) (use assms in \<open>auto simp: decode_rune_def\<close>)
  ultimately show ?thesis by (simp add: decode_rune_def)
qed

lemma runes_step:
  assumes "decode_rune s = (c, n)" and "s \<noteq> []" and "\<not> (c = rune_error \<and> n = 1)"
  shows "runes (take n s @ t) = (c, take n s) # runes t"
proof -
  have n: "0 < n" "n \<le> length s" using decode_rune_width[OF assms(2)] assms(1) by auto
  moreover have "take n s @ t \<noteq> []" using n by auto
  ultimately show ?thesis
    using decode_rune_again[OF assms, of t] by (simp add: runes.simps[of "take n s @ t"] min_def)
qed

lemma runes_replacement: "runes ([CHR 0xEF, CHR 0xBF, CHR 0xBD] @ t) = (rune_error, [CHR 0xEF, CHR 0xBF, CHR 0xBD]) # runes t"
proof -
  have "decode_rune [CHR 0xEF, CHR 0xBF, CHR 0xBD] = (rune_error, 3)"
    by (simp add: decode_rune_def second_ok_def cont_def rune_error_def)
  from runes_step[OF this, of t] show ?thesis by (simp add: rune_error_def)
qed

lemma cleanText_step:
  "s \<noteq> [] \<Longrightarrow> decode_rune s = (c, n) \<Longrightarrow>
   cleanText s = (if c = rune_error \<and> n = 1 then [CHR 0xEF, CHR 0xBF, CHR 0xBD] else take n s) @ cleanText (drop n s)"
  using decode_rune_width[of s] by (auto simp: cleanText_def rune_error_def runes.simps[of s] min_def)

lemma cleanText_Nil [simp]: "cleanText [] = []"
  by (simp add: cleanText_def)

lemma utf8_cleanText [simp]: "utf8_valid (cleanText s)"
proof (induction s rule: runes.induct)
  case (1 s)
  show ?case
  proof (cases "s = []")
    case False
    obtain c n where d: "decode_rune s = (c, n)" by fastforce
    have n: "0 < n" "n \<le> length s" using decode_rune_width[OF False] d by auto
    have IH: "utf8_valid (cleanText (drop n s))" using 1 False d by simp
    show ?thesis
    proof (cases "c = rune_error \<and> n = 1")
      case True
      then show ?thesis
        using IH runes_replacement[of "cleanText (drop n s)"] by (simp add: cleanText_step[OF False d] utf8_valid_def)
    next
      case bad: False
      then show ?thesis
        using IH runes_step[OF d False bad, of "cleanText (drop n s)"] n
        unfolding cleanText_step[OF False d] if_not_P[OF bad] by (auto simp: utf8_valid_def min_def)
    qed
  qed (simp add: utf8_valid_def)
qed

lemma cleanText_id: "utf8_valid s \<Longrightarrow> cleanText s = s"
proof -
  assume "utf8_valid s"
  then have "cleanText s = concat (map snd (runes s))"
    unfolding cleanText_def utf8_valid_def
    by (intro arg_cong[of _ _ concat] map_cong) (auto simp: list_all_iff rune_error_def)
  then show ?thesis by (simp add: runes_concat)
qed

lemma cleanText_idem [simp]: "cleanText (cleanText s) = cleanText s"
  by (simp add: cleanText_id)

lemma cleanText_eq_Nil [simp]: "cleanText s = [] \<longleftrightarrow> s = []"
proof
  assume c: "cleanText s = []"
  show "s = []"
  proof (rule ccontr)
    assume s: "s \<noteq> []"
    obtain a n where d: "decode_rune s = (a, n)" by fastforce
    then have "0 < n" using decode_rune_width[OF s] by simp
    then show False using c s unfolding cleanText_step[OF s d] by (auto split: if_splits)
  qed
qed simp

section \<open>Records\<close>

lemma decoded_sel [simp]:
  "sr_id (decodedRecord r) = cleanText (sr_id r)" "sr_hostID (decodedRecord r) = cleanText (sr_hostID r)"
  "sr_project (decodedRecord r) = cleanText (sr_project r)" "sr_guest (decodedRecord r) = cleanText (sr_guest r)"
  "sr_guestUUID (decodedRecord r) = cleanText (sr_guestUUID r)" "sr_service (decodedRecord r) = cleanText (sr_service r)"
  "sr_purpose (decodedRecord r) = cleanText (sr_purpose r)" "sr_endpoint (decodedRecord r) = cleanText (sr_endpoint r)"
  "sr_username (decodedRecord r) = cleanText (sr_username r)" "sr_kind (decodedRecord r) = cleanText (sr_kind r)"
  "sr_secret (decodedRecord r) = cleanText (sr_secret r)" "sr_createdAt (decodedRecord r) = sr_createdAt r"
  "sr_updatedAt (decodedRecord r) = sr_updatedAt r" "sr_lastUsedAt (decodedRecord r) = sr_lastUsedAt r"
  "sr_expiresAt (decodedRecord r) = sr_expiresAt r" "sr_revokedAt (decodedRecord r) = sr_revokedAt r"
  by (simp_all add: decodedRecord_def)

lemma decoded_idem [simp]: "decodedRecord (decodedRecord r) = decodedRecord r"
  by (simp add: decodedRecord_def)

text \<open>A record all of whose texts are valid UTF-8 is read back as it was written.\<close>

definition cleanRecord :: "svcRecord \<Rightarrow> bool" where
  "cleanRecord r = (decodedRecord r = r)"

lemma clean_decoded [simp]: "cleanRecord (decodedRecord r)"
  by (simp add: cleanRecord_def)

lemma clean_map: "list_all cleanRecord rs \<Longrightarrow> map decodedRecord rs = rs"
  by (induction rs) (simp_all add: cleanRecord_def)

lemma clean_iff: "cleanRecord r \<longleftrightarrow> (\<forall>s\<in>{sr_id r, sr_hostID r, sr_project r, sr_guest r, sr_guestUUID r, sr_service r,
    sr_purpose r, sr_endpoint r, sr_username r, sr_kind r, sr_secret r}. cleanText s = s)"
  unfolding cleanRecord_def decodedRecord_def by (cases r) auto

end
