(* ===== verification/ServiceFrame.thy ===== *)
theory ServiceFrame
  imports ServiceText
begin

text \<open>
  What the calls of the credential store do to its records: while the lock is held nothing but the
  store's own rename changes them, and every operation is one evolution of what was loaded under the lock.
\<close>

section \<open>The records\<close>

definition contents :: "svcDisk \<Rightarrow> svcRecord list" where
  "contents d = (if sd_dir d = None then [] else case sd_store d of
       None \<Rightarrow> []
     | Some f \<Rightarrow> (case sf_doc f of None \<Rightarrow> [] | Some (_, rs) \<Rightarrow> map decodedRecord rs))"

abbreviation recordsOf :: "svcWorld \<Rightarrow> svcRecord list" where
  "recordsOf w \<equiv> contents (sw_disk w)"

lemma contents_clean: "list_all cleanRecord (contents d)"
  by (auto simp: contents_def list_all_iff split: option.split)

lemma contents_temps [simp]: "contents (d\<lparr>sd_temps := x\<rparr>) = contents d" "contents (d\<lparr>sd_lock := y\<rparr>) = contents d"
    "contents (putTemp n f d) = contents d" "contents (dropTemp n d) = contents d"
  by (simp_all add: contents_def putTemp_def dropTemp_def)

lemma advance_sel [simp]:
  "sw_held (vadvance E w) = sw_held w" "sw_held w \<Longrightarrow> sw_disk (vadvance E w) = sw_disk w"
  "sw_degraded (vadvance E w) = sw_degraded w" "sw_trace (vadvance E w) = sw_trace w" "sw_incus (vadvance E w) = sw_incus w"
  by (simp_all add: vadvance_def)

section \<open>Looking\<close>

text \<open>A program that only looks leaves the world to the other processes, tick by tick.\<close>

definition passes :: "svcEnv \<Rightarrow> svcWorld \<Rightarrow> svcWorld \<Rightarrow> bool" where
  "passes E s t = (\<exists>n. t = (vadvance E ^^ n) s)"

interpretation ps: frame "passes E" for E
proof unfold_locales
  show "passes E s s" for s unfolding passes_def by (rule exI[of _ 0]) simp
  show "passes E s t \<Longrightarrow> passes E t u \<Longrightarrow> passes E s u" for s t u
    unfolding passes_def by (metis comp_apply funpow_add)
qed

lemma passes_advance: "passes E s (vadvance E s)"
  unfolding passes_def by (rule exI[of _ 1]) simp

lemma passes_held: "passes E s t \<Longrightarrow> sw_held s \<Longrightarrow> sw_held t \<and> sw_disk t = sw_disk s"
proof -
  have "sw_held s \<Longrightarrow> sw_held ((vadvance E ^^ n) s) \<and> sw_disk ((vadvance E ^^ n) s) = sw_disk s" for n
    by (induction n) simp_all
  then show "passes E s t \<Longrightarrow> sw_held s \<Longrightarrow> ?thesis" by (auto simp: passes_def)
qed

lemma openErr_exists [simp]: "\<not> isNotExist (openErr e)"
  by (simp add: openErr_def isNotExist_def)

lemma any_wp: "(\<And>s. wp m (\<lambda>_ t. R s t) s) \<Longrightarrow> state_io_rel R m"
  by (simp add: wp_run state_io_rel_def)

lemma vcall_wp:
  assumes "\<And>e. Q (Inl (openErr e)) (vadvance E s)" and "\<And>k. wp (f k) Q (vadvance E s)"
  shows "wp (vcall E f) Q s"
  using assms by (simp add: vcall_def split: option.split)

lemma ps_vcall: "(\<And>k. state_io_rel (passes E) (f k)) \<Longrightarrow> state_io_rel (passes E) (vcall E f)"
  unfolding vcall_def by (intro ps.steps ps.on_modify passes_advance)

lemma ps_vnow: "state_io_rel (passes E) (vnow E)"
  unfolding vnow_def by (intro ps.steps ps.on_modify passes_advance)

lemma checkDir_run: "wp (checkDir E d) Q s \<longleftrightarrow> (if \<not> dd_isDir d \<or> dd_perm d \<noteq> 448 then Q (Inl (newErr ''service access directory must be a private non-symlink directory (0700)'')) s
    else if dd_uid d \<noteq> v_euid E then Q (Inl (newErr ''service access directory is not owned by the executor identity'')) s
    else Q (Inr ()) s)"
  by (simp add: checkDir_def)

lemma newErr_exists [simp]: "\<not> isNotExist (newErr m)"
  by (simp add: newErr_def isNotExist_def)

lemma ensureDir_looks:
  "wp (ensureDir E False) (\<lambda>r t. passes E s t \<and> (\<forall>e. r = Inl e \<longrightarrow> isNotExist e \<longrightarrow> recordsOf t = [])) s"
  unfolding ensureDir_def lstatDir_def wp_tryE
  by (rule vcall_wp) (simp_all add: passes_advance contents_def checkDir_run split: option.split)

lemma readProtected_looks:
  "wp (readProtected E) (\<lambda>r t. passes E s t \<and> (\<forall>e. r = Inl e \<longrightarrow> isNotExist e \<longrightarrow> recordsOf t = []) \<and>
     (\<forall>f. r = Inr f \<longrightarrow> (\<exists>u. passes E s u \<and> passes E u t \<and> sd_dir (sw_disk u) \<noteq> None \<and> sd_store (sw_disk u) = Some f \<and> safeFile E f \<and> \<not> sf_symlink f))) s"
proof -
  let ?a = "vadvance E"
  have "passes E s (?a s)" "passes E s (?a (?a s))" "passes E s (?a (?a (?a s)))" "passes E (?a s) (?a (?a (?a s)))"
    by (blast intro: passes_advance ps.step_trans)+
  then show ?thesis
    unfolding readProtected_def
    by (auto simp: vcall_def contents_def split: option.split)
qed

lemma loadStore_looks:
  "wp (loadStore E) (\<lambda>r t. passes E s t \<and> (\<forall>rs. r = Inr rs \<longrightarrow>
     validRecords E {} rs \<and> list_all cleanRecord rs \<and> (\<exists>u. passes E s u \<and> passes E u t \<and> rs = recordsOf u))) s"
  unfolding loadStore_def wp_tryE[of "ensureDir _ _"]
proof (rule wp_mono[OF ensureDir_looks], goal_cases)
  case (1 r u)
  then have su: "passes E s u" by blast
  show ?case
  proof (cases r)
    case (Inl e)
    then show ?thesis using 1 su ps.step_refl[of E u] by auto
  next
    case (Inr x)
    show ?thesis
      unfolding Inr sum.case wp_tryE
    proof (rule wp_mono[OF readProtected_looks], goal_cases)
      case (1 r' t)
      then have ut: "passes E u t" by blast
      note st = ps.step_trans[OF su ut]
      show ?case
      proof (cases r')
        case (Inl e)
        then show ?thesis using 1 st ps.step_refl[of E t] by auto
      next
        case (Inr f)
        then obtain v where v: "passes E u v" "passes E v t" "sd_dir (sw_disk v) \<noteq> None" "sd_store (sw_disk v) = Some f"
          using 1 by blast
        have "sf_doc f = Some (n, rs) \<Longrightarrow> recordsOf v = map decodedRecord rs" for n rs
          using v(3,4) by (auto simp: contents_def)
        then show ?thesis
          using Inr st ps.step_trans[OF su v(1)] v(2) by (fastforce simp: list_all_iff split: option.split)
      qed
    qed
  qed
qed

lemma loadStore_held:
  assumes "sw_held s"
  shows "wp (loadStore E) (\<lambda>r t. sw_held t \<and> sw_disk t = sw_disk s \<and> (\<forall>rs. r = Inr rs \<longrightarrow>
     rs = recordsOf s \<and> validRecords E {} rs \<and> list_all cleanRecord rs)) s"
  by (rule wp_mono[OF loadStore_looks]) (use passes_held assms in metis)

section \<open>Saving\<close>

lemma held_vcall:
  assumes "sw_held s" and "\<And>e t. sw_held t \<Longrightarrow> sw_disk t = sw_disk s \<Longrightarrow> Q (Inl e) t"
    and "\<And>k t. sw_held t \<Longrightarrow> sw_disk t = sw_disk s \<Longrightarrow> wp (f k) Q t"
  shows "wp (vcall E f) Q s"
  using assms by (auto simp: vcall_def split: option.split)

lemma held_looks:
  assumes "state_io_rel (passes E) m" and "sw_held s" and "\<And>x t. sw_held t \<Longrightarrow> sw_disk t = sw_disk s \<Longrightarrow> Q x t"
  shows "wp m Q s"
  by (rule wp_mono[OF ps.wp_frame[OF assms(1)]]) (use assms(2,3) passes_held in blast)

definition sameStore :: "svcDisk \<Rightarrow> svcDisk \<Rightarrow> bool" where
  "sameStore d e = (sd_dir e = sd_dir d \<and> sd_store e = sd_store d)"

text \<open>The store of the directory is replaced by the document of these records.\<close>

definition rewritten :: "svcEnv \<Rightarrow> svcDisk \<Rightarrow> svcRecord list \<Rightarrow> svcDisk \<Rightarrow> bool" where
  "rewritten E d rs e = (sd_dir d \<noteq> None \<and> sd_dir e = sd_dir d \<and>
     (\<exists>body. storeJSON rs = Some body \<and> length body \<le> maxStoreBytes \<and> sd_store e = Some (newFile E body (Some (1, rs)))))"

lemma sameStore_refl [simp]: "sameStore d d"
  by (simp add: sameStore_def)

lemma sameStore_trans: "sameStore c d \<Longrightarrow> sameStore d e \<Longrightarrow> sameStore c e"
  by (simp add: sameStore_def)

lemma sameStore_temps [simp]: "sameStore d (putTemp n f d)" "sameStore d (dropTemp n d)" "sameStore d (d\<lparr>sd_lock := l\<rparr>)"
  by (simp_all add: sameStore_def putTemp_def dropTemp_def)

lemma same_contents: "sameStore d e \<Longrightarrow> contents e = contents d"
  by (simp add: sameStore_def contents_def)

lemma rewritten_contents: "rewritten E d rs e \<Longrightarrow> contents e = map decodedRecord rs"
  by (auto simp: rewritten_def contents_def newFile_def)

lemma rewritten_same: "sameStore c d \<Longrightarrow> rewritten E d rs e \<Longrightarrow> rewritten E c rs e" "rewritten E c rs d \<Longrightarrow> sameStore d e \<Longrightarrow> rewritten E c rs e"
  by (auto simp: rewritten_def sameStore_def)

text \<open>A save under the lock leaves the old store or the new one; success means the new one.\<close>

definition saved :: "svcEnv \<Rightarrow> svcWorld \<Rightarrow> svcRecord list \<Rightarrow> bool \<Rightarrow> svcWorld \<Rightarrow> bool" where
  "saved E s rs done t = (sw_held t \<and> (rewritten E (sw_disk s) rs (sw_disk t) \<or> (\<not> done \<and> sameStore (sw_disk s) (sw_disk t))))"

lemma tempNameFor_looks: "state_io_rel (passes E) (tempNameFor E)"
  unfolding tempNameFor_def vrandom_def by (intro ps.steps ps_vcall ps_vnow)

text \<open>The temporary file of the save holds the new document.\<close>

definition draftFor :: "svcEnv \<Rightarrow> string \<Rightarrow> string \<Rightarrow> svcRecord list \<Rightarrow> svcWorld \<Rightarrow> svcWorld \<Rightarrow> bool" where
  "draftFor E n body rs s t = (sw_held t \<and> sd_dir (sw_disk s) \<noteq> None \<and> sameStore (sw_disk s) (sw_disk t) \<and>
     storeJSON rs = Some body \<and> length body \<le> maxStoreBytes \<and>
     map_of (sd_temps (sw_disk t)) n = Some (newFile E body (Some (1, rs))))"

lemma draftFor_same: "draftFor E n body rs s t \<Longrightarrow> sw_held u \<Longrightarrow> sw_disk u = sw_disk t \<Longrightarrow> draftFor E n body rs s u"
  by (simp add: draftFor_def)

lemma saved_same: "saved E s rs done t \<Longrightarrow> sw_held u \<Longrightarrow> sw_disk u = sw_disk t \<Longrightarrow> saved E s rs done u"
  by (simp add: saved_def)

lemma writeTemp_drafts:
  assumes "sw_held s" and "sd_dir (sw_disk s) \<noteq> None" and "storeJSON rs = Some body" and "length body \<le> maxStoreBytes"
  shows "wp (writeTemp E n body rs) (\<lambda>r t. case r of Inl e \<Rightarrow> saved E s rs False t | Inr _ \<Rightarrow> draftFor E n body rs s t) s"
  using assms
  by (auto simp: writeTemp_def onDisk_def saved_def draftFor_def split: option.split)
    (simp_all add: putTemp_def)

lemma renameTemp_saves:
  assumes "draftFor E n body rs s t"
  shows "wp (renameTemp E n) (\<lambda>r u. saved E s rs (r = Inr ()) u \<and> (r = Inr () \<longrightarrow> saved E s rs True u)) t"
  unfolding renameTemp_def
proof (rule held_vcall)
  show "sw_held t" using assms by (simp add: draftFor_def)
qed (use assms in \<open>auto simp: draftFor_def saved_def onDisk_def rewritten_def sameStore_def dropTemp_def split: option.split\<close>)

lemma held_look:
  assumes "sw_held s" and "\<And>e t. sw_held t \<Longrightarrow> sw_disk t = sw_disk s \<Longrightarrow> wp (h e) Q t"
    and "\<And>t. sw_held t \<Longrightarrow> sw_disk t = sw_disk s \<Longrightarrow> wp (k ()) Q t"
  shows "wp (tryE (syncCall E) h k) Q s"
  unfolding wp_tryE by (rule held_vcall[OF assms(1)]) (use assms(2,3) in auto)

lemma publish_saves:
  assumes "sw_held s" and "sd_dir (sw_disk s) \<noteq> None" and "storeJSON rs = Some body" and "length body \<le> maxStoreBytes"
  shows "wp (publishStore E n body rs) (\<lambda>r t. saved E s rs (r = Inr ()) t) s"
proof -
  let ?Q = "\<lambda>r t. saved E s rs (r = Inr ()) t"
  have closed: "wp (closeFailed E e) ?Q t" if "saved E s rs False t" for e t
    unfolding closeFailed_def wp_bind
    by (rule held_vcall) (use that saved_same in \<open>auto simp: saved_def\<close>)
  have undone: "saved E s rs False t" if "draftFor E n body rs s t" for t
    using that by (auto simp: draftFor_def saved_def)
  have final: "wp (tryE (syncCall E) fail (\<lambda>_. syncCall E)) ?Q t" if "saved E s rs True t" for t
    by (rule held_look, use that in \<open>simp add: saved_def\<close>, use that in \<open>simp add: saved_def\<close>,
      rule held_vcall) (use that in \<open>auto simp: saved_def\<close>)
  have rename: "wp (tryE (renameTemp E n) fail (\<lambda>_. tryE (syncCall E) fail (\<lambda>_. syncCall E))) ?Q t" if "draftFor E n body rs s t" for t
    unfolding wp_tryE[of "renameTemp _ _"]
    by (rule wp_mono[OF renameTemp_saves[OF that]]) (auto split: sum.split simp del: wp_tryE intro!: final)
  have sync: "wp (tryE (syncCall E) (closeFailed E) (\<lambda>_. tryE (syncCall E) fail (\<lambda>_.
      tryE (renameTemp E n) fail (\<lambda>_. tryE (syncCall E) fail (\<lambda>_. syncCall E))))) ?Q t" if d: "draftFor E n body rs s t" for t
  proof (rule held_look)
    show "sw_held t" using d by (simp add: draftFor_def)
    show "wp (closeFailed E e) ?Q u" if "sw_held u" "sw_disk u = sw_disk t" for e u
      by (rule closed[OF undone[OF draftFor_same[OF d that]]])
    show "wp (tryE (syncCall E) fail (\<lambda>_. tryE (renameTemp E n) fail (\<lambda>_. tryE (syncCall E) fail (\<lambda>_. syncCall E)))) ?Q u"
      if u: "sw_held u" "sw_disk u = sw_disk t" for u
    proof (rule held_look)
      fix e and v :: svcWorld
      assume "sw_held v" "sw_disk v = sw_disk u"
      then show "wp (fail e) ?Q v" using undone[OF draftFor_same[OF d]] u by simp
    next
      fix v :: svcWorld
      assume "sw_held v" "sw_disk v = sw_disk u"
      then show "wp (tryE (renameTemp E n) fail (\<lambda>_. tryE (syncCall E) fail (\<lambda>_. syncCall E))) ?Q v"
        using u by (intro rename draftFor_same[OF d]) simp_all
    qed (rule u)
  qed
  show ?thesis
    unfolding publishStore_def wp_tryE[of "writeTemp _ _ _ _"]
    by (rule wp_mono[OF writeTemp_drafts[OF assms]]) (auto split: sum.splits simp del: wp_tryE intro!: closed sync)
qed

lemma createStoreTemp_keeps:
  assumes "sw_held s"
  shows "wp (createStoreTemp E n) (\<lambda>r t. sw_held t \<and> sameStore (sw_disk s) (sw_disk t) \<and> (r = Inr () \<longrightarrow> sd_dir (sw_disk t) \<noteq> None)) s"
  unfolding createStoreTemp_def
  by (rule held_vcall[OF assms]) (auto simp: onDisk_def putTemp_def[of _ "newFile _ _ _"] sameStore_def)

lemma saveStore_saves:
  assumes "sw_held s"
  shows "wp (saveStore E rs) (\<lambda>r t. saved E s rs (r = Inr ()) t) s"
proof -
  let ?Q = "\<lambda>r t. saved E s rs (r = Inr ()) t"
  have refused: "?Q (Inl e) t" if "sw_held t" "sw_disk t = sw_disk s" for e t
    using that by (simp add: saved_def)
  have published: "wp (State_Monad.bind (publishStore E n body rs) (\<lambda>r. State_Monad.bind (vcall E (\<lambda>_. State_Monad.bind (onDisk (dropTemp n)) (\<lambda>_. ok ())))
      (\<lambda>_. return r))) ?Q t" if t: "sw_held t" "sd_dir (sw_disk t) \<noteq> None" "sameStore (sw_disk s) (sw_disk t)"
      "storeJSON rs = Some body" "length body \<le> maxStoreBytes" for n body t
    unfolding wp_bind
  proof (rule wp_mono[OF publish_saves[OF t(1,2,4,5)]], goal_cases)
    case (1 r u)
    then have u: "saved E s rs (r = Inr ()) u"
      using rewritten_same(1)[OF t(3)] sameStore_trans[OF t(3)] by (auto simp: saved_def)
    show ?case
    proof (rule held_vcall)
      show "sw_held u" using u by (simp add: saved_def)
    qed (use u in \<open>auto simp: saved_def onDisk_def intro: sameStore_trans rewritten_same(2)\<close>)
  qed
  have created: "wp (tryE (createStoreTemp E n) fail (\<lambda>_. State_Monad.bind (publishStore E n body rs) (\<lambda>r.
      State_Monad.bind (vcall E (\<lambda>_. State_Monad.bind (onDisk (dropTemp n)) (\<lambda>_. ok ()))) (\<lambda>_. return r)))) ?Q t"
    if t: "sw_held t" "sw_disk t = sw_disk s" "storeJSON rs = Some body" "length body \<le> maxStoreBytes" for n body t
    unfolding wp_tryE
    by (rule wp_mono[OF createStoreTemp_keeps[OF t(1)]])
      (use t(2-) in \<open>auto simp del: wp_bind split: sum.split simp: saved_def intro!: published\<close>)
  show ?thesis
    unfolding saveStore_def
    using refused[OF assms refl]
    by (simp del: wp_bind wp_tryE split: option.split)
      (auto simp del: wp_tryE intro!: held_looks[OF tempNameFor_looks assms] created simp: wp_bind[of "tempNameFor _"])
qed

section \<open>Updates\<close>

text \<open>What a change of the loaded records may return, and what it then asks to save.\<close>

definition yields :: "svcEnv \<Rightarrow> (svcRecord list \<Rightarrow> (err + 'a \<times> svcRecord list option) vprog) \<Rightarrow>
    (svcRecord list \<Rightarrow> 'a \<Rightarrow> svcRecord list option \<Rightarrow> bool) \<Rightarrow> bool" where
  "yields E fn U = (\<forall>rs s. validRecords E {} rs \<longrightarrow> list_all cleanRecord rs \<longrightarrow>
     wp (fn rs) (\<lambda>r t. passes E s t \<and> (\<forall>x new. r = Inr (x, new) \<longrightarrow> U rs x new)) s)"

definition soundStore :: "svcEnv \<Rightarrow> svcDisk \<Rightarrow> bool" where
  "soundStore E d = (validRecords E {} (contents d) \<and> list_all cleanRecord (contents d))"

definition afterwards :: "svcEnv \<Rightarrow> svcDisk \<Rightarrow> svcRecord list option \<Rightarrow> svcDisk \<Rightarrow> bool" where
  "afterwards E d new e = (case new of None \<Rightarrow> sameStore d e | Some rs \<Rightarrow> rewritten E d rs e)"

definition updated :: "svcEnv \<Rightarrow> (svcRecord list \<Rightarrow> 'a \<Rightarrow> svcRecord list option \<Rightarrow> bool) \<Rightarrow> svcDisk \<Rightarrow> (err + 'a) \<Rightarrow>
    svcDisk \<Rightarrow> bool" where
  "updated E U d r e = ((sameStore d e \<or> (\<exists>x rs. soundStore E d \<and> U (contents d) x (Some rs) \<and> rewritten E d rs e)) \<and>
     (\<forall>x. r = Inr x \<longrightarrow> soundStore E d \<and> (\<exists>saving. U (contents d) x saving \<and> afterwards E d saving e)))"

lemma updated_not [simp]: "updated E U d (Inl e) d"
  by (simp add: updated_def)

lemma updated_saved: "U (contents d) x (Some rs) \<Longrightarrow> soundStore E d \<Longrightarrow> rewritten E d rs e \<Longrightarrow> updated E U d (Inr x) e"
    "U (contents d) x (Some rs) \<Longrightarrow> soundStore E d \<Longrightarrow> rewritten E d rs e \<or> sameStore d e \<Longrightarrow> updated E U d (Inl y) e"
  by (auto simp: updated_def afterwards_def split: option.split)

lemma lockedUpdate_updates:
  assumes "sw_held s" and "yields E fn U"
  shows "wp (lockedUpdate E fn) (\<lambda>r t. sw_held t \<and> updated E U (sw_disk s) r (sw_disk t)) s"
  unfolding lockedUpdate_def wp_tryE[of "loadStore _"]
proof (rule wp_mono[OF loadStore_held[OF assms(1)]], goal_cases)
  case (1 r u)
  show ?case
  proof (cases r)
    case (Inl e)
    then show ?thesis using 1 by simp
  next
    case (Inr rs)
    then have rs: "rs = recordsOf s" "validRecords E {} rs" "list_all cleanRecord rs" and u: "sw_held u" "sw_disk u = sw_disk s"
      using 1 by auto
    have fn: "wp (fn rs) (\<lambda>r t. passes E u t \<and> (\<forall>x new. r = Inr (x, new) \<longrightarrow> U rs x new)) u"
      using assms(2) rs by (simp add: yields_def)
    show ?thesis
      unfolding Inr sum.case wp_tryE[of "fn _"]
    proof (rule wp_mono[OF fn], goal_cases)
      case (1 r' t)
      then have t: "sw_held t" "sw_disk t = sw_disk s" using passes_held u by auto
      show ?case
      proof (cases r')
        case (Inl e)
        then show ?thesis using t by simp
      next
        case (Inr y)
        obtain x new where y: "y = (x, new)" by (cases y)
        then have U: "U rs x new" using 1 Inr by blast
        show ?thesis
        proof (cases new)
          case None
          then show ?thesis
            using U rs t y Inr by (auto simp: updated_def afterwards_def soundStore_def)
        next
          case (Some rs')
          have U': "U (contents (sw_disk s)) x (Some rs')" "soundStore E (sw_disk s)" using U rs Some by (auto simp: soundStore_def)
          have "wp (tryE (saveStore E rs') fail (\<lambda>_. ok x)) (\<lambda>r t. sw_held t \<and> updated E U (sw_disk s) r (sw_disk t)) t"
            unfolding wp_tryE
            by (rule wp_mono[OF saveStore_saves[OF t(1)]])
              (use t updated_saved[where U = U and d = "sw_disk s" and E = E and x = x and rs = rs', OF U'] in \<open>auto simp: saved_def split: sum.split\<close>)
          then show ?thesis using y Inr Some by simp
        qed
      qed
    qed
  qed
qed

section \<open>Evolutions\<close>

text \<open>A relation between the directory before and after, which the other processes respect. Only the directory itself and
  the store in it count.\<close>

definition freshDisk :: "svcEnv \<Rightarrow> svcDisk" where
  "freshDisk E = \<lparr>sd_dir = Some \<lparr>dd_isDir = True, dd_perm = 448, dd_uid = v_euid E\<rparr>, sd_lock = None, sd_store = None, sd_temps = []\<rparr>"

definition relies :: "(svcDisk \<Rightarrow> svcDisk \<Rightarrow> bool) \<Rightarrow> svcEnv \<Rightarrow> bool" where
  "relies R E = (\<forall>k d. R d (v_others E k d))"

locale evolution =
  fixes E :: svcEnv and R :: "svcDisk \<Rightarrow> svcDisk \<Rightarrow> bool"
  assumes same: "sameStore d e \<Longrightarrow> R d e"
    and chain: "R c d \<Longrightarrow> R d e \<Longrightarrow> R c e"
    and made: "sd_dir d = None \<Longrightarrow> R d (freshDisk E)"

text \<open>The relation on worlds of a relation on directories.\<close>

abbreviation across :: "(svcDisk \<Rightarrow> svcDisk \<Rightarrow> bool) \<Rightarrow> svcWorld \<Rightarrow> svcWorld \<Rightarrow> bool" where
  "across R s t \<equiv> R (sw_disk s) (sw_disk t)"

sublocale evolution \<subseteq> ev: frame "across R"
  by unfold_locales (auto intro: same chain)

context evolution
begin

lemma passes_evolve:
  assumes "relies R E" and "passes E s t"
  shows "across R s t"
proof -
  have step: "across R w (vadvance E w)" for w
    using assms(1) same[OF sameStore_refl] by (simp add: relies_def vadvance_def)
  have "across R s ((vadvance E ^^ n) s)" for n
    by (induction n) (auto intro: same chain step)
  then show ?thesis using assms(2) by (auto simp: passes_def)
qed

lemma advance_evolve: "relies R E \<Longrightarrow> across R s (vadvance E s)"
  by (rule passes_evolve[OF _ passes_advance])

lemma on_looking: "relies R E \<Longrightarrow> state_io_rel (passes E) m \<Longrightarrow> state_io_rel (across R) m"
  by (auto simp: state_io_rel_def intro: passes_evolve)

lemma on_vcall: "relies R E \<Longrightarrow> (\<And>k. state_io_rel (across R) (f k)) \<Longrightarrow> state_io_rel (across R) (vcall E f)"
  unfolding vcall_def by (intro ev.steps ev.on_modify advance_evolve)

lemma on_mkdir: "relies R E \<Longrightarrow> state_io_rel (across R) (mkdirStore E)"
  unfolding mkdirStore_def
  by (rule on_vcall) (auto simp: state_io_rel_def onDisk_def freshDisk_def[symmetric] same made)

lemma on_ensureDir: "relies R E \<Longrightarrow> state_io_rel (across R) (ensureDir E create)"
  unfolding ensureDir_def lstatDir_def checkDir_def by (intro ev.steps on_vcall on_mkdir)

lemma on_openLock: "relies R E \<Longrightarrow> state_io_rel (across R) (openLock E)"
  unfolding openLock_def onDisk_def Let_def by (intro ev.steps on_vcall ev.on_modify) (simp_all add: same)

text \<open>An operation under the lock: what was loaded evolved from what was there before, and the result is the update of it.\<close>

lemma lock_updates:
  assumes "relies R E" and "yields E fn U"
  shows "wp (withStoreLock E fn) (\<lambda>r t. \<exists>d. R (sw_disk s) d \<and> updated E U d r (sw_disk t)) s"
proof -
  let ?Q = "\<lambda>r t. \<exists>d. R (sw_disk s) d \<and> updated E U d r (sw_disk t)"
  have refused: "?Q (Inl e) t" if "across R s t" for e t
    using that updated_not by blast
  have locked: "wp (State_Monad.bind (lockedUpdate E fn) (\<lambda>r. State_Monad.bind (modify (\<lambda>w. w\<lparr>sw_held := False\<rparr>)) (\<lambda>_. return r))) ?Q t"
    if "across R s t" "sw_held t" for t
    unfolding wp_bind[of "lockedUpdate _ _"]
    by (rule wp_mono[OF lockedUpdate_updates[OF that(2) assms(2)]]) (use that in auto)
  have flock: "wp (tryE (vcall E (\<lambda>_. State_Monad.bind (modify (\<lambda>w. w\<lparr>sw_held := True\<rparr>)) (\<lambda>_. ok ()))) fail
      (\<lambda>_. State_Monad.bind (lockedUpdate E fn) (\<lambda>r. State_Monad.bind (modify (\<lambda>w. w\<lparr>sw_held := False\<rparr>)) (\<lambda>_. return r)))) ?Q t"
    if "across R s t" for t
  proof -
    have "across R s (vadvance E t)" using that advance_evolve[OF assms(1)] chain by blast
    then show ?thesis
      unfolding wp_tryE[of "vcall _ _"] by (intro vcall_wp) (auto intro: refused simp del: wp_bind intro!: locked simp: wp_bind[of "modify _"])
  qed
  have look: "wp (tryE m fail f) ?Q t" if "state_io_rel (across R) m" "across R s t"
      "\<And>x u. across R s u \<Longrightarrow> wp (f x) ?Q u" for m f t
    unfolding wp_tryE
  proof (rule wp_mono[OF ev.wp_frame[OF that(1)]], goal_cases)
    case (1 x u)
    have "across R s u" by (rule chain[OF that(2) 1])
    then show ?case using refused that(3) by (cases x) simp_all
  qed
  have sync: "state_io_rel (across R) (syncCall E)"
    by (intro on_vcall assms(1) ev.steps)
  show ?thesis
    unfolding withStoreLock_def
    by (rule look[OF on_ensureDir[OF assms(1)] same[OF sameStore_refl]], rule look[OF on_openLock[OF assms(1)]], assumption,
        rule look[OF sync], assumption) (simp add: refused flock del: wp_tryE wp_bind)
qed

lemma lock_evolves:
  assumes "relies R E" and "yields E fn U"
    and "\<And>d x rs e. soundStore E d \<Longrightarrow> U (contents d) x (Some rs) \<Longrightarrow> rewritten E d rs e \<Longrightarrow> R d e"
  shows "state_io_rel (across R) (withStoreLock E fn)"
proof (rule any_wp)
  show "wp (withStoreLock E fn) (\<lambda>_ t. across R s t) s" for s
  proof (rule wp_mono[OF lock_updates[OF assms(1,2)]], elim exE conjE)
    fix r d and t :: svcWorld
    assume d: "R (sw_disk s) d" and "updated E U d r (sw_disk t)"
    then have "R d (sw_disk t)" using assms(3) same by (auto simp: updated_def)
    with d show "across R s t" by (rule chain)
  qed
qed

end

end
