(* ===== verification/ServiceLife.thy ===== *)
theory ServiceLife
  imports ServiceFrame
begin

text \<open>
  The abstract store: a list of records and the changes it may undergo. Every operation of the code makes only the changes
  of its kind, under the lock, on the records as they were loaded; so a relation kept by those changes is kept by the operation.
\<close>

section \<open>Lists of records\<close>

lemma splitID_Some: "splitID i rs = Some (a, r, b) \<Longrightarrow> rs = a @ r # b \<and> sr_id r = i \<and> i \<notin> sr_id ` set a"
  by (induction rs arbitrary: a) (auto split: if_splits option.splits)

lemma splitID_None: "splitID i rs = None \<longleftrightarrow> i \<notin> sr_id ` set rs"
  by (induction rs) (auto split: option.splits)

lemma validRecords_ids: "validRecords E known rs \<Longrightarrow> distinct (map sr_id rs) \<and> set (map sr_id rs) \<inter> known = {}"
  by (induction rs arbitrary: known) fastforce+

lemma validRecords_each: "validRecords E known rs \<Longrightarrow> r \<in> set rs \<Longrightarrow> validID (sr_id r) \<and> validateRegistration E (registrationOf r) = None"
  by (induction rs arbitrary: known) auto

lemma distinct_same: "distinct (map f xs) \<Longrightarrow> x \<in> set xs \<Longrightarrow> y \<in> set xs \<Longrightarrow> f x = f y \<Longrightarrow> x = y"
  by (auto simp: distinct_map inj_on_def)

section \<open>The abstract store\<close>

text \<open>The changes of the store, with what they depend on.\<close>

datatype svcChange =
    Added registration string string
  | Enrolled string string string string
  | Renewed string
  | Revoked string
  | Used string
  | Deleted string
  | Erased
  | Modified string registration bool

text \<open>The sweep erases secrets and does nothing else.\<close>

definition erased :: "svcRecord \<Rightarrow> svcRecord \<Rightarrow> bool" where
  "erased r x = (x = r \<or> (\<exists>u. x = r\<lparr>sr_secret := [], sr_updatedAt := u\<rparr>))"

definition goodUsername :: "string \<Rightarrow> bool" where
  "goodUsername u = (length u \<le> 256 \<and> \<not> hasControl u)"

text \<open>One record becomes another; the last update is stamped.\<close>

inductive recordChange :: "svcEnv \<Rightarrow> svcChange \<Rightarrow> svcRecord \<Rightarrow> svcRecord \<Rightarrow> bool" for E where
  enrolled: "enrollRecord kind username secret expires r = Inr x \<Longrightarrow> validateSecret kind secret = None \<Longrightarrow> goodUsername username \<Longrightarrow>
    recordChange E (Enrolled (sr_id r) kind username secret) r (x\<lparr>sr_updatedAt := u\<rparr>)"
| renewed: "renewRecord expires r = Inr x \<Longrightarrow> recordChange E (Renewed (sr_id r)) r (x\<lparr>sr_updatedAt := u\<rparr>)"
| revoked: "sr_revokedAt r = None \<Longrightarrow>
    recordChange E (Revoked (sr_id r)) r (r\<lparr>sr_revokedAt := Some now, sr_secret := [], sr_updatedAt := u\<rparr>)"
| used: "recordChange E (Used (sr_id r)) r (r\<lparr>sr_lastUsedAt := Some now, sr_updatedAt := u\<rparr>)"
| modified: "modifiedRecord E g approved r = Inr x \<Longrightarrow> validateRegistration E (registrationOf x) = None \<Longrightarrow>
    recordChange E (Modified (sr_id r) g approved) r (x\<lparr>sr_updatedAt := u\<rparr>)"

inductive_cases recordChangeE: "recordChange E c r x"

inductive storeChange :: "svcEnv \<Rightarrow> svcChange \<Rightarrow> svcRecord list \<Rightarrow> svcRecord list \<Rightarrow> bool" for E where
  added: "\<not> list_ex (sameDestination g) rs \<Longrightarrow> validateRegistration E g = None \<Longrightarrow>
    (secret = [] \<and> expires = None) \<or> validateSecret kind secret = None \<Longrightarrow>
    storeChange E (Added g kind secret) rs (rs @ [newServiceRecord g (''svc_'' @ hexEncode (v_random E k 16)) kind secret expires now])"
| changed: "recordChange E c r x \<Longrightarrow> storeChange E c (a @ r # b) (a @ x # b)"
| deleted: "storeChange E (Deleted (sr_id r)) (a @ r # b) (a @ b)"
| erased: "list_all2 erased rs rs' \<Longrightarrow> storeChange E Erased rs rs'"

inductive_cases storeChangeE: "storeChange E c rs rs'"

section \<open>What the operations ask to save\<close>

lemma yields_return: "(\<And>rs x new. validRecords E {} rs \<Longrightarrow> list_all cleanRecord rs \<Longrightarrow> g rs = Inr (x, new) \<Longrightarrow> U rs x new) \<Longrightarrow>
    yields E (\<lambda>rs. return (g rs)) U"
  by (simp add: yields_def ps.step_refl)

text \<open>The update of the record of an id: the record found, what becomes of it, when, and what is reported.\<close>

definition replaces :: "string \<Rightarrow> (svcRecord \<Rightarrow> svcRecord \<Rightarrow> bool) \<Rightarrow> svcRecord list \<Rightarrow> metadata \<Rightarrow> svcRecord list option \<Rightarrow> bool" where
  "replaces i f rs m new = (\<exists>a r b x now. rs = a @ r # b \<and> sr_id r = i \<and> f r x \<and> sr_id x = i \<and> m = metaOf x now \<and> new = Some (a @ x # b))"

lemma replacesI: "rs = a @ r # b \<Longrightarrow> sr_id r = i \<Longrightarrow> f r x \<Longrightarrow> sr_id x = i \<Longrightarrow> replaces i f rs (metaOf x now) (Some (a @ x # b))"
  unfolding replaces_def by blast

lemma wp_vnow [simp]: "wp (vnow E) Q s = Q (v_now E (sw_tick s)) (vadvance E s)"
  by (simp add: vnow_def)

lemma update_yields:
  assumes "\<And>r s. wp (fn r) (\<lambda>y t. passes E s t \<and> (\<forall>x. y = Inr x \<longrightarrow> sr_id x = sr_id r \<and> (\<forall>u. f r (x\<lparr>sr_updatedAt := u\<rparr>)))) s"
  shows "yields E (\<lambda>rs. case splitID i rs of
        None \<Rightarrow> fail (newErr ''service_reference_not_found'')
      | Some (a, r, b) \<Rightarrow> tryE (fn r) fail (\<lambda>r. State_Monad.bind (vnow E) (\<lambda>updated. State_Monad.bind (vnow E) (\<lambda>now.
          let r = r\<lparr>sr_updatedAt := updated\<rparr> in ok (metaOf r now, Some (a @ r # b)))))) (replaces i f)"
  unfolding yields_def
proof (intro allI impI)
  fix rs and s :: svcWorld
  let ?Q = "\<lambda>r t. passes E s t \<and> (\<forall>x new. r = Inr (x, new) \<longrightarrow> replaces i f rs x new)"
  show "wp (case splitID i rs of None \<Rightarrow> fail (newErr ''service_reference_not_found'')
      | Some (a, r, b) \<Rightarrow> tryE (fn r) fail (\<lambda>r. State_Monad.bind (vnow E) (\<lambda>updated. State_Monad.bind (vnow E) (\<lambda>now.
          let r = r\<lparr>sr_updatedAt := updated\<rparr> in ok (metaOf r now, Some (a @ r # b)))))) ?Q s"
  proof (cases "splitID i rs")
    case None
    then show ?thesis by (simp add: ps.step_refl)
  next
    case (Some p)
    obtain a r b where p: "p = (a, r, b)" by (cases p)
    note found = splitID_Some[OF Some[unfolded p]]
    have ticks: "passes E t u \<Longrightarrow> passes E t (vadvance E (vadvance E u))" for t u
      by (blast intro: passes_advance ps.step_trans)
    show ?thesis
      unfolding Some p option.case prod.case wp_tryE Let_def
    proof (rule wp_mono[OF assms[of r s]], goal_cases)
      case (1 y t)
      show ?case
      proof (cases y)
        case (Inr x)
        then have x: "sr_id x = sr_id r" "f r (x\<lparr>sr_updatedAt := u\<rparr>)" for u using 1 by blast+
        have rs: "rs = a @ r # b" "sr_id r = i" using found by blast+
        have "replaces i f rs (metaOf (x\<lparr>sr_updatedAt := u\<rparr>) now) (Some (a @ x\<lparr>sr_updatedAt := u\<rparr> # b))" for u now
          by (intro replacesI[of rs a r b]) (rule rs(1), rule rs(2), rule x(2), simp add: x(1) rs(2))
        moreover have "passes E s (vadvance E (vadvance E t))" using ticks 1 by blast
        ultimately show ?thesis unfolding Inr by simp
      qed (use 1 in simp)
    qed
  qed
qed

lemma enroll_id: "enrollRecord kind username secret expires r = Inr y \<Longrightarrow> sr_id y = sr_id r"
  by (auto simp: enrollRecord_def split: if_splits)

lemma renew_id: "renewRecord expires r = Inr y \<Longrightarrow> sr_id y = sr_id r"
  by (auto simp: renewRecord_def split: if_splits)

lemma modify_id: "modifiedRecord E change approved r = Inr y \<Longrightarrow> sr_id y = sr_id r"
  by (auto simp: modifiedRecord_def split: if_splits option.splits)

lemma cleanupLoop_erases: "wp (cleanupLoop E rs) (\<lambda>(rs', n) t. passes E s t \<and> list_all2 erased rs rs') s"
proof (induction rs arbitrary: s)
  case Nil
  then show ?case by (simp add: ps.step_refl)
next
  case (Cons r rs)
  have tail: "wp (cleanupLoop E rs) (\<lambda>(rs', n) u. passes E s u \<and> list_all2 erased rs rs') t" if "passes E s t" for t
    by (rule wp_mono[OF Cons.IH]) (use ps.step_trans[OF that] in auto)
  have self: "erased r r" "erased r (r\<lparr>sr_secret := [], sr_updatedAt := u\<rparr>)" for u by (auto simp: erased_def)
  have ticked: "passes E s (vadvance E s)" "passes E s (vadvance E (vadvance E s))"
    by (blast intro: passes_advance ps.step_trans)+
  note tails = tail[OF ps.step_refl] tail[OF ticked(1)] tail[OF ticked(2)]
  show ?case
    by (auto simp: self split: option.split intro!: tails[THEN wp_mono])
qed

text \<open>What an operation asks to save is a change that it may make.\<close>

definition asks :: "svcEnv \<Rightarrow> (svcChange \<Rightarrow> bool) \<Rightarrow> svcRecord list \<Rightarrow> 'a \<Rightarrow> svcRecord list option \<Rightarrow> bool" where
  "asks E T rs x new = (\<forall>rs'. new = Some rs' \<longrightarrow> (\<exists>c. T c \<and> storeChange E c rs rs'))"

lemma asks_None [simp]: "asks E T rs x None"
  by (simp add: asks_def)

lemma asks_Some: "T c \<Longrightarrow> storeChange E c rs rs' \<Longrightarrow> asks E T rs x (Some rs')"
  by (auto simp: asks_def)

lemma yields_mono: "yields E fn U \<Longrightarrow> (\<And>rs x new. U rs x new \<Longrightarrow> V rs x new) \<Longrightarrow> yields E fn V"
  unfolding yields_def by (fast intro: wp_mono)

lemma update_asks:
  assumes "\<And>r s. wp (fn r) (\<lambda>y t. passes E s t \<and> (\<forall>x. y = Inr x \<longrightarrow> sr_id x = sr_id r \<and>
      (sr_id r = i \<longrightarrow> (\<forall>u. \<exists>c. T c \<and> recordChange E c r (x\<lparr>sr_updatedAt := u\<rparr>))))) s"
  shows "yields E (\<lambda>rs. case splitID i rs of
        None \<Rightarrow> fail (newErr ''service_reference_not_found'')
      | Some (a, r, b) \<Rightarrow> tryE (fn r) fail (\<lambda>r. State_Monad.bind (vnow E) (\<lambda>updated. State_Monad.bind (vnow E) (\<lambda>now.
          let r = r\<lparr>sr_updatedAt := updated\<rparr> in ok (metaOf r now, Some (a @ r # b)))))) (asks E T)"
proof (rule yields_mono[OF update_yields[where f = "\<lambda>r x. sr_id r = i \<longrightarrow> (\<exists>c. T c \<and> recordChange E c r x)"]])
  show "wp (fn r) (\<lambda>y t. passes E s t \<and> (\<forall>x. y = Inr x \<longrightarrow> sr_id x = sr_id r \<and>
      (\<forall>u. sr_id r = i \<longrightarrow> (\<exists>c. T c \<and> recordChange E c r (x\<lparr>sr_updatedAt := u\<rparr>))))) s" for r s
    by (rule wp_mono[OF assms]) blast
  show "replaces i (\<lambda>r x. sr_id r = i \<longrightarrow> (\<exists>c. T c \<and> recordChange E c r x)) rs m new \<Longrightarrow> asks E T rs m new" for rs m new
    unfolding replaces_def by (blast intro: asks_Some changed)
qed

lemma pure_update_asks:
  assumes "\<And>r x. g r = Inr x \<Longrightarrow> sr_id x = sr_id r"
    and "\<And>r x u. g r = Inr x \<Longrightarrow> sr_id r = i \<Longrightarrow> \<exists>c. T c \<and> recordChange E c r (x\<lparr>sr_updatedAt := u\<rparr>)"
  shows "yields E (\<lambda>rs. case splitID i rs of
        None \<Rightarrow> fail (newErr ''service_reference_not_found'')
      | Some (a, r, b) \<Rightarrow> tryE (return (g r)) fail (\<lambda>r. State_Monad.bind (vnow E) (\<lambda>updated. State_Monad.bind (vnow E) (\<lambda>now.
          let r = r\<lparr>sr_updatedAt := updated\<rparr> in ok (metaOf r now, Some (a @ r # b)))))) (asks E T)"
  by (rule update_asks) (use assms in \<open>auto simp: ps.step_refl\<close>)

lemma cleanup_asks: "T Erased \<Longrightarrow> yields E (\<lambda>rs. State_Monad.bind (cleanupLoop E rs) (\<lambda>(rs', n). ok (n, if n > 0 then Some rs' else None))) (asks E T)"
  unfolding yields_def wp_bind
  by (intro allI impI, rule wp_mono[OF cleanupLoop_erases]) (auto intro: asks_Some storeChange.erased)

lemma passes_twice: "passes E s (vadvance E (vadvance E s))"
  by (blast intro: passes_advance ps.step_trans)

lemma modify_asks:
  assumes "T (Modified i g approved)"
  shows "yields E (\<lambda>rs. case splitID i rs of
        None \<Rightarrow> fail (newErr ''service_reference_not_found'')
      | Some (a, r, b) \<Rightarrow> (case modifiedRecord E g approved r of
          Inl e \<Rightarrow> fail e
        | Inr next \<Rightarrow> (case validateRegistration E (registrationOf next) of
            Some e \<Rightarrow> fail e
          | None \<Rightarrow>
            if list_ex (sameDestination (registrationOf next)) (a @ b)
            then fail (newErr ''service_already_registered: duplicate service destination'')
            else if registrationOf next = registrationOf r then State_Monad.bind (vnow E) (\<lambda>now. ok (metaOf r now, None))
            else State_Monad.bind (vnow E) (\<lambda>updated. State_Monad.bind (vnow E) (\<lambda>now.
              let next = next\<lparr>sr_updatedAt := updated\<rparr> in
              ok (metaOf next now, Some (a @ next # b))))))) (asks E T)"
  unfolding yields_def
proof (intro allI impI, split option.split, intro conjI allI impI, goal_cases)
  case (2 rs s p)
  obtain a r b where p: "p = (a, r, b)" by (cases p)
  have rs: "rs = a @ r # b" "sr_id r = i" using splitID_Some[of i rs a r b] 2(3) p by blast+
  have change: "asks E T rs m (Some (a @ x\<lparr>sr_updatedAt := u\<rparr> # b))"
    if "modifiedRecord E g approved r = Inr x" "validateRegistration E (registrationOf x) = None" for x u m
  proof -
    have "storeChange E (Modified i g approved) rs (a @ x\<lparr>sr_updatedAt := u\<rparr> # b)"
      using changed[OF modified[OF that, of u], of a b] unfolding rs by simp
    with assms show ?thesis by (auto simp: asks_def)
  qed
  show ?case
    unfolding p
    by (auto simp: Let_def ps.step_refl passes_advance passes_twice change split: sum.split option.split)
qed (simp add: ps.step_refl)

section \<open>Operations and relations\<close>

text \<open>A relation on directories that the allowed changes keep.\<close>

locale conduct = evolution +
  fixes allowed :: "svcChange \<Rightarrow> bool"
  assumes step: "allowed c \<Longrightarrow> soundStore E d \<Longrightarrow> storeChange E c (contents d) rs \<Longrightarrow> rewritten E d rs e \<Longrightarrow> R d e"

context conduct
begin

lemma lock_conduct:
  assumes "relies R E" and "yields E fn (asks E allowed)"
  shows "state_io_rel (across R) (withStoreLock E fn)"
  by (rule lock_evolves[OF assms]) (auto simp: asks_def intro: step)

lemma on_vnow: "relies R E \<Longrightarrow> state_io_rel (across R) (vnow E)"
  by (intro on_looking ps_vnow)

lemma on_vrandom: "relies R E \<Longrightarrow> state_io_rel (across R) (vrandom E n)"
  unfolding vrandom_def by (intro on_vcall ev.steps)

lemma on_load: "relies R E \<Longrightarrow> state_io_rel (across R) (loadStore E)"
  by (rule any_wp, rule wp_mono[OF loadStore_looks]) (use passes_evolve in blast)

lemma on_update:
  assumes "relies R E" and "\<And>r x. g r = Inr x \<Longrightarrow> sr_id x = sr_id r"
    and "\<And>r x u. g r = Inr x \<Longrightarrow> sr_id r = i \<Longrightarrow> \<exists>c. allowed c \<and> recordChange E c r (x\<lparr>sr_updatedAt := u\<rparr>)"
  shows "state_io_rel (across R) (updateService E i (\<lambda>r. return (g r)))"
  unfolding updateService_def
  by (intro ev.steps lock_conduct[OF assms(1)] pure_update_asks assms(2,3))

lemma on_register:
  assumes "relies R E" and "allowed (Added g kind secret)" and "secret = [] \<or> validateSecret kind secret = None"
  shows "state_io_rel (across R) (registerService E g kind secret ttl never)"
proof -
  have look: "wp (secretExpiry E secret ttl never) (\<lambda>x t. across R s t \<and> (\<forall>e. x = Inr e \<longrightarrow> secret = [] \<longrightarrow> e = None)) s" for s
    using advance_evolve[OF assms(1)] same by (auto simp: secretExpiry_def split: sum.split)
  have random: "wp (vrandom E 16) (\<lambda>x t. across R s t \<and> (\<forall>b. x = Inr b \<longrightarrow> (\<exists>k. b = v_random E k 16))) s" for s
    using advance_evolve[OF assms(1)] unfolding vrandom_def by (auto simp: vcall_def split: option.split)
  have lock: "state_io_rel (across R) (withStoreLock E (\<lambda>rs. return (addRecord g (newServiceRecord g (''svc_'' @ hexEncode (v_random E k 16)) kind secret e now) rs)))"
    if "validateRegistration E g = None" "secret = [] \<longrightarrow> e = None" for k e now
  proof (rule lock_conduct[OF assms(1) yields_return])
    fix rs x new
    assume "addRecord g (newServiceRecord g (''svc_'' @ hexEncode (v_random E k 16)) kind secret e now) rs = Inr (x, new)"
    then have "\<not> list_ex (sameDestination g) rs"
        "new = Some (rs @ [newServiceRecord g (''svc_'' @ hexEncode (v_random E k 16)) kind secret e now])"
      by (auto simp: addRecord_def split: if_splits)
    moreover have "secret = [] \<and> e = None \<or> validateSecret kind secret = None" 
      using assms(3) that(2) by (cases "secret = []") simp_all
    ultimately have "storeChange E (Added g kind secret) rs (the new)" using added[OF _ that(1)] by simp
    with assms(2) show "asks E allowed rs x new" by (auto simp: asks_def)
  qed
  show ?thesis
  proof (rule any_wp)
    fix s
    let ?Q = "\<lambda>_ t. across R s t"
    show "wp (registerService E g kind secret ttl never) ?Q s"
    proof (cases "validateRegistration E g")
      case (Some e)
      then show ?thesis using same by (simp add: registerService_def)
    next
      case None
      have last: "wp (State_Monad.bind (vnow E) (\<lambda>now. let r = newServiceRecord g (''svc_'' @ hexEncode (v_random E k 16)) kind secret e now in
          tryE (withStoreLock E (\<lambda>rs. return (addRecord g r rs))) fail (\<lambda>_. ok (metaOf r now)))) ?Q t"
        if "secret = [] \<longrightarrow> e = None" "across R s t" for k e t
      proof -
        have moved: "state_io_rel (across R) (State_Monad.bind (vnow E) (\<lambda>now. let r = newServiceRecord g (''svc_'' @ hexEncode (v_random E k 16)) kind secret e now in
          tryE (withStoreLock E (\<lambda>rs. return (addRecord g r rs))) fail (\<lambda>_. ok (metaOf r now))))"
          unfolding Let_def by (intro ev.steps on_vnow assms(1) lock None that(1))
        show ?thesis by (rule wp_mono[OF ev.wp_frame[OF moved]]) (rule chain[OF that(2)])
      qed
      show ?thesis
        unfolding registerService_def None option.case wp_tryE[of "secretExpiry _ _ _ _"]
      proof (rule wp_mono[OF look], goal_cases)
        case (1 x t)
        show ?case
        proof (cases x)
          case (Inr e)
          then have t: "across R s t" and e: "secret = [] \<longrightarrow> e = None" using 1 by blast+
          show ?thesis
            unfolding Inr sum.case wp_tryE[of "vrandom _ _"]
          proof (rule wp_mono[OF random], goal_cases)
            case (1 y u)
            then have u: "across R s u" using chain[OF t] by blast
            show ?case
            proof (cases y)
              case (Inr b)
              then obtain k where "b = v_random E k 16" using 1 by blast
              then show ?thesis using last[OF e u, of k] unfolding Inr sum.case by blast
            qed (use u in simp)
          qed
        qed (use 1 in simp)
      qed
    qed
  qed
qed

end

end
