(* ===== verification/ServiceCalls.thy ===== *)
theory ServiceCalls
  imports ServiceLife
begin

text \<open>
  Every operation and handler of the credential store makes only the changes of its call; sequences of calls, and the
  abstract store they implement.
\<close>

section \<open>Operations\<close>

context conduct
begin

lemma on_enroll:
  assumes "relies R E" and "allowed (Enrolled i kind username secret)"
  shows "state_io_rel (across R) (enrollService E i kind username secret ttl never)"
proof -
  have change: "state_io_rel (across R) (updateService E i (\<lambda>r. return (enrollRecord kind username secret expires r)))"
    if "validateSecret kind secret = None" "goodUsername username" for expires
  proof (rule on_update[OF assms(1) enroll_id])
    fix r x u
    assume "enrollRecord kind username secret expires r = Inr x" and "sr_id r = i"
    then show "\<exists>c. allowed c \<and> recordChange E c r (x\<lparr>sr_updatedAt := u\<rparr>)"
      using enrolled[OF _ that] assms(2) by blast
  qed
  have act: "state_io_rel (across R) (State_Monad.bind (vnow E) (\<lambda>now. case expiration now ttl never of
      Inl e \<Rightarrow> fail e | Inr expires \<Rightarrow> updateService E i (\<lambda>r. return (enrollRecord kind username secret expires r))))"
    if "validateSecret kind secret = None" "goodUsername username"
    by (intro ev.steps on_vnow assms(1) change that)
  show ?thesis
    using act
    by (auto simp: enrollService_def goodUsername_def not_le ev.on_return split: option.split)
qed

lemma on_generate:
  assumes "relies R E" and "\<And>b. allowed (Enrolled i kind username (hexEncode b))"
  shows "state_io_rel (across R) (generateService E i kind username ttl never)"
  unfolding generateService_def
  by (intro ev.steps on_vrandom on_enroll assms)

lemma on_renew:
  assumes "relies R E" and "allowed (Renewed i)"
  shows "state_io_rel (across R) (renewService E i ttl never)"
proof -
  have change: "state_io_rel (across R) (updateService E i (\<lambda>r. return (renewRecord expires r)))" for expires
    by (rule on_update[OF assms(1) renew_id]) (use assms(2) renewed in blast)+
  show ?thesis
    unfolding renewService_def by (intro ev.steps on_vnow assms(1) change)
qed

lemma on_revoke:
  assumes "relies R E" and "allowed (Revoked i)"
  shows "state_io_rel (across R) (revokeService E i)"
  unfolding revokeService_def updateService_def
proof (intro ev.steps lock_conduct[OF assms(1)] update_asks)
  show "wp (revokeRecord E r) (\<lambda>y t. passes E s t \<and> (\<forall>x. y = Inr x \<longrightarrow> sr_id x = sr_id r \<and>
      (sr_id r = i \<longrightarrow> (\<forall>u. \<exists>c. allowed c \<and> recordChange E c r (x\<lparr>sr_updatedAt := u\<rparr>))))) s" for r s
    using revoked[of r E] assms(2) by (auto simp: revokeRecord_def ps.step_refl passes_advance)
qed

lemma on_used:
  assumes "relies R E" and "allowed (Used i)"
  shows "state_io_rel (across R) (markUsed E i)"
  unfolding markUsed_def updateService_def
proof (intro ev.steps lock_conduct[OF assms(1)] update_asks)
  show "wp (State_Monad.bind (vnow E) (\<lambda>now. ok (r\<lparr>sr_lastUsedAt := Some now\<rparr>))) (\<lambda>y t. passes E s t \<and> (\<forall>x. y = Inr x \<longrightarrow> sr_id x = sr_id r \<and>
      (sr_id r = i \<longrightarrow> (\<forall>u. \<exists>c. allowed c \<and> recordChange E c r (x\<lparr>sr_updatedAt := u\<rparr>))))) s" for r s
    using used[of E r] assms(2) by (auto simp: passes_advance)
qed

lemma on_delete:
  assumes "relies R E" and "allowed (Deleted i)"
  shows "state_io_rel (across R) (deleteService E i)"
  unfolding deleteService_def
proof (intro ev.steps lock_conduct[OF assms(1)] yields_return)
  fix rs x new
  assume "(case splitID i rs of None \<Rightarrow> Inl (newErr ''service_reference_not_found'') | Some (a, r, b) \<Rightarrow> Inr ((), Some (a @ b))) = Inr (x, new)"
  then obtain a r b where "splitID i rs = Some (a, r, b)" and "new = Some (a @ b)"
    by (auto split: option.splits)
  then show "asks E allowed rs x new"
    using splitID_Some[of i rs a r b] assms(2) deleted[of E r a b] by (auto simp: asks_def)
qed

lemma on_cleanup: "relies R E \<Longrightarrow> allowed Erased \<Longrightarrow> state_io_rel (across R) (cleanupExpired E)"
  unfolding cleanupExpired_def by (intro lock_conduct cleanup_asks)

lemma on_modify: "relies R E \<Longrightarrow> allowed (Modified i g approved) \<Longrightarrow> state_io_rel (across R) (modifyService E i g approved)"
  unfolding modifyService_def by (intro ev.steps lock_conduct modify_asks)

lemma on_resolve: "relies R E \<Longrightarrow> state_io_rel (across R) (resolveService E i host)"
  unfolding resolveService_def Let_def by (intro ev.steps on_load on_vnow)

lemma on_list: "relies R E \<Longrightarrow> state_io_rel (across R) (listServices E)"
  unfolding listServices_def by (intro ev.steps on_load on_vnow)

lemma on_add: "relies R E \<Longrightarrow> allowed (Added g kind secret) \<Longrightarrow> state_io_rel (across R) (registerWithSecret E g kind secret ttl never)"
  using on_register by (auto simp: registerWithSecret_def ev.on_return split: option.split)

section \<open>Handlers\<close>

lemma on_onIncus: "state_io_rel (across R) (onIncus m)"
  by (auto simp: state_io_rel_def onIncus_def same split: prod.split)

lemma on_quiet: "(\<And>w. sw_disk (f w) = sw_disk w) \<Longrightarrow> state_io_rel (across R) (modify f)"
  by (rule ev.on_modify) (simp add: same)

lemma on_svcAudit: "relies R E \<Longrightarrow> state_io_rel (across R) (svcAudit E ev)"
  unfolding svcAudit_def by (intro on_vcall ev.steps on_quiet) simp_all

lemma on_begin: "relies R E \<Longrightarrow> state_io_rel (across R) (beginServiceAudit E req operation)"
  unfolding beginServiceAudit_def by (intro ev.steps on_svcAudit)

lemma on_finish: "relies R E \<Longrightarrow> state_io_rel (across R) (finishServiceAudit E req operation resp)"
  unfolding finishServiceAudit_def Let_def by (intro ev.steps on_svcAudit on_quiet) simp_all

lemma on_verify: "relies R E \<Longrightarrow> state_io_rel (across R) (verifyGuest E g)"
  unfolding verifyGuest_def by (intro ev.steps on_onIncus)

lemma on_secret: "relies R E \<Longrightarrow> state_io_rel (across R) (guestSecret E ref req)"
  unfolding guestSecret_def by (intro ev.steps on_resolve)

end

section \<open>Calls\<close>

text \<open>What reaches the store: the two tools, and the Owner's commands on the host.\<close>

datatype svcCall =
    Access Request serviceInput
  | Environment Request incusRequest string
  | Add registration string string int bool
  | Enroll string string string string int bool
  | Resolve string string
  | MarkUsed string

fun svcStep :: "svcEnv \<Rightarrow> svcCall \<Rightarrow> unit vprog" where
  "svcStep E (Access req i) = do { _ \<leftarrow> serviceAccessAction E req i; return () }"
| "svcStep E (Environment req i ref) = do { _ \<leftarrow> managedEnvironmentAction E req i ref; return () }"
| "svcStep E (Add g kind secret ttl never) = do { _ \<leftarrow> registerWithSecret E g kind secret ttl never; return () }"
| "svcStep E (Enroll i kind username secret ttl never) = do { _ \<leftarrow> enrollService E i kind username secret ttl never; return () }"
| "svcStep E (Resolve i host) = do { _ \<leftarrow> resolveService E i host; return () }"
| "svcStep E (MarkUsed i) = do { _ \<leftarrow> markUsed E i; return () }"

fun svcSteps :: "svcEnv \<Rightarrow> svcCall list \<Rightarrow> unit vprog" where
  "svcSteps E [] = return ()"
| "svcSteps E (c # cs) = do { _ \<leftarrow> svcStep E c; svcSteps E cs }"

text \<open>The changes that a call may make.\<close>

fun mayChange :: "svcEnv \<Rightarrow> svcCall \<Rightarrow> svcChange \<Rightarrow> bool" where
  "mayChange E (Access req i) c =
     (let op = si_operation i; g = (si_registration i)\<lparr>rg_hostID := v_instanceID E\<rparr> in
      op \<notin> {''list'', ''inspect''} \<and>
      (c = Erased
       \<or> op = ''register'' \<and> c = Added g [] []
       \<or> op = ''update'' \<and> c = Modified (si_ref i) g (q_approval req)
       \<or> op = ''generate'' \<and> (\<exists>b. c = Enrolled (si_ref i) (si_kind i) (si_username i) (hexEncode b))
       \<or> op = ''renew'' \<and> c = Renewed (si_ref i)
       \<or> op = ''revoke'' \<and> c = Revoked (si_ref i)
       \<or> op = ''delete'' \<and> q_approval req \<and> c = Deleted (si_ref i)))"
| "mayChange E (Environment req i ref) c = (ref \<noteq> [] \<and> c = Used ref)"
| "mayChange E (Add g kind secret ttl never) c = (c = Added g kind secret)"
| "mayChange E (Enroll i kind username secret ttl never) c = (c = Enrolled i kind username secret)"
| "mayChange E (Resolve i host) c = False"
| "mayChange E (MarkUsed i) c = (c = Used i)"

context conduct
begin

lemma on_result: "state_io_rel (across R) m \<Longrightarrow> state_io_rel (across R) (managedResult show m)"
  unfolding managedResult_def by (intro ev.steps)

lemma on_operation:
  assumes "relies R E" and "\<And>c. mayChange E (Access req i) c \<Longrightarrow> allowed c"
  shows "state_io_rel (across R) (serviceOperation E req i)"
  unfolding serviceOperation_def Let_def
  by (intro ev.steps on_result on_list on_verify on_register on_modify on_generate on_renew on_revoke on_delete on_cleanup
      assms) auto

lemma on_access:
  assumes "relies R E" and "\<And>c. mayChange E (Access req i) c \<Longrightarrow> allowed c"
  shows "state_io_rel (across R) (serviceAccessAction E req i)"
  unfolding serviceAccessAction_def Let_def
  by (intro ev.steps on_begin on_finish on_operation on_cleanup assms) simp_all

lemma on_environment:
  assumes "relies R E" and "ref \<noteq> [] \<Longrightarrow> allowed (Used ref)"
  shows "state_io_rel (across R) (managedEnvironmentAction E req i ref)"
  unfolding managedEnvironmentAction_def Let_def
  by (intro ev.steps on_begin on_finish on_secret on_onIncus on_used assms) simp_all

lemma on_step: "relies R E \<Longrightarrow> (\<And>c. mayChange E call c \<Longrightarrow> allowed c) \<Longrightarrow> state_io_rel (across R) (svcStep E call)"
  by (cases call) (auto intro!: ev.steps on_access on_environment on_add on_enroll on_resolve on_used)

lemma on_steps:
  "relies R E \<Longrightarrow> (\<And>call c. call \<in> set calls \<Longrightarrow> mayChange E call c \<Longrightarrow> allowed c) \<Longrightarrow> state_io_rel (across R) (svcSteps E calls)"
  by (induction calls) (auto intro!: ev.steps on_step)

end

end
