(* ===== verification/ServiceRelations.thy ===== *)
theory ServiceRelations
  imports ServiceCalls
begin

text \<open>
  What the calls keep of a record and of the directory, each as one relation: the guest a record is bound to, the origin of
  its endpoint, its revocation, the readability of the store; and the abstract store as the weakest of them.
\<close>

section \<open>The abstract store\<close>

text \<open>The records of one directory become those of the other by changes of these kinds, each read back.\<close>

definition evolves :: "svcEnv \<Rightarrow> (svcChange \<Rightarrow> bool) \<Rightarrow> svcDisk \<Rightarrow> svcDisk \<Rightarrow> bool" where
  "evolves E T d e = (\<lambda>rs rs'. \<exists>c new. T c \<and> storeChange E c rs new \<and> rs' = map decodedRecord new)\<^sup>*\<^sup>* (contents d) (contents e)"

interpretation abs: conduct E "evolves E T" T for E T
proof unfold_locales
  show "evolves E T d e" if "sameStore d e" for d e
    using same_contents[OF that] by (simp add: evolves_def)
  show "evolves E T c d \<Longrightarrow> evolves E T d e \<Longrightarrow> evolves E T c e" for c d e
    unfolding evolves_def by (rule rtranclp_trans)
  show "sd_dir d = None \<Longrightarrow> evolves E T d (freshDisk E)" for d
    by (simp add: evolves_def contents_def freshDisk_def)
  show "T c \<Longrightarrow> storeChange E c (contents d) rs \<Longrightarrow> rewritten E d rs e \<Longrightarrow> evolves E T d e" for c d rs e
    using rewritten_contents[of E d rs e] unfolding evolves_def by (intro r_into_rtranclp) auto
qed

text \<open>No relation at all, for what holds of one call wherever the other processes are.\<close>

interpretation any: evolution E "\<lambda>_ _. True" for E
  by unfold_locales simp_all

lemma relies_any: "relies (\<lambda>_ _. True) E"
  by (simp add: relies_def)

section \<open>One record\<close>

definition follows :: "(svcRecord \<Rightarrow> svcRecord \<Rightarrow> bool) \<Rightarrow> string \<Rightarrow> svcDisk \<Rightarrow> svcDisk \<Rightarrow> bool" where
  "follows P i d e = (\<forall>r\<in>set (contents d). sr_id r = i \<longrightarrow> (\<exists>r'\<in>set (contents e). sr_id r' = i \<and> P r r'))"

lemma clean_texts:
  assumes "cleanRecord r"
  shows "cleanText (sr_id r) = sr_id r" "cleanText (sr_hostID r) = sr_hostID r" "cleanText (sr_project r) = sr_project r"
    "cleanText (sr_guest r) = sr_guest r" "cleanText (sr_guestUUID r) = sr_guestUUID r" "cleanText (sr_endpoint r) = sr_endpoint r"
    "cleanText (sr_service r) = sr_service r" "cleanText (sr_purpose r) = sr_purpose r" "cleanText (sr_username r) = sr_username r"
    "cleanText (sr_kind r) = sr_kind r" "cleanText (sr_secret r) = sr_secret r"
  using assms by (simp_all add: clean_iff)

text \<open>A relation between a record and what becomes of it, kept by the allowed changes, none of which deletes it.\<close>

locale record_life =
  fixes E :: svcEnv and P :: "svcRecord \<Rightarrow> svcRecord \<Rightarrow> bool" and i :: string and allowed :: "svcChange \<Rightarrow> bool"
  assumes still: "P r r"
    and onward: "P r x \<Longrightarrow> P x y \<Longrightarrow> P r y"
    and change: "allowed c \<Longrightarrow> cleanRecord r \<Longrightarrow> sr_id r = i \<Longrightarrow> recordChange E c r x \<Longrightarrow> P r (decodedRecord x)"
    and erase: "cleanRecord r \<Longrightarrow> erased r x \<Longrightarrow> P r (decodedRecord x)"
    and lasting: "\<not> allowed (Deleted i)"

lemma recordChange_id: "recordChange E c r x \<Longrightarrow> sr_id x = sr_id r"
  by (auto elim!: recordChangeE simp: enroll_id renew_id modify_id)

lemma erased_member: "list_all2 erased rs new \<Longrightarrow> r \<in> set rs \<Longrightarrow> \<exists>x\<in>set new. erased r x"
  by (induction rule: list_all2_induct) auto

lemma erased_id: "erased r x \<Longrightarrow> sr_id x = sr_id r"
  by (auto simp: erased_def)

context record_life
begin

lemma stays: "cleanRecord r \<Longrightarrow> P r (decodedRecord r)"
  using still by (simp add: cleanRecord_def)

lemma followed:
  assumes "allowed c" and "list_all cleanRecord rs" and "storeChange E c rs new" and "r \<in> set rs" and "sr_id r = i"
  shows "\<exists>r'\<in>set new. sr_id r' = i \<and> P r (decodedRecord r')"
proof -
  have clean: "cleanRecord r" using assms(2,4) by (simp add: list_all_iff)
  show ?thesis
    using assms(3)
  proof (cases rule: storeChange.cases)
    case (added g secret expires kind k now)
    then show ?thesis using assms(4,5) stays[OF clean] by (auto intro!: bexI[of _ r])
  next
    case (changed y x a b)
    then show ?thesis
      using assms(1,4,5) stays[OF clean] change[OF assms(1) clean assms(5), of x] recordChange_id[of E c y x]
      by (cases "r = y") (auto intro: bexI[of _ r] bexI[of _ x])
  next
    case (deleted y a b)
    then have "sr_id y \<noteq> i" using assms(1) lasting by auto
    then show ?thesis using deleted assms(4,5) stays[OF clean] by (auto intro!: bexI[of _ r])
  next
    case erased
    then obtain x where "x \<in> set new" "ServiceLife.erased r x"
      using erased_member[of rs new r] assms(4) by blast
    then show ?thesis using erase[OF clean] assms(5) erased_id by (intro bexI[of _ x]) auto
  qed
qed

end

sublocale record_life \<subseteq> life: conduct E "follows P i" allowed
proof unfold_locales
  show "follows P i d e" if "sameStore d e" for d e
    using same_contents[OF that] still by (auto simp: follows_def)
  show "follows P i c d \<Longrightarrow> follows P i d e \<Longrightarrow> follows P i c e" for c d e
    unfolding follows_def using onward by blast
  show "sd_dir d = None \<Longrightarrow> follows P i d (freshDisk E)" for d
    by (simp add: follows_def contents_def)
next
  fix c d rs e
  assume c: "allowed c" "soundStore E d" "storeChange E c (contents d) rs" "rewritten E d rs e"
  have "\<exists>r'\<in>set (contents e). sr_id r' = i \<and> P r r'" if r: "r \<in> set (contents d)" "sr_id r = i" for r
  proof -
    have clean: "list_all cleanRecord (contents d)" using c(2) by (simp add: soundStore_def)
    obtain r' where r': "r' \<in> set rs" "sr_id r' = i" "P r (decodedRecord r')" using followed[OF c(1) clean c(3) r] by blast
    have "cleanText i = i" using clean_texts(1)[of r] clean r by (auto simp: list_all_iff)
    then show ?thesis using r' rewritten_contents[OF c(4)] by (intro bexI[of _ "decodedRecord r'"]) auto
  qed
  then show "follows P i d e" by (simp add: follows_def)
qed

text \<open>The guest of a record never changes.\<close>

definition boundAlike :: "svcRecord \<Rightarrow> svcRecord \<Rightarrow> bool" where
  "boundAlike r x = (sr_hostID x = sr_hostID r \<and> sr_project x = sr_project r \<and> sr_guest x = sr_guest r \<and> sr_guestUUID x = sr_guestUUID r)"

definition spares :: "string \<Rightarrow> svcChange \<Rightarrow> bool" where
  "spares i c = (c \<noteq> Deleted i)"

lemmas record_changes = enrollRecord_def renewRecord_def modifiedRecord_def

interpretation guest: record_life E boundAlike i "spares i" for E i
  by unfold_locales (auto simp: boundAlike_def spares_def erased_def clean_texts record_changes split: if_splits option.splits elim!: recordChangeE)

text \<open>A revoked record stays revoked, without a secret.\<close>

definition retired :: "svcRecord \<Rightarrow> svcRecord \<Rightarrow> bool" where
  "retired r x = (sr_revokedAt r \<noteq> None \<and> sr_secret r = [] \<longrightarrow> sr_revokedAt x = sr_revokedAt r \<and> sr_secret x = [])"

interpretation gone: record_life E retired i "spares i" for E i
  by unfold_locales (auto simp: retired_def spares_def erased_def record_changes split: if_splits option.splits elim!: recordChangeE)

text \<open>Only an approved update moves the endpoint of a record to another origin.\<close>

definition sameOrigin :: "svcEnv \<Rightarrow> svcRecord \<Rightarrow> svcRecord \<Rightarrow> bool" where
  "sameOrigin E r x = (origin E (sr_endpoint x) = origin E (sr_endpoint r))"

fun unapproved :: "string \<Rightarrow> svcChange \<Rightarrow> bool" where
  "unapproved i (Deleted j) = (j \<noteq> i)"
| "unapproved i (Modified j g approved) = (j = i \<longrightarrow> \<not> approved \<and> utf8_valid (rg_endpoint g))"
| "unapproved i _ = True"

lemma modified_origin:
  "modifiedRecord E g False r = Inr x \<Longrightarrow> cleanRecord r \<Longrightarrow> utf8_valid (rg_endpoint g) \<Longrightarrow>
    origin E (cleanText (sr_endpoint x)) = origin E (sr_endpoint r)"
  by (auto simp: modifiedRecord_def orElse_def clean_texts cleanText_id split: if_splits option.splits)

interpretation target: record_life E "sameOrigin E" i "unapproved i" for E i
proof unfold_locales
  show "unapproved i c \<Longrightarrow> cleanRecord r \<Longrightarrow> sr_id r = i \<Longrightarrow> recordChange E c r x \<Longrightarrow> sameOrigin E r (decodedRecord x)" for c r x
    by (auto simp: sameOrigin_def clean_texts modified_origin enrollRecord_def renewRecord_def split: if_splits elim!: recordChangeE)
qed (auto simp: sameOrigin_def erased_def clean_texts)

end
