(* ===== verification/ServiceReadable.thy ===== *)
theory ServiceReadable
  imports ServiceRelations
begin

text \<open>
  The store stays a document that can be read back, as long as the texts given to it are valid UTF-8; and what a reader of it
  finds.
\<close>

section \<open>Identifiers\<close>

lemma hexDigit_char: "n < 16 \<Longrightarrow> hexDigit n \<in> set ''0123456789abcdef''"
  unfolding hexDigit_def by (rule nth_mem) simp

lemma hexEncode_chars: "c \<in> set (hexEncode b) \<Longrightarrow> c \<in> set ''0123456789abcdef''"
proof -
  have "byte x div 16 < 16" for x :: char using byte_less[of x] by (simp add: less_mult_imp_div_less)
  moreover have "byte x mod 16 < 16" for x :: char by simp
  ultimately have "set (hexEncode b) \<subseteq> hexDigit ` {n. n < 16}" by (auto simp: hexEncode_def simp del: unsigned_of_nat)
  moreover assume "c \<in> set (hexEncode b)"
  ultimately show ?thesis using hexDigit_char by blast
qed

lemma hexEncode_length: "length (hexEncode b) = 2 * length b"
  by (induction b) (simp_all add: hexEncode_def)

lemma new_id_valid: "length b = 16 \<Longrightarrow> validID (''svc_'' @ hexEncode b)"
  using hexEncode_chars[of _ b] by (auto simp: validID_def hexEncode_length list_all_iff hasPrefix_def)

lemma valid_id_clean: "validID i \<Longrightarrow> cleanText i = i"
proof -
  assume v: "validID i"
  have prefix: "take 4 i = ''svc_''" using v unfolding validID_def hasPrefix_def by (simp add: eval_nat_numeral)
  have "\<forall>c\<in>set ''0123456789abcdef''. byte c < 128" by simp
  then have "list_all (\<lambda>c. byte c < 128) (drop 4 i)"
    using v unfolding validID_def by (auto simp: list_all_iff simp del: set_simps)
  moreover have "list_all (\<lambda>c. byte c < 128) (take 4 i)" unfolding prefix by simp
  ultimately have "list_all (\<lambda>c. byte c < 128) (take 4 i @ drop 4 i)" unfolding list_all_append by (rule conjI[rotated])
  then show ?thesis by (intro cleanText_id utf8_valid_ascii) (simp only: ascii_def append_take_drop_id)
qed

section \<open>The readable store\<close>

definition validEntry :: "svcEnv \<Rightarrow> svcRecord \<Rightarrow> bool" where
  "validEntry E r = (validID (sr_id r) \<and> validateRegistration E (registrationOf r) = None)"

text \<open>The directory and the store file as a reader wants them; the identifiers may only fail to be distinct.\<close>

definition readableStore :: "svcEnv \<Rightarrow> svcDisk \<Rightarrow> bool" where
  "readableStore E d = (pred_option (\<lambda>x. dd_isDir x \<and> dd_perm x = 448 \<and> dd_uid x = v_euid E) (sd_dir d) \<and>
     pred_option (\<lambda>f. \<not> sf_symlink f \<and> safeFile E f \<and> length (sf_text f) \<le> maxStoreBytes \<and>
       (case sf_doc f of None \<Rightarrow> False | Some (version, rs) \<Rightarrow> version = 1 \<and> list_all (validEntry E) (map decodedRecord rs))) (sd_store d))"

definition utf8Registration :: "registration \<Rightarrow> bool" where
  "utf8Registration g = list_all utf8_valid [rg_hostID g, rg_project g, rg_guest g, rg_guestUUID g, rg_service g, rg_purpose g,
     rg_endpoint g, rg_username g]"

fun utf8Change :: "svcChange \<Rightarrow> bool" where
  "utf8Change (Added g kind secret) = utf8Registration g"
| "utf8Change (Enrolled i kind username secret) = utf8_valid username"
| "utf8Change (Modified i g approved) = utf8Registration g"
| "utf8Change _ = True"

definition goodRandom :: "svcEnv \<Rightarrow> bool" where
  "goodRandom E = (\<forall>k n. length (v_random E k n) = n)"

text \<open>What is read back of a changed record is valid again.\<close>

lemma registration_decoded: "utf8Registration (registrationOf x) \<Longrightarrow> registrationOf (decodedRecord x) = registrationOf x"
  by (simp add: registrationOf_def utf8Registration_def cleanText_id)

lemma clean_registration: "cleanRecord r \<Longrightarrow> utf8Registration (registrationOf r)"
  using utf8_cleanText[of "sr_hostID r"] utf8_cleanText[of "sr_project r"] utf8_cleanText[of "sr_guest r"] utf8_cleanText[of "sr_guestUUID r"]
    utf8_cleanText[of "sr_service r"] utf8_cleanText[of "sr_purpose r"] utf8_cleanText[of "sr_endpoint r"] utf8_cleanText[of "sr_username r"]
  by (simp add: clean_texts registrationOf_def utf8Registration_def)

lemma entry_decoded:
  assumes "validID (sr_id x)" and "utf8Registration (registrationOf x)" and "validateRegistration E (registrationOf x) = None"
  shows "validEntry E (decodedRecord x)"
  using assms registration_decoded[OF assms(2)] by (simp add: validEntry_def valid_id_clean)

lemma entry_same:
  assumes "validEntry E r" and "cleanRecord r" and "sr_id x = sr_id r" and "registrationOf x = registrationOf r"
  shows "validEntry E (decodedRecord x)"
  by (rule entry_decoded) (use assms clean_registration in \<open>auto simp: validEntry_def\<close>)

lemma validateRegistration_None: "validateRegistration E g = None \<longleftrightarrow> trimSpace (rg_hostID g) \<noteq> [] \<and> trimSpace (rg_service g) \<noteq> [] \<and>
    length (rg_hostID g) \<le> 160 \<and> length (rg_service g) \<le> 120 \<and> length (rg_purpose g) \<le> 500 \<and> length (rg_username g) \<le> 256 \<and>
    (rg_guestUUID g = []) = (rg_guest g = []) \<and> (rg_project g = []) = (rg_guest g = []) \<and> length (rg_guest g) \<le> 120 \<and>
    length (rg_project g) \<le> 120 \<and> length (rg_guestUUID g) \<le> 120 \<and> (rg_endpoint g \<noteq> [] \<longrightarrow> validServiceTarget E (rg_endpoint g) = None) \<and>
    \<not> list_ex hasControl [rg_hostID g, rg_service g, rg_purpose g, rg_username g, rg_guest g, rg_guestUUID g, rg_project g]"
  unfolding validateRegistration_def not_le[symmetric]
  by (cases "rg_endpoint g = []"; cases "validServiceTarget E (rg_endpoint g)") (auto split: if_split)

lemma username_valid:
  assumes "validateRegistration E (registrationOf r) = None" and "goodUsername u"
  shows "validateRegistration E (registrationOf r\<lparr>rg_username := u\<rparr>) = None"
  using assms by (simp add: validateRegistration_None goodUsername_def)

lemma modified_shape: "modifiedRecord E g approved r = Inr x \<Longrightarrow> x = r\<lparr>sr_endpoint := orElse (rg_endpoint g) (sr_endpoint r),
    sr_service := orElse (rg_service g) (sr_service r), sr_username := orElse (rg_username g) (sr_username r), sr_purpose := orElse (rg_purpose g) (sr_purpose r)\<rparr>"
  by (simp add: modifiedRecord_def split: if_splits option.splits)

lemma utf8_orElse: "utf8_valid a \<Longrightarrow> utf8_valid b \<Longrightarrow> utf8_valid (orElse a b)"
  by (simp add: orElse_def)

lemma change_entry:
  assumes "recordChange E c r x" and "utf8Change c" and "validEntry E r" and "cleanRecord r"
  shows "validEntry E (decodedRecord x)"
  using assms(1)
proof (cases rule: recordChange.cases)
  case (enrolled kind username secret expires y u)
  have y: "registrationOf x = registrationOf r\<lparr>rg_username := (if username = [] then sr_username r else username)\<rparr>" "sr_id x = sr_id r"
    using enrolled by (auto simp: enrollRecord_def registrationOf_def split: if_splits)
  show ?thesis
  proof (cases "username = []")
    case True
    then show ?thesis using y by (intro entry_same[OF assms(3,4)]) (auto simp: registrationOf_def)
  next
    case False
    show ?thesis
    proof (rule entry_decoded)
      show "utf8Registration (registrationOf x)"
        using clean_registration[OF assms(4)] assms(2) enrolled(1) False unfolding y(1) by (simp add: utf8Registration_def)
      show "validateRegistration E (registrationOf x) = None"
        using username_valid[of E r username] assms(3) enrolled(5) False unfolding y(1) by (simp add: validEntry_def)
      show "validID (sr_id x)" using assms(3) y(2) by (simp add: validEntry_def)
    qed
  qed
next
  case (modified g approved y u)
  have id: "validID (sr_id x)" using assms(3) modified modify_id by (auto simp: validEntry_def)
  have "utf8Registration (registrationOf y)"
    using assms(2) modified(1) clean_registration[OF assms(4)]
    unfolding modified_shape[OF modified(3)] by (simp add: utf8Registration_def registrationOf_def utf8_orElse)
  then show ?thesis using id modified(2,4) by (intro entry_decoded) (simp_all add: registrationOf_def)
qed (use entry_same[OF assms(3,4), of x] in \<open>auto simp: registrationOf_def renewRecord_def split: if_splits\<close>)

definition keepsReadable :: "svcEnv \<Rightarrow> svcDisk \<Rightarrow> svcDisk \<Rightarrow> bool" where
  "keepsReadable E d e = (goodRandom E \<longrightarrow> readableStore E d \<longrightarrow> readableStore E e)"

lemma sound_entries: "soundStore E d \<Longrightarrow> r \<in> set (contents d) \<Longrightarrow> validEntry E r \<and> cleanRecord r"
  unfolding soundStore_def validEntry_def using validRecords_each by (auto simp: list_all_iff)

lemma erased_origin: "list_all2 erased rs new \<Longrightarrow> x \<in> set new \<Longrightarrow> \<exists>r\<in>set rs. erased r x"
  by (induction rule: list_all2_induct) auto

lemma entries_kept:
  assumes "storeChange E c rs new" and "utf8Change c" and "goodRandom E" and "\<And>r. r \<in> set rs \<Longrightarrow> validEntry E r \<and> cleanRecord r"
    and "x \<in> set new"
  shows "validEntry E (decodedRecord x)"
proof -
  have old: "validEntry E (decodedRecord x)" if "x \<in> set rs"
    by (rule entry_same[of E x]) (use assms(4)[OF that] in auto)
  show ?thesis
    using assms(1)
  proof (cases rule: storeChange.cases)
    case (added g secret expires kind k now)
    let ?r = "newServiceRecord g (''svc_'' @ hexEncode (v_random E k 16)) kind secret expires now"
    have g: "registrationOf ?r = g" by (simp add: registrationOf_def newServiceRecord_def)
    have "validEntry E (decodedRecord ?r)"
    proof (rule entry_decoded)
      show "validID (sr_id ?r)" using new_id_valid assms(3) by (simp add: newServiceRecord_def goodRandom_def)
    qed (use g added assms(2) in simp_all)
    then show ?thesis using old added assms(5) by auto
  next
    case (changed y z a b)
    have "validEntry E (decodedRecord z)"
      by (rule change_entry[OF changed(3) assms(2)]) (use assms(4) changed(1) in auto)
    then show ?thesis using old changed assms(5) by auto
  next
    case (deleted y a b)
    then show ?thesis using old assms(5) by auto
  next
    case erased
    then obtain r where r: "r \<in> set rs" "ServiceLife.erased r x"
      using erased_origin[of rs new x] assms(5) by blast
    then have "registrationOf x = registrationOf r" by (auto simp: erased_def registrationOf_def)
    then show ?thesis using entry_same[of E r x] assms(4)[OF r(1)] erased_id[OF r(2)] by blast
  qed
qed

interpretation rd: conduct E "keepsReadable E" utf8Change for E
proof unfold_locales
  show "sameStore d e \<Longrightarrow> keepsReadable E d e" for d e
    by (simp add: sameStore_def keepsReadable_def readableStore_def)
  show "keepsReadable E c d \<Longrightarrow> keepsReadable E d e \<Longrightarrow> keepsReadable E c e" for c d e
    by (simp add: keepsReadable_def)
  show "keepsReadable E d (freshDisk E)" for d
    by (simp add: keepsReadable_def readableStore_def freshDisk_def)
next
  fix c d rs e
  assume a: "utf8Change c" "soundStore E d" "storeChange E c (contents d) rs" "rewritten E d rs e"
  have "list_all (validEntry E) (map decodedRecord rs)" if "goodRandom E"
    using entries_kept[OF a(3,1) that sound_entries[OF a(2)]] by (simp add: list_all_iff)
  then show "keepsReadable E d e"
    using a(4) by (auto simp: keepsReadable_def readableStore_def rewritten_def newFile_def safeFile_def)
qed

section \<open>Reading\<close>

text \<open>From some tick on no call fails and nobody else is there.\<close>

definition vaultCalm :: "svcEnv \<Rightarrow> nat \<Rightarrow> bool" where
  "vaultCalm E n = (\<forall>k\<ge>n. v_fault E k = None \<and> (\<forall>d. v_others E k d = d))"

lemma tick_advance [simp]: "sw_tick (vadvance E s) = Suc (sw_tick s)"
  by (simp add: vadvance_def)

lemma calm_Suc: "vaultCalm E n \<Longrightarrow> vaultCalm E (Suc n)"
  by (simp add: vaultCalm_def)

lemma calm_disk: "vaultCalm E (sw_tick s) \<Longrightarrow> sw_disk (vadvance E s) = sw_disk s"
  by (simp add: vaultCalm_def vadvance_def)

lemma calm_call: "vaultCalm E (sw_tick s) \<Longrightarrow> wp (vcall E f) Q s = wp (f (sw_tick s)) Q (vadvance E s)"
  by (simp add: vcall_def vaultCalm_def)

lemma vaultCalm_passes: "vaultCalm E (sw_tick s) \<Longrightarrow> passes E s t \<Longrightarrow> sw_disk t = sw_disk s"
proof -
  assume c: "vaultCalm E (sw_tick s)"
  have "sw_disk ((vadvance E ^^ n) s) = sw_disk s \<and> vaultCalm E (sw_tick ((vadvance E ^^ n) s))" for n
    by (induction n) (simp_all add: c calm_Suc calm_disk)
  then show "passes E s t \<Longrightarrow> ?thesis" by (auto simp: passes_def)
qed

lemmas calm_steps = calm_call calm_Suc calm_disk

text \<open>A readable store with distinct identifiers is read back, whatever changed it.\<close>

lemma validRecords_intro: "distinct (map sr_id rs) \<Longrightarrow> set (map sr_id rs) \<inter> known = {} \<Longrightarrow> list_all (validEntry E) rs \<Longrightarrow> validRecords E known rs"
  by (induction rs arbitrary: known) (auto simp: validEntry_def)

lemma load_reads:
  assumes "vaultCalm E (sw_tick s)" and "readableStore E (sw_disk s)" and "sd_dir (sw_disk s) \<noteq> None" and "sd_store (sw_disk s) \<noteq> None"
    and "distinct (map sr_id (recordsOf s))"
  shows "wp (loadStore E) (\<lambda>r t. r = Inr (recordsOf s) \<and> vaultCalm E (sw_tick t) \<and> sw_tick s \<le> sw_tick t \<and> sw_disk t = sw_disk s) s"
proof -
  obtain x f where x: "sd_dir (sw_disk s) = Some x" "sd_store (sw_disk s) = Some f" using assms(3,4) by blast
  then obtain rs where f: "sf_doc f = Some (1, rs)" "list_all (validEntry E) (map decodedRecord rs)"
    using assms(2) by (auto simp: readableStore_def split: option.splits prod.splits)
  have rs: "recordsOf s = map decodedRecord rs" using x f by (simp add: contents_def)
  have "validRecords E {} (map decodedRecord rs)"
    by (rule validRecords_intro) (use assms(5) rs f in simp_all)
  then show ?thesis
    using assms(1,2) x f rs
    by (simp add: loadStore_def ensureDir_def lstatDir_def checkDir_def readProtected_def calm_steps readableStore_def)
qed

text \<open>What a resolved reference is: a ready record of the host, alone under its identifier.\<close>

definition resolved :: "svcEnv \<Rightarrow> string \<Rightarrow> string \<Rightarrow> svcDisk \<Rightarrow> svcRecord \<Rightarrow> bool" where
  "resolved E i host d r = (soundStore E d \<and> r \<in> set (contents d) \<and> sr_id r = i \<and> sr_hostID r = host \<and> sr_revokedAt r = None \<and> sr_secret r \<noteq> [])"

lemma status_ready: "recordStatus now r = ''ready'' \<longleftrightarrow> sr_revokedAt r = None \<and> sr_secret r \<noteq> [] \<and> (case sr_expiresAt r of None \<Rightarrow> True | Some t \<Rightarrow> now < t)"
  by (auto simp: recordStatus_def split: option.split)

context evolution
begin

lemma resolve_finds:
  assumes "relies R E"
  shows "wp (resolveService E i host) (\<lambda>y t. \<forall>r. y = Inr r \<longrightarrow> (\<exists>d. R (sw_disk s) d \<and> resolved E i host d r)) s"
proof (cases "validID i")
  case True
  show ?thesis
    unfolding resolveService_def if_not_P[OF not_not[THEN iffD2, OF True]] wp_tryE
  proof (rule wp_mono[OF loadStore_looks], goal_cases)
    case (1 y t)
    show ?case
    proof (cases y)
      case (Inr rs)
      then obtain u where u: "passes E s u" "rs = recordsOf u" "validRecords E {} rs" "list_all cleanRecord rs" using 1 by blast
      have R: "R (sw_disk s) (sw_disk u)" by (rule passes_evolve[OF assms u(1)])
      have found: "\<exists>d. R (sw_disk s) d \<and> resolved E i host d r" if "splitID i rs = Some (a, r, b)" "sr_hostID r = host" "recordStatus now r = ''ready''" for a r b now
      proof -
        have "resolved E i host (sw_disk u) r"
          using splitID_Some[OF that(1)] that(2,3) u(2-4) by (auto simp: resolved_def soundStore_def status_ready)
        with R show ?thesis by blast
      qed
      show ?thesis
      proof (cases "splitID i rs")
        case (Some p)
        obtain a r b where p: "p = (a, r, b)" by (cases p)
        let ?ready = "sr_hostID r = host \<and> recordStatus (v_now E (sw_tick t)) r = ''ready''"
        show ?thesis
        proof (cases ?ready)
          case True
          have "\<exists>d. R (sw_disk s) d \<and> resolved E i host d r" by (rule found) (use True Some p in blast)+
          with True show ?thesis unfolding Inr Some p sum.case option.case prod.case by (simp add: Let_def)
        next
          case False
          then show ?thesis unfolding Inr Some p sum.case option.case prod.case by (simp add: Let_def)
        qed
      qed (simp add: Inr)
    qed simp
  qed
qed (simp add: resolveService_def)

end

lemma sole: "soundStore E d \<Longrightarrow> r \<in> set (contents d) \<Longrightarrow> x \<in> set (contents d) \<Longrightarrow> sr_id r = sr_id x \<Longrightarrow> r = x"
  using validRecords_ids[of E "{}" "contents d"] distinct_same[of sr_id "contents d" r x] by (simp add: soundStore_def)

end
