(* ===== verification/ServiceLive.thy ===== *)
theory ServiceLive
  imports ServiceReadable
begin

text \<open>
  Operations that nothing gets in the way of: on an orderly store, with no failing call and nobody else, an operation
  under the lock does what it asks for.
\<close>

definition fits :: "svcRecord list \<Rightarrow> bool" where
  "fits rs = (case storeJSON rs of None \<Rightarrow> False | Some body \<Rightarrow> length body \<le> maxStoreBytes)"

text \<open>A store that can be read and whose lock file, if there, can be taken.\<close>

definition orderly :: "svcEnv \<Rightarrow> svcDisk \<Rightarrow> bool" where
  "orderly E d = (readableStore E d \<and> sd_dir d \<noteq> None \<and> sd_store d \<noteq> None \<and> distinct (map sr_id (contents d)) \<and> sd_temps d = [] \<and>
     pred_option (\<lambda>f. \<not> sf_symlink f \<and> safeFile E f) (sd_lock d))"

lemma vaultCalm_fault: "vaultCalm E n \<Longrightarrow> v_fault E n = None"
  by (simp add: vaultCalm_def)

lemma save_succeeds:
  assumes "vaultCalm E (sw_tick s)" and "sd_dir (sw_disk s) \<noteq> None" and "sd_temps (sw_disk s) = []" and "fits rs"
  shows "wp (saveStore E rs) (\<lambda>r t. r = Inr () \<and> rewritten E (sw_disk s) rs (sw_disk t) \<and> vaultCalm E (sw_tick t) \<and> sw_tick s \<le> sw_tick t) s"
proof -
  obtain body where body: "storeJSON rs = Some body" "length body \<le> maxStoreBytes" using assms(4) by (auto simp: fits_def split: option.splits)
  obtain x where "sd_dir (sw_disk s) = Some x" using assms(2) by blast
  then show ?thesis
    using assms(1,3) body
    by (simp add: saveStore_def tempNameFor_def vrandom_def createStoreTemp_def publishStore_def writeTemp_def renameTemp_def
        onDisk_def putTemp_def dropTemp_def rewritten_def calm_steps vaultCalm_fault)
qed

lemma locked_succeeds:
  assumes "vaultCalm E (sw_tick s)" and "orderly E (sw_disk s)"
    and "\<And>t. vaultCalm E (sw_tick t) \<Longrightarrow> sw_tick s \<le> sw_tick t \<Longrightarrow> wp (fn (recordsOf s)) (\<lambda>r u. \<exists>x rs. r = Inr (x, Some rs) \<and> V x rs \<and> fits rs \<and>
      vaultCalm E (sw_tick u) \<and> sw_tick t \<le> sw_tick u \<and> sw_disk u = sw_disk t) t"
  shows "wp (lockedUpdate E fn) (\<lambda>r t. \<exists>x rs. r = Inr x \<and> V x rs \<and> rewritten E (sw_disk s) rs (sw_disk t) \<and> vaultCalm E (sw_tick t) \<and> sw_tick s \<le> sw_tick t) s"
proof -
  have d: "readableStore E (sw_disk s)" "sd_dir (sw_disk s) \<noteq> None" "sd_store (sw_disk s) \<noteq> None" "distinct (map sr_id (recordsOf s))" "sd_temps (sw_disk s) = []"
    using assms(2) by (simp_all add: orderly_def)
  let ?Q = "\<lambda>r t. \<exists>x rs. r = Inr x \<and> V x rs \<and> rewritten E (sw_disk s) rs (sw_disk t) \<and> vaultCalm E (sw_tick t) \<and> sw_tick s \<le> sw_tick t"
  have save: "wp (tryE (saveStore E rs) fail (\<lambda>_. ok x)) ?Q u"
    if "V x rs" "fits rs" "vaultCalm E (sw_tick u)" "sw_tick s \<le> sw_tick u" "sw_disk u = sw_disk s" for x rs u
    unfolding wp_tryE
    by (rule wp_mono[OF save_succeeds[OF that(3) _ _ that(2)]]) (use d that in auto)
  have change: "wp (tryE (fn (recordsOf s)) fail (\<lambda>(x, new). case new of None \<Rightarrow> ok x | Some rs' \<Rightarrow> tryE (saveStore E rs') fail (\<lambda>_. ok x))) ?Q t"
    if t: "vaultCalm E (sw_tick t)" "sw_tick s \<le> sw_tick t" "sw_disk t = sw_disk s" for t
    unfolding wp_tryE[of "fn _"]
    by (rule wp_mono[OF assms(3)[OF t(1,2)]]) (use t save in \<open>auto simp del: wp_tryE\<close>)
  show ?thesis
    unfolding lockedUpdate_def wp_tryE[of "loadStore _"]
    by (rule wp_mono[OF load_reads[OF assms(1) d(1-4)]]) (use change in \<open>auto simp del: wp_tryE\<close>)
qed

lemma newFile_safe [simp]: "safeFile E (newFile E body doc)" "\<not> sf_symlink (newFile E body doc)"
  by (simp_all add: safeFile_def newFile_def)

lemma settled_same: "orderly E d \<Longrightarrow> orderly E (d\<lparr>sd_lock := Some (newFile E [] None)\<rparr>)"
  by (simp add: orderly_def readableStore_def)

lemma lock_succeeds:
  assumes "vaultCalm E (sw_tick s)" and "orderly E (sw_disk s)"
    and "\<And>t. vaultCalm E (sw_tick t) \<Longrightarrow> sw_tick s \<le> sw_tick t \<Longrightarrow> wp (fn (recordsOf s)) (\<lambda>r u. \<exists>x rs. r = Inr (x, Some rs) \<and> V x rs \<and> fits rs \<and>
      vaultCalm E (sw_tick u) \<and> sw_tick t \<le> sw_tick u \<and> sw_disk u = sw_disk t) t"
  shows "wp (withStoreLock E fn) (\<lambda>r t. \<exists>x rs. r = Inr x \<and> V x rs \<and> recordsOf t = map decodedRecord rs \<and> vaultCalm E (sw_tick t) \<and> sw_tick s \<le> sw_tick t) s"
proof -
  let ?Q = "\<lambda>r t. \<exists>x rs. r = Inr x \<and> V x rs \<and> recordsOf t = map decodedRecord rs \<and> vaultCalm E (sw_tick t) \<and> sw_tick s \<le> sw_tick t"
  have locked: "wp (lockedUpdate E fn) (\<lambda>r t. ?Q r (t\<lparr>sw_held := False\<rparr>)) t"
    if t: "vaultCalm E (sw_tick t)" "orderly E (sw_disk t)" "sw_tick s \<le> sw_tick t" "recordsOf t = recordsOf s" for t
  proof (rule wp_mono[OF locked_succeeds[OF t(1,2), where V = V]])
    show "wp (fn (recordsOf t)) (\<lambda>r v. \<exists>x rs. r = Inr (x, Some rs) \<and> V x rs \<and> fits rs \<and> vaultCalm E (sw_tick v) \<and> sw_tick u \<le> sw_tick v \<and> sw_disk v = sw_disk u) u"
      if "vaultCalm E (sw_tick u)" "sw_tick t \<le> sw_tick u" for u :: svcWorld
      unfolding t(4) using that t(3) by (intro assms(3)) simp_all
    show "?Q r (u\<lparr>sw_held := False\<rparr>)" if "\<exists>x rs. r = Inr x \<and> V x rs \<and> rewritten E (sw_disk t) rs (sw_disk u) \<and> vaultCalm E (sw_tick u) \<and> sw_tick t \<le> sw_tick u" for r and u :: svcWorld
      using that t(3) by (auto simp: rewritten_contents)
  qed
  obtain x where x: "sd_dir (sw_disk s) = Some x" using assms(2) by (auto simp: orderly_def)
  have dir: "dd_isDir x" "dd_perm x = 448" "dd_uid x = v_euid E" using assms(2) x by (simp_all add: orderly_def readableStore_def)
  show ?thesis
  proof (cases "sd_lock (sw_disk s)")
    case None
    have set: "orderly E ((sw_disk s)\<lparr>sd_lock := Some (newFile E [] None)\<rparr>)" by (rule settled_same[OF assms(2)])
    show ?thesis
      using assms(1) x dir None set
      by (simp add: withStoreLock_def ensureDir_def lstatDir_def checkDir_def openLock_def onDisk_def calm_steps Let_def)
        (rule wp_mono[OF locked], use assms(1) set in \<open>auto simp: calm_steps\<close>)
  next
    case (Some f)
    then have "\<not> sf_symlink f" "safeFile E f" using assms(2) by (simp_all add: orderly_def)
    then show ?thesis
      using assms(1,2) x dir Some
      by (simp add: withStoreLock_def ensureDir_def lstatDir_def checkDir_def openLock_def calm_steps)
        (rule wp_mono[OF locked], use assms(1,2) in \<open>auto simp: calm_steps\<close>)
  qed
qed

end
