(* ===== verification/ServiceProps.thy ===== *)
theory ServiceProps
  imports ServiceLive
begin

text \<open>
  The properties of the credential store, and an example of it: one ready credential of a guest.
\<close>

section \<open>An example\<close>

definition exampleURL :: "string \<Rightarrow> urlParts option" where
  "exampleURL raw = (if raw = ''ssh://db:22'' then Some \<lparr>u_scheme = ''ssh'', u_host = ''db:22'', u_hostname = ''db'', u_port = ''22'',
     u_user = False, u_opaque = [], u_rawQuery = [], u_forceQuery = False, u_fragment = []\<rparr> else None)"

definition exampleServices :: svcEnv where
  "exampleServices = \<lparr>v_instanceID = ''host-1'', v_euid = 0, v_now = (\<lambda>_. 1700000000000000000), v_fault = (\<lambda>_. None),
     v_random = (\<lambda>_ n. replicate n (CHR 0x11)), v_written = (\<lambda>_. 0), v_others = (\<lambda>_ d. d), v_url = exampleURL,
     v_toLower = (\<lambda>s. s), v_incus = exampleIncus, v_resultJSON = (\<lambda>_. None)\<rparr>"

definition exampleRef :: string where
  "exampleRef = ''svc_0123456789abcdef0123456789abcdef''"

definition exampleCredential :: svcRecord where
  "exampleCredential = \<lparr>sr_id = exampleRef, sr_hostID = ''host-1'', sr_project = ''default'', sr_guest = ''web'', sr_guestUUID = ''uuid-1'',
     sr_service = ''ssh'', sr_purpose = [], sr_endpoint = ''ssh://db:22'', sr_username = ''root'', sr_kind = ''password'', sr_secret = ''s3cret'',
     sr_createdAt = 1700000000000000000, sr_updatedAt = 1700000000000000000, sr_lastUsedAt = None, sr_expiresAt = None, sr_revokedAt = None\<rparr>"

definition exampleDisk :: svcDisk where
  "exampleDisk = \<lparr>sd_dir = Some \<lparr>dd_isDir = True, dd_perm = 448, dd_uid = 0\<rparr>, sd_lock = None,
     sd_store = Some (newFile exampleServices [] (Some (1, [exampleCredential]))), sd_temps = []\<rparr>"

definition exampleVault :: svcWorld where
  "exampleVault = \<lparr>sw_tick = 0, sw_disk = exampleDisk, sw_held = False, sw_degraded = False, sw_trace = [], sw_incus = exampleIncusWorld\<rparr>"

text \<open>Any change of the record leaves a document that fits.\<close>

lemma vault_time: "rfc3339Nano 1700000000000000000 = ''2023-11-14T22:13:20Z''"
  by code_simp

lemmas vault_json = storeJSON_def svcRecordJSON_def recordTimes_def jsonYear_def jsonTime_def jsonOptTime_def jsonField_def
  jsonOmitEmpty_def jsonString_plain plainChar_def vault_time

lemma vault_fits:
  assumes "list_all plainChar (sr_secret r)" and "length (sr_secret r) \<le> 100" and "sr_id r = exampleRef"
    and "sr_hostID r = ''host-1''" and "sr_project r = ''default''" and "sr_guest r = ''web''" and "sr_guestUUID r = ''uuid-1''"
    and "sr_service r = ''ssh''" and "sr_purpose r = []" and "sr_endpoint r = ''ssh://db:22''" and "sr_username r = ''root''"
    and "sr_kind r = ''password''" and "sr_createdAt r = 1700000000000000000" and "sr_updatedAt r = 1700000000000000000"
    and "sr_lastUsedAt r = None" and "sr_expiresAt r = None" and "sr_revokedAt r \<in> {None, Some 1700000000000000000}"
  shows "fits [r]"
proof -
  have "length (svcRecordJSON r) \<le> 900"
    using assms by (auto simp: vault_json exampleRef_def)
  moreover have "recordTimes r" using assms by (auto simp: recordTimes_def jsonYear_def)
  ultimately show ?thesis
    by (simp add: fits_def storeJSON_def jsonField_def jsonString_plain plainChar_def maxStoreBytes_def itoa_def itoa_nat.simps)
qed

lemma vault_calm [simp]: "vaultCalm exampleServices n"
  by (simp add: vaultCalm_def exampleServices_def)

lemma vault_settled [simp]: "orderly exampleServices exampleDisk" "contents exampleDisk = [exampleCredential]"
    "sw_disk exampleVault = exampleDisk"
proof -
  have "\<forall>s\<in>{exampleRef, ''host-1'', ''default'', ''web'', ''uuid-1'', ''ssh'', [], ''ssh://db:22'', ''root'', ''password'', ''s3cret''}. cleanText s = s"
    by (simp add: cleanText_ascii ascii_def exampleRef_def)
  then have c: "decodedRecord exampleCredential = exampleCredential" by (simp add: decodedRecord_def exampleCredential_def)
  then show r: "contents exampleDisk = [exampleCredential]"
    by (simp add: contents_def exampleDisk_def newFile_def)
  show d: "sw_disk exampleVault = exampleDisk" by (simp add: exampleVault_def)
  have "validID exampleRef" by code_simp
  moreover have "validateRegistration exampleServices (registrationOf exampleCredential) = None"
  proof -
    have "trimSpace ''host-1'' \<noteq> []" "trimSpace ''ssh'' \<noteq> []" by (simp_all add: trimSpace_ascii ascii_def rune_space_def)
    then show ?thesis
      by (simp add: validateRegistration_None registrationOf_def exampleCredential_def exampleServices_def validServiceTarget_def
          exampleURL_def hasControl_def runes_ascii ascii_def)
  qed
  ultimately show "orderly exampleServices exampleDisk"
    using r c 
    by (simp add: orderly_def readableStore_def exampleDisk_def newFile_def safeFile_def exampleServices_def validEntry_def exampleCredential_def maxStoreBytes_def)
qed

section \<open>Revocation\<close>

lemma revoke_done: "wp (revokeService E i) (\<lambda>y t. \<forall>m. y = Inr m \<longrightarrow>
    (\<exists>r\<in>set (recordsOf t). sr_id r = i \<and> sr_revokedAt r \<noteq> None \<and> sr_secret r = [])) s"
proof -
  have "yields E (\<lambda>rs. case splitID i rs of
        None \<Rightarrow> fail (newErr ''service_reference_not_found'')
      | Some (a, r, b) \<Rightarrow> tryE (revokeRecord E r) fail (\<lambda>r. State_Monad.bind (vnow E) (\<lambda>updated. State_Monad.bind (vnow E) (\<lambda>now.
          let r = r\<lparr>sr_updatedAt := updated\<rparr> in ok (metaOf r now, Some (a @ r # b))))))
      (replaces i (\<lambda>_ x. sr_revokedAt x \<noteq> None \<and> sr_secret x = []))"
    by (rule update_yields) (auto simp: revokeRecord_def ps.step_refl passes_advance)
  note run = any.lock_updates[OF relies_any this]
  have outcome: "\<exists>r\<in>set (contents e). sr_id r = i \<and> sr_revokedAt r \<noteq> None \<and> sr_secret r = []"
    if up: "updated E (replaces i (\<lambda>_ x. sr_revokedAt x \<noteq> None \<and> sr_secret x = [])) d (Inr m) e" for d e m
  proof -
    obtain saving where saving: "soundStore E d" "replaces i (\<lambda>_ x. sr_revokedAt x \<noteq> None \<and> sr_secret x = []) (contents d) m saving"
        "afterwards E d saving e"
      using up unfolding updated_def by blast
    obtain a r b x where x: "soundStore E d" "contents d = a @ r # b" "sr_id r = i" "sr_id x = i" "sr_revokedAt x \<noteq> None" "sr_secret x = []"
        "saving = Some (a @ x # b)"
      using saving(1,2) unfolding replaces_def by blast
    have "rewritten E d (a @ x # b) e" using saving(3) x(7) by (simp add: afterwards_def)
    then have e: "contents e = map decodedRecord (a @ x # b)" by (rule rewritten_contents)
    have "cleanText i = i" using sound_entries[OF x(1), of r] clean_texts(1)[of r] x(2,3) by simp
    then show ?thesis using x by (intro bexI[of _ "decodedRecord x"]) (auto simp: e)
  qed
  show ?thesis
  proof (cases "validID i")
    case True
    then show ?thesis
      unfolding revokeService_def updateService_def if_not_P[OF not_not[THEN iffD2, OF True]]
      by (intro wp_mono[OF run]) (use outcome in blast)
  qed (simp add: revokeService_def updateService_def)
qed

section \<open>Sequences of calls\<close>

text \<open>C33. Refinement: over any sequence of calls to the two tools and the Owner's commands, interleaved with other processes, the records
  of the store evolve only by the changes that these calls may make, each on the records as they were then.\<close>

theorem service_calls_refine:
  assumes "relies (evolves E T) E" and "\<forall>call\<in>set calls. \<forall>c. mayChange E call c \<longrightarrow> T c"
  shows "evolves E T (sw_disk s) (sw_disk (snd (run_state (svcSteps E calls) s)))"
  by (rule abs.ev.run_frame[OF abs.on_steps[OF assms(1)]]) (use assms(2) in blast)

definition exampleAccess :: "string \<Rightarrow> svcCall" where
  "exampleAccess operation = Access (zeroRequest\<lparr>q_principalID := ''p'', q_principalClass := ''mcp''\<rparr>) \<lparr>si_operation = operation, si_ref = exampleRef,
     si_registration = \<lparr>rg_hostID = [], rg_project = [], rg_guest = [], rg_guestUUID = [], rg_service = [], rg_purpose = ''deploy'',
       rg_endpoint = [], rg_username = []\<rparr>, si_kind = [], si_username = [], si_ttlDays = 0, si_neverExpires = False\<rparr>"

lemma vault_relies: "(\<And>d. R d d) \<Longrightarrow> relies R exampleServices"
  by (simp add: relies_def exampleServices_def)

definition exampleUpdates :: "svcChange \<Rightarrow> bool" where
  "exampleUpdates c = (case c of Erased \<Rightarrow> True | Modified i g approved \<Rightarrow> i = exampleRef | _ \<Rightarrow> False)"

theorem service_calls_refine_witness:
  "evolves exampleServices exampleUpdates exampleDisk (sw_disk (snd (run_state (svcSteps exampleServices [exampleAccess ''update'']) exampleVault)))"
  using service_calls_refine[of exampleServices exampleUpdates "[exampleAccess ''update'']" exampleVault] vault_relies[of "evolves exampleServices exampleUpdates"]
  by (simp add: exampleAccess_def exampleUpdates_def evolves_def)

text \<open>C34. Binding: no sequence of calls without an approved update or deletion of a reference moves it to another origin, so its
  credential is never presented to another destination without the Owner's approval.\<close>

theorem service_origin_needs_approval:
  assumes "relies (follows (sameOrigin E) i) E" and "\<forall>call\<in>set calls. \<forall>c. mayChange E call c \<longrightarrow> unapproved i c"
  shows "follows (sameOrigin E) i (sw_disk s) (sw_disk (snd (run_state (svcSteps E calls) s)))"
  by (rule target.life.ev.run_frame[OF target.life.on_steps[OF assms(1)]]) (use assms(2) in blast)

lemma if_rule: "(b \<Longrightarrow> P) \<Longrightarrow> (\<not> b \<Longrightarrow> Q) \<Longrightarrow> if b then P else Q"
  by simp

lemma follows_refl: "(\<And>r. P r r) \<Longrightarrow> follows P i d d"
  by (auto simp: follows_def)

theorem service_origin_needs_approval_witness:
  "follows (sameOrigin exampleServices) exampleRef exampleDisk
     (sw_disk (snd (run_state (svcSteps exampleServices [exampleAccess ''update'']) exampleVault)))"
proof -
  have "relies (follows (sameOrigin exampleServices) exampleRef) exampleServices"
    by (intro vault_relies follows_refl) (simp add: sameOrigin_def)
  then show ?thesis
    using service_origin_needs_approval[of exampleServices exampleRef "[exampleAccess ''update'']" exampleVault]
    by (simp add: exampleAccess_def utf8_valid_ascii ascii_def zeroRequest_def)
qed

text \<open>C35. Confinement: a credential given out for a guest command belongs to a record of this host that is bound to exactly that
  guest; whatever calls came before, the guest is the one the reference was registered for.\<close>

theorem credential_stays_with_its_guest:
  assumes "relies (follows boundAlike ref) E" and "\<forall>call\<in>set calls. \<forall>c. mayChange E call c \<longrightarrow> spares ref c"
    and "r \<in> set (recordsOf s)" and "sr_id r = ref"
    and "fst (run_state (guestSecret E ref req) (snd (run_state (svcSteps E calls) s))) = Inr secret" and "secret \<noteq> []"
  shows "n_operation req = ''exec'' \<and> sr_hostID r = v_instanceID E \<and> sr_guest r \<noteq> [] \<and> sr_guest r = n_instance req \<and>
     sr_project r = n_project req \<and> sr_guestUUID r = n_uuid req"
proof -
  let ?t = "snd (run_state (svcSteps E calls) s)"
  have before: "follows boundAlike ref (sw_disk s) (sw_disk ?t)"
    by (rule guest.life.ev.run_frame[OF guest.life.on_steps[OF assms(1)]]) (use assms(2) in blast)
  let ?given = "\<lambda>y. \<forall>x. y = Inr x \<longrightarrow> x \<noteq> [] \<longrightarrow> n_operation req = ''exec'' \<and> (\<exists>d z. follows boundAlike ref (sw_disk ?t) d \<and>
      resolved E ref (v_instanceID E) d z \<and> sr_guest z \<noteq> [] \<and> sr_guest z = n_instance req \<and> sr_project z = n_project req \<and> sr_guestUUID z = n_uuid req)"
  have "wp (guestSecret E ref req) (\<lambda>y _. ?given y) ?t"
  proof (cases "ref = [] \<or> n_operation req \<noteq> ''exec''")
    case False
    then have "wp (tryE (resolveService E ref (v_instanceID E)) fail (\<lambda>r.
        if sr_guest r = [] \<or> sr_guest r \<noteq> n_instance req \<or> sr_project r \<noteq> n_project req \<or> sr_guestUUID r \<noteq> n_uuid req
        then fail (newErr ''credential_guest_identity_mismatch'') else ok (sr_secret r))) (\<lambda>y _. ?given y) ?t"
      unfolding wp_tryE
    proof (intro wp_mono[OF guest.life.resolve_finds[OF assms(1)]], goal_cases)
      case (1 y u)
      show ?case
      proof (cases y)
        case (Inr z)
        then obtain d where d: "follows boundAlike ref (sw_disk ?t) d" "resolved E ref (v_instanceID E) d z" using 1 by blast
        show ?thesis
          unfolding Inr sum.case wp_if wp_return
          using False by (intro if_rule) (simp, intro allI impI conjI exI[of _ d] exI[of _ z] d, auto)
      qed simp
    qed
    then show ?thesis using False by (simp add: guestSecret_def del: wp_tryE)
  qed (auto simp: guestSecret_def)
  then have "?given (Inr secret)" using assms(5) by (simp add: wp_run)
  then obtain d z where z: "n_operation req = ''exec''" "follows boundAlike ref (sw_disk ?t) d" "resolved E ref (v_instanceID E) d z"
      "sr_guest z \<noteq> []" "sr_guest z = n_instance req" "sr_project z = n_project req" "sr_guestUUID z = n_uuid req"
    using assms(6) by blast
  obtain x where x: "x \<in> set (contents d)" "sr_id x = ref" "boundAlike r x"
    using guest.life.chain[OF before z(2)] assms(3,4) by (auto simp: follows_def)
  have "z = x" using sole[of E d z x] z(3) x by (simp add: resolved_def)
  then show ?thesis using z x(3) by (simp add: boundAlike_def resolved_def)
qed

text \<open>C36. Revocation is final: after a revocation that reported success, over any sequence of calls that does not delete the reference,
  the record stays revoked without its secret, and resolving the reference always fails.\<close>

theorem service_revocation_final:
  assumes "relies (follows retired i) E" and "run_state (revokeService E i) s = (Inr m, t)"
    and "\<forall>call\<in>set calls. \<forall>c. mayChange E call c \<longrightarrow> spares i c"
  shows "(\<exists>r\<in>set (recordsOf (snd (run_state (svcSteps E calls) t))). sr_id r = i \<and> sr_revokedAt r \<noteq> None \<and> sr_secret r = []) \<and>
     (\<exists>e. fst (run_state (resolveService E i host) (snd (run_state (svcSteps E calls) t))) = Inl e)"
proof -
  obtain r where r: "r \<in> set (recordsOf t)" "sr_id r = i" "sr_revokedAt r \<noteq> None" "sr_secret r = []"
    using wp_runD[OF revoke_done assms(2)] by blast
  let ?u = "snd (run_state (svcSteps E calls) t)"
  have after: "follows retired i (sw_disk t) (sw_disk ?u)"
    by (rule gone.life.ev.run_frame[OF gone.life.on_steps[OF assms(1)]]) (use assms(3) in blast)
  have kept: "\<exists>x\<in>set (contents d). sr_id x = i \<and> sr_revokedAt x \<noteq> None \<and> sr_secret x = []" if "follows retired i (sw_disk t) d" for d
    using that r unfolding follows_def retired_def by fastforce
  have "wp (resolveService E i host) (\<lambda>y _. \<exists>e. y = Inl e) ?u"
  proof (rule wp_mono[OF gone.life.resolve_finds[OF assms(1)]])
    fix y and v :: svcWorld
    assume y: "\<forall>r. y = Inr r \<longrightarrow> (\<exists>d. follows retired i (sw_disk ?u) d \<and> resolved E i host d r)"
    show "\<exists>e. y = Inl e"
    proof (cases y)
      case (Inr z)
      then obtain d where d: "follows retired i (sw_disk ?u) d" "resolved E i host d z" using y by blast
      then obtain x where x: "x \<in> set (contents d)" "sr_id x = i" "sr_revokedAt x \<noteq> None"
        using kept[OF gone.life.chain[OF after d(1)]] by blast
      have "z = x" using sole[of E d z x] d(2) x by (simp add: resolved_def)
      then show ?thesis using d(2) x by (simp add: resolved_def)
    qed simp
  qed
  then show ?thesis using kept[OF after] by (simp add: wp_run)
qed

section \<open>Reaching the end\<close>

lemma wp_exists: "wp m Q s \<Longrightarrow> \<exists>y t. run_state m s = (y, t) \<and> Q y t"
  by (cases "run_state m s") (auto simp: wp_def)

lemma revoke_lives:
  assumes "vaultCalm E (sw_tick s)" and "orderly E (sw_disk s)" and "validID i" and "splitID i (recordsOf s) = Some (a, r, b)"
    and "sr_revokedAt r = None"
    and "\<forall>j k. fits (a @ r\<lparr>sr_revokedAt := Some (v_now E j), sr_secret := [], sr_updatedAt := v_now E k\<rparr> # b)"
  shows "wp (revokeService E i) (\<lambda>y t. \<exists>m rs. y = Inr m \<and> md_status m = ''revoked'' \<and> recordsOf t = map decodedRecord rs \<and>
      vaultCalm E (sw_tick t) \<and> sw_tick s \<le> sw_tick t) s"
  unfolding revokeService_def updateService_def if_not_P[OF not_not[THEN iffD2, OF assms(3)]]
proof (rule lock_succeeds[OF assms(1,2)])
  fix t :: svcWorld
  assume "vaultCalm E (sw_tick t)" and "sw_tick s \<le> sw_tick t"
  then show "wp (case splitID i (recordsOf s) of
      None \<Rightarrow> fail (newErr ''service_reference_not_found'')
    | Some (a, r, b) \<Rightarrow> tryE (revokeRecord E r) fail (\<lambda>r. State_Monad.bind (vnow E) (\<lambda>updated. State_Monad.bind (vnow E) (\<lambda>now.
        let r = r\<lparr>sr_updatedAt := updated\<rparr> in ok (metaOf r now, Some (a @ r # b))))))
    (\<lambda>y u. \<exists>m rs. y = Inr (m, Some rs) \<and> md_status m = ''revoked'' \<and> fits rs \<and> vaultCalm E (sw_tick u) \<and> sw_tick t \<le> sw_tick u \<and> sw_disk u = sw_disk t) t"
    unfolding assms(4) option.case prod.case
    using assms(5,6) by (simp add: revokeRecord_def calm_steps metaOf_def recordStatus_def)
qed

text \<open>C37. Revocation gets there: on an orderly store, with no failing call and nobody else, and if the document with the record revoked
  fits, the revocation of a valid reference reports success, and the record is revoked and its secret gone.\<close>

theorem service_revoke_succeeds:
  assumes "vaultCalm E (sw_tick s)" and "orderly E (sw_disk s)" and "validID i" and "splitID i (recordsOf s) = Some (a, r, b)"
    and "sr_revokedAt r = None"
    and "\<forall>j k. fits (a @ r\<lparr>sr_revokedAt := Some (v_now E j), sr_secret := [], sr_updatedAt := v_now E k\<rparr> # b)"
  shows "\<exists>m t. run_state (revokeService E i) s = (Inr m, t) \<and> md_status m = ''revoked'' \<and>
     (\<exists>x\<in>set (recordsOf t). sr_id x = i \<and> sr_revokedAt x \<noteq> None \<and> sr_secret x = [])"
proof -
  from wp_exists[OF wp_conj[OF revoke_lives[OF assms] revoke_done]]
  obtain y t where y: "run_state (revokeService E i) s = (y, t)" "\<exists>m. y = Inr m \<and> md_status m = ''revoked''"
      "\<forall>m. y = Inr m \<longrightarrow> (\<exists>r\<in>set (recordsOf t). sr_id r = i \<and> sr_revokedAt r \<noteq> None \<and> sr_secret r = [])" by blast
  then show ?thesis by blast
qed

lemma vault_found: "validID exampleRef" "splitID exampleRef (recordsOf exampleVault) = Some ([], exampleCredential, [])"
    "sr_revokedAt exampleCredential = None"
proof -
  have "sr_id exampleCredential = exampleRef" by (simp add: exampleCredential_def)
  then show "splitID exampleRef (recordsOf exampleVault) = Some ([], exampleCredential, [])" by simp
qed (simp_all add: validID_def hasPrefix_def exampleRef_def exampleCredential_def)

lemma vault_fits_revoked:
  "\<forall>j k. fits ([] @ exampleCredential\<lparr>sr_revokedAt := Some (v_now exampleServices j), sr_secret := [], sr_updatedAt := v_now exampleServices k\<rparr> # [])"
  by (intro allI, simp, rule vault_fits) (simp_all add: exampleCredential_def exampleServices_def)

lemma vault_at_rest: "vaultCalm exampleServices (sw_tick exampleVault)" "orderly exampleServices (sw_disk exampleVault)"
  by simp_all

theorem service_revoke_succeeds_witness:
  "\<exists>m t. run_state (revokeService exampleServices exampleRef) exampleVault = (Inr m, t) \<and> md_status m = ''revoked'' \<and>
     (\<exists>x\<in>set (recordsOf t). sr_id x = exampleRef \<and> sr_revokedAt x \<noteq> None \<and> sr_secret x = [])"
  by (rule service_revoke_succeeds[OF vault_at_rest vault_found vault_fits_revoked])

lemma vault_revokes: "\<exists>m t. run_state (revokeService exampleServices exampleRef) exampleVault = (Inr m, t)"
  using wp_exists[OF revoke_lives[OF vault_at_rest vault_found vault_fits_revoked]] by blast

theorem service_revocation_final_witness:
  "\<exists>m t. run_state (revokeService exampleServices exampleRef) exampleVault = (Inr m, t) \<and>
     (\<exists>r\<in>set (recordsOf (snd (run_state (svcSteps exampleServices [exampleAccess ''renew'']) t))). sr_id r = exampleRef \<and> sr_revokedAt r \<noteq> None \<and> sr_secret r = []) \<and>
     (\<exists>e. fst (run_state (resolveService exampleServices exampleRef ''host-1'') (snd (run_state (svcSteps exampleServices [exampleAccess ''renew'']) t))) = Inl e)"
proof -
  have relies: "relies (follows retired exampleRef) exampleServices"
    by (intro vault_relies follows_refl) (simp add: retired_def)
  have calls: "\<forall>call\<in>set [exampleAccess ''renew'']. \<forall>c. mayChange exampleServices call c \<longrightarrow> spares exampleRef c"
    by (auto simp: exampleAccess_def spares_def)
  obtain m t where run: "run_state (revokeService exampleServices exampleRef) exampleVault = (Inr m, t)" using vault_revokes by blast
  show ?thesis
    using run service_revocation_final[OF relies run calls] by blast
qed

text \<open>What an orderly store gives to a reader.\<close>

lemma resolve_at:
  assumes "vaultCalm E (sw_tick s)" and "readableStore E (sw_disk s)" and "sd_dir (sw_disk s) \<noteq> None" and "sd_store (sw_disk s) \<noteq> None"
    and "distinct (map sr_id (recordsOf s))" and "validID i" and "splitID i (recordsOf s) = Some (a, r, b)"
    and "\<And>k. k \<ge> sw_tick s \<Longrightarrow> recordStatus (v_now E k) r = ''ready''"
  shows "wp (resolveService E i (sr_hostID r)) (\<lambda>y _. y = Inr r) s"
  unfolding resolveService_def if_not_P[OF not_not[THEN iffD2, OF assms(6)]] wp_tryE
  by (rule wp_mono[OF load_reads[OF assms(1-5)]]) (use assms(7,8) in \<open>auto simp: Let_def\<close>)

lemma resolve_reads:
  assumes "vaultCalm E (sw_tick s)" and "orderly E (sw_disk s)" and "validID i" and "splitID i (recordsOf s) = Some (a, r, b)"
    and "\<forall>k\<ge>sw_tick s. recordStatus (v_now E k) r = ''ready''"
  shows "wp (resolveService E i (sr_hostID r)) (\<lambda>y _. y = Inr r) s"
  by (rule resolve_at[OF assms(1) _ _ _ _ assms(3,4)]) (use assms(2,5) in \<open>simp_all add: orderly_def\<close>)

definition exampleExec :: incusRequest where
  "exampleExec = exampleGuestRequest\<lparr>n_operation := ''exec'', n_instance := ''web'', n_uuid := ''uuid-1''\<rparr>"

lemma vault_secret: "fst (run_state (guestSecret exampleServices exampleRef exampleExec) exampleVault) = Inr ''s3cret''"
proof -
  have ready: "\<forall>k\<ge>sw_tick exampleVault. recordStatus (v_now exampleServices k) exampleCredential = ''ready''"
    by (simp add: recordStatus_def exampleCredential_def)
  have host: "v_instanceID exampleServices = sr_hostID exampleCredential" by (simp add: exampleServices_def exampleCredential_def)
  have "wp (guestSecret exampleServices exampleRef exampleExec) (\<lambda>y _. y = Inr ''s3cret'') exampleVault"
    unfolding guestSecret_def wp_if host wp_tryE
    by (rule if_rule, simp add: exampleRef_def, rule if_rule, simp add: exampleExec_def,
      rule wp_mono[OF resolve_reads[OF vault_at_rest vault_found(1,2) ready]])
      (simp add: exampleCredential_def exampleExec_def exampleGuestRequest_def)
  then show ?thesis by (simp add: wp_run)
qed

theorem credential_stays_with_its_guest_witness:
  "n_operation exampleExec = ''exec'' \<and> sr_hostID exampleCredential = v_instanceID exampleServices \<and> sr_guest exampleCredential \<noteq> [] \<and>
   sr_guest exampleCredential = n_instance exampleExec \<and> sr_project exampleCredential = n_project exampleExec \<and>
   sr_guestUUID exampleCredential = n_uuid exampleExec"
proof (rule credential_stays_with_its_guest[where E = exampleServices and calls = "[]" and s = exampleVault and ref = exampleRef and secret = "''s3cret''"])
  show "relies (follows boundAlike exampleRef) exampleServices"
    by (intro vault_relies follows_refl) (simp add: boundAlike_def)
  show "sr_id exampleCredential = exampleRef" by (simp add: exampleCredential_def)
qed (simp_all add: vault_secret)

end
