(* ===== verification/ServiceSecrets.thy ===== *)
theory ServiceSecrets
  imports ServiceProps
begin

text \<open>
  Enrolment and the document: an enrolled secret is what a later resolution returns, the store stays readable for valid
  UTF-8, and what happens when it is not.
\<close>

section \<open>Expiry\<close>

text \<open>An expiry in days is that many days of 86400 seconds after now, thirty by default and never more than a hundred years:
  the product of durations does not wrap around in 64 bits.\<close>

theorem expiration_exact:
  "expiration now ttl never = (if ttl < 0 \<or> (ttl > 0 \<and> never) then Inl (newErr ''specify positive ttl_days or never, not both'')
     else if never then Inr None
     else if ttl > 36500 then Inl (newErr ''ttl exceeds 100 years'')
     else Inr (Some (now + (if ttl = 0 then 30 else ttl) * 86400 * 10 ^ 9)))"
proof -
  have "i64 (i64 (d * 24) * 3600000000000) = d * 86400 * 10 ^ 9" if "0 \<le> d" "d \<le> 36500" for d
    using that by (simp add: i64_id)
  then show ?thesis by (auto simp: expiration_def Let_def)
qed

section \<open>Readability\<close>

text \<open>C38. Type: as long as the texts that reach the store are valid UTF-8, no sequence of calls makes it unreadable: the directory is
  private, the file protected and within its limit, of version 1, and every record in it valid when read back.\<close>

theorem service_store_readable:
  assumes "relies (keepsReadable E) E" and "goodRandom E" and "\<forall>call\<in>set calls. \<forall>c. mayChange E call c \<longrightarrow> utf8Change c"
    and "readableStore E (sw_disk s)"
  shows "readableStore E (sw_disk (snd (run_state (svcSteps E calls) s)))"
proof -
  have "keepsReadable E (sw_disk s) (sw_disk (snd (run_state (svcSteps E calls) s)))"
    by (rule rd.ev.run_frame[OF rd.on_steps[OF assms(1)]]) (use assms(3) in blast)
  then show ?thesis using assms(2,4) by (simp add: keepsReadable_def)
qed

lemma vault_readable: "readableStore exampleServices exampleDisk" "relies (keepsReadable exampleServices) exampleServices" "goodRandom exampleServices"
proof -
  show "readableStore exampleServices exampleDisk" using vault_settled(1) by (simp add: orderly_def)
  show "relies (keepsReadable exampleServices) exampleServices" by (intro vault_relies) (simp add: keepsReadable_def)
  show "goodRandom exampleServices" by (simp add: goodRandom_def exampleServices_def)
qed

theorem service_store_readable_witness:
  "readableStore exampleServices (sw_disk (snd (run_state (svcSteps exampleServices [exampleAccess ''update'', exampleAccess ''revoke'']) exampleVault)))"
proof (rule service_store_readable[OF vault_readable(2,3)])
  show "\<forall>call\<in>set [exampleAccess ''update'', exampleAccess ''revoke'']. \<forall>c. mayChange exampleServices call c \<longrightarrow> utf8Change c"
    by (auto simp: exampleAccess_def utf8Registration_def utf8_valid_ascii ascii_def exampleServices_def)
qed (simp add: vault_readable)

section \<open>Enrolment\<close>

text \<open>What a successful enrolment leaves.\<close>

definition enrolledAs :: "svcEnv \<Rightarrow> string \<Rightarrow> string \<Rightarrow> string \<Rightarrow> svcDisk \<Rightarrow> metadata \<Rightarrow> svcDisk \<Rightarrow> bool" where
  "enrolledAs E i kind secret d m e = (\<exists>a r b x now. soundStore E d \<and> contents d = a @ r # b \<and> sr_id r = i \<and> sr_id x = i \<and> rewritten E d (a @ x # b) e \<and>
     m = metaOf x now \<and> sr_kind x = kind \<and> sr_secret x = secret \<and> sr_revokedAt x = None \<and> sr_hostID x = sr_hostID r)"

lemma validateSecret_None: "validateSecret kind secret = None \<Longrightarrow> validKind kind \<and> secret \<noteq> [] \<and> utf8_valid secret"
  by (simp add: validateSecret_def split: if_splits)

lemma validKind_ascii: "validKind k \<Longrightarrow> ascii k"
  by (cases k) (auto simp: validKind_def ascii_def char_class_defs list_all_iff)

lemma replaces_done:
  assumes "updated E (replaces i f) d (Inr m) e"
  shows "\<exists>a r b x now. soundStore E d \<and> contents d = a @ r # b \<and> sr_id r = i \<and> f r x \<and> sr_id x = i \<and> m = metaOf x now \<and> rewritten E d (a @ x # b) e"
proof -
  obtain saving where saving: "soundStore E d" "replaces i f (contents d) m saving" "afterwards E d saving e"
    using assms unfolding updated_def by blast
  obtain a r b x now where x: "contents d = a @ r # b" "sr_id r = i" "f r x" "sr_id x = i" "m = metaOf x now" "saving = Some (a @ x # b)"
    using saving(2) unfolding replaces_def by blast
  have "rewritten E d (a @ x # b) e" using saving(3) x(6) by (simp add: afterwards_def)
  with saving(1) x show ?thesis by blast
qed

context evolution
begin

lemma enroll_leaves:
  assumes "relies R E"
  shows "wp (enrollService E i kind username secret ttl never) (\<lambda>y t. \<forall>m. y = Inr m \<longrightarrow> (\<exists>d. R (sw_disk s) d \<and> enrolledAs E i kind secret d m (sw_disk t))) s"
proof -
  let ?f = "\<lambda>r x. sr_kind x = kind \<and> sr_secret x = secret \<and> sr_revokedAt x = None \<and> sr_hostID x = sr_hostID r"
  have asked: "yields E (\<lambda>rs. case splitID i rs of
        None \<Rightarrow> fail (newErr ''service_reference_not_found'')
      | Some (a, r, b) \<Rightarrow> tryE (return (enrollRecord kind username secret expires r)) fail (\<lambda>r. State_Monad.bind (vnow E) (\<lambda>updated. State_Monad.bind (vnow E) (\<lambda>now.
          let r = r\<lparr>sr_updatedAt := updated\<rparr> in ok (metaOf r now, Some (a @ r # b)))))) (replaces i ?f)" for expires
    by (rule update_yields) (auto simp: ps.step_refl enrollRecord_def split: if_splits)
  let ?Q = "\<lambda>y t. \<forall>m. y = Inr m \<longrightarrow> (\<exists>d. R (sw_disk s) d \<and> enrolledAs E i kind secret d m (sw_disk t))"
  have act: "wp (updateService E i (\<lambda>r. return (enrollRecord kind username secret expires r))) ?Q t" if t: "across R s t" for expires t
  proof (cases "validID i")
    case True
    show ?thesis
      unfolding updateService_def if_not_P[OF not_not[THEN iffD2, OF True]]
    proof (rule wp_mono[OF lock_updates[OF assms asked]], intro allI impI)
      fix y u m
      assume "\<exists>d. R (sw_disk t) d \<and> updated E (replaces i ?f) d y (sw_disk u)" and "y = Inr m"
      then obtain d where d: "R (sw_disk t) d" "updated E (replaces i ?f) d (Inr m) (sw_disk u)" by blast
      have "enrolledAs E i kind secret d m (sw_disk u)"
        using replaces_done[OF d(2)] unfolding enrolledAs_def by blast
      with chain[OF t d(1)] show "\<exists>d. R (sw_disk s) d \<and> enrolledAs E i kind secret d m (sw_disk u)" by blast
    qed
  qed (simp add: updateService_def)
  have tick: "across R s (vadvance E s)" by (rule advance_evolve[OF assms])
  show ?thesis
    using act[OF tick] by (auto simp: enrollService_def split: option.split sum.split)
qed

end

lemma splitID_distinct: "distinct (map sr_id (a @ x # b)) \<Longrightarrow> splitID (sr_id x) (a @ x # b) = Some (a, x, b)"
  by (induction a) auto

lemma enrolled_distinct:
  assumes "enrolledAs E i kind secret d m e"
  shows "distinct (map sr_id (contents e)) \<and> sd_dir e \<noteq> None \<and> sd_store e \<noteq> None \<and> validID i"
proof -
  obtain a r b x where x: "soundStore E d" "contents d = a @ r # b" "sr_id r = i" "sr_id x = i" "rewritten E d (a @ x # b) e"
    using assms unfolding enrolledAs_def by blast
  have cleaned: "cleanText (sr_id y) = sr_id y" if "y \<in> set (a @ r # b)" for y
    using sound_entries[OF x(1)] clean_texts(1) that x(2) by simp
  have "cleanText i = i" using cleaned[of r] x(3) by simp
  with cleaned have "map sr_id (contents e) = map sr_id (contents d)"
    using rewritten_contents[OF x(5)] x(2,3,4) by simp
  moreover have "distinct (map sr_id (contents d))" using x(1) validRecords_ids by (auto simp: soundStore_def)
  moreover have "validID i" using sound_entries[OF x(1), of r] x(2,3) by (simp add: validEntry_def)
  ultimately show ?thesis using x(5) by (auto simp: rewritten_def)
qed

text \<open>C39. Round trip: after an enrolment that reported success on a readable store, resolving the reference for its host gives back the record
  with exactly that secret and kind, until the reported expiry, through encoding, replacement and decoding of the document.\<close>

theorem enrolled_credential_resolves:
  assumes "run_state (enrollService E i kind username secret ttl never) s = (Inr m, t)"
    and "relies (keepsReadable E) E" and "goodRandom E" and "readableStore E (sw_disk s)" and "utf8_valid username" and "vaultCalm E (sw_tick t)"
    and "\<forall>k\<ge>sw_tick t. pred_option (\<lambda>x. v_now E k < x) (md_expiresAt m)"
  shows "\<exists>r. fst (run_state (resolveService E i (md_hostID m)) t) = Inr r \<and> sr_secret r = secret \<and> sr_kind r = kind"
proof -
  obtain d where d: "enrolledAs E i kind secret d m (sw_disk t)"
    using wp_runD[OF rd.enroll_leaves[OF assms(2)] assms(1)] by blast
  have "keepsReadable E (sw_disk s) (sw_disk t)"
    using rd.ev.run_frame[OF rd.on_enroll[OF assms(2), of i kind username secret ttl never], of s] assms(1,5) by simp
  then have readableStore: "readableStore E (sw_disk t)" using assms(3,4) by (simp add: keepsReadable_def)
  note there = enrolled_distinct[OF d]
  obtain a r b x now where x: "soundStore E d" "contents d = a @ r # b" "sr_id r = i" "sr_id x = i" "rewritten E d (a @ x # b) (sw_disk t)"
      "m = metaOf x now" "sr_kind x = kind" "sr_secret x = secret" "sr_revokedAt x = None" "sr_hostID x = sr_hostID r"
    using d unfolding enrolledAs_def by blast
  have valid: "validKind kind" "secret \<noteq> []" "utf8_valid secret"
  proof -
    have "validateSecret kind secret = None"
      using assms(1) by (auto simp: enrollService_def split: option.splits)
    then show "validKind kind" "secret \<noteq> []" "utf8_valid secret" using validateSecret_None by blast+
  qed
  have clean: "cleanRecord r" using sound_entries[OF x(1), of r] x(2) by simp
  let ?x = "decodedRecord x"
  have id: "sr_id ?x = i" "sr_hostID ?x = md_hostID m" using clean_texts(1,2)[OF clean] x(3,4,6,10) by (simp_all add: metaOf_def)
  have secret: "sr_secret ?x = secret" using x(8) valid(3) by (simp add: cleanText_id)
  have kind: "sr_kind ?x = kind" using x(7) validKind_ascii[OF valid(1)] by (simp add: cleanText_id utf8_valid_ascii)
  have ready: "recordStatus (v_now E k) ?x = ''ready''" if "k \<ge> sw_tick t" for k
    using assms(7) that x(6,9) valid(2) x(8) by (auto simp: status_ready metaOf_def split: option.split)
  have found: "splitID i (recordsOf t) = Some (map decodedRecord a, ?x, map decodedRecord b)"
    using splitID_distinct[of "map decodedRecord a" ?x "map decodedRecord b"] there rewritten_contents[OF x(5)] id(1) by simp
  have "wp (resolveService E i (sr_hostID ?x)) (\<lambda>y _. y = Inr ?x) t"
    by (rule resolve_at[OF assms(6) readableStore _ _ _ _ found ready]) (use there in blast)+
  then have "fst (run_state (resolveService E i (md_hostID m)) t) = Inr ?x" unfolding id(2) by (simp add: wp_run)
  with secret kind show ?thesis by blast
qed

lemma enroll_lives:
  assumes "vaultCalm E (sw_tick s)" and "orderly E (sw_disk s)" and "validID i" and "splitID i (recordsOf s) = Some (a, r, b)"
    and "sr_revokedAt r = None" and "validateSecret kind secret = None" and "never"
    and "\<forall>k. fits (a @ r\<lparr>sr_kind := kind, sr_secret := secret, sr_expiresAt := None, sr_lastUsedAt := None, sr_updatedAt := v_now E k\<rparr> # b)"
  shows "wp (enrollService E i kind [] secret 0 never) (\<lambda>y t. \<exists>m. y = Inr m \<and> md_expiresAt m = None \<and> md_hostID m = sr_hostID r) s"
proof -
  have update: "wp (updateService E i (\<lambda>r. return (enrollRecord kind [] secret None r))) (\<lambda>y t. \<exists>m rs. y = Inr m \<and> (md_expiresAt m = None \<and> md_hostID m = sr_hostID r) \<and>
      recordsOf t = map decodedRecord rs \<and> vaultCalm E (sw_tick t) \<and> sw_tick u \<le> sw_tick t) u" if u: "vaultCalm E (sw_tick u)" "sw_disk u = sw_disk s" for u
    unfolding updateService_def if_not_P[OF not_not[THEN iffD2, OF assms(3)]]
  proof (rule lock_succeeds[OF u(1)])
    show "orderly E (sw_disk u)" using assms(2) u(2) by simp
    fix t :: svcWorld
    assume "vaultCalm E (sw_tick t)" and "sw_tick u \<le> sw_tick t"
    then show "wp (case splitID i (recordsOf u) of
        None \<Rightarrow> fail (newErr ''service_reference_not_found'')
      | Some (a, r, b) \<Rightarrow> tryE (return (enrollRecord kind [] secret None r)) fail (\<lambda>r. State_Monad.bind (vnow E) (\<lambda>updated. State_Monad.bind (vnow E) (\<lambda>now.
          let r = r\<lparr>sr_updatedAt := updated\<rparr> in ok (metaOf r now, Some (a @ r # b))))))
      (\<lambda>y v. \<exists>m rs. y = Inr (m, Some rs) \<and> (md_expiresAt m = None \<and> md_hostID m = sr_hostID r) \<and> fits rs \<and> vaultCalm E (sw_tick v) \<and>
        sw_tick t \<le> sw_tick v \<and> sw_disk v = sw_disk t) t"
      unfolding u(2) assms(4) option.case prod.case
      using assms(5,8) by (simp add: enrollRecord_def calm_steps metaOf_def Let_def)
  qed
  have empty: "\<not> (length ([]::string) > 256 \<or> hasControl [])" by (simp add: hasControl_def)
  have expires: "expiration now 0 never = Inr None" for now using assms(7) by (simp add: expiration_def)
  show ?thesis
    unfolding enrollService_def assms(6) option.case if_not_P[OF empty] wp_bind[of "vnow _"] wp_vnow expires sum.case
    by (rule wp_mono[OF update]) (use assms(1) in \<open>auto simp: calm_steps\<close>)
qed

lemma vault_secret_valid: "validateSecret ''password'' ''fresh'' = None"
  by (simp add: validateSecret_def validKind_def char_class_defs utf8_valid_ascii ascii_def)

theorem enrolled_credential_resolves_witness:
  "\<exists>m t r. run_state (enrollService exampleServices exampleRef ''password'' [] ''fresh'' 0 True) exampleVault = (Inr m, t) \<and>
     fst (run_state (resolveService exampleServices exampleRef (md_hostID m)) t) = Inr r \<and> sr_secret r = ''fresh''"
proof -
  have "\<forall>k. fits ([] @ exampleCredential\<lparr>sr_kind := ''password'', sr_secret := ''fresh'', sr_expiresAt := None, sr_lastUsedAt := None,
      sr_updatedAt := v_now exampleServices k\<rparr> # [])"
    by (intro allI, simp, rule vault_fits) (simp_all add: exampleCredential_def exampleServices_def plainChar_def)
  from wp_exists[OF enroll_lives[OF vault_at_rest vault_found vault_secret_valid TrueI this]]
  obtain m t where m: "run_state (enrollService exampleServices exampleRef ''password'' [] ''fresh'' 0 True) exampleVault = (Inr m, t)"
      "md_expiresAt m = None" by blast
  have "\<exists>r. fst (run_state (resolveService exampleServices exampleRef (md_hostID m)) t) = Inr r \<and> sr_secret r = ''fresh'' \<and> sr_kind r = ''password''"
    by (rule enrolled_credential_resolves[OF m(1) vault_readable(2,3)]) (simp_all add: vault_readable m(2) utf8_valid_ascii ascii_def)
  with m(1) show ?thesis by blast
qed

section \<open>Texts that are not UTF-8\<close>

text \<open>A text of bytes that are not UTF-8 grows when it is written: each byte becomes a character of three.\<close>

lemma runes_bad: "runes (replicate n (CHR 0xFF)) = replicate n (rune_error, [CHR 0xFF])"
proof (induction n)
  case (Suc n)
  have "decode_rune (CHR 0xFF # s) = (rune_error, 1)" for s by (simp add: decode_rune_def)
  then show ?case using Suc by (simp add: runes.simps[of "CHR 0xFF # _"])
qed simp

lemma clean_bad: "length (cleanText (replicate n (CHR 0xFF))) = 3 * n"
  by (simp add: cleanText_def runes_bad rune_error_def length_concat sum_list_replicate)

lemma json_bad: "length (jsonString (replicate n (CHR 0xFF))) = 6 * n + 2"
  by (simp add: jsonString_def runes_bad rune_error_def jsonEscape_def length_concat sum_list_replicate Let_def)

lemma wp_whatever: "(\<And>y t. Q y t) \<Longrightarrow> wp m Q s"
  by (simp add: wp_run)

context evolution
begin

lemma add_leaves:
  assumes "relies R E"
  shows "wp (registerWithSecret E g kind secret ttl never) (\<lambda>y t. \<forall>m. y = Inr m \<longrightarrow> (\<exists>r\<in>set (recordsOf t). sr_purpose r = cleanText (rg_purpose g))) s"
proof -
  let ?Q = "\<lambda>y t. \<forall>m. y = Inr m \<longrightarrow> (\<exists>r\<in>set (recordsOf t). sr_purpose r = cleanText (rg_purpose g))"
  have lock: "wp (withStoreLock E (\<lambda>rs. return (addRecord g r rs))) ?Q t" if "sr_purpose r = rg_purpose g" for r t
  proof (rule wp_mono[OF lock_updates[OF assms yields_return[where U = "\<lambda>rs x new. new = Some (rs @ [r])"]]], goal_cases)
    case (2 y u)
    show ?case
    proof (intro allI impI)
      fix m
      assume "y = Inr m"
      then obtain d where d: "updated E (\<lambda>rs x new. new = Some (rs @ [r])) d (Inr m) (sw_disk u)" using 2 by blast
      then have "rewritten E d (contents d @ [r]) (sw_disk u)" by (auto simp: updated_def afterwards_def)
      from rewritten_contents[OF this] show "\<exists>r\<in>set (recordsOf u). sr_purpose r = cleanText (rg_purpose g)" using that by simp
    qed
  qed (auto simp: addRecord_def split: if_splits)
  have final: "wp (State_Monad.bind (vnow E) (\<lambda>now. let r = newServiceRecord g (''svc_'' @ hexEncode b) kind secret e now in
      tryE (withStoreLock E (\<lambda>rs. return (addRecord g r rs))) fail (\<lambda>_. ok (metaOf r now)))) ?Q t" for b e t
    unfolding wp_bind[of "vnow _"] wp_vnow Let_def wp_tryE
    by (rule wp_mono[OF lock]) (auto simp: newServiceRecord_def split: sum.split)
  have drawn: "wp (tryE (vrandom E 16) fail (\<lambda>b. State_Monad.bind (vnow E) (\<lambda>now. let r = newServiceRecord g (''svc_'' @ hexEncode b) kind secret e now in
      tryE (withStoreLock E (\<lambda>rs. return (addRecord g r rs))) fail (\<lambda>_. ok (metaOf r now))))) ?Q t" for e t
    unfolding wp_tryE[of "vrandom _ _"]
  proof (rule wp_whatever)
    show "(case y of Inl e \<Rightarrow> wp (fail e) ?Q | Inr b \<Rightarrow> wp (State_Monad.bind (vnow E) (\<lambda>now. let r = newServiceRecord g (''svc_'' @ hexEncode b) kind secret e now in
        tryE (withStoreLock E (\<lambda>rs. return (addRecord g r rs))) fail (\<lambda>_. ok (metaOf r now)))) ?Q) u" for y u
      using final by (cases y) (simp_all del: wp_bind)
  qed
  have register: "wp (registerService E g kind secret ttl never) ?Q s"
  proof (cases "validateRegistration E g")
    case None
    show ?thesis
      unfolding registerService_def None option.case wp_tryE[of "secretExpiry _ _ _ _"]
    proof (rule wp_whatever, goal_cases)
      case (1 y u)
      show ?case using drawn by (cases y) (simp_all del: wp_tryE)
    qed
  qed (simp add: registerService_def)
  then show ?thesis by (simp add: registerWithSecret_def split: option.split)
qed

end

text \<open>C40. Error: a registration is checked as it is given, but the store is checked as it is read back. A purpose within its limit whose
  bytes are not UTF-8 is accepted and saved, and then no operation can load the store again.\<close>

theorem invalid_text_locks_store:
  assumes "run_state (registerWithSecret E g kind secret ttl never) s = (Inr m, t)" and "length (cleanText (rg_purpose g)) > 500"
    and "vaultCalm E (sw_tick t)"
  shows "\<exists>e. fst (run_state (loadStore E) t) = Inl e"
proof -
  obtain r where r: "r \<in> set (recordsOf t)" "length (sr_purpose r) > 500"
    using wp_runD[OF any.add_leaves[OF relies_any] assms(1)] assms(2) by fastforce
  have vaultCalm: "passes E t u \<Longrightarrow> sw_disk u = sw_disk t" for u
    using vaultCalm_passes[OF assms(3)] by simp
  have "wp (loadStore E) (\<lambda>y u. \<exists>e. y = Inl e) t"
  proof (rule wp_mono[OF loadStore_looks])
    fix y and v :: svcWorld
    assume y: "passes E t v \<and> (\<forall>rs. y = Inr rs \<longrightarrow> validRecords E {} rs \<and> list_all cleanRecord rs \<and> (\<exists>u. passes E t u \<and> passes E u v \<and> rs = recordsOf u))"
    show "\<exists>e. y = Inl e"
    proof (cases y)
      case (Inr rs)
      then have "validRecords E {} (recordsOf t)" using y vaultCalm by fastforce
      from validRecords_each[OF this r(1)] show ?thesis using r(2) by (simp add: validateRegistration_None registrationOf_def)
    qed simp
  qed
  then show ?thesis by (simp add: wp_run)
qed

lemma add_lives:
  assumes "vaultCalm E (sw_tick s)" and "orderly E (sw_disk s)" and "validateSecret kind secret = None" and "validateRegistration E g = None"
    and "\<not> list_ex (sameDestination g) (recordsOf s)"
    and "\<forall>j k. fits (recordsOf s @ [newServiceRecord g (''svc_'' @ hexEncode (v_random E j 16)) kind secret None (v_now E k)])"
  shows "wp (registerWithSecret E g kind secret 0 True) (\<lambda>y t. \<exists>m. y = Inr m) s"
proof -
  have lock: "wp (withStoreLock E (\<lambda>rs. return (addRecord g (newServiceRecord g (''svc_'' @ hexEncode (v_random E j 16)) kind secret None (v_now E k)) rs)))
      (\<lambda>y t. \<exists>x rs. y = Inr x \<and> True \<and> recordsOf t = map decodedRecord rs \<and> vaultCalm E (sw_tick t) \<and> sw_tick u \<le> sw_tick t) u"
    if u: "vaultCalm E (sw_tick u)" "sw_disk u = sw_disk s" for u j k
    by (rule lock_succeeds[OF u(1)]) (use assms(2,5,6) u(2) in \<open>simp_all add: addRecord_def\<close>)
  have expires: "expiration now 0 True = Inr None" for now by (simp add: expiration_def)
  have secret: "secret \<noteq> []" using validateSecret_None[OF assms(3)] by blast
  have fault: "v_fault E (sw_tick u) = None" if "vaultCalm E (sw_tick u)" for u :: svcWorld using that by (simp add: vaultCalm_def)
  show ?thesis
    using assms(1) secret
    by (simp add: registerWithSecret_def registerService_def secretExpiry_def assms(3,4) expires vrandom_def calm_steps Let_def)
      (rule wp_mono[OF lock[simplified]], auto simp: calm_steps)
qed

definition exampleBadPurpose :: registration where
  "exampleBadPurpose = \<lparr>rg_hostID = ''host-1'', rg_project = [], rg_guest = [], rg_guestUUID = [], rg_service = ''db'',
     rg_purpose = replicate 200 (CHR 0xFF), rg_endpoint = [], rg_username = []\<rparr>"

lemma bad_purpose_valid: "validateRegistration exampleServices exampleBadPurpose = None"
proof -
  have "trimSpace ''host-1'' \<noteq> []" "trimSpace ''db'' \<noteq> []" by (simp_all add: trimSpace_ascii ascii_def rune_space_def)
  then show ?thesis
    by (simp add: validateRegistration_None exampleBadPurpose_def hasControl_def runes_ascii ascii_def runes_bad rune_error_def list_ex_iff)
qed

lemma bad_purpose_fits:
  "fits [exampleCredential, newServiceRecord exampleBadPurpose (''svc_'' @ hexEncode (v_random exampleServices j 16)) ''password'' ''fresh'' None (v_now exampleServices k)]"
proof -
  let ?r = "newServiceRecord exampleBadPurpose (''svc_'' @ hexEncode (v_random exampleServices j 16)) ''password'' ''fresh'' None (v_now exampleServices k)"
  have id: "hexEncode (v_random exampleServices j 16) = ''11111111111111111111111111111111''" 
  proof -
    have "concat (replicate 16 ''11'') = ''11111111111111111111111111111111''" by code_simp
    then show ?thesis by (simp add: exampleServices_def hexEncode_def hexDigit_def)
  qed
  have one: "length (svcRecordJSON ?r) \<le> 1800"
    unfolding id
    by (simp add: newServiceRecord_def exampleBadPurpose_def exampleServices_def svcRecordJSON_def jsonTime_def jsonOptTime_def jsonField_def
        jsonOmitEmpty_def jsonString_plain plainChar_def vault_time json_bad)
  have two: "length (svcRecordJSON exampleCredential) \<le> 900"
    by (simp add: vault_json exampleCredential_def exampleRef_def)
  have "recordTimes ?r" "recordTimes exampleCredential"
    by (simp_all add: recordTimes_def jsonYear_def newServiceRecord_def exampleServices_def exampleCredential_def)
  then show ?thesis
    using one two
    by (simp add: fits_def storeJSON_def jsonField_def jsonString_plain plainChar_def maxStoreBytes_def itoa_def itoa_nat.simps)
qed

theorem invalid_text_locks_store_witness:
  "\<exists>m t e. run_state (registerWithSecret exampleServices exampleBadPurpose ''password'' ''fresh'' 0 True) exampleVault = (Inr m, t) \<and>
     fst (run_state (loadStore exampleServices) t) = Inl e"
proof -
  have "\<not> list_ex (sameDestination exampleBadPurpose) (recordsOf exampleVault)"
    by (simp add: sameDestination_def exampleBadPurpose_def exampleCredential_def)
  moreover have "\<forall>j k. fits (recordsOf exampleVault @ [newServiceRecord exampleBadPurpose (''svc_'' @ hexEncode (v_random exampleServices j 16)) ''password'' ''fresh'' None (v_now exampleServices k)])"
    using bad_purpose_fits by simp
  ultimately obtain m t where run: "run_state (registerWithSecret exampleServices exampleBadPurpose ''password'' ''fresh'' 0 True) exampleVault = (Inr m, t)"
    using wp_exists[OF add_lives[OF vault_at_rest vault_secret_valid bad_purpose_valid]] by blast
  have "length (cleanText (rg_purpose exampleBadPurpose)) > 500" by (simp add: exampleBadPurpose_def clean_bad)
  from invalid_text_locks_store[OF run this vault_calm] run show ?thesis by blast
qed

end
