(* ===== verification/Spec2Isabelle.thy ===== *)
theory Spec2Isabelle
  imports JobStopProps IncusJournal FileProps TransferProps ServiceSecrets
begin

text \<open>
  Verification of the executor of AI Server Agent (\<open>internal/executor\<close>, \<open>internal/policy\<close>,
  \<open>internal/audit\<close>, \<open>internal/managedincus\<close>, \<open>internal/serviceaccess\<close>): the privileged process behind the MCP server that runs jobs,
  edits files and manages guests for an AI client. What matters there is that a lost connection, a crash, a
  failing system call or a hostile worker never makes it do a thing twice, undo a thing silently, or say that
  something happened which did not.

  How the code is modelled. A handler is a state monad (\<open>State_Monad\<close>) over the world of its component; an
  error is \<open>Inl\<close>, as Go's second result, and \<open>tryE m h k\<close> is \<open>if err != nil { h }; k\<close>. Every call that leaves
  the process is one tick: at each tick the environment decides whether the call fails (with any error, without
  effect), what other processes have done before it, what the clock and the random source say, and what
  systemd, Incus or the kernel answers. A crash at tick \<open>n\<close> is an environment in which every call from \<open>n\<close> on
  fails, so every theorem over all environments covers crashes. Decoders of third-party text (JSON of Incus and
  systemd) are parameters; the agent's own documents are written out with their exact sizes.
  A property about runs is a weakest-precondition statement (\<open>wp m Q s\<close> in State_Logic) behind
  \<open>run_state m s = (r, t)\<close>.

  Theories.
  \<^item> Prelude, State_Logic, Json: lists, strings, numerals and UTF-8; the state logic (\<open>wp\<close>, \<open>tryE\<close>, frames as
    locales); JSON text as Go's encoder writes it.
  \<^item> Output (\<open>executor/output.go\<close>): the bounded head-and-tail collector. Regex, Policy (\<open>policy/policy.go\<close>): the
    guard with its patterns as regular expressions. Protocol, AuditGate (\<open>executor/protocol.go\<close>,
    \<open>executor/audit.go\<close>): requests, responses, audit names. Paths (\<open>executor/repository.go\<close>,
    \<open>workspace_files.go\<close>): lexical paths and the workspace check. JobLog: the ring log and its paging.
  \<^item> JobWorld, JobClaims, JobStart, JobControl (\<open>executor/jobs.go\<close>, \<open>job_claims.go\<close>, \<open>job_capacity.go\<close>,
    \<open>executor.go\<close>): persistent jobs. The world holds the job files, the claim files and the units; the
    handlers are \<open>startJobBounded\<close>, \<open>jobStatus\<close> and \<open>jobStop\<close>. JobFrame, JobSafety: what each operation leaves
    alone, and the invariant that ties claims to dispatches; JobProps and JobStopProps: the properties (at most
    one dispatch per job, truthful stops, accepted starts, the invariant of the store). The wait for the status
    lock is a loop with 80 rounds: two seconds in steps of 25 ms, as in the code.
  \<^item> IncusWorld, IncusIntents, IncusNative, IncusRun (\<open>managedincus/incus.go\<close>, \<open>intent.go\<close>,
    \<open>operations.go\<close>): guests, the create journal, native operations, and \<open>Backend.Run\<close>. IncusFrame,
    IncusLifecycle, IncusNativeLife, IncusRefine: the abstract create and submission machines and the
    simulation; IncusProps, IncusJournal: the properties (no create repeated, no mutation without a binding,
    journals that load back).
  \<^item> FileWorld, FileTools (\<open>executor/files.go\<close>), WorkspaceFiles (\<open>workspace_files.go\<close>), WorkspaceEdits
    (\<open>workspace_edits.go\<close>): names in directories and inodes, the system calls, \<open>read_file\<close> and \<open>write_file\<close>,
    the worker's stat, read and write, and batches of exact edits. Creating a temporary file tries 8 names, as
    the code does. FileFrame, FileSafety: the write protocol \<open>writeRun\<close>, an inductive description of the orders
    in which a write may change a directory while others use it, and the proof that both writers follow it.
    FileContents, FileReads, EditBatch: what a write, a read and a batch do when nobody interferes. FileLive:
    a valid write or read succeeds. FileExamples, FileProps: concrete runs and the properties.
  \<^item> Staging, Transfers, TransferRequests (\<open>executor/workspace_transfer.go\<close>, \<open>workspace_transfer_prepare.go\<close>,
    \<open>workspace_transfer_gc.go\<close>): durable uploads. Staging holds identifiers, the manifest and the session's directory,
    Transfers the preparation, publication and reconciliation of a commit, TransferRequests the five requests and
    the sweep (\<open>workerWorkspaceTransfer\<close>, \<open>workerWorkspaceTransferGC\<close>). A file remembers in \<open>in_doc\<close> the
    document whose JSON text was written to it last, and loses it when other bytes are written, so that reading a
    manifest needs no decoder. SHA-256 and its resumable state are parameters; \<open>hashLaws\<close> states that the
    hash is incremental and that a saved state loads back, as \<open>hash.Hash\<close> and its \<open>BinaryMarshaler\<close> document. A preparation
    that finds its prepared file gone starts over and then steps again; \<open>fe_rounds\<close> bounds how often, and
    TransferEnds shows that the bound is reached only if something outside removed the file in every round:
    undisturbed, two are enough. TransferCalm, TransferChunks, TransferVerified, TransferPrepared, TransferCommit: what
    the calls and requests do when nobody interferes but any call may fail. The invariant of a session is \<open>settled\<close>: the
    checkpoint describes the bytes that are there and the digest is the declared one once \<open>committing\<close> is
    recorded. TransferLive: an interrupted commit is finished. TransferExamples, TransferProps: a concrete
    session and the properties.
  \<^item> ServiceStore, ServiceAccess (\<open>serviceaccess/store.go\<close>, \<open>executor/service_managed.go\<close>): the credentials of target
    services. ServiceStore holds the records, their validation and their JSON document, ServiceAccess the directory with
    its system calls, the replacement of the document under the file lock (\<open>withStoreLock\<close>), every operation of the store,
    and the handlers \<open>serviceAccessAction\<close> and \<open>managedEnvironmentAction\<close>. The world is the store's directory; a file
    keeps beside its text the records it was encoded from, and reading decodes each of their texts (\<open>decodedRecord\<close>), so
    that what is not UTF-8 comes back as replacement characters. While \<open>flock\<close> is held nobody else changes the directory, since every
    writer takes it; otherwise other processes may change it at every tick. URL parsing, Unicode lower case and the
    JSON of a backend result are parameters. ServiceText: what decoding does to text. ServiceFrame: a save leaves the old store or
    the new one; \<open>evolution\<close>, the interface of a relation that operations may be shown to keep. ServiceLife: the abstract store,
    with its changes \<open>storeChange\<close>; \<open>conduct\<close>, an evolution that allowed changes keep. ServiceCalls: every operation makes
    only the changes of its call (\<open>mayChange\<close>). ServiceRelations, ServiceReadable: the relations, each an interpretation of \<open>conduct\<close>
    (bound guest, revocation, origin, readability). ServiceLive: an operation that nothing gets in the way of succeeds. ServiceProps,
    ServiceSecrets: the properties.

  What is not modelled: the parts of the agent whose behaviour is mainly that of the program they drive
  (browser, debug adapters, language servers, terminals, sessions, git, ripgrep), read-only advice (SQL
  navigation, environment discovery), the MCP front end, configuration, and the installers. Of the modelled
  files: goroutines and mutexes (requests are serial where the code takes its locks), test hooks, the
  watchers that poll running native operations, and the executor side that starts the worker's helper process
  (\<open>workerWorkspaceFile\<close>, \<open>RunWorkspaceFileHelper\<close>).
\<close>

end
